(* ===== verification/Prelude.thy ===== *)
theory Prelude
  imports Complex_Main "HOL-Library.AList"
begin

text \<open>
  Shared ground of the development.  It holds the value universe of the JavaScript runtime that
  the type guards of the repository inspect (\<open>js\<close>), the small part of the JavaScript standard
  library that the modelled sources call (property access, \<open>Number.isSafeInteger\<close>,
  \<open>String.prototype.trim\<close>, \<open>Array.prototype.join\<close>, the insertion-ordered \<open>Map\<close>), the named
  theorem collections, and the locales that lift one-step facts to whole runs.

  Conventions used in every theory:
  \<^item> a string is a list of UTF-16 code units below 256 (\<open>string\<close>);
  \<^item> a number is a finite rational, one of the infinities or NaN (every finite double is a
    rational; all arithmetic in the modelled code stays in the range where doubles are exact);
  \<^item> a \<open>Map\<close> is an association list in insertion order: \<open>set\<close> is \<open>AList.update\<close> (in place or
    appended), \<open>delete\<close> is \<open>AList.delete\<close>, \<open>get\<close> is \<open>map_of\<close>;
  \<^item> a thrown error or an \<open>ok: false\<close> result is the left side of a sum.
\<close>

named_theorems guard_defs \<open>definitions of boolean type guards\<close>
named_theorems schema_defs \<open>definitions of TypeScript types as values\<close>
named_theorems frame_simps \<open>what an operation leaves unchanged\<close>

section \<open>JavaScript values\<close>

datatype jnum = JNaN | JPosInf | JNegInf | JFin rat

datatype js =
    JUndef
  | JNull
  | JBool bool
  | JNum jnum
  | JStr string
  | JArr "js list"
  | JObj "(string \<times> js) list"

abbreviation JInt :: "int \<Rightarrow> js" where
  "JInt i \<equiv> JNum (JFin (of_int i))"

text \<open>\<open>typeof\<close> tests, \<open>Array.isArray\<close> and the record test that every guard starts with.\<close>

fun isString :: "js \<Rightarrow> bool" where
  "isString (JStr _) = True"
| "isString _ = False"

fun isNumber :: "js \<Rightarrow> bool" where
  "isNumber (JNum _) = True"
| "isNumber _ = False"

fun isBoolean :: "js \<Rightarrow> bool" where
  "isBoolean (JBool _) = True"
| "isBoolean _ = False"

fun isArray :: "js \<Rightarrow> bool" where
  "isArray (JArr _) = True"
| "isArray _ = False"

fun isRecord :: "js \<Rightarrow> bool" where
  "isRecord (JObj _) = True"
| "isRecord _ = False"

text \<open>Property read \<open>value.key\<close> (absent keys read as undefined), \<open>key in value\<close>,
  \<open>Object.keys\<close>, \<open>Object.values\<close> and \<open>value.every(p)\<close>.\<close>

fun getProp :: "js \<Rightarrow> string \<Rightarrow> js" where
  "getProp (JObj fs) k = (case map_of fs k of None \<Rightarrow> JUndef | Some v \<Rightarrow> v)"
| "getProp _ k = JUndef"

fun hasKey :: "js \<Rightarrow> string \<Rightarrow> bool" where
  "hasKey (JObj fs) k = (k \<in> set (map fst fs))"
| "hasKey _ k = False"

fun objectKeys :: "js \<Rightarrow> string list" where
  "objectKeys (JObj fs) = map fst fs"
| "objectKeys _ = []"

fun objectValues :: "js \<Rightarrow> js list" where
  "objectValues (JObj fs) = map snd fs"
| "objectValues _ = []"

fun arrayEvery :: "(js \<Rightarrow> bool) \<Rightarrow> js \<Rightarrow> bool" where
  "arrayEvery p (JArr xs) = list_all p xs"
| "arrayEvery p _ = False"

fun arrayItems :: "js \<Rightarrow> js list" where
  "arrayItems (JArr xs) = xs"
| "arrayItems _ = []"

fun strOf :: "js \<Rightarrow> string" where
  "strOf (JStr s) = s"
| "strOf _ = []"

text \<open>\<open>Number.isFinite\<close>, \<open>Number.isInteger\<close>, \<open>Number.isSafeInteger\<close> and the order tests.\<close>

definition maxSafeInteger :: rat where
  "maxSafeInteger = 9007199254740991"

fun numFinite :: "jnum \<Rightarrow> bool" where
  "numFinite (JFin _) = True"
| "numFinite _ = False"

fun numInteger :: "jnum \<Rightarrow> bool" where
  "numInteger (JFin r) = (of_int \<lfloor>r\<rfloor> = r)"
| "numInteger _ = False"

fun numSafeInteger :: "jnum \<Rightarrow> bool" where
  "numSafeInteger (JFin r) = (of_int \<lfloor>r\<rfloor> = r \<and> \<bar>r\<bar> \<le> maxSafeInteger)"
| "numSafeInteger _ = False"

fun numGe :: "jnum \<Rightarrow> rat \<Rightarrow> bool" where
  "numGe (JFin r) b = (b \<le> r)"
| "numGe JPosInf b = True"
| "numGe _ b = False"

fun numLe :: "jnum \<Rightarrow> rat \<Rightarrow> bool" where
  "numLe (JFin r) b = (r \<le> b)"
| "numLe JNegInf b = True"
| "numLe _ b = False"

fun jsNumTest :: "(jnum \<Rightarrow> bool) \<Rightarrow> js \<Rightarrow> bool" where
  "jsNumTest p (JNum n) = p n"
| "jsNumTest p _ = False"

lemma isString_iff: "isString v \<longleftrightarrow> (\<exists>s. v = JStr s)"
  by (cases v) auto

lemma isNumber_iff: "isNumber v \<longleftrightarrow> (\<exists>n. v = JNum n)"
  by (cases v) auto

lemma isBoolean_iff: "isBoolean v \<longleftrightarrow> (\<exists>b. v = JBool b)"
  by (cases v) auto

lemma isArray_iff: "isArray v \<longleftrightarrow> (\<exists>xs. v = JArr xs)"
  by (cases v) auto

lemma isRecord_iff: "isRecord v \<longleftrightarrow> (\<exists>fs. v = JObj fs)"
  by (cases v) auto

lemma arrayEvery_isArray: "arrayEvery p v \<Longrightarrow> isArray v"
  by (cases v) auto

lemma arrayEvery_mono: "arrayEvery p v \<Longrightarrow> (\<And>x. p x \<Longrightarrow> q x) \<Longrightarrow> arrayEvery q v"
  by (cases v) (auto simp: list_all_iff)

lemma jsNumTest_isNumber: "jsNumTest p v \<Longrightarrow> isNumber v"
  by (cases v) auto

lemma numSafe_of_int [simp]: "numSafeInteger (JFin (of_int i)) \<longleftrightarrow> \<bar>i\<bar> \<le> 9007199254740991"
proof -
  have "(\<bar>of_int i :: rat\<bar> \<le> 9007199254740991) = (of_int \<bar>i\<bar> \<le> (of_int 9007199254740991 :: rat))"
    by simp
  also have "\<dots> = (\<bar>i\<bar> \<le> 9007199254740991)" by (simp only: of_int_le_iff)
  finally show ?thesis by (simp add: maxSafeInteger_def)
qed

section \<open>Strings\<close>

text \<open>White space of \<open>String.prototype.trim\<close> among code units below 256: tab, line feed,
  vertical tab, form feed, carriage return, space and no-break space.\<close>

definition isWhite :: "char \<Rightarrow> bool" where
  "isWhite c \<longleftrightarrow> of_char c \<in> {9, 10, 11, 12, 13, 32, 160 :: nat}"

definition trim :: "string \<Rightarrow> string" where
  "trim s = rev (dropWhile isWhite (rev (dropWhile isWhite s)))"

definition upperChar :: "char \<Rightarrow> char" where
  "upperChar c = (if 97 \<le> (of_char c :: nat) \<and> (of_char c :: nat) \<le> 122
                  then char_of ((of_char c :: nat) - 32) else c)"

text \<open>\<open>toUpperCase\<close> on ASCII text (HTTP method names).\<close>

definition toUpperCase :: "string \<Rightarrow> string" where
  "toUpperCase s = map upperChar s"

definition lowerChar :: "char \<Rightarrow> char" where
  "lowerChar c = (if 65 \<le> (of_char c :: nat) \<and> (of_char c :: nat) \<le> 90
                  then char_of ((of_char c :: nat) + 32) else c)"

text \<open>\<open>toLowerCase\<close> on ASCII text (command words).\<close>

definition toLowerCase :: "string \<Rightarrow> string" where
  "toLowerCase s = map lowerChar s"

text \<open>\<open>startsWith\<close> followed by \<open>slice(prefix.length)\<close>.\<close>

fun stripPrefix :: "string \<Rightarrow> string \<Rightarrow> string option" where
  "stripPrefix [] s = Some s"
| "stripPrefix (p # ps) [] = None"
| "stripPrefix (p # ps) (c # cs) = (if p = c then stripPrefix ps cs else None)"

lemma stripPrefix_Some_iff: "stripPrefix p s = Some r \<longleftrightarrow> s = p @ r"
  by (induction p s rule: stripPrefix.induct) auto

text \<open>\<open>Array.prototype.join\<close>.\<close>

fun join :: "string \<Rightarrow> string list \<Rightarrow> string" where
  "join sep [] = []"
| "join sep [x] = x"
| "join sep (x # y # ys) = x @ sep @ join sep (y # ys)"

definition newline :: string where
  "newline = [CHR 0x0A]"

text \<open>Decimal text of an integer, as a template literal prints it.\<close>

fun natDigits :: "nat \<Rightarrow> string" where
  "natDigits n = (if n < 10 then [char_of (48 + n)]
                  else natDigits (n div 10) @ [char_of (48 + n mod 10)])"

declare natDigits.simps [simp del]

definition intText :: "int \<Rightarrow> string" where
  "intText i = (if i < 0 then ''-'' @ natDigits (nat (- i)) else natDigits (nat i))"

lemma append_sep_eq:
  assumes "c \<notin> set a" and "c \<notin> set b" and "a @ c # xs = b @ c # ys"
  shows "a = b \<and> xs = ys"
  using assms
proof (induction a arbitrary: b)
  case Nil
  then show ?case by (cases b) auto
next
  case (Cons x a)
  then show ?case by (cases b) auto
qed

lemma join_sep_inj:
  assumes "\<forall>x\<in>set xs. c \<notin> set x" and "\<forall>y\<in>set ys. c \<notin> set y"
    and "length xs = length ys" and "join [c] xs = join [c] ys"
  shows "xs = ys"
  using assms(3,1,2,4)
proof (induction xs ys rule: list_induct2)
  case Nil
  then show ?case by simp
next
  case (Cons x xs y ys)
  show ?case
  proof (cases xs)
    case Nil
    with Cons show ?thesis by simp
  next
    case (Cons x' xs')
    then obtain y' ys' where ys: "ys = y' # ys'"
      using \<open>length xs = length ys\<close> by (cases ys) auto
    have "x @ c # join [c] xs = y @ c # join [c] ys"
      using Cons.prems(3) Cons ys by simp
    then have "x = y \<and> join [c] xs = join [c] ys"
      using Cons.prems(1,2) by (intro append_sep_eq) auto
    with Cons.IH Cons.prems(1,2) show ?thesis by auto
  qed
qed

lemma char_of_digit_inj:
  assumes "(a::nat) < 10" and "b < 10" and "(char_of (48 + a) :: char) = char_of (48 + b)"
  shows "a = b"
proof -
  from assms(3) have "(of_char (char_of (48 + a) :: char) :: nat) = of_char (char_of (48 + b) :: char)"
    by simp
  with assms(1,2) show ?thesis by simp
qed

lemma natDigits_nonempty [simp]: "natDigits n \<noteq> []"
  by (subst natDigits.simps) simp

lemma natDigits_inj: "natDigits m = natDigits n \<Longrightarrow> m = n"
proof (induction m arbitrary: n rule: natDigits.induct)
  case (1 m)
  have digit: "natDigits k = [char_of (48 + k)]" if "k < 10" for k
    using that by (subst natDigits.simps) simp
  have step: "natDigits k = natDigits (k div 10) @ [char_of (48 + k mod 10)]" if "\<not> k < 10" for k
    using that by (subst natDigits.simps) simp
  consider "m < 10" "n < 10" | "m < 10" "\<not> n < 10" | "\<not> m < 10" "n < 10" | "\<not> m < 10" "\<not> n < 10"
    by linarith
  then show ?case
  proof cases
    case 1
    with "1.prems" show ?thesis using digit char_of_digit_inj by simp
  next
    case 2
    with "1.prems" show ?thesis by (auto simp: digit step dest: sym)
  next
    case 3
    with "1.prems" show ?thesis by (auto simp: digit step)
  next
    case 4
    with "1.prems" have *: "natDigits (m div 10) = natDigits (n div 10)"
      and **: "(char_of (48 + m mod 10) :: char) = char_of (48 + n mod 10)"
      by (simp_all add: step)
    from "1.IH" 4 * have "m div 10 = n div 10" by blast
    moreover from ** have "m mod 10 = n mod 10" by (intro char_of_digit_inj) auto
    ultimately show ?thesis by (metis div_mult_mod_eq)
  qed
qed

lemma natDigits_digit: "c \<in> set (natDigits n) \<Longrightarrow> 48 \<le> (of_char c :: nat) \<and> (of_char c :: nat) \<le> 57"
proof (induction n rule: natDigits.induct)
  case (1 n)
  show ?case
  proof (cases "n < 10")
    case True
    with "1.prems" show ?thesis by (subst (asm) natDigits.simps) simp
  next
    case False
    with "1.prems" have "c \<in> set (natDigits (n div 10)) \<or> c = char_of (48 + n mod 10)"
      by (subst (asm) natDigits.simps) auto
    moreover have "48 + n mod 10 \<le> 57" by (simp add: less_Suc_eq_le [symmetric])
    ultimately show ?thesis using "1.IH" False by auto
  qed
qed

lemma intText_inj: "intText i = intText j \<Longrightarrow> i = j"
proof -
  assume eq: "intText i = intText j"
  have nominus: "natDigits n \<noteq> CHR ''-'' # xs" for n xs
    using natDigits_digit [of "CHR ''-''" n] by (cases "natDigits n") auto
  have inj: "nat a = nat b" if "natDigits (nat a) = natDigits (nat b)" for a b
    using that by (rule natDigits_inj)
  show "i = j"
  proof (cases "i < 0"; cases "j < 0")
    assume "i < 0" "j < 0"
    with eq have "nat (- i) = nat (- j)" by (intro inj) (simp add: intText_def)
    with \<open>i < 0\<close> \<open>j < 0\<close> show ?thesis by simp
  next
    assume "\<not> i < 0" "\<not> j < 0"
    with eq have "nat i = nat j" by (intro inj) (simp add: intText_def)
    with \<open>\<not> i < 0\<close> \<open>\<not> j < 0\<close> show ?thesis by simp
  next
    assume "i < 0" "\<not> j < 0"
    with eq show ?thesis using nominus [of "nat j"] by (metis append_Cons append_Nil intText_def)
  next
    assume "\<not> i < 0" "j < 0"
    with eq show ?thesis using nominus [of "nat i"] by (simp add: intText_def)
  qed
qed

section \<open>Enumerations with a text form\<close>

text \<open>
  A union of string literals is a datatype with a text function; the \<open>...Values\<close> array of the source
  is the list of its constructors.  Reading a string searches that array.
\<close>

definition enumOf :: "('a \<Rightarrow> string) \<Rightarrow> 'a list \<Rightarrow> string \<Rightarrow> 'a option" where
  "enumOf text_of vals s = find (\<lambda>x. text_of x = s) vals"

definition enumValue :: "('a \<Rightarrow> string) \<Rightarrow> 'a list \<Rightarrow> js \<Rightarrow> 'a option" where
  "enumValue text_of vals v = (case v of JStr s \<Rightarrow> enumOf text_of vals s | _ \<Rightarrow> None)"

locale text_enum =
  fixes text_of :: "'a \<Rightarrow> string"
    and vals :: "'a list"
  assumes all_values: "x \<in> set vals"
    and distinct_texts: "distinct (map text_of vals)"
begin

lemma text_of_inj: "text_of x = text_of y \<longleftrightarrow> x = y"
  using distinct_texts all_values by (auto simp: distinct_map inj_on_def)

lemma enumOf_Some_iff: "enumOf text_of vals s = Some x \<longleftrightarrow> text_of x = s"
proof
  assume "enumOf text_of vals s = Some x"
  then show "text_of x = s" by (auto simp: enumOf_def find_Some_iff)
next
  assume s: "text_of x = s"
  have "enumOf text_of vals s \<noteq> None"
    using s all_values [of x] by (auto simp: enumOf_def find_None_iff)
  then obtain y where y: "enumOf text_of vals s = Some y" by blast
  then have "text_of y = s" by (auto simp: enumOf_def find_Some_iff)
  with s text_of_inj have "y = x" by metis
  with y show "enumOf text_of vals s = Some x" by simp
qed

lemma enumOf_text_of: "enumOf text_of vals (text_of x) = Some x"
  by (simp add: enumOf_Some_iff)

lemma enumValue_Some_iff: "enumValue text_of vals v = Some x \<longleftrightarrow> v = JStr (text_of x)"
  by (cases v) (auto simp: enumValue_def enumOf_Some_iff)

end

section \<open>Numbers\<close>

text \<open>\<open>Math.trunc\<close> on a finite number.\<close>

definition truncR :: "rat \<Rightarrow> rat" where
  "truncR r = (if 0 \<le> r then of_int \<lfloor>r\<rfloor> else of_int \<lceil>r\<rceil>)"

fun numRat :: "jnum \<Rightarrow> rat" where
  "numRat (JFin r) = r"
| "numRat _ = 0"

lemma truncR_nonneg: "0 \<le> r \<Longrightarrow> 0 \<le> truncR r"
  by (simp add: truncR_def)

lemma truncR_le: "0 \<le> r \<Longrightarrow> truncR r \<le> r"
  by (simp add: truncR_def)

lemma truncR_of_int [simp]: "truncR (of_int i) = of_int i"
  by (simp add: truncR_def)

section \<open>Insertion-ordered maps\<close>

type_synonym ('k, 'v) js_map = "('k \<times> 'v) list"

abbreviation mapGet :: "('k, 'v) js_map \<Rightarrow> 'k \<Rightarrow> 'v option" where
  "mapGet m k \<equiv> map_of m k"

abbreviation mapSet :: "'k \<Rightarrow> 'v \<Rightarrow> ('k, 'v) js_map \<Rightarrow> ('k, 'v) js_map" where
  "mapSet k v m \<equiv> AList.update k v m"

abbreviation mapDelete :: "'k \<Rightarrow> ('k, 'v) js_map \<Rightarrow> ('k, 'v) js_map" where
  "mapDelete k m \<equiv> AList.delete k m"

text \<open>A loop over \<open>map.values()\<close> that mutates the entries in place.\<close>

definition mapValues :: "('v \<Rightarrow> 'v) \<Rightarrow> ('k, 'v) js_map \<Rightarrow> ('k, 'v) js_map" where
  "mapValues f m = map (\<lambda>(k, v). (k, f v)) m"

lemma keys_mapValues [simp]: "map fst (mapValues f m) = map fst m"
  by (induction m) (auto simp: mapValues_def)

lemma get_mapValues [simp]: "map_of (mapValues f m) k = map_option f (map_of m k)"
  by (induction m) (auto simp: mapValues_def)

lemma snd_mapValues: "map snd (mapValues f m) = map f (map snd m)"
  by (induction m) (auto simp: mapValues_def)

lemma distinct_mapSet [simp]: "distinct (map fst m) \<Longrightarrow> distinct (map fst (mapSet k v m))"
  by (rule distinct_update)

lemma distinct_mapDelete [simp]: "distinct (map fst m) \<Longrightarrow> distinct (map fst (mapDelete k m))"
  by (rule distinct_delete)

lemma get_mapSet: "map_of (mapSet k v m) k' = (if k' = k then Some v else map_of m k')"
  by (simp add: update_conv')

lemma get_mapDelete: "map_of (mapDelete k m) k' = (if k' = k then None else map_of m k')"
  by (simp add: delete_conv')

lemmas get_map_simps [simp] = get_mapSet get_mapDelete

lemma mapSet_fresh: "k \<notin> set (map fst m) \<Longrightarrow> mapSet k v m = m @ [(k, v)]"
  by (induction m) auto

lemma mapSet_fresh_get: "map_of m k = None \<Longrightarrow> mapSet k v m = m @ [(k, v)]"
  by (rule mapSet_fresh) (simp add: map_of_eq_None_iff)

section \<open>Methods that mutate state and may throw\<close>

text \<open>
  A method of a class is a function from the state of the object to a result (left: the message
  of the thrown error) and the state it leaves.  A throw keeps the mutations made before it.
\<close>

type_synonym ('s, 'a) eff = "'s \<Rightarrow> (string + 'a) \<times> 's"

definition returnM :: "'a \<Rightarrow> ('s, 'a) eff" where
  "returnM a s = (Inr a, s)"

definition throwM :: "string \<Rightarrow> ('s, 'a) eff" where
  "throwM e s = (Inl e, s)"

definition bindM :: "('s, 'a) eff \<Rightarrow> ('a \<Rightarrow> ('s, 'b) eff) \<Rightarrow> ('s, 'b) eff" where
  "bindM m f s = (case m s of (Inl e, s') \<Rightarrow> (Inl e, s') | (Inr a, s') \<Rightarrow> f a s')"

definition thenM :: "('s, 'a) eff \<Rightarrow> ('s, 'b) eff \<Rightarrow> ('s, 'b) eff" where
  "thenM m k = bindM m (\<lambda>_. k)"

definition readM :: "('s \<Rightarrow> 'a) \<Rightarrow> ('s, 'a) eff" where
  "readM f s = (Inr (f s), s)"

definition modifyM :: "('s \<Rightarrow> 's) \<Rightarrow> ('s, unit) eff" where
  "modifyM f s = (Inr (), f s)"

lemmas effM_defs = returnM_def throwM_def bindM_def thenM_def readM_def modifyM_def

text \<open>\<open>keepsM P m R\<close>: \<open>m\<close> keeps the state invariant \<open>P\<close> whether it returns or throws, and what it
  returns satisfies \<open>R\<close>.\<close>

definition keepsM :: "('s \<Rightarrow> bool) \<Rightarrow> ('s, 'a) eff \<Rightarrow> ('a \<Rightarrow> bool) \<Rightarrow> bool" where
  "keepsM P m R \<longleftrightarrow> (\<forall>s. P s \<longrightarrow> P (snd (m s)) \<and> (\<forall>a. fst (m s) = Inr a \<longrightarrow> R a))"

named_theorems keeps_rules \<open>rules that establish keepsM\<close>

lemma keepsM_return [keeps_rules]: "R a \<Longrightarrow> keepsM P (returnM a) R"
  by (simp add: keepsM_def returnM_def)

lemma keepsM_throw [keeps_rules]: "keepsM P (throwM e) R"
  by (simp add: keepsM_def throwM_def)

lemma keepsM_bind:
  assumes "keepsM P m R" and "\<And>a. R a \<Longrightarrow> keepsM P (f a) R'"
  shows "keepsM P (bindM m f) R'"
proof (unfold keepsM_def, intro allI impI)
  fix s assume "P s"
  obtain r s' where ms: "m s = (r, s')" by fastforce
  show "P (snd (bindM m f s)) \<and> (\<forall>a. fst (bindM m f s) = Inr a \<longrightarrow> R' a)"
  proof (cases r)
    case (Inl e)
    with assms(1) \<open>P s\<close> ms show ?thesis by (auto simp: keepsM_def bindM_def)
  next
    case (Inr a)
    with assms(1) \<open>P s\<close> ms have "P s'" "R a" by (auto simp: keepsM_def)
    with assms(2) Inr ms show ?thesis by (auto simp: keepsM_def bindM_def)
  qed
qed

lemma keepsM_then: "keepsM P m (\<lambda>_. True) \<Longrightarrow> keepsM P k R \<Longrightarrow> keepsM P (thenM m k) R"
  unfolding thenM_def by (rule keepsM_bind) auto

lemma keepsM_if [keeps_rules]:
  "(b \<Longrightarrow> keepsM P m R) \<Longrightarrow> (\<not> b \<Longrightarrow> keepsM P k R) \<Longrightarrow> keepsM P (if b then m else k) R"
  by simp

lemma keepsM_option [keeps_rules]:
  "(x = None \<Longrightarrow> keepsM P m R) \<Longrightarrow> (\<And>a. x = Some a \<Longrightarrow> keepsM P (f a) R)
    \<Longrightarrow> keepsM P (case x of None \<Rightarrow> m | Some a \<Rightarrow> f a) R"
  by (cases x) auto

lemma keepsM_weaken: "keepsM P m R \<Longrightarrow> (\<And>a. R a \<Longrightarrow> R' a) \<Longrightarrow> keepsM P m R'"
  by (auto simp: keepsM_def)

lemma keepsM_D: "keepsM P m R \<Longrightarrow> P s \<Longrightarrow> P (snd (m s))"
  by (simp add: keepsM_def)

lemma keepsM_result: "keepsM P m R \<Longrightarrow> P s \<Longrightarrow> fst (m s) = Inr a \<Longrightarrow> R a"
  by (simp add: keepsM_def)

section \<open>Runs of a machine\<close>

text \<open>
  A component with state is a step function on its state.  An invariant of one step is an
  invariant of every run, and a preorder respected by one step is respected by every run.
\<close>

locale step_invariant =
  fixes step :: "'op \<Rightarrow> 's \<Rightarrow> 's"
    and inv :: "'s \<Rightarrow> bool"
  assumes step_inv: "inv s \<Longrightarrow> inv (step op s)"
begin

lemma run_inv: "inv s \<Longrightarrow> inv (fold step ops s)"
  by (induction ops arbitrary: s) (auto intro: step_inv)

end

locale step_monotone =
  fixes step :: "'op \<Rightarrow> 's \<Rightarrow> 's"
    and le :: "'s \<Rightarrow> 's \<Rightarrow> bool"
  assumes le_refl: "le s s"
    and le_trans: "le s t \<Longrightarrow> le t u \<Longrightarrow> le s u"
    and step_le: "le s (step op s)"
begin

lemma run_le: "le s (fold step ops s)"
proof (induction ops arbitrary: s)
  case Nil
  show ?case by (simp add: le_refl)
next
  case (Cons op ops)
  have "le s (step op s)" by (rule step_le)
  also have "le (step op s) (fold step ops (step op s))" by (rule Cons.IH)
  finally (le_trans) show ?case by simp
qed

end

text \<open>The same for a step relation: what one step respects, its closure respects.\<close>

locale relation_monotone =
  fixes step :: "'s \<Rightarrow> 's \<Rightarrow> bool"
    and le :: "'s \<Rightarrow> 's \<Rightarrow> bool"
  assumes le_refl: "le s s"
    and le_trans: "le s t \<Longrightarrow> le t u \<Longrightarrow> le s u"
    and step_le: "step s t \<Longrightarrow> le s t"
begin

lemma steps_le: "step\<^sup>*\<^sup>* s t \<Longrightarrow> le s t"
  by (induction rule: rtranclp_induct) (auto intro: le_refl le_trans step_le)

end

section \<open>Plain objects\<close>

text \<open>The keys that a plain object inherits from \<^verbatim>\<open>Object.prototype\<close>.\<close>

definition objectPrototypeKeys :: "string list" where
  "objectPrototypeKeys =
     [''__defineGetter__'', ''__defineSetter__'', ''__lookupGetter__'', ''__lookupSetter__'', ''__proto__'',
      ''constructor'', ''hasOwnProperty'', ''isPrototypeOf'', ''propertyIsEnumerable'', ''toLocaleString'', ''toString'', ''valueOf'']"

text \<open>The order of \<open>Object.values\<close>: the keys that are array indices come first, by their numbers, and then the others as they were
  inserted.\<close>

definition digitsValue :: "string \<Rightarrow> nat" where
  "digitsValue s = foldl (\<lambda>n c. 10 * n + (of_char c - 48)) 0 s"

definition isArrayIndex :: "string \<Rightarrow> bool" where
  "isArrayIndex s \<longleftrightarrow> s \<noteq> [] \<and> (\<forall>c\<in>set s. 48 \<le> (of_char c :: nat) \<and> (of_char c :: nat) \<le> 57) \<and> (hd s = CHR ''0'' \<longrightarrow> s = ''0'') \<and> digitsValue s < 4294967295"

definition propertyOrder :: "(string \<times> 'a) list \<Rightarrow> (string \<times> 'a) list" where
  "propertyOrder m = sort_key (\<lambda>(k, _). digitsValue k) (filter (\<lambda>(k, _). isArrayIndex k) m) @ filter (\<lambda>(k, _). \<not> isArrayIndex k) m"

end
