(* ===== verification/Goal_Protocol.thy ===== *)
theory Goal_Protocol
  imports Prelude
begin

text \<open>
  Thread goals: the protocol types and pure functions of
  \<^verbatim>\<open>packages/runtime-protocol/src/goal.ts\<close> and the text helpers of
  \<^verbatim>\<open>packages/cli-goal-plugin/src/index.ts\<close> (elapsed time, compact token counts, status lines, the
  XML escaping that protects the prompt templates).  Token counts, budgets and times are finite
  numbers (\<open>rat\<close>); the text of a number that is not an integer is left to the parameter \<open>showNum\<close>.
\<close>

section \<open>Types\<close>

datatype goal_status =
    GoalActive | GoalPaused | GoalBlocked | GoalBudgetLimited | GoalUsageLimited | GoalComplete

fun goalStatusText :: "goal_status \<Rightarrow> string" where
  "goalStatusText GoalActive = ''active''"
| "goalStatusText GoalPaused = ''paused''"
| "goalStatusText GoalBlocked = ''blocked''"
| "goalStatusText GoalBudgetLimited = ''budgetLimited''"
| "goalStatusText GoalUsageLimited = ''usageLimited''"
| "goalStatusText GoalComplete = ''complete''"

definition threadGoalStatusValues :: "goal_status list" where
  "threadGoalStatusValues =
     [GoalActive, GoalPaused, GoalBlocked, GoalBudgetLimited, GoalUsageLimited, GoalComplete]"

definition isThreadGoalStatus :: "string \<Rightarrow> bool" where
  "isThreadGoalStatus value = (value \<in> set (map goalStatusText threadGoalStatusValues))"

text \<open>The status a string that passes the guard denotes.\<close>

definition goalStatusOf :: "string \<Rightarrow> goal_status option" where
  "goalStatusOf value = find (\<lambda>s. goalStatusText s = value) threadGoalStatusValues"

definition MAX_THREAD_GOAL_OBJECTIVE_CHARS :: nat where
  "MAX_THREAD_GOAL_OBJECTIVE_CHARS = 4000"

record thread_goal =
  tg_threadId :: string
  tg_objective :: string
  tg_status :: goal_status
  tg_tokenBudget :: "rat option"
  tg_tokensUsed :: rat
  tg_timeUsedSeconds :: rat
  tg_createdAt :: rat
  tg_updatedAt :: rat

record stored_goal = thread_goal +
  sg_goalId :: string
  sg_budgetLimitReported :: bool

record goal_usage_delta =
  ud_inputTokens :: rat
  ud_cachedInputTokens :: rat
  ud_outputTokens :: rat

record goal_tool_response =
  tr_goal :: "stored_goal option"
  tr_remainingTokens :: "rat option"
  tr_completionBudgetReport :: "string option"

section \<open>Validation and arithmetic\<close>

definition validateThreadGoalObjective :: "string \<Rightarrow> string option" where
  "validateThreadGoalObjective objective =
     (let trimmed = trim objective in
      if trimmed = [] then Some ''Goal objective must not be empty.''
      else if length trimmed > MAX_THREAD_GOAL_OBJECTIVE_CHARS
           then Some (''goal objective must be at most '' @ natDigits MAX_THREAD_GOAL_OBJECTIVE_CHARS @ '' characters'')
      else None)"

definition validateThreadGoalBudget :: "jnum option \<Rightarrow> string option" where
  "validateThreadGoalBudget tokenBudget =
     (case tokenBudget of None \<Rightarrow> None
      | Some b \<Rightarrow> if \<not> numInteger b \<or> numLe b 0
                  then Some ''goal budgets must be positive when provided'' else None)"

definition remainingThreadGoalTokens :: "'a thread_goal_scheme \<Rightarrow> rat option" where
  "remainingThreadGoalTokens goal =
     (case tg_tokenBudget goal of None \<Rightarrow> None
      | Some b \<Rightarrow> Some (max 0 (b - tg_tokensUsed goal)))"

definition threadGoalTokenDelta :: "goal_usage_delta \<Rightarrow> rat" where
  "threadGoalTokenDelta usage =
     max 0 (ud_inputTokens usage - ud_cachedInputTokens usage) + max 0 (ud_outputTokens usage)"

section \<open>Text\<close>

definition goalStatusLabel :: "goal_status \<Rightarrow> string" where
  "goalStatusLabel status =
     (case status of
        GoalActive \<Rightarrow> ''active''
      | GoalPaused \<Rightarrow> ''paused''
      | GoalBlocked \<Rightarrow> ''blocked''
      | GoalBudgetLimited \<Rightarrow> ''limited by budget''
      | GoalUsageLimited \<Rightarrow> ''limited by provider usage''
      | GoalComplete \<Rightarrow> ''complete'')"

definition goalCommandTitle :: "goal_status \<Rightarrow> string" where
  "goalCommandTitle status =
     (if status = GoalActive then ''Goal Active''
      else if status = GoalPaused then ''Goal Paused''
      else if status = GoalBlocked then ''Goal Blocked''
      else if status = GoalUsageLimited then ''Goal Limited by Provider Usage''
      else if status = GoalBudgetLimited then ''Goal Limited by Budget''
      else ''Goal Complete'')"

text \<open>The four fields \<open>formatGoalElapsedSeconds\<close> prints: days, hours, minutes, seconds.\<close>

definition elapsedParts :: "rat \<Rightarrow> int \<times> int \<times> int \<times> int" where
  "elapsedParts seconds =
     (let safeSeconds = max 0 \<lfloor>truncR seconds\<rfloor>
      in (safeSeconds div 86400, safeSeconds mod 86400 div 3600,
          safeSeconds mod 3600 div 60, safeSeconds mod 60))"

definition pluralize :: "int \<Rightarrow> string \<Rightarrow> string \<Rightarrow> string" where
  "pluralize n one many = intText n @ '' '' @ (if n = 1 then one else many)"

definition formatGoalElapsedSeconds :: "rat \<Rightarrow> string" where
  "formatGoalElapsedSeconds seconds =
     (case elapsedParts seconds of (days, hours, minutes, remainingSeconds) \<Rightarrow>
        join '' ''
          ((if days > 0 then [pluralize days ''day'' ''days''] else [])
         @ (if days > 0 \<or> hours > 0 then [pluralize hours ''hour'' ''hours''] else [])
         @ (if days > 0 \<or> hours > 0 \<or> minutes > 0 then [pluralize minutes ''min'' ''mins''] else [])
         @ [pluralize remainingSeconds ''second'' ''seconds'']))"

text \<open>\<open>value.toFixed(1)\<close> with a trailing \<open>.0\<close> removed, for a value that is not negative: the
  integer nearest to ten times the value, the larger one on a tie.\<close>

definition trimFixed :: "rat \<Rightarrow> string" where
  "trimFixed value =
     (let n = \<lfloor>value * 10 + 1 / 2\<rfloor>
      in intText (n div 10) @ (if n mod 10 = 0 then [] else ''.'' @ intText (n mod 10)))"

definition formatTokensCompact :: "(rat \<Rightarrow> string) \<Rightarrow> rat \<Rightarrow> string" where
  "formatTokensCompact showNum tokens =
     (let safe = max 0 tokens in
      if safe \<ge> 1000000 then trimFixed (safe / 1000000) @ ''M''
      else if safe \<ge> 1000 then trimFixed (safe / 1000) @ ''K''
      else showNum safe)"

definition goalUsageSummary :: "(rat \<Rightarrow> string) \<Rightarrow> 'a thread_goal_scheme \<Rightarrow> string" where
  "goalUsageSummary showNum goal =
     join '' ''
       ([''Objective: '' @ tg_objective goal]
      @ (if tg_timeUsedSeconds goal > 0
         then [''Time: '' @ formatGoalElapsedSeconds (tg_timeUsedSeconds goal) @ ''.''] else [])
      @ (case tg_tokenBudget goal of None \<Rightarrow> []
         | Some b \<Rightarrow> [''Tokens: '' @ formatTokensCompact showNum (tg_tokensUsed goal)
                        @ ''/'' @ formatTokensCompact showNum b @ ''.'']))"

definition formatGoalStatusUsage :: "(rat \<Rightarrow> string) \<Rightarrow> 'a thread_goal_scheme \<Rightarrow> string option" where
  "formatGoalStatusUsage showNum goal =
     (let compact = formatTokensCompact showNum; used = tg_tokensUsed goal in
      case tg_status goal of
        GoalActive \<Rightarrow> Some (case tg_tokenBudget goal of
            None \<Rightarrow> formatGoalElapsedSeconds (tg_timeUsedSeconds goal)
          | Some b \<Rightarrow> compact used @ '' / '' @ compact b)
      | GoalBudgetLimited \<Rightarrow> (case tg_tokenBudget goal of
            None \<Rightarrow> None
          | Some b \<Rightarrow> Some (compact used @ '' / '' @ compact b @ '' tokens''))
      | GoalUsageLimited \<Rightarrow> Some (case tg_tokenBudget goal of
            None \<Rightarrow> formatGoalElapsedSeconds (tg_timeUsedSeconds goal)
          | Some b \<Rightarrow> compact used @ '' / '' @ compact b @ '' tokens'')
      | GoalComplete \<Rightarrow> Some (case tg_tokenBudget goal of
            None \<Rightarrow> formatGoalElapsedSeconds (tg_timeUsedSeconds goal)
          | Some b \<Rightarrow> compact used @ '' tokens'')
      | GoalPaused \<Rightarrow> None
      | GoalBlocked \<Rightarrow> None)"

text \<open>A template literal prints \<open>null\<close> for an absent usage text.\<close>

definition templateText :: "string option \<Rightarrow> string" where
  "templateText t = (case t of None \<Rightarrow> ''null'' | Some s \<Rightarrow> s)"

text \<open>A string is falsy when it is absent or empty.\<close>

definition falsyText :: "string option \<Rightarrow> bool" where
  "falsyText t = (case t of None \<Rightarrow> True | Some s \<Rightarrow> s = [])"

definition goalStatusIndicatorText :: "(rat \<Rightarrow> string) \<Rightarrow> 'a thread_goal_scheme \<Rightarrow> string" where
  "goalStatusIndicatorText showNum goal =
     (let usage = formatGoalStatusUsage showNum goal in
      case tg_status goal of
        GoalActive \<Rightarrow> ''Pursuing Goal ('' @ templateText usage @ '')''
      | GoalPaused \<Rightarrow> ''Goal Paused (/goal resume)''
      | GoalBlocked \<Rightarrow> ''Goal blocked (/goal resume)''
      | GoalBudgetLimited \<Rightarrow> if falsyText usage then ''Goal abandoned''
                             else ''Goal unmet ('' @ templateText usage @ '')''
      | GoalUsageLimited \<Rightarrow> if falsyText usage then ''Goal usage limited''
                            else ''Goal usage limited ('' @ templateText usage @ '')''
      | GoalComplete \<Rightarrow> ''Goal achieved ('' @ templateText usage @ '')'')"

definition commandHint :: "goal_status \<Rightarrow> string" where
  "commandHint status =
     (if status = GoalActive then ''Commands: /goal edit, /goal pause, /goal clear''
      else if status = GoalPaused \<or> status = GoalBlocked \<or> status = GoalUsageLimited
           then ''Commands: /goal edit, /goal resume, /goal clear''
      else ''Commands: /goal edit, /goal clear'')"

definition goalSummary :: "(rat \<Rightarrow> string) \<Rightarrow> 'a thread_goal_scheme \<Rightarrow> string" where
  "goalSummary showNum goal =
     join newline
       ([''Goal'',
         ''Status: '' @ goalStatusLabel (tg_status goal),
         ''Objective: '' @ tg_objective goal,
         ''Time used: '' @ formatGoalElapsedSeconds (tg_timeUsedSeconds goal),
         ''Tokens used: '' @ formatTokensCompact showNum (tg_tokensUsed goal)]
      @ (case tg_tokenBudget goal of None \<Rightarrow> []
         | Some b \<Rightarrow> [''Token budget: '' @ formatTokensCompact showNum b])
      @ [[], commandHint (tg_status goal)])"

definition completionBudgetReport :: "(rat \<Rightarrow> string) \<Rightarrow> 'a thread_goal_scheme \<Rightarrow> string option" where
  "completionBudgetReport showNum goal =
     (let parts =
        (case tg_tokenBudget goal of None \<Rightarrow> []
         | Some b \<Rightarrow> [''tokens used: '' @ showNum (tg_tokensUsed goal) @ '' of '' @ showNum b])
      @ (if tg_timeUsedSeconds goal > 0
         then [''time used: '' @ showNum (tg_timeUsedSeconds goal) @ '' seconds''] else [])
      in if parts = [] then None
         else Some (''Goal achieved. Report final budget usage to the user: '' @ join ''; '' parts @ ''.''))"

definition goalToolResponse ::
  "(rat \<Rightarrow> string) \<Rightarrow> stored_goal option \<Rightarrow> bool \<Rightarrow> goal_tool_response" where
  "goalToolResponse showNum goal includeCompletionBudgetReport =
     \<lparr> tr_goal = goal,
       tr_remainingTokens = (case goal of None \<Rightarrow> None | Some g \<Rightarrow> remainingThreadGoalTokens g),
       tr_completionBudgetReport =
         (case goal of None \<Rightarrow> None
          | Some g \<Rightarrow> if includeCompletionBudgetReport \<and> tg_status g = GoalComplete
                      then completionBudgetReport showNum g else None) \<rparr>"

text \<open>\<open>Intl.NumberFormat("en-US").format\<close> on a length: digits grouped by thousands.\<close>

fun groupRev :: "string \<Rightarrow> string" where
  "groupRev (a # b # c # d # ds) = a # b # c # CHR '','' # groupRev (d # ds)"
| "groupRev ds = ds"

definition formatEnUs :: "nat \<Rightarrow> string" where
  "formatEnUs n = rev (groupRev (rev (natDigits n)))"

definition goalObjectiveCommandError :: "string \<Rightarrow> string option" where
  "goalObjectiveCommandError objective =
     (let trimmed = trim objective in
      if length trimmed \<le> MAX_THREAD_GOAL_OBJECTIVE_CHARS then None
      else Some (''Goal objective is too long: '' @ formatEnUs (length trimmed)
        @ '' characters. Limit: '' @ formatEnUs MAX_THREAD_GOAL_OBJECTIVE_CHARS
        @ '' characters. Put longer instructions in a file and refer to that file in the goal, for example: /goal follow the instructions in goal.md.''))"

text \<open>\<open>replaceAll\<close> of one character; \<open>escapeXmlText\<close> applies it three times.\<close>

definition replaceChar :: "char \<Rightarrow> string \<Rightarrow> string \<Rightarrow> string" where
  "replaceChar c r s = concat (map (\<lambda>x. if x = c then r else [x]) s)"

definition escapeXmlText :: "string \<Rightarrow> string" where
  "escapeXmlText input =
     replaceChar CHR ''>'' ''&gt;'' (replaceChar CHR ''<'' ''&lt;'' (replaceChar CHR ''&'' ''&amp;'' input))"

definition goalContext :: "string \<Rightarrow> string" where
  "goalContext prompt = ''<goal_context>'' @ newline @ prompt @ newline @ ''</goal_context>''"

end
