(* ===== verification/Goal_Store.thy ===== *)
theory Goal_Store
  imports Goal_Protocol
begin

text \<open>
  Goal stores.  \<open>GoalStore\<close> is the interface that the goal managers are written against; the
  locale \<open>goal_store_laws\<close> states what it promises over an abstract view (a partial map from session
  id to goal).  Two stores of the repository implement it: \<open>MemoryGoalStore\<close>
  (\<^verbatim>\<open>packages/cli-goal-plugin/src/index.ts\<close>) and the \<open>JsonFileGoalStore\<close> of
  \<^verbatim>\<open>packages/remote-runtime-host/src/goal-state.ts\<close>, which re-reads, re-parses and rewrites a JSON file
  at every call.  The file is modelled by what \<open>JSON.parse\<close> makes of it; a failing disk is not
  modelled.  In both stores the sessions are a plain object: the lists are in the order of its properties, and a
  session whose id is a key of \<^verbatim>\<open>Object.prototype\<close> is none of \<open>ordinaryId\<close>: for such an id, which is never stored, the
  source reads the inherited member (\<open>MemoryGoalStore\<close> throws when it clones it, \<open>JsonFileGoalStore.get\<close> returns it),
  and the definitions below, which find nothing, do not describe it.
\<close>

type_synonym goal_sessions = "(string, stored_goal) js_map"
type_synonym goal_mutator = "stored_goal option \<Rightarrow> string + stored_goal option"

record 's goal_store =
  gs_get :: "string \<Rightarrow> 's \<Rightarrow> string + stored_goal option"
  gs_list :: "'s \<Rightarrow> string + stored_goal list"
  gs_set :: "stored_goal \<Rightarrow> 's \<Rightarrow> string + 's"
  gs_delete :: "string \<Rightarrow> 's \<Rightarrow> string + bool \<times> 's"
  gs_update :: "string \<Rightarrow> goal_mutator \<Rightarrow> 's \<Rightarrow> string + stored_goal option \<times> 's"

definition ordinaryId :: "string \<Rightarrow> bool" where
  "ordinaryId k \<longleftrightarrow> k \<notin> set objectPrototypeKeys"

section \<open>MemoryGoalStore\<close>

definition memory_get :: "string \<Rightarrow> goal_sessions \<Rightarrow> string + stored_goal option" where
  "memory_get sessionId sessions = Inr (mapGet sessions sessionId)"

definition memory_list :: "goal_sessions \<Rightarrow> string + stored_goal list" where
  "memory_list sessions = Inr (map snd (propertyOrder sessions))"

definition memory_set :: "stored_goal \<Rightarrow> goal_sessions \<Rightarrow> string + goal_sessions" where
  "memory_set goal sessions = Inr (mapSet (tg_threadId goal) goal sessions)"

definition memory_delete :: "string \<Rightarrow> goal_sessions \<Rightarrow> string + bool \<times> goal_sessions" where
  "memory_delete sessionId sessions =
     (if mapGet sessions sessionId = None then Inr (False, sessions)
      else Inr (True, mapDelete sessionId sessions))"

text \<open>The common body of the two \<open>update\<close> methods: mutate the entry, then set or delete it.\<close>

definition updateSessions ::
  "string \<Rightarrow> goal_mutator \<Rightarrow> goal_sessions \<Rightarrow> string + stored_goal option \<times> goal_sessions" where
  "updateSessions sessionId mutate sessions =
     (case mutate (mapGet sessions sessionId) of
        Inl e \<Rightarrow> Inl e
      | Inr (Some next_goal) \<Rightarrow> Inr (Some next_goal, mapSet sessionId next_goal sessions)
      | Inr None \<Rightarrow> Inr (None, mapDelete sessionId sessions))"

definition MemoryGoalStore :: "goal_sessions goal_store" where
  "MemoryGoalStore =
     \<lparr> gs_get = memory_get, gs_list = memory_list, gs_set = memory_set,
       gs_delete = memory_delete, gs_update = updateSessions \<rparr>"

section \<open>The JSON snapshot\<close>

definition goalNumber :: "js \<Rightarrow> rat option" where
  "goalNumber v = (case v of JNum (JFin r) \<Rightarrow> Some r | _ \<Rightarrow> None)"

definition isThreadGoalStatusValue :: "js \<Rightarrow> goal_status option" where
  "isThreadGoalStatusValue v = (case v of JStr s \<Rightarrow> goalStatusOf s | _ \<Rightarrow> None)"

definition parseStoredThreadGoal :: "js \<Rightarrow> string + stored_goal" where
  "parseStoredThreadGoal v =
     (case (getProp v ''threadId'', getProp v ''goalId'', getProp v ''objective'',
            isThreadGoalStatusValue (getProp v ''status''), getProp v ''tokenBudget'',
            goalNumber (getProp v ''tokensUsed''), goalNumber (getProp v ''timeUsedSeconds''),
            goalNumber (getProp v ''createdAt''), goalNumber (getProp v ''updatedAt''),
            getProp v ''budgetLimitReported'') of
        (JStr threadId, JStr goalId, JStr objective, Some status, budget,
         Some tokensUsed, Some timeUsedSeconds, Some createdAt, Some updatedAt, JBool reported) \<Rightarrow>
          if budget = JNull \<or> goalNumber budget \<noteq> None
          then Inr \<lparr> tg_threadId = threadId, tg_objective = objective, tg_status = status,
                     tg_tokenBudget = goalNumber budget, tg_tokensUsed = tokensUsed,
                     tg_timeUsedSeconds = timeUsedSeconds, tg_createdAt = createdAt,
                     tg_updatedAt = updatedAt, sg_goalId = goalId, sg_budgetLimitReported = reported \<rparr>
          else Inl ''Invalid goal state.''
      | _ \<Rightarrow> Inl ''Invalid goal state.'')"

text \<open>The loop over \<open>Object.entries(value.sessions)\<close>.\<close>

fun parseSessions :: "(string \<times> js) list \<Rightarrow> goal_sessions \<Rightarrow> string + goal_sessions" where
  "parseSessions [] sessions = Inr sessions"
| "parseSessions ((sessionId, goal) # entries) sessions =
     (case parseStoredThreadGoal goal of
        Inl e \<Rightarrow> Inl e
      | Inr g \<Rightarrow> parseSessions entries (mapSet sessionId g sessions))"

definition parseGoalStoreSnapshot :: "js \<Rightarrow> string + goal_sessions" where
  "parseGoalStoreSnapshot v =
     (if \<not> isRecord v \<or> getProp v ''version'' \<noteq> JInt 1
      then Inl ''Invalid goal state.''
      else case getProp v ''sessions'' of
             JObj entries \<Rightarrow> parseSessions entries []
           | _ \<Rightarrow> Inl ''Invalid goal state.'')"

text \<open>What \<open>JSON.parse\<close> reads back after \<open>JSON.stringify\<close> of the snapshot.\<close>

definition storedGoalJson :: "stored_goal \<Rightarrow> js" where
  "storedGoalJson g = JObj
     [(''threadId'', JStr (tg_threadId g)),
      (''goalId'', JStr (sg_goalId g)),
      (''objective'', JStr (tg_objective g)),
      (''status'', JStr (goalStatusText (tg_status g))),
      (''tokenBudget'', (case tg_tokenBudget g of None \<Rightarrow> JNull | Some b \<Rightarrow> JNum (JFin b))),
      (''tokensUsed'', JNum (JFin (tg_tokensUsed g))),
      (''timeUsedSeconds'', JNum (JFin (tg_timeUsedSeconds g))),
      (''createdAt'', JNum (JFin (tg_createdAt g))),
      (''updatedAt'', JNum (JFin (tg_updatedAt g))),
      (''budgetLimitReported'', JBool (sg_budgetLimitReported g))]"

definition snapshotJson :: "goal_sessions \<Rightarrow> js" where
  "snapshotJson sessions = JObj
     [(''version'', JInt 1), (''sessions'', JObj (map (\<lambda>(k, g). (k, storedGoalJson g)) sessions))]"

section \<open>JsonFileGoalStore\<close>

text \<open>The file at \<open>filePath\<close>: missing, not JSON (with the message of \<open>JSON.parse\<close>), or a value.\<close>

datatype goal_file = MissingFile | NotJson string | JsonFile js

definition jsonFile_read :: "goal_file \<Rightarrow> string + goal_sessions" where
  "jsonFile_read file =
     (case file of
        MissingFile \<Rightarrow> Inr []
      | NotJson message \<Rightarrow> Inl message
      | JsonFile v \<Rightarrow> parseGoalStoreSnapshot v)"

definition jsonFile_write :: "goal_sessions \<Rightarrow> goal_file" where
  "jsonFile_write sessions = JsonFile (snapshotJson sessions)"

definition jsonFile_get :: "string \<Rightarrow> goal_file \<Rightarrow> string + stored_goal option" where
  "jsonFile_get sessionId file =
     (case jsonFile_read file of Inl e \<Rightarrow> Inl e | Inr ss \<Rightarrow> Inr (mapGet ss sessionId))"

definition jsonFile_list :: "goal_file \<Rightarrow> string + stored_goal list" where
  "jsonFile_list file =
     (case jsonFile_read file of Inl e \<Rightarrow> Inl e | Inr ss \<Rightarrow> Inr (map snd (propertyOrder ss)))"

definition jsonFile_set :: "stored_goal \<Rightarrow> goal_file \<Rightarrow> string + goal_file" where
  "jsonFile_set goal file =
     (case jsonFile_read file of Inl e \<Rightarrow> Inl e
      | Inr ss \<Rightarrow> Inr (jsonFile_write (mapSet (tg_threadId goal) goal ss)))"

definition jsonFile_delete :: "string \<Rightarrow> goal_file \<Rightarrow> string + bool \<times> goal_file" where
  "jsonFile_delete sessionId file =
     (case jsonFile_read file of Inl e \<Rightarrow> Inl e
      | Inr ss \<Rightarrow> if mapGet ss sessionId = None then Inr (False, file)
                  else Inr (True, jsonFile_write (mapDelete sessionId ss)))"

definition jsonFile_update ::
  "string \<Rightarrow> goal_mutator \<Rightarrow> goal_file \<Rightarrow> string + stored_goal option \<times> goal_file" where
  "jsonFile_update sessionId mutate file =
     (case jsonFile_read file of Inl e \<Rightarrow> Inl e
      | Inr ss \<Rightarrow> (case updateSessions sessionId mutate ss of
                     Inl e \<Rightarrow> Inl e
                   | Inr (next_goal, ss') \<Rightarrow> Inr (next_goal, jsonFile_write ss')))"

definition JsonFileGoalStore :: "goal_file goal_store" where
  "JsonFileGoalStore =
     \<lparr> gs_get = jsonFile_get, gs_list = jsonFile_list, gs_set = jsonFile_set,
       gs_delete = jsonFile_delete, gs_update = jsonFile_update \<rparr>"

section \<open>The contract of a goal store\<close>

text \<open>\<open>ok\<close> says that the stored data can be read, \<open>view\<close> is what it holds.\<close>

locale goal_store_laws =
  fixes store :: "'s goal_store"
    and ok :: "'s \<Rightarrow> bool"
    and view :: "'s \<Rightarrow> string \<Rightarrow> stored_goal option"
  assumes store_get: "ok s \<Longrightarrow> gs_get store k s = Inr (view s k)"
    and store_set: "ok s \<Longrightarrow> \<exists>s'. gs_set store g s = Inr s' \<and> ok s'
                      \<and> view s' = (view s)(tg_threadId g := Some g)"
    and store_delete: "ok s \<Longrightarrow> \<exists>s'. gs_delete store k s = Inr (view s k \<noteq> None, s') \<and> ok s'
                      \<and> view s' = (view s)(k := None)"
    and store_update_error: "ok s \<Longrightarrow> f (view s k) = Inl e \<Longrightarrow> gs_update store k f s = Inl e"
    and store_update: "ok s \<Longrightarrow> f (view s k) = Inr r \<Longrightarrow>
          \<exists>s'. gs_update store k f s = Inr (r, s') \<and> ok s' \<and> view s' = (view s)(k := r)"
begin

text \<open>What a client reads after each write.\<close>

lemma get_after_set:
  "ok s \<Longrightarrow> gs_set store g s = Inr s' \<Longrightarrow>
     gs_get store k s' = Inr (if k = tg_threadId g then Some g else view s k)"
  using store_set [of s g] store_get by auto

lemma get_after_delete:
  "ok s \<Longrightarrow> gs_delete store k s = Inr (b, s') \<Longrightarrow>
     gs_get store k' s' = Inr (if k' = k then None else view s k')"
  using store_delete [of s k] store_get by auto

lemma get_after_update:
  assumes "ok s" and "gs_update store k f s = Inr (r, s')"
  shows "gs_get store k' s' = Inr (if k' = k then r else view s k')"
proof (cases "f (view s k)")
  case (Inl e)
  with assms store_update_error show ?thesis by fastforce
next
  case (Inr r')
  with assms store_update [of s f k r'] store_get show ?thesis by auto
qed

end

section \<open>Both stores keep the contract\<close>

interpretation memory_goals: goal_store_laws MemoryGoalStore "\<lambda>_. True" map_of
  by unfold_locales
    (auto simp: MemoryGoalStore_def memory_get_def memory_set_def memory_delete_def
        updateSessions_def fun_eq_iff split: option.splits)

lemma goalStatusOf_text [simp]: "goalStatusOf (goalStatusText s) = Some s"
  by (cases s) (simp_all add: goalStatusOf_def threadGoalStatusValues_def)

lemma goalNumber_fin [simp]: "goalNumber (JNum (JFin r)) = Some r" "goalNumber JNull = None"
  by (simp_all add: goalNumber_def)

lemma goalNumber_budget [simp]:
  "goalNumber (case b of None \<Rightarrow> JNull | Some b \<Rightarrow> JNum (JFin b)) = b"
  by (cases b) (simp_all add: goalNumber_def)

lemma parse_storedGoalJson [simp]: "parseStoredThreadGoal (storedGoalJson g) = Inr g"
  by (cases "tg_tokenBudget g")
    (simp_all add: parseStoredThreadGoal_def storedGoalJson_def isThreadGoalStatusValue_def)

lemma parseSessions_json:
  "distinct (map fst (acc @ ss)) \<Longrightarrow>
     parseSessions (map (\<lambda>(k, g). (k, storedGoalJson g)) ss) acc = Inr (acc @ ss)"
proof (induction ss arbitrary: acc)
  case Nil
  show ?case by simp
next
  case (Cons kg ss)
  obtain k g where kg: "kg = (k, g)" by fastforce
  with Cons.prems have "k \<notin> set (map fst acc)" by auto
  then have "mapSet k g acc = acc @ [(k, g)]" by (rule mapSet_fresh)
  with Cons kg show ?case by simp
qed

lemma parse_snapshotJson:
  "distinct (map fst ss) \<Longrightarrow> parseGoalStoreSnapshot (snapshotJson ss) = Inr ss"
  using parseSessions_json [of "[]" ss] by (simp add: parseGoalStoreSnapshot_def snapshotJson_def)

lemma parseSessions_distinct:
  "parseSessions entries acc = Inr ss \<Longrightarrow> distinct (map fst acc) \<Longrightarrow> distinct (map fst ss)"
  by (induction entries acc rule: parseSessions.induct) (auto split: sum.splits)

lemma jsonFile_read_distinct: "jsonFile_read file = Inr ss \<Longrightarrow> distinct (map fst ss)"
  by (auto simp: jsonFile_read_def parseGoalStoreSnapshot_def
      dest: parseSessions_distinct split: goal_file.splits if_splits js.splits)

lemma jsonFile_read_write [simp]:
  "distinct (map fst ss) \<Longrightarrow> jsonFile_read (jsonFile_write ss) = Inr ss"
  by (simp add: jsonFile_read_def jsonFile_write_def parse_snapshotJson)

definition jsonFile_ok :: "goal_file \<Rightarrow> bool" where
  "jsonFile_ok file = (case jsonFile_read file of Inl _ \<Rightarrow> False | Inr _ \<Rightarrow> True)"

definition jsonFile_view :: "goal_file \<Rightarrow> string \<Rightarrow> stored_goal option" where
  "jsonFile_view file k = (case jsonFile_read file of Inl _ \<Rightarrow> None | Inr ss \<Rightarrow> mapGet ss k)"

lemma jsonFile_okE:
  assumes "jsonFile_ok file"
  obtains ss where "jsonFile_read file = Inr ss" "distinct (map fst ss)"
  using assms jsonFile_read_distinct by (auto simp: jsonFile_ok_def split: sum.splits)

lemma updateSessions_distinct:
  "updateSessions k f ss = Inr (r, ss') \<Longrightarrow> distinct (map fst ss) \<Longrightarrow> distinct (map fst ss')"
  by (auto simp: updateSessions_def split: sum.splits option.splits)

lemmas jsonFile_defs =
  JsonFileGoalStore_def jsonFile_get_def jsonFile_set_def jsonFile_delete_def
  jsonFile_update_def jsonFile_view_def jsonFile_ok_def

interpretation json_goals: goal_store_laws JsonFileGoalStore jsonFile_ok jsonFile_view
proof
  fix s k g e r and f :: goal_mutator
  assume "jsonFile_ok s"
  then obtain ss where ss: "jsonFile_read s = Inr ss" and dist: "distinct (map fst ss)"
    by (rule jsonFile_okE)
  show "gs_get JsonFileGoalStore k s = Inr (jsonFile_view s k)"
    using ss by (simp add: jsonFile_defs)
  show "\<exists>s'. gs_set JsonFileGoalStore g s = Inr s' \<and> jsonFile_ok s'
      \<and> jsonFile_view s' = (jsonFile_view s)(tg_threadId g := Some g)"
    using ss dist by (auto simp: jsonFile_defs fun_eq_iff)
  show "\<exists>s'. gs_delete JsonFileGoalStore k s = Inr (jsonFile_view s k \<noteq> None, s') \<and> jsonFile_ok s'
      \<and> jsonFile_view s' = (jsonFile_view s)(k := None)"
    using ss dist by (auto simp: jsonFile_defs fun_eq_iff)
  show "f (jsonFile_view s k) = Inl e \<Longrightarrow> gs_update JsonFileGoalStore k f s = Inl e"
    using ss by (simp add: jsonFile_defs updateSessions_def)
  show "f (jsonFile_view s k) = Inr r \<Longrightarrow> \<exists>s'. gs_update JsonFileGoalStore k f s = Inr (r, s')
      \<and> jsonFile_ok s' \<and> jsonFile_view s' = (jsonFile_view s)(k := r)"
    using ss dist by (cases r) (auto simp: jsonFile_defs updateSessions_def fun_eq_iff)
qed

section \<open>Stores that keep the order\<close>

text \<open>What a store promises a client that lists the goals: the entries with their order.\<close>

locale ordered_goal_store = goal_store_laws +
  fixes entries :: "'a \<Rightarrow> goal_sessions"
  assumes view_entries: "ok s \<Longrightarrow> view s = map_of (entries s)"
    and list_entries: "ok s \<Longrightarrow> gs_list store s = Inr (map snd (propertyOrder (entries s)))"
    and set_entries: "ok s \<Longrightarrow> gs_set store g s = Inr s' \<Longrightarrow> entries s' = mapSet (tg_threadId g) g (entries s)"
    and delete_entries: "ok s \<Longrightarrow> gs_delete store k s = Inr (b, s') \<Longrightarrow> entries s' = mapDelete k (entries s)"
    and update_entries: "ok s \<Longrightarrow> gs_update store k f s = Inr (r, s') \<Longrightarrow>
          entries s' = (case r of Some g \<Rightarrow> mapSet k g (entries s) | None \<Rightarrow> mapDelete k (entries s))"

definition jsonFile_entries :: "goal_file \<Rightarrow> goal_sessions" where
  "jsonFile_entries file = (case jsonFile_read file of Inl _ \<Rightarrow> [] | Inr ss \<Rightarrow> ss)"

lemma delete_absent: "mapGet m k = None \<Longrightarrow> mapDelete k m = m"
  by (force simp: AList.delete_eq filter_id_conv map_of_eq_None_iff)

interpretation ordered_memory: ordered_goal_store MemoryGoalStore "\<lambda>_. True" map_of "\<lambda>s. s"
  by unfold_locales
    (auto simp: MemoryGoalStore_def memory_list_def memory_set_def memory_delete_def updateSessions_def delete_absent
      split: sum.splits option.splits if_splits)

interpretation ordered_json: ordered_goal_store JsonFileGoalStore jsonFile_ok jsonFile_view jsonFile_entries
proof
  fix s assume "jsonFile_ok s"
  then obtain ss where ss: "jsonFile_read s = Inr ss" "distinct (map fst ss)" by (rule jsonFile_okE)
  show "jsonFile_view s = map_of (jsonFile_entries s)"
    using ss by (simp add: jsonFile_view_def jsonFile_entries_def fun_eq_iff)
  show "gs_list JsonFileGoalStore s = Inr (map snd (propertyOrder (jsonFile_entries s)))"
    using ss by (simp add: JsonFileGoalStore_def jsonFile_list_def jsonFile_entries_def)
  show "gs_set JsonFileGoalStore g s = Inr s' \<Longrightarrow> jsonFile_entries s' = mapSet (tg_threadId g) g (jsonFile_entries s)" for g s'
    using ss by (auto simp: JsonFileGoalStore_def jsonFile_set_def jsonFile_entries_def)
  show "gs_delete JsonFileGoalStore k s = Inr (b, s') \<Longrightarrow> jsonFile_entries s' = mapDelete k (jsonFile_entries s)" for k b s'
    using ss by (auto simp: JsonFileGoalStore_def jsonFile_delete_def jsonFile_entries_def delete_absent split: if_splits)
  show "gs_update JsonFileGoalStore k f s = Inr (r, s') \<Longrightarrow> jsonFile_entries s' =
      (case r of Some g \<Rightarrow> mapSet k g (jsonFile_entries s) | None \<Rightarrow> mapDelete k (jsonFile_entries s))" for k f r s'
    using ss by (auto simp: JsonFileGoalStore_def jsonFile_update_def jsonFile_entries_def updateSessions_def split: sum.splits option.splits)
qed

end
