(* ===== verification/Goal_Manager.thy ===== *)
theory Goal_Manager
  imports Goal_Store Goal_Prompts
begin

text \<open>
  \<open>ThreadGoalManager\<close> of \<^verbatim>\<open>packages/cli-goal-plugin/src/index.ts\<close>: creating, editing, pausing and
  completing the goal of a thread, charging tokens and elapsed time to it from the runtime events of
  a turn, and reporting an exhausted budget once.  The manager is a set of methods on a state (the
  goal store and the two maps that track running steps); a throw keeps earlier mutations.  The
  wall clock, the id source, the goal store and the text of numbers are the environment: the
  \<open>n\<close>-th reading of the clock is \<open>ge_now env n\<close>.
\<close>

record 's goal_env =
  ge_store :: "'s goal_store"
  ge_now :: "nat \<Rightarrow> rat"
  ge_id :: "nat \<Rightarrow> string"
  ge_num :: "rat \<Rightarrow> string"

record 's goal_manager =
  gm_store :: 's
  gm_stepStarts :: "(string, rat) js_map"
  gm_stepGoalIds :: "(string, string) js_map"
  gm_ticks :: nat
  gm_ids :: nat

type_synonym ('s, 'a) goalM = "('s goal_manager, 'a) eff"

section \<open>Access to the environment\<close>

definition nowM :: "'s goal_env \<Rightarrow> ('s, rat) goalM" where
  "nowM env m = (Inr (ge_now env (gm_ticks m)), m\<lparr>gm_ticks := Suc (gm_ticks m)\<rparr>)"

definition newIdM :: "'s goal_env \<Rightarrow> ('s, string) goalM" where
  "newIdM env m = (Inr (ge_id env (gm_ids m)), m\<lparr>gm_ids := Suc (gm_ids m)\<rparr>)"

definition storeM :: "('s \<Rightarrow> string + 'a \<times> 's) \<Rightarrow> ('s, 'a) goalM" where
  "storeM f m = (case f (gm_store m) of
      Inl e \<Rightarrow> (Inl e, m)
    | Inr (a, s) \<Rightarrow> (Inr a, m\<lparr>gm_store := s\<rparr>))"

definition setM :: "'s goal_env \<Rightarrow> stored_goal \<Rightarrow> ('s, unit) goalM" where
  "setM env goal = storeM (\<lambda>s. case gs_set (ge_store env) goal s of Inl e \<Rightarrow> Inl e | Inr s' \<Rightarrow> Inr ((), s'))"

section \<open>Pure helpers\<close>

definition statusAfterBudget :: "goal_status \<Rightarrow> rat \<Rightarrow> rat option \<Rightarrow> goal_status" where
  "statusAfterBudget status tokensUsed tokenBudget =
     (if status = GoalActive \<and> tokenBudget \<noteq> None \<and> tokensUsed \<ge> the tokenBudget
      then GoalBudgetLimited else status)"

definition editedGoalStatus :: "goal_status \<Rightarrow> goal_status" where
  "editedGoalStatus status =
     (if status = GoalBudgetLimited \<or> status = GoalComplete then GoalActive else status)"

definition normalizeObjective :: "string \<Rightarrow> string" where
  "normalizeObjective objective = trim objective"

definition assertValidObjective :: "string \<Rightarrow> ('s, unit) eff" where
  "assertValidObjective objective =
     (case validateThreadGoalObjective objective of None \<Rightarrow> returnM () | Some e \<Rightarrow> throwM e)"

definition assertValidBudget :: "jnum option \<Rightarrow> ('s, unit) eff" where
  "assertValidBudget tokenBudget =
     (case validateThreadGoalBudget tokenBudget of None \<Rightarrow> returnM () | Some e \<Rightarrow> throwM e)"

definition newStoredGoal ::
  "string \<Rightarrow> string \<Rightarrow> string \<Rightarrow> rat option \<Rightarrow> goal_status \<Rightarrow> rat \<Rightarrow> stored_goal" where
  "newStoredGoal sessionId goalId objective tokenBudget status now =
     \<lparr> tg_threadId = sessionId, tg_objective = objective,
       tg_status = statusAfterBudget status 0 tokenBudget, tg_tokenBudget = tokenBudget,
       tg_tokensUsed = 0, tg_timeUsedSeconds = 0, tg_createdAt = now, tg_updatedAt = now,
       sg_goalId = goalId, sg_budgetLimitReported = False \<rparr>"

text \<open>The partial record that \<open>updateExistingGoal\<close> spreads over a goal: \<open>None\<close> is an absent key.\<close>

record goal_update =
  gu_budgetLimitReported :: "bool option"
  gu_objective :: "string option"
  gu_status :: "goal_status option"
  gu_timeUsedSeconds :: "rat option"
  gu_tokenBudget :: "rat option option"
  gu_tokensUsed :: "rat option"

definition noUpdate :: goal_update where
  "noUpdate = \<lparr> gu_budgetLimitReported = None, gu_objective = None, gu_status = None,
                gu_timeUsedSeconds = None, gu_tokenBudget = None, gu_tokensUsed = None \<rparr>"

definition orElse :: "'a option \<Rightarrow> 'a \<Rightarrow> 'a" where
  "orElse x d = (case x of None \<Rightarrow> d | Some a \<Rightarrow> a)"

definition updatedGoal :: "stored_goal \<Rightarrow> goal_update \<Rightarrow> rat \<Rightarrow> stored_goal" where
  "updatedGoal goal u now =
     (let spread = goal\<lparr>
            tg_objective := orElse (gu_objective u) (tg_objective goal),
            tg_status := orElse (gu_status u) (tg_status goal),
            tg_timeUsedSeconds := orElse (gu_timeUsedSeconds u) (tg_timeUsedSeconds goal),
            tg_tokenBudget := orElse (gu_tokenBudget u) (tg_tokenBudget goal),
            tg_tokensUsed := orElse (gu_tokensUsed u) (tg_tokensUsed goal),
            sg_budgetLimitReported := orElse (gu_budgetLimitReported u) (sg_budgetLimitReported goal),
            tg_updatedAt := truncR (now / 1000)\<rparr>;
          status = statusAfterBudget (tg_status spread) (tg_tokensUsed spread) (tg_tokenBudget spread)
      in spread\<lparr> tg_status := status,
                 sg_budgetLimitReported :=
                   (if status \<noteq> GoalBudgetLimited then False else sg_budgetLimitReported spread)\<rparr>)"

section \<open>Store access and accounting\<close>

definition getGoal :: "'s goal_env \<Rightarrow> string \<Rightarrow> ('s, stored_goal option) goalM" where
  "getGoal env sessionId m = (gs_get (ge_store env) sessionId (gm_store m), m)"

definition listGoals :: "'s goal_env \<Rightarrow> ('s, stored_goal list) goalM" where
  "listGoals env m = (gs_list (ge_store env) (gm_store m), m)"

definition noGoalExists :: "string \<Rightarrow> string" where
  "noGoalExists sessionId = ''cannot update goal for thread '' @ sessionId @ '': no goal exists''"

text \<open>The clock is read inside the function that the store calls, when there is a goal.\<close>

definition updateExistingGoal :: "'s goal_env \<Rightarrow> string \<Rightarrow> goal_update \<Rightarrow> ('s, stored_goal) goalM" where
  "updateExistingGoal env sessionId u =
     bindM (readM (\<lambda>m. ge_now env (gm_ticks m))) (\<lambda>now.
     bindM (storeM (gs_update (ge_store env) sessionId (\<lambda>goal.
              case goal of None \<Rightarrow> Inl (noGoalExists sessionId)
              | Some g \<Rightarrow> Inr (Some (updatedGoal g u now))))) (\<lambda>updated.
     thenM (modifyM (\<lambda>m. m\<lparr>gm_ticks := Suc (gm_ticks m)\<rparr>))
       (case updated of None \<Rightarrow> throwM (noGoalExists sessionId)
        | Some g \<Rightarrow> returnM g)))"

definition replaceGoal ::
  "'s goal_env \<Rightarrow> string \<Rightarrow> string \<Rightarrow> rat option \<Rightarrow> goal_status \<Rightarrow> ('s, stored_goal) goalM" where
  "replaceGoal env sessionId objective tokenBudget status =
     bindM (nowM env) (\<lambda>now.
     bindM (newIdM env) (\<lambda>goalId.
     let goal = newStoredGoal sessionId goalId objective tokenBudget status (truncR (now / 1000)) in
     thenM (setM env goal) (returnM goal)))"

definition usageTokens :: "goal_usage_delta option \<Rightarrow> rat" where
  "usageTokens usage = (case usage of None \<Rightarrow> 0 | Some u \<Rightarrow> threadGoalTokenDelta u)"

definition overBudget :: "stored_goal \<Rightarrow> rat \<Rightarrow> bool" where
  "overBudget goal tokensUsed \<longleftrightarrow>
     (case tg_tokenBudget goal of None \<Rightarrow> False | Some b \<Rightarrow> tokensUsed \<ge> b)"

definition accountTrackedStepUsage ::
  "'s goal_env \<Rightarrow> string \<Rightarrow> string option \<Rightarrow> rat \<Rightarrow> goal_usage_delta option \<Rightarrow> ('s, stored_goal option) goalM" where
  "accountTrackedStepUsage env sessionId goalId elapsedSeconds usage =
     bindM (getGoal env sessionId) (\<lambda>found.
     case found of None \<Rightarrow> returnM None
     | Some goal \<Rightarrow>
         if goalId = None \<or> goalId = Some [] \<or> goalId \<noteq> Some (sg_goalId goal) then returnM (Some goal)
         else if tg_status goal \<notin> {GoalActive, GoalPaused, GoalBlocked, GoalUsageLimited,
                                    GoalBudgetLimited, GoalComplete} then returnM (Some goal)
         else
           let tokenDelta = usageTokens usage; elapsed = max 0 (truncR elapsedSeconds) in
           if elapsed = 0 \<and> tokenDelta = 0 then returnM (Some goal)
           else let tokensUsed = tg_tokensUsed goal + tokenDelta in
             bindM (updateExistingGoal env sessionId (noUpdate\<lparr>
                 gu_timeUsedSeconds := Some (tg_timeUsedSeconds goal + elapsed),
                 gu_tokensUsed := Some tokensUsed,
                 gu_status := Some (if tg_status goal \<noteq> GoalComplete \<and> overBudget goal tokensUsed
                                    then GoalBudgetLimited else tg_status goal)\<rparr>))
               (\<lambda>g. returnM (Some g)))"

definition elapsedSince :: "rat \<Rightarrow> rat \<Rightarrow> rat" where
  "elapsedSince startedAt now = max 0 (truncR ((now - startedAt) / 1000))"

definition accountInFlightElapsed :: "'s goal_env \<Rightarrow> string \<Rightarrow> ('s, unit) goalM" where
  "accountInFlightElapsed env sessionId =
     bindM (readM gm_stepStarts) (\<lambda>starts.
     case mapGet starts sessionId of None \<Rightarrow> returnM ()
     | Some startedAt \<Rightarrow>
         bindM (nowM env) (\<lambda>now.
         let elapsedSeconds = elapsedSince startedAt now in
         if elapsedSeconds = 0 then returnM ()
         else
           bindM (readM gm_stepGoalIds) (\<lambda>goalIds.
           bindM (accountTrackedStepUsage env sessionId (mapGet goalIds sessionId) elapsedSeconds None)
             (\<lambda>updated.
               if updated = None then returnM ()
               else bindM (nowM env) (\<lambda>now'.
                 modifyM (\<lambda>m. m\<lparr>gm_stepStarts := mapSet sessionId now' (gm_stepStarts m)\<rparr>))))))"

section \<open>Operations on the goal\<close>

definition goalExistsError :: string where
  "goalExistsError = ''cannot create a new goal because this thread already has a goal; use update_goal only when the existing goal is complete''"

definition createGoal ::
  "'s goal_env \<Rightarrow> string \<Rightarrow> string \<Rightarrow> jnum option \<Rightarrow> ('s, goal_tool_response) goalM" where
  "createGoal env sessionId objective tokenBudget =
     (let normalized = normalizeObjective objective in
      thenM (assertValidObjective normalized) (
      thenM (assertValidBudget tokenBudget) (
      bindM (nowM env) (\<lambda>now.
      bindM (newIdM env) (\<lambda>goalId.
      let goal = newStoredGoal sessionId goalId normalized (map_option numRat tokenBudget)
                   GoalActive (truncR (now / 1000)) in
      thenM (storeM (gs_update (ge_store env) sessionId (\<lambda>existing.
               if existing \<noteq> None then Inl goalExistsError else Inr (Some goal))))
        (returnM (goalToolResponse (ge_num env) (Some goal) False)))))))"

definition updateGoalComplete :: "'s goal_env \<Rightarrow> string \<Rightarrow> ('s, goal_tool_response) goalM" where
  "updateGoalComplete env sessionId =
     thenM (accountInFlightElapsed env sessionId)
       (bindM (updateExistingGoal env sessionId (noUpdate\<lparr>gu_status := Some GoalComplete\<rparr>))
         (\<lambda>updated. returnM (goalToolResponse (ge_num env) (Some updated) True)))"

definition updateGoalBlocked :: "'s goal_env \<Rightarrow> string \<Rightarrow> ('s, goal_tool_response) goalM" where
  "updateGoalBlocked env sessionId =
     thenM (accountInFlightElapsed env sessionId)
       (bindM (updateExistingGoal env sessionId (noUpdate\<lparr>gu_status := Some GoalBlocked\<rparr>))
         (\<lambda>updated. returnM (goalToolResponse (ge_num env) (Some updated) False)))"

definition clearGoal :: "'s goal_env \<Rightarrow> string \<Rightarrow> ('s, bool) goalM" where
  "clearGoal env sessionId = storeM (gs_delete (ge_store env) sessionId)"

definition setGoalStatus :: "'s goal_env \<Rightarrow> string \<Rightarrow> goal_status \<Rightarrow> ('s, stored_goal) goalM" where
  "setGoalStatus env sessionId status =
     thenM (accountInFlightElapsed env sessionId)
       (updateExistingGoal env sessionId (noUpdate\<lparr>gu_status := Some status\<rparr>))"

record goal_edit =
  gd_goal :: stored_goal
  gd_objectiveChanged :: bool
  gd_steering :: "string option"

text \<open>\<open>tokenBudget\<close>: \<open>None\<close> is undefined, \<open>Some None\<close> is null.\<close>

definition editUpdate :: "string \<Rightarrow> goal_status \<Rightarrow> jnum option option \<Rightarrow> goal_update" where
  "editUpdate normalized status tokenBudget =
     noUpdate\<lparr> gu_objective := Some normalized, gu_status := Some status,
               gu_tokenBudget := map_option (map_option numRat) tokenBudget\<rparr>"

definition editGoalObjective ::
  "'s goal_env \<Rightarrow> string \<Rightarrow> string \<Rightarrow> jnum option option \<Rightarrow> ('s, goal_edit) goalM" where
  "editGoalObjective env sessionId objective tokenBudget =
     (let normalized = normalizeObjective objective in
      thenM (accountInFlightElapsed env sessionId) (
      thenM (assertValidObjective normalized) (
      thenM (assertValidBudget (orElse tokenBudget None)) (
      bindM (getGoal env sessionId) (\<lambda>found.
      case found of
        None \<Rightarrow> throwM (''cannot edit goal for thread '' @ sessionId @ '': no goal exists'')
      | Some existing \<Rightarrow>
          bindM (updateExistingGoal env sessionId
                   (editUpdate normalized (editedGoalStatus (tg_status existing)) tokenBudget))
            (\<lambda>updated.
              let objectiveChanged = (tg_objective existing \<noteq> tg_objective updated) in
              returnM \<lparr> gd_goal = updated, gd_objectiveChanged = objectiveChanged,
                        gd_steering =
                          (if objectiveChanged \<and> tg_status updated = GoalActive
                           then Some (goalContext (objectiveUpdatedPrompt (ge_num env) updated))
                           else None) \<rparr>))))))"

text \<open>\<open>markUsageLimited\<close> and \<open>pauseForInterrupt\<close> share their body.\<close>

definition demoteActive :: "'s goal_env \<Rightarrow> string \<Rightarrow> goal_status \<Rightarrow> ('s, stored_goal option) goalM" where
  "demoteActive env sessionId status =
     thenM (accountInFlightElapsed env sessionId)
       (bindM (getGoal env sessionId) (\<lambda>found.
        case found of None \<Rightarrow> returnM None
        | Some goal \<Rightarrow>
            if tg_status goal \<noteq> GoalActive then returnM (Some goal)
            else bindM (updateExistingGoal env sessionId (noUpdate\<lparr>gu_status := Some status\<rparr>))
                   (\<lambda>g. returnM (Some g))))"

definition markUsageLimited :: "'s goal_env \<Rightarrow> string \<Rightarrow> ('s, stored_goal option) goalM" where
  "markUsageLimited env sessionId = demoteActive env sessionId GoalUsageLimited"

definition pauseForInterrupt :: "'s goal_env \<Rightarrow> string \<Rightarrow> ('s, stored_goal option) goalM" where
  "pauseForInterrupt env sessionId = demoteActive env sessionId GoalPaused"

definition setGoalObjective ::
  "'s goal_env \<Rightarrow> string \<Rightarrow> string \<Rightarrow> jnum option \<Rightarrow> ('s, stored_goal) goalM" where
  "setGoalObjective env sessionId objective tokenBudget =
     (let normalized = normalizeObjective objective; budget = map_option numRat tokenBudget in
      thenM (assertValidObjective normalized) (
      thenM (assertValidBudget tokenBudget) (
      bindM (getGoal env sessionId) (\<lambda>existing.
      case existing of
        Some goal \<Rightarrow>
          if tg_objective goal = normalized \<and> tg_status goal \<noteq> GoalComplete
          then updateExistingGoal env sessionId
                 (noUpdate\<lparr>gu_status := Some GoalActive, gu_tokenBudget := Some budget\<rparr>)
          else replaceGoal env sessionId normalized budget GoalActive
      | None \<Rightarrow> replaceGoal env sessionId normalized budget GoalActive))))"

datatype accounting_mode = DefaultMode | PlanMode

definition accountUsage ::
  "'s goal_env \<Rightarrow> string \<Rightarrow> rat \<Rightarrow> accounting_mode \<Rightarrow> goal_usage_delta option \<Rightarrow> ('s, stored_goal option) goalM" where
  "accountUsage env sessionId elapsedSeconds mode usage =
     (if mode = PlanMode then getGoal env sessionId
      else bindM (getGoal env sessionId) (\<lambda>found.
      case found of None \<Rightarrow> returnM None
      | Some goal \<Rightarrow>
          if tg_status goal \<noteq> GoalActive then returnM (Some goal)
          else
            let tokenDelta = usageTokens usage; elapsed = max 0 (truncR elapsedSeconds) in
            if elapsed = 0 \<and> tokenDelta = 0 then returnM (Some goal)
            else
              bindM (updateExistingGoal env sessionId (noUpdate\<lparr>
                  gu_timeUsedSeconds := Some (tg_timeUsedSeconds goal + elapsed),
                  gu_tokensUsed := Some (tg_tokensUsed goal + tokenDelta),
                  gu_status := Some (if overBudget goal (tg_tokensUsed goal + tokenDelta)
                                     then GoalBudgetLimited else tg_status goal)\<rparr>))
                (\<lambda>g. returnM (Some g))))"

definition accountToolCompleted ::
  "'s goal_env \<Rightarrow> string \<Rightarrow> string \<Rightarrow> ('s, stored_goal option) goalM" where
  "accountToolCompleted env sessionId toolName =
     (if toolName = ''update_goal'' then getGoal env sessionId
      else thenM (accountInFlightElapsed env sessionId) (getGoal env sessionId))"

definition continuationPromptM ::
  "'s goal_env \<Rightarrow> string \<Rightarrow> accounting_mode \<Rightarrow> ('s, string option) goalM" where
  "continuationPromptM env sessionId mode =
     bindM (getGoal env sessionId) (\<lambda>found.
     case found of None \<Rightarrow> returnM None
     | Some goal \<Rightarrow>
         if mode = PlanMode \<or> tg_status goal \<noteq> GoalActive then returnM None
         else returnM (Some (goalContext (continuationPrompt (ge_num env) goal))))"

definition budgetLimitPromptM :: "'s goal_env \<Rightarrow> string \<Rightarrow> ('s, string option) goalM" where
  "budgetLimitPromptM env sessionId =
     bindM (getGoal env sessionId) (\<lambda>found.
     case found of None \<Rightarrow> returnM None
     | Some goal \<Rightarrow>
         if tg_status goal \<noteq> GoalBudgetLimited \<or> sg_budgetLimitReported goal then returnM None
         else thenM (updateExistingGoal env sessionId (noUpdate\<lparr>gu_budgetLimitReported := Some True\<rparr>))
                (returnM (Some (goalContext (budgetLimitPrompt (ge_num env) goal)))))"

definition pausedResumePrompt :: "'s goal_env \<Rightarrow> string \<Rightarrow> ('s, (string \<times> string) option) goalM" where
  "pausedResumePrompt env sessionId =
     bindM (getGoal env sessionId) (\<lambda>found.
     returnM (case found of None \<Rightarrow> None
       | Some goal \<Rightarrow>
           if tg_status goal \<in> {GoalPaused, GoalBlocked, GoalUsageLimited}
           then Some (''Resume paused goal?'', tg_objective goal) else None))"

section \<open>Runtime events\<close>

text \<open>Token counts arrive unchecked: a field of the event is any JavaScript value.\<close>

record runtime_tokens =
  rt_input :: js
  rt_output :: js
  rt_reasoning :: js
  rt_cacheRead :: js
  rt_cacheWrite :: js

record goal_runtime_event =
  ev_type :: string
  ev_propertiesSession :: "string option"
  ev_dataSession :: "string option"
  ev_propertiesUsageLimited :: bool
  ev_dataUsageLimited :: bool
  ev_tokens :: "runtime_tokens option"

definition safeToken :: "js \<Rightarrow> rat" where
  "safeToken value = (case value of JNum (JFin r) \<Rightarrow> if r > 0 then r else 0 | _ \<Rightarrow> 0)"

definition usageDeltaFromRuntimeTokens :: "runtime_tokens option \<Rightarrow> goal_usage_delta" where
  "usageDeltaFromRuntimeTokens tokens =
     (case tokens of
        None \<Rightarrow> \<lparr> ud_inputTokens = 0, ud_cachedInputTokens = 0, ud_outputTokens = 0 \<rparr>
      | Some t \<Rightarrow>
          let cacheRead = safeToken (rt_cacheRead t); cacheWrite = safeToken (rt_cacheWrite t) in
          \<lparr> ud_inputTokens = safeToken (rt_input t) + cacheRead + cacheWrite,
            ud_cachedInputTokens = cacheRead + cacheWrite,
            ud_outputTokens = safeToken (rt_output t) + safeToken (rt_reasoning t) \<rparr>)"

definition eventSession :: "goal_runtime_event \<Rightarrow> string option" where
  "eventSession event =
     (case ev_propertiesSession event of Some s \<Rightarrow> Some s | None \<Rightarrow> ev_dataSession event)"

definition forgetStep :: "string \<Rightarrow> ('s, unit) goalM" where
  "forgetStep sessionId = modifyM (\<lambda>m. m\<lparr>
     gm_stepStarts := mapDelete sessionId (gm_stepStarts m),
     gm_stepGoalIds := mapDelete sessionId (gm_stepGoalIds m)\<rparr>)"

definition handleStepStarted :: "'s goal_env \<Rightarrow> string \<Rightarrow> ('s, unit) goalM" where
  "handleStepStarted env sessionId =
     bindM (nowM env) (\<lambda>now.
     thenM (modifyM (\<lambda>m. m\<lparr>gm_stepStarts := mapSet sessionId now (gm_stepStarts m)\<rparr>)) (
     bindM (getGoal env sessionId) (\<lambda>found.
       modifyM (\<lambda>m. m\<lparr>gm_stepGoalIds :=
         (case found of
            Some goal \<Rightarrow> if tg_status goal = GoalActive
                         then mapSet sessionId (sg_goalId goal) (gm_stepGoalIds m)
                         else mapDelete sessionId (gm_stepGoalIds m)
          | None \<Rightarrow> mapDelete sessionId (gm_stepGoalIds m))\<rparr>))))"

definition handleStepEnded :: "'s goal_env \<Rightarrow> string \<Rightarrow> runtime_tokens option \<Rightarrow> ('s, unit) goalM" where
  "handleStepEnded env sessionId tokens =
     bindM (readM (\<lambda>m. (mapGet (gm_stepStarts m) sessionId, mapGet (gm_stepGoalIds m) sessionId)))
       (\<lambda>(startedAt, goalId).
     thenM (forgetStep sessionId) (
     bindM (case startedAt of None \<Rightarrow> returnM 0
            | Some t \<Rightarrow> bindM (nowM env) (\<lambda>now. returnM (elapsedSince t now))) (\<lambda>elapsedSeconds.
     thenM (accountTrackedStepUsage env sessionId goalId elapsedSeconds
              (Some (usageDeltaFromRuntimeTokens tokens)))
       (returnM ()))))"

definition handleRuntimeEvent :: "'s goal_env \<Rightarrow> goal_runtime_event \<Rightarrow> ('s, unit) goalM" where
  "handleRuntimeEvent env event =
     (case eventSession event of None \<Rightarrow> returnM ()
      | Some sessionId \<Rightarrow>
          if sessionId = [] then returnM ()
          else if (ev_type event = ''session.next.step.failed'' \<or> ev_type event = ''session.error'')
                  \<and> (ev_propertiesUsageLimited event \<or> ev_dataUsageLimited event)
          then thenM (markUsageLimited env sessionId) (forgetStep sessionId)
          else if ev_type event = ''session.next.step.started'' then handleStepStarted env sessionId
          else if ev_type event = ''session.next.step.failed'' then forgetStep sessionId
          else if ev_type event \<noteq> ''session.next.step.ended'' then returnM ()
          else handleStepEnded env sessionId (ev_tokens event))"

end
