(* ===== verification/Goal_Invariant.thy ===== *)
theory Goal_Invariant
  imports Goal_Manager
begin

text \<open>
  What the goal manager keeps true of every stored goal, proved once from the contract of the goal
  store (locale \<open>goal_store_laws\<close>) and so for every store that is an instance of it.
\<close>

section \<open>Well-formed goals\<close>

definition goal_wf :: "string \<Rightarrow> stored_goal \<Rightarrow> bool" where
  "goal_wf k g \<longleftrightarrow>
     tg_threadId g = k
   \<and> validateThreadGoalObjective (tg_objective g) = None
   \<and> 0 \<le> tg_tokensUsed g \<and> 0 \<le> tg_timeUsedSeconds g
   \<and> (\<forall>b. tg_tokenBudget g = Some b \<longrightarrow> 0 < b)
   \<and> (tg_status g = GoalActive \<longrightarrow> \<not> overBudget g (tg_tokensUsed g))
   \<and> (tg_status g = GoalBudgetLimited \<longrightarrow> overBudget g (tg_tokensUsed g))
   \<and> (sg_budgetLimitReported g \<longrightarrow> tg_status g = GoalBudgetLimited)"

text \<open>Updates that keep a goal well formed whatever the goal is.\<close>

definition update_wf :: "goal_update \<Rightarrow> bool" where
  "update_wf u \<longleftrightarrow>
     (\<forall>x. gu_objective u = Some x \<longrightarrow> validateThreadGoalObjective x = None)
   \<and> gu_timeUsedSeconds u = None \<and> gu_tokensUsed u = None
   \<and> (\<forall>b. gu_tokenBudget u = Some (Some b) \<longrightarrow> 0 < b)
   \<and> gu_status u \<noteq> Some GoalBudgetLimited
   \<and> (gu_status u = None \<longrightarrow> gu_tokenBudget u = None)"

lemmas update_defs = updatedGoal_def noUpdate_def orElse_def Let_def statusAfterBudget_def overBudget_def

lemma updatedGoal_wf: "goal_wf k g \<Longrightarrow> update_wf u \<Longrightarrow> goal_wf k (updatedGoal g u now)"
  by (auto simp: goal_wf_def update_wf_def update_defs split: option.splits if_splits)

lemma updatedGoal_frame [simp]:
  "tg_threadId (updatedGoal g u now) = tg_threadId g"
  "sg_goalId (updatedGoal g u now) = sg_goalId g"
  "tg_createdAt (updatedGoal g u now) = tg_createdAt g"
  by (simp_all add: updatedGoal_def Let_def)

text \<open>The update that charges usage to a goal.\<close>

definition chargeUpdate :: "stored_goal \<Rightarrow> rat \<Rightarrow> rat \<Rightarrow> goal_update" where
  "chargeUpdate goal elapsed tokenDelta = noUpdate\<lparr>
     gu_timeUsedSeconds := Some (tg_timeUsedSeconds goal + elapsed),
     gu_tokensUsed := Some (tg_tokensUsed goal + tokenDelta),
     gu_status := Some (if tg_status goal \<noteq> GoalComplete \<and> overBudget goal (tg_tokensUsed goal + tokenDelta)
                        then GoalBudgetLimited else tg_status goal)\<rparr>"

lemma chargeUpdate_wf:
  "goal_wf k g \<Longrightarrow> 0 \<le> elapsed \<Longrightarrow> 0 \<le> tokenDelta
     \<Longrightarrow> goal_wf k (updatedGoal g (chargeUpdate g elapsed tokenDelta) now)"
  by (auto simp: goal_wf_def chargeUpdate_def update_defs split: option.splits if_splits)

lemma chargeUpdate_fields:
  "tg_tokensUsed (updatedGoal g (chargeUpdate g elapsed tokenDelta) now) = tg_tokensUsed g + tokenDelta"
  "tg_timeUsedSeconds (updatedGoal g (chargeUpdate g elapsed tokenDelta) now) = tg_timeUsedSeconds g + elapsed"
  "tg_objective (updatedGoal g (chargeUpdate g elapsed tokenDelta) now) = tg_objective g"
  "tg_tokenBudget (updatedGoal g (chargeUpdate g elapsed tokenDelta) now) = tg_tokenBudget g"
  by (simp_all add: chargeUpdate_def update_defs)

lemma threadGoalTokenDelta_nonneg [simp]: "0 \<le> threadGoalTokenDelta u"
  by (simp add: threadGoalTokenDelta_def)

lemma usageTokens_nonneg [simp]: "0 \<le> usageTokens u"
  by (simp add: usageTokens_def split: option.split)

lemma validBudget_pos:
  "validateThreadGoalBudget b = None \<Longrightarrow> map_option numRat b = Some r \<Longrightarrow> 0 < r"
  by (auto simp: validateThreadGoalBudget_def split: if_splits) (metis numInteger.elims(2) numLe.simps(1) numRat.simps(1) linorder_not_le)

lemma newStoredGoal_wf:
  "validateThreadGoalObjective x = None \<Longrightarrow> (\<forall>b. budget = Some b \<longrightarrow> 0 < b)
     \<Longrightarrow> goal_wf k (newStoredGoal k i x budget GoalActive now)"
  by (auto simp: goal_wf_def newStoredGoal_def statusAfterBudget_def overBudget_def split: option.splits)

text \<open>The two accounting methods in terms of the charge.\<close>

lemma goal_status_all:
  "(s \<notin> {GoalActive, GoalPaused, GoalBlocked, GoalUsageLimited, GoalBudgetLimited, GoalComplete}) = False"
  by (cases s) simp_all

lemma if_merge: "(if a then x else if b then x else y) = (if a \<or> b then x else y)"
  by simp

lemma accountTracked_alt:
  "accountTrackedStepUsage env k i e usage = bindM (getGoal env k) (\<lambda>found.
     case found of None \<Rightarrow> returnM None
     | Some goal \<Rightarrow>
         if i = None \<or> i = Some [] \<or> i \<noteq> Some (sg_goalId goal)
            \<or> (max 0 (truncR e) = 0 \<and> usageTokens usage = 0) then returnM (Some goal)
         else bindM (updateExistingGoal env k (chargeUpdate goal (max 0 (truncR e)) (usageTokens usage)))
                (\<lambda>g. returnM (Some g)))"
  unfolding accountTrackedStepUsage_def goal_status_all chargeUpdate_def Let_def if_False if_merge disj_assoc simp_thms
  by (rule TrueI)

lemma accountUsage_alt:
  "accountUsage env k e DefaultMode usage = bindM (getGoal env k) (\<lambda>found.
     case found of None \<Rightarrow> returnM None
     | Some goal \<Rightarrow>
         if tg_status goal \<noteq> GoalActive
            \<or> (max 0 (truncR e) = 0 \<and> usageTokens usage = 0) then returnM (Some goal)
         else bindM (updateExistingGoal env k (chargeUpdate goal (max 0 (truncR e)) (usageTokens usage)))
                (\<lambda>g. returnM (Some g)))"
proof -
  have *: "noUpdate\<lparr>gu_timeUsedSeconds := Some (tg_timeUsedSeconds goal + e),
                    gu_tokensUsed := Some (tg_tokensUsed goal + d),
                    gu_status := Some (if overBudget goal (tg_tokensUsed goal + d)
                                       then GoalBudgetLimited else tg_status goal)\<rparr>
           = chargeUpdate goal e d" if "tg_status goal = GoalActive" for goal e d
    using that by (simp add: chargeUpdate_def)
  show ?thesis
    unfolding accountUsage_def Let_def if_merge
    by (simp, rule arg_cong [where f = "bindM (getGoal env k)"], rule ext, rule option.case_cong,
        rule refl, rule refl, rule if_cong) (auto simp: *)
qed

section \<open>The manager over any lawful store\<close>

text \<open>Every stored goal of a readable store is well formed.\<close>

definition mgr_inv ::
  "('s \<Rightarrow> bool) \<Rightarrow> ('s \<Rightarrow> string \<Rightarrow> stored_goal option) \<Rightarrow> 's goal_manager \<Rightarrow> bool" where
  "mgr_inv ok view m \<longleftrightarrow> ok (gm_store m) \<and> (\<forall>k g. view (gm_store m) k = Some g \<longrightarrow> goal_wf k g)"

lemma mgr_inv_update:
  assumes "mgr_inv ok view m" and "ok (gm_store m')"
    and "view (gm_store m') = (view (gm_store m))(k := Some g)" and "goal_wf k g"
  shows "mgr_inv ok view m'"
  using assms by (auto simp: mgr_inv_def split: if_splits)

context goal_store_laws
begin

lemma getGoal_eq:
  "ge_store env = store \<Longrightarrow> ok (gm_store m) \<Longrightarrow> getGoal env k m = (Inr (view (gm_store m) k), m)"
  by (simp add: getGoal_def store_get)

lemma getGoal_keeps:
  "ge_store env = store \<Longrightarrow> keepsM (mgr_inv ok view) (getGoal env k) (\<lambda>r. \<forall>g. r = Some g \<longrightarrow> goal_wf k g)"
  by (auto simp: keepsM_def getGoal_eq mgr_inv_def)

lemma nowM_keeps: "keepsM (mgr_inv ok view) (nowM env) (\<lambda>_. True)"
  by (simp add: keepsM_def nowM_def mgr_inv_def)

lemma newIdM_keeps: "keepsM (mgr_inv ok view) (newIdM env) (\<lambda>_. True)"
  by (simp add: keepsM_def newIdM_def mgr_inv_def)

lemma readM_keeps: "keepsM (mgr_inv ok view) (readM f) (\<lambda>_. True)"
  by (simp add: keepsM_def readM_def)

lemma modify_steps_keeps:
  "(\<And>m. gm_store (f m) = gm_store m) \<Longrightarrow> keepsM (mgr_inv ok view) (modifyM f) (\<lambda>_. True)"
  by (simp add: keepsM_def modifyM_def mgr_inv_def)

text \<open>Both outcomes of \<open>updateExistingGoal\<close>.\<close>

lemma updateExistingGoal_some:
  assumes "ge_store env = store" and "ok (gm_store m)" and "view (gm_store m) k = Some g"
  shows "\<exists>s'. updateExistingGoal env k u m =
           (Inr (updatedGoal g u (ge_now env (gm_ticks m))),
            m\<lparr>gm_ticks := Suc (gm_ticks m), gm_store := s'\<rparr>)
         \<and> ok s' \<and> view s' = (view (gm_store m))(k := Some (updatedGoal g u (ge_now env (gm_ticks m))))"
proof -
  let ?f = "\<lambda>goal. case goal of None \<Rightarrow> Inl (noGoalExists k)
              | Some g \<Rightarrow> Inr (Some (updatedGoal g u (ge_now env (gm_ticks m))))"
  obtain s' where "gs_update store k ?f (gm_store m) =
      Inr (Some (updatedGoal g u (ge_now env (gm_ticks m))), s')" "ok s'"
    "view s' = (view (gm_store m))(k := Some (updatedGoal g u (ge_now env (gm_ticks m))))"
    using store_update [of "gm_store m" ?f k "Some (updatedGoal g u (ge_now env (gm_ticks m)))"]
      assms(2,3) by auto
  with assms(1) show ?thesis
    by (intro exI [of _ s']) (simp add: updateExistingGoal_def effM_defs nowM_def storeM_def)
qed

lemma updateExistingGoal_none:
  assumes "ge_store env = store" and "ok (gm_store m)" and "view (gm_store m) k = None"
  shows "updateExistingGoal env k u m = (Inl (noGoalExists k), m)"
proof -
  let ?f = "\<lambda>goal. case goal of None \<Rightarrow> Inl (noGoalExists k)
              | Some g \<Rightarrow> Inr (Some (updatedGoal g u (ge_now env (gm_ticks m))))"
  have "gs_update store k ?f (gm_store m) = Inl (noGoalExists k)"
    using store_update_error [of "gm_store m" ?f k] assms(2,3) by auto
  with assms(1) show ?thesis by (simp add: updateExistingGoal_def effM_defs nowM_def storeM_def)
qed

lemma updateExistingGoal_inv:
  assumes "ge_store env = store" and "mgr_inv ok view m"
    and wf: "\<And>g. view (gm_store m) k = Some g \<Longrightarrow> goal_wf k (updatedGoal g u (ge_now env (gm_ticks m)))"
  shows "mgr_inv ok view (snd (updateExistingGoal env k u m))
    \<and> (\<forall>a. fst (updateExistingGoal env k u m) = Inr a \<longrightarrow> goal_wf k a)"
proof (cases "view (gm_store m) k")
  case None
  with assms updateExistingGoal_none [of env m k u] show ?thesis by (auto simp: mgr_inv_def)
next
  case (Some g)
  have okm: "ok (gm_store m)" using assms(2) by (simp add: mgr_inv_def)
  obtain s' where s': "updateExistingGoal env k u m =
      (Inr (updatedGoal g u (ge_now env (gm_ticks m))), m\<lparr>gm_ticks := Suc (gm_ticks m), gm_store := s'\<rparr>)"
    "ok s'" "view s' = (view (gm_store m))(k := Some (updatedGoal g u (ge_now env (gm_ticks m))))"
    using updateExistingGoal_some [OF assms(1) okm Some] by blast
  then have "mgr_inv ok view (m\<lparr>gm_ticks := Suc (gm_ticks m), gm_store := s'\<rparr>)"
    by (intro mgr_inv_update [OF assms(2) _ _ wf [OF Some]]) simp_all
  with s' wf [OF Some] show ?thesis by simp
qed

lemma updateExistingGoal_keeps:
  "ge_store env = store \<Longrightarrow> update_wf u \<Longrightarrow> keepsM (mgr_inv ok view) (updateExistingGoal env k u) (goal_wf k)"
  unfolding keepsM_def
proof (intro allI impI)
  fix m assume "ge_store env = store" "update_wf u" and inv: "mgr_inv ok view m"
  then show "mgr_inv ok view (snd (updateExistingGoal env k u m))
      \<and> (\<forall>a. fst (updateExistingGoal env k u m) = Inr a \<longrightarrow> goal_wf k a)"
    by (intro updateExistingGoal_inv updatedGoal_wf) (auto simp: mgr_inv_def)
qed

lemma set_keeps:
  "ge_store env = store \<Longrightarrow> goal_wf (tg_threadId g) g \<Longrightarrow> keepsM (mgr_inv ok view) (setM env g) (\<lambda>_. True)"
  unfolding keepsM_def
proof (intro allI impI)
  fix m assume st: "ge_store env = store" and wf: "goal_wf (tg_threadId g) g" and inv: "mgr_inv ok view m"
  then obtain s' where "gs_set store g (gm_store m) = Inr s'" "ok s'"
    "view s' = (view (gm_store m))(tg_threadId g := Some g)"
    using store_set [of "gm_store m" g] by (auto simp: mgr_inv_def)
  with st wf mgr_inv_update [OF inv, of "m\<lparr>gm_store := s'\<rparr>"]
  show "mgr_inv ok view (snd (setM env g m)) \<and> (\<forall>a. fst (setM env g m) = Inr a \<longrightarrow> True)"
    by (simp add: setM_def storeM_def)
qed

lemma replaceGoal_keeps:
  assumes "ge_store env = store" and "validateThreadGoalObjective x = None"
    and "\<forall>b. budget = Some b \<longrightarrow> 0 < b"
  shows "keepsM (mgr_inv ok view) (replaceGoal env k x budget GoalActive) (goal_wf k)"
proof -
  have wf: "goal_wf k (newStoredGoal k i x budget GoalActive t)" for i t
    by (rule newStoredGoal_wf) (use assms in auto)
  moreover have "tg_threadId (newStoredGoal k i x budget GoalActive t) = k" for i t
    by (simp add: newStoredGoal_def)
  ultimately show ?thesis unfolding replaceGoal_def Let_def
    by (intro keepsM_bind [OF nowM_keeps] keepsM_bind [OF newIdM_keeps] keepsM_then set_keeps
        keepsM_return assms(1)) simp_all
qed

text \<open>Reading the goal and then charging it keeps the invariant.\<close>

lemma charge_keeps:
  assumes st: "ge_store env = store" and nonneg: "0 \<le> e" "0 \<le> d"
  shows "keepsM (mgr_inv ok view) (bindM (getGoal env k) (\<lambda>found.
     case found of None \<Rightarrow> returnM None
     | Some goal \<Rightarrow> if c goal then returnM (Some goal)
         else bindM (updateExistingGoal env k (chargeUpdate goal e d)) (\<lambda>g. returnM (Some g))))
    (\<lambda>_. True)"
proof (unfold keepsM_def, intro allI impI conjI)
  fix m assume inv: "mgr_inv ok view m"
  then have okm: "ok (gm_store m)" by (simp add: mgr_inv_def)
  show "mgr_inv ok view (snd (bindM (getGoal env k) (\<lambda>found.
     case found of None \<Rightarrow> returnM None
     | Some goal \<Rightarrow> if c goal then returnM (Some goal)
         else bindM (updateExistingGoal env k (chargeUpdate goal e d)) (\<lambda>g. returnM (Some g))) m))"
  proof (cases "view (gm_store m) k")
    case None
    with inv okm st show ?thesis by (simp add: bindM_def getGoal_eq returnM_def)
  next
    case (Some g)
    have "goal_wf k g" using Some inv by (simp add: mgr_inv_def)
    then have "goal_wf k (updatedGoal g' (chargeUpdate g e d) t)" if "view (gm_store m) k = Some g'" for g' t
      using that Some nonneg by (simp add: chargeUpdate_wf)
    then have "mgr_inv ok view (snd (updateExistingGoal env k (chargeUpdate g e d) m))"
      using updateExistingGoal_inv [OF st inv, of k "chargeUpdate g e d"] by blast
    then have "mgr_inv ok view (snd (bindM (updateExistingGoal env k (chargeUpdate g e d)) (\<lambda>g. returnM (Some g)) m))"
      by (auto simp: bindM_def returnM_def split: prod.splits sum.splits)
    with Some inv okm st show ?thesis
      by (simp add: bindM_def [of "getGoal env k"] getGoal_eq returnM_def [of _ m])
  qed
qed simp

lemma accountTracked_keeps:
  "ge_store env = store \<Longrightarrow> keepsM (mgr_inv ok view) (accountTrackedStepUsage env k i e usage) (\<lambda>_. True)"
  unfolding accountTracked_alt by (rule charge_keeps) simp_all

lemma accountUsage_keeps:
  "ge_store env = store \<Longrightarrow> keepsM (mgr_inv ok view) (accountUsage env k e md usage) (\<lambda>_. True)"
proof (cases md)
  case DefaultMode
  assume "ge_store env = store"
  then show ?thesis unfolding DefaultMode accountUsage_alt by (intro charge_keeps) simp_all
next
  case PlanMode
  assume "ge_store env = store"
  with PlanMode show ?thesis by (simp add: accountUsage_def keepsM_weaken [OF getGoal_keeps])
qed

lemma accountInFlight_keeps:
  assumes "ge_store env = store"
  shows "keepsM (mgr_inv ok view) (accountInFlightElapsed env k) (\<lambda>_. True)"
  unfolding accountInFlightElapsed_def Let_def
  by (intro keepsM_bind [OF readM_keeps] keepsM_bind [OF nowM_keeps] keeps_rules
      keepsM_bind [OF accountTracked_keeps [OF assms]] modify_steps_keeps TrueI) simp

end

end
