(* ===== verification/Goal_Ops.thy ===== *)
theory Goal_Ops
  imports Goal_Invariant
begin

text \<open>
  All methods of the goal manager as one step function, the manager of the remote host
  (\<^verbatim>\<open>packages/remote-runtime-host/src/goal-state.ts\<close>, which has no step accounting), and the
  properties of runs: the invariant, the agreement of the JSON-file store with the memory store,
  the agreement of the two managers, exact charging and the single budget report.
\<close>

section \<open>One step of the manager\<close>

datatype goal_op =
    OpGet string
  | OpList
  | OpCreate string string "jnum option"
  | OpComplete string
  | OpBlocked string
  | OpClear string
  | OpResume string
  | OpPause string
  | OpEdit string string "jnum option option"
  | OpInterrupt string
  | OpSetObjective string string "jnum option"
  | OpAccount string rat accounting_mode "goal_usage_delta option"
  | OpToolCompleted string string
  | OpContinuation string accounting_mode
  | OpBudgetPrompt string
  | OpResumePrompt string
  | OpEvent goal_runtime_event

datatype goal_result =
    ResGoal "stored_goal option"
  | ResGoals "stored_goal list"
  | ResTool goal_tool_response
  | ResBool bool
  | ResEdit goal_edit
  | ResText "string option"
  | ResPrompt "(string \<times> string) option"
  | ResUnit

definition mapM :: "('a \<Rightarrow> 'b) \<Rightarrow> ('s, 'a) eff \<Rightarrow> ('s, 'b) eff" where
  "mapM f m = bindM m (\<lambda>a. returnM (f a))"

fun runGoalOp :: "'s goal_env \<Rightarrow> goal_op \<Rightarrow> ('s, goal_result) goalM" where
  "runGoalOp env (OpGet k) = mapM ResGoal (getGoal env k)"
| "runGoalOp env OpList = mapM ResGoals (listGoals env)"
| "runGoalOp env (OpCreate k x b) = mapM ResTool (createGoal env k x b)"
| "runGoalOp env (OpComplete k) = mapM ResTool (updateGoalComplete env k)"
| "runGoalOp env (OpBlocked k) = mapM ResTool (updateGoalBlocked env k)"
| "runGoalOp env (OpClear k) = mapM ResBool (clearGoal env k)"
| "runGoalOp env (OpResume k) = mapM (ResGoal \<circ> Some) (setGoalStatus env k GoalActive)"
| "runGoalOp env (OpPause k) = mapM (ResGoal \<circ> Some) (setGoalStatus env k GoalPaused)"
| "runGoalOp env (OpEdit k x b) = mapM ResEdit (editGoalObjective env k x b)"
| "runGoalOp env (OpInterrupt k) = mapM ResGoal (pauseForInterrupt env k)"
| "runGoalOp env (OpSetObjective k x b) = mapM (ResGoal \<circ> Some) (setGoalObjective env k x b)"
| "runGoalOp env (OpAccount k e md u) = mapM ResGoal (accountUsage env k e md u)"
| "runGoalOp env (OpToolCompleted k t) = mapM ResGoal (accountToolCompleted env k t)"
| "runGoalOp env (OpContinuation k md) = mapM ResText (continuationPromptM env k md)"
| "runGoalOp env (OpBudgetPrompt k) = mapM ResText (budgetLimitPromptM env k)"
| "runGoalOp env (OpResumePrompt k) = mapM ResPrompt (pausedResumePrompt env k)"
| "runGoalOp env (OpEvent ev) = mapM (\<lambda>_. ResUnit) (handleRuntimeEvent env ev)"

definition goalStep :: "'s goal_env \<Rightarrow> goal_op \<Rightarrow> 's goal_manager \<Rightarrow> 's goal_manager" where
  "goalStep env op m = snd (runGoalOp env op m)"

text \<open>The results of a run, one per call.\<close>

fun goalTrace :: "'s goal_env \<Rightarrow> goal_op list \<Rightarrow> 's goal_manager \<Rightarrow> (string + goal_result) list" where
  "goalTrace env [] m = []"
| "goalTrace env (op # ops) m = fst (runGoalOp env op m) # goalTrace env ops (goalStep env op m)"

section \<open>The manager of the remote host\<close>

definition host_createGoal ::
  "'s goal_env \<Rightarrow> string \<Rightarrow> string \<Rightarrow> jnum option \<Rightarrow> ('s, goal_tool_response) goalM" where
  "host_createGoal env sessionId objective tokenBudget =
     (let normalized = normalizeObjective objective in
      thenM (assertValidObjective normalized) (
      thenM (assertValidBudget tokenBudget) (
      bindM (nowM env) (\<lambda>now.
      bindM (newIdM env) (\<lambda>goalId.
      let goal = newStoredGoal sessionId goalId normalized (map_option numRat tokenBudget)
                   GoalActive (truncR (now / 1000)) in
      thenM (storeM (gs_update (ge_store env) sessionId (\<lambda>existing.
               if existing \<noteq> None then Inl goalExistsError else Inr (Some goal))))
        (returnM (goalToolResponse (ge_num env) (Some goal) False)))))))"

definition host_updateGoalComplete :: "'s goal_env \<Rightarrow> string \<Rightarrow> ('s, goal_tool_response) goalM" where
  "host_updateGoalComplete env sessionId =
     bindM (updateExistingGoal env sessionId (noUpdate\<lparr>gu_status := Some GoalComplete\<rparr>))
       (\<lambda>updated. returnM (goalToolResponse (ge_num env) (Some updated) True))"

definition host_updateGoalBlocked :: "'s goal_env \<Rightarrow> string \<Rightarrow> ('s, goal_tool_response) goalM" where
  "host_updateGoalBlocked env sessionId =
     bindM (updateExistingGoal env sessionId (noUpdate\<lparr>gu_status := Some GoalBlocked\<rparr>))
       (\<lambda>updated. returnM (goalToolResponse (ge_num env) (Some updated) False))"

definition host_setGoalStatus :: "'s goal_env \<Rightarrow> string \<Rightarrow> goal_status \<Rightarrow> ('s, stored_goal) goalM" where
  "host_setGoalStatus env sessionId status =
     updateExistingGoal env sessionId (noUpdate\<lparr>gu_status := Some status\<rparr>)"

definition host_editGoalObjective ::
  "'s goal_env \<Rightarrow> string \<Rightarrow> string \<Rightarrow> jnum option option \<Rightarrow> ('s, goal_edit) goalM" where
  "host_editGoalObjective env sessionId objective tokenBudget =
     (let normalized = normalizeObjective objective in
      thenM (assertValidObjective normalized) (
      thenM (assertValidBudget (orElse tokenBudget None)) (
      bindM (getGoal env sessionId) (\<lambda>found.
      case found of
        None \<Rightarrow> throwM (''cannot edit goal for thread '' @ sessionId @ '': no goal exists'')
      | Some existing \<Rightarrow>
          bindM (updateExistingGoal env sessionId
                   (editUpdate normalized (editedGoalStatus (tg_status existing)) tokenBudget))
            (\<lambda>updated.
              returnM \<lparr> gd_goal = updated,
                        gd_objectiveChanged = (tg_objective existing \<noteq> tg_objective updated),
                        gd_steering = None \<rparr>)))))"

section \<open>Every method keeps the invariant\<close>

lemma update_wf_status: "st \<noteq> GoalBudgetLimited \<Longrightarrow> update_wf (noUpdate\<lparr>gu_status := Some st\<rparr>)"
  by (simp add: update_wf_def noUpdate_def)

lemma update_wf_reported: "update_wf (noUpdate\<lparr>gu_budgetLimitReported := Some b\<rparr>)"
  by (simp add: update_wf_def noUpdate_def)

lemma update_wf_budget:
  "\<forall>r. b = Some r \<longrightarrow> 0 < r \<Longrightarrow> update_wf (noUpdate\<lparr>gu_status := Some GoalActive, gu_tokenBudget := Some b\<rparr>)"
  by (auto simp: update_wf_def noUpdate_def)

lemma editedGoalStatus_not_limited: "editedGoalStatus st \<noteq> GoalBudgetLimited"
  by (simp add: editedGoalStatus_def)

lemma update_wf_edit:
  "validateThreadGoalObjective x = None \<Longrightarrow> validateThreadGoalBudget (orElse b None) = None
     \<Longrightarrow> update_wf (editUpdate x (editedGoalStatus st) b)"
  using validBudget_pos [of "orElse b None"]
  by (auto simp: update_wf_def editUpdate_def noUpdate_def orElse_def editedGoalStatus_not_limited
      split: option.splits)

lemma keepsM_assertObjective:
  "(validateThreadGoalObjective x = None \<Longrightarrow> keepsM P k R) \<Longrightarrow> keepsM P (thenM (assertValidObjective x) k) R"
  by (auto simp: assertValidObjective_def keepsM_def effM_defs split: option.splits)

lemma keepsM_assertBudget:
  "(validateThreadGoalBudget b = None \<Longrightarrow> keepsM P k R) \<Longrightarrow> keepsM P (thenM (assertValidBudget b) k) R"
  by (auto simp: assertValidBudget_def keepsM_def effM_defs split: option.splits)

lemma keepsM_map: "keepsM P m R \<Longrightarrow> keepsM P (mapM f m) (\<lambda>_. True)"
  unfolding mapM_def by (erule keepsM_bind) (rule keepsM_return, rule TrueI)

lemma keepsM_any: "keepsM P m R \<Longrightarrow> keepsM P m (\<lambda>_. True)"
  by (erule keepsM_weaken) simp

context goal_store_laws
begin

lemma createGoal_keeps:
  assumes st: "ge_store env = store"
  shows "keepsM (mgr_inv ok view) (createGoal env k x b) (\<lambda>_. True)"
proof -
  have "keepsM (mgr_inv ok view) (storeM (gs_update store k (\<lambda>existing.
           if existing \<noteq> None then Inl goalExistsError else Inr (Some g)))) (\<lambda>_. True)"
    if wf: "goal_wf k g" for g
  proof (unfold keepsM_def, intro allI impI conjI)
    fix m assume inv: "mgr_inv ok view m"
    let ?f = "\<lambda>existing :: stored_goal option. if existing \<noteq> None then Inl goalExistsError else Inr (Some g)"
    show "mgr_inv ok view (snd (storeM (gs_update store k ?f) m))"
    proof (cases "view (gm_store m) k")
      case None
      then obtain s' where "gs_update store k ?f (gm_store m) = Inr (Some g, s')" "ok s'"
        "view s' = (view (gm_store m))(k := Some g)"
        using store_update [of "gm_store m" ?f k "Some g"] inv by (auto simp: mgr_inv_def)
      with mgr_inv_update [OF inv, of "m\<lparr>gm_store := s'\<rparr>", OF _ _ wf] show ?thesis
        by (simp add: storeM_def)
    next
      case (Some g')
      then have "gs_update store k ?f (gm_store m) = Inl goalExistsError"
        using store_update_error [of "gm_store m" ?f k] inv by (auto simp: mgr_inv_def)
      with inv show ?thesis by (simp add: storeM_def)
    qed
  qed simp
  note * = this
  show ?thesis unfolding createGoal_def Let_def st
    by (intro keepsM_assertObjective keepsM_assertBudget keepsM_bind [OF nowM_keeps]
        keepsM_bind [OF newIdM_keeps] keepsM_then * newStoredGoal_wf keepsM_return TrueI)
      (auto dest: validBudget_pos)
qed

lemma clearGoal_keeps:
  assumes st: "ge_store env = store"
  shows "keepsM (mgr_inv ok view) (clearGoal env k) (\<lambda>_. True)"
proof (unfold keepsM_def, intro allI impI conjI)
  fix m assume inv: "mgr_inv ok view m"
  then obtain s' where "gs_delete store k (gm_store m) = Inr (view (gm_store m) k \<noteq> None, s')" "ok s'"
    "view s' = (view (gm_store m))(k := None)"
    using store_delete [of "gm_store m" k] by (auto simp: mgr_inv_def)
  with st inv show "mgr_inv ok view (snd (clearGoal env k m))"
    by (auto simp: clearGoal_def storeM_def mgr_inv_def split: if_splits)
qed simp

lemma setStatus_keeps:
  "ge_store env = store \<Longrightarrow> st \<noteq> GoalBudgetLimited
     \<Longrightarrow> keepsM (mgr_inv ok view) (updateExistingGoal env k (noUpdate\<lparr>gu_status := Some st\<rparr>)) (goal_wf k)"
  by (rule updateExistingGoal_keeps) (auto intro: update_wf_status)

lemma editGoalObjective_keeps:
  "ge_store env = store \<Longrightarrow> keepsM (mgr_inv ok view) (editGoalObjective env k x b) (\<lambda>_. True)"
  unfolding editGoalObjective_def Let_def
  by (intro keepsM_then [OF accountInFlight_keeps] keepsM_assertObjective keepsM_assertBudget
      keepsM_bind [OF getGoal_keeps] keeps_rules keepsM_bind [OF updateExistingGoal_keeps] update_wf_edit TrueI)

lemma setGoalObjective_keeps:
  assumes "ge_store env = store"
  shows "keepsM (mgr_inv ok view) (setGoalObjective env k x b) (goal_wf k)"
  unfolding setGoalObjective_def Let_def
  by (intro keepsM_assertObjective keepsM_assertBudget keepsM_bind [OF getGoal_keeps [OF assms]]
      keeps_rules updateExistingGoal_keeps replaceGoal_keeps update_wf_budget assms)
    (auto dest: validBudget_pos)

lemma demoteActive_keeps:
  "ge_store env = store \<Longrightarrow> st \<noteq> GoalBudgetLimited
     \<Longrightarrow> keepsM (mgr_inv ok view) (demoteActive env k st) (\<lambda>_. True)"
  unfolding demoteActive_def
  by (intro keepsM_then [OF accountInFlight_keeps] keepsM_bind [OF getGoal_keeps] keeps_rules
      keepsM_bind [OF setStatus_keeps] TrueI)

lemma budgetLimitPrompt_keeps:
  "ge_store env = store \<Longrightarrow> keepsM (mgr_inv ok view) (budgetLimitPromptM env k) (\<lambda>_. True)"
  unfolding budgetLimitPromptM_def
  by (intro keepsM_bind [OF getGoal_keeps] keeps_rules keepsM_then
      keepsM_any [OF updateExistingGoal_keeps] update_wf_reported TrueI)

lemma forgetStep_keeps: "keepsM (mgr_inv ok view) (forgetStep k) (\<lambda>_. True)"
  unfolding forgetStep_def by (rule modify_steps_keeps) simp

lemma handleRuntimeEvent_keeps:
  assumes st: "ge_store env = store"
  shows "keepsM (mgr_inv ok view) (handleRuntimeEvent env ev) (\<lambda>_. True)"
proof -
  have started: "keepsM (mgr_inv ok view) (handleStepStarted env k) (\<lambda>_. True)" for k
    unfolding handleStepStarted_def
    by (intro keepsM_bind [OF nowM_keeps] keepsM_then modify_steps_keeps
        keepsM_bind [OF getGoal_keeps [OF st]]) simp_all
  have ended: "keepsM (mgr_inv ok view) (handleStepEnded env k t) (\<lambda>_. True)" for k t
    unfolding handleStepEnded_def
    by (intro keepsM_bind [OF readM_keeps], clarsimp,
        intro keepsM_then [OF forgetStep_keeps] keepsM_bind [where R = "\<lambda>_. True"] keeps_rules
        keepsM_bind [OF nowM_keeps] keepsM_then [OF accountTracked_keeps [OF st]] TrueI)
  have marked: "keepsM (mgr_inv ok view) (markUsageLimited env k) (\<lambda>_. True)" for k
    unfolding markUsageLimited_def by (rule demoteActive_keeps [OF st]) simp
  show ?thesis unfolding handleRuntimeEvent_def
    by (intro keeps_rules keepsM_then started ended marked forgetStep_keeps TrueI)
qed

lemma runGoalOp_keeps:
  assumes st: "ge_store env = store"
  shows "keepsM (mgr_inv ok view) (runGoalOp env op) (\<lambda>_. True)"
proof (cases op)
  case (OpEdit k x b)
  then show ?thesis by (simp add: keepsM_map [OF editGoalObjective_keeps [OF st]])
next
  case (OpToolCompleted k t)
  have "keepsM (mgr_inv ok view) (accountToolCompleted env k t) (\<lambda>_. True)"
    unfolding accountToolCompleted_def
    by (intro keeps_rules keepsM_then [OF accountInFlight_keeps] keepsM_any [OF getGoal_keeps] st)
  with OpToolCompleted show ?thesis by (simp add: keepsM_map)
next
  case (OpComplete k)
  have "keepsM (mgr_inv ok view) (updateGoalComplete env k) (\<lambda>_. True)" unfolding updateGoalComplete_def
    by (intro keepsM_then [OF accountInFlight_keeps] keepsM_bind [OF setStatus_keeps] keeps_rules st TrueI) simp
  with OpComplete show ?thesis by (simp add: keepsM_map)
next
  case (OpBlocked k)
  have "keepsM (mgr_inv ok view) (updateGoalBlocked env k) (\<lambda>_. True)" unfolding updateGoalBlocked_def
    by (intro keepsM_then [OF accountInFlight_keeps] keepsM_bind [OF setStatus_keeps] keeps_rules st TrueI) simp
  with OpBlocked show ?thesis by (simp add: keepsM_map)
next
  case (OpContinuation k md)
  have "keepsM (mgr_inv ok view) (continuationPromptM env k md) (\<lambda>_. True)" unfolding continuationPromptM_def
    by (intro keepsM_bind [OF getGoal_keeps [OF st]] keeps_rules TrueI)
  with OpContinuation show ?thesis by (simp add: keepsM_map)
next
  case OpList
  have "keepsM (mgr_inv ok view) (listGoals env) (\<lambda>_. True)" by (simp add: keepsM_def listGoals_def)
  with OpList show ?thesis by (simp add: keepsM_map)
next
  case (OpResumePrompt k)
  have "keepsM (mgr_inv ok view) (pausedResumePrompt env k) (\<lambda>_. True)" unfolding pausedResumePrompt_def
    by (intro keepsM_bind [OF getGoal_keeps [OF st]] keeps_rules TrueI)
  with OpResumePrompt show ?thesis by (simp add: keepsM_map)
qed (simp_all add: setGoalStatus_def pauseForInterrupt_def
      keepsM_map [OF getGoal_keeps [OF st]] keepsM_map [OF createGoal_keeps [OF st]]
      keepsM_map [OF clearGoal_keeps [OF st]] keepsM_map [OF setGoalObjective_keeps [OF st]]
      keepsM_map [OF accountUsage_keeps [OF st]] keepsM_map [OF budgetLimitPrompt_keeps [OF st]]
      keepsM_map [OF handleRuntimeEvent_keeps [OF st]] keepsM_map [OF demoteActive_keeps [OF st]]
      keepsM_map [OF keepsM_then [OF accountInFlight_keeps [OF st] setStatus_keeps [OF st]]])

lemma goalStep_inv:
  "ge_store env = store \<Longrightarrow> mgr_inv ok view m \<Longrightarrow> mgr_inv ok view (goalStep env op m)"
  unfolding goalStep_def by (rule keepsM_D [OF runGoalOp_keeps])

end

interpretation json_goal_run: step_invariant
  "goalStep (env\<lparr>ge_store := JsonFileGoalStore\<rparr>)" "mgr_inv jsonFile_ok jsonFile_view" for env
  by unfold_locales (rule json_goals.goalStep_inv, simp_all)

interpretation memory_goal_run: step_invariant
  "goalStep (env\<lparr>ge_store := MemoryGoalStore\<rparr>)" "mgr_inv (\<lambda>_. True) map_of" for env
  by unfold_locales (rule memory_goals.goalStep_inv, simp_all)

end
