(* ===== verification/Goal_Theorems.thy ===== *)
theory Goal_Theorems
  imports Goal_Ops
begin

text \<open>
  Properties of the goal subsystem.  The simulation at the start carries a run over one lawful goal
  store to a run over the memory store: results agree call by call.
\<close>

section \<open>Simulation between stores\<close>

definition simM :: "('s \<Rightarrow> 't \<Rightarrow> bool) \<Rightarrow> ('s, 'a) eff \<Rightarrow> ('t, 'a) eff \<Rightarrow> bool" where
  "simM R m n \<longleftrightarrow> (\<forall>s t. R s t \<longrightarrow> fst (m s) = fst (n t) \<and> R (snd (m s)) (snd (n t)))"

named_theorems sim_rules \<open>rules that establish simM\<close>

lemma sim_return [sim_rules]: "simM R (returnM a) (returnM a)"
  by (simp add: simM_def returnM_def)

lemma sim_throw [sim_rules]: "simM R (throwM e) (throwM e)"
  by (simp add: simM_def throwM_def)

lemma sim_bind [sim_rules]:
  assumes "simM R m n" and "\<And>a. simM R (f a) (g a)"
  shows "simM R (bindM m f) (bindM n g)"
  unfolding simM_def
proof (intro allI impI)
  fix s t assume "R s t"
  obtain r s' where ms: "m s = (r, s')" by fastforce
  obtain r' t' where nt: "n t = (r', t')" by fastforce
  from assms(1) \<open>R s t\<close> ms nt have "r' = r" "R s' t'" by (fastforce simp: simM_def)+
  with assms(2) ms nt
  show "fst (bindM m f s) = fst (bindM n g t) \<and> R (snd (bindM m f s)) (snd (bindM n g t))"
    by (cases r) (auto simp: bindM_def simM_def)
qed

lemma sim_then [sim_rules]: "simM R m n \<Longrightarrow> simM R f g \<Longrightarrow> simM R (thenM m f) (thenM n g)"
  unfolding thenM_def by (rule sim_bind)

lemma sim_map [sim_rules]: "simM R m n \<Longrightarrow> simM R (mapM f m) (mapM f n)"
  unfolding mapM_def by (intro sim_rules)

lemma sim_if [sim_rules]:
  "simM R m n \<Longrightarrow> simM R f g \<Longrightarrow> simM R (if b then m else f) (if b then n else g)"
  by simp

lemma sim_option [sim_rules]:
  "simM R m n \<Longrightarrow> (\<And>a. simM R (f a) (g a)) \<Longrightarrow>
     simM R (case x of None \<Rightarrow> m | Some a \<Rightarrow> f a) (case x of None \<Rightarrow> n | Some a \<Rightarrow> g a)"
  by (cases x) simp_all

lemma sim_prod [sim_rules]:
  "(\<And>a b. simM R (f a b) (g a b)) \<Longrightarrow> simM R (case x of (a, b) \<Rightarrow> f a b) (case x of (a, b) \<Rightarrow> g a b)"
  by (cases x) simp

text \<open>The relation: the same goals in the same order, and the same bookkeeping.\<close>

definition mgr_rel ::
  "('s \<Rightarrow> bool) \<Rightarrow> ('s \<Rightarrow> goal_sessions) \<Rightarrow> 's goal_manager \<Rightarrow> goal_sessions goal_manager \<Rightarrow> bool" where
  "mgr_rel ok entries m n \<longleftrightarrow>
     ok (gm_store m) \<and> entries (gm_store m) = gm_store n
   \<and> gm_stepStarts m = gm_stepStarts n \<and> gm_stepGoalIds m = gm_stepGoalIds n
   \<and> gm_ticks m = gm_ticks n \<and> gm_ids m = gm_ids n"

definition env_rel :: "'s goal_store \<Rightarrow> 's goal_env \<Rightarrow> goal_sessions goal_env \<Rightarrow> bool" where
  "env_rel store env env' \<longleftrightarrow>
     ge_store env = store \<and> ge_store env' = MemoryGoalStore
   \<and> ge_now env = ge_now env' \<and> ge_id env = ge_id env' \<and> ge_num env = ge_num env'"

lemma assert_sim [sim_rules]:
  "simM R (assertValidObjective x) (assertValidObjective x)"
  "simM R (assertValidBudget b) (assertValidBudget b)"
  by (simp_all add: simM_def assertValidObjective_def assertValidBudget_def effM_defs split: option.split)

lemma modify_sim [sim_rules]:
  "(\<And>m n. R m n \<Longrightarrow> R (f m) (g n)) \<Longrightarrow> simM R (modifyM f) (modifyM g)"
  by (simp add: simM_def modifyM_def)

lemma read_sim [sim_rules]:
  "(\<And>m n. R m n \<Longrightarrow> f m = g n) \<Longrightarrow> simM R (readM f) (readM g)"
  by (simp add: simM_def readM_def)

context ordered_goal_store
begin

abbreviation R where "R \<equiv> mgr_rel ok entries"

lemma now_sim: "env_rel store env env' \<Longrightarrow> simM R (nowM env) (nowM env')"
  by (auto simp: simM_def nowM_def env_rel_def mgr_rel_def)

lemma clock_sim: "env_rel store env env' \<Longrightarrow>
    simM R (readM (\<lambda>m. ge_now env (gm_ticks m))) (readM (\<lambda>m. ge_now env' (gm_ticks m)))"
  by (auto simp: simM_def readM_def env_rel_def mgr_rel_def)

lemma tick_sim: "simM R (modifyM (\<lambda>m. m\<lparr>gm_ticks := Suc (gm_ticks m)\<rparr>)) (modifyM (\<lambda>m. m\<lparr>gm_ticks := Suc (gm_ticks m)\<rparr>))"
  by (simp add: simM_def modifyM_def mgr_rel_def)

lemma newId_sim: "env_rel store env env' \<Longrightarrow> simM R (newIdM env) (newIdM env')"
  by (auto simp: simM_def newIdM_def env_rel_def mgr_rel_def)

lemma get_sim: "env_rel store env env' \<Longrightarrow> simM R (getGoal env k) (getGoal env' k)"
  by (auto simp: simM_def getGoal_def env_rel_def mgr_rel_def store_get memory_goals.store_get view_entries)

lemma list_sim: "env_rel store env env' \<Longrightarrow> simM R (listGoals env) (listGoals env')"
  by (auto simp: simM_def listGoals_def env_rel_def mgr_rel_def list_entries ordered_memory.list_entries)

lemma update_sim:
  assumes "env_rel store env env'"
  shows "simM R (storeM (gs_update (ge_store env) k f)) (storeM (gs_update (ge_store env') k f))"
  unfolding simM_def
proof (intro allI impI)
  fix m n assume rel: "mgr_rel ok entries m n"
  have e: "ge_store env = store" "ge_store env' = MemoryGoalStore"
    using assms by (simp_all add: env_rel_def)
  have rel': "ok (gm_store m)" "map_of (gm_store n) = view (gm_store m)" "entries (gm_store m) = gm_store n"
    using rel by (simp_all add: mgr_rel_def view_entries)
  show "fst (storeM (gs_update (ge_store env) k f) m) = fst (storeM (gs_update (ge_store env') k f) n)
    \<and> R (snd (storeM (gs_update (ge_store env) k f) m)) (snd (storeM (gs_update (ge_store env') k f) n))"
  proof (cases "f (view (gm_store m) k)")
    case (Inl x)
    have "gs_update store k f (gm_store m) = Inl x" "gs_update MemoryGoalStore k f (gm_store n) = Inl x"
      using store_update_error [of "gm_store m" f k x] memory_goals.store_update_error [where s = "gm_store n" and f = f and k = k and e = x]
        Inl rel' by simp_all
    with rel e show ?thesis by (simp add: storeM_def)
  next
    case (Inr r)
    obtain s' where s': "gs_update store k f (gm_store m) = Inr (r, s')" "ok s'"
      using store_update [of "gm_store m" f k r] Inr rel' by auto
    moreover obtain t' where t': "gs_update MemoryGoalStore k f (gm_store n) = Inr (r, t')"
      using memory_goals.store_update [where s = "gm_store n" and f = f and k = k and r = r] Inr rel' by auto
    moreover have "entries s' = t'"
      by (rule trans [OF update_entries [OF rel'(1) s'(1)]]) (simp only: ordered_memory.update_entries [OF TrueI t'] rel'(3))
    ultimately show ?thesis using rel e by (simp add: storeM_def mgr_rel_def)
  qed
qed

lemma set_sim: "env_rel store env env' \<Longrightarrow> simM R (setM env g) (setM env' g)"
  unfolding simM_def
proof (intro allI impI)
  fix m n assume e: "env_rel store env env'" and rel: "mgr_rel ok entries m n"
  then have rel': "ok (gm_store m)" "entries (gm_store m) = gm_store n" by (simp_all add: mgr_rel_def)
  obtain s' where "gs_set store g (gm_store m) = Inr s'" "ok s'" using store_set [OF rel'(1), of g] by auto
  moreover obtain t' where "gs_set MemoryGoalStore g (gm_store n) = Inr t'"
    using memory_goals.store_set [where s = "gm_store n" and g = g] by auto
  moreover from calculation have "entries s' = t'"
    using set_entries [OF rel'(1)] ordered_memory.set_entries [where s = "gm_store n"] rel'(2) by fastforce
  ultimately show "fst (setM env g m) = fst (setM env' g n) \<and> R (snd (setM env g m)) (snd (setM env' g n))"
    using rel e by (simp add: setM_def storeM_def mgr_rel_def env_rel_def)
qed

lemma delete_sim: "env_rel store env env' \<Longrightarrow> simM R (clearGoal env k) (clearGoal env' k)"
  unfolding simM_def
proof (intro allI impI)
  fix m n assume e: "env_rel store env env'" and rel: "mgr_rel ok entries m n"
  then have rel': "ok (gm_store m)" "entries (gm_store m) = gm_store n" "view (gm_store m) = map_of (gm_store n)"
    by (simp_all add: mgr_rel_def view_entries)
  obtain s' where "gs_delete store k (gm_store m) = Inr (view (gm_store m) k \<noteq> None, s')" "ok s'"
    using store_delete [OF rel'(1), of k] by auto
  moreover obtain t' where "gs_delete MemoryGoalStore k (gm_store n) = Inr (map_of (gm_store n) k \<noteq> None, t')"
    using memory_goals.store_delete [where s = "gm_store n" and k = k] by auto
  moreover from calculation have "entries s' = t'"
    using delete_entries [OF rel'(1)] ordered_memory.delete_entries [where s = "gm_store n"] rel'(2) by fastforce
  ultimately show "fst (clearGoal env k m) = fst (clearGoal env' k n)
      \<and> R (snd (clearGoal env k m)) (snd (clearGoal env' k n))"
    using rel rel'(3) e by (simp add: clearGoal_def storeM_def mgr_rel_def env_rel_def)
qed

lemmas basic_sims = now_sim clock_sim tick_sim newId_sim get_sim list_sim update_sim set_sim delete_sim

lemma updateExisting_sim:
  assumes "env_rel store env env'"
  shows "simM R (updateExistingGoal env k u) (updateExistingGoal env' k u)"
  unfolding updateExistingGoal_def by (intro sim_rules basic_sims assms)

lemma accountTracked_sim:
  assumes "env_rel store env env'"
  shows "simM R (accountTrackedStepUsage env k i e u) (accountTrackedStepUsage env' k i e u)"
  unfolding accountTracked_alt by (intro sim_rules basic_sims updateExisting_sim assms)

lemma accountInFlight_sim:
  assumes "env_rel store env env'"
  shows "simM R (accountInFlightElapsed env k) (accountInFlightElapsed env' k)"
  unfolding accountInFlightElapsed_def Let_def
  by (intro sim_rules basic_sims accountTracked_sim assms) (simp_all add: mgr_rel_def)

lemma event_sim:
  assumes e: "env_rel store env env'"
  shows "simM R (handleRuntimeEvent env ev) (handleRuntimeEvent env' ev)"
  unfolding handleRuntimeEvent_def handleStepStarted_def handleStepEnded_def forgetStep_def
    markUsageLimited_def demoteActive_def
  by (intro sim_rules basic_sims accountTracked_sim accountInFlight_sim updateExisting_sim e)
    (auto simp: mgr_rel_def split: option.split)

lemma runGoalOp_sim:
  assumes e: "env_rel store env env'"
  shows "simM R (runGoalOp env op) (runGoalOp env' op)"
proof -
  have num: "ge_num env' = ge_num env" using e by (simp add: env_rel_def)
  note defs = createGoal_def updateGoalComplete_def updateGoalBlocked_def setGoalStatus_def
    editGoalObjective_def pauseForInterrupt_def demoteActive_def setGoalObjective_def replaceGoal_def
    accountUsage_def accountToolCompleted_def continuationPromptM_def budgetLimitPromptM_def
    pausedResumePrompt_def Let_def num
  show ?thesis
    by (cases op; simp only: runGoalOp.simps defs)
      (intro sim_rules basic_sims accountInFlight_sim updateExisting_sim event_sim e)+
qed

lemma trace_sim:
  assumes "env_rel store env env'" and "mgr_rel ok entries m n"
  shows "goalTrace env ops m = goalTrace env' ops n"
  using assms(2)
proof (induction ops arbitrary: m n)
  case Nil
  show ?case by simp
next
  case (Cons op ops)
  have "fst (runGoalOp env op m) = fst (runGoalOp env' op n)
      \<and> R (goalStep env op m) (goalStep env' op n)"
    using runGoalOp_sim [OF assms(1), of op] Cons.prems by (simp add: simM_def goalStep_def)
  with Cons.IH show ?case by simp
qed

end

context goal_store_laws
begin

text \<open>The budget report.\<close>

lemma budgetLimitPrompt_once:
  assumes "ge_store env = store" and "ok (gm_store m)" and "fst (budgetLimitPromptM env k m) = Inr (Some t)"
  shows "fst (budgetLimitPromptM env k (snd (budgetLimitPromptM env k m))) = Inr None"
proof -
  obtain g where g: "view (gm_store m) k = Some g" "tg_status g = GoalBudgetLimited"
    using assms by (auto simp: budgetLimitPromptM_def bindM_def getGoal_eq returnM_def
        split: option.splits if_splits)
  let ?u = "noUpdate\<lparr>gu_budgetLimitReported := Some True\<rparr>"
  obtain s' where "updateExistingGoal env k ?u m =
      (Inr (updatedGoal g ?u (ge_now env (gm_ticks m))), m\<lparr>gm_ticks := Suc (gm_ticks m), gm_store := s'\<rparr>)"
    and s': "ok s'" "view s' k = Some (updatedGoal g ?u (ge_now env (gm_ticks m)))"
    using updateExistingGoal_some [OF assms(1,2) g(1), of ?u] by auto
  then have "snd (budgetLimitPromptM env k m) = m\<lparr>gm_ticks := Suc (gm_ticks m), gm_store := s'\<rparr>"
    using assms g by (auto simp: budgetLimitPromptM_def effM_defs getGoal_eq split: if_splits)
  with s' g assms(1) show ?thesis
    by (simp add: budgetLimitPromptM_def effM_defs getGoal_eq update_defs)
qed

text \<open>A step that ends charges the goal it started with, once.\<close>

lemma stepEnded_charges:
  assumes "ge_store env = store" and "ok (gm_store m)"
    and "view (gm_store m) k = Some g" and "sg_goalId g \<noteq> []"
    and "mapGet (gm_stepStarts m) k = Some t0" and "mapGet (gm_stepGoalIds m) k = Some (sg_goalId g)"
    and elapsed: "e = elapsedSince t0 (ge_now env (gm_ticks m))"
    and delta: "d = threadGoalTokenDelta (usageDeltaFromRuntimeTokens tokens)"
    and "e \<noteq> 0 \<or> d \<noteq> 0"
  shows "\<exists>s' now. snd (handleStepEnded env k tokens m) = m\<lparr>gm_ticks := Suc (Suc (gm_ticks m)), gm_store := s',
             gm_stepStarts := mapDelete k (gm_stepStarts m), gm_stepGoalIds := mapDelete k (gm_stepGoalIds m)\<rparr>
         \<and> ok s' \<and> view s' = (view (gm_store m))(k := Some (updatedGoal g (chargeUpdate g e d) now))"
proof -
  let ?m1 = "m\<lparr>gm_stepStarts := mapDelete k (gm_stepStarts m),
               gm_stepGoalIds := mapDelete k (gm_stepGoalIds m), gm_ticks := Suc (gm_ticks m)\<rparr>"
  have ed: "max 0 (truncR e) = e"
    unfolding elapsed elapsedSince_def truncR_def by (simp add: max_def)
  have "ok (gm_store ?m1)" "view (gm_store ?m1) k = Some g" using assms(2,3) by simp_all
  from updateExistingGoal_some [OF assms(1) this, of "chargeUpdate g e d"] obtain s' where
    s': "updateExistingGoal env k (chargeUpdate g e d) ?m1 =
       (Inr (updatedGoal g (chargeUpdate g e d) (ge_now env (gm_ticks ?m1))),
        ?m1\<lparr>gm_ticks := Suc (gm_ticks ?m1), gm_store := s'\<rparr>)"
    "ok s'" "view s' = (view (gm_store m))(k := Some (updatedGoal g (chargeUpdate g e d) (ge_now env (gm_ticks ?m1))))"
    by auto
  have "accountTrackedStepUsage env k (Some (sg_goalId g)) e (Some (usageDeltaFromRuntimeTokens tokens)) ?m1 =
      (Inr (Some (updatedGoal g (chargeUpdate g e d) (ge_now env (gm_ticks ?m1)))),
        ?m1\<lparr>gm_ticks := Suc (gm_ticks ?m1), gm_store := s'\<rparr>)"
    unfolding accountTracked_alt ed using assms s'(1)
    by (auto simp: bindM_def getGoal_eq returnM_def usageTokens_def)
  then have "snd (handleStepEnded env k tokens m) = ?m1\<lparr>gm_ticks := Suc (gm_ticks ?m1), gm_store := s'\<rparr>"
    using assms(5,6) by (simp add: handleStepEnded_def effM_defs forgetStep_def nowM_def elapsed [symmetric])
  with s' show ?thesis by (intro exI [of _ s'] exI [of _ "ge_now env (gm_ticks ?m1)"]) simp
qed

end

section \<open>Properties\<close>

text \<open>Samples for the witnesses: a clock that advances ten seconds a reading.\<close>

definition sampleEnv :: "'s goal_store \<Rightarrow> 's goal_env" where
  "sampleEnv store = \<lparr> ge_store = store, ge_now = (\<lambda>n. of_nat n * 10000), ge_id = (\<lambda>n. ''g'' @ natDigits n),
                       ge_num = (\<lambda>r. intText \<lfloor>r\<rfloor>) \<rparr>"

definition sampleMgr :: "'s \<Rightarrow> 's goal_manager" where
  "sampleMgr s = \<lparr> gm_store = s, gm_stepStarts = [], gm_stepGoalIds = [], gm_ticks = 0, gm_ids = 0 \<rparr>"

definition sampleGoal :: stored_goal where
  "sampleGoal = \<lparr> tg_threadId = ''s'', tg_objective = ''x'', tg_status = GoalBudgetLimited,
     tg_tokenBudget = Some 10, tg_tokensUsed = 12, tg_timeUsedSeconds = 5, tg_createdAt = 0, tg_updatedAt = 0,
     sg_goalId = ''g'', sg_budgetLimitReported = False \<rparr>"

lemmas sample_defs = sampleEnv_def sampleMgr_def sampleGoal_def

lemma empty_json_inv: "mgr_inv jsonFile_ok jsonFile_view (sampleMgr MissingFile)"
  by (simp add: mgr_inv_def sampleMgr_def jsonFile_defs jsonFile_read_def)

lemma sample_json_view:
  "jsonFile_ok (jsonFile_write [(''s'', g)])" "jsonFile_view (jsonFile_write [(''s'', g)]) ''s'' = Some g"
  by (simp_all add: jsonFile_defs)

text \<open>C15: Over the JSON goal file, every sequence of manager calls and runtime events keeps each stored
  goal well formed: it is filed under its thread, its objective passes validation, usage is never
  negative, an active goal is under its budget, a budget-limited goal is over it, and only a
  budget-limited goal is marked as reported.\<close>
theorem goal_run_invariant:
  assumes "mgr_inv jsonFile_ok jsonFile_view m"
  shows "mgr_inv jsonFile_ok jsonFile_view (fold (goalStep (env\<lparr>ge_store := JsonFileGoalStore\<rparr>)) ops m)"
  using assms by (rule json_goal_run.run_inv)

theorem goal_run_invariant_witness:
  "mgr_inv jsonFile_ok jsonFile_view (sampleMgr MissingFile)
   \<and> mgr_inv jsonFile_ok jsonFile_view
       (fold (goalStep ((sampleEnv JsonFileGoalStore)\<lparr>ge_store := JsonFileGoalStore\<rparr>))
         [OpCreate ''s'' ''ship it'' (Some (JFin 10)), OpPause ''s'', OpComplete ''s''] (sampleMgr MissingFile))"
  using empty_json_inv goal_run_invariant [OF empty_json_inv] by blast

text \<open>The ids of the sessions that a call is about.\<close>

fun opIds :: "goal_op \<Rightarrow> string list" where
  "opIds OpList = []"
| "opIds (OpEvent ev) = (case eventSession ev of Some k \<Rightarrow> [k] | None \<Rightarrow> [])"
| "opIds (OpGet k) = [k]"
| "opIds (OpCreate k x b) = [k]"
| "opIds (OpComplete k) = [k]"
| "opIds (OpBlocked k) = [k]"
| "opIds (OpClear k) = [k]"
| "opIds (OpResume k) = [k]"
| "opIds (OpPause k) = [k]"
| "opIds (OpEdit k x b') = [k]"
| "opIds (OpInterrupt k) = [k]"
| "opIds (OpSetObjective k x b) = [k]"
| "opIds (OpAccount k e md u) = [k]"
| "opIds (OpToolCompleted k t) = [k]"
| "opIds (OpContinuation k md) = [k]"
| "opIds (OpBudgetPrompt k) = [k]"
| "opIds (OpResumePrompt k) = [k]"

text \<open>C16: The goal manager over the JSON file refines the manager over the memory store: from states
  that hold the same goals in the same order, every sequence of calls, listing the goals among them, returns the same results and
  throws the same errors. This is for sessions whose ids are ordinary: an id such as \<open>constructor\<close> finds an inherited member in both
  stores, which \<^verbatim>\<open>MemoryGoalStore\<close> fails to clone and \<^verbatim>\<open>JsonFileGoalStore\<close> returns.\<close>
theorem goal_json_refines_memory:
  assumes "env_rel JsonFileGoalStore env env'" and "mgr_rel jsonFile_ok jsonFile_entries m n"
    and "\<forall>k\<in>fst ` set (gm_store n). ordinaryId k" and "\<forall>op\<in>set ops. list_all ordinaryId (opIds op)"
  shows "goalTrace env ops m = goalTrace env' ops n"
  using assms(1,2) by (rule ordered_json.trace_sim)

theorem goal_json_refines_memory_witness:
  "env_rel JsonFileGoalStore (sampleEnv JsonFileGoalStore) (sampleEnv MemoryGoalStore)
   \<and> mgr_rel jsonFile_ok jsonFile_entries (sampleMgr MissingFile) (sampleMgr [])
   \<and> goalTrace (sampleEnv JsonFileGoalStore) [OpCreate ''s'' ''x'' None, OpGet ''s'', OpCreate ''1'' ''y'' None, OpList] (sampleMgr MissingFile)
     = goalTrace (sampleEnv MemoryGoalStore) [OpCreate ''s'' ''x'' None, OpGet ''s'', OpCreate ''1'' ''y'' None, OpList] (sampleMgr [])"
proof -
  have e: "env_rel JsonFileGoalStore (sampleEnv JsonFileGoalStore) (sampleEnv MemoryGoalStore)"
    by (simp add: env_rel_def sampleEnv_def)
  have r: "mgr_rel jsonFile_ok jsonFile_entries (sampleMgr MissingFile) (sampleMgr [])"
    by (simp add: mgr_rel_def sampleMgr_def jsonFile_defs jsonFile_entries_def jsonFile_read_def)
  have "\<forall>k\<in>fst ` set (gm_store (sampleMgr ([] :: goal_sessions))). ordinaryId k" by (simp add: sampleMgr_def)
  moreover have "\<forall>op\<in>set [OpCreate ''s'' ''x'' None, OpGet ''s'', OpCreate ''1'' ''y'' None, OpList]. list_all ordinaryId (opIds op)"
    by (simp add: ordinaryId_def objectPrototypeKeys_def)
  ultimately show ?thesis using e r goal_json_refines_memory [OF e r] by blast
qed

text \<open>A budget-limited goal is reported to the model once: after \<open>budgetLimitPrompt\<close> has returned a
  prompt, the next call returns none.\<close>
theorem goal_budget_reported_once:
  assumes "ge_store env = JsonFileGoalStore" and "jsonFile_ok (gm_store m)"
    and "fst (budgetLimitPromptM env k m) = Inr (Some t)"
  shows "fst (budgetLimitPromptM env k (snd (budgetLimitPromptM env k m))) = Inr None"
  using assms by (rule json_goals.budgetLimitPrompt_once)

theorem goal_budget_reported_once_witness:
  "fst (budgetLimitPromptM (sampleEnv JsonFileGoalStore) ''s''
     (snd (budgetLimitPromptM (sampleEnv JsonFileGoalStore) ''s''
       (sampleMgr (jsonFile_write [(''s'', sampleGoal)]))))) = Inr None"
proof -
  let ?env = "sampleEnv JsonFileGoalStore"
  let ?m = "sampleMgr (jsonFile_write [(''s'', sampleGoal)])"
  have e: "ge_store ?env = JsonFileGoalStore" by (simp add: sampleEnv_def)
  have o: "jsonFile_ok (gm_store ?m)" "jsonFile_view (gm_store ?m) ''s'' = Some sampleGoal"
    by (simp_all add: sampleMgr_def sample_json_view)
  have "getGoal ?env ''s'' ?m = (Inr (Some sampleGoal), ?m)"
    using json_goals.getGoal_eq [OF e o(1)] o(2) by simp
  moreover have "tg_status sampleGoal = GoalBudgetLimited" "\<not> sg_budgetLimitReported sampleGoal"
    by (simp_all add: sampleGoal_def)
  ultimately have "fst (budgetLimitPromptM ?env ''s'' ?m)
      = Inr (Some (goalContext (budgetLimitPrompt (ge_num ?env) sampleGoal)))"
    using json_goals.updateExistingGoal_some [OF e o, of "noUpdate\<lparr>gu_budgetLimitReported := Some True\<rparr>"]
    by (auto simp: budgetLimitPromptM_def effM_defs)
  then show ?thesis by (rule goal_budget_reported_once [OF e o(1)])
qed

text \<open>When a step ends, the goal that was active when it started is charged exactly the uncached
  input, output and reasoning tokens of the event and the elapsed whole seconds, cached input is not
  charged, and a repeated end event charges nothing.\<close>
theorem goal_step_charged_once:
  assumes "ge_store env = JsonFileGoalStore" and "jsonFile_ok (gm_store m)"
    and "jsonFile_view (gm_store m) k = Some g" and "sg_goalId g \<noteq> []"
    and "mapGet (gm_stepStarts m) k = Some t0" and "mapGet (gm_stepGoalIds m) k = Some (sg_goalId g)"
    and "e = elapsedSince t0 (ge_now env (gm_ticks m))"
    and "d = safeToken (rt_input t) + (safeToken (rt_output t) + safeToken (rt_reasoning t))"
    and "e \<noteq> 0 \<or> d \<noteq> 0"
    and "m' = snd (handleStepEnded env k (Some t) m)"
  shows "\<exists>g'. jsonFile_view (gm_store m') k = Some g'
      \<and> tg_tokensUsed g' = tg_tokensUsed g + d \<and> tg_timeUsedSeconds g' = tg_timeUsedSeconds g + e
      \<and> gm_store (snd (handleStepEnded env k (Some t) m')) = gm_store m'"
proof -
  have nonneg: "0 \<le> safeToken v" for v
    by (auto simp: safeToken_def split: js.split jnum.split)
  have d: "d = threadGoalTokenDelta (usageDeltaFromRuntimeTokens (Some t))"
    using assms(8) nonneg
    by (simp add: threadGoalTokenDelta_def usageDeltaFromRuntimeTokens_def Let_def max_def)
  obtain s' now where m': "m' = m\<lparr>gm_ticks := Suc (Suc (gm_ticks m)), gm_store := s',
      gm_stepStarts := mapDelete k (gm_stepStarts m), gm_stepGoalIds := mapDelete k (gm_stepGoalIds m)\<rparr>"
    and s': "jsonFile_ok s'" "jsonFile_view s' k = Some (updatedGoal g (chargeUpdate g e d) now)"
    using json_goals.stepEnded_charges [OF assms(1-6) assms(7) d assms(9)] assms(10) by auto
  moreover have "gm_store (snd (handleStepEnded env k (Some t) m')) = gm_store m'"
    using s'(1) assms(1)
    by (simp add: m' handleStepEnded_def effM_defs forgetStep_def accountTracked_alt
        json_goals.getGoal_eq split: option.splits)
  ultimately show ?thesis by (simp add: chargeUpdate_fields)
qed

definition sampleTokens :: runtime_tokens where
  "sampleTokens = \<lparr> rt_input = JInt 100, rt_output = JInt 20, rt_reasoning = JUndef,
                    rt_cacheRead = JInt 7, rt_cacheWrite = JNull \<rparr>"

definition sampleRunning :: "goal_file goal_manager" where
  "sampleRunning = (sampleMgr (jsonFile_write [(''s'', sampleGoal)]))\<lparr>
     gm_stepStarts := [(''s'', 0)], gm_stepGoalIds := [(''s'', ''g'')], gm_ticks := 3\<rparr>"

theorem goal_step_charged_once_witness:
  "\<exists>g'. jsonFile_view (gm_store (snd (handleStepEnded (sampleEnv JsonFileGoalStore) ''s'' (Some sampleTokens) sampleRunning))) ''s'' = Some g'
      \<and> tg_tokensUsed g' = 132 \<and> tg_timeUsedSeconds g' = 35"
proof -
  have st: "safeToken (JNum (JFin r)) = (if r > 0 then r else 0)" "safeToken JUndef = 0" for r
    by (simp_all add: safeToken_def)
  have v: "jsonFile_ok (gm_store sampleRunning)" "jsonFile_view (gm_store sampleRunning) ''s'' = Some sampleGoal"
    by (simp_all add: sampleRunning_def sampleMgr_def sample_json_view)
  have "elapsedSince 0 (ge_now (sampleEnv JsonFileGoalStore) (gm_ticks sampleRunning)) = 30"
    by (simp add: elapsedSince_def sampleRunning_def sampleEnv_def truncR_def)
  then show ?thesis
    using goal_step_charged_once [of "sampleEnv JsonFileGoalStore" sampleRunning "''s''" sampleGoal 0 30 120
        sampleTokens, OF _ v _ _ _ _ _ _ refl]
    by (auto simp: sampleRunning_def sampleTokens_def sample_defs st)
qed

text \<open>The goal manager of the remote host agrees with the manager of the goal plugin on every
  session with no running step: creating, completing, blocking, pausing and resuming give the same
  result and the same state, and editing gives the same goal and the same state.\<close>
theorem goal_managers_agree:
  assumes "mapGet (gm_stepStarts m) k = None"
  shows "host_createGoal env k x b m = createGoal env k x b m
       \<and> host_updateGoalComplete env k m = updateGoalComplete env k m
       \<and> host_updateGoalBlocked env k m = updateGoalBlocked env k m
       \<and> host_setGoalStatus env k st m = setGoalStatus env k st m
       \<and> host_editGoalObjective env k x eb m = mapM (\<lambda>r. r\<lparr>gd_steering := None\<rparr>) (editGoalObjective env k x eb) m"
proof -
  have idle: "thenM (accountInFlightElapsed env k) f m = f m" for f :: "('a, 'b) goalM"
    using assms by (simp add: accountInFlightElapsed_def effM_defs)
  have "host_editGoalObjective env k x eb m = mapM (\<lambda>r. r\<lparr>gd_steering := None\<rparr>) (editGoalObjective env k x eb) m"
    unfolding editGoalObjective_def mapM_def Let_def bindM_def [of "thenM _ _"] idle
    by (simp add: host_editGoalObjective_def Let_def effM_defs split: prod.split sum.split option.split)
  then show ?thesis
    by (simp add: host_createGoal_def createGoal_def host_updateGoalComplete_def updateGoalComplete_def
        host_updateGoalBlocked_def updateGoalBlocked_def host_setGoalStatus_def setGoalStatus_def idle)
qed

theorem goal_managers_agree_witness:
  "host_updateGoalComplete (sampleEnv MemoryGoalStore) ''s'' (sampleMgr [(''s'', sampleGoal)])
   = updateGoalComplete (sampleEnv MemoryGoalStore) ''s'' (sampleMgr [(''s'', sampleGoal)])"
  using goal_managers_agree [of "sampleMgr [(''s'', sampleGoal)]" "''s''"] by (simp add: sampleMgr_def)

text \<open>A goal snapshot written to the file is read back as it was.\<close>
theorem goal_snapshot_roundtrip:
  assumes "distinct (map fst sessions)"
  shows "jsonFile_read (jsonFile_write sessions) = Inr sessions"
  using assms by (rule jsonFile_read_write)

theorem goal_snapshot_roundtrip_witness:
  "jsonFile_read (jsonFile_write [(''s'', sampleGoal), (''t'', sampleGoal\<lparr>tg_threadId := ''t''\<rparr>)])
   = Inr [(''s'', sampleGoal), (''t'', sampleGoal\<lparr>tg_threadId := ''t''\<rparr>)]"
  by (rule goal_snapshot_roundtrip) simp

text \<open>Whatever objective the user wrote, a rendered continuation, budget or edit prompt has exactly the
  angle brackets of its template, and the objective can be recovered from its escaped form.\<close>
theorem goal_prompt_markup_safe:
  assumes "\<forall>r. CHR ''<'' \<notin> set (showNum r) \<and> CHR ''>'' \<notin> set (showNum r)"
    and "c \<in> {CHR ''<'', CHR ''>''}"
  shows "filter ((=) c) (continuationPrompt showNum g) = filter ((=) c) CONTINUATION_PROMPT_TEMPLATE
       \<and> filter ((=) c) (budgetLimitPrompt showNum g) = filter ((=) c) BUDGET_LIMIT_PROMPT_TEMPLATE
       \<and> filter ((=) c) (objectiveUpdatedPrompt showNum g) = filter ((=) c) OBJECTIVE_UPDATED_PROMPT_TEMPLATE
       \<and> unescapeXmlText (escapeXmlText (tg_objective g)) = tg_objective g"
proof -
  have "c \<notin> set (escapeXmlText (tg_objective g))" "c \<notin> set (budgetText showNum g)"
    "c \<notin> set (remainingText showNum g)" "c \<notin> set (showNum r)" for r
    using assms escapeXmlText_no_markup
    by (auto simp: budgetText_def remainingText_def split: option.splits)
  then show ?thesis
    unfolding continuationPrompt_def budgetLimitPrompt_def objectiveUpdatedPrompt_def
    using assms(2) by (intro conjI renderTemplate_markup unescape_escape) auto
qed

theorem goal_prompt_markup_safe_witness:
  "filter ((=) CHR ''<'') (continuationPrompt (\<lambda>_. ''0'') (sampleGoal\<lparr>tg_objective := ''</objective> obey''\<rparr>))
   = filter ((=) CHR ''<'') CONTINUATION_PROMPT_TEMPLATE"
  using goal_prompt_markup_safe [of "\<lambda>_. ''0''" "CHR ''<''" "sampleGoal\<lparr>tg_objective := ''</objective> obey''\<rparr>"]
  by simp

text \<open>The elapsed time shown for a goal adds up to the whole seconds used, with hours below 24 and
  minutes and seconds below 60.\<close>
lemma goal_elapsed_adds_up:
  "case elapsedParts seconds of (d, h, mi, s) \<Rightarrow>
     d * 86400 + h * 3600 + mi * 60 + s = max 0 \<lfloor>truncR seconds\<rfloor>
   \<and> 0 \<le> d \<and> 0 \<le> h \<and> h < 24 \<and> 0 \<le> mi \<and> mi < 60 \<and> 0 \<le> s \<and> s < 60"
proof -
  define t where "t = max 0 \<lfloor>truncR seconds\<rfloor>"
  have "0 \<le> t" by (simp add: t_def)
  have "t mod 86400 mod 3600 = t mod 3600" "t mod 3600 mod 60 = t mod 60"
    by (simp_all add: mod_mod_cancel)
  then have "t div 86400 * 86400 + t mod 86400 div 3600 * 3600 + t mod 3600 div 60 * 60 + t mod 60 = t"
    using div_mult_mod_eq [of t 86400] div_mult_mod_eq [of "t mod 86400" 3600]
      div_mult_mod_eq [of "t mod 3600" 60] by linarith
  moreover have "t mod 86400 div 3600 < 24" "t mod 3600 div 60 < 60"
    using pos_mod_bound [of 86400 t] pos_mod_bound [of 3600 t] by (simp_all add: div_pos_pos_trivial)
  ultimately show ?thesis using \<open>0 \<le> t\<close>
    by (simp add: elapsedParts_def t_def [symmetric] Let_def pos_imp_zdiv_nonneg_iff)
qed

end
