(* ===== verification/Contracts.thy ===== *)
theory Contracts
  imports Prelude
begin

text \<open>
  The contract package \<^verbatim>\<open>packages/remote-runtime-contracts/src\<close> (\<^verbatim>\<open>index.ts\<close>, \<^verbatim>\<open>capabilities.ts\<close>,
  \<^verbatim>\<open>runtime-owner.ts\<close>, \<^verbatim>\<open>runtime-attachment.ts\<close>): enumerations, failure envelopes, contract versions and
  their negotiation, public keys, the attachment records and their parsers, the status sequencer and
  the reply target of an operation frame.
\<close>

section \<open>Enumerations\<close>

datatype operation_class =
  MetadataRead | SensitiveRead | Mutation | PrivilegedExecution | Credential | Shutdown

fun operationClassText :: "operation_class \<Rightarrow> string" where
  "operationClassText MetadataRead = ''metadataRead''"
| "operationClassText SensitiveRead = ''sensitiveRead''"
| "operationClassText Mutation = ''mutation''"
| "operationClassText PrivilegedExecution = ''privilegedExecution''"
| "operationClassText Credential = ''credential''"
| "operationClassText Shutdown = ''shutdown''"

definition remoteRuntimeOperationClassValues :: "operation_class list" where
  "remoteRuntimeOperationClassValues =
     [MetadataRead, SensitiveRead, Mutation, PrivilegedExecution, Credential, Shutdown]"

datatype response_sensitivity = NoSensitivity | MetadataSensitivity | SensitiveSensitivity | CredentialSensitivity

datatype trust_level = Untrusted | Paired | Trusted

fun trustLevelText :: "trust_level \<Rightarrow> string" where
  "trustLevelText Untrusted = ''untrusted''"
| "trustLevelText Paired = ''paired''"
| "trustLevelText Trusted = ''trusted''"

definition remoteRuntimeClientTrustLevelValues :: "trust_level list" where
  "remoteRuntimeClientTrustLevelValues = [Untrusted, Paired, Trusted]"

datatype attachment_capability =
  CapMetadata | CapSensitiveRead | CapMutate | CapPrivilegedExecution | CapCredential | CapShutdown

fun attachmentCapabilityText :: "attachment_capability \<Rightarrow> string" where
  "attachmentCapabilityText CapMetadata = ''runtime.metadata''"
| "attachmentCapabilityText CapSensitiveRead = ''runtime.sensitiveRead''"
| "attachmentCapabilityText CapMutate = ''runtime.mutate''"
| "attachmentCapabilityText CapPrivilegedExecution = ''runtime.privilegedExecution''"
| "attachmentCapabilityText CapCredential = ''runtime.credential''"
| "attachmentCapabilityText CapShutdown = ''runtime.shutdown''"

definition remoteRuntimeAttachmentCapabilityValues :: "attachment_capability list" where
  "remoteRuntimeAttachmentCapabilityValues =
     [CapMetadata, CapSensitiveRead, CapMutate, CapPrivilegedExecution, CapCredential, CapShutdown]"

definition remoteRuntimeCapabilityValues :: "string list" where
  "remoteRuntimeCapabilityValues =
     [''remoteRuntime.http.activeChats'', ''remoteRuntime.http.chatDetail'',
      ''remoteRuntime.http.chatMessages'', ''remoteRuntime.http.goals'',
      ''remoteRuntime.http.providers'', ''remoteRuntime.http.runtimeDirectories'',
      ''remoteRuntime.http.runtimeStatus'', ''remoteRuntime.http.startChat'',
      ''remoteRuntime.http.sendMessage'', ''remoteRuntime.http.updateChat'',
      ''remoteRuntime.git.read'', ''remoteRuntime.goal.read'', ''remoteRuntime.goal.list'',
      ''remoteRuntime.goal.mutate'', ''remoteRuntime.goal.events'', ''remoteRuntime.alias.read'',
      ''remoteRuntime.alias.list'', ''remoteRuntime.alias.mutate'', ''remoteRuntime.alias.events'',
      ''remoteRuntime.websocket.realtimeEvents'', ''remoteRuntime.websocket.streamDeltas'']"

definition isRemoteRuntimeCapability :: "js \<Rightarrow> bool" where
  "isRemoteRuntimeCapability v \<longleftrightarrow> isString v \<and> strOf v \<in> set remoteRuntimeCapabilityValues"

abbreviation operationClassValue :: "js \<Rightarrow> operation_class option" where
  "operationClassValue \<equiv> enumValue operationClassText remoteRuntimeOperationClassValues"

abbreviation trustLevelValue :: "js \<Rightarrow> trust_level option" where
  "trustLevelValue \<equiv> enumValue trustLevelText remoteRuntimeClientTrustLevelValues"

abbreviation attachmentCapabilityValue :: "js \<Rightarrow> attachment_capability option" where
  "attachmentCapabilityValue \<equiv> enumValue attachmentCapabilityText remoteRuntimeAttachmentCapabilityValues"

definition isRemoteRuntimeOperationClass :: "js \<Rightarrow> bool" where
  "isRemoteRuntimeOperationClass v \<longleftrightarrow> operationClassValue v \<noteq> None"

definition isRemoteRuntimeClientTrustLevel :: "js \<Rightarrow> bool" where
  "isRemoteRuntimeClientTrustLevel v \<longleftrightarrow> trustLevelValue v \<noteq> None"

definition isRemoteRuntimeAttachmentCapability :: "js \<Rightarrow> bool" where
  "isRemoteRuntimeAttachmentCapability v \<longleftrightarrow> attachmentCapabilityValue v \<noteq> None"

datatype failure_code =
    ATTACHMENT_REVOKED | AUTHORIZATION_FAILED | DEVICE_REVOKED | IDEMPOTENCY_CONFLICT
  | PAYLOAD_TOO_LARGE | PAIRING_EXPIRED | PAIRING_KEY_REJECTED | PAIRING_SUPERSEDED
  | PROTOCOL_MISMATCH | RUNTIME_COMMAND_FAILED | RUNTIME_REVOKED | RUNTIME_UNAVAILABLE
  | VALIDATION_FAILED

datatype pairing_action = PairKeep | PairRePair | PairRetry | PairUpgradeApp | PairUpgradeCli

datatype envelope_type =
    AttachmentRevokedType | AuthorizationFailedType | IdempotencyConflictType | PairingInvalidType
  | RuntimeCommandFailedType | RuntimeUnavailableType | ProtocolMismatchType

section \<open>Failure envelopes\<close>

definition remoteRuntimeTransportProtocolVersion :: string where
  "remoteRuntimeTransportProtocolVersion = ''2026-05-08''"

text \<open>An optional, nullable field: \<open>None\<close> absent, \<open>Some None\<close> null.\<close>

record failure_metadata =
  fm_replacementRuntimeInstallationId :: "string option option"
  fm_runtimeInstallationId :: "string option option"

record failure_envelope =
  fe_code :: failure_code
  fe_message :: string
  fe_pairingAction :: pairing_action
  fe_protocolVersion :: string
  fe_requestId :: string
  fe_metadata :: failure_metadata
  fe_terminal :: bool
  fe_type :: envelope_type

definition noMetadata :: failure_metadata where
  "noMetadata = \<lparr> fm_replacementRuntimeInstallationId = None, fm_runtimeInstallationId = None \<rparr>"

definition remoteRuntimeTransportFailureEnvelopeType :: "failure_code \<Rightarrow> bool \<Rightarrow> envelope_type" where
  "remoteRuntimeTransportFailureEnvelopeType code pairingInvalid =
     (if code = ATTACHMENT_REVOKED then AttachmentRevokedType
      else if pairingInvalid then PairingInvalidType
      else if code = IDEMPOTENCY_CONFLICT then IdempotencyConflictType
      else if code = RUNTIME_COMMAND_FAILED then RuntimeCommandFailedType
      else if code = RUNTIME_UNAVAILABLE then RuntimeUnavailableType
      else if code = PROTOCOL_MISMATCH then ProtocolMismatchType
      else AuthorizationFailedType)"

definition createRemoteRuntimeTransportFailureEnvelope ::
  "failure_code \<Rightarrow> string \<Rightarrow> failure_metadata \<Rightarrow> string \<Rightarrow> failure_envelope" where
  "createRemoteRuntimeTransportFailureEnvelope code message metadata requestId =
     (let pairingInvalid = code \<in> {DEVICE_REVOKED, PAIRING_EXPIRED, PAIRING_KEY_REJECTED,
                                   PAIRING_SUPERSEDED, RUNTIME_REVOKED};
          terminal = (pairingInvalid \<or> code = ATTACHMENT_REVOKED \<or> code = PROTOCOL_MISMATCH)
      in \<lparr> fe_code = code, fe_message = message,
           fe_pairingAction =
             (if pairingInvalid \<or> code = ATTACHMENT_REVOKED then PairRePair
              else if code = PROTOCOL_MISMATCH then PairUpgradeApp else PairKeep),
           fe_protocolVersion = remoteRuntimeTransportProtocolVersion,
           fe_requestId = requestId, fe_metadata = metadata, fe_terminal = terminal,
           fe_type = remoteRuntimeTransportFailureEnvelopeType code pairingInvalid \<rparr>)"

abbreviation plainFailure :: "failure_code \<Rightarrow> string \<Rightarrow> string \<Rightarrow> failure_envelope" where
  "plainFailure code requestId message \<equiv>
     createRemoteRuntimeTransportFailureEnvelope code message noMetadata requestId"

definition createRuntimeUnavailableEnvelope :: "string \<Rightarrow> string option \<Rightarrow> failure_envelope" where
  "createRuntimeUnavailableEnvelope requestId message =
     plainFailure RUNTIME_UNAVAILABLE requestId
       (case message of None \<Rightarrow> ''Runtime attachment is unavailable.'' | Some t \<Rightarrow> t)"

definition createPairingSupersededEnvelope ::
  "string option \<Rightarrow> string option \<Rightarrow> string \<Rightarrow> string \<Rightarrow> failure_envelope" where
  "createPairingSupersededEnvelope message replacement requestId runtimeInstallationId =
     createRemoteRuntimeTransportFailureEnvelope PAIRING_SUPERSEDED
       (case message of None \<Rightarrow> ''Runtime client pairing was superseded by a newer runtime setup.''
        | Some t \<Rightarrow> t)
       \<lparr> fm_replacementRuntimeInstallationId = Some replacement,
         fm_runtimeInstallationId = Some (Some runtimeInstallationId) \<rparr>
       requestId"

definition createRuntimeRevokedEnvelope :: "string \<Rightarrow> string option \<Rightarrow> failure_envelope" where
  "createRuntimeRevokedEnvelope requestId message =
     plainFailure RUNTIME_REVOKED requestId
       (case message of None \<Rightarrow> ''Runtime installation was revoked.'' | Some t \<Rightarrow> t)"

definition createDeviceRevokedEnvelope :: "string \<Rightarrow> string option \<Rightarrow> failure_envelope" where
  "createDeviceRevokedEnvelope requestId message =
     plainFailure DEVICE_REVOKED requestId
       (case message of None \<Rightarrow> ''Trusted runtime client was revoked.'' | Some t \<Rightarrow> t)"

definition createAttachmentRevokedEnvelope :: "string \<Rightarrow> string option \<Rightarrow> failure_envelope" where
  "createAttachmentRevokedEnvelope requestId message =
     plainFailure ATTACHMENT_REVOKED requestId
       (case message of None \<Rightarrow> ''Runtime or remote runtime attachment was revoked.'' | Some t \<Rightarrow> t)"

definition createAuthorizationFailureEnvelope :: "string \<Rightarrow> string option \<Rightarrow> failure_envelope" where
  "createAuthorizationFailureEnvelope requestId message =
     plainFailure AUTHORIZATION_FAILED requestId
       (case message of None \<Rightarrow> ''Runtime operation is not authorized.'' | Some t \<Rightarrow> t)"

definition createIdempotencyConflictEnvelope :: "string \<Rightarrow> string option \<Rightarrow> failure_envelope" where
  "createIdempotencyConflictEnvelope requestId message =
     plainFailure IDEMPOTENCY_CONFLICT requestId
       (case message of None \<Rightarrow> ''Idempotency key was already used with a different payload.'' | Some t \<Rightarrow> t)"

definition createRuntimeCommandFailedEnvelope :: "string \<Rightarrow> string option \<Rightarrow> failure_envelope" where
  "createRuntimeCommandFailedEnvelope requestId message =
     plainFailure RUNTIME_COMMAND_FAILED requestId
       (case message of None \<Rightarrow> ''Runtime command failed.'' | Some t \<Rightarrow> t)"

section \<open>Contract versions\<close>

definition supportedRemoteRuntimeHttpContractVersions :: "string list" where
  "supportedRemoteRuntimeHttpContractVersions = [''2026-05-08'', ''2026-05-14'']"

record http_version_failure =
  hv_message :: string
  hv_receivedVersion :: "string option"
  hv_requestId :: "string option"
  hv_supportedVersions :: "string list"

definition createRemoteRuntimeHttpVersionMismatchFailure ::
  "string option \<Rightarrow> string option \<Rightarrow> http_version_failure" where
  "createRemoteRuntimeHttpVersionMismatchFailure receivedVersion requestId =
     \<lparr> hv_message = ''Remote runtime HTTP contract version ''
         @ (case receivedVersion of None \<Rightarrow> ''missing'' | Some v \<Rightarrow> v)
         @ '' is unsupported. Supported versions: '' @ join '', '' supportedRemoteRuntimeHttpContractVersions
         @ ''. Update the remote runtime client, gateway, or CLI/runtime so their supported remote runtime HTTP contract windows overlap.'',
       hv_receivedVersion = receivedVersion, hv_requestId = requestId,
       hv_supportedVersions = supportedRemoteRuntimeHttpContractVersions \<rparr>"

definition isRemoteRuntimeHttpContractVersionSupported :: "string \<Rightarrow> bool" where
  "isRemoteRuntimeHttpContractVersionSupported receivedVersion \<longleftrightarrow>
     receivedVersion \<in> set supportedRemoteRuntimeHttpContractVersions"

text \<open>Left: the failure and the HTTP status it is reported with.\<close>

definition validateRemoteRuntimeHttpContractVersionHeader ::
  "string option \<Rightarrow> string option \<Rightarrow> (http_version_failure \<times> nat) + string" where
  "validateRemoteRuntimeHttpContractVersionHeader receivedVersion requestId =
     (case receivedVersion of
        None \<Rightarrow> Inl (createRemoteRuntimeHttpVersionMismatchFailure None requestId, 400)
      | Some v \<Rightarrow>
          if trim v = [] then Inl (createRemoteRuntimeHttpVersionMismatchFailure (Some v) requestId, 400)
          else if \<not> isRemoteRuntimeHttpContractVersionSupported v
               then Inl (createRemoteRuntimeHttpVersionMismatchFailure (Some v) requestId, 426)
          else Inr v)"

record supported_versions =
  sv_remoteRuntimeHttp :: "string list"
  sv_remoteRuntimeTransport :: "string list"
  sv_runtimeWebSocket :: "string list"

record accepted_versions =
  av_remoteRuntimeHttp :: string
  av_remoteRuntimeTransport :: string
  av_runtimeWebSocket :: string

record received_versions =
  rv_remoteRuntimeHttp :: "string option"
  rv_remoteRuntimeTransport :: "string option"
  rv_runtimeWebSocket :: "string option"

definition currentRemoteRuntimeSupportedVersions :: supported_versions where
  "currentRemoteRuntimeSupportedVersions =
     \<lparr> sv_remoteRuntimeHttp = supportedRemoteRuntimeHttpContractVersions,
       sv_remoteRuntimeTransport = [remoteRuntimeTransportProtocolVersion],
       sv_runtimeWebSocket = [''0.1.5'', ''0.1.6''] \<rparr>"

definition currentRemoteRuntimeAcceptedVersions :: accepted_versions where
  "currentRemoteRuntimeAcceptedVersions =
     \<lparr> av_remoteRuntimeHttp = last (sv_remoteRuntimeHttp currentRemoteRuntimeSupportedVersions),
       av_remoteRuntimeTransport = last (sv_remoteRuntimeTransport currentRemoteRuntimeSupportedVersions),
       av_runtimeWebSocket = last (sv_runtimeWebSocket currentRemoteRuntimeSupportedVersions) \<rparr>"

definition selectVersion :: "string option \<Rightarrow> string list \<Rightarrow> string option" where
  "selectVersion received supported =
     (case received of None \<Rightarrow> None
      | Some v \<Rightarrow> if v = [] then None else if v \<notin> set supported then None else Some v)"

text \<open>The loop runs from the last supported version to the first.\<close>

definition selectAdvertisedVersion :: "string list \<Rightarrow> string list \<Rightarrow> string option" where
  "selectAdvertisedVersion advertised supported =
     find (\<lambda>version. version \<in> set advertised) (rev supported)"

text \<open>The three selected versions when each is a non-empty string; left: the remediation text.\<close>

definition versionRemediation :: string where
  "versionRemediation = ''Update the remote runtime client or CLI/runtime so their remote runtime protocol versions overlap.''"

definition acceptedVersions ::
  "string option \<Rightarrow> string option \<Rightarrow> string option \<Rightarrow> string + accepted_versions" where
  "acceptedVersions http transport websocket =
     (case (http, transport, websocket) of
        (Some h, Some t, Some w) \<Rightarrow>
          if h \<noteq> [] \<and> t \<noteq> [] \<and> w \<noteq> []
          then Inr \<lparr> av_remoteRuntimeHttp = h, av_remoteRuntimeTransport = t, av_runtimeWebSocket = w \<rparr>
          else Inl versionRemediation
      | _ \<Rightarrow> Inl versionRemediation)"

definition negotiateRemoteRuntimeVersions ::
  "received_versions \<Rightarrow> supported_versions \<Rightarrow> string + accepted_versions" where
  "negotiateRemoteRuntimeVersions received supported = acceptedVersions
     (selectVersion (rv_remoteRuntimeHttp received) (sv_remoteRuntimeHttp supported))
     (selectVersion (rv_remoteRuntimeTransport received) (sv_remoteRuntimeTransport supported))
     (selectVersion (rv_runtimeWebSocket received) (sv_runtimeWebSocket supported))"

definition negotiateAdvertisedRemoteRuntimeVersions ::
  "supported_versions \<Rightarrow> supported_versions \<Rightarrow> string + accepted_versions" where
  "negotiateAdvertisedRemoteRuntimeVersions advertised supported = acceptedVersions
     (selectAdvertisedVersion (sv_remoteRuntimeHttp advertised) (sv_remoteRuntimeHttp supported))
     (selectAdvertisedVersion (sv_remoteRuntimeTransport advertised) (sv_remoteRuntimeTransport supported))
     (selectAdvertisedVersion (sv_runtimeWebSocket advertised) (sv_runtimeWebSocket supported))"

end
