(* ===== verification/Attachments.thy ===== *)
theory Attachments
  imports Contracts
begin

text \<open>
  The record types of \<^verbatim>\<open>packages/remote-runtime-contracts/src/index.ts\<close> that cross the wire: public keys,
  runtime and client attachments, status frames and reply targets, with their parsers, the status
  sequencer, and the lemmas about them.
\<close>

section \<open>Strings of the contract\<close>

definition isNonEmptyRemoteRuntimeContractString :: "js \<Rightarrow> bool" where
  "isNonEmptyRemoteRuntimeContractString v \<longleftrightarrow> isString v \<and> strOf v \<noteq> []"

definition isBase64UrlChar :: "char \<Rightarrow> bool" where
  "isBase64UrlChar c \<longleftrightarrow> (let n = of_char c :: nat in
     (65 \<le> n \<and> n \<le> 90) \<or> (97 \<le> n \<and> n \<le> 122) \<or> (48 \<le> n \<and> n \<le> 57) \<or> n = 95 \<or> n = 45)"

definition isBase64UrlRemoteRuntimeContractString :: "js \<Rightarrow> bool" where
  "isBase64UrlRemoteRuntimeContractString v \<longleftrightarrow>
     isString v \<and> strOf v \<noteq> [] \<and> list_all isBase64UrlChar (strOf v)"

definition isPlaceholderRuntimeClientPublicKey :: "string \<Rightarrow> bool" where
  "isPlaceholderRuntimeClientPublicKey s \<longleftrightarrow>
     stripPrefix ''runtime_public_'' s \<noteq> None \<or> stripPrefix ''client_public_'' s \<noteq> None"

definition requiredRemoteRuntimeApiString :: "js \<Rightarrow> string \<Rightarrow> string \<Rightarrow> string + string" where
  "requiredRemoteRuntimeApiString r field label =
     (let v = getProp r field in
      if isString v \<and> trim (strOf v) \<noteq> [] then Inr (strOf v)
      else Inl (''Remote runtime setup did not receive '' @ field @ '' from '' @ label @ ''.''))"

section \<open>Public keys\<close>

datatype key_purpose = RequestSigning | ResponseSigning

fun keyPurposeText :: "key_purpose \<Rightarrow> string" where
  "keyPurposeText RequestSigning = ''remoteRuntimeRequestSigning''"
| "keyPurposeText ResponseSigning = ''runtimeResponseSigning''"

definition remoteRuntimePublicKeyPurposeValues :: "key_purpose list" where
  "remoteRuntimePublicKeyPurposeValues = [RequestSigning, ResponseSigning]"

abbreviation keyPurposeValue :: "js \<Rightarrow> key_purpose option" where
  "keyPurposeValue \<equiv> enumValue keyPurposeText remoteRuntimePublicKeyPurposeValues"

text \<open>\<open>algorithm\<close> (ed25519) and \<open>encoding\<close> (base64url) have one value each.\<close>

record public_key =
  pk_createdAt :: string
  pk_keyId :: string
  pk_publicKey :: string
  pk_purpose :: key_purpose

definition malformedKey :: string where
  "malformedKey = ''Runtime client asymmetric public key is malformed.''"

definition validateRemoteRuntimeAsymmetricPublicKey :: "js \<Rightarrow> string + public_key" where
  "validateRemoteRuntimeAsymmetricPublicKey v =
     (if \<not> isRecord v
       \<or> getProp v ''algorithm'' \<noteq> JStr ''ed25519''
       \<or> \<not> isNonEmptyRemoteRuntimeContractString (getProp v ''createdAt'')
       \<or> getProp v ''encoding'' \<noteq> JStr ''base64url''
       \<or> \<not> isNonEmptyRemoteRuntimeContractString (getProp v ''keyId'')
       \<or> \<not> isBase64UrlRemoteRuntimeContractString (getProp v ''publicKey'')
       \<or> isPlaceholderRuntimeClientPublicKey (strOf (getProp v ''publicKey''))
      then Inl malformedKey
      else case keyPurposeValue (getProp v ''purpose'') of
             None \<Rightarrow> Inl malformedKey
           | Some purpose \<Rightarrow> Inr \<lparr> pk_createdAt = strOf (getProp v ''createdAt''),
                                   pk_keyId = strOf (getProp v ''keyId''),
                                   pk_publicKey = strOf (getProp v ''publicKey''),
                                   pk_purpose = purpose \<rparr>)"

definition publicKeyJson :: "public_key \<Rightarrow> js" where
  "publicKeyJson k = JObj
     [(''algorithm'', JStr ''ed25519''), (''createdAt'', JStr (pk_createdAt k)),
      (''encoding'', JStr ''base64url''), (''keyId'', JStr (pk_keyId k)),
      (''publicKey'', JStr (pk_publicKey k)), (''purpose'', JStr (keyPurposeText (pk_purpose k)))]"

text \<open>The value whose JSON text \<open>serializeRemoteRuntimeAsymmetricPublicKey\<close> returns.\<close>

definition serializeRemoteRuntimeAsymmetricPublicKey :: "public_key \<Rightarrow> string + js" where
  "serializeRemoteRuntimeAsymmetricPublicKey k =
     (case validateRemoteRuntimeAsymmetricPublicKey (publicKeyJson k) of
        Inl e \<Rightarrow> Inl e | Inr k' \<Rightarrow> Inr (publicKeyJson k'))"

definition parseRemoteRuntimeResponseSigningPublicKey :: "js \<Rightarrow> string + public_key" where
  "parseRemoteRuntimeResponseSigningPublicKey v =
     (case validateRemoteRuntimeAsymmetricPublicKey v of
        Inl _ \<Rightarrow> Inl ''invalid schema''
      | Inr k \<Rightarrow> if pk_purpose k \<noteq> ResponseSigning then Inl ''invalid schema'' else Inr k)"

section \<open>Attachments\<close>

record allowed_directory =
  ad_directoryId :: string
  ad_displayName :: "string option option"
  ad_path :: string

definition isRuntimeWebSocketAllowedDirectoryValue :: "js \<Rightarrow> bool" where
  "isRuntimeWebSocketAllowedDirectoryValue v \<longleftrightarrow>
     isRecord v \<and> hasKey v ''directoryId'' \<and> hasKey v ''path''
   \<and> isNonEmptyRemoteRuntimeContractString (getProp v ''directoryId'')
   \<and> (getProp v ''displayName'' = JUndef \<or> getProp v ''displayName'' = JNull
      \<or> isNonEmptyRemoteRuntimeContractString (getProp v ''displayName''))
   \<and> isNonEmptyRemoteRuntimeContractString (getProp v ''path'')"

definition allowedDirectory :: "js \<Rightarrow> allowed_directory" where
  "allowedDirectory v =
     \<lparr> ad_directoryId = strOf (getProp v ''directoryId''),
       ad_displayName = (case getProp v ''displayName'' of JStr s \<Rightarrow> Some (Some s) | JNull \<Rightarrow> Some None | _ \<Rightarrow> None),
       ad_path = strOf (getProp v ''path'') \<rparr>"

datatype attachment_status = AttDegraded | AttOnline | AttRevoked | AttUnavailable

record runtime_attachment =
  gra_accountId :: string
  gra_allowedDirectories :: "allowed_directory list option"
  gra_attachmentCapabilities :: "attachment_capability list"
  gra_connectorVersion :: string
  gra_deviceTrustLevel :: "trust_level option"
  gra_directoryId :: string
  gra_directoryPath :: string
  gra_featureCapabilities :: "string list"
  gra_gatewayRuntimeAttachmentId :: string
  gra_runtimeInstallationId :: string
  gra_status :: attachment_status

datatype client_status = ClientAttached | ClientRevoked

record client_attachment =
  rca_accountId :: string
  rca_deviceTrustLevel :: trust_level
  rca_gatewayRuntimeAttachmentId :: string
  rca_clientAttachmentId :: string
  rca_runtimeInstallationId :: string
  rca_status :: client_status
  rca_trustedRuntimeClientId :: string

definition isOptionalRuntimeClientTrustLevel :: "js \<Rightarrow> bool" where
  "isOptionalRuntimeClientTrustLevel v \<longleftrightarrow> v = JUndef \<or> isRemoteRuntimeClientTrustLevel v"

definition attachmentFailed :: string where
  "attachmentFailed = ''Remote runtime websocket attachment failed.''"

definition parseGatewayRuntimeAttachment :: "js \<Rightarrow> string + runtime_attachment" where
  "parseGatewayRuntimeAttachment v =
     (let dirs = getProp v ''allowedDirectories''; caps = getProp v ''attachmentCapabilities'';
          feats = getProp v ''featureCapabilities''; status = getProp v ''status'';
          trust = getProp v ''deviceTrustLevel'' in
      if \<not> isRecord v
       \<or> \<not> isString (getProp v ''accountId'')
       \<or> \<not> (dirs = JUndef \<or> arrayEvery isRuntimeWebSocketAllowedDirectoryValue dirs)
       \<or> \<not> arrayEvery isRemoteRuntimeAttachmentCapability caps
       \<or> \<not> (feats = JUndef \<or> arrayEvery isRemoteRuntimeCapability feats)
       \<or> \<not> isString (getProp v ''connectorVersion'')
       \<or> \<not> isString (getProp v ''directoryId'')
       \<or> \<not> isString (getProp v ''directoryPath'')
       \<or> \<not> isString (getProp v ''gatewayRuntimeAttachmentId'')
       \<or> \<not> isString (getProp v ''runtimeInstallationId'')
       \<or> (status \<noteq> JStr ''online'' \<and> status \<noteq> JStr ''revoked'')
       \<or> \<not> isOptionalRuntimeClientTrustLevel trust
      then Inl attachmentFailed
      else Inr \<lparr> gra_accountId = strOf (getProp v ''accountId''),
                 gra_allowedDirectories =
                   (if dirs = JUndef then None else Some (map allowedDirectory (arrayItems dirs))),
                 gra_attachmentCapabilities = List.map_filter attachmentCapabilityValue (arrayItems caps),
                 gra_connectorVersion = strOf (getProp v ''connectorVersion''),
                 gra_deviceTrustLevel = trustLevelValue trust,
                 gra_directoryId = strOf (getProp v ''directoryId''),
                 gra_directoryPath = strOf (getProp v ''directoryPath''),
                 gra_featureCapabilities = map strOf (arrayItems feats),
                 gra_gatewayRuntimeAttachmentId = strOf (getProp v ''gatewayRuntimeAttachmentId''),
                 gra_runtimeInstallationId = strOf (getProp v ''runtimeInstallationId''),
                 gra_status = (if status = JStr ''online'' then AttOnline else AttRevoked) \<rparr>)"

definition parseRemoteRuntimeClientAttachment :: "js \<Rightarrow> string + client_attachment" where
  "parseRemoteRuntimeClientAttachment v =
     (let status = getProp v ''status''; trust = getProp v ''deviceTrustLevel'' in
      if \<not> isRecord v
       \<or> \<not> isString (getProp v ''accountId'')
       \<or> \<not> isOptionalRuntimeClientTrustLevel trust
       \<or> \<not> isString (getProp v ''gatewayRuntimeAttachmentId'')
       \<or> \<not> isString (getProp v ''clientAttachmentId'')
       \<or> \<not> isString (getProp v ''runtimeInstallationId'')
       \<or> (status \<noteq> JStr ''attached'' \<and> status \<noteq> JStr ''revoked'')
       \<or> \<not> isString (getProp v ''trustedRuntimeClientId'')
      then Inl ''Remote runtime websocket client attachment failed.''
      else Inr \<lparr> rca_accountId = strOf (getProp v ''accountId''),
                 rca_deviceTrustLevel = (case trustLevelValue trust of None \<Rightarrow> Paired | Some t \<Rightarrow> t),
                 rca_gatewayRuntimeAttachmentId = strOf (getProp v ''gatewayRuntimeAttachmentId''),
                 rca_clientAttachmentId = strOf (getProp v ''clientAttachmentId''),
                 rca_runtimeInstallationId = strOf (getProp v ''runtimeInstallationId''),
                 rca_status = (if status = JStr ''attached'' then ClientAttached else ClientRevoked),
                 rca_trustedRuntimeClientId = strOf (getProp v ''trustedRuntimeClientId'') \<rparr>)"

section \<open>Health, owner and reply targets\<close>

datatype attachment_health =
    HealthStarting | HealthOnline | HealthDegraded | HealthUnavailable | HealthRevoking
  | HealthRevoked | HealthExpired

definition isRuntimeAttachmentRoutable :: "attachment_health \<Rightarrow> bool" where
  "isRuntimeAttachmentRoutable health \<longleftrightarrow>
     health = HealthStarting \<or> health = HealthOnline \<or> health = HealthDegraded"

datatype reply_target = RemoteRuntimeAttachmentTarget string | GatewayHttpRequestTarget string

definition runtimeOwnerForRemoteRuntimeAttachment :: "string \<Rightarrow> reply_target" where
  "runtimeOwnerForRemoteRuntimeAttachment attachmentId = RemoteRuntimeAttachmentTarget attachmentId"

record reply_authority =
  ra_clientAttachmentId :: string
  ra_replyTarget :: js
  ra_trustedGatewayHttpRequest :: bool

definition defaultReplyTarget :: "reply_authority \<Rightarrow> reply_target" where
  "defaultReplyTarget frame =
     (if ra_trustedGatewayHttpRequest frame then GatewayHttpRequestTarget (ra_clientAttachmentId frame)
      else runtimeOwnerForRemoteRuntimeAttachment (ra_clientAttachmentId frame))"

definition validatedRuntimeOperationReplyTargetFromFrameAuthority ::
  "reply_authority \<Rightarrow> string \<Rightarrow> failure_envelope + reply_target" where
  "validatedRuntimeOperationReplyTargetFromFrameAuthority frame requestId =
     (let target = ra_replyTarget frame; fail = (\<lambda>message. Inl (plainFailure VALIDATION_FAILED requestId message)) in
      if target = JUndef then Inr (defaultReplyTarget frame)
      else if \<not> isRecord target then fail ''Runtime operation reply target must be an object.''
      else if getProp target ''kind'' = JStr ''remoteRuntimeAttachment'' then
        (let attachmentId = getProp target ''remoteRuntimeAttachmentId'' in
         if \<not> isNonEmptyRemoteRuntimeContractString attachmentId
         then fail ''Runtime operation remote runtime attachment reply target id is required.''
         else if ra_trustedGatewayHttpRequest frame
         then fail ''Gateway-trusted HTTP runtime operations cannot target a remote runtime attachment.''
         else if strOf attachmentId \<noteq> ra_clientAttachmentId frame
         then fail ''Runtime operation remote runtime attachment reply target must match the frame attachment id.''
         else Inr (runtimeOwnerForRemoteRuntimeAttachment (strOf attachmentId)))
      else if getProp target ''kind'' = JStr ''gatewayHttpRequest'' then
        (let gatewayHttpRequestId = getProp target ''gatewayHttpRequestId'' in
         if \<not> isNonEmptyRemoteRuntimeContractString gatewayHttpRequestId
         then fail ''Runtime operation gateway HTTP reply target id is required.''
         else if strOf gatewayHttpRequestId \<noteq> ra_clientAttachmentId frame
         then fail ''Runtime operation gateway HTTP reply target must match the frame request id.''
         else Inr (GatewayHttpRequestTarget (strOf gatewayHttpRequestId)))
      else fail ''Runtime operation reply target kind is invalid.'')"

definition runtimeOperationReplyTargetFromFrameAuthority :: "reply_authority \<Rightarrow> reply_target" where
  "runtimeOperationReplyTargetFromFrameAuthority frame =
     (case validatedRuntimeOperationReplyTargetFromFrameAuthority frame ''unknown'' of
        Inr target \<Rightarrow> target | Inl _ \<Rightarrow> defaultReplyTarget frame)"

section \<open>Status frames\<close>

datatype replay_status = ReplaySupported | ReplayUnsupported | ReplayUnavailable
datatype frame_status = FrameOnline | FrameOffline | FrameRevoked | FrameUnavailable

record status_frame =
  sf_attachmentCapabilities :: "attachment_capability list"
  sf_connectorVersion :: string
  sf_featureCapabilities :: "string list"
  sf_gatewayRuntimeAttachmentId :: string
  sf_replay :: replay_status
  sf_requestId :: string
  sf_runtimeApiVersion :: string
  sf_sequence :: int
  sf_status :: frame_status

text \<open>The sequencer: \<open>lastByAttachment\<close> and its two methods.\<close>

type_synonym status_sequencer = "(string, int) js_map"

definition lastSequence :: "status_sequencer \<Rightarrow> string \<Rightarrow> int" where
  "lastSequence seqs attachmentId = (case mapGet seqs attachmentId of None \<Rightarrow> 0 | Some n \<Rightarrow> n)"

definition sequencerAccept :: "status_frame \<Rightarrow> status_sequencer \<Rightarrow> bool \<times> status_sequencer" where
  "sequencerAccept frame seqs =
     (let last_seq = lastSequence seqs (sf_gatewayRuntimeAttachmentId frame) in
      if sf_sequence frame \<noteq> last_seq + 1 then (False, seqs)
      else (True, mapSet (sf_gatewayRuntimeAttachmentId frame) (sf_sequence frame) seqs))"

text \<open>The frames accepted out of a list, in order.\<close>

fun acceptedFrames :: "status_frame list \<Rightarrow> status_sequencer \<Rightarrow> status_frame list" where
  "acceptedFrames [] seqs = []"
| "acceptedFrames (f # fs) seqs =
     (case sequencerAccept f seqs of (ok, seqs') \<Rightarrow>
        if ok then f # acceptedFrames fs seqs' else acceptedFrames fs seqs')"

section \<open>Lemmas\<close>

interpretation operation_class_enum: text_enum operationClassText remoteRuntimeOperationClassValues
proof
  show "x \<in> set remoteRuntimeOperationClassValues" for x
    by (cases x) (simp_all add: remoteRuntimeOperationClassValues_def)
qed (simp add: remoteRuntimeOperationClassValues_def)

interpretation trust_level_enum: text_enum trustLevelText remoteRuntimeClientTrustLevelValues
proof
  show "x \<in> set remoteRuntimeClientTrustLevelValues" for x
    by (cases x) (simp_all add: remoteRuntimeClientTrustLevelValues_def)
qed (simp add: remoteRuntimeClientTrustLevelValues_def)

interpretation capability_enum: text_enum attachmentCapabilityText remoteRuntimeAttachmentCapabilityValues
proof
  show "x \<in> set remoteRuntimeAttachmentCapabilityValues" for x
    by (cases x) (simp_all add: remoteRuntimeAttachmentCapabilityValues_def)
qed (simp add: remoteRuntimeAttachmentCapabilityValues_def)

interpretation key_purpose_enum: text_enum keyPurposeText remoteRuntimePublicKeyPurposeValues
proof
  show "x \<in> set remoteRuntimePublicKeyPurposeValues" for x
    by (cases x) (simp_all add: remoteRuntimePublicKeyPurposeValues_def)
qed (simp add: remoteRuntimePublicKeyPurposeValues_def)

text \<open>Status frames of one attachment are accepted with sequence numbers 1, 2, 3, \<open>\<dots>\<close> without gap
  or repetition.\<close>

lemma lastSequence_set:
  "lastSequence (mapSet k n seqs) k' = (if k' = k then n else lastSequence seqs k')"
  by (simp add: lastSequence_def)

lemma acceptedFrames_sequences:
  "map sf_sequence (filter (\<lambda>f. sf_gatewayRuntimeAttachmentId f = k) (acceptedFrames fs seqs))
   = map (\<lambda>i. lastSequence seqs k + 1 + int i)
       [0 ..< length (filter (\<lambda>f. sf_gatewayRuntimeAttachmentId f = k) (acceptedFrames fs seqs))]"
proof (induction fs arbitrary: seqs)
  case Nil
  show ?case by simp
next
  case (Cons f fs)
  show ?case
  proof (cases "sf_sequence f = lastSequence seqs (sf_gatewayRuntimeAttachmentId f) + 1")
    case False
    with Cons.IH [of seqs] show ?thesis by (simp add: sequencerAccept_def Let_def)
  next
    case True
    let ?s = "mapSet (sf_gatewayRuntimeAttachmentId f) (sf_sequence f) seqs"
    have acc: "acceptedFrames (f # fs) seqs = f # acceptedFrames fs ?s"
      using True by (simp add: sequencerAccept_def Let_def)
    show ?thesis
    proof (cases "sf_gatewayRuntimeAttachmentId f = k")
      case False
      with acc Cons.IH [of ?s] show ?thesis by (simp add: lastSequence_set)
    next
      case True
      let ?n = "length (filter (\<lambda>f. sf_gatewayRuntimeAttachmentId f = k) (acceptedFrames fs ?s))"
      have "map (\<lambda>i. lastSequence ?s k + 1 + int i) [0 ..< ?n] = map (\<lambda>i. lastSequence seqs k + 1 + int i) [1 ..< Suc ?n]"
        using True \<open>sf_sequence f = _\<close>
        by (simp add: lastSequence_set map_Suc_upt [symmetric] del: upt_Suc) 
      with acc True \<open>sf_sequence f = _\<close> Cons.IH [of ?s] show ?thesis
        by (simp add: upt_conv_Cons del: upt_Suc)
    qed
  qed
qed

end
