(* ===== verification/Signing.thy ===== *)
theory Signing
  imports Attachments
begin

text \<open>
  The canonical payloads that the remote runtime signs
  (\<^verbatim>\<open>packages/remote-runtime-contracts/src/index.ts\<close>, and the event payload of
  \<^verbatim>\<open>packages/remote-runtime-contracts/src/remote-runtime-protocol.ts\<close>).  A payload is a list of lines
  joined by newlines; the first line is the scope.  Two facts matter for a verifier: a payload
  determines its fields, and payloads of different kinds never coincide.
\<close>

section \<open>Inputs\<close>

record key_possession_input =
  kp_challengeId :: "string option"
  kp_connectorVersion :: "string option"
  kp_deviceName :: "string option"
  kp_keyId :: string
  kp_nonce :: string
  kp_publicKey :: string
  kp_purpose :: key_purpose
  kp_runtimeInstallationId :: "string option"
  kp_timestamp :: string

record http_signing_input =
  hs_bodySha256 :: string
  hs_canonicalPath :: string
  hs_canonicalQuery :: string
  hs_idempotencyKey :: "string option"
  hs_keyId :: string
  hs_localRuntimeAccessTokenId :: "string option"
  hs_method :: string
  hs_remoteRuntimeHttpVersion :: "string option"
  hs_nonce :: string
  hs_requestId :: "string option"
  hs_runtimeInstallationId :: string
  hs_timestamp :: string
  hs_trustedRuntimeClientId :: string

record http_response_signing_input =
  hr_bodySha256 :: string
  hr_canonicalPath :: string
  hr_canonicalQuery :: string
  hr_keyId :: string
  hr_localRuntimeAccessTokenId :: "string option"
  hr_method :: string
  hr_remoteRuntimeHttpVersion :: "string option"
  hr_nonce :: string
  hr_requestId :: "string option"
  hr_runtimeInstallationId :: string
  hr_status :: int
  hr_timestamp :: string
  hr_trustedRuntimeClientId :: string

record ws_upgrade_signing_input =
  wu_accountId :: string
  wu_canonicalPath :: string
  wu_canonicalQuery :: string
  wu_keyId :: string
  wu_localRuntimeAccessTokenId :: "string option"
  wu_nonce :: string
  wu_requestId :: "string option"
  wu_runtimeInstallationId :: string
  wu_timestamp :: string
  wu_trustedRuntimeClientId :: string
  wu_webSocketVersion :: string

record ws_action_signing_input =
  wa_keyId :: string
  wa_nonce :: string
  wa_payloadSha256 :: string
  wa_requestId :: "string option"
  wa_runtimeInstallationId :: string
  wa_sequence :: int
  wa_sessionNonce :: string
  wa_timestamp :: string
  wa_trustedRuntimeClientId :: string

record ws_event_signing_input =
  we_eventPayloadSha256 :: string
  we_gatewayRuntimeAttachmentId :: "string option"
  we_keyId :: string
  we_runtimeInstallationId :: string
  we_timestamp :: string
  we_trustedRuntimeClientId :: string

text \<open>\<open>x ?? ""\<close>, and an undefined version printed by a template literal.\<close>

definition orEmpty :: "string option \<Rightarrow> string" where
  "orEmpty x = (case x of None \<Rightarrow> [] | Some s \<Rightarrow> s)"

definition orUndefined :: "string option \<Rightarrow> string" where
  "orUndefined x = (case x of None \<Rightarrow> ''undefined'' | Some s \<Rightarrow> s)"

section \<open>Payloads\<close>

definition createRemoteRuntimeKeyPossessionProofPayloadWithScope ::
  "key_possession_input \<Rightarrow> string \<Rightarrow> string" where
  "createRemoteRuntimeKeyPossessionProofPayloadWithScope i scope = join newline
     [scope,
      ''challengeId:'' @ orEmpty (kp_challengeId i),
      ''connectorVersion:'' @ orEmpty (kp_connectorVersion i),
      ''deviceName:'' @ orEmpty (kp_deviceName i),
      ''keyId:'' @ kp_keyId i,
      ''nonce:'' @ kp_nonce i,
      ''publicKey:'' @ kp_publicKey i,
      ''purpose:'' @ keyPurposeText (kp_purpose i),
      ''runtimeInstallationId:'' @ orEmpty (kp_runtimeInstallationId i),
      ''timestamp:'' @ kp_timestamp i]"

definition createRemoteRuntimeKeyPossessionProofPayload :: "key_possession_input \<Rightarrow> string" where
  "createRemoteRuntimeKeyPossessionProofPayload i =
     createRemoteRuntimeKeyPossessionProofPayloadWithScope i ''interbase-remote-runtime-key-possession-v1''"

definition createPreviousClientKeyPossessionProofPayload :: "key_possession_input \<Rightarrow> string" where
  "createPreviousClientKeyPossessionProofPayload i =
     createRemoteRuntimeKeyPossessionProofPayloadWithScope i ''interbase-client-key-possession-v1''"

definition createRemoteRuntimeCanonicalHttpSigningPayload :: "http_signing_input \<Rightarrow> string" where
  "createRemoteRuntimeCanonicalHttpSigningPayload i = join newline
     [''interbase-remote-runtime-http-signature-v1'',
      ''method:'' @ toUpperCase (hs_method i),
      ''path:'' @ hs_canonicalPath i,
      ''query:'' @ hs_canonicalQuery i,
      ''bodySha256:'' @ hs_bodySha256 i,
      ''remoteRuntimeHttpVersion:'' @ orUndefined (hs_remoteRuntimeHttpVersion i),
      ''runtimeInstallationId:'' @ hs_runtimeInstallationId i,
      ''trustedRuntimeClientId:'' @ hs_trustedRuntimeClientId i,
      ''keyId:'' @ hs_keyId i,
      ''requestId:'' @ orEmpty (hs_requestId i),
      ''idempotencyKey:'' @ orEmpty (hs_idempotencyKey i),
      ''localRuntimeAccessTokenId:'' @ orEmpty (hs_localRuntimeAccessTokenId i),
      ''timestamp:'' @ hs_timestamp i,
      ''nonce:'' @ hs_nonce i]"

definition createRemoteRuntimeCanonicalHttpResponseSigningPayload :: "http_response_signing_input \<Rightarrow> string" where
  "createRemoteRuntimeCanonicalHttpResponseSigningPayload i = join newline
     [''interbase-runtime-http-response-signature-v1'',
      ''method:'' @ toUpperCase (hr_method i),
      ''path:'' @ hr_canonicalPath i,
      ''query:'' @ hr_canonicalQuery i,
      ''status:'' @ intText (hr_status i),
      ''bodySha256:'' @ hr_bodySha256 i,
      ''remoteRuntimeHttpVersion:'' @ orUndefined (hr_remoteRuntimeHttpVersion i),
      ''runtimeInstallationId:'' @ hr_runtimeInstallationId i,
      ''trustedRuntimeClientId:'' @ hr_trustedRuntimeClientId i,
      ''keyId:'' @ hr_keyId i,
      ''requestId:'' @ orEmpty (hr_requestId i),
      ''localRuntimeAccessTokenId:'' @ orEmpty (hr_localRuntimeAccessTokenId i),
      ''timestamp:'' @ hr_timestamp i,
      ''nonce:'' @ hr_nonce i]"

definition createRemoteRuntimeCanonicalWebSocketUpgradeSigningPayload :: "ws_upgrade_signing_input \<Rightarrow> string" where
  "createRemoteRuntimeCanonicalWebSocketUpgradeSigningPayload i = join newline
     [''interbase-remote-runtime-websocket-upgrade-signature-v1'',
      ''accountId:'' @ wu_accountId i,
      ''path:'' @ wu_canonicalPath i,
      ''query:'' @ wu_canonicalQuery i,
      ''webSocketVersion:'' @ wu_webSocketVersion i,
      ''runtimeInstallationId:'' @ wu_runtimeInstallationId i,
      ''trustedRuntimeClientId:'' @ wu_trustedRuntimeClientId i,
      ''localRuntimeAccessTokenId:'' @ orEmpty (wu_localRuntimeAccessTokenId i),
      ''keyId:'' @ wu_keyId i,
      ''requestId:'' @ orEmpty (wu_requestId i),
      ''timestamp:'' @ wu_timestamp i,
      ''nonce:'' @ wu_nonce i]"

definition createRemoteRuntimeCanonicalWebSocketActionSigningPayload :: "ws_action_signing_input \<Rightarrow> string" where
  "createRemoteRuntimeCanonicalWebSocketActionSigningPayload i = join newline
     [''interbase-remote-runtime-websocket-action-signature-v1'',
      ''sessionNonce:'' @ wa_sessionNonce i,
      ''sequence:'' @ intText (wa_sequence i),
      ''runtimeInstallationId:'' @ wa_runtimeInstallationId i,
      ''trustedRuntimeClientId:'' @ wa_trustedRuntimeClientId i,
      ''payloadSha256:'' @ wa_payloadSha256 i,
      ''keyId:'' @ wa_keyId i,
      ''requestId:'' @ orEmpty (wa_requestId i),
      ''timestamp:'' @ wa_timestamp i,
      ''nonce:'' @ wa_nonce i]"

definition createRuntimeWebSocketEventSignaturePayload :: "ws_event_signing_input \<Rightarrow> string" where
  "createRuntimeWebSocketEventSignaturePayload i = join newline
     [''interbase-runtime-websocket-event-signature-v1'',
      ''runtimeInstallationId:'' @ we_runtimeInstallationId i,
      ''trustedRuntimeClientId:'' @ we_trustedRuntimeClientId i,
      ''gatewayRuntimeAttachmentId:'' @ orEmpty (we_gatewayRuntimeAttachmentId i),
      ''keyId:'' @ we_keyId i,
      ''eventPayloadSha256:'' @ we_eventPayloadSha256 i,
      ''timestamp:'' @ we_timestamp i]"

lemmas payload_defs =
  createRemoteRuntimeKeyPossessionProofPayloadWithScope_def
  createRemoteRuntimeKeyPossessionProofPayload_def createPreviousClientKeyPossessionProofPayload_def
  createRemoteRuntimeCanonicalHttpSigningPayload_def
  createRemoteRuntimeCanonicalHttpResponseSigningPayload_def
  createRemoteRuntimeCanonicalWebSocketUpgradeSigningPayload_def
  createRemoteRuntimeCanonicalWebSocketActionSigningPayload_def
  createRuntimeWebSocketEventSignaturePayload_def

section \<open>Joined lines determine their lines\<close>

definition oneLine :: "string \<Rightarrow> bool" where
  "oneLine s \<longleftrightarrow> CHR 0x0A \<notin> set s"

lemma oneLine_append [simp]: "oneLine (a @ b) \<longleftrightarrow> oneLine a \<and> oneLine b"
  by (auto simp: oneLine_def)

lemma oneLine_Cons [simp]: "oneLine (c # b) \<longleftrightarrow> c \<noteq> CHR 0x0A \<and> oneLine b"
  by (auto simp: oneLine_def)

lemma oneLine_Nil [simp]: "oneLine []"
  by (simp add: oneLine_def)

lemma oneLine_intText [simp]: "oneLine (intText i)"
proof -
  have "CHR 0x0A \<notin> set (natDigits n)" for n using natDigits_digit [of "CHR 0x0A" n] by auto
  then show ?thesis by (simp add: oneLine_def intText_def)
qed

lemma oneLine_purpose [simp]: "oneLine (keyPurposeText p)"
  by (cases p) simp_all

lemma joined_lines_inj:
  "length xs = length ys \<Longrightarrow> \<forall>x\<in>set xs. oneLine x \<Longrightarrow> \<forall>y\<in>set ys. oneLine y
     \<Longrightarrow> join newline xs = join newline ys \<longleftrightarrow> xs = ys"
  using join_sep_inj [of xs "CHR 0x0A" ys] by (auto simp: oneLine_def newline_def)

lemma joined_first_line:
  assumes "join newline (x # x' # xs) = join newline (y # y' # ys)" and "oneLine x" and "oneLine y"
  shows "x = y"
proof -
  have "x @ CHR 0x0A # join newline (x' # xs) = y @ CHR 0x0A # join newline (y' # ys)"
    using assms(1) by (simp add: newline_def)
  from append_sep_eq [OF assms(2,3) [unfolded oneLine_def] this] show ?thesis by simp
qed

text \<open>Inputs whose fields are single lines.\<close>

definition httpOneLine :: "http_signing_input \<Rightarrow> bool" where
  "httpOneLine i \<longleftrightarrow> list_all oneLine
     [toUpperCase (hs_method i), hs_canonicalPath i, hs_canonicalQuery i, hs_bodySha256 i,
      orUndefined (hs_remoteRuntimeHttpVersion i), hs_runtimeInstallationId i, hs_trustedRuntimeClientId i,
      hs_keyId i, orEmpty (hs_requestId i), orEmpty (hs_idempotencyKey i),
      orEmpty (hs_localRuntimeAccessTokenId i), hs_timestamp i, hs_nonce i]"

definition actionOneLine :: "ws_action_signing_input \<Rightarrow> bool" where
  "actionOneLine i \<longleftrightarrow> list_all oneLine
     [wa_sessionNonce i, wa_runtimeInstallationId i, wa_trustedRuntimeClientId i, wa_payloadSha256 i,
      wa_keyId i, orEmpty (wa_requestId i), wa_timestamp i, wa_nonce i]"

definition eventOneLine :: "ws_event_signing_input \<Rightarrow> bool" where
  "eventOneLine i \<longleftrightarrow> list_all oneLine
     [we_runtimeInstallationId i, we_trustedRuntimeClientId i, orEmpty (we_gatewayRuntimeAttachmentId i),
      we_keyId i, we_eventPayloadSha256 i, we_timestamp i]"

definition sampleHttpInput :: http_signing_input where
  "sampleHttpInput = \<lparr> hs_bodySha256 = ''b'', hs_canonicalPath = ''/p'', hs_canonicalQuery = [],
     hs_idempotencyKey = None, hs_keyId = ''k'', hs_localRuntimeAccessTokenId = None, hs_method = ''get'',
     hs_remoteRuntimeHttpVersion = None, hs_nonce = ''n'', hs_requestId = None,
     hs_runtimeInstallationId = ''r'', hs_timestamp = ''t'', hs_trustedRuntimeClientId = ''c'' \<rparr>"

definition sampleActionInput :: ws_action_signing_input where
  "sampleActionInput = \<lparr> wa_keyId = ''k'', wa_nonce = ''n'', wa_payloadSha256 = ''h'', wa_requestId = None,
     wa_runtimeInstallationId = ''r'', wa_sequence = 1, wa_sessionNonce = ''s'', wa_timestamp = ''t'',
     wa_trustedRuntimeClientId = ''c'' \<rparr>"

section \<open>Properties\<close>

text \<open>The canonical HTTP request payload binds every field it carries: two requests with single-line
  fields that have the same payload agree on method (up to case), path, query, body hash, version,
  installation, client, key, timestamp and nonce, and on request id, idempotency key and access token
  id up to absent against empty.\<close>
theorem http_payload_binds_fields:
  assumes "httpOneLine i" and "httpOneLine j"
    and "createRemoteRuntimeCanonicalHttpSigningPayload i = createRemoteRuntimeCanonicalHttpSigningPayload j"
  shows "toUpperCase (hs_method i) = toUpperCase (hs_method j) \<and> hs_canonicalPath i = hs_canonicalPath j
       \<and> hs_canonicalQuery i = hs_canonicalQuery j \<and> hs_bodySha256 i = hs_bodySha256 j
       \<and> orUndefined (hs_remoteRuntimeHttpVersion i) = orUndefined (hs_remoteRuntimeHttpVersion j)
       \<and> hs_runtimeInstallationId i = hs_runtimeInstallationId j
       \<and> hs_trustedRuntimeClientId i = hs_trustedRuntimeClientId j \<and> hs_keyId i = hs_keyId j
       \<and> orEmpty (hs_requestId i) = orEmpty (hs_requestId j)
       \<and> orEmpty (hs_idempotencyKey i) = orEmpty (hs_idempotencyKey j)
       \<and> orEmpty (hs_localRuntimeAccessTokenId i) = orEmpty (hs_localRuntimeAccessTokenId j)
       \<and> hs_timestamp i = hs_timestamp j \<and> hs_nonce i = hs_nonce j"
proof -
  note payload = assms(3) [unfolded createRemoteRuntimeCanonicalHttpSigningPayload_def]
  show ?thesis
    by (rule joined_lines_inj [THEN iffD1, OF _ _ _ payload, simplified, elim_format])
      (use assms(1,2) in \<open>simp_all add: httpOneLine_def\<close>)
qed

theorem http_payload_binds_fields_witness:
  "hs_nonce sampleHttpInput = ''n'' \<and> hs_canonicalPath sampleHttpInput = hs_canonicalPath (sampleHttpInput\<lparr>hs_method := ''GET''\<rparr>)"
proof -
  have up: "toUpperCase ''get'' = ''GET''" "toUpperCase ''GET'' = ''GET''" by code_simp+
  have "httpOneLine sampleHttpInput" "httpOneLine (sampleHttpInput\<lparr>hs_method := ''GET''\<rparr>)"
    by (simp_all add: httpOneLine_def sampleHttpInput_def orEmpty_def orUndefined_def up)
  moreover have "createRemoteRuntimeCanonicalHttpSigningPayload sampleHttpInput
      = createRemoteRuntimeCanonicalHttpSigningPayload (sampleHttpInput\<lparr>hs_method := ''GET''\<rparr>)"
    unfolding createRemoteRuntimeCanonicalHttpSigningPayload_def by (simp add: sampleHttpInput_def up)
  ultimately show ?thesis using http_payload_binds_fields by (auto simp: sampleHttpInput_def)
qed

text \<open>The payload of a signed WebSocket action binds the session, the sequence number and the action:
  two actions with single-line fields and the same payload have the same session nonce, sequence
  number, payload hash, installation, client, key, timestamp and nonce.\<close>
theorem action_payload_binds_fields:
  assumes "actionOneLine i" and "actionOneLine j"
    and "createRemoteRuntimeCanonicalWebSocketActionSigningPayload i
       = createRemoteRuntimeCanonicalWebSocketActionSigningPayload j"
  shows "wa_sessionNonce i = wa_sessionNonce j \<and> wa_sequence i = wa_sequence j
       \<and> wa_runtimeInstallationId i = wa_runtimeInstallationId j
       \<and> wa_trustedRuntimeClientId i = wa_trustedRuntimeClientId j
       \<and> wa_payloadSha256 i = wa_payloadSha256 j \<and> wa_keyId i = wa_keyId j
       \<and> orEmpty (wa_requestId i) = orEmpty (wa_requestId j)
       \<and> wa_timestamp i = wa_timestamp j \<and> wa_nonce i = wa_nonce j"
proof -
  note payload = assms(3) [unfolded createRemoteRuntimeCanonicalWebSocketActionSigningPayload_def]
  show ?thesis
    by (rule joined_lines_inj [THEN iffD1, OF _ _ _ payload, simplified, elim_format])
      (use assms(1,2) intText_inj in \<open>auto simp: actionOneLine_def\<close>)
qed

theorem action_payload_binds_fields_witness:
  "wa_sequence sampleActionInput = wa_sequence (sampleActionInput\<lparr>wa_requestId := Some []\<rparr>)"
proof -
  have "actionOneLine sampleActionInput" "actionOneLine (sampleActionInput\<lparr>wa_requestId := Some []\<rparr>)"
    by (simp_all add: actionOneLine_def sampleActionInput_def orEmpty_def)
  moreover have "createRemoteRuntimeCanonicalWebSocketActionSigningPayload sampleActionInput
      = createRemoteRuntimeCanonicalWebSocketActionSigningPayload (sampleActionInput\<lparr>wa_requestId := Some []\<rparr>)"
    unfolding createRemoteRuntimeCanonicalWebSocketActionSigningPayload_def
    by (simp add: sampleActionInput_def orEmpty_def)
  ultimately show ?thesis using action_payload_binds_fields by blast
qed

text \<open>Domain separation: whatever the fields are, no payload of one kind (key possession, previous key
  possession, HTTP request, HTTP response, WebSocket upgrade, WebSocket action, WebSocket event) is a
  payload of another kind, so a signature made for one purpose cannot verify for another.\<close>
theorem payload_domains_separate:
  "distinct
    [createRemoteRuntimeKeyPossessionProofPayload a, createPreviousClientKeyPossessionProofPayload b,
     createRemoteRuntimeCanonicalHttpSigningPayload c, createRemoteRuntimeCanonicalHttpResponseSigningPayload d,
     createRemoteRuntimeCanonicalWebSocketUpgradeSigningPayload e,
     createRemoteRuntimeCanonicalWebSocketActionSigningPayload f, createRuntimeWebSocketEventSignaturePayload g]"
proof -
  have *: "oneLine x \<Longrightarrow> oneLine y \<Longrightarrow> x \<noteq> y
      \<Longrightarrow> join newline (x # x' # xs) \<noteq> join newline (y # y' # ys)" for x y x' y' xs ys
    using joined_first_line by blast
  show ?thesis unfolding payload_defs distinct.simps list.set insert_iff empty_iff de_Morgan_disj simp_thms
    by (intro conjI; (rule *; simp)?)
qed

end
