(* ===== verification/Verification.thy ===== *)
theory Verification
  imports Signing
begin

text \<open>
  Verification of signed requests (\<^verbatim>\<open>packages/remote-runtime-host/src/index.ts\<close>): the nonce replay store
  behind the interface \<open>RemoteRuntimeNonceReplayStore\<close>, the authority check of a signed request, and
  the verifiers of HTTP requests, WebSocket upgrades and WebSocket actions, HTTP responses,
  WebSocket events and key possession proofs.  The Ed25519 primitive of the platform is the parameter
  \<open>ed25519\<close> and \<open>Date.parse\<close> is the parameter \<open>dateParse\<close>.
\<close>

section \<open>The nonce replay store\<close>

record reserve_input =
  ri_expiresAtMs :: "jnum option"
  ri_keyId :: string
  ri_nonce :: string
  ri_nowMs :: "jnum option"

text \<open>\<open>seen\<close> and \<open>lastPrunedAtMs\<close> (\<open>None\<close> is the initial negative infinity) with the two options.\<close>

record nonce_store =
  ns_seen :: "(string, jnum) js_map"
  ns_lastPrunedAtMs :: "rat option"
  ns_maxEntries :: nat
  ns_pruneIntervalMs :: rat

definition createInMemoryRemoteRuntimeNonceReplayStore ::
  "jnum option \<Rightarrow> jnum option \<Rightarrow> string + nonce_store" where
  "createInMemoryRemoteRuntimeNonceReplayStore maxEntries pruneIntervalMs =
     (let entries = (case maxEntries of None \<Rightarrow> JFin 100000 | Some n \<Rightarrow> n);
          interval = (case pruneIntervalMs of None \<Rightarrow> JFin 30000 | Some n \<Rightarrow> n) in
      if \<not> numSafeInteger entries \<or> \<not> numGe entries 1
      then Inl ''Remote runtime nonce replay store maxEntries must be a positive safe integer.''
      else if \<not> numFinite interval \<or> \<not> numGe interval 0
      then Inl ''Remote runtime nonce replay store pruneIntervalMs must be a non-negative number.''
      else Inr \<lparr> ns_seen = [], ns_lastPrunedAtMs = None, ns_maxEntries = nat \<lfloor>numRat entries\<rfloor>,
                 ns_pruneIntervalMs = numRat interval \<rparr>)"

definition pruneDue :: "nonce_store \<Rightarrow> rat \<Rightarrow> bool" where
  "pruneDue s now \<longleftrightarrow>
     length (ns_seen s) \<ge> ns_maxEntries s
   \<or> (case ns_lastPrunedAtMs s of None \<Rightarrow> True | Some t \<Rightarrow> now - t \<ge> ns_pruneIntervalMs s)"

definition pruneNonces :: "rat \<Rightarrow> nonce_store \<Rightarrow> nonce_store" where
  "pruneNonces now s = s\<lparr> ns_lastPrunedAtMs := Some now,
     ns_seen := filter (\<lambda>(key, expiresAtMs). \<not> numLe expiresAtMs now) (ns_seen s)\<rparr>"

definition nonceKey :: "string \<Rightarrow> string \<Rightarrow> string" where
  "nonceKey keyId nonce = keyId @ '':'' @ nonce"

definition reserveNonce :: "reserve_input \<Rightarrow> nonce_store \<Rightarrow> bool \<times> nonce_store" where
  "reserveNonce input s0 =
     (let s = (case ri_nowMs input of Some (JFin now) \<Rightarrow> if pruneDue s0 now then pruneNonces now s0 else s0
               | _ \<Rightarrow> s0);
          key = nonceKey (ri_keyId input) (ri_nonce input);
          expiresAtMs = (case ri_expiresAtMs input of Some (JFin e) \<Rightarrow> JFin e | _ \<Rightarrow> JPosInf)
      in if mapGet (ns_seen s) key \<noteq> None then (False, s)
         else if length (ns_seen s) \<ge> ns_maxEntries s then (False, s)
         else (True, s\<lparr>ns_seen := mapSet key expiresAtMs (ns_seen s)\<rparr>))"

text \<open>
  The contract a verifier needs of its nonce store: what it has reserved stays reserved until the
  expiry passed with it, whatever is reserved in between.
\<close>

locale nonce_replay_store =
  fixes reserve :: "reserve_input \<Rightarrow> 's \<Rightarrow> bool \<times> 's"
    and held :: "'s \<Rightarrow> string \<Rightarrow> string \<Rightarrow> rat \<Rightarrow> bool"
  assumes reserve_holds: "reserve i s = (True, s') \<Longrightarrow> ri_expiresAtMs i = Some (JFin e)
            \<Longrightarrow> held s' (ri_keyId i) (ri_nonce i) e"
    and held_rejects: "held s (ri_keyId i) (ri_nonce i) e \<Longrightarrow> ri_nowMs i = Some (JFin t) \<Longrightarrow> t < e
            \<Longrightarrow> \<not> fst (reserve i s)"
    and held_stays: "held s k n e \<Longrightarrow> ri_nowMs i = Some (JFin t) \<Longrightarrow> t < e
            \<Longrightarrow> held (snd (reserve i s)) k n e"
begin

definition before :: "rat \<Rightarrow> reserve_input \<Rightarrow> bool" where
  "before e i \<longleftrightarrow> (\<exists>t. ri_nowMs i = Some (JFin t) \<and> t < e)"

lemma held_run:
  "held s k n e \<Longrightarrow> \<forall>i\<in>set is. before e i \<Longrightarrow> held (fold (\<lambda>i s. snd (reserve i s)) is s) k n e"
proof (induction "is" arbitrary: s)
  case Nil
  then show ?case by simp
next
  case (Cons i "is")
  then obtain t where "ri_nowMs i = Some (JFin t)" "t < e" by (auto simp: before_def)
  with Cons.prems held_stays have "held (snd (reserve i s)) k n e" by blast
  with Cons show ?case by simp
qed

lemma replay_rejected:
  assumes "reserve i s = (True, s')" and "ri_expiresAtMs i = Some (JFin e)"
    and "\<forall>j\<in>set js. before e j" and "before e r" and "ri_keyId r = ri_keyId i" and "ri_nonce r = ri_nonce i"
  shows "\<not> fst (reserve r (fold (\<lambda>i s. snd (reserve i s)) js s'))"
proof -
  have "held (fold (\<lambda>i s. snd (reserve i s)) js s') (ri_keyId r) (ri_nonce r) e"
    using held_run [OF reserve_holds [OF assms(1,2)] assms(3)] assms(5,6) by simp
  with assms(4) held_rejects show ?thesis by (auto simp: before_def)
qed

end

definition nonceHeld :: "nonce_store \<Rightarrow> string \<Rightarrow> string \<Rightarrow> rat \<Rightarrow> bool" where
  "nonceHeld s keyId nonce e \<longleftrightarrow>
     mapGet (ns_seen s) (nonceKey keyId nonce) = Some (JFin e)"

lemma map_of_filter_keep:
  "map_of xs k = Some v \<Longrightarrow> P (k, v) \<Longrightarrow> map_of (filter P xs) k = Some v"
  by (induction xs) (auto split: if_splits)

text \<open>The state \<open>reserve\<close> looks at: pruned when due.\<close>

definition prunedFor :: "reserve_input \<Rightarrow> nonce_store \<Rightarrow> nonce_store" where
  "prunedFor i s = (case ri_nowMs i of Some (JFin now) \<Rightarrow> if pruneDue s now then pruneNonces now s else s | _ \<Rightarrow> s)"

lemma prunedFor_held:
  assumes "nonceHeld s k n e" and "ri_nowMs i = Some (JFin t)" and "t < e"
  shows "nonceHeld (prunedFor i s) k n e"
  using assms
  by (auto simp: prunedFor_def pruneNonces_def nonceHeld_def intro!: map_of_filter_keep)

lemma reserveNonce_alt:
  "reserveNonce i s =
     (let p = prunedFor i s; key = nonceKey (ri_keyId i) (ri_nonce i) in
      if mapGet (ns_seen p) key \<noteq> None then (False, p)
      else if length (ns_seen p) \<ge> ns_maxEntries p then (False, p)
      else (True, p\<lparr>ns_seen := mapSet key (case ri_expiresAtMs i of Some (JFin e) \<Rightarrow> JFin e | _ \<Rightarrow> JPosInf) (ns_seen p)\<rparr>))"
  by (simp add: reserveNonce_def prunedFor_def Let_def)

interpretation memory_nonces: nonce_replay_store reserveNonce nonceHeld
proof
  fix i s s' e t k n
  show "reserveNonce i s = (True, s') \<Longrightarrow> ri_expiresAtMs i = Some (JFin e)
      \<Longrightarrow> nonceHeld s' (ri_keyId i) (ri_nonce i) e"
    by (auto simp: reserveNonce_alt Let_def nonceHeld_def split: if_splits)
  show "nonceHeld s (ri_keyId i) (ri_nonce i) e \<Longrightarrow> ri_nowMs i = Some (JFin t) \<Longrightarrow> t < e
      \<Longrightarrow> \<not> fst (reserveNonce i s)"
    using prunedFor_held [of s "ri_keyId i" "ri_nonce i" e i t]
    by (simp add: reserveNonce_alt Let_def nonceHeld_def)
  show "nonceHeld s k n e \<Longrightarrow> ri_nowMs i = Some (JFin t) \<Longrightarrow> t < e \<Longrightarrow> nonceHeld (snd (reserveNonce i s)) k n e"
    using prunedFor_held [of s k n e i t]
    by (auto simp: reserveNonce_alt Let_def nonceHeld_def)
qed

text \<open>The store never holds more than its limit.\<close>

lemma length_mapSet: "length (mapSet k v m) \<le> Suc (length m)"
  by (induction m) auto

lemma reserveNonce_bound:
  "length (ns_seen s) \<le> ns_maxEntries s
     \<Longrightarrow> length (ns_seen (snd (reserveNonce i s))) \<le> ns_maxEntries (snd (reserveNonce i s))"
proof -
  assume bound: "length (ns_seen s) \<le> ns_maxEntries s"
  have "length (ns_seen (prunedFor i s)) \<le> ns_maxEntries (prunedFor i s)"
    using bound by (auto simp: prunedFor_def pruneNonces_def split: option.splits jnum.splits
        intro: le_trans [OF length_filter_le])
  then show ?thesis using length_mapSet [of "nonceKey (ri_keyId i) (ri_nonce i)" _ "ns_seen (prunedFor i s)"]
    by (fastforce simp: reserveNonce_alt Let_def intro: le_trans)
qed

section \<open>Signed requests\<close>

record signature_proof =
  sp_keyId :: string
  sp_nonce :: string
  sp_signature :: string
  sp_timestamp :: string
  sp_hash :: string

text \<open>The three payload inputs a request verifier accepts; \<open>algorithm\<close> is always ed25519.\<close>

datatype signed_payload =
    HttpPayload http_signing_input
  | UpgradePayload ws_upgrade_signing_input
  | ActionPayload ws_action_signing_input

fun spKeyId :: "signed_payload \<Rightarrow> string" where
  "spKeyId (HttpPayload i) = hs_keyId i"
| "spKeyId (UpgradePayload i) = wu_keyId i"
| "spKeyId (ActionPayload i) = wa_keyId i"

fun spNonce :: "signed_payload \<Rightarrow> string" where
  "spNonce (HttpPayload i) = hs_nonce i"
| "spNonce (UpgradePayload i) = wu_nonce i"
| "spNonce (ActionPayload i) = wa_nonce i"

fun spTimestamp :: "signed_payload \<Rightarrow> string" where
  "spTimestamp (HttpPayload i) = hs_timestamp i"
| "spTimestamp (UpgradePayload i) = wu_timestamp i"
| "spTimestamp (ActionPayload i) = wa_timestamp i"

fun spRequestId :: "signed_payload \<Rightarrow> string option" where
  "spRequestId (HttpPayload i) = hs_requestId i"
| "spRequestId (UpgradePayload i) = wu_requestId i"
| "spRequestId (ActionPayload i) = wa_requestId i"

fun spText :: "signed_payload \<Rightarrow> string" where
  "spText (HttpPayload i) = createRemoteRuntimeCanonicalHttpSigningPayload i"
| "spText (UpgradePayload i) = createRemoteRuntimeCanonicalWebSocketUpgradeSigningPayload i"
| "spText (ActionPayload i) = createRemoteRuntimeCanonicalWebSocketActionSigningPayload i"

fun spMessage :: "signed_payload \<Rightarrow> string" where
  "spMessage (HttpPayload i) = ''Remote runtime request signature is invalid.''"
| "spMessage (UpgradePayload i) = ''Remote runtime WebSocket signature is invalid.''"
| "spMessage (ActionPayload i) = ''Remote runtime WebSocket action signature is invalid.''"

text \<open>The body or payload hash is compared for requests and actions, an upgrade has none.\<close>

fun spHashMatches :: "signed_payload \<Rightarrow> signature_proof \<Rightarrow> bool" where
  "spHashMatches (HttpPayload i) proof \<longleftrightarrow> sp_hash proof = hs_bodySha256 i"
| "spHashMatches (UpgradePayload i) proof \<longleftrightarrow> True"
| "spHashMatches (ActionPayload i) proof \<longleftrightarrow> sp_hash proof = wa_payloadSha256 i"

record verification_input =
  vi_maxSkewMs :: "rat option"
  vi_nowMs :: rat
  vi_payload :: signed_payload
  vi_proof :: signature_proof
  vi_publicKey :: public_key

definition skewOf :: "verification_input \<Rightarrow> rat" where
  "skewOf input = (case vi_maxSkewMs input of None \<Rightarrow> 300000 | Some m \<Rightarrow> m)"

definition signatureFailure :: "verification_input \<Rightarrow> failure_envelope" where
  "signatureFailure input =
     plainFailure AUTHORIZATION_FAILED
       (case spRequestId (vi_payload input) of None \<Rightarrow> ''unknown'' | Some r \<Rightarrow> r)
       (spMessage (vi_payload input))"

text \<open>Right: the parsed timestamp.\<close>

definition validateRemoteRuntimeSignedRequestAuthority ::
  "(string \<Rightarrow> jnum) \<Rightarrow> verification_input \<Rightarrow> failure_envelope + rat" where
  "validateRemoteRuntimeSignedRequestAuthority dateParse input =
     (let key = vi_publicKey input; proof = vi_proof input; payload = vi_payload input in
      case validateRemoteRuntimeAsymmetricPublicKey (publicKeyJson key) of
        Inl _ \<Rightarrow> Inl (signatureFailure input)
      | Inr _ \<Rightarrow>
          if pk_purpose key \<noteq> RequestSigning \<or> pk_keyId key \<noteq> sp_keyId proof
             \<or> sp_keyId proof \<noteq> spKeyId payload \<or> sp_nonce proof \<noteq> spNonce payload
             \<or> sp_timestamp proof \<noteq> spTimestamp payload
          then Inl (signatureFailure input)
          else (case dateParse (sp_timestamp proof) of
                  JFin timestampMs \<Rightarrow>
                    if \<bar>vi_nowMs input - timestampMs\<bar> > skewOf input then Inl (signatureFailure input)
                    else Inr timestampMs
                | _ \<Rightarrow> Inl (signatureFailure input)))"

definition reservationOf :: "(string \<Rightarrow> jnum) \<Rightarrow> verification_input \<Rightarrow> reserve_input" where
  "reservationOf dateParse input =
     \<lparr> ri_expiresAtMs = Some (case dateParse (sp_timestamp (vi_proof input)) of
          JFin t \<Rightarrow> JFin (t + skewOf input) | n \<Rightarrow> n),
       ri_keyId = sp_keyId (vi_proof input), ri_nonce = sp_nonce (vi_proof input),
       ri_nowMs = Some (JFin (vi_nowMs input)) \<rparr>"

text \<open>Signature first, then the nonce: a request with a bad signature reserves nothing.\<close>

definition verifyRemoteRuntimeSignedRequestPayload ::
  "(string \<Rightarrow> string \<Rightarrow> string \<Rightarrow> bool) \<Rightarrow> (string \<Rightarrow> jnum) \<Rightarrow> (reserve_input \<Rightarrow> 's \<Rightarrow> bool \<times> 's)
     \<Rightarrow> verification_input \<Rightarrow> 's \<Rightarrow> (failure_envelope + string) \<times> 's" where
  "verifyRemoteRuntimeSignedRequestPayload ed25519 dateParse reserve input store =
     (if \<not> ed25519 (spText (vi_payload input)) (pk_publicKey (vi_publicKey input)) (sp_signature (vi_proof input))
      then (Inl (signatureFailure input), store)
      else (case reserve (reservationOf dateParse input) store of
              (True, store') \<Rightarrow> (Inr (spText (vi_payload input)), store')
            | (False, store') \<Rightarrow> (Inl (signatureFailure input), store')))"

text \<open>\<open>verifyRemoteRuntimeHttpRequestSignature\<close>, \<open>verifyRemoteRuntimeWebSocketUpgradeSignature\<close> and
  \<open>verifyRemoteRuntimeWebSocketActionSignature\<close>, by the payload they are given.\<close>

definition verifySignedRequest ::
  "(string \<Rightarrow> string \<Rightarrow> string \<Rightarrow> bool) \<Rightarrow> (string \<Rightarrow> jnum) \<Rightarrow> (reserve_input \<Rightarrow> 's \<Rightarrow> bool \<times> 's)
     \<Rightarrow> verification_input \<Rightarrow> 's \<Rightarrow> (failure_envelope + string) \<times> 's" where
  "verifySignedRequest ed25519 dateParse reserve input store =
     (case validateRemoteRuntimeSignedRequestAuthority dateParse input of
        Inl e \<Rightarrow> (Inl e, store)
      | Inr _ \<Rightarrow>
          if \<not> spHashMatches (vi_payload input) (vi_proof input) then (Inl (signatureFailure input), store)
          else verifyRemoteRuntimeSignedRequestPayload ed25519 dateParse reserve input store)"

definition verifyRemoteRuntimeHttpRequestSignature ::
  "(string \<Rightarrow> string \<Rightarrow> string \<Rightarrow> bool) \<Rightarrow> (string \<Rightarrow> jnum) \<Rightarrow> (reserve_input \<Rightarrow> 's \<Rightarrow> bool \<times> 's)
     \<Rightarrow> rat option \<Rightarrow> rat \<Rightarrow> http_signing_input \<Rightarrow> signature_proof \<Rightarrow> public_key
     \<Rightarrow> 's \<Rightarrow> (failure_envelope + string) \<times> 's" where
  "verifyRemoteRuntimeHttpRequestSignature ed25519 dateParse reserve maxSkewMs nowMs i proof key =
     verifySignedRequest ed25519 dateParse reserve
       \<lparr> vi_maxSkewMs = maxSkewMs, vi_nowMs = nowMs, vi_payload = HttpPayload i, vi_proof = proof, vi_publicKey = key \<rparr>"

definition verifyRemoteRuntimeWebSocketUpgradeSignature ::
  "(string \<Rightarrow> string \<Rightarrow> string \<Rightarrow> bool) \<Rightarrow> (string \<Rightarrow> jnum) \<Rightarrow> (reserve_input \<Rightarrow> 's \<Rightarrow> bool \<times> 's)
     \<Rightarrow> rat option \<Rightarrow> rat \<Rightarrow> ws_upgrade_signing_input \<Rightarrow> signature_proof \<Rightarrow> public_key
     \<Rightarrow> 's \<Rightarrow> (failure_envelope + string) \<times> 's" where
  "verifyRemoteRuntimeWebSocketUpgradeSignature ed25519 dateParse reserve maxSkewMs nowMs i proof key =
     verifySignedRequest ed25519 dateParse reserve
       \<lparr> vi_maxSkewMs = maxSkewMs, vi_nowMs = nowMs, vi_payload = UpgradePayload i, vi_proof = proof, vi_publicKey = key \<rparr>"

definition verifyRemoteRuntimeWebSocketActionSignature ::
  "(string \<Rightarrow> string \<Rightarrow> string \<Rightarrow> bool) \<Rightarrow> (string \<Rightarrow> jnum) \<Rightarrow> (reserve_input \<Rightarrow> 's \<Rightarrow> bool \<times> 's)
     \<Rightarrow> rat option \<Rightarrow> rat \<Rightarrow> ws_action_signing_input \<Rightarrow> signature_proof \<Rightarrow> public_key
     \<Rightarrow> 's \<Rightarrow> (failure_envelope + string) \<times> 's" where
  "verifyRemoteRuntimeWebSocketActionSignature ed25519 dateParse reserve maxSkewMs nowMs i proof key =
     verifySignedRequest ed25519 dateParse reserve
       \<lparr> vi_maxSkewMs = maxSkewMs, vi_nowMs = nowMs, vi_payload = ActionPayload i, vi_proof = proof, vi_publicKey = key \<rparr>"

section \<open>Responses, events and key possession\<close>

text \<open>These verifiers take no nonce store.  \<open>timeOk\<close> is their shared freshness test.\<close>

definition timeOk :: "(string \<Rightarrow> jnum) \<Rightarrow> string \<Rightarrow> rat \<Rightarrow> rat option \<Rightarrow> bool" where
  "timeOk dateParse timestamp nowMs maxSkewMs \<longleftrightarrow>
     (case dateParse timestamp of
        JFin t \<Rightarrow> \<bar>nowMs - t\<bar> \<le> (case maxSkewMs of None \<Rightarrow> 300000 | Some m \<Rightarrow> m)
      | _ \<Rightarrow> False)"

definition verifyRemoteRuntimeHttpResponseSignature ::
  "(string \<Rightarrow> string \<Rightarrow> string \<Rightarrow> bool) \<Rightarrow> (string \<Rightarrow> jnum) \<Rightarrow> rat option \<Rightarrow> rat
     \<Rightarrow> http_response_signing_input \<Rightarrow> signature_proof \<Rightarrow> public_key \<Rightarrow> failure_envelope + string" where
  "verifyRemoteRuntimeHttpResponseSignature ed25519 dateParse maxSkewMs nowMs i proof key =
     (let fail = Inl (plainFailure AUTHORIZATION_FAILED
            (case hr_requestId i of None \<Rightarrow> ''unknown'' | Some r \<Rightarrow> r)
            ''Remote runtime HTTP response signature is invalid.'');
          payload = createRemoteRuntimeCanonicalHttpResponseSigningPayload i in
      case validateRemoteRuntimeAsymmetricPublicKey (publicKeyJson key) of
        Inl _ \<Rightarrow> fail
      | Inr _ \<Rightarrow>
          if pk_purpose key \<noteq> ResponseSigning \<or> pk_keyId key \<noteq> sp_keyId proof \<or> sp_keyId proof \<noteq> hr_keyId i
             \<or> sp_hash proof \<noteq> hr_bodySha256 i \<or> sp_nonce proof \<noteq> hr_nonce i \<or> sp_timestamp proof \<noteq> hr_timestamp i
          then fail
          else if \<not> timeOk dateParse (sp_timestamp proof) nowMs maxSkewMs then fail
          else if \<not> ed25519 payload (pk_publicKey key) (sp_signature proof) then fail
          else Inr payload)"

definition verifyRuntimeWebSocketEventSignature ::
  "(string \<Rightarrow> string \<Rightarrow> string \<Rightarrow> bool) \<Rightarrow> (string \<Rightarrow> jnum) \<Rightarrow> rat option \<Rightarrow> rat
     \<Rightarrow> ws_event_signing_input \<Rightarrow> signature_proof \<Rightarrow> public_key \<Rightarrow> failure_envelope + string" where
  "verifyRuntimeWebSocketEventSignature ed25519 dateParse maxSkewMs nowMs i proof key =
     (let fail = Inl (plainFailure AUTHORIZATION_FAILED ''unknown''
            ''Runtime WebSocket event signature is invalid.'');
          payload = createRuntimeWebSocketEventSignaturePayload i in
      case validateRemoteRuntimeAsymmetricPublicKey (publicKeyJson key) of
        Inl _ \<Rightarrow> fail
      | Inr _ \<Rightarrow>
          if pk_purpose key \<noteq> ResponseSigning \<or> pk_keyId key \<noteq> sp_keyId proof \<or> sp_keyId proof \<noteq> we_keyId i
             \<or> sp_hash proof \<noteq> we_eventPayloadSha256 i \<or> sp_timestamp proof \<noteq> we_timestamp i
          then fail
          else if \<not> timeOk dateParse (sp_timestamp proof) nowMs maxSkewMs then fail
          else if \<not> ed25519 payload (pk_publicKey key) (sp_signature proof) then fail
          else Inr payload)"

definition verifyRemoteRuntimeKeyPossessionProof ::
  "(string \<Rightarrow> string \<Rightarrow> string \<Rightarrow> bool) \<Rightarrow> (string \<Rightarrow> jnum) \<Rightarrow> rat option \<Rightarrow> rat
     \<Rightarrow> key_possession_input \<Rightarrow> signature_proof \<Rightarrow> public_key \<Rightarrow> bool" where
  "verifyRemoteRuntimeKeyPossessionProof ed25519 dateParse maxSkewMs nowMs i proof key \<longleftrightarrow>
     (if sp_keyId proof \<noteq> pk_keyId key \<or> sp_keyId proof \<noteq> kp_keyId i \<or> sp_nonce proof \<noteq> kp_nonce i
         \<or> sp_timestamp proof \<noteq> kp_timestamp i \<or> pk_purpose key \<noteq> kp_purpose i
      then False
      else if \<not> timeOk dateParse (sp_timestamp proof) nowMs maxSkewMs then False
      else ed25519 (createRemoteRuntimeKeyPossessionProofPayload i) (pk_publicKey key) (sp_signature proof)
         \<or> ed25519 (createPreviousClientKeyPossessionProofPayload i) (pk_publicKey key) (sp_signature proof))"

section \<open>Lemmas\<close>

lemma authority_Inr:
  assumes "validateRemoteRuntimeSignedRequestAuthority dateParse input = Inr t"
  shows "dateParse (sp_timestamp (vi_proof input)) = JFin t \<and> \<bar>vi_nowMs input - t\<bar> \<le> skewOf input
    \<and> pk_purpose (vi_publicKey input) = RequestSigning
    \<and> pk_keyId (vi_publicKey input) = sp_keyId (vi_proof input)
    \<and> sp_keyId (vi_proof input) = spKeyId (vi_payload input)
    \<and> sp_nonce (vi_proof input) = spNonce (vi_payload input)
    \<and> sp_timestamp (vi_proof input) = spTimestamp (vi_payload input)"
  using assms unfolding validateRemoteRuntimeSignedRequestAuthority_def Let_def
  by (auto split: sum.splits if_splits jnum.splits)

lemma verify_Inr:
  assumes "verifySignedRequest ed25519 dateParse reserve input s = (Inr p, s')"
  shows "(\<exists>t. validateRemoteRuntimeSignedRequestAuthority dateParse input = Inr t)
    \<and> spHashMatches (vi_payload input) (vi_proof input) \<and> p = spText (vi_payload input)
    \<and> ed25519 p (pk_publicKey (vi_publicKey input)) (sp_signature (vi_proof input))
    \<and> reserve (reservationOf dateParse input) s = (True, s')"
  using assms unfolding verifySignedRequest_def verifyRemoteRuntimeSignedRequestPayload_def
  by (auto split: sum.splits if_splits prod.splits bool.splits)

lemma verify_state:
  "snd (verifySignedRequest ed25519 dateParse reserve input s) = s
   \<or> snd (verifySignedRequest ed25519 dateParse reserve input s) = snd (reserve (reservationOf dateParse input) s)"
  unfolding verifySignedRequest_def verifyRemoteRuntimeSignedRequestPayload_def
  by (auto split: sum.splits prod.splits bool.splits)

context nonce_replay_store
begin

lemma verify_run_held:
  "held s k n e \<Longrightarrow> \<forall>j\<in>set js. vi_nowMs j < e
     \<Longrightarrow> held (fold (\<lambda>j s. snd (verifySignedRequest ed25519 dateParse reserve j s)) js s) k n e"
proof (induction js arbitrary: s)
  case Nil
  then show ?case by simp
next
  case (Cons j js)
  have "held (snd (reserve (reservationOf dateParse j) s)) k n e"
    using Cons.prems by (intro held_stays [where t = "vi_nowMs j"]) (simp_all add: reservationOf_def)
  with Cons.prems(1) have "held (snd (verifySignedRequest ed25519 dateParse reserve j s)) k n e"
    using verify_state [of ed25519 dateParse reserve j s] by metis
  with Cons show ?case by simp
qed

lemma verified_not_replayed:
  assumes "verifySignedRequest ed25519 dateParse reserve input s = (Inr p, s')"
    and "dateParse (sp_timestamp (vi_proof input)) = JFin t" and "e = t + skewOf input"
    and "\<forall>j\<in>set js. vi_nowMs j < e" and "vi_nowMs r < e"
    and "sp_keyId (vi_proof r) = sp_keyId (vi_proof input)" and "sp_nonce (vi_proof r) = sp_nonce (vi_proof input)"
  shows "\<exists>err. fst (verifySignedRequest ed25519 dateParse reserve r
           (fold (\<lambda>j s. snd (verifySignedRequest ed25519 dateParse reserve j s)) js s')) = Inl err"
proof -
  let ?s = "fold (\<lambda>j s. snd (verifySignedRequest ed25519 dateParse reserve j s)) js s'"
  have "held s' (sp_keyId (vi_proof input)) (sp_nonce (vi_proof input)) e"
    using reserve_holds [of "reservationOf dateParse input" s s' e] verify_Inr [OF assms(1)] assms(2,3)
    by (simp add: reservationOf_def)
  then have "held ?s (sp_keyId (vi_proof r)) (sp_nonce (vi_proof r)) e"
    using verify_run_held assms(4,6,7) by simp
  then have "\<not> fst (reserve (reservationOf dateParse r) ?s)"
    using held_rejects [of ?s "reservationOf dateParse r" e "vi_nowMs r"] assms(5)
    by (simp add: reservationOf_def)
  then have "fst (verifySignedRequest ed25519 dateParse reserve r ?s) \<noteq> Inr q" for q
    using verify_Inr [of ed25519 dateParse reserve r ?s q] by (metis fst_conv prod.collapse)
  then show ?thesis by (cases "fst (verifySignedRequest ed25519 dateParse reserve r ?s)") auto
qed

end

section \<open>Properties\<close>

definition sampleKey :: public_key where
  "sampleKey = \<lparr> pk_createdAt = ''2026'', pk_keyId = ''k'', pk_publicKey = ''AAAA'', pk_purpose = RequestSigning \<rparr>"

definition sampleProof :: signature_proof where
  "sampleProof = \<lparr> sp_keyId = ''k'', sp_nonce = ''n'', sp_signature = ''sig'', sp_timestamp = ''t'', sp_hash = ''b'' \<rparr>"

definition sampleRequest :: "rat \<Rightarrow> verification_input" where
  "sampleRequest now = \<lparr> vi_maxSkewMs = None, vi_nowMs = now, vi_payload = HttpPayload sampleHttpInput,
                         vi_proof = sampleProof, vi_publicKey = sampleKey \<rparr>"

definition sampleStore :: nonce_store where
  "sampleStore = \<lparr> ns_seen = [], ns_lastPrunedAtMs = None, ns_maxEntries = 100000, ns_pruneIntervalMs = 30000 \<rparr>"

text \<open>A stand-in for the signature primitive in the witnesses: it accepts one signature text.\<close>

definition sampleEd25519 :: "string \<Rightarrow> string \<Rightarrow> string \<Rightarrow> bool" where
  "sampleEd25519 payload key signature \<longleftrightarrow> signature = ''sig''"

lemma sampleKey_valid: "validateRemoteRuntimeAsymmetricPublicKey (publicKeyJson sampleKey) = Inr sampleKey"
  by code_simp

lemma sample_authority:
  "\<bar>now\<bar> \<le> 300000 \<Longrightarrow>
     validateRemoteRuntimeSignedRequestAuthority (\<lambda>_. JFin 0) (sampleRequest now) = Inr 0"
  by (simp add: validateRemoteRuntimeSignedRequestAuthority_def sampleRequest_def sampleKey_valid Let_def)
    (simp add: sampleKey_def sampleProof_def sampleHttpInput_def skewOf_def)

lemma sample_verify:
  assumes "\<bar>now\<bar> \<le> 300000"
  shows "verifySignedRequest sampleEd25519 (\<lambda>_. JFin 0) reserveNonce (sampleRequest now) s =
    (case reserveNonce \<lparr> ri_expiresAtMs = Some (JFin 300000), ri_keyId = ''k'', ri_nonce = ''n'', ri_nowMs = Some (JFin now) \<rparr> s of
       (True, s') \<Rightarrow> (Inr (spText (HttpPayload sampleHttpInput)), s')
     | (False, s') \<Rightarrow> (Inl (signatureFailure (sampleRequest now)), s'))"
proof -
  have pay: "vi_payload (sampleRequest now) = HttpPayload sampleHttpInput"
    by (simp add: sampleRequest_def)
  have sig: "sampleEd25519 x y (sp_signature (vi_proof (sampleRequest now)))" for x y
    by (simp add: sampleRequest_def sampleProof_def sampleEd25519_def)
  have hash: "spHashMatches (HttpPayload sampleHttpInput) (vi_proof (sampleRequest now))"
    by (simp add: sampleRequest_def sampleProof_def sampleHttpInput_def)
  have res: "reservationOf (\<lambda>_. JFin 0) (sampleRequest now) = \<lparr> ri_expiresAtMs = Some (JFin 300000), ri_keyId = ''k'',
      ri_nonce = ''n'', ri_nowMs = Some (JFin now) \<rparr>"
    by (simp add: reservationOf_def sampleRequest_def sampleProof_def skewOf_def)
  show ?thesis
    unfolding verifySignedRequest_def sample_authority [OF assms] verifyRemoteRuntimeSignedRequestPayload_def
      pay res by (simp only: sum.case hash sig not_True_eq_False if_False)
qed

text \<open>C6: A signed request that verified cannot be replayed: after a request with a given key id and nonce was
  accepted, whatever other requests are verified in between, another request with that key id and
  nonce is rejected as long as the clock is before the first request's timestamp plus the allowed skew.\<close>
theorem signed_request_not_replayed:
  assumes "verifySignedRequest ed25519 dateParse reserveNonce input s = (Inr p, s')"
    and "dateParse (sp_timestamp (vi_proof input)) = JFin t" and "e = t + skewOf input"
    and "\<forall>j\<in>set js. vi_nowMs j < e" and "vi_nowMs r < e"
    and "sp_keyId (vi_proof r) = sp_keyId (vi_proof input)" and "sp_nonce (vi_proof r) = sp_nonce (vi_proof input)"
  shows "\<exists>err. fst (verifySignedRequest ed25519 dateParse reserveNonce r
           (fold (\<lambda>j s. snd (verifySignedRequest ed25519 dateParse reserveNonce j s)) js s')) = Inl err"
  using assms by (rule memory_nonces.verified_not_replayed)

theorem signed_request_not_replayed_witness:
  "\<exists>p s'. verifySignedRequest sampleEd25519 (\<lambda>_. JFin 0) reserveNonce (sampleRequest 0) sampleStore = (Inr p, s')
     \<and> (\<exists>err. fst (verifySignedRequest sampleEd25519 (\<lambda>_. JFin 0) reserveNonce (sampleRequest 299999)
          (fold (\<lambda>j s. snd (verifySignedRequest sampleEd25519 (\<lambda>_. JFin 0) reserveNonce j s)) [sampleRequest 200000] s')) = Inl err)"
proof -
  obtain s' where acc: "verifySignedRequest sampleEd25519 (\<lambda>_. JFin 0) reserveNonce (sampleRequest 0) sampleStore
      = (Inr (spText (HttpPayload sampleHttpInput)), s')"
    by (simp add: sample_verify reserveNonce_alt prunedFor_def pruneDue_def pruneNonces_def sampleStore_def Let_def)
  have "\<exists>err. fst (verifySignedRequest sampleEd25519 (\<lambda>_. JFin 0) reserveNonce (sampleRequest 299999)
      (fold (\<lambda>j s. snd (verifySignedRequest sampleEd25519 (\<lambda>_. JFin 0) reserveNonce j s)) [sampleRequest 200000] s')) = Inl err"
    by (rule signed_request_not_replayed [OF acc, where t = 0 and e = 300000])
      (simp_all add: sampleRequest_def skewOf_def)
  with acc show ?thesis by blast
qed

text \<open>C7: A request is accepted only with a valid signature over its own canonical payload, by a
  request-signing key whose id is the one in the proof and in the payload, with the nonce, timestamp
  and body hash of the payload, and a timestamp within the allowed skew of the clock; a rejected
  signature leaves the nonce store unchanged.\<close>
theorem signed_request_authentic:
  assumes "verifySignedRequest ed25519 dateParse reserve input s = (Inr p, s')"
  shows "p = spText (vi_payload input)
    \<and> ed25519 p (pk_publicKey (vi_publicKey input)) (sp_signature (vi_proof input))
    \<and> pk_purpose (vi_publicKey input) = RequestSigning
    \<and> pk_keyId (vi_publicKey input) = spKeyId (vi_payload input)
    \<and> sp_nonce (vi_proof input) = spNonce (vi_payload input)
    \<and> spHashMatches (vi_payload input) (vi_proof input)
    \<and> (\<exists>t. dateParse (spTimestamp (vi_payload input)) = JFin t \<and> \<bar>vi_nowMs input - t\<bar> \<le> skewOf input)
    \<and> (\<forall>bad. \<not> ed25519 (spText (vi_payload input)) (pk_publicKey (vi_publicKey input)) bad \<longrightarrow>
         snd (verifySignedRequest ed25519 dateParse reserve
           (input\<lparr>vi_proof := (vi_proof input)\<lparr>sp_signature := bad\<rparr>\<rparr>) s) = s)"
proof -
  obtain t where t: "validateRemoteRuntimeSignedRequestAuthority dateParse input = Inr t"
    using verify_Inr [OF assms] by blast
  have "snd (verifySignedRequest ed25519 dateParse reserve
           (input\<lparr>vi_proof := (vi_proof input)\<lparr>sp_signature := bad\<rparr>\<rparr>) s) = s"
    if "\<not> ed25519 (spText (vi_payload input)) (pk_publicKey (vi_publicKey input)) bad" for bad
    using that by (simp add: verifySignedRequest_def verifyRemoteRuntimeSignedRequestPayload_def split: sum.split)
  then show ?thesis using authority_Inr [OF t] verify_Inr [OF assms] by metis
qed

theorem signed_request_authentic_witness:
  "\<exists>p s'. verifySignedRequest sampleEd25519 (\<lambda>_. JFin 0) reserveNonce (sampleRequest 0) sampleStore = (Inr p, s')
     \<and> p = spText (HttpPayload sampleHttpInput) \<and> pk_purpose sampleKey = RequestSigning"
proof -
  obtain s' where acc: "verifySignedRequest sampleEd25519 (\<lambda>_. JFin 0) reserveNonce (sampleRequest 0) sampleStore
      = (Inr (spText (HttpPayload sampleHttpInput)), s')"
    by (simp add: sample_verify reserveNonce_alt prunedFor_def pruneDue_def pruneNonces_def sampleStore_def Let_def)
  from signed_request_authentic [OF acc] acc show ?thesis by (auto simp: sampleRequest_def)
qed

text \<open>The nonce store fails closed and stays bounded: it never holds more entries than its limit, a
  reservation on a store full of unexpired nonces is refused, and a stored nonce whose expiry is
  not yet reached is refused again.\<close>
theorem nonce_store_bounded:
  assumes "length (ns_seen s) \<le> ns_maxEntries s"
  shows "length (ns_seen (snd (reserveNonce i s))) \<le> ns_maxEntries (snd (reserveNonce i s))
    \<and> (length (ns_seen s) = ns_maxEntries s
       \<and> (\<forall>now. ri_nowMs i = Some (JFin now) \<longrightarrow> (\<forall>(k, e) \<in> set (ns_seen s). \<not> numLe e now))
       \<longrightarrow> \<not> fst (reserveNonce i s))"
proof -
  have "\<not> fst (reserveNonce i s)"
    if "length (ns_seen s) = ns_maxEntries s"
      and "\<forall>now. ri_nowMs i = Some (JFin now) \<longrightarrow> (\<forall>(k, e) \<in> set (ns_seen s). \<not> numLe e now)"
  proof -
    have "ns_seen (prunedFor i s) = ns_seen s \<and> ns_maxEntries (prunedFor i s) = ns_maxEntries s"
      using that(2) by (auto simp: prunedFor_def pruneNonces_def filter_id_conv split: option.splits jnum.splits)
    with that(1) show ?thesis by (simp add: reserveNonce_alt Let_def)
  qed
  with reserveNonce_bound [OF assms] show ?thesis by blast
qed

theorem nonce_store_bounded_witness:
  "length (ns_seen (snd (reserveNonce \<lparr> ri_expiresAtMs = None, ri_keyId = ''k'', ri_nonce = ''n'', ri_nowMs = None \<rparr> sampleStore))) \<le> 100000"
  using nonce_store_bounded [of sampleStore "\<lparr> ri_expiresAtMs = None, ri_keyId = ''k'', ri_nonce = ''n'', ri_nowMs = None \<rparr>"]
  by (simp add: sampleStore_def reserveNonce_alt prunedFor_def Let_def)

section \<open>Findings\<close>

definition storeOk :: "nonce_store \<Rightarrow> bool" where
  "storeOk s \<longleftrightarrow> distinct (map fst (ns_seen s)) \<and> length (ns_seen s) \<le> ns_maxEntries s"

lemma distinct_keys_filter: "distinct (map fst m) \<Longrightarrow> distinct (map fst (filter P m))"
  by (induction m) auto

lemma reserveNonce_ok:
  assumes "storeOk s"
  shows "storeOk (snd (reserveNonce i s))"
proof -
  have "distinct (map fst (ns_seen (prunedFor i s)))"
    using assms by (auto simp: storeOk_def prunedFor_def pruneNonces_def distinct_keys_filter split: option.splits jnum.splits)
  then have "distinct (map fst (ns_seen (snd (reserveNonce i s))))" by (simp add: reserveNonce_alt Let_def distinct_update)
  with reserveNonce_bound assms show ?thesis by (simp add: storeOk_def)
qed

interpretation verifications: step_invariant "\<lambda>j s. snd (verifySignedRequest ed25519 dateParse reserveNonce j s)" storeOk
  for ed25519 dateParse
  by unfold_locales (metis verify_state reserveNonce_ok)

lemma pruned_expired:
  assumes "distinct (map fst m)" and "mapGet m k = Some (JFin e)"
  shows "mapGet (filter (\<lambda>(key, expiresAtMs). \<not> numLe expiresAtMs e) m) k = None"
    and "length (filter (\<lambda>(key, expiresAtMs). \<not> numLe expiresAtMs e) m) < length m"
proof -
  have "(k, JFin e) \<in> set m" using assms(2) by (rule map_of_SomeD)
  then show "length (filter (\<lambda>(key, expiresAtMs). \<not> numLe expiresAtMs e) m) < length m"
    by (intro length_filter_less [of "(k, JFin e)"]) simp_all
  have "v = JFin e" if "(k, v) \<in> set m" for v
    using assms that by (metis map_of_is_SomeI option.inject)
  then show "mapGet (filter (\<lambda>(key, expiresAtMs). \<not> numLe expiresAtMs e) m) k = None"
    by (force simp: map_of_eq_None_iff)
qed

text \<open>C28: At the last instant of its window a request is accepted again: after a request was accepted and whatever other requests were
  verified before that instant, the same request at a clock equal to its timestamp plus the allowed skew passes the
  freshness test, while a store that is due to prune drops its nonce as expired at that very instant, and accepts it a second time.\<close>
theorem signed_request_replayed_at_window_end:
  assumes "verifySignedRequest ed25519 dateParse reserveNonce input s = (Inr p, s')" and "storeOk s"
    and "dateParse (sp_timestamp (vi_proof input)) = JFin t" and "e = t + skewOf input"
    and "\<forall>j\<in>set js. vi_nowMs j < e"
    and "store = fold (\<lambda>j s. snd (verifySignedRequest ed25519 dateParse reserveNonce j s)) js s'" and "pruneDue store e"
  shows "\<exists>store'. verifySignedRequest ed25519 dateParse reserveNonce (input\<lparr>vi_nowMs := e\<rparr>) store = (Inr p, store')"
proof -
  let ?input = "input\<lparr>vi_nowMs := e\<rparr>"
  note accepted = verify_Inr [OF assms(1)]
  then obtain t' where auth: "validateRemoteRuntimeSignedRequestAuthority dateParse input = Inr t'" by blast
  from authority_Inr [OF auth] assms(3) have "\<bar>e - t\<bar> \<le> skewOf input" by (auto simp: assms(4))
  with auth assms(3) have again: "validateRemoteRuntimeSignedRequestAuthority dateParse ?input = Inr t"
    unfolding validateRemoteRuntimeSignedRequestAuthority_def Let_def
    by (auto simp: skewOf_def split: sum.splits if_splits)
  let ?key = "nonceKey (sp_keyId (vi_proof input)) (sp_nonce (vi_proof input))"
  have "s' = snd (reserveNonce (reservationOf dateParse input) s)" using accepted by simp
  then have "storeOk s'" using reserveNonce_ok [OF assms(2)] by simp
  then have ok: "storeOk store" unfolding assms(6) by (rule verifications.run_inv)
  have "nonceHeld s' (sp_keyId (vi_proof input)) (sp_nonce (vi_proof input)) e"
    using memory_nonces.reserve_holds [of "reservationOf dateParse input" s s' e] accepted assms(3,4) by (simp add: reservationOf_def)
  then have "mapGet (ns_seen store) ?key = Some (JFin e)"
    using memory_nonces.verify_run_held assms(5,6) by (fastforce simp: nonceHeld_def)
  with pruned_expired ok have "mapGet (ns_seen (pruneNonces e store)) ?key = None"
    and "length (ns_seen (pruneNonces e store)) < ns_maxEntries (pruneNonces e store)"
    by (fastforce simp: storeOk_def pruneNonces_def)+
  moreover have "prunedFor (reservationOf dateParse ?input) store = pruneNonces e store"
    using assms(7) by (simp add: prunedFor_def reservationOf_def)
  ultimately have "fst (reserveNonce (reservationOf dateParse ?input) store)"
    by (simp add: reserveNonce_alt Let_def) (simp add: reservationOf_def)
  then have "fst (verifySignedRequest ed25519 dateParse reserveNonce ?input store) = Inr p"
    using again accepted
    by (auto simp: verifySignedRequest_def verifyRemoteRuntimeSignedRequestPayload_def split: prod.split bool.split)
  then show ?thesis by (metis prod.collapse)
qed

theorem signed_request_replayed_at_window_end_witness:
  "\<exists>s' s''. verifySignedRequest sampleEd25519 (\<lambda>_. JFin 0) reserveNonce (sampleRequest 0) sampleStore
        = (Inr (spText (HttpPayload sampleHttpInput)), s')
     \<and> verifySignedRequest sampleEd25519 (\<lambda>_. JFin 0) reserveNonce (sampleRequest 300000)
          (snd (verifySignedRequest sampleEd25519 (\<lambda>_. JFin 0) reserveNonce (sampleRequest 200000) s'))
        = (Inr (spText (HttpPayload sampleHttpInput)), s'')"
proof -
  obtain s' where acc: "verifySignedRequest sampleEd25519 (\<lambda>_. JFin 0) reserveNonce (sampleRequest 0) sampleStore
      = (Inr (spText (HttpPayload sampleHttpInput)), s')"
    and s': "s' = sampleStore\<lparr>ns_lastPrunedAtMs := Some 0, ns_seen := [(nonceKey ''k'' ''n'', JFin 300000)]\<rparr>"
    by (simp add: sample_verify reserveNonce_alt prunedFor_def pruneDue_def pruneNonces_def sampleStore_def Let_def)
  have "\<exists>s''. verifySignedRequest sampleEd25519 (\<lambda>_. JFin 0) reserveNonce ((sampleRequest 0)\<lparr>vi_nowMs := 300000\<rparr>)
      (snd (verifySignedRequest sampleEd25519 (\<lambda>_. JFin 0) reserveNonce (sampleRequest 200000) s'))
      = (Inr (spText (HttpPayload sampleHttpInput)), s'')"
    by (rule signed_request_replayed_at_window_end [OF acc, where t = 0 and js = "[sampleRequest 200000]"])
      (simp_all add: storeOk_def, simp_all add: sample_verify s' reserveNonce_alt prunedFor_def pruneDue_def pruneNonces_def sampleStore_def
        Let_def, simp_all add: sampleRequest_def skewOf_def)
  moreover have "(sampleRequest 0)\<lparr>vi_nowMs := 300000\<rparr> = sampleRequest 300000" by (simp add: sampleRequest_def)
  ultimately show ?thesis using acc by auto
qed

text \<open>The key of the store is not injective in key id and nonce.\<close>

lemma nonceKey_collides: "nonceKey ''a'' ''b:c'' = nonceKey ''a:b'' ''c''"
  by (simp add: nonceKey_def)

end
