(* ===== verification/Remote_Protocol.thy ===== *)
theory Remote_Protocol
  imports Attachments Goal_Protocol
begin

text \<open>
  \<^verbatim>\<open>packages/remote-runtime-contracts/src/remote-runtime-protocol.ts\<close>: the client methods of the runtime
  WebSocket protocol, the guards for client commands and server envelopes, and the normalisation of
  the git status input.  A guard is a boolean function on JavaScript values; methods are their text.
\<close>

section \<open>Primitive guards\<close>

definition isOptionalString :: "js \<Rightarrow> bool" where
  "isOptionalString v \<longleftrightarrow> v = JUndef \<or> isString v"

definition isNonEmptyString :: "js \<Rightarrow> bool" where
  "isNonEmptyString v \<longleftrightarrow> isString v \<and> strOf v \<noteq> []"

definition isOptionalStringOrNull :: "js \<Rightarrow> bool" where
  "isOptionalStringOrNull v \<longleftrightarrow> v = JUndef \<or> v = JNull \<or> isString v"

definition isOptionalSafeIntegerOrNull :: "js \<Rightarrow> bool" where
  "isOptionalSafeIntegerOrNull v \<longleftrightarrow> v = JUndef \<or> v = JNull \<or> jsNumTest numSafeInteger v"

definition isStatusText :: "js \<Rightarrow> bool" where
  "isStatusText v \<longleftrightarrow> isString v \<and> isThreadGoalStatus (strOf v)"

lemmas primitive_guard_defs =
  isOptionalString_def isNonEmptyString_def isOptionalStringOrNull_def isOptionalSafeIntegerOrNull_def
  isStatusText_def

section \<open>Methods\<close>

definition runtimeWebSocketClientMethodValues :: "string list" where
  "runtimeWebSocketClientMethodValues =
     [''initialize'', ''ping'', ''agent.list'', ''provider.list'', ''provider.models'',
      ''providerModel.command'', ''config/bootstrapCodexHome'', ''account.read'',
      ''account.login.start'', ''account.login.cancel'', ''account.rateLimits.read'',
      ''approval.resolve'', ''providerChild.serverRequest.respond'', ''skills.list'',
      ''plugin.list'', ''mcpServerStatus/list'', ''session.create'', ''session.read'',
      ''session.update'', ''session.message'', ''session.close'', ''nativeShell.prepare'',
      ''thread.start'', ''thread.read'', ''thread.resume'', ''thread.fork'', ''thread.rollback'',
      ''thread.shellCommand'', ''thread.backgroundTerminals.clean'', ''thread.list'', ''turn.start'',
      ''turn.interrupt'', ''turn.steer'', ''shutdown'', ''subscribe'', ''unsubscribe'', ''resume'']"

definition remoteRuntimeWebSocketClientMethodValues :: "string list" where
  "remoteRuntimeWebSocketClientMethodValues =
     [''directory.list'', ''directory.select'', ''session.list'', ''activeChats.list'', ''chat.start'',
      ''session.messages'', ''goal.get'', ''goal.list'', ''goal.create'', ''goal.edit'', ''goal.update'',
      ''goal.clear'', ''goal.pause'', ''goal.resume'', ''alias.list'', ''alias.get'', ''alias.set'',
      ''alias.delete'', ''git.status'']"

definition isRuntimeWebSocketClientMethod :: "string \<Rightarrow> bool" where
  "isRuntimeWebSocketClientMethod value \<longleftrightarrow> value \<in> set runtimeWebSocketClientMethodValues"

definition isRemoteRuntimeWebSocketClientMethod :: "string \<Rightarrow> bool" where
  "isRemoteRuntimeWebSocketClientMethod value \<longleftrightarrow> value \<in> set remoteRuntimeWebSocketClientMethodValues"

definition remoteRuntimeProtocolClientMethodValues :: "string list" where
  "remoteRuntimeProtocolClientMethodValues =
     runtimeWebSocketClientMethodValues
   @ filter (\<lambda>method. \<not> isRuntimeWebSocketClientMethod method) remoteRuntimeWebSocketClientMethodValues"

definition isRemoteRuntimeProtocolClientMethod :: "string \<Rightarrow> bool" where
  "isRemoteRuntimeProtocolClientMethod value \<longleftrightarrow>
     isRuntimeWebSocketClientMethod value \<or> isRemoteRuntimeWebSocketClientMethod value"

definition runtimeWebSocketProviderModelCommandTypeValues :: "string list" where
  "runtimeWebSocketProviderModelCommandTypeValues =
     [''model.current'', ''model.list'', ''model.set'', ''provider.current'', ''provider.list'', ''provider.set'']"

section \<open>Client commands\<close>

definition isProviderModelCommandPayload :: "js \<Rightarrow> bool" where
  "isProviderModelCommandPayload payload \<longleftrightarrow>
     (let command = getProp payload ''command''; type = getProp command ''type'' in
      if \<not> isRecord command \<or> \<not> isOptionalString (getProp payload ''prompt'')
         \<or> \<not> isOptionalString (getProp payload ''sessionId'') \<or> \<not> isString type
         \<or> strOf type \<notin> set runtimeWebSocketProviderModelCommandTypeValues
      then False
      else if type = JStr ''model.set'' then isNonEmptyString (getProp command ''model'')
      else if type = JStr ''provider.set'' then isNonEmptyString (getProp command ''providerId'')
      else True)"

definition isRemoteRuntimeSubscriptionTarget :: "js \<Rightarrow> bool" where
  "isRemoteRuntimeSubscriptionTarget payload \<longleftrightarrow>
     isOptionalSafeIntegerOrNull (getProp payload ''afterSequence'')
   \<and> (isNonEmptyString (getProp payload ''sessionId'')
      \<or> isNonEmptyString (getProp payload ''threadId'')
      \<or> (isRecord (getProp payload ''threadRef'')
         \<and> isNonEmptyString (getProp (getProp payload ''threadRef'') ''providerId'')
         \<and> isNonEmptyString (getProp (getProp payload ''threadRef'') ''threadId'')))"

definition isInitializePayload :: "js \<Rightarrow> bool" where
  "isInitializePayload payload \<longleftrightarrow>
     isNonEmptyString (getProp payload ''clientName'')
   \<and> isNonEmptyString (getProp payload ''clientVersion'')
   \<and> isNonEmptyString (getProp payload ''supportedRuntimeApiVersion'')
   \<and> (getProp payload ''supportedRuntimeApiVersions'' = JUndef
      \<or> arrayEvery isNonEmptyString (getProp payload ''supportedRuntimeApiVersions''))"

definition isRuntimeWebSocketClientCommand :: "js \<Rightarrow> bool" where
  "isRuntimeWebSocketClientCommand v \<longleftrightarrow>
     (let payload = getProp v ''payload''; method = strOf (getProp v ''method'') in
      if \<not> isRecord v \<or> \<not> isNonEmptyString (getProp v ''requestId'')
         \<or> \<not> isNonEmptyString (getProp v ''protocolVersion'')
         \<or> \<not> isString (getProp v ''method'') \<or> \<not> isRuntimeWebSocketClientMethod method
         \<or> \<not> isRecord payload
      then False
      else if method = ''initialize'' then isInitializePayload payload
      else if method = ''ping'' then isString (getProp payload ''message'')
      else if method = ''providerModel.command'' then isProviderModelCommandPayload payload
      else if method = ''subscribe'' \<or> method = ''unsubscribe'' \<or> method = ''resume''
           then isRemoteRuntimeSubscriptionTarget payload
      else True)"

definition isCreateGoalInput :: "js \<Rightarrow> bool" where
  "isCreateGoalInput v \<longleftrightarrow>
     isRecord v \<and> isString (getProp v ''objective'')
   \<and> (getProp v ''token_budget'' = JUndef \<or> jsNumTest numInteger (getProp v ''token_budget''))"

definition isEditGoalInput :: "js \<Rightarrow> bool" where
  "isEditGoalInput v \<longleftrightarrow>
     isRecord v \<and> isString (getProp v ''objective'')
   \<and> (getProp v ''token_budget'' = JUndef \<or> getProp v ''token_budget'' = JNull
      \<or> jsNumTest numInteger (getProp v ''token_budget''))"

definition isUpdateGoalInput :: "js \<Rightarrow> bool" where
  "isUpdateGoalInput v \<longleftrightarrow>
     isRecord v \<and> (getProp v ''status'' = JStr ''complete'' \<or> getProp v ''status'' = JStr ''blocked'')"

definition remoteRuntimeGitStatusMaxDiffBytesDefault :: int where
  "remoteRuntimeGitStatusMaxDiffBytesDefault = 262144"

definition remoteRuntimeGitStatusMaxDiffBytesLimit :: int where
  "remoteRuntimeGitStatusMaxDiffBytesLimit = 1048576"

definition isDiffBytes :: "jnum \<Rightarrow> bool" where
  "isDiffBytes n \<longleftrightarrow>
     numSafeInteger n \<and> numGe n 1 \<and> numLe n (of_int remoteRuntimeGitStatusMaxDiffBytesLimit)"

definition isRemoteRuntimeGitStatusInput :: "js \<Rightarrow> bool \<Rightarrow> bool" where
  "isRemoteRuntimeGitStatusInput v strict \<longleftrightarrow>
     isRecord v
   \<and> (\<not> strict \<or> list_all (\<lambda>key. key = ''includeDiff'' \<or> key = ''maxDiffBytes'') (objectKeys v))
   \<and> (getProp v ''includeDiff'' = JUndef \<or> getProp v ''includeDiff'' = JNull
      \<or> isBoolean (getProp v ''includeDiff''))
   \<and> (getProp v ''maxDiffBytes'' = JUndef \<or> getProp v ''maxDiffBytes'' = JNull
      \<or> jsNumTest isDiffBytes (getProp v ''maxDiffBytes''))"

record git_status_input =
  gi_includeDiff :: bool
  gi_maxDiffBytes :: int

definition normalizeRemoteRuntimeGitStatusInput :: "js \<Rightarrow> bool \<Rightarrow> string + git_status_input" where
  "normalizeRemoteRuntimeGitStatusInput v strict =
     (if \<not> isRemoteRuntimeGitStatusInput v strict then Inl ''Remote runtime git status input is invalid.''
      else Inr \<lparr> gi_includeDiff = (case getProp v ''includeDiff'' of JBool b \<Rightarrow> b | _ \<Rightarrow> False),
                 gi_maxDiffBytes = (case getProp v ''maxDiffBytes'' of
                    JNum (JFin r) \<Rightarrow> \<lfloor>r\<rfloor> | _ \<Rightarrow> remoteRuntimeGitStatusMaxDiffBytesDefault) \<rparr>)"

text \<open>The switch over the remote methods.\<close>

definition isRemoteCommandPayload :: "string \<Rightarrow> js \<Rightarrow> bool" where
  "isRemoteCommandPayload method payload \<longleftrightarrow>
     (if method = ''directory.list'' \<or> method = ''alias.list'' then objectKeys payload = []
      else if method = ''directory.select'' then isNonEmptyString (getProp payload ''directoryId'')
      else if method = ''session.list'' \<or> method = ''activeChats.list'' then
        isOptionalStringOrNull (getProp payload ''cursor'')
        \<and> isOptionalSafeIntegerOrNull (getProp payload ''limit'')
      else if method = ''chat.start'' then
        isNonEmptyString (getProp payload ''directoryId'')
        \<and> isOptionalStringOrNull (getProp payload ''model'')
        \<and> isOptionalStringOrNull (getProp payload ''providerId'')
        \<and> isOptionalStringOrNull (getProp payload ''title'')
      else if method = ''session.messages'' then
        isNonEmptyString (getProp payload ''sessionId'')
        \<and> isOptionalStringOrNull (getProp payload ''cursor'')
        \<and> isOptionalSafeIntegerOrNull (getProp payload ''limit'')
      else if method \<in> {''goal.get'', ''goal.clear'', ''goal.pause'', ''goal.resume''} then
        isNonEmptyString (getProp payload ''sessionId'')
      else if method = ''goal.list'' then
        isOptionalStringOrNull (getProp payload ''cursor'')
        \<and> isOptionalSafeIntegerOrNull (getProp payload ''limit'')
        \<and> (getProp payload ''status'' = JUndef \<or> getProp payload ''status'' = JNull
           \<or> isStatusText (getProp payload ''status''))
      else if method = ''goal.create'' then
        isNonEmptyString (getProp payload ''sessionId'') \<and> isCreateGoalInput (getProp payload ''input'')
      else if method = ''goal.edit'' then
        isNonEmptyString (getProp payload ''sessionId'') \<and> isEditGoalInput (getProp payload ''input'')
      else if method = ''goal.update'' then
        isNonEmptyString (getProp payload ''sessionId'') \<and> isUpdateGoalInput (getProp payload ''input'')
      else if method = ''alias.get'' \<or> method = ''alias.delete'' then
        isNonEmptyString (getProp payload ''alias'')
      else if method = ''alias.set'' then
        isNonEmptyString (getProp payload ''alias'') \<and> isNonEmptyString (getProp payload ''prompt'')
      else if method = ''git.status'' then isRemoteRuntimeGitStatusInput payload True
      else False)"

definition isRemoteRuntimeProtocolClientCommand :: "js \<Rightarrow> bool" where
  "isRemoteRuntimeProtocolClientCommand v \<longleftrightarrow>
     (if isRuntimeWebSocketClientCommand v then True
      else if \<not> isRecord v \<or> \<not> isRecord (getProp v ''payload'') then False
      else if \<not> isNonEmptyString (getProp v ''requestId'')
              \<or> \<not> isString (getProp v ''protocolVersion'')
              \<or> \<not> isString (getProp v ''method'')
              \<or> \<not> isRemoteRuntimeWebSocketClientMethod (strOf (getProp v ''method''))
      then False
      else isRemoteCommandPayload (strOf (getProp v ''method'')) (getProp v ''payload''))"

section \<open>Response payloads\<close>

definition isRuntimeWebSocketAllowedDirectory :: "js \<Rightarrow> bool" where
  "isRuntimeWebSocketAllowedDirectory v \<longleftrightarrow>
     isRecord v \<and> isNonEmptyString (getProp v ''directoryId'')
   \<and> isOptionalStringOrNull (getProp v ''displayName'') \<and> isNonEmptyString (getProp v ''path'')"

definition isRuntimeWebSocketDirectoryAttachment :: "js \<Rightarrow> bool" where
  "isRuntimeWebSocketDirectoryAttachment v \<longleftrightarrow>
     isRecord v \<and> isNonEmptyString (getProp v ''directoryId'')
   \<and> isNonEmptyString (getProp v ''gatewayRuntimeAttachmentId'')
   \<and> isNonEmptyString (getProp v ''path'')
   \<and> getProp v ''status'' \<in> {JStr ''online'', JStr ''offline'', JStr ''revoked'', JStr ''unavailable''}"

definition isRuntimeWebSocketDirectoryListResponse :: "js \<Rightarrow> bool" where
  "isRuntimeWebSocketDirectoryListResponse v \<longleftrightarrow>
     isRecord v
   \<and> arrayEvery isRuntimeWebSocketDirectoryAttachment (getProp v ''activeDirectoryAttachments'')
   \<and> arrayEvery isRuntimeWebSocketAllowedDirectory (getProp v ''allowedDirectories'')"

definition isRuntimeWebSocketDirectorySelectResponse :: "js \<Rightarrow> bool" where
  "isRuntimeWebSocketDirectorySelectResponse v \<longleftrightarrow>
     isRecord v
   \<and> (getProp v ''attachment'' = JNull \<or> isRuntimeWebSocketDirectoryAttachment (getProp v ''attachment''))
   \<and> isRuntimeWebSocketAllowedDirectory (getProp v ''directory'')"

definition isThreadGoal :: "js \<Rightarrow> bool" where
  "isThreadGoal v \<longleftrightarrow>
     isRecord v \<and> isNonEmptyString (getProp v ''threadId'') \<and> isString (getProp v ''objective'')
   \<and> isStatusText (getProp v ''status'')
   \<and> (getProp v ''tokenBudget'' = JNull \<or> jsNumTest numInteger (getProp v ''tokenBudget''))
   \<and> jsNumTest numFinite (getProp v ''tokensUsed'')
   \<and> jsNumTest numFinite (getProp v ''timeUsedSeconds'')
   \<and> jsNumTest numFinite (getProp v ''createdAt'')
   \<and> jsNumTest numFinite (getProp v ''updatedAt'')"

definition runtimeThreadStatusValues :: "string list" where
  "runtimeThreadStatusValues = [''idle'', ''running'', ''error'', ''closed'', ''interrupted'']"

definition isRemoteRuntimeActiveChatMetadataProjection :: "js \<Rightarrow> bool" where
  "isRemoteRuntimeActiveChatMetadataProjection v \<longleftrightarrow>
     isRecord v
   \<and> isOptionalStringOrNull (getProp v ''agent'')
   \<and> isNonEmptyString (getProp v ''createdAt'')
   \<and> (getProp v ''goal'' = JUndef \<or> getProp v ''goal'' = JNull \<or> isThreadGoal (getProp v ''goal''))
   \<and> (getProp v ''hasActiveTurn'' = JUndef \<or> isBoolean (getProp v ''hasActiveTurn''))
   \<and> isOptionalStringOrNull (getProp v ''lastText'')
   \<and> isOptionalSafeIntegerOrNull (getProp v ''messageCount'')
   \<and> isOptionalStringOrNull (getProp v ''model'')
   \<and> isOptionalStringOrNull (getProp v ''path'')
   \<and> isNonEmptyString (getProp v ''projectId'')
   \<and> isOptionalStringOrNull (getProp v ''providerId'')
   \<and> isOptionalStringOrNull (getProp v ''providerName'')
   \<and> isNonEmptyString (getProp v ''sessionId'')
   \<and> isString (getProp v ''status'') \<and> strOf (getProp v ''status'') \<in> set runtimeThreadStatusValues
   \<and> isNonEmptyString (getProp v ''title'')
   \<and> isNonEmptyString (getProp v ''updatedAt'')"

definition isRemoteRuntimeActiveChatsPageInfo :: "js \<Rightarrow> bool" where
  "isRemoteRuntimeActiveChatsPageInfo v \<longleftrightarrow>
     isRecord v \<and> isBoolean (getProp v ''hasNewer'') \<and> isBoolean (getProp v ''hasOlder'')
   \<and> isOptionalStringOrNull (getProp v ''newerCursor'') \<and> isOptionalStringOrNull (getProp v ''olderCursor'')"

definition isRemoteRuntimeActiveChatsResponse :: "js \<Rightarrow> bool" where
  "isRemoteRuntimeActiveChatsResponse v \<longleftrightarrow>
     isRecord v
   \<and> arrayEvery isRemoteRuntimeActiveChatMetadataProjection (getProp v ''activeChats'')
   \<and> isRemoteRuntimeActiveChatsPageInfo (getProp v ''pageInfo'')"

definition isRemoteRuntimeChatMessagePartProjection :: "js \<Rightarrow> bool" where
  "isRemoteRuntimeChatMessagePartProjection v \<longleftrightarrow>
     isRecord v
   \<and> isOptionalStringOrNull (getProp v ''id'') \<and> isNonEmptyString (getProp v ''kind'')
   \<and> isOptionalStringOrNull (getProp v ''messageId'')
   \<and> (getProp v ''rawPart'' = JNull \<or> isRecord (getProp v ''rawPart''))
   \<and> isOptionalStringOrNull (getProp v ''status'') \<and> isOptionalStringOrNull (getProp v ''text'')
   \<and> isOptionalStringOrNull (getProp v ''title'')"

definition isRemoteRuntimeChatMessageProjection :: "js \<Rightarrow> bool" where
  "isRemoteRuntimeChatMessageProjection v \<longleftrightarrow>
     isRecord v
   \<and> isOptionalStringOrNull (getProp v ''agent'') \<and> isOptionalStringOrNull (getProp v ''completedAt'')
   \<and> isNonEmptyString (getProp v ''createdAt'') \<and> isOptionalStringOrNull (getProp v ''errorMessage'')
   \<and> isOptionalStringOrNull (getProp v ''errorName'') \<and> isOptionalStringOrNull (getProp v ''finishReason'')
   \<and> isNonEmptyString (getProp v ''id'') \<and> isOptionalStringOrNull (getProp v ''model'')
   \<and> isOptionalStringOrNull (getProp v ''parentId'')
   \<and> arrayEvery isRemoteRuntimeChatMessagePartProjection (getProp v ''parts'')
   \<and> getProp v ''role'' \<in> {JStr ''user'', JStr ''assistant'', JStr ''system''}
   \<and> isNonEmptyString (getProp v ''sessionId'')"

definition isRemoteRuntimeChatMessagesResponse :: "js \<Rightarrow> bool" where
  "isRemoteRuntimeChatMessagesResponse v \<longleftrightarrow>
     isRecord v \<and> isNonEmptyString (getProp v ''sessionId'')
   \<and> arrayEvery isRemoteRuntimeChatMessageProjection (getProp v ''messages'')
   \<and> isRemoteRuntimeActiveChatsPageInfo (getProp v ''pageInfo'')"

definition isRemoteRuntimeGoalResponse :: "js \<Rightarrow> bool" where
  "isRemoteRuntimeGoalResponse v \<longleftrightarrow>
     isRecord v
   \<and> (getProp v ''completionBudgetReport'' = JNull \<or> isString (getProp v ''completionBudgetReport''))
   \<and> (getProp v ''goal'' = JNull \<or> isThreadGoal (getProp v ''goal''))
   \<and> isOptionalSafeIntegerOrNull (getProp v ''remainingTokens'')"

definition isRemoteRuntimeGoalsListResponse :: "js \<Rightarrow> bool" where
  "isRemoteRuntimeGoalsListResponse v \<longleftrightarrow>
     isRecord v \<and> arrayEvery isThreadGoal (getProp v ''goals'')
   \<and> (getProp v ''pageInfo'' = JUndef
      \<or> (isRecord (getProp v ''pageInfo'') \<and> isBoolean (getProp (getProp v ''pageInfo'') ''hasOlder'')
         \<and> isOptionalStringOrNull (getProp (getProp v ''pageInfo'') ''olderCursor'')))"

definition isRemoteRuntimePromptAlias :: "js \<Rightarrow> bool" where
  "isRemoteRuntimePromptAlias v \<longleftrightarrow>
     isRecord v \<and> isNonEmptyString (getProp v ''alias'') \<and> isNonEmptyString (getProp v ''prompt'')
   \<and> jsNumTest numFinite (getProp v ''updatedAt'')"

definition isRemoteRuntimeAliasResponse :: "js \<Rightarrow> bool" where
  "isRemoteRuntimeAliasResponse v \<longleftrightarrow>
     isRecord v \<and> (getProp v ''alias'' = JNull \<or> isRemoteRuntimePromptAlias (getProp v ''alias''))"

definition isRemoteRuntimeAliasesListResponse :: "js \<Rightarrow> bool" where
  "isRemoteRuntimeAliasesListResponse v \<longleftrightarrow>
     isRecord v \<and> arrayEvery isRemoteRuntimePromptAlias (getProp v ''aliases'')"

definition isRemoteRuntimeAliasDeleteResponse :: "js \<Rightarrow> bool" where
  "isRemoteRuntimeAliasDeleteResponse v \<longleftrightarrow> isRecord v \<and> isBoolean (getProp v ''deleted'')"

definition isGitStatusCode :: "js \<Rightarrow> bool" where
  "isGitStatusCode v \<longleftrightarrow>
     v = JNull \<or> v \<in> {JStr ''M'', JStr ''A'', JStr ''D'', JStr ''R'', JStr ''C'', JStr ''U'', JStr ''?'', JStr ''!''}"

definition isRemoteRuntimeGitFileStatus :: "js \<Rightarrow> bool" where
  "isRemoteRuntimeGitFileStatus v \<longleftrightarrow>
     isRecord v \<and> isBoolean (getProp v ''conflicted'') \<and> isNonEmptyString (getProp v ''path'')
   \<and> isOptionalStringOrNull (getProp v ''renamedFrom'') \<and> isGitStatusCode (getProp v ''staged'')
   \<and> isBoolean (getProp v ''submodule'') \<and> isBoolean (getProp v ''untracked'')
   \<and> isGitStatusCode (getProp v ''unstaged'')"

definition isRemoteRuntimeGitRepositoryStatus :: "js \<Rightarrow> bool" where
  "isRemoteRuntimeGitRepositoryStatus v \<longleftrightarrow>
     isRecord v
   \<and> isOptionalSafeIntegerOrNull (getProp v ''ahead'') \<and> isOptionalSafeIntegerOrNull (getProp v ''behind'')
   \<and> isOptionalStringOrNull (getProp v ''branch'') \<and> isBoolean (getProp v ''diffTruncated'')
   \<and> isNonEmptyString (getProp v ''directoryId'') \<and> isOptionalStringOrNull (getProp v ''error'')
   \<and> arrayEvery isRemoteRuntimeGitFileStatus (getProp v ''files'')
   \<and> isOptionalStringOrNull (getProp v ''head'') \<and> isBoolean (getProp v ''isRepository'')
   \<and> isNonEmptyString (getProp v ''path'') \<and> isOptionalStringOrNull (getProp v ''repositoryRoot'')
   \<and> isOptionalStringOrNull (getProp v ''stagedDiff'') \<and> isOptionalStringOrNull (getProp v ''unstagedDiff'')
   \<and> isOptionalStringOrNull (getProp v ''upstream'')"

definition isRemoteRuntimeGitStatusResponse :: "js \<Rightarrow> bool" where
  "isRemoteRuntimeGitStatusResponse v \<longleftrightarrow>
     isRecord v \<and> arrayEvery isRemoteRuntimeGitRepositoryStatus (getProp v ''repositories'')"

definition isRuntimeWebSocketInitializeResponse :: "js \<Rightarrow> bool" where
  "isRuntimeWebSocketInitializeResponse payload \<longleftrightarrow>
     isNonEmptyString (getProp payload ''acceptedRuntimeApiVersion'')
   \<and> arrayEvery isRemoteRuntimeAttachmentCapability (getProp payload ''attachmentCapabilities'')
   \<and> arrayEvery isRemoteRuntimeCapability (getProp payload ''featureCapabilities'')
   \<and> isNonEmptyString (getProp payload ''protocolVersion'')
   \<and> isNonEmptyString (getProp payload ''serverName'')
   \<and> isNonEmptyString (getProp payload ''serverVersion'')
   \<and> arrayEvery (\<lambda>m. isString m \<and> isRemoteRuntimeProtocolClientMethod (strOf m))
       (getProp payload ''supportedMethods'')"

section \<open>Server envelopes\<close>

definition matchesExpectedRequestId :: "string \<Rightarrow> string option \<Rightarrow> bool" where
  "matchesExpectedRequestId value expectedRequestId \<longleftrightarrow>
     expectedRequestId = None \<or> Some value = expectedRequestId"

text \<open>The shared cases of the two envelope switches.\<close>

definition isErrorEnvelope :: "js \<Rightarrow> string option \<Rightarrow> bool" where
  "isErrorEnvelope v expectedRequestId \<longleftrightarrow>
     (let err = getProp v ''error'' in
      isRecord err \<and> isString (getProp err ''code'') \<and> isString (getProp err ''message'')
    \<and> isBoolean (getProp err ''recoverable'')
    \<and> (\<not> isString (getProp v ''requestId'')
       \<or> matchesExpectedRequestId (strOf (getProp v ''requestId'')) expectedRequestId)
    \<and> getProp v ''success'' = JBool False)"

definition isVersionMismatchEnvelope :: "js \<Rightarrow> bool" where
  "isVersionMismatchEnvelope v \<longleftrightarrow>
     isString (getProp v ''expectedVersion'') \<and> isString (getProp v ''message'')
   \<and> isString (getProp v ''receivedVersion'')"

definition isRuntimeWebSocketServerEnvelope :: "js \<Rightarrow> string option \<Rightarrow> bool" where
  "isRuntimeWebSocketServerEnvelope v expectedRequestId \<longleftrightarrow>
     isRecord v
   \<and> (let type = getProp v ''type'' in
      if type = JStr ''response'' then
        isString (getProp v ''requestId'')
        \<and> matchesExpectedRequestId (strOf (getProp v ''requestId'')) expectedRequestId
        \<and> getProp v ''success'' = JBool True \<and> hasKey v ''payload''
      else if type = JStr ''error'' then isErrorEnvelope v expectedRequestId
      else if type = JStr ''event'' then hasKey v ''event''
      else if type = JStr ''delivery'' then hasKey v ''delivery''
      else if type = JStr ''serverRequest'' then isString (getProp v ''requestId'') \<and> hasKey v ''payload''
      else if type = JStr ''heartbeat'' then isString (getProp v ''timestamp'')
      else if type = JStr ''protocolVersionMismatch'' then isVersionMismatchEnvelope v
      else False)"

definition isRuntimeWebSocketServerEnvelopeForMethod :: "string \<Rightarrow> js \<Rightarrow> string option \<Rightarrow> bool" where
  "isRuntimeWebSocketServerEnvelopeForMethod method v expectedRequestId \<longleftrightarrow>
     (if \<not> isRuntimeWebSocketServerEnvelope v expectedRequestId then False
      else if getProp v ''type'' \<noteq> JStr ''response'' then True
      else if \<not> isRecord (getProp v ''payload'') then False
      else if method = ''initialize'' then isRuntimeWebSocketInitializeResponse (getProp v ''payload'')
      else if method = ''ping'' then
        isString (getProp (getProp v ''payload'') ''message'')
        \<and> isString (getProp (getProp v ''payload'') ''timestamp'')
      else True)"

definition isRemoteRuntimeWebSocketResponsePayloadForMethod :: "string \<Rightarrow> js \<Rightarrow> bool" where
  "isRemoteRuntimeWebSocketResponsePayloadForMethod method payload \<longleftrightarrow>
     (if method = ''directory.list'' then isRuntimeWebSocketDirectoryListResponse payload
      else if method = ''directory.select'' then isRuntimeWebSocketDirectorySelectResponse payload
      else if method = ''session.list'' \<or> method = ''activeChats.list'' then isRemoteRuntimeActiveChatsResponse payload
      else if method = ''chat.start'' then
        isRecord payload \<and> isRemoteRuntimeActiveChatMetadataProjection (getProp payload ''chat'')
      else if method = ''session.messages'' then isRemoteRuntimeChatMessagesResponse payload
      else if method \<in> {''goal.get'', ''goal.create'', ''goal.edit'', ''goal.update'', ''goal.clear'', ''goal.pause'', ''goal.resume''}
        then isRemoteRuntimeGoalResponse payload
      else if method = ''goal.list'' then isRemoteRuntimeGoalsListResponse payload
      else if method = ''alias.list'' then isRemoteRuntimeAliasesListResponse payload
      else if method = ''alias.get'' \<or> method = ''alias.set'' then isRemoteRuntimeAliasResponse payload
      else if method = ''alias.delete'' then isRemoteRuntimeAliasDeleteResponse payload
      else if method = ''git.status'' then isRemoteRuntimeGitStatusResponse payload
      else False)"

definition isRemoteRuntimeWebSocketServerEnvelopeForMethod :: "string \<Rightarrow> js \<Rightarrow> string option \<Rightarrow> bool" where
  "isRemoteRuntimeWebSocketServerEnvelopeForMethod method v expectedRequestId \<longleftrightarrow>
     isRecord v
   \<and> (let type = getProp v ''type'' in
      if type = JStr ''response'' then
        isString (getProp v ''requestId'')
        \<and> matchesExpectedRequestId (strOf (getProp v ''requestId'')) expectedRequestId
        \<and> getProp v ''success'' = JBool True
        \<and> isRemoteRuntimeWebSocketResponsePayloadForMethod method (getProp v ''payload'')
      else if type = JStr ''error'' then isErrorEnvelope v expectedRequestId
      else if type = JStr ''heartbeat'' then isString (getProp v ''timestamp'')
      else if type = JStr ''protocolVersionMismatch'' then isVersionMismatchEnvelope v
      else False)"

definition isRemoteRuntimeProtocolServerEnvelopeForMethod :: "string \<Rightarrow> js \<Rightarrow> string option \<Rightarrow> bool" where
  "isRemoteRuntimeProtocolServerEnvelopeForMethod method v expectedRequestId \<longleftrightarrow>
     (if isRuntimeWebSocketClientMethod method
      then isRuntimeWebSocketServerEnvelopeForMethod method v expectedRequestId
      else isRemoteRuntimeWebSocketServerEnvelopeForMethod method v expectedRequestId)"

end
