(* ===== verification/Operation_Policy.thy ===== *)
theory Operation_Policy
  imports Remote_Protocol
begin

text \<open>
  The operation policy of the remote host (\<^verbatim>\<open>packages/remote-runtime-host/src/index.ts\<close>): which class,
  trust level, capability, encryption and idempotency each client method demands, and the
  authorisation of one command against it.
\<close>

section \<open>Trust levels\<close>

text \<open>\<open>remoteRuntimeTrustLevelSatisfies\<close> compares positions in the value list; on the datatype this is a
  linear order.\<close>

fun indexOf :: "'a \<Rightarrow> 'a list \<Rightarrow> int" where
  "indexOf x [] = -1"
| "indexOf x (y # ys) = (if x = y then 0 else (let i = indexOf x ys in if i < 0 then -1 else i + 1))"

definition remoteRuntimeTrustLevelSatisfies :: "trust_level \<Rightarrow> trust_level \<Rightarrow> bool" where
  "remoteRuntimeTrustLevelSatisfies actual required \<longleftrightarrow>
     indexOf actual remoteRuntimeClientTrustLevelValues \<ge> indexOf required remoteRuntimeClientTrustLevelValues"

fun trustRank :: "trust_level \<Rightarrow> nat" where
  "trustRank Untrusted = 0" | "trustRank Paired = 1" | "trustRank Trusted = 2"

instantiation trust_level :: linorder
begin

definition less_eq_trust_level :: "trust_level \<Rightarrow> trust_level \<Rightarrow> bool" where
  "less_eq_trust_level a b \<longleftrightarrow> trustRank a \<le> trustRank b"

definition less_trust_level :: "trust_level \<Rightarrow> trust_level \<Rightarrow> bool" where
  "less_trust_level a b \<longleftrightarrow> trustRank a < trustRank b"

instance
proof
  fix x y z :: trust_level
  show "(x < y) = (x \<le> y \<and> \<not> y \<le> x)" by (auto simp: less_eq_trust_level_def less_trust_level_def)
  show "x \<le> x" by (simp add: less_eq_trust_level_def)
  show "x \<le> y \<Longrightarrow> y \<le> z \<Longrightarrow> x \<le> z" by (simp add: less_eq_trust_level_def)
  show "x \<le> y \<Longrightarrow> y \<le> x \<Longrightarrow> x = y" by (cases x; cases y) (simp_all add: less_eq_trust_level_def)
  show "x \<le> y \<or> y \<le> x" by (auto simp: less_eq_trust_level_def)
qed

end

lemma trustLevelSatisfies_iff: "remoteRuntimeTrustLevelSatisfies actual required \<longleftrightarrow> required \<le> actual"
  by (cases actual; cases required)
    (simp_all add: remoteRuntimeTrustLevelSatisfies_def remoteRuntimeClientTrustLevelValues_def less_eq_trust_level_def)

section \<open>Policies\<close>

record policy_template =
  pt_auditRequired :: bool
  pt_class :: operation_class
  pt_encryptionRequired :: bool
  pt_idempotencyRequired :: bool
  pt_localApprovalPolicyRequired :: bool
  pt_metadataSliceAllowed :: bool
  pt_requiredAttachmentCapability :: "attachment_capability option"
  pt_requiredDeviceTrustLevel :: trust_level
  pt_responseSensitivity :: response_sensitivity

record operation_policy = policy_template +
  op_method :: string
  op_subcommand :: "string option"

definition metadataPolicy :: policy_template where
  "metadataPolicy =
     \<lparr> pt_auditRequired = False, pt_class = MetadataRead, pt_encryptionRequired = False,
       pt_idempotencyRequired = False, pt_localApprovalPolicyRequired = False,
       pt_metadataSliceAllowed = True, pt_requiredAttachmentCapability = Some CapMetadata,
       pt_requiredDeviceTrustLevel = Paired, pt_responseSensitivity = MetadataSensitivity \<rparr>"

definition sensitiveReadPolicy :: policy_template where
  "sensitiveReadPolicy =
     \<lparr> pt_auditRequired = True, pt_class = SensitiveRead, pt_encryptionRequired = True,
       pt_idempotencyRequired = False, pt_localApprovalPolicyRequired = False,
       pt_metadataSliceAllowed = False, pt_requiredAttachmentCapability = Some CapSensitiveRead,
       pt_requiredDeviceTrustLevel = Trusted, pt_responseSensitivity = SensitiveSensitivity \<rparr>"

definition mutationPolicy :: policy_template where
  "mutationPolicy =
     \<lparr> pt_auditRequired = True, pt_class = Mutation, pt_encryptionRequired = True,
       pt_idempotencyRequired = True, pt_localApprovalPolicyRequired = True,
       pt_metadataSliceAllowed = False, pt_requiredAttachmentCapability = Some CapMutate,
       pt_requiredDeviceTrustLevel = Trusted, pt_responseSensitivity = SensitiveSensitivity \<rparr>"

definition privilegedPolicy :: policy_template where
  "privilegedPolicy =
     \<lparr> pt_auditRequired = True, pt_class = PrivilegedExecution, pt_encryptionRequired = True,
       pt_idempotencyRequired = True, pt_localApprovalPolicyRequired = True,
       pt_metadataSliceAllowed = False, pt_requiredAttachmentCapability = Some CapPrivilegedExecution,
       pt_requiredDeviceTrustLevel = Trusted, pt_responseSensitivity = SensitiveSensitivity \<rparr>"

definition credentialPolicy :: policy_template where
  "credentialPolicy =
     \<lparr> pt_auditRequired = True, pt_class = Credential, pt_encryptionRequired = True,
       pt_idempotencyRequired = True, pt_localApprovalPolicyRequired = True,
       pt_metadataSliceAllowed = False, pt_requiredAttachmentCapability = Some CapCredential,
       pt_requiredDeviceTrustLevel = Trusted, pt_responseSensitivity = CredentialSensitivity \<rparr>"

definition shutdownPolicy :: policy_template where
  "shutdownPolicy =
     \<lparr> pt_auditRequired = True, pt_class = Shutdown, pt_encryptionRequired = True,
       pt_idempotencyRequired = True, pt_localApprovalPolicyRequired = True,
       pt_metadataSliceAllowed = False, pt_requiredAttachmentCapability = Some CapShutdown,
       pt_requiredDeviceTrustLevel = Trusted, pt_responseSensitivity = NoSensitivity \<rparr>"

lemmas policy_defs = metadataPolicy_def sensitiveReadPolicy_def mutationPolicy_def privilegedPolicy_def
  credentialPolicy_def shutdownPolicy_def

definition remoteRuntimeMethodPolicy :: "(string \<times> policy_template) list" where
  "remoteRuntimeMethodPolicy =
     [(''initialize'', metadataPolicy),
      (''ping'', metadataPolicy),
      (''directory.list'', metadataPolicy),
      (''directory.select'', metadataPolicy),
      (''agent.list'', sensitiveReadPolicy),
      (''chat.start'', mutationPolicy),
      (''session.list'', sensitiveReadPolicy),
      (''activeChats.list'', sensitiveReadPolicy),
      (''provider.list'', sensitiveReadPolicy),
      (''provider.models'', sensitiveReadPolicy),
      (''providerModel.command'', sensitiveReadPolicy),
      (''config/bootstrapCodexHome'', credentialPolicy),
      (''account.read'', credentialPolicy),
      (''account.login.start'', credentialPolicy),
      (''account.login.cancel'', credentialPolicy),
      (''account.rateLimits.read'', sensitiveReadPolicy),
      (''approval.resolve'', privilegedPolicy),
      (''providerChild.serverRequest.respond'', privilegedPolicy),
      (''skills.list'', sensitiveReadPolicy),
      (''plugin.list'', sensitiveReadPolicy),
      (''mcpServerStatus/list'', sensitiveReadPolicy),
      (''session.create'', mutationPolicy),
      (''session.read'', sensitiveReadPolicy),
      (''session.messages'', sensitiveReadPolicy),
      (''git.status'', sensitiveReadPolicy),
      (''session.update'', mutationPolicy),
      (''session.message'', mutationPolicy),
      (''goal.get'', sensitiveReadPolicy),
      (''goal.list'', sensitiveReadPolicy),
      (''goal.create'', mutationPolicy),
      (''goal.edit'', mutationPolicy),
      (''goal.update'', mutationPolicy),
      (''goal.clear'', mutationPolicy),
      (''goal.pause'', mutationPolicy),
      (''goal.resume'', mutationPolicy),
      (''alias.list'', sensitiveReadPolicy),
      (''alias.get'', sensitiveReadPolicy),
      (''alias.set'', mutationPolicy),
      (''alias.delete'', mutationPolicy),
      (''session.close'', mutationPolicy),
      (''nativeShell.prepare'', privilegedPolicy),
      (''thread.start'', mutationPolicy),
      (''thread.read'', sensitiveReadPolicy),
      (''thread.resume'', mutationPolicy),
      (''thread.fork'', mutationPolicy),
      (''thread.rollback'', mutationPolicy),
      (''thread.shellCommand'', privilegedPolicy),
      (''thread.backgroundTerminals.clean'', mutationPolicy),
      (''thread.list'', sensitiveReadPolicy),
      (''turn.start'', privilegedPolicy),
      (''turn.interrupt'', mutationPolicy),
      (''turn.steer'', privilegedPolicy),
      (''shutdown'', shutdownPolicy),
      (''subscribe'', sensitiveReadPolicy),
      (''unsubscribe'', mutationPolicy),
      (''resume'', sensitiveReadPolicy)]"

definition remoteRuntimeProviderModelSubcommandPolicy :: "(string \<times> policy_template) list" where
  "remoteRuntimeProviderModelSubcommandPolicy =
     [(''model.current'', sensitiveReadPolicy), (''model.list'', sensitiveReadPolicy),
      (''model.set'', mutationPolicy), (''provider.current'', sensitiveReadPolicy),
      (''provider.list'', sensitiveReadPolicy), (''provider.set'', mutationPolicy)]"

definition withMethod :: "policy_template \<Rightarrow> string \<Rightarrow> string option \<Rightarrow> operation_policy" where
  "withMethod t method subcommand = policy_template.extend t \<lparr> op_method = method, op_subcommand = subcommand \<rparr>"

definition remoteRuntimeOperationPolicies :: "operation_policy list" where
  "remoteRuntimeOperationPolicies = concat (map (\<lambda>method.
     if method \<noteq> ''providerModel.command'' then
       (case map_of remoteRuntimeMethodPolicy method of None \<Rightarrow> [] | Some t \<Rightarrow> [withMethod t method None])
     else List.map_filter (\<lambda>subcommand. map_option (\<lambda>t. withMethod t method (Some subcommand))
            (map_of remoteRuntimeProviderModelSubcommandPolicy subcommand))
          runtimeWebSocketProviderModelCommandTypeValues)
     remoteRuntimeProtocolClientMethodValues)"

text \<open>\<open>None\<close> would be a method without a row in the table.\<close>

definition remoteRuntimeOperationPolicyForCommand :: "js \<Rightarrow> operation_policy option" where
  "remoteRuntimeOperationPolicyForCommand command =
     (let method = strOf (getProp command ''method'') in
      if method \<noteq> ''providerModel.command'' then
        map_option (\<lambda>t. withMethod t method None) (map_of remoteRuntimeMethodPolicy method)
      else
        (let subcommand = strOf (getProp (getProp (getProp command ''payload'') ''command'') ''type'') in
         map_option (\<lambda>t. withMethod t method (Some subcommand))
           (map_of remoteRuntimeProviderModelSubcommandPolicy subcommand)))"

section \<open>Authorisation\<close>

record authorization_context =
  ac_attachmentCapabilities :: "attachment_capability list"
  ac_deviceTrustLevel :: trust_level
  ac_encrypted :: bool
  ac_idempotencyKey :: "string option"
  ac_metadataSliceOnly :: bool
  ac_operationClass :: operation_class
  ac_runtimeAttachmentAuthorized :: bool

text \<open>\<open>isRuntimeWebSocketProviderThreadSubscriptionPayload\<close> of \<^verbatim>\<open>packages/runtime-protocol/src/websocket.ts\<close>.\<close>

definition isRuntimeWebSocketProviderThreadSubscriptionPayload :: "js \<Rightarrow> bool" where
  "isRuntimeWebSocketProviderThreadSubscriptionPayload v \<longleftrightarrow>
     (if \<not> isRecord v \<or> \<not> isRecord (getProp v ''threadRef'') then False
      else if getProp v ''afterSequence'' \<noteq> JUndef
              \<and> \<not> jsNumTest (\<lambda>n. numSafeInteger n \<and> numGe n 0) (getProp v ''afterSequence'')
      then False
      else isNonEmptyString (getProp (getProp v ''threadRef'') ''providerId'')
           \<and> isNonEmptyString (getProp (getProp v ''threadRef'') ''threadId''))"

definition remoteRuntimeMethodRequiresProviderThreadReplayTarget :: "string \<Rightarrow> bool" where
  "remoteRuntimeMethodRequiresProviderThreadReplayTarget method \<longleftrightarrow>
     method = ''subscribe'' \<or> method = ''unsubscribe'' \<or> method = ''resume''"

definition remoteRuntimeAuthorizationFailure :: "string \<Rightarrow> string \<Rightarrow> failure_envelope + 'a" where
  "remoteRuntimeAuthorizationFailure requestId message =
     Inl (createAuthorizationFailureEnvelope requestId (Some message))"

definition hasIdempotencyKey :: "string option \<Rightarrow> bool" where
  "hasIdempotencyKey key \<longleftrightarrow> key \<noteq> None \<and> key \<noteq> Some []"

definition authorizeWithPolicy ::
  "operation_policy \<Rightarrow> js \<Rightarrow> authorization_context \<Rightarrow> failure_envelope + operation_policy" where
  "authorizeWithPolicy policy command ctx =
     (let requestId = strOf (getProp command ''requestId''); fail = remoteRuntimeAuthorizationFailure requestId in
      if \<not> ac_runtimeAttachmentAuthorized ctx then fail ''Runtime attachment is not authorized.''
      else if ac_operationClass ctx \<noteq> pt_class policy then fail ''Operation class does not match policy.''
      else if \<not> remoteRuntimeTrustLevelSatisfies (ac_deviceTrustLevel ctx) (pt_requiredDeviceTrustLevel policy)
      then fail ''Runtime client trust is insufficient.''
      else if pt_encryptionRequired policy \<and> \<not> ac_encrypted ctx then fail ''Runtime operation requires encryption.''
      else if ac_metadataSliceOnly ctx \<and> \<not> pt_metadataSliceAllowed policy
      then fail ''Runtime operation is outside the metadata slice.''
      else if (case pt_requiredAttachmentCapability policy of None \<Rightarrow> False
               | Some c \<Rightarrow> c \<notin> set (ac_attachmentCapabilities ctx))
      then fail ''Runtime attachment lacks required capability.''
      else if pt_idempotencyRequired policy \<and> \<not> hasIdempotencyKey (ac_idempotencyKey ctx)
      then fail ''Runtime operation requires an idempotency key.''
      else if remoteRuntimeMethodRequiresProviderThreadReplayTarget (strOf (getProp command ''method''))
              \<and> \<not> isRuntimeWebSocketProviderThreadSubscriptionPayload (getProp command ''payload'')
      then fail ''Remote runtime replay commands require a provider-thread subscription target.''
      else Inr policy)"

definition authorizeRemoteRuntimeCommandWithPolicy ::
  "js \<Rightarrow> authorization_context \<Rightarrow> failure_envelope + operation_policy" where
  "authorizeRemoteRuntimeCommandWithPolicy command ctx =
     (case remoteRuntimeOperationPolicyForCommand command of
        None \<Rightarrow> remoteRuntimeAuthorizationFailure (strOf (getProp command ''requestId''))
                  (if \<not> ac_runtimeAttachmentAuthorized ctx then ''Runtime attachment is not authorized.''
                   else ''Operation class does not match policy.'')
      | Some policy \<Rightarrow> authorizeWithPolicy policy command ctx)"

section \<open>Lemmas\<close>

lemma method_policy_total:
  "list_all (\<lambda>method. map_of remoteRuntimeMethodPolicy method \<noteq> None) remoteRuntimeProtocolClientMethodValues"
  by code_simp

lemma subcommand_policy_total:
  "list_all (\<lambda>t. map_of remoteRuntimeProviderModelSubcommandPolicy t \<noteq> None)
     runtimeWebSocketProviderModelCommandTypeValues"
  by code_simp

text \<open>What every row of the two tables has in common.\<close>

definition template_wf :: "policy_template \<Rightarrow> bool" where
  "template_wf t \<longleftrightarrow>
     (pt_class t \<noteq> MetadataRead \<longrightarrow>
        pt_encryptionRequired t \<and> pt_auditRequired t \<and> pt_requiredDeviceTrustLevel t = Trusted
      \<and> \<not> pt_metadataSliceAllowed t)
   \<and> (pt_class t \<notin> {MetadataRead, SensitiveRead} \<longrightarrow>
        pt_idempotencyRequired t \<and> pt_localApprovalPolicyRequired t)
   \<and> pt_requiredDeviceTrustLevel t \<noteq> Untrusted
   \<and> pt_requiredAttachmentCapability t \<noteq> None"

lemma template_wf_all:
  "template_wf metadataPolicy" "template_wf sensitiveReadPolicy" "template_wf mutationPolicy"
  "template_wf privilegedPolicy" "template_wf credentialPolicy" "template_wf shutdownPolicy"
  by (simp_all add: template_wf_def policy_defs)

lemma table_wf:
  "list_all template_wf (map snd remoteRuntimeMethodPolicy)"
  "list_all template_wf (map snd remoteRuntimeProviderModelSubcommandPolicy)"
  by (simp_all add: remoteRuntimeMethodPolicy_def remoteRuntimeProviderModelSubcommandPolicy_def template_wf_all)

lemma methodValues_iff:
  "method \<in> set remoteRuntimeProtocolClientMethodValues \<longleftrightarrow> isRemoteRuntimeProtocolClientMethod method"
  by (auto simp: remoteRuntimeProtocolClientMethodValues_def isRemoteRuntimeProtocolClientMethod_def
      isRuntimeWebSocketClientMethod_def isRemoteRuntimeWebSocketClientMethod_def)

end
