(* ===== verification/Frames.thy ===== *)
theory Frames
  imports Operation_Policy
begin

text \<open>
  Validation of what arrives over the transport (\<^verbatim>\<open>packages/remote-runtime-host/src/index.ts\<close>): commands,
  encrypted payloads, operation and status frames, signed WebSocket actions, attachment requests, and
  the redaction of log values.  A validator returns the typed value or the failure envelope that is
  sent back.  The text of a number in JSON is the parameter \<open>numText\<close> (the number-to-string
  algorithm of the language).
\<close>

section \<open>JSON text\<close>

definition hexDigit :: "nat \<Rightarrow> char" where
  "hexDigit n = (if n < 10 then char_of (48 + n) else char_of (87 + n))"

text \<open>The escapes of \<open>JSON.stringify\<close>.\<close>

definition jsonEscapeChar :: "char \<Rightarrow> string" where
  "jsonEscapeChar c = (let n = of_char c :: nat in
     if n = 34 \<or> n = 92 then [char_of (92::nat), c]
     else if n = 8 then [char_of (92::nat), CHR ''b'']
     else if n = 12 then [char_of (92::nat), CHR ''f'']
     else if n = 10 then [char_of (92::nat), CHR ''n'']
     else if n = 13 then [char_of (92::nat), CHR ''r'']
     else if n = 9 then [char_of (92::nat), CHR ''t'']
     else if n < 32 then char_of (92::nat) # ''u00'' @ [hexDigit (n div 16), hexDigit (n mod 16)]
     else [c])"

definition jsonString :: "string \<Rightarrow> string" where
  "jsonString s = CHR 0x22 # concat (map jsonEscapeChar s) @ [CHR 0x22]"

text \<open>\<open>None\<close>: undefined has no JSON text; it is skipped in an object and is null in an array.\<close>

fun jsonStringify :: "(rat \<Rightarrow> string) \<Rightarrow> js \<Rightarrow> string option" where
  "jsonStringify numText JUndef = None"
| "jsonStringify numText JNull = Some ''null''"
| "jsonStringify numText (JBool b) = Some (if b then ''true'' else ''false'')"
| "jsonStringify numText (JNum n) = Some (case n of JFin r \<Rightarrow> numText r | _ \<Rightarrow> ''null'')"
| "jsonStringify numText (JStr s) = Some (jsonString s)"
| "jsonStringify numText (JArr vs) =
     Some (''['' @ join '','' (map (\<lambda>v. case jsonStringify numText v of None \<Rightarrow> ''null'' | Some t \<Rightarrow> t) vs) @ '']'')"
| "jsonStringify numText (JObj fs) =
     Some (''{'' @ join '','' (concat (map (\<lambda>kv. case jsonStringify numText (snd kv) of
        None \<Rightarrow> [] | Some t \<Rightarrow> [jsonString (fst kv) @ '':'' @ t]) fs)) @ ''}'')"

text \<open>UTF-8 length of a text of code units below 256.\<close>

definition utf8Length :: "string \<Rightarrow> nat" where
  "utf8Length s = sum_list (map (\<lambda>c. if (of_char c :: nat) < 128 then 1 else 2) s)"

definition remoteRuntimeJsonByteLength :: "(rat \<Rightarrow> string) \<Rightarrow> js \<Rightarrow> nat" where
  "remoteRuntimeJsonByteLength numText v = (case jsonStringify numText v of None \<Rightarrow> 0 | Some t \<Rightarrow> utf8Length t)"

section \<open>Shared checks\<close>

definition isNonEmptyRemoteRuntimeString :: "js \<Rightarrow> bool" where
  "isNonEmptyRemoteRuntimeString v \<longleftrightarrow> isString v \<and> strOf v \<noteq> []"

definition remoteRuntimeStringOrUnknown :: "js \<Rightarrow> string" where
  "remoteRuntimeStringOrUnknown v = (if isNonEmptyRemoteRuntimeString v then strOf v else ''unknown'')"

definition remoteRuntimeValidationFailure :: "failure_code \<Rightarrow> string \<Rightarrow> string \<Rightarrow> failure_envelope + 'a" where
  "remoteRuntimeValidationFailure code requestId message = Inl (plainFailure code requestId message)"

definition remoteRuntimeProtocolMismatch :: "string \<Rightarrow> string \<Rightarrow> failure_envelope + 'a" where
  "remoteRuntimeProtocolMismatch requestId receivedVersion =
     remoteRuntimeValidationFailure PROTOCOL_MISMATCH requestId
       (''Remote runtime transport protocol version '' @ receivedVersion @ '' is unsupported.'')"

definition supportedRuntimeWebSocketProtocolVersions :: "string list" where
  "supportedRuntimeWebSocketProtocolVersions = [''0.1.5'', ''0.1.6'']"

definition isRuntimeWebSocketProtocolVersionSupported :: "string \<Rightarrow> bool" where
  "isRuntimeWebSocketProtocolVersionSupported receivedVersion \<longleftrightarrow>
     receivedVersion \<in> set supportedRuntimeWebSocketProtocolVersions"

section \<open>Commands and payloads\<close>

definition validateRuntimeCommand :: "js \<Rightarrow> string \<Rightarrow> failure_envelope + js" where
  "validateRuntimeCommand input fallbackRequestId =
     (let version = getProp input ''protocolVersion''; method = getProp input ''method'';
          requestId = strOf (getProp input ''requestId'') in
      if \<not> isRecord input
      then remoteRuntimeValidationFailure VALIDATION_FAILED fallbackRequestId ''Runtime command must be an object.''
      else if \<not> isNonEmptyRemoteRuntimeString (getProp input ''requestId'')
      then remoteRuntimeValidationFailure VALIDATION_FAILED fallbackRequestId ''Runtime command requestId is required.''
      else if \<not> isString version \<or> \<not> isRuntimeWebSocketProtocolVersionSupported (strOf version)
      then remoteRuntimeValidationFailure PROTOCOL_MISMATCH requestId
        (''Runtime command protocol version is unsupported: received ''
          @ (if isString version then strOf version else ''missing'')
          @ ''; supported versions: '' @ join '', '' supportedRuntimeWebSocketProtocolVersions
          @ ''. Update the CLI/runtime or update the mobile app so their supported protocol windows overlap.'')
      else if \<not> isRemoteRuntimeProtocolClientCommand input
      then remoteRuntimeValidationFailure VALIDATION_FAILED requestId
        (''Runtime command method is unknown: received ''
          @ (if isString method \<and> strOf method \<noteq> [] then strOf method else ''missing'') @ ''.'')
      else Inr input)"

text \<open>\<open>algorithm\<close> (aes-256-gcm) and \<open>contentType\<close> (runtimeWebSocketClientCommand) have one value each.\<close>

record encrypted_payload =
  ep_ciphertext :: string
  ep_keyId :: string
  ep_nonce :: string

definition validateEncryptedRuntimePayload :: "js \<Rightarrow> string \<Rightarrow> failure_envelope + encrypted_payload" where
  "validateEncryptedRuntimePayload input requestId =
     (let fail = remoteRuntimeValidationFailure VALIDATION_FAILED requestId in
      if \<not> isRecord input then fail ''Encrypted runtime payload must be an object.''
      else if getProp input ''algorithm'' \<noteq> JStr ''aes-256-gcm''
      then fail ''Encrypted runtime payload algorithm is unsupported.''
      else if getProp input ''contentType'' \<noteq> JStr ''runtimeWebSocketClientCommand''
      then fail ''Encrypted runtime payload content type is unsupported.''
      else if \<not> isNonEmptyRemoteRuntimeString (getProp input ''keyId'')
      then fail ''Encrypted runtime payload key id is required.''
      else if \<not> isNonEmptyRemoteRuntimeString (getProp input ''nonce'')
      then fail ''Encrypted runtime payload nonce is required.''
      else if \<not> isNonEmptyRemoteRuntimeString (getProp input ''ciphertext'')
      then fail ''Encrypted runtime payload ciphertext is required.''
      else Inr \<lparr> ep_ciphertext = strOf (getProp input ''ciphertext''), ep_keyId = strOf (getProp input ''keyId''),
                 ep_nonce = strOf (getProp input ''nonce'') \<rparr>)"

section \<open>Operation frames\<close>

record operation_frame =
  of_deviceTrustLevel :: "trust_level option"
  of_encryptedPayload :: "encrypted_payload option"
  of_gatewayRuntimeAttachmentId :: string
  of_idempotencyKey :: "string option"
  of_clientAttachmentId :: string
  of_operationClass :: operation_class
  of_payload :: "js option"
  of_protocolVersion :: string
  of_replyTarget :: "reply_target option"
  of_requestId :: string
  of_trustedGatewayHttpRequest :: bool

definition maxRuntimeOperationPayloadBytes :: nat where
  "maxRuntimeOperationPayloadBytes = 64 * 1024"

definition frameReplyAuthority :: "js \<Rightarrow> reply_authority" where
  "frameReplyAuthority input =
     \<lparr> ra_clientAttachmentId = strOf (getProp input ''clientAttachmentId''),
       ra_replyTarget = getProp input ''replyTarget'',
       ra_trustedGatewayHttpRequest = (getProp input ''trustedGatewayHttpRequest'' = JBool True) \<rparr>"

definition operationFrameValue ::
  "js \<Rightarrow> operation_class \<Rightarrow> reply_target \<Rightarrow> encrypted_payload option \<Rightarrow> js option \<Rightarrow> operation_frame" where
  "operationFrameValue input operationClass replyTarget encrypted payload =
     \<lparr> of_deviceTrustLevel = trustLevelValue (getProp input ''deviceTrustLevel''),
       of_encryptedPayload = encrypted,
       of_gatewayRuntimeAttachmentId = strOf (getProp input ''gatewayRuntimeAttachmentId''),
       of_idempotencyKey = (if getProp input ''idempotencyKey'' = JUndef then None
                            else Some (strOf (getProp input ''idempotencyKey''))),
       of_clientAttachmentId = strOf (getProp input ''clientAttachmentId''),
       of_operationClass = operationClass, of_payload = payload,
       of_protocolVersion = strOf (getProp input ''protocolVersion''),
       of_replyTarget = Some replyTarget, of_requestId = strOf (getProp input ''requestId''),
       of_trustedGatewayHttpRequest = (getProp input ''trustedGatewayHttpRequest'' = JBool True) \<rparr>"

definition validateRuntimeOperationFrame ::
  "(rat \<Rightarrow> string) \<Rightarrow> js \<Rightarrow> nat \<Rightarrow> failure_envelope + operation_frame" where
  "validateRuntimeOperationFrame numText input maxPayloadBytes =
     (let requestId = strOf (getProp input ''requestId'');
          fail = remoteRuntimeValidationFailure VALIDATION_FAILED requestId;
          trust = getProp input ''deviceTrustLevel''; key = getProp input ''idempotencyKey'';
          marker = getProp input ''trustedGatewayHttpRequest'' in
      if \<not> isRecord input
      then remoteRuntimeValidationFailure VALIDATION_FAILED ''unknown'' ''Runtime operation frame must be an object.''
      else if getProp input ''type'' \<noteq> JStr ''runtime.operation''
      then remoteRuntimeValidationFailure VALIDATION_FAILED (remoteRuntimeStringOrUnknown (getProp input ''requestId''))
        ''Unexpected remote runtime transport frame type.''
      else if getProp input ''protocolVersion'' \<noteq> JStr remoteRuntimeTransportProtocolVersion
      then remoteRuntimeProtocolMismatch (remoteRuntimeStringOrUnknown (getProp input ''requestId''))
        (remoteRuntimeStringOrUnknown (getProp input ''protocolVersion''))
      else if \<not> isNonEmptyRemoteRuntimeString (getProp input ''requestId'')
      then remoteRuntimeValidationFailure VALIDATION_FAILED ''unknown'' ''Runtime operation requestId is required.''
      else if \<not> isNonEmptyRemoteRuntimeString (getProp input ''gatewayRuntimeAttachmentId'')
      then fail ''Gateway runtime attachment id is required.''
      else if \<not> isNonEmptyRemoteRuntimeString (getProp input ''clientAttachmentId'')
      then fail ''Runtime client attachment id is required.''
      else (case operationClassValue (getProp input ''operationClass'') of
        None \<Rightarrow> fail ''Runtime operation class is invalid.''
      | Some operationClass \<Rightarrow>
      if trust \<noteq> JUndef \<and> \<not> isRemoteRuntimeClientTrustLevel trust
      then fail ''Runtime operation device trust level is invalid.''
      else if key \<noteq> JUndef \<and> \<not> isNonEmptyRemoteRuntimeString key
      then fail ''Runtime operation idempotency key is invalid.''
      else if marker \<noteq> JUndef \<and> marker \<noteq> JBool True
      then fail ''Runtime operation trusted gateway HTTP marker is invalid.''
      else (case validatedRuntimeOperationReplyTargetFromFrameAuthority (frameReplyAuthority input) requestId of
        Inl e \<Rightarrow> Inl e
      | Inr replyTarget \<Rightarrow>
      if remoteRuntimeJsonByteLength numText input > maxPayloadBytes
      then remoteRuntimeValidationFailure PAYLOAD_TOO_LARGE requestId ''Runtime operation frame exceeds the payload limit.''
      else if getProp input ''encryptedPayload'' \<noteq> JUndef \<and> getProp input ''payload'' \<noteq> JUndef
      then fail ''Runtime operation frame cannot include both clear and encrypted payloads.''
      else if getProp input ''encryptedPayload'' \<noteq> JUndef
      then (case validateEncryptedRuntimePayload (getProp input ''encryptedPayload'') requestId of
              Inl e \<Rightarrow> Inl e
            | Inr ep \<Rightarrow> Inr (operationFrameValue input operationClass replyTarget (Some ep) None))
      else (case validateRuntimeCommand (getProp input ''payload'') requestId of
              Inl e \<Rightarrow> Inl e
            | Inr command \<Rightarrow> Inr (operationFrameValue input operationClass replyTarget None (Some command))))))"

section \<open>Status frames and signed actions\<close>

fun replayStatusText :: "replay_status \<Rightarrow> string" where
  "replayStatusText ReplaySupported = ''supported''"
| "replayStatusText ReplayUnsupported = ''unsupported''"
| "replayStatusText ReplayUnavailable = ''unavailable''"

fun frameStatusText :: "frame_status \<Rightarrow> string" where
  "frameStatusText FrameOnline = ''online''"
| "frameStatusText FrameOffline = ''offline''"
| "frameStatusText FrameRevoked = ''revoked''"
| "frameStatusText FrameUnavailable = ''unavailable''"

abbreviation isRuntimeReplayStatus :: "js \<Rightarrow> replay_status option" where
  "isRuntimeReplayStatus \<equiv> enumValue replayStatusText [ReplaySupported, ReplayUnsupported, ReplayUnavailable]"

abbreviation isRuntimeAttachmentStatus :: "js \<Rightarrow> frame_status option" where
  "isRuntimeAttachmentStatus \<equiv> enumValue frameStatusText [FrameOnline, FrameOffline, FrameRevoked, FrameUnavailable]"

text \<open>The integer of a number value that passed the safe-integer test.\<close>

fun safeInt :: "js \<Rightarrow> int" where
  "safeInt (JNum (JFin r)) = \<lfloor>r\<rfloor>"
| "safeInt _ = 0"

text \<open>An absent list of feature capabilities and an empty one give the same frame.\<close>

definition validateRuntimeStatusFrame :: "js \<Rightarrow> failure_envelope + status_frame" where
  "validateRuntimeStatusFrame input =
     (let requestId = strOf (getProp input ''requestId'');
          fail = remoteRuntimeValidationFailure VALIDATION_FAILED requestId;
          caps = getProp input ''attachmentCapabilities''; feats = getProp input ''featureCapabilities'' in
      if \<not> isRecord input
      then remoteRuntimeValidationFailure VALIDATION_FAILED ''unknown'' ''Runtime status frame must be an object.''
      else if getProp input ''type'' \<noteq> JStr ''runtime.status''
      then remoteRuntimeValidationFailure VALIDATION_FAILED (remoteRuntimeStringOrUnknown (getProp input ''requestId''))
        ''Unexpected runtime status frame type.''
      else if getProp input ''protocolVersion'' \<noteq> JStr remoteRuntimeTransportProtocolVersion
      then remoteRuntimeProtocolMismatch (remoteRuntimeStringOrUnknown (getProp input ''requestId''))
        (remoteRuntimeStringOrUnknown (getProp input ''protocolVersion''))
      else if \<not> isNonEmptyRemoteRuntimeString (getProp input ''requestId'')
      then remoteRuntimeValidationFailure VALIDATION_FAILED ''unknown'' ''Runtime status requestId is required.''
      else if \<not> isNonEmptyRemoteRuntimeString (getProp input ''gatewayRuntimeAttachmentId'')
      then fail ''Gateway runtime attachment id is required.''
      else if \<not> isNonEmptyRemoteRuntimeString (getProp input ''connectorVersion'')
      then fail ''Runtime status connector version is required.''
      else if \<not> isNonEmptyRemoteRuntimeString (getProp input ''runtimeApiVersion'')
      then fail ''Runtime API version is required.''
      else if \<not> arrayEvery isRemoteRuntimeAttachmentCapability caps
      then fail ''Runtime status attachment capabilities are invalid.''
      else if feats \<noteq> JUndef \<and> \<not> isArray feats
      then fail ''Runtime status feature capabilities are invalid.''
      else if \<not> list_all isRemoteRuntimeCapability (arrayItems feats)
      then fail ''Runtime status feature capabilities are invalid.''
      else (case isRuntimeReplayStatus (getProp input ''replay'') of
        None \<Rightarrow> fail ''Runtime replay status is invalid.''
      | Some replay \<Rightarrow> (case isRuntimeAttachmentStatus (getProp input ''status'') of
        None \<Rightarrow> fail ''Runtime attachment status is invalid.''
      | Some status \<Rightarrow>
      if \<not> jsNumTest (\<lambda>n. numSafeInteger n \<and> numGe n 1) (getProp input ''sequence'')
      then fail ''Runtime status sequence is invalid.''
      else Inr \<lparr> sf_attachmentCapabilities = List.map_filter attachmentCapabilityValue (arrayItems caps),
                 sf_connectorVersion = strOf (getProp input ''connectorVersion''),
                 sf_featureCapabilities = map strOf (arrayItems feats),
                 sf_gatewayRuntimeAttachmentId = strOf (getProp input ''gatewayRuntimeAttachmentId''),
                 sf_replay = replay, sf_requestId = requestId,
                 sf_runtimeApiVersion = strOf (getProp input ''runtimeApiVersion''),
                 sf_sequence = safeInt (getProp input ''sequence''), sf_status = status \<rparr>)))"

record signed_action =
  sa_payload :: js
  sa_keyId :: string
  sa_nonce :: string
  sa_payloadSha256 :: string
  sa_signature :: string
  sa_timestamp :: string
  sa_sequence :: int
  sa_sessionNonce :: string

definition remoteRuntimeWebSocketActionType :: string where
  "remoteRuntimeWebSocketActionType = ''remoteRuntime.websocket.action''"

text \<open>The session gives the nonce it was opened with and the sequence number it expects next.\<close>

definition validateRemoteRuntimeWebSocketSignedAction :: "js \<Rightarrow> int \<Rightarrow> string \<Rightarrow> failure_envelope + signed_action" where
  "validateRemoteRuntimeWebSocketSignedAction input nextSequence sessionNonce =
     (let requestId = remoteRuntimeStringOrUnknown (getProp input ''requestId'');
          denied = remoteRuntimeValidationFailure AUTHORIZATION_FAILED requestId;
          proof = getProp input ''proof'' in
      if \<not> isRecord input
      then remoteRuntimeValidationFailure VALIDATION_FAILED ''unknown'' ''Remote runtime WebSocket action must be an object.''
      else if getProp input ''type'' \<noteq> JStr remoteRuntimeWebSocketActionType
      then denied ''Remote runtime WebSocket action is not signed for this session.''
      else if getProp input ''protocolVersion'' \<noteq> JStr remoteRuntimeTransportProtocolVersion
      then remoteRuntimeProtocolMismatch requestId (remoteRuntimeStringOrUnknown (getProp input ''protocolVersion''))
      else if getProp input ''sessionNonce'' \<noteq> JStr sessionNonce
      then denied ''Remote runtime WebSocket action is not signed for this session.''
      else if \<not> jsNumTest (\<lambda>n. numSafeInteger n \<and> n = JFin (of_int nextSequence)) (getProp input ''sequence'')
      then denied ''Remote runtime WebSocket action sequence is invalid.''
      else if \<not> hasKey input ''payload''
      then remoteRuntimeValidationFailure VALIDATION_FAILED requestId ''Remote runtime WebSocket action payload is required.''
      else if \<not> isRecord proof
      then denied ''Remote runtime WebSocket action signature is required.''
      else if getProp proof ''algorithm'' \<noteq> JStr ''ed25519''
      then denied ''Remote runtime WebSocket action signature is invalid.''
      else if \<not> list_all (\<lambda>key. isNonEmptyRemoteRuntimeString (getProp proof key))
                [''keyId'', ''nonce'', ''payloadSha256'', ''signature'', ''timestamp'']
      then denied ''Remote runtime WebSocket action signature is invalid.''
      else Inr \<lparr> sa_payload = getProp input ''payload'', sa_keyId = strOf (getProp proof ''keyId''),
                 sa_nonce = strOf (getProp proof ''nonce''),
                 sa_payloadSha256 = strOf (getProp proof ''payloadSha256''),
                 sa_signature = strOf (getProp proof ''signature''),
                 sa_timestamp = strOf (getProp proof ''timestamp''),
                 sa_sequence = nextSequence, sa_sessionNonce = sessionNonce \<rparr>)"

section \<open>Attachment requests\<close>

record registration_request =
  gr_accountId :: string
  gr_allowedDirectories :: "allowed_directory list option"
  gr_attachmentCapabilities :: "attachment_capability list"
  gr_connectorVersion :: string
  gr_directoryId :: string
  gr_directoryPath :: string
  gr_featureCapabilities :: "string list option"
  gr_protocolVersion :: string
  gr_requestId :: string
  gr_runtimeInstallationId :: string
  gr_ticket :: string

text \<open>The directory guard of the host: as the contract's, without the \<open>in\<close> tests (a missing field reads
  as undefined and fails the string test).\<close>

definition isHostAllowedDirectoryValue :: "js \<Rightarrow> bool" where
  "isHostAllowedDirectoryValue v \<longleftrightarrow>
     isRecord v \<and> isNonEmptyRemoteRuntimeString (getProp v ''directoryId'')
   \<and> (getProp v ''displayName'' = JUndef \<or> getProp v ''displayName'' = JNull
      \<or> isNonEmptyRemoteRuntimeString (getProp v ''displayName''))
   \<and> isNonEmptyRemoteRuntimeString (getProp v ''path'')"

definition validateGatewayRuntimeAttachmentRegistrationRequest :: "js \<Rightarrow> failure_envelope + registration_request" where
  "validateGatewayRuntimeAttachmentRegistrationRequest input =
     (let requestId = strOf (getProp input ''requestId'');
          fail = remoteRuntimeValidationFailure VALIDATION_FAILED requestId;
          dirs = getProp input ''allowedDirectories''; caps = getProp input ''attachmentCapabilities'';
          feats = getProp input ''featureCapabilities'' in
      if \<not> isRecord input
      then remoteRuntimeValidationFailure VALIDATION_FAILED ''unknown'' ''Runtime attachment request must be an object.''
      else if getProp input ''protocolVersion'' \<noteq> JStr remoteRuntimeTransportProtocolVersion
      then remoteRuntimeProtocolMismatch (remoteRuntimeStringOrUnknown (getProp input ''requestId''))
        (remoteRuntimeStringOrUnknown (getProp input ''protocolVersion''))
      else if \<not> isNonEmptyRemoteRuntimeString (getProp input ''requestId'')
      then remoteRuntimeValidationFailure VALIDATION_FAILED ''unknown'' ''Runtime attachment requestId is required.''
      else if \<not> isNonEmptyRemoteRuntimeString (getProp input ''accountId'')
      then fail ''Runtime attachment account id is required.''
      else if \<not> isNonEmptyRemoteRuntimeString (getProp input ''directoryId'')
      then fail ''Runtime attachment directory id is required.''
      else if \<not> isNonEmptyRemoteRuntimeString (getProp input ''directoryPath'')
      then fail ''Runtime attachment directory path is required.''
      else if \<not> isNonEmptyRemoteRuntimeString (getProp input ''runtimeInstallationId'')
      then fail ''Runtime installation id is required.''
      else if \<not> isNonEmptyRemoteRuntimeString (getProp input ''connectorVersion'')
      then fail ''Runtime attachment connector version is required.''
      else if dirs \<noteq> JUndef \<and> \<not> arrayEvery isHostAllowedDirectoryValue dirs
      then fail ''Runtime attachment allowed directories are invalid.''
      else if \<not> arrayEvery isRemoteRuntimeAttachmentCapability caps
      then fail ''Runtime attachment capabilities are invalid.''
      else if feats \<noteq> JUndef \<and> \<not> arrayEvery isRemoteRuntimeCapability feats
      then fail ''Runtime attachment feature capabilities are invalid.''
      else if \<not> isNonEmptyRemoteRuntimeString (getProp input ''ticket'')
      then fail ''Runtime attachment ticket is required.''
      else Inr \<lparr> gr_accountId = strOf (getProp input ''accountId''),
                 gr_allowedDirectories =
                   (if dirs = JUndef then None else Some (map allowedDirectory (arrayItems dirs))),
                 gr_attachmentCapabilities = List.map_filter attachmentCapabilityValue (arrayItems caps),
                 gr_connectorVersion = strOf (getProp input ''connectorVersion''),
                 gr_directoryId = strOf (getProp input ''directoryId''),
                 gr_directoryPath = strOf (getProp input ''directoryPath''),
                 gr_featureCapabilities = (if feats = JUndef then None else Some (map strOf (arrayItems feats))),
                 gr_protocolVersion = strOf (getProp input ''protocolVersion''), gr_requestId = requestId,
                 gr_runtimeInstallationId = strOf (getProp input ''runtimeInstallationId''),
                 gr_ticket = strOf (getProp input ''ticket'') \<rparr>)"

record client_request =
  cr_accountId :: string
  cr_deviceTrustLevel :: "trust_level option"
  cr_protocolVersion :: string
  cr_requestId :: string
  cr_runtimeInstallationId :: string
  cr_ticket :: string
  cr_trustedRuntimeClientId :: string

definition validateRemoteRuntimeClientAttachmentRequest :: "js \<Rightarrow> failure_envelope + client_request" where
  "validateRemoteRuntimeClientAttachmentRequest input =
     (let requestId = strOf (getProp input ''requestId'');
          fail = remoteRuntimeValidationFailure VALIDATION_FAILED requestId;
          trust = getProp input ''deviceTrustLevel'' in
      if \<not> isRecord input
      then remoteRuntimeValidationFailure VALIDATION_FAILED ''unknown'' ''Remote runtime attachment request must be an object.''
      else if getProp input ''protocolVersion'' \<noteq> JStr remoteRuntimeTransportProtocolVersion
      then remoteRuntimeProtocolMismatch (remoteRuntimeStringOrUnknown (getProp input ''requestId''))
        (remoteRuntimeStringOrUnknown (getProp input ''protocolVersion''))
      else if \<not> isNonEmptyRemoteRuntimeString (getProp input ''requestId'')
      then remoteRuntimeValidationFailure VALIDATION_FAILED ''unknown'' ''Remote runtime attachment requestId is required.''
      else if \<not> isNonEmptyRemoteRuntimeString (getProp input ''accountId'')
      then fail ''Remote runtime attachment account id is required.''
      else if \<not> isNonEmptyRemoteRuntimeString (getProp input ''runtimeInstallationId'')
      then fail ''Runtime installation id is required.''
      else if \<not> isNonEmptyRemoteRuntimeString (getProp input ''trustedRuntimeClientId'')
      then fail ''Trusted runtime client id is required.''
      else if trust \<noteq> JUndef \<and> \<not> isRemoteRuntimeClientTrustLevel trust
      then fail ''Runtime client trust level is invalid.''
      else if \<not> isNonEmptyRemoteRuntimeString (getProp input ''ticket'')
      then fail ''Remote runtime attachment ticket is required.''
      else Inr \<lparr> cr_accountId = strOf (getProp input ''accountId''), cr_deviceTrustLevel = trustLevelValue trust,
                 cr_protocolVersion = strOf (getProp input ''protocolVersion''), cr_requestId = requestId,
                 cr_runtimeInstallationId = strOf (getProp input ''runtimeInstallationId''),
                 cr_ticket = strOf (getProp input ''ticket''),
                 cr_trustedRuntimeClientId = strOf (getProp input ''trustedRuntimeClientId'') \<rparr>)"

section \<open>Log redaction and realtime resources\<close>

definition redactedRemoteRuntimeTransportLogFieldNames :: "string list" where
  "redactedRemoteRuntimeTransportLogFieldNames =
     [''apiKey'', ''args'', ''authorization'', ''bearer'', ''ciphertext'', ''command'', ''content'', ''cwd'',
      ''encryptedPayload'', ''environment'', ''fileContent'', ''filePath'', ''gatewayRuntimeAttachmentId'',
      ''input'', ''keyId'', ''localProviderToken'', ''clientAttachmentId'', ''nonce'', ''path'', ''payload'',
      ''prompt'', ''providerOutput'', ''shellOutput'', ''signature'', ''ticket'', ''token'',
      ''trustedRuntimeClientId'', ''workspaceRoot'', ''workspace_root'']"

text \<open>The own properties of the result: the assignment to a key \<^verbatim>\<open>__proto__\<close> makes none.\<close>

definition assignable :: "string \<times> 'a \<Rightarrow> bool" where
  "assignable kv \<longleftrightarrow> fst kv \<noteq> ''__proto__''"

fun redactRemoteRuntimeTransportLogValue :: "js \<Rightarrow> js" where
  "redactRemoteRuntimeTransportLogValue (JArr vs) = JArr (map redactRemoteRuntimeTransportLogValue vs)"
| "redactRemoteRuntimeTransportLogValue (JObj fs) =
     JObj (map (\<lambda>kv. (fst kv, if fst kv \<in> set redactedRemoteRuntimeTransportLogFieldNames then JStr ''[REDACTED]''
                               else redactRemoteRuntimeTransportLogValue (snd kv))) (filter assignable fs))"
| "redactRemoteRuntimeTransportLogValue v = v"

definition remoteRuntimeRealtimeResourceKindValues :: "string list" where
  "remoteRuntimeRealtimeResourceKindValues =
     [''runtime'', ''activeChats'', ''chat'', ''chatMessages'', ''goals'', ''aliases'', ''providers'']"

definition isRemoteRuntimeRealtimeResourceRef :: "js \<Rightarrow> bool" where
  "isRemoteRuntimeRealtimeResourceRef v \<longleftrightarrow>
     (if \<not> isRecord v \<or> \<not> isString (getProp v ''kind'')
         \<or> strOf (getProp v ''kind'') \<notin> set remoteRuntimeRealtimeResourceKindValues
         \<or> \<not> isNonEmptyRemoteRuntimeString (getProp v ''runtimeInstallationId'')
      then False
      else if strOf (getProp v ''kind'') = ''chat'' \<or> strOf (getProp v ''kind'') = ''chatMessages''
      then isNonEmptyRemoteRuntimeString (getProp v ''sessionId'')
      else getProp v ''sessionId'' = JUndef)"

end
