(* ===== verification/Gateway_Router.thy ===== *)
theory Gateway_Router
  imports Frames
begin

text \<open>
  The gateway router (\<^verbatim>\<open>createRemoteRuntimeGatewayRouter\<close> in
  \<^verbatim>\<open>packages/remote-runtime-host/src/index.ts\<close>): runtimes attach, clients attach to the latest runtime of an
  installation, operations are routed from clients to runtimes, statuses are recorded, and
  attachments are revoked.  The maps of the closure are the fields of the state record.  What the
  options' callbacks answer (the ticket authority and the id generator) is an argument of the
  operation that calls them; the audit callback is the log \<open>rt_audit\<close>, without the time stamp that is
  added to each event.  A result is \<open>None\<close> where the source dereferences an undefined value.
\<close>

section \<open>State\<close>

datatype audit_action =
    AuditAttached | AuditClientAttached | AuditOperationRouted | AuditAuthorizationDenied
  | AuditClientRevoked | AuditRevoked

record audit_event =
  ae_action :: audit_action
  ae_accountId :: "string option"
  ae_gatewayRuntimeAttachmentId :: "string option"
  ae_clientAttachmentId :: "string option"
  ae_requestId :: string
  ae_runtimeInstallationId :: "string option"
  ae_trustedRuntimeClientId :: "string option"

record router_options =
  ro_maxRemoteRuntimeClientAttachmentsPerRuntime :: nat
  ro_maxOperationsPerRemoteRuntimeClientAttachment :: nat

definition defaultRouterOptions :: router_options where
  "defaultRouterOptions = \<lparr> ro_maxRemoteRuntimeClientAttachmentsPerRuntime = 8,
                            ro_maxOperationsPerRemoteRuntimeClientAttachment = 120 \<rparr>"

record router =
  rt_runtimeAttachments :: "(string, runtime_attachment) js_map"
  rt_latest :: "(string, string) js_map"
  rt_statuses :: "(string, status_frame) js_map"
  rt_clients :: "(string, client_attachment) js_map"
  rt_operationCounts :: "(string, nat) js_map"
  rt_routedIdempotencyKeys :: "string list"
  rt_statusSequencer :: status_sequencer
  rt_audit :: "audit_event list"

definition createRemoteRuntimeGatewayRouter :: router where
  "createRemoteRuntimeGatewayRouter =
     \<lparr> rt_runtimeAttachments = [], rt_latest = [], rt_statuses = [], rt_clients = [], rt_operationCounts = [],
       rt_routedIdempotencyKeys = [], rt_statusSequencer = [], rt_audit = [] \<rparr>"

definition audit :: "audit_event \<Rightarrow> router \<Rightarrow> router" where
  "audit event s = s\<lparr>rt_audit := rt_audit s @ [event]\<rparr>"

section \<open>Helpers\<close>

definition remoteRuntimeGatewayFailure :: "failure_code \<Rightarrow> string \<Rightarrow> string \<Rightarrow> failure_envelope + 'a" where
  "remoteRuntimeGatewayFailure code requestId message = Inl (plainFailure code requestId message)"

definition createRemoteRuntimeGatewayRuntimeUnavailableResult :: "string \<Rightarrow> failure_envelope + 'a" where
  "createRemoteRuntimeGatewayRuntimeUnavailableResult requestId = Inl (createRuntimeUnavailableEnvelope requestId None)"

definition remoteRuntimeGatewayRuntimeAttachmentCanRoute :: "runtime_attachment \<Rightarrow> bool" where
  "remoteRuntimeGatewayRuntimeAttachmentCanRoute runtime \<longleftrightarrow>
     gra_status runtime = AttOnline \<or> gra_status runtime = AttDegraded"

definition remoteRuntimeGatewayOperationClassRequiresIdempotency :: "operation_class \<Rightarrow> bool" where
  "remoteRuntimeGatewayOperationClassRequiresIdempotency c \<longleftrightarrow>
     c = Mutation \<or> c = PrivilegedExecution \<or> c = Credential \<or> c = Shutdown"

definition remoteRuntimeGatewayIdempotencyScope :: "string \<Rightarrow> string \<Rightarrow> string" where
  "remoteRuntimeGatewayIdempotencyScope attachmentId idempotencyKey = attachmentId @ '':'' @ idempotencyKey"

fun attachmentStatusText :: "attachment_status \<Rightarrow> string" where
  "attachmentStatusText AttDegraded = ''degraded''"
| "attachmentStatusText AttOnline = ''online''"
| "attachmentStatusText AttRevoked = ''revoked''"
| "attachmentStatusText AttUnavailable = ''unavailable''"

definition remoteRuntimeClientAttachmentCount :: "string \<Rightarrow> router \<Rightarrow> nat" where
  "remoteRuntimeClientAttachmentCount gatewayRuntimeAttachmentId s =
     length (filter (\<lambda>c. rca_gatewayRuntimeAttachmentId c = gatewayRuntimeAttachmentId \<and> rca_status c = ClientAttached)
       (map snd (rt_clients s)))"

text \<open>The three loops over the client attachments: the matching attached ones become revoked, each with
  an audit event, in map order.\<close>

definition clientRevokedEvent :: "client_attachment \<Rightarrow> audit_event" where
  "clientRevokedEvent c =
     \<lparr> ae_action = AuditClientRevoked, ae_accountId = Some (rca_accountId c),
       ae_gatewayRuntimeAttachmentId = Some (rca_gatewayRuntimeAttachmentId c),
       ae_clientAttachmentId = Some (rca_clientAttachmentId c), ae_requestId = rca_clientAttachmentId c,
       ae_runtimeInstallationId = Some (rca_runtimeInstallationId c),
       ae_trustedRuntimeClientId = Some (rca_trustedRuntimeClientId c) \<rparr>"

definition revokeClient :: "client_attachment \<Rightarrow> client_attachment" where
  "revokeClient c = c\<lparr>rca_status := ClientRevoked\<rparr>"

definition revokedClients :: "(client_attachment \<Rightarrow> bool) \<Rightarrow> router \<Rightarrow> client_attachment list" where
  "revokedClients p s = filter (\<lambda>c. p c \<and> rca_status c = ClientAttached) (map snd (rt_clients s))"

definition revokeClientsWhere :: "(client_attachment \<Rightarrow> bool) \<Rightarrow> router \<Rightarrow> router" where
  "revokeClientsWhere p s =
     s\<lparr> rt_clients := mapValues (\<lambda>c. if p c \<and> rca_status c = ClientAttached then revokeClient c else c) (rt_clients s),
        rt_audit := rt_audit s @ map clientRevokedEvent (revokedClients p s) \<rparr>"

definition revokeExistingRemoteRuntimeClientAttachmentsForTrustedDevice :: "string \<Rightarrow> string \<Rightarrow> router \<Rightarrow> router" where
  "revokeExistingRemoteRuntimeClientAttachmentsForTrustedDevice gatewayRuntimeAttachmentId trustedRuntimeClientId =
     revokeClientsWhere (\<lambda>c. rca_gatewayRuntimeAttachmentId c = gatewayRuntimeAttachmentId
       \<and> rca_trustedRuntimeClientId c = trustedRuntimeClientId)"

section \<open>Attaching\<close>

definition attachmentOf :: "registration_request \<Rightarrow> string \<Rightarrow> runtime_attachment" where
  "attachmentOf request newId =
     \<lparr> gra_accountId = gr_accountId request, gra_allowedDirectories = gr_allowedDirectories request,
       gra_attachmentCapabilities = gr_attachmentCapabilities request,
       gra_connectorVersion = gr_connectorVersion request, gra_deviceTrustLevel = None,
       gra_directoryId = gr_directoryId request, gra_directoryPath = gr_directoryPath request,
       gra_featureCapabilities = (case gr_featureCapabilities request of None \<Rightarrow> [] | Some fs \<Rightarrow> fs),
       gra_gatewayRuntimeAttachmentId = newId, gra_runtimeInstallationId = gr_runtimeInstallationId request,
       gra_status = AttOnline \<rparr>"

definition attachRuntime ::
  "js \<Rightarrow> bool \<Rightarrow> string \<Rightarrow> router \<Rightarrow> (failure_envelope + runtime_attachment) \<times> router" where
  "attachRuntime request authorized newId s =
     (case validateGatewayRuntimeAttachmentRegistrationRequest request of
        Inl e \<Rightarrow> (Inl e, s)
      | Inr r \<Rightarrow>
          if \<not> authorized
          then (remoteRuntimeGatewayFailure AUTHORIZATION_FAILED (gr_requestId r)
            ''Runtime attachment ticket is invalid, expired, already consumed, or does not match this runtime installation.'', s)
          else
            (let attachment = attachmentOf r newId in
             (Inr attachment,
              audit \<lparr> ae_action = AuditAttached, ae_accountId = Some (gra_accountId attachment),
                      ae_gatewayRuntimeAttachmentId = Some newId, ae_clientAttachmentId = None,
                      ae_requestId = gr_requestId r,
                      ae_runtimeInstallationId = Some (gra_runtimeInstallationId attachment),
                      ae_trustedRuntimeClientId = None \<rparr>
                (s\<lparr> rt_runtimeAttachments := mapSet newId attachment (rt_runtimeAttachments s),
                    rt_latest := mapSet (gra_runtimeInstallationId attachment) newId (rt_latest s) \<rparr>))))"

definition clientOf :: "client_request \<Rightarrow> runtime_attachment \<Rightarrow> string \<Rightarrow> client_attachment" where
  "clientOf request runtime newId =
     \<lparr> rca_accountId = cr_accountId request,
       rca_deviceTrustLevel = (case cr_deviceTrustLevel request of None \<Rightarrow> Paired | Some t \<Rightarrow> t),
       rca_gatewayRuntimeAttachmentId = gra_gatewayRuntimeAttachmentId runtime, rca_clientAttachmentId = newId,
       rca_runtimeInstallationId = cr_runtimeInstallationId request, rca_status = ClientAttached,
       rca_trustedRuntimeClientId = cr_trustedRuntimeClientId request \<rparr>"

definition clientAttachedEvent :: "string \<Rightarrow> client_attachment \<Rightarrow> audit_event" where
  "clientAttachedEvent requestId c =
     (clientRevokedEvent c)\<lparr> ae_action := AuditClientAttached, ae_requestId := requestId \<rparr>"

definition attachRemoteRuntimeClient ::
  "router_options \<Rightarrow> js \<Rightarrow> bool \<Rightarrow> string \<Rightarrow> router \<Rightarrow> (failure_envelope + client_attachment) option \<times> router" where
  "attachRemoteRuntimeClient opts request authorized newId s =
     (case validateRemoteRuntimeClientAttachmentRequest request of
        Inl e \<Rightarrow> (Some (Inl e), s)
      | Inr r \<Rightarrow>
          let fail = (\<lambda>code message. Some (remoteRuntimeGatewayFailure code (cr_requestId r) message)) in
          (case mapGet (rt_latest s) (cr_runtimeInstallationId r) of
             None \<Rightarrow> (fail RUNTIME_UNAVAILABLE ''No live runtime attachment is registered for this runtime installation.'', s)
           | Some runtimeId \<Rightarrow>
          if runtimeId = []
          then (fail RUNTIME_UNAVAILABLE ''No live runtime attachment is registered for this runtime installation.'', s)
          else (case mapGet (rt_runtimeAttachments s) runtimeId of
             None \<Rightarrow> (None, s)
           | Some runtime \<Rightarrow>
          if \<not> remoteRuntimeGatewayRuntimeAttachmentCanRoute runtime
          then (fail RUNTIME_UNAVAILABLE
            (''The latest runtime attachment is '' @ attachmentStatusText (gra_status runtime) @ '', not online.''), s)
          else if gra_accountId runtime \<noteq> cr_accountId r
          then (fail AUTHORIZATION_FAILED
            ''Remote runtime attachment account does not match the live runtime attachment account.'', s)
          else if gra_runtimeInstallationId runtime \<noteq> cr_runtimeInstallationId r
          then (fail AUTHORIZATION_FAILED
            ''Remote runtime attachment runtime installation does not match the live runtime attachment.'', s)
          else if \<not> authorized
          then (fail AUTHORIZATION_FAILED
            ''Remote runtime attachment ticket is invalid, expired, already consumed, or does not match this trusted device.'', s)
          else
            (let s' = revokeExistingRemoteRuntimeClientAttachmentsForTrustedDevice
                        (gra_gatewayRuntimeAttachmentId runtime) (cr_trustedRuntimeClientId r) s in
             if remoteRuntimeClientAttachmentCount (gra_gatewayRuntimeAttachmentId runtime) s'
                  \<ge> ro_maxRemoteRuntimeClientAttachmentsPerRuntime opts
             then (fail AUTHORIZATION_FAILED
               ''The live runtime attachment has reached its remote runtime attachment limit.'', s')
             else
               (let attachment = clientOf r runtime newId in
                (Some (Inr attachment),
                 audit (clientAttachedEvent (cr_requestId r) attachment)
                   (s'\<lparr> rt_clients := mapSet newId attachment (rt_clients s') \<rparr>)))))))"

section \<open>Routing\<close>

definition replyTargetJson :: "reply_target option \<Rightarrow> js" where
  "replyTargetJson target = (case target of None \<Rightarrow> JUndef
     | Some (RemoteRuntimeAttachmentTarget i) \<Rightarrow>
         JObj [(''kind'', JStr ''remoteRuntimeAttachment''), (''remoteRuntimeAttachmentId'', JStr i)]
     | Some (GatewayHttpRequestTarget i) \<Rightarrow>
         JObj [(''kind'', JStr ''gatewayHttpRequest''), (''gatewayHttpRequestId'', JStr i)])"

definition runtimeOperationFrameReplyTarget :: "operation_frame \<Rightarrow> reply_target" where
  "runtimeOperationFrameReplyTarget frame = runtimeOperationReplyTargetFromFrameAuthority
     \<lparr> ra_clientAttachmentId = of_clientAttachmentId frame, ra_replyTarget = replyTargetJson (of_replyTarget frame),
       ra_trustedGatewayHttpRequest = of_trustedGatewayHttpRequest frame \<rparr>"

text \<open>The object a validated frame is sent on as; an absent field is undefined.\<close>

definition encryptedPayloadJson :: "encrypted_payload option \<Rightarrow> js" where
  "encryptedPayloadJson payload = (case payload of None \<Rightarrow> JUndef
     | Some ep \<Rightarrow> JObj [(''algorithm'', JStr ''aes-256-gcm''), (''ciphertext'', JStr (ep_ciphertext ep)),
         (''contentType'', JStr ''runtimeWebSocketClientCommand''), (''keyId'', JStr (ep_keyId ep)),
         (''nonce'', JStr (ep_nonce ep))])"

definition operationFrameJson :: "operation_frame \<Rightarrow> js" where
  "operationFrameJson f = JObj
     [(''encryptedPayload'', encryptedPayloadJson (of_encryptedPayload f)),
      (''gatewayRuntimeAttachmentId'', JStr (of_gatewayRuntimeAttachmentId f)),
      (''clientAttachmentId'', JStr (of_clientAttachmentId f)),
      (''operationClass'', JStr (operationClassText (of_operationClass f))),
      (''payload'', case of_payload f of None \<Rightarrow> JUndef | Some c \<Rightarrow> c),
      (''protocolVersion'', JStr (of_protocolVersion f)), (''replyTarget'', replyTargetJson (of_replyTarget f)),
      (''requestId'', JStr (of_requestId f)), (''type'', JStr ''runtime.operation''),
      (''deviceTrustLevel'', case of_deviceTrustLevel f of None \<Rightarrow> JUndef | Some t \<Rightarrow> JStr (trustLevelText t)),
      (''idempotencyKey'', case of_idempotencyKey f of None \<Rightarrow> JUndef | Some k \<Rightarrow> JStr k),
      (''trustedGatewayHttpRequest'', if of_trustedGatewayHttpRequest f then JBool True else JUndef)]"

definition routeEvent :: "audit_action \<Rightarrow> string \<Rightarrow> client_attachment \<Rightarrow> runtime_attachment \<Rightarrow> audit_event" where
  "routeEvent action requestId client runtime =
     \<lparr> ae_action = action, ae_accountId = Some (gra_accountId runtime),
       ae_gatewayRuntimeAttachmentId = Some (gra_gatewayRuntimeAttachmentId runtime),
       ae_clientAttachmentId = Some (rca_clientAttachmentId client), ae_requestId = requestId,
       ae_runtimeInstallationId = Some (gra_runtimeInstallationId runtime),
       ae_trustedRuntimeClientId = Some (rca_trustedRuntimeClientId client) \<rparr>"

definition orElse :: "'a option \<Rightarrow> 'a option \<Rightarrow> 'a option" where
  "orElse a b = (case a of None \<Rightarrow> b | Some x \<Rightarrow> Some x)"

definition denied ::
  "string \<Rightarrow> client_attachment option \<Rightarrow> runtime_attachment option \<Rightarrow> router \<Rightarrow> (failure_envelope + 'a) \<times> router" where
  "denied requestId client runtime s =
     (remoteRuntimeGatewayFailure AUTHORIZATION_FAILED requestId ''Runtime operation is not authorized.'',
      audit \<lparr> ae_action = AuditAuthorizationDenied,
              ae_accountId = orElse (map_option gra_accountId runtime) (map_option rca_accountId client),
              ae_gatewayRuntimeAttachmentId = map_option gra_gatewayRuntimeAttachmentId runtime,
              ae_clientAttachmentId = map_option rca_clientAttachmentId client, ae_requestId = requestId,
              ae_runtimeInstallationId =
                orElse (map_option gra_runtimeInstallationId runtime) (map_option rca_runtimeInstallationId client),
              ae_trustedRuntimeClientId = map_option rca_trustedRuntimeClientId client \<rparr> s)"

text \<open>Left: the failure; right: go on.\<close>

definition authorizeFrameIdempotency :: "operation_frame \<Rightarrow> string \<Rightarrow> router \<Rightarrow> failure_envelope + unit" where
  "authorizeFrameIdempotency frame clientAttachmentId s =
     (case of_idempotencyKey frame of
        None \<Rightarrow> remoteRuntimeGatewayFailure AUTHORIZATION_FAILED (of_requestId frame)
                  ''Runtime operation requires an idempotency key.''
      | Some key \<Rightarrow>
          if key = [] then remoteRuntimeGatewayFailure AUTHORIZATION_FAILED (of_requestId frame)
                             ''Runtime operation requires an idempotency key.''
          else if remoteRuntimeGatewayIdempotencyScope clientAttachmentId key \<in> set (rt_routedIdempotencyKeys s)
          then remoteRuntimeGatewayFailure AUTHORIZATION_FAILED (of_requestId frame)
                 ''Runtime operation idempotency key has already been used.''
          else Inr ())"

definition gatewayAuthorizationContext ::
  "operation_frame \<Rightarrow> client_attachment \<Rightarrow> runtime_attachment \<Rightarrow> authorization_context" where
  "gatewayAuthorizationContext frame client runtime =
     \<lparr> ac_attachmentCapabilities = gra_attachmentCapabilities runtime,
       ac_deviceTrustLevel = rca_deviceTrustLevel client, ac_encrypted = False,
       ac_idempotencyKey = of_idempotencyKey frame, ac_metadataSliceOnly = True,
       ac_operationClass = of_operationClass frame, ac_runtimeAttachmentAuthorized = True \<rparr>"

text \<open>The bookkeeping of a routed operation.\<close>

definition recordRouted :: "operation_frame \<Rightarrow> client_attachment \<Rightarrow> runtime_attachment \<Rightarrow> nat \<Rightarrow> router \<Rightarrow> router" where
  "recordRouted frame client runtime used s =
     audit (routeEvent AuditOperationRouted (of_requestId frame) client runtime)
       (s\<lparr> rt_operationCounts := mapSet (rca_clientAttachmentId client) (used + 1) (rt_operationCounts s),
           rt_routedIdempotencyKeys :=
             (case of_idempotencyKey frame of None \<Rightarrow> rt_routedIdempotencyKeys s
              | Some key \<Rightarrow> if key = [] then rt_routedIdempotencyKeys s
                  else List.insert (remoteRuntimeGatewayIdempotencyScope (rca_clientAttachmentId client) key)
                         (rt_routedIdempotencyKeys s)) \<rparr>)"

definition routeAttached ::
  "router_options \<Rightarrow> operation_frame \<Rightarrow> client_attachment \<Rightarrow> runtime_attachment \<Rightarrow> router
     \<Rightarrow> (failure_envelope + runtime_attachment \<times> operation_frame) \<times> router" where
  "routeAttached opts frame client runtime s =
     (let used = (case mapGet (rt_operationCounts s) (rca_clientAttachmentId client) of None \<Rightarrow> 0 | Some n \<Rightarrow> n) in
      if used \<ge> ro_maxOperationsPerRemoteRuntimeClientAttachment opts
      then denied (of_requestId frame) (Some client) (Some runtime) s
      else (case (if remoteRuntimeGatewayOperationClassRequiresIdempotency (of_operationClass frame)
                  then authorizeFrameIdempotency frame (rca_clientAttachmentId client) s else Inr ()) of
              Inl e \<Rightarrow> (Inl e, s)
            | Inr _ \<Rightarrow>
                let authorizedFrame = frame\<lparr>of_deviceTrustLevel := Some (rca_deviceTrustLevel client)\<rparr> in
                (case (case of_payload authorizedFrame of None \<Rightarrow> Inr ()
                       | Some command \<Rightarrow>
                           (case authorizeRemoteRuntimeCommandWithPolicy command
                                   (gatewayAuthorizationContext authorizedFrame client runtime) of
                              Inl e \<Rightarrow> Inl e | Inr _ \<Rightarrow> Inr ())) of
                   Inl e \<Rightarrow> (Inl e, audit (routeEvent AuditAuthorizationDenied (of_requestId frame) client runtime) s)
                 | Inr _ \<Rightarrow> (Inr (runtime, authorizedFrame), recordRouted authorizedFrame client runtime used s))))"

definition routeRuntimeOperation ::
  "(rat \<Rightarrow> string) \<Rightarrow> router_options \<Rightarrow> js \<Rightarrow> router
     \<Rightarrow> (failure_envelope + runtime_attachment \<times> operation_frame) \<times> router" where
  "routeRuntimeOperation numText opts input s =
     (case validateRuntimeOperationFrame numText input maxRuntimeOperationPayloadBytes of
        Inl e \<Rightarrow> (Inl e, s)
      | Inr frame \<Rightarrow>
          (case runtimeOperationFrameReplyTarget frame of
             GatewayHttpRequestTarget _ \<Rightarrow>
               (remoteRuntimeGatewayFailure AUTHORIZATION_FAILED (of_requestId frame)
                  ''Gateway-trusted HTTP runtime operations cannot be submitted by runtime clients.'', s)
           | RemoteRuntimeAttachmentTarget _ \<Rightarrow>
               (case (mapGet (rt_clients s) (of_clientAttachmentId frame),
                      mapGet (rt_runtimeAttachments s) (of_gatewayRuntimeAttachmentId frame)) of
                  (Some client, Some runtime) \<Rightarrow>
                    if rca_status client \<noteq> ClientAttached
                       \<or> \<not> remoteRuntimeGatewayRuntimeAttachmentCanRoute runtime
                       \<or> rca_gatewayRuntimeAttachmentId client \<noteq> gra_gatewayRuntimeAttachmentId runtime
                    then denied (of_requestId frame) (Some client) (Some runtime) s
                    else if mapGet (rt_latest s) (gra_runtimeInstallationId runtime)
                              \<noteq> Some (gra_gatewayRuntimeAttachmentId runtime)
                    then (createRemoteRuntimeGatewayRuntimeUnavailableResult (of_requestId frame), s)
                    else routeAttached opts frame client runtime s
                | (client, runtime) \<Rightarrow> denied (of_requestId frame) client runtime s)))"

section \<open>Statuses\<close>

definition recordRuntimeStatus :: "js \<Rightarrow> router \<Rightarrow> (failure_envelope + status_frame) \<times> router" where
  "recordRuntimeStatus input s =
     (case validateRuntimeStatusFrame input of
        Inl e \<Rightarrow> (Inl e, s)
      | Inr status \<Rightarrow>
          (case mapGet (rt_runtimeAttachments s) (sf_gatewayRuntimeAttachmentId status) of
             None \<Rightarrow> (createRemoteRuntimeGatewayRuntimeUnavailableResult (sf_requestId status), s)
           | Some runtime \<Rightarrow>
               if gra_status runtime = AttRevoked
               then (createRemoteRuntimeGatewayRuntimeUnavailableResult (sf_requestId status), s)
               else (case sequencerAccept status (rt_statusSequencer s) of
                       (False, seqs) \<Rightarrow>
                         (remoteRuntimeGatewayFailure VALIDATION_FAILED (sf_requestId status)
                            ''Runtime status sequence is out of order.'', s\<lparr>rt_statusSequencer := seqs\<rparr>)
                     | (True, seqs) \<Rightarrow>
                         (Inr status, s\<lparr> rt_statusSequencer := seqs,
                            rt_statuses := mapSet (sf_gatewayRuntimeAttachmentId status) status (rt_statuses s) \<rparr>))))"

definition runtimeAttachmentStatus :: "string \<Rightarrow> string option \<Rightarrow> router \<Rightarrow> failure_envelope + status_frame" where
  "runtimeAttachmentStatus gatewayRuntimeAttachmentId runtimeInstallationId s =
     (case (mapGet (rt_runtimeAttachments s) gatewayRuntimeAttachmentId, mapGet (rt_statuses s) gatewayRuntimeAttachmentId) of
        (Some runtime, Some status) \<Rightarrow>
          if gra_status runtime = AttRevoked
          then createRemoteRuntimeGatewayRuntimeUnavailableResult gatewayRuntimeAttachmentId
          else if runtimeInstallationId \<noteq> None \<and> runtimeInstallationId \<noteq> Some (gra_runtimeInstallationId runtime)
          then remoteRuntimeGatewayFailure AUTHORIZATION_FAILED gatewayRuntimeAttachmentId
                 ''Runtime installation query authority does not match.''
          else Inr status
      | _ \<Rightarrow> createRemoteRuntimeGatewayRuntimeUnavailableResult gatewayRuntimeAttachmentId)"

definition markRuntimeAttachmentStatus ::
  "string \<Rightarrow> attachment_status \<Rightarrow> router \<Rightarrow> runtime_attachment option \<times> router" where
  "markRuntimeAttachmentStatus gatewayRuntimeAttachmentId status s =
     (case mapGet (rt_runtimeAttachments s) gatewayRuntimeAttachmentId of
        None \<Rightarrow> (None, s)
      | Some runtime \<Rightarrow>
          if gra_status runtime = AttRevoked then (None, s)
          else (Some (runtime\<lparr>gra_status := status\<rparr>),
                s\<lparr>rt_runtimeAttachments :=
                    mapSet gatewayRuntimeAttachmentId (runtime\<lparr>gra_status := status\<rparr>) (rt_runtimeAttachments s)\<rparr>))"

definition markRuntimeAttachmentOnline :: "string \<Rightarrow> router \<Rightarrow> runtime_attachment option \<times> router" where
  "markRuntimeAttachmentOnline gatewayRuntimeAttachmentId = markRuntimeAttachmentStatus gatewayRuntimeAttachmentId AttOnline"

definition markRuntimeAttachmentDegraded :: "string \<Rightarrow> router \<Rightarrow> runtime_attachment option \<times> router" where
  "markRuntimeAttachmentDegraded gatewayRuntimeAttachmentId = markRuntimeAttachmentStatus gatewayRuntimeAttachmentId AttDegraded"

definition markRuntimeAttachmentUnavailable :: "string \<Rightarrow> router \<Rightarrow> runtime_attachment option \<times> router" where
  "markRuntimeAttachmentUnavailable gatewayRuntimeAttachmentId = markRuntimeAttachmentStatus gatewayRuntimeAttachmentId AttUnavailable"

definition latestRuntimeAttachmentForInstallation :: "string \<Rightarrow> router \<Rightarrow> runtime_attachment option" where
  "latestRuntimeAttachmentForInstallation runtimeInstallationId s =
     (case mapGet (rt_latest s) runtimeInstallationId of None \<Rightarrow> None
      | Some runtimeId \<Rightarrow> if runtimeId = [] then None else mapGet (rt_runtimeAttachments s) runtimeId)"

section \<open>Revoking\<close>

definition revokeTrustedRuntimeClient :: "string \<Rightarrow> router \<Rightarrow> failure_envelope list \<times> router" where
  "revokeTrustedRuntimeClient trustedRuntimeClientId s =
     (let p = (\<lambda>c. rca_trustedRuntimeClientId c = trustedRuntimeClientId) in
      (map (\<lambda>c. createAttachmentRevokedEnvelope (rca_clientAttachmentId c) None) (revokedClients p s),
       revokeClientsWhere p s))"

definition revokeRemoteRuntimeClientAttachment :: "string \<Rightarrow> router \<Rightarrow> failure_envelope list \<times> router" where
  "revokeRemoteRuntimeClientAttachment clientAttachmentId s =
     (case mapGet (rt_clients s) clientAttachmentId of
        None \<Rightarrow> ([], s)
      | Some c \<Rightarrow>
          if rca_status c \<noteq> ClientAttached then ([], s)
          else ([createAttachmentRevokedEnvelope (rca_clientAttachmentId c) None],
                audit (clientRevokedEvent c)
                  (s\<lparr>rt_clients := mapSet clientAttachmentId (revokeClient c) (rt_clients s)\<rparr>)))"

definition revokeRuntimeAttachmentById :: "string \<Rightarrow> router \<Rightarrow> failure_envelope list \<times> router" where
  "revokeRuntimeAttachmentById gatewayRuntimeAttachmentId s =
     (case mapGet (rt_runtimeAttachments s) gatewayRuntimeAttachmentId of
        None \<Rightarrow> ([], s)
      | Some runtime \<Rightarrow>
          if gra_status runtime = AttRevoked then ([], s)
          else
            (let p = (\<lambda>c. rca_gatewayRuntimeAttachmentId c = gatewayRuntimeAttachmentId);
                 s1 = s\<lparr> rt_runtimeAttachments :=
                           mapSet gatewayRuntimeAttachmentId (runtime\<lparr>gra_status := AttRevoked\<rparr>) (rt_runtimeAttachments s),
                         rt_latest :=
                           (if mapGet (rt_latest s) (gra_runtimeInstallationId runtime) = Some gatewayRuntimeAttachmentId
                            then mapDelete (gra_runtimeInstallationId runtime) (rt_latest s) else rt_latest s),
                         rt_statuses := mapDelete gatewayRuntimeAttachmentId (rt_statuses s) \<rparr>
             in (createAttachmentRevokedEnvelope gatewayRuntimeAttachmentId None
                   # map (\<lambda>c. createAttachmentRevokedEnvelope (rca_clientAttachmentId c) None) (revokedClients p s1),
                 audit \<lparr> ae_action = AuditRevoked, ae_accountId = Some (gra_accountId runtime),
                         ae_gatewayRuntimeAttachmentId = Some gatewayRuntimeAttachmentId,
                         ae_clientAttachmentId = None, ae_requestId = gatewayRuntimeAttachmentId,
                         ae_runtimeInstallationId = Some (gra_runtimeInstallationId runtime),
                         ae_trustedRuntimeClientId = None \<rparr>
                   (revokeClientsWhere p s1))))"

definition revokeRuntimeAttachment :: "string \<Rightarrow> router \<Rightarrow> failure_envelope list \<times> router" where
  "revokeRuntimeAttachment = revokeRuntimeAttachmentById"

text \<open>The loop over the runtime attachments, in map order; revoking one adds and removes no entry.\<close>

fun revokeAttachmentsOf :: "string \<Rightarrow> string list \<Rightarrow> router \<Rightarrow> failure_envelope list \<times> router" where
  "revokeAttachmentsOf runtimeInstallationId [] s = ([], s)"
| "revokeAttachmentsOf runtimeInstallationId (k # ks) s =
     (case mapGet (rt_runtimeAttachments s) k of
        None \<Rightarrow> revokeAttachmentsOf runtimeInstallationId ks s
      | Some runtime \<Rightarrow>
          if gra_runtimeInstallationId runtime = runtimeInstallationId \<and> gra_status runtime \<noteq> AttRevoked
          then (case revokeRuntimeAttachmentById (gra_gatewayRuntimeAttachmentId runtime) s of
                  (envelopes, s') \<Rightarrow>
                    (case revokeAttachmentsOf runtimeInstallationId ks s' of
                       (envelopes', s'') \<Rightarrow> (envelopes @ envelopes', s'')))
          else revokeAttachmentsOf runtimeInstallationId ks s)"

definition revokeRuntimeInstallation :: "string \<Rightarrow> router \<Rightarrow> failure_envelope list \<times> router" where
  "revokeRuntimeInstallation runtimeInstallationId s =
     (case revokeAttachmentsOf runtimeInstallationId (map fst (rt_runtimeAttachments s)) s of
        (envelopes, s') \<Rightarrow> (envelopes, s'\<lparr>rt_latest := mapDelete runtimeInstallationId (rt_latest s')\<rparr>))"

section \<open>The semantic state\<close>

record runtime_semantic =
  rs_accountId :: string
  rs_allowedDirectories :: "allowed_directory list option"
  rs_attachmentCapabilities :: "attachment_capability list"
  rs_connectorVersion :: string
  rs_deviceTrustLevel :: "trust_level option"
  rs_directoryId :: string
  rs_directoryPath :: string
  rs_gatewayRuntimeAttachmentId :: string
  rs_runtimeInstallationId :: string
  rs_status :: attachment_status

record semantic_state =
  ss_clientAttachments :: "client_attachment list"
  ss_runtimeAttachments :: "runtime_semantic list"
  ss_runtimeStatuses :: "status_frame list"

text \<open>\<open>Array.prototype.sort\<close> with a comparison of a text field; \<open>le\<close> is \<open>localeCompare\<close> not positive.\<close>

fun insertBy :: "(string \<Rightarrow> string \<Rightarrow> bool) \<Rightarrow> ('a \<Rightarrow> string) \<Rightarrow> 'a \<Rightarrow> 'a list \<Rightarrow> 'a list" where
  "insertBy le key x [] = [x]"
| "insertBy le key x (y # ys) = (if le (key x) (key y) then x # y # ys else y # insertBy le key x ys)"

definition sortBy :: "(string \<Rightarrow> string \<Rightarrow> bool) \<Rightarrow> ('a \<Rightarrow> string) \<Rightarrow> 'a list \<Rightarrow> 'a list" where
  "sortBy le key xs = foldr (insertBy le key) xs []"

definition runtimeSemantic :: "runtime_attachment \<Rightarrow> runtime_semantic" where
  "runtimeSemantic a =
     \<lparr> rs_accountId = gra_accountId a, rs_allowedDirectories = gra_allowedDirectories a,
       rs_attachmentCapabilities = gra_attachmentCapabilities a, rs_connectorVersion = gra_connectorVersion a,
       rs_deviceTrustLevel = gra_deviceTrustLevel a, rs_directoryId = gra_directoryId a,
       rs_directoryPath = gra_directoryPath a,
       rs_gatewayRuntimeAttachmentId = gra_gatewayRuntimeAttachmentId a,
       rs_runtimeInstallationId = gra_runtimeInstallationId a, rs_status = gra_status a \<rparr>"

definition runtimeSemanticState :: "(string \<Rightarrow> string \<Rightarrow> bool) \<Rightarrow> router \<Rightarrow> semantic_state" where
  "runtimeSemanticState localeLe s =
     \<lparr> ss_clientAttachments = sortBy localeLe rca_clientAttachmentId (map snd (rt_clients s)),
       ss_runtimeAttachments =
         sortBy localeLe rs_gatewayRuntimeAttachmentId (map (\<lambda>kv. runtimeSemantic (snd kv)) (rt_runtimeAttachments s)),
       ss_runtimeStatuses = sortBy localeLe sf_gatewayRuntimeAttachmentId (map snd (rt_statuses s)) \<rparr>"

end
