(* ===== verification/Response_Events.thy ===== *)
theory Response_Events
  imports Prelude
begin

text \<open>
  The normalised response events of \<^verbatim>\<open>packages/runtime-protocol/src/normalized-response-events.ts\<close>: the
  event types with their payloads, the guards, and the lifecycle state machine
  (\<open>validateNormalizedResponseTransition\<close>, \<open>applyNormalizedResponseTransition\<close>).  The tables of the
  lifecycle are plain objects, so reading a key that \<^verbatim>\<open>Object.prototype\<close> has finds the inherited value,
  and assigning a string to the key \<^verbatim>\<open>__proto__\<close> has no effect; \<open>slotOf\<close> and \<open>setSlot\<close> keep both.
\<close>

section \<open>Payloads\<close>

datatype finish_reason = FinishStop | FinishLength | FinishToolCall | FinishCancelled | FinishError | FinishContentFilter | FinishUnknown

datatype failure_class = FailAuth | FailRateLimit | FailTransport | FailTimeout | FailValidation | FailProviderInternal
  | FailToolExecution | FailContentFilter | FailUserCancelled | FailDaemonCancelled | FailResourceExhausted | FailUnknown

datatype cancel_reason = DaemonShutdown | ProviderSessionLost | ResourceExhausted | SupersededByNewRun | UserCancelled

record response_failure =
  rf_class :: failure_class
  rf_debugMessage :: "string option"
  rf_message :: string
  rf_providerCode :: "string option"
  rf_recoverable :: bool
  rf_retryable :: bool

record response_usage =
  ru_cachedInputTokens :: "jnum option"
  ru_inputTokens :: "jnum option"
  ru_outputTokens :: "jnum option"
  ru_providerUnits :: "jnum option"
  ru_reasoningTokens :: "jnum option"
  ru_toolInputTokens :: "jnum option"
  ru_toolOutputTokens :: "jnum option"
  ru_totalTokens :: "jnum option"

record run_started_payload =
  rsp_capabilitySnapshot :: "(string \<times> js) list"
  rsp_inputSummaryRef :: "string option"
  rsp_supersedesRunId :: "string option"

record response_started_payload =
  rst_providerRequestRef :: "string option"
  rst_streaming :: bool
  rst_resumedFromResponseId :: "string option"

record text_delta_payload =
  td_markdown :: bool
  td_deltaIndex :: jnum
  td_durable :: bool
  td_text :: string

record tool_requested_payload =
  tr_inputRef :: "string option"
  tr_server :: "string option"
  tr_tool :: "string option"
  tr_toolKind :: string

record tool_terminal_payload =
  tt_failure :: "response_failure option"
  tt_outputRef :: "string option"

datatype continuation_kind = ContConversation | ContOpaque | ContSession

text \<open>One constructor per member of the union \<open>NormalizedResponseEvent\<close>, with its payload.\<close>

datatype event_body =
    RunStarted run_started_payload
  | ResponseStarted response_started_payload
  | TextDelta text_delta_payload
  | TextCompleted bool string
  | ReasoningDelta jnum string
  | ReasoningCompleted string
  | StructuredCompleted string js
  | ToolRequested tool_requested_payload
  | ToolUpdated "string option" "string option"
  | ToolCompleted tool_terminal_payload
  | ToolFailed tool_terminal_payload
  | ToolCancelled tool_terminal_payload
  | ProviderSessionUpdated string continuation_kind string
  | ProviderUsageReported response_usage
  | ProviderMetadataAttached bool string
  | ResponseCompleted finish_reason
  | ResponseFailed response_failure
  | ResponseCancelled cancel_reason
  | RunCompleted "string list"
  | RunFailed response_failure
  | RunCancelled cancel_reason

record response_event =
  ev_attempt :: jnum
  ev_causationId :: "string option"
  ev_correlationId :: string
  ev_dedupeKey :: string
  ev_eventId :: string
  ev_itemId :: "string option"
  ev_model :: "string option"
  ev_originResponseId :: "string option"
  ev_providerId :: string
  ev_providerMetadataRef :: "string option"
  ev_responseId :: "string option"
  ev_runId :: string
  ev_sequence :: jnum
  ev_sessionId :: string
  ev_timestamp :: string
  ev_body :: event_body

fun eventType :: "event_body \<Rightarrow> string" where
  "eventType (RunStarted _) = ''run.started''"
| "eventType (ResponseStarted _) = ''response.started''"
| "eventType (TextDelta _) = ''response.output_text.delta''"
| "eventType (TextCompleted _ _) = ''response.output_text.completed''"
| "eventType (ReasoningDelta _ _) = ''response.reasoning.delta''"
| "eventType (ReasoningCompleted _) = ''response.reasoning.completed''"
| "eventType (StructuredCompleted _ _) = ''response.output_structured.completed''"
| "eventType (ToolRequested _) = ''tool.requested''"
| "eventType (ToolUpdated _ _) = ''tool.updated''"
| "eventType (ToolCompleted _) = ''tool.completed''"
| "eventType (ToolFailed _) = ''tool.failed''"
| "eventType (ToolCancelled _) = ''tool.cancelled''"
| "eventType (ProviderSessionUpdated _ _ _) = ''provider.session.updated''"
| "eventType (ProviderUsageReported _) = ''provider.usage.reported''"
| "eventType (ProviderMetadataAttached _ _) = ''provider.metadata.attached''"
| "eventType (ResponseCompleted _) = ''response.completed''"
| "eventType (ResponseFailed _) = ''response.failed''"
| "eventType (ResponseCancelled _) = ''response.cancelled''"
| "eventType (RunCompleted _) = ''run.completed''"
| "eventType (RunFailed _) = ''run.failed''"
| "eventType (RunCancelled _) = ''run.cancelled''"

section \<open>Guards\<close>

definition normalizedResponseEventTypeValues :: "string list" where
  "normalizedResponseEventTypeValues =
     [''run.started'', ''response.started'', ''response.output_text.delta'', ''response.output_text.completed'',
      ''response.reasoning.delta'', ''response.reasoning.completed'', ''response.output_structured.completed'',
      ''tool.requested'', ''tool.updated'', ''tool.completed'', ''tool.failed'', ''tool.cancelled'',
      ''provider.session.updated'', ''provider.usage.reported'', ''provider.metadata.attached'',
      ''response.completed'', ''response.failed'', ''response.cancelled'', ''run.completed'', ''run.failed'', ''run.cancelled'']"

definition isNormalizedResponseEventType :: "string \<Rightarrow> bool" where
  "isNormalizedResponseEventType v \<longleftrightarrow> v \<in> set normalizedResponseEventTypeValues"

text \<open>\<^verbatim>\<open>typeof v === "object"\<close> of a value that is not null: records and arrays.\<close>

definition isObjectValue :: "js \<Rightarrow> bool" where
  "isObjectValue v \<longleftrightarrow> isRecord v \<or> isArray v"

definition isNormalizedResponseEvent :: "js \<Rightarrow> bool" where
  "isNormalizedResponseEvent v \<longleftrightarrow>
     isObjectValue v \<and> isString (getProp v ''eventId'') \<and> isString (getProp v ''eventType'')
     \<and> isNormalizedResponseEventType (strOf (getProp v ''eventType''))
     \<and> getProp v ''schemaVersion'' = JInt 1 \<and> isNumber (getProp v ''sequence'')
     \<and> isString (getProp v ''sessionId'') \<and> isString (getProp v ''runId'') \<and> isString (getProp v ''dedupeKey'')
     \<and> isObjectValue (getProp v ''payload'')"

definition shouldIgnoreUnknownNormalizedResponseEvent :: "js \<Rightarrow> bool" where
  "shouldIgnoreUnknownNormalizedResponseEvent v \<longleftrightarrow>
     \<not> isObjectValue v \<or> \<not> isString (getProp v ''eventType'')
     \<or> \<not> isNormalizedResponseEventType (strOf (getProp v ''eventType''))"

section \<open>Lifecycle\<close>

datatype lifecycle_status = LStarted | LCompleted | LFailed | LCancelled

datatype item_status = ItemStarted | ItemCompleted

datatype structured_status = StructCompleted

datatype tool_status = ToolIsRequested | ToolIsCompleted | ToolIsFailed | ToolIsCancelled

record lifecycle_state =
  lc_responses :: "(string, lifecycle_status) js_map option"
  lc_run :: "lifecycle_status option"
  lc_textItems :: "(string, item_status) js_map option"
  lc_reasoningItems :: "(string, item_status) js_map option"
  lc_structuredOutputItems :: "(string, structured_status) js_map option"
  lc_toolItems :: "(string, tool_status) js_map option"

datatype 'v slot = Absent | Inherited | Own 'v

definition orEmptyTable :: "('k, 'v) js_map option \<Rightarrow> ('k, 'v) js_map" where
  "orEmptyTable t = (case t of None \<Rightarrow> [] | Some m \<Rightarrow> m)"

definition slotOf :: "(string, 'v) js_map option \<Rightarrow> string \<Rightarrow> 'v slot" where
  "slotOf t k = (case mapGet (orEmptyTable t) k of Some v \<Rightarrow> Own v
     | None \<Rightarrow> if k \<in> set objectPrototypeKeys then Inherited else Absent)"

text \<open>The key of \<open>table[id!]\<close>: a null id is converted to text.\<close>

definition keyOf :: "string option \<Rightarrow> string" where
  "keyOf k = (case k of None \<Rightarrow> ''null'' | Some k \<Rightarrow> k)"

definition setSlot :: "string option \<Rightarrow> 'v \<Rightarrow> (string, 'v) js_map option \<Rightarrow> (string, 'v) js_map option" where
  "setSlot k v t = (if keyOf k = ''__proto__'' then Some (orEmptyTable t) else Some (mapSet (keyOf k) v (orEmptyTable t)))"

definition present :: "string option \<Rightarrow> bool" where
  "present k \<longleftrightarrow> k \<noteq> None \<and> k \<noteq> Some []"

definition responseIsStarted :: "lifecycle_state \<Rightarrow> response_event \<Rightarrow> bool" where
  "responseIsStarted s e \<longleftrightarrow> present (ev_responseId e) \<and> slotOf (lc_responses s) (keyOf (ev_responseId e)) = Own LStarted"

definition toolIsRequested :: "lifecycle_state \<Rightarrow> response_event \<Rightarrow> bool" where
  "toolIsRequested s e \<longleftrightarrow> present (ev_itemId e) \<and> slotOf (lc_toolItems s) (keyOf (ev_itemId e)) = Own ToolIsRequested"

definition okIf :: "bool \<Rightarrow> string \<Rightarrow> string + unit" where
  "okIf b message = (if b then Inr () else Inl message)"

text \<open>Left: the message of \<open>ok: false\<close>.\<close>

definition validateNormalizedResponseTransition :: "lifecycle_state \<Rightarrow> response_event \<Rightarrow> string + unit" where
  "validateNormalizedResponseTransition s e =
     (let item = keyOf (ev_itemId e); response = keyOf (ev_responseId e) in
      if lc_run s \<in> {Some LCancelled, Some LCompleted, Some LFailed} then Inl (''Run '' @ ev_runId e @ '' is terminal.'')
      else (case ev_body e of
          RunStarted _ \<Rightarrow> okIf (lc_run s = None) (''Run '' @ ev_runId e @ '' already started.'')
        | ResponseStarted _ \<Rightarrow>
            if \<not> present (ev_responseId e) then Inl ''response.started requires responseId.''
            else okIf (slotOf (lc_responses s) response = Absent) (''Response '' @ response @ '' already exists.'')
        | TextDelta p \<Rightarrow>
            if \<not> responseIsStarted s e then Inl ''Text delta requires a started response.''
            else if \<not> present (ev_itemId e) then Inl ''Text delta requires itemId.''
            else if slotOf (lc_textItems s) item = Own ItemCompleted then Inl (''Text item '' @ item @ '' is terminal.'')
            else okIf (td_text p \<noteq> []) ''Text delta must not be empty.''
        | TextCompleted _ _ \<Rightarrow>
            if \<not> responseIsStarted s e then Inl ''Text completion requires a started response.''
            else if \<not> present (ev_itemId e) then Inl ''Text completion requires itemId.''
            else okIf (slotOf (lc_textItems s) item \<noteq> Own ItemCompleted) (''Text item '' @ item @ '' is already completed.'')
        | ReasoningDelta _ text \<Rightarrow>
            if \<not> responseIsStarted s e then Inl ''Reasoning delta requires a started response.''
            else if \<not> present (ev_itemId e) then Inl ''Reasoning delta requires itemId.''
            else if slotOf (lc_reasoningItems s) item = Own ItemCompleted then Inl (''Reasoning item '' @ item @ '' is terminal.'')
            else okIf (text \<noteq> []) ''Reasoning delta must not be empty.''
        | ReasoningCompleted _ \<Rightarrow>
            if \<not> responseIsStarted s e then Inl ''Reasoning completion requires a started response.''
            else if \<not> present (ev_itemId e) then Inl ''Reasoning completion requires itemId.''
            else okIf (slotOf (lc_reasoningItems s) item \<noteq> Own ItemCompleted) (''Reasoning item '' @ item @ '' is already completed.'')
        | StructuredCompleted _ _ \<Rightarrow>
            if \<not> responseIsStarted s e then Inl ''Structured output requires a started response.''
            else if \<not> present (ev_itemId e) then Inl ''Structured output requires itemId.''
            else okIf (slotOf (lc_structuredOutputItems s) item = Absent) (''Structured output item '' @ item @ '' is already completed.'')
        | ToolRequested _ \<Rightarrow>
            if \<not> present (ev_itemId e) then Inl ''Tool request requires itemId.''
            else okIf (slotOf (lc_toolItems s) item = Absent) (''Tool item '' @ item @ '' already exists.'')
        | ToolUpdated _ _ \<Rightarrow> okIf (toolIsRequested s e) ''Tool update requires a requested tool item.''
        | ToolCompleted _ \<Rightarrow> okIf (toolIsRequested s e) ''Tool terminal event requires a requested tool item.''
        | ToolFailed _ \<Rightarrow> okIf (toolIsRequested s e) ''Tool terminal event requires a requested tool item.''
        | ToolCancelled _ \<Rightarrow> okIf (toolIsRequested s e) ''Tool terminal event requires a requested tool item.''
        | ResponseCompleted _ \<Rightarrow> okIf (responseIsStarted s e) ''Response terminal event requires a started response.''
        | ResponseFailed _ \<Rightarrow> okIf (responseIsStarted s e) ''Response terminal event requires a started response.''
        | ResponseCancelled _ \<Rightarrow> okIf (responseIsStarted s e) ''Response terminal event requires a started response.''
        | RunCompleted _ \<Rightarrow> okIf (lc_run s = Some LStarted) ''Run terminal event requires a started run.''
        | RunFailed _ \<Rightarrow> okIf (lc_run s = Some LStarted) ''Run terminal event requires a started run.''
        | RunCancelled _ \<Rightarrow> okIf (lc_run s = Some LStarted) ''Run terminal event requires a started run.''
        | ProviderSessionUpdated _ _ _ \<Rightarrow> Inr ()
        | ProviderUsageReported _ \<Rightarrow> Inr ()
        | ProviderMetadataAttached _ _ \<Rightarrow> Inr ()))"

definition copyOf :: "lifecycle_state \<Rightarrow> lifecycle_state" where
  "copyOf s = s\<lparr>lc_responses := Some (orEmptyTable (lc_responses s)), lc_textItems := Some (orEmptyTable (lc_textItems s)),
     lc_reasoningItems := Some (orEmptyTable (lc_reasoningItems s)),
     lc_structuredOutputItems := Some (orEmptyTable (lc_structuredOutputItems s)), lc_toolItems := Some (orEmptyTable (lc_toolItems s))\<rparr>"

definition applyNormalizedResponseTransition :: "lifecycle_state \<Rightarrow> response_event \<Rightarrow> lifecycle_state" where
  "applyNormalizedResponseTransition s e =
     (let next = copyOf s; r = ev_responseId e; i = ev_itemId e in
      case ev_body e of
        RunStarted _ \<Rightarrow> next\<lparr>lc_run := Some LStarted\<rparr>
      | RunCompleted _ \<Rightarrow> next\<lparr>lc_run := Some LCompleted\<rparr>
      | RunFailed _ \<Rightarrow> next\<lparr>lc_run := Some LFailed\<rparr>
      | RunCancelled _ \<Rightarrow> next\<lparr>lc_run := Some LCancelled\<rparr>
      | ResponseStarted _ \<Rightarrow> next\<lparr>lc_responses := setSlot r LStarted (lc_responses next)\<rparr>
      | ResponseCompleted _ \<Rightarrow> next\<lparr>lc_responses := setSlot r LCompleted (lc_responses next)\<rparr>
      | ResponseFailed _ \<Rightarrow> next\<lparr>lc_responses := setSlot r LFailed (lc_responses next)\<rparr>
      | ResponseCancelled _ \<Rightarrow> next\<lparr>lc_responses := setSlot r LCancelled (lc_responses next)\<rparr>
      | TextDelta _ \<Rightarrow> next\<lparr>lc_textItems := setSlot i ItemStarted (lc_textItems next)\<rparr>
      | TextCompleted _ _ \<Rightarrow> next\<lparr>lc_textItems := setSlot i ItemCompleted (lc_textItems next)\<rparr>
      | ReasoningDelta _ _ \<Rightarrow> next\<lparr>lc_reasoningItems := setSlot i ItemStarted (lc_reasoningItems next)\<rparr>
      | ReasoningCompleted _ \<Rightarrow> next\<lparr>lc_reasoningItems := setSlot i ItemCompleted (lc_reasoningItems next)\<rparr>
      | StructuredCompleted _ _ \<Rightarrow> next\<lparr>lc_structuredOutputItems := setSlot i StructCompleted (lc_structuredOutputItems next)\<rparr>
      | ToolRequested _ \<Rightarrow> next\<lparr>lc_toolItems := setSlot i ToolIsRequested (lc_toolItems next)\<rparr>
      | ToolUpdated _ _ \<Rightarrow> next\<lparr>lc_toolItems := setSlot i ToolIsRequested (lc_toolItems next)\<rparr>
      | ToolCompleted _ \<Rightarrow> next\<lparr>lc_toolItems := setSlot i ToolIsCompleted (lc_toolItems next)\<rparr>
      | ToolFailed _ \<Rightarrow> next\<lparr>lc_toolItems := setSlot i ToolIsFailed (lc_toolItems next)\<rparr>
      | ToolCancelled _ \<Rightarrow> next\<lparr>lc_toolItems := setSlot i ToolIsCancelled (lc_toolItems next)\<rparr>
      | ProviderSessionUpdated _ _ _ \<Rightarrow> next
      | ProviderUsageReported _ \<Rightarrow> next
      | ProviderMetadataAttached _ _ \<Rightarrow> next)"

end
