(* ===== verification/Response_Schema.thy ===== *)
theory Response_Schema
  imports Remote_Protocol
begin

text \<open>
  Response schemas of the remote runtime protocol
  (\<^verbatim>\<open>packages/remote-runtime-contracts/src/remote-runtime-protocol.ts\<close>): for every client method the kind of its
  payload and the message types the server may answer with.
\<close>

record response_schema =
  rsch_method :: string
  rsch_payloadKind :: string
  rsch_serverMessageTypes :: "string list"

definition runtimeWebSocketCommandResponseServerMessageTypes :: "string list" where
  "runtimeWebSocketCommandResponseServerMessageTypes = [''response'', ''error'', ''heartbeat'', ''protocolVersionMismatch'']"

definition remoteRuntimeWebSocketCommandResponseServerMessageTypes :: "string list" where
  "remoteRuntimeWebSocketCommandResponseServerMessageTypes = [''response'', ''error'', ''heartbeat'', ''protocolVersionMismatch'']"

definition runtimeWebSocketResponsePayloadKindByMethod :: "(string \<times> string) list" where
  "runtimeWebSocketResponsePayloadKindByMethod =
     [(''initialize'', ''metadata''), (''ping'', ''acknowledgement''), (''agent.list'', ''metadata''),
      (''provider.list'', ''provider''), (''provider.models'', ''provider''), (''providerModel.command'', ''provider''),
      (''config/bootstrapCodexHome'', ''credential''), (''account.read'', ''account''),
      (''account.login.start'', ''credential''), (''account.login.cancel'', ''credential''),
      (''account.rateLimits.read'', ''account''), (''approval.resolve'', ''acknowledgement''),
      (''providerChild.serverRequest.respond'', ''acknowledgement''), (''skills.list'', ''metadata''),
      (''plugin.list'', ''metadata''), (''mcpServerStatus/list'', ''metadata''), (''session.create'', ''session''),
      (''session.read'', ''session''), (''session.update'', ''session''), (''session.message'', ''session''),
      (''session.close'', ''session''), (''nativeShell.prepare'', ''shell''), (''thread.start'', ''thread''),
      (''thread.read'', ''thread''), (''thread.resume'', ''thread''), (''thread.fork'', ''thread''),
      (''thread.rollback'', ''thread''), (''thread.shellCommand'', ''shell''),
      (''thread.backgroundTerminals.clean'', ''acknowledgement''), (''thread.list'', ''thread''),
      (''turn.start'', ''turn''), (''turn.interrupt'', ''turn''), (''turn.steer'', ''turn''),
      (''shutdown'', ''acknowledgement''), (''subscribe'', ''replay''), (''unsubscribe'', ''acknowledgement''),
      (''resume'', ''replay'')]"

definition remoteRuntimeWebSocketResponsePayloadKindByMethod :: "(string \<times> string) list" where
  "remoteRuntimeWebSocketResponsePayloadKindByMethod =
     [(''directory.list'', ''metadata''), (''directory.select'', ''metadata''), (''session.list'', ''session''),
      (''activeChats.list'', ''session''), (''chat.start'', ''session''), (''session.messages'', ''session''),
      (''goal.get'', ''goal''), (''goal.list'', ''goal''), (''goal.create'', ''goal''), (''goal.edit'', ''goal''),
      (''goal.update'', ''goal''), (''goal.clear'', ''goal''), (''goal.pause'', ''goal''), (''goal.resume'', ''goal''),
      (''alias.list'', ''alias''), (''alias.get'', ''alias''), (''alias.set'', ''alias''), (''alias.delete'', ''alias''),
      (''git.status'', ''git'')]"

definition runtimeWebSocketResponseSchemaForMethod :: "string \<Rightarrow> response_schema option" where
  "runtimeWebSocketResponseSchemaForMethod method =
     map_option (\<lambda>kind. \<lparr> rsch_method = method, rsch_payloadKind = kind,
         rsch_serverMessageTypes = runtimeWebSocketCommandResponseServerMessageTypes \<rparr>)
       (map_of runtimeWebSocketResponsePayloadKindByMethod method)"

definition remoteRuntimeWebSocketResponseSchemaForMethod :: "string \<Rightarrow> response_schema option" where
  "remoteRuntimeWebSocketResponseSchemaForMethod method =
     map_option (\<lambda>kind. \<lparr> rsch_method = method, rsch_payloadKind = kind,
         rsch_serverMessageTypes = remoteRuntimeWebSocketCommandResponseServerMessageTypes \<rparr>)
       (map_of remoteRuntimeWebSocketResponsePayloadKindByMethod method)"

definition remoteRuntimeProtocolResponseSchemaForMethod :: "string \<Rightarrow> response_schema option" where
  "remoteRuntimeProtocolResponseSchemaForMethod method =
     (if isRemoteRuntimeWebSocketClientMethod method then remoteRuntimeWebSocketResponseSchemaForMethod method
      else runtimeWebSocketResponseSchemaForMethod method)"

text \<open>Every client method has a schema, with the same four message types.\<close>

lemma schema_tables_total:
  "list_all (\<lambda>m. map_of runtimeWebSocketResponsePayloadKindByMethod m \<noteq> None) runtimeWebSocketClientMethodValues"
  "list_all (\<lambda>m. map_of remoteRuntimeWebSocketResponsePayloadKindByMethod m \<noteq> None) remoteRuntimeWebSocketClientMethodValues"
  by code_simp+

lemma schema_of_method:
  assumes "isRemoteRuntimeProtocolClientMethod method"
  shows "\<exists>schema. remoteRuntimeProtocolResponseSchemaForMethod method = Some schema \<and> rsch_method schema = method
    \<and> rsch_serverMessageTypes schema = [''response'', ''error'', ''heartbeat'', ''protocolVersionMismatch'']"
  using assms schema_tables_total
  by (auto simp: remoteRuntimeProtocolResponseSchemaForMethod_def runtimeWebSocketResponseSchemaForMethod_def
      remoteRuntimeWebSocketResponseSchemaForMethod_def isRemoteRuntimeProtocolClientMethod_def
      isRuntimeWebSocketClientMethod_def isRemoteRuntimeWebSocketClientMethod_def list_all_iff
      runtimeWebSocketCommandResponseServerMessageTypes_def remoteRuntimeWebSocketCommandResponseServerMessageTypes_def)

end
