(* ===== verification/Runtime_Websocket.thy ===== *)
theory Runtime_Websocket
  imports Frames Response_Events Response_Schema
begin

text \<open>
  \<^verbatim>\<open>packages/runtime-protocol/src/websocket.ts\<close>: the guards of the runtime's own WebSocket protocol, which
  the socket bridge applies to everything it delivers to a client.  The remote runtime contracts have guards of the same
  names (theory \<open>Remote_Protocol\<close>); where a name is taken it has the suffix \<open>_ws\<close> here.  The methods, the
  provider model commands and the response schemas of the two files are the same tables.
\<close>

section \<open>Primitive guards\<close>

definition isSafeNonNegativeInteger :: "js \<Rightarrow> bool" where
  "isSafeNonNegativeInteger v \<longleftrightarrow> jsNumTest (\<lambda>n. numSafeInteger n \<and> numGe n 0) v"

definition isOptionalSafeIntegerOrNull_ws :: "js \<Rightarrow> bool" where
  "isOptionalSafeIntegerOrNull_ws v \<longleftrightarrow> v = JUndef \<or> v = JNull \<or> isSafeNonNegativeInteger v"

definition isOptionalBoolean :: "js \<Rightarrow> bool" where
  "isOptionalBoolean v \<longleftrightarrow> v = JUndef \<or> isBoolean v"

definition isOptionalBooleanOrNull :: "js \<Rightarrow> bool" where
  "isOptionalBooleanOrNull v \<longleftrightarrow> v = JUndef \<or> v = JNull \<or> isBoolean v"

definition isStringArray :: "js \<Rightarrow> bool" where
  "isStringArray v \<longleftrightarrow> arrayEvery isString v"

definition isRecordOfStrings :: "js \<Rightarrow> bool" where
  "isRecordOfStrings v \<longleftrightarrow> isRecord v \<and> (\<forall>entry\<in>set (objectValues v). isString entry)"

definition isOptionalRuntimeExecutionMode :: "js \<Rightarrow> bool" where
  "isOptionalRuntimeExecutionMode v \<longleftrightarrow> v = JUndef \<or> v = JNull \<or> v = JStr ''managed'' \<or> v = JStr ''native''"

definition runtimeSandboxModeValues :: "string list" where
  "runtimeSandboxModeValues = [''read-only'', ''workspace-write'', ''danger-full-access'']"

definition runtimeApprovalPolicyValues :: "string list" where
  "runtimeApprovalPolicyValues = [''untrusted'', ''on-request'', ''never'']"

definition isOptionalSandboxMode :: "js \<Rightarrow> bool" where
  "isOptionalSandboxMode v \<longleftrightarrow> v = JUndef \<or> v = JNull \<or> v \<in> set (map JStr runtimeSandboxModeValues)"

definition isOptionalApprovalPolicy :: "js \<Rightarrow> bool" where
  "isOptionalApprovalPolicy v \<longleftrightarrow> v = JUndef \<or> v = JNull \<or> v \<in> set (map JStr runtimeApprovalPolicyValues)"

section \<open>Client commands\<close>

definition isCreateSessionInput :: "js \<Rightarrow> bool" where
  "isCreateSessionInput p \<longleftrightarrow>
     isNonEmptyString (getProp p ''providerId'') \<and> isNonEmptyString (getProp p ''workspaceRoot'')
     \<and> isOptionalRuntimeExecutionMode (getProp p ''executionMode'') \<and> isOptionalString (getProp p ''model'')
     \<and> isOptionalBoolean (getProp p ''trustModel'') \<and> isOptionalStringOrNull (getProp p ''reasoningEffort'')
     \<and> isOptionalBooleanOrNull (getProp p ''fastMode'') \<and> isOptionalSandboxMode (getProp p ''sandboxMode'')
     \<and> isOptionalApprovalPolicy (getProp p ''approvalPolicy'') \<and> isOptionalStringOrNull (getProp p ''permissionPresetId'')
     \<and> isOptionalString (getProp p ''title'')"

definition isUpdateSessionInput :: "js \<Rightarrow> bool" where
  "isUpdateSessionInput p \<longleftrightarrow>
     isOptionalStringOrNull (getProp p ''title'') \<and> isOptionalString (getProp p ''providerId'')
     \<and> isOptionalStringOrNull (getProp p ''model'') \<and> isOptionalStringOrNull (getProp p ''reasoningEffort'')
     \<and> isOptionalBooleanOrNull (getProp p ''fastMode'') \<and> isOptionalSandboxMode (getProp p ''sandboxMode'')
     \<and> isOptionalApprovalPolicy (getProp p ''approvalPolicy'') \<and> isOptionalStringOrNull (getProp p ''permissionPresetId'')"

definition isSendSessionMessageInput :: "js \<Rightarrow> bool" where
  "isSendSessionMessageInput p \<longleftrightarrow> isString (getProp p ''content'')
     \<and> getProp p ''mode'' \<in> {JUndef, JStr ''default'', JStr ''interrupt''}"

definition isThreadStartPayload :: "js \<Rightarrow> bool" where
  "isThreadStartPayload p \<longleftrightarrow>
     isOptionalStringOrNull (getProp p ''approvalPolicy'') \<and> isOptionalStringOrNull (getProp p ''cwd'')
     \<and> isOptionalStringOrNull (getProp p ''model'') \<and> isOptionalStringOrNull (getProp p ''modelProvider'')
     \<and> isOptionalStringOrNull (getProp p ''sandbox'') \<and> isOptionalStringOrNull (getProp p ''sandboxPolicy'')"

definition isRuntimeWebSocketSubscriptionTarget :: "js \<Rightarrow> bool" where
  "isRuntimeWebSocketSubscriptionTarget p \<longleftrightarrow>
     isRuntimeWebSocketProviderThreadSubscriptionPayload p
     \<or> isOptionalSafeIntegerOrNull_ws (getProp p ''afterSequence'')
       \<and> (isNonEmptyString (getProp p ''sessionId'') \<or> isNonEmptyString (getProp p ''threadId''))"

text \<open>The cases of the method after the common checks, \<open>p\<close> being the payload.\<close>

definition isClientPayload_ws :: "string \<Rightarrow> js \<Rightarrow> bool" where
  "isClientPayload_ws method p \<longleftrightarrow>
     (let id = (\<lambda>k. isNonEmptyString (getProp p k)); opt = (\<lambda>k. isOptionalStringOrNull (getProp p k));
          input = getProp p ''input'' in
      if method = ''initialize'' then isInitializePayload p
      else if method = ''ping'' then isString (getProp p ''message'')
      else if method \<in> {''provider.list'', ''agent.list'', ''account.rateLimits.read'', ''plugin.list'', ''thread.list'', ''shutdown''}
        then objectKeys p = []
      else if method = ''provider.models'' then id ''providerId''
      else if method = ''providerModel.command'' then isProviderModelCommandPayload p
      else if method = ''config/bootstrapCodexHome'' then id ''interbase_home'' \<and> id ''workspace_root''
      else if method = ''account.read'' then opt ''interbaseHome''
      else if method = ''account.login.start'' then id ''type'' \<and> opt ''apiKey'' \<and> opt ''interbaseHome'' \<and> opt ''providerId''
      else if method = ''account.login.cancel'' then opt ''loginId''
      else if method = ''approval.resolve'' then id ''approvalId'' \<and> getProp p ''decision'' \<in> {JStr ''Approved'', JStr ''Rejected''}
      else if method = ''providerChild.serverRequest.respond'' then id ''requestId'' \<and> hasKey p ''response''
      else if method = ''skills.list'' then getProp p ''cwds'' = JUndef \<or> isStringArray (getProp p ''cwds'')
      else if method = ''mcpServerStatus/list'' then
        opt ''cursor'' \<and> getProp p ''detail'' \<in> {JUndef, JNull, JStr ''full'', JStr ''toolsAndAuthOnly''}
        \<and> isOptionalSafeIntegerOrNull_ws (getProp p ''limit'')
      else if method = ''session.create'' then isCreateSessionInput p
      else if method = ''session.read'' \<or> method = ''session.close'' then id ''sessionId''
      else if method = ''session.update'' then id ''sessionId'' \<and> isRecord input \<and> isUpdateSessionInput input
      else if method = ''session.message'' then id ''sessionId'' \<and> isRecord input \<and> isSendSessionMessageInput input
      else if method = ''nativeShell.prepare'' then
        id ''sessionId'' \<and> isRecord input \<and> isOptionalString (getProp input ''initialInput'')
      else if method = ''thread.start'' then isThreadStartPayload p
      else if method = ''thread.read'' then id ''threadId'' \<and> isOptionalBoolean (getProp p ''includeTurns'')
      else if method = ''thread.resume'' then
        id ''threadId'' \<and> isThreadStartPayload p \<and> isOptionalBoolean (getProp p ''persistExtendedHistory'')
      else if method = ''thread.fork'' then
        id ''threadId'' \<and> isThreadStartPayload p \<and> isOptionalBoolean (getProp p ''ephemeral'') \<and> opt ''path''
      else if method = ''thread.rollback'' then id ''threadId'' \<and> isSafeNonNegativeInteger (getProp p ''numTurns'')
      else if method = ''thread.shellCommand'' then
        id ''threadId'' \<and> id ''command'' \<and> isStringArray (getProp p ''args'') \<and> opt ''approvalPolicy'' \<and> opt ''cwd''
        \<and> opt ''sandboxPolicy'' \<and> opt ''sessionId'' \<and> opt ''turnId''
        \<and> (getProp p ''environment'' = JUndef \<or> isRecordOfStrings (getProp p ''environment''))
      else if method = ''thread.backgroundTerminals.clean'' then id ''threadId''
      else if method = ''turn.start'' then
        id ''threadId'' \<and> isStringArray input \<and> isThreadStartPayload p \<and> opt ''effort'' \<and> opt ''personality'' \<and> opt ''summary''
      else if method = ''turn.interrupt'' then id ''threadId'' \<and> id ''turnId''
      else if method = ''turn.steer'' then id ''threadId'' \<and> id ''expectedTurnId'' \<and> isStringArray input
      else if method = ''subscribe'' \<or> method = ''unsubscribe'' then isRuntimeWebSocketSubscriptionTarget p
      else isRuntimeWebSocketSubscriptionTarget p \<and> isOptionalString (getProp p ''clientId''))"

definition isRuntimeWebSocketClientCommand_ws :: "js \<Rightarrow> bool" where
  "isRuntimeWebSocketClientCommand_ws v \<longleftrightarrow>
     isRecord v \<and> isNonEmptyString (getProp v ''requestId'')
     \<and> isString (getProp v ''protocolVersion'') \<and> isRuntimeWebSocketProtocolVersionSupported (strOf (getProp v ''protocolVersion''))
     \<and> isString (getProp v ''method'') \<and> isRuntimeWebSocketClientMethod (strOf (getProp v ''method''))
     \<and> isRecord (getProp v ''payload'')
     \<and> isClientPayload_ws (strOf (getProp v ''method'')) (getProp v ''payload'')"

section \<open>Events and deliveries\<close>

definition runtimeWebSocketEventTypeValues :: "string list" where
  "runtimeWebSocketEventTypeValues =
     [''session.created'', ''session.updated'', ''session.closed'', ''thread.started'', ''thread.updated'', ''thread.resumed'',
      ''thread.forked'', ''thread.rollback'', ''session.message.created'', ''session.run.started'', ''session.output.delta'',
      ''session.output.completed'', ''session.message.completed'', ''session.interbase.notification'', ''session.run.completed'',
      ''session.run.failed'', ''session.item.started'', ''session.recovery'', ''provider.child.serverRequest'',
      ''tool.call.started'', ''tool.call.progress'', ''tool.call.completed'', ''tool.call.failed'', ''approval.requested'',
      ''approval.resolved'', ''shell.command.started'', ''shell.command.output'', ''shell.command.completed'',
      ''shell.command.failed'', ''mcp.server.status.changed'', ''daemon.warning'', ''daemon.error''] @ normalizedResponseEventTypeValues"

definition isRuntimeWebSocketEventType :: "string \<Rightarrow> bool" where
  "isRuntimeWebSocketEventType v \<longleftrightarrow> v \<in> set runtimeWebSocketEventTypeValues"

definition isRuntimeWebSocketEventFrame :: "js \<Rightarrow> bool" where
  "isRuntimeWebSocketEventFrame v \<longleftrightarrow>
     isRecord v \<and> isString (getProp v ''eventType'') \<and> isRuntimeWebSocketEventType (strOf (getProp v ''eventType''))
     \<and> hasKey v ''payload'' \<and> isSafeNonNegativeInteger (getProp v ''sequence'')
     \<and> isNonEmptyString (getProp v ''sessionId'') \<and> isNonEmptyString (getProp v ''timestamp'')"

definition runtimeDeliveryModeValues :: "string list" where
  "runtimeDeliveryModeValues = [''liveOnly'', ''persistOnly'', ''liveAndPersist'']"

definition runtimeDeliveryOriginKindValues :: "string list" where
  "runtimeDeliveryOriginKindValues = [''runtime'', ''provider'', ''providerChild'']"

definition runtimeDeliveryPayloadKindValues :: "string list" where
  "runtimeDeliveryPayloadKindValues = [''notification'', ''serverRequest'', ''bridgeNotification'']"

definition isRuntimeDeliveryFrame :: "js \<Rightarrow> bool" where
  "isRuntimeDeliveryFrame v \<longleftrightarrow>
     isRecord v \<and> isNonEmptyString (getProp v ''id'')
     \<and> isString (getProp v ''mode'') \<and> strOf (getProp v ''mode'') \<in> set runtimeDeliveryModeValues
     \<and> isRecord (getProp v ''origin'') \<and> isString (getProp (getProp v ''origin'') ''kind'')
     \<and> strOf (getProp (getProp v ''origin'') ''kind'') \<in> set runtimeDeliveryOriginKindValues
     \<and> isRecord (getProp v ''payload'') \<and> isString (getProp (getProp v ''payload'') ''kind'')
     \<and> strOf (getProp (getProp v ''payload'') ''kind'') \<in> set runtimeDeliveryPayloadKindValues"

section \<open>Server envelopes\<close>

definition isRuntimeWebSocketServerEnvelope_ws :: "js \<Rightarrow> string option \<Rightarrow> bool" where
  "isRuntimeWebSocketServerEnvelope_ws v expectedRequestId \<longleftrightarrow>
     isRecord v
     \<and> (let type = getProp v ''type'' in
        if type = JStr ''response'' then
          isString (getProp v ''requestId'') \<and> matchesExpectedRequestId (strOf (getProp v ''requestId'')) expectedRequestId
          \<and> isBoolean (getProp v ''success'') \<and> hasKey v ''payload''
        else if type = JStr ''error'' then isErrorEnvelope v expectedRequestId
        else if type = JStr ''event'' then isRuntimeWebSocketEventFrame (getProp v ''event'')
        else if type = JStr ''delivery'' then isRuntimeDeliveryFrame (getProp v ''delivery'')
        else if type = JStr ''serverRequest'' then isString (getProp v ''requestId'') \<and> hasKey v ''payload''
        else if type = JStr ''heartbeat'' then isString (getProp v ''timestamp'')
        else if type = JStr ''protocolVersionMismatch'' then isVersionMismatchEnvelope v
        else False)"

definition isRuntimeWebSocketInitializeResponse_ws :: "js \<Rightarrow> bool" where
  "isRuntimeWebSocketInitializeResponse_ws p \<longleftrightarrow>
     isNonEmptyString (getProp p ''acceptedRuntimeApiVersion'') \<and> arrayEvery isNonEmptyString (getProp p ''capabilities'')
     \<and> isNonEmptyString (getProp p ''protocolVersion'') \<and> isNonEmptyString (getProp p ''serverName'')
     \<and> isNonEmptyString (getProp p ''serverVersion'')"

definition isRuntimeWebSocketPingResponse :: "js \<Rightarrow> bool" where
  "isRuntimeWebSocketPingResponse p \<longleftrightarrow> isNonEmptyString (getProp p ''message'') \<and> isNonEmptyString (getProp p ''timestamp'')"

definition isRuntimeWebSocketReplayPayload :: "js \<Rightarrow> bool" where
  "isRuntimeWebSocketReplayPayload p \<longleftrightarrow>
     arrayEvery isRuntimeWebSocketEventFrame (getProp p ''events'') \<and> isSafeNonNegativeInteger (getProp p ''nextSequence'')
     \<and> isSafeNonNegativeInteger (getProp p ''replayedCount'')"

definition isRuntimeWebSocketReplayUnavailablePayload :: "js \<Rightarrow> bool" where
  "isRuntimeWebSocketReplayUnavailablePayload p \<longleftrightarrow>
     isSafeNonNegativeInteger (getProp p ''afterSequence'') \<and> isNonEmptyString (getProp p ''reason'')
     \<and> getProp p ''recoverable'' = JBool False \<and> isRecord (getProp p ''subscription'')
     \<and> isRuntimeWebSocketSubscriptionTarget (getProp p ''subscription'')"

definition isRuntimeWebSocketReplayResponse :: "js \<Rightarrow> bool" where
  "isRuntimeWebSocketReplayResponse p \<longleftrightarrow> isRuntimeWebSocketReplayPayload p \<or> isRuntimeWebSocketReplayUnavailablePayload p"

definition isRuntimeWebSocketServerEnvelopeForMethod_ws :: "string \<Rightarrow> js \<Rightarrow> string option \<Rightarrow> bool" where
  "isRuntimeWebSocketServerEnvelopeForMethod_ws method v expectedRequestId \<longleftrightarrow>
     (let payload = getProp v ''payload'' in
      if \<not> isRuntimeWebSocketServerEnvelope_ws v expectedRequestId then False
      else if getProp v ''type'' \<noteq> JStr ''response'' then True
      else if \<not> isRecord payload then False
      else if method = ''initialize'' then isRuntimeWebSocketInitializeResponse_ws payload
      else if method = ''ping'' then isRuntimeWebSocketPingResponse payload
      else if method = ''subscribe'' \<or> method = ''resume'' then isRuntimeWebSocketReplayResponse payload
      else True)"

section \<open>Versions and replay\<close>

definition selectRuntimeWebSocketProtocolVersion :: "string list option \<Rightarrow> string \<Rightarrow> string list \<Rightarrow> string option" where
  "selectRuntimeWebSocketProtocolVersion supportedRuntimeApiVersions supportedRuntimeApiVersion supportedVersions =
     (let clientVersions = (case supportedRuntimeApiVersions of Some vs \<Rightarrow> vs | None \<Rightarrow> [supportedRuntimeApiVersion]) in
      find (\<lambda>version. version \<noteq> [] \<and> version \<in> set clientVersions) (rev supportedVersions))"

definition createRuntimeWebSocketProtocolVersionMismatch :: "string option \<Rightarrow> string \<Rightarrow> string list option \<Rightarrow> js" where
  "createRuntimeWebSocketProtocolVersionMismatch expectedVersion receivedVersion supportedVersions =
     (let expected = (case expectedVersion of Some v \<Rightarrow> v | None \<Rightarrow> ''0.1.6'');
          supported = (case supportedVersions of Some vs \<Rightarrow> vs | None \<Rightarrow> supportedRuntimeWebSocketProtocolVersions) in
      JObj [(''expectedVersion'', JStr expected),
        (''message'', JStr (''Runtime WebSocket protocol version mismatch: expected '' @ expected @ '', got '' @ receivedVersion
           @ ''. Supported versions: '' @ join '', '' supported
           @ ''. Update the CLI/runtime or update the client so their supported protocol windows overlap.'')),
        (''receivedVersion'', JStr receivedVersion), (''type'', JStr ''protocolVersionMismatch'')])"

definition runtimeEventEnvelopeToWebSocketEventFrame :: "js \<Rightarrow> js" where
  "runtimeEventEnvelopeToWebSocketEventFrame envelope =
     (let event = getProp envelope ''event'' in
      JObj [(''eventType'', if hasKey event ''eventType'' then getProp event ''eventType'' else getProp event ''type''),
        (''payload'', event), (''sequence'', getProp envelope ''sequence''), (''sessionId'', getProp envelope ''sessionId''),
        (''timestamp'', getProp envelope ''timestamp'')])"

text \<open>The frames of the argument have the type of an event frame, so their sequence is a number.\<close>

definition createRuntimeWebSocketReplayPayload :: "js list \<Rightarrow> js" where
  "createRuntimeWebSocketReplayPayload events =
     JObj [(''events'', JArr events),
       (''nextSequence'', if events = [] then JInt 0
          else (case getProp (last events) ''sequence'' of JNum (JFin n) \<Rightarrow> JNum (JFin (n + 1)) | JNum n \<Rightarrow> JNum n | _ \<Rightarrow> JInt 0)),
       (''replayedCount'', JInt (int (length events)))]"

end
