(* ===== verification/Socket_Bridge.thy ===== *)
theory Socket_Bridge
  imports Gateway_Router Runtime_Websocket
begin

text \<open>
  The socket bridge (\<^verbatim>\<open>createRemoteRuntimeSocketBridge\<close> in \<^verbatim>\<open>packages/remote-runtime-host/src/index.ts\<close>): it joins the
  gateway router to the sockets of the runtimes and clients and queues operations for runtimes that poll.  An
  endpoint is a name; what was handed to its \<open>send\<close> is a log of the state.  Routing and delivery are split at
  the await of \<open>send\<close>, so that anything can run before the send settles; the notifications of a
  revocation are sent one after the other, and \<open>fails\<close> says which endpoints throw.
\<close>

section \<open>Response frames\<close>

record response_frame =
  rsf_envelope :: js
  rsf_gatewayRuntimeAttachmentId :: string
  rsf_clientAttachmentId :: string
  rsf_requestId :: string

definition validateRuntimeResponseFrame :: "js \<Rightarrow> failure_envelope + response_frame" where
  "validateRuntimeResponseFrame input =
     (let requestId = getProp input ''requestId'' in
      if \<not> isRecord input
      then remoteRuntimeValidationFailure VALIDATION_FAILED ''unknown'' ''Runtime response frame must be an object.''
      else if getProp input ''type'' \<noteq> JStr ''runtime.response''
      then remoteRuntimeValidationFailure VALIDATION_FAILED (remoteRuntimeStringOrUnknown requestId) ''Unexpected runtime response frame type.''
      else if getProp input ''protocolVersion'' \<noteq> JStr remoteRuntimeTransportProtocolVersion
      then remoteRuntimeProtocolMismatch (remoteRuntimeStringOrUnknown requestId)
             (remoteRuntimeStringOrUnknown (getProp input ''protocolVersion''))
      else if \<not> isNonEmptyRemoteRuntimeString requestId
      then remoteRuntimeValidationFailure VALIDATION_FAILED ''unknown'' ''Runtime response requestId is required.''
      else if \<not> isNonEmptyRemoteRuntimeString (getProp input ''gatewayRuntimeAttachmentId'')
      then remoteRuntimeValidationFailure VALIDATION_FAILED (strOf requestId) ''Gateway runtime attachment id is required.''
      else if \<not> isNonEmptyRemoteRuntimeString (getProp input ''clientAttachmentId'')
      then remoteRuntimeValidationFailure VALIDATION_FAILED (strOf requestId) ''Runtime client attachment id is required.''
      else if \<not> isRuntimeWebSocketServerEnvelope_ws (getProp input ''envelope'') None
      then remoteRuntimeValidationFailure VALIDATION_FAILED (strOf requestId) ''Runtime response envelope is malformed.''
      else Inr \<lparr> rsf_envelope = getProp input ''envelope'',
                 rsf_gatewayRuntimeAttachmentId = strOf (getProp input ''gatewayRuntimeAttachmentId''),
                 rsf_clientAttachmentId = strOf (getProp input ''clientAttachmentId''), rsf_requestId = strOf requestId \<rparr>)"

section \<open>State\<close>

type_synonym endpoint = string

datatype runtime_message = Operation operation_frame | RuntimeNotice failure_envelope

datatype client_message = Envelope js | ClientNotice failure_envelope

datatype pending_send = SendingOperation runtime_attachment operation_frame | SendingEnvelope string

record bridge_options =
  bo_maxQueuedRuntimeOperationsPerRuntime :: "nat option"
  bo_queueRuntimeOperationsWhenDisconnected :: bool
  bo_router :: router_options

record bridge =
  br_router :: router
  br_runtimeEndpoints :: "(string, endpoint) js_map"
  br_clientEndpoints :: "(string, endpoint) js_map"
  br_queuedRuntimeOperations :: "(string, runtime_message list) js_map"
  br_attachedRuntimeIds :: "string list"
  br_attachedRuntimeInstallationIds :: "(string, string) js_map"
  br_pending :: "pending_send list"
  br_runtimeSent :: "(endpoint \<times> runtime_message) list"
  br_clientSent :: "(endpoint \<times> client_message) list"

definition createRemoteRuntimeSocketBridge :: "router \<Rightarrow> bridge" where
  "createRemoteRuntimeSocketBridge s =
     \<lparr> br_router = s, br_runtimeEndpoints = [], br_clientEndpoints = [], br_queuedRuntimeOperations = [],
       br_attachedRuntimeIds = [], br_attachedRuntimeInstallationIds = [], br_pending = [], br_runtimeSent = [], br_clientSent = [] \<rparr>"

definition maxQueued :: "bridge_options \<Rightarrow> nat" where
  "maxQueued opts = (case bo_maxQueuedRuntimeOperationsPerRuntime opts of Some n \<Rightarrow> n | None \<Rightarrow> 120)"

definition queueOf :: "string \<Rightarrow> bridge \<Rightarrow> runtime_message list" where
  "queueOf i b = (case mapGet (br_queuedRuntimeOperations b) i of Some q \<Rightarrow> q | None \<Rightarrow> [])"

definition sendRuntime :: "endpoint \<Rightarrow> runtime_message \<Rightarrow> bridge \<Rightarrow> bridge" where
  "sendRuntime e m b = b\<lparr>br_runtimeSent := br_runtimeSent b @ [(e, m)]\<rparr>"

definition sendClient :: "endpoint \<Rightarrow> client_message \<Rightarrow> bridge \<Rightarrow> bridge" where
  "sendClient e m b = b\<lparr>br_clientSent := br_clientSent b @ [(e, m)]\<rparr>"

section \<open>Attaching\<close>

definition bridge_attachRuntime ::
  "js \<Rightarrow> bool \<Rightarrow> string \<Rightarrow> endpoint option \<Rightarrow> bridge \<Rightarrow> (failure_envelope + runtime_attachment) \<times> bridge" where
  "bridge_attachRuntime request authorized newId endpoint b =
     (case attachRuntime request authorized newId (br_router b) of
        (Inl e, s) \<Rightarrow> (Inl e, b\<lparr>br_router := s\<rparr>)
      | (Inr a, s) \<Rightarrow>
          (let i = gra_gatewayRuntimeAttachmentId a in
           (Inr a, b\<lparr> br_router := s, br_attachedRuntimeIds := List.insert i (br_attachedRuntimeIds b),
                      br_attachedRuntimeInstallationIds := mapSet i (gra_runtimeInstallationId a) (br_attachedRuntimeInstallationIds b),
                      br_runtimeEndpoints := (case endpoint of None \<Rightarrow> br_runtimeEndpoints b
                         | Some e \<Rightarrow> mapSet i e (br_runtimeEndpoints b)) \<rparr>)))"

definition bridge_attachRemoteRuntimeClient ::
  "bridge_options \<Rightarrow> js \<Rightarrow> bool \<Rightarrow> string \<Rightarrow> endpoint \<Rightarrow> bridge \<Rightarrow> (failure_envelope + client_attachment) option \<times> bridge" where
  "bridge_attachRemoteRuntimeClient opts request authorized newId endpoint b =
     (case attachRemoteRuntimeClient (bo_router opts) request authorized newId (br_router b) of
        (Some (Inr c), s) \<Rightarrow>
          (Some (Inr c), b\<lparr>br_router := s, br_clientEndpoints := mapSet (rca_clientAttachmentId c) endpoint (br_clientEndpoints b)\<rparr>)
      | (r, s) \<Rightarrow> (r, b\<lparr>br_router := s\<rparr>))"

section \<open>Operations to a runtime\<close>

definition queueRuntimeOperationIfAllowed ::
  "bridge_options \<Rightarrow> string \<Rightarrow> operation_frame \<Rightarrow> bridge \<Rightarrow> (failure_envelope + unit) \<times> bridge" where
  "queueRuntimeOperationIfAllowed opts i frame b =
     (if \<not> bo_queueRuntimeOperationsWhenDisconnected opts
      then (Inl (createRuntimeUnavailableEnvelope (of_requestId frame) None), b)
      else if length (queueOf i b) \<ge> maxQueued opts
      then (Inl (createRuntimeUnavailableEnvelope (of_requestId frame) (Some ''Runtime operation queue is full.'')), b)
      else (Inr (), b\<lparr>br_queuedRuntimeOperations := mapSet i (queueOf i b @ [Operation frame]) (br_queuedRuntimeOperations b)\<rparr>))"

definition queueRouted ::
  "bridge_options \<Rightarrow> runtime_attachment \<Rightarrow> operation_frame \<Rightarrow> bridge \<Rightarrow> (failure_envelope + runtime_attachment \<times> operation_frame) \<times> bridge" where
  "queueRouted opts runtime frame b =
     (case queueRuntimeOperationIfAllowed opts (gra_gatewayRuntimeAttachmentId runtime) frame b of
        (Inl e, b') \<Rightarrow> (Inl e, b') | (Inr _, b') \<Rightarrow> (Inr (runtime, frame), b'))"

text \<open>\<open>None\<close>: the answer waits for the send.\<close>

definition bridge_routeRuntimeOperation ::
  "(rat \<Rightarrow> string) \<Rightarrow> bridge_options \<Rightarrow> js \<Rightarrow> bridge
     \<Rightarrow> (failure_envelope + runtime_attachment \<times> operation_frame) option \<times> bridge" where
  "bridge_routeRuntimeOperation numText opts input b =
     (case routeRuntimeOperation numText (bo_router opts) input (br_router b) of
        (Inl e, s) \<Rightarrow> (Some (Inl e), b\<lparr>br_router := s\<rparr>)
      | (Inr (runtime, frame), s) \<Rightarrow>
          (let b' = b\<lparr>br_router := s\<rparr> in
           case mapGet (br_runtimeEndpoints b') (gra_gatewayRuntimeAttachmentId runtime) of
             None \<Rightarrow> (case queueRouted opts runtime frame b' of (r, b'') \<Rightarrow> (Some r, b''))
           | Some e \<Rightarrow> (None, sendRuntime e (Operation frame) (b'\<lparr>br_pending := br_pending b' @ [SendingOperation runtime frame]\<rparr>))))"

definition bridge_pollRuntimeOperations ::
  "string \<Rightarrow> int \<Rightarrow> string option \<Rightarrow> bridge \<Rightarrow> (failure_envelope + runtime_message list) \<times> bridge" where
  "bridge_pollRuntimeOperations i limit installationId b =
     (if i \<notin> set (br_attachedRuntimeIds b) then (Inl (createRuntimeUnavailableEnvelope i None), b)
      else if installationId \<noteq> None \<and> installationId \<noteq> mapGet (br_attachedRuntimeInstallationIds b) i
      then (Inl (createAuthorizationFailureEnvelope i (Some ''Runtime installation does not match attachment.'')), b)
      else
        (let queue = queueOf i b; count = nat (max 0 (min limit (int (length queue)))) in
         (Inr (take count queue),
          b\<lparr>br_queuedRuntimeOperations :=
              (if drop count queue = [] then mapDelete i (br_queuedRuntimeOperations b)
               else mapSet i (drop count queue) (br_queuedRuntimeOperations b))\<rparr>)))"

section \<open>Envelopes to a client\<close>

definition clientUnavailable :: "string \<Rightarrow> failure_envelope + 'a" where
  "clientUnavailable i = Inl (createRuntimeUnavailableEnvelope i (Some ''Remote runtime attachment is unavailable.''))"

definition deliverRuntimeEnvelope :: "string \<Rightarrow> js \<Rightarrow> bridge \<Rightarrow> (failure_envelope + unit) option \<times> bridge" where
  "deliverRuntimeEnvelope i envelope b =
     (if \<not> isRuntimeWebSocketServerEnvelope_ws envelope None
      then (Some (remoteRuntimeGatewayFailure VALIDATION_FAILED i ''Runtime response envelope is malformed.''), b)
      else (case mapGet (br_clientEndpoints b) i of
              None \<Rightarrow> (Some (clientUnavailable i), b)
            | Some e \<Rightarrow> (None, sendClient e (Envelope envelope) (b\<lparr>br_pending := br_pending b @ [SendingEnvelope i]\<rparr>))))"

definition deliverRuntimeResponseFrame :: "js \<Rightarrow> bridge \<Rightarrow> (failure_envelope + unit) option \<times> bridge" where
  "deliverRuntimeResponseFrame input b =
     (case validateRuntimeResponseFrame input of
        Inl e \<Rightarrow> (Some (Inl e), b)
      | Inr frame \<Rightarrow> deliverRuntimeEnvelope (rsf_clientAttachmentId frame) (rsf_envelope frame) b)"

text \<open>A send settles; \<open>threw\<close> says how.\<close>

definition settleSend :: "bridge_options \<Rightarrow> nat \<Rightarrow> bool \<Rightarrow> bridge \<Rightarrow> bridge" where
  "settleSend opts n threw b =
     (if n \<ge> length (br_pending b) then b
      else
        (let b' = b\<lparr>br_pending := take n (br_pending b) @ drop (Suc n) (br_pending b)\<rparr> in
         if \<not> threw then b'
         else (case br_pending b ! n of
                 SendingOperation runtime frame \<Rightarrow>
                   snd (queueRouted opts runtime frame
                     (b'\<lparr>br_runtimeEndpoints := mapDelete (gra_gatewayRuntimeAttachmentId runtime) (br_runtimeEndpoints b')\<rparr>))
               | SendingEnvelope i \<Rightarrow> b'\<lparr>br_clientEndpoints := mapDelete i (br_clientEndpoints b')\<rparr>)))"

section \<open>Revoking\<close>

text \<open>The loops over the envelopes; the flag is false when a send threw and the rest was abandoned.\<close>

fun notifyClients :: "(endpoint \<Rightarrow> bool) \<Rightarrow> failure_envelope list \<Rightarrow> bridge \<Rightarrow> bool \<times> bridge" where
  "notifyClients fails [] b = (True, b)"
| "notifyClients fails (envelope # rest) b =
     (case mapGet (br_clientEndpoints b) (fe_requestId envelope) of
        None \<Rightarrow> notifyClients fails rest b
      | Some e \<Rightarrow>
          (let b' = sendClient e (ClientNotice envelope) b in
           if fails e then (False, b')
           else notifyClients fails rest (b'\<lparr>br_clientEndpoints := mapDelete (fe_requestId envelope) (br_clientEndpoints b')\<rparr>)))"

definition bridge_revokeTrustedRuntimeClient :: "(endpoint \<Rightarrow> bool) \<Rightarrow> string \<Rightarrow> bridge \<Rightarrow> (bool \<times> failure_envelope list) \<times> bridge" where
  "bridge_revokeTrustedRuntimeClient fails device b =
     (case revokeTrustedRuntimeClient device (br_router b) of
        (envelopes, s) \<Rightarrow> (case notifyClients fails envelopes (b\<lparr>br_router := s\<rparr>) of (ok, b') \<Rightarrow> ((ok, envelopes), b')))"

fun dropClients :: "(endpoint \<Rightarrow> bool) \<Rightarrow> bool \<Rightarrow> failure_envelope list \<Rightarrow> bridge \<Rightarrow> bool \<times> bridge" where
  "dropClients fails notify [] b = (True, b)"
| "dropClients fails notify (envelope # rest) b =
     (let remove = (\<lambda>b. b\<lparr>br_clientEndpoints := mapDelete (fe_requestId envelope) (br_clientEndpoints b)\<rparr>) in
      case mapGet (br_clientEndpoints b) (fe_requestId envelope) of
        None \<Rightarrow> dropClients fails notify rest (remove b)
      | Some e \<Rightarrow>
          if \<not> notify then dropClients fails notify rest (remove b)
          else (let b' = sendClient e (ClientNotice envelope) b in
                if fails e then (False, b') else dropClients fails notify rest (remove b')))"

fun notifyRuntime :: "bridge_options \<Rightarrow> (endpoint \<Rightarrow> bool) \<Rightarrow> string \<Rightarrow> endpoint option \<Rightarrow> failure_envelope list \<Rightarrow> bridge \<Rightarrow> bool \<times> bridge" where
  "notifyRuntime opts fails i endpoint [] b = (True, b)"
| "notifyRuntime opts fails i endpoint (envelope # rest) b =
     (case endpoint of
        Some e \<Rightarrow>
          (let b' = sendRuntime e (RuntimeNotice envelope) b in
           if fails e then (False, b') else notifyRuntime opts fails i endpoint rest b')
      | None \<Rightarrow>
          notifyRuntime opts fails i endpoint rest
            (if bo_queueRuntimeOperationsWhenDisconnected opts \<and> length (queueOf i b) < maxQueued opts
             then b\<lparr>br_queuedRuntimeOperations := mapSet i (queueOf i b @ [RuntimeNotice envelope]) (br_queuedRuntimeOperations b)\<rparr>
             else b))"

text \<open>\<open>localeLe\<close> is the order that the semantic state sorts by.\<close>

definition bridge_revokeRemoteRuntimeClientAttachment ::
  "(string \<Rightarrow> string \<Rightarrow> bool) \<Rightarrow> bridge_options \<Rightarrow> (endpoint \<Rightarrow> bool) \<Rightarrow> string \<Rightarrow> bool \<Rightarrow> bool \<Rightarrow> bridge
     \<Rightarrow> (bool \<times> failure_envelope list) \<times> bridge" where
  "bridge_revokeRemoteRuntimeClientAttachment localeLe opts fails i notifyEndpoint notifyRuntimeEndpoint b =
     (let attachment = find (\<lambda>c. rca_clientAttachmentId c = i) (ss_clientAttachments (runtimeSemanticState localeLe (br_router b))) in
      case revokeRemoteRuntimeClientAttachment i (br_router b) of
        (envelopes, s) \<Rightarrow>
          (case dropClients fails notifyEndpoint envelopes (b\<lparr>br_router := s\<rparr>) of
             (False, b1) \<Rightarrow> ((False, envelopes), b1)
           | (True, b1) \<Rightarrow>
               (case attachment of
                  None \<Rightarrow> ((True, envelopes), b1)
                | Some c \<Rightarrow>
                    if \<not> notifyRuntimeEndpoint then ((True, envelopes), b1)
                    else (let k = rca_gatewayRuntimeAttachmentId c in
                          case notifyRuntime opts fails k (mapGet (br_runtimeEndpoints b1) k) envelopes b1 of
                            (ok, b2) \<Rightarrow> ((ok, envelopes), b2)))))"

definition forgetRuntime :: "string \<Rightarrow> bridge \<Rightarrow> bridge" where
  "forgetRuntime i b =
     b\<lparr> br_runtimeEndpoints := mapDelete i (br_runtimeEndpoints b),
        br_attachedRuntimeIds := removeAll i (br_attachedRuntimeIds b),
        br_attachedRuntimeInstallationIds := mapDelete i (br_attachedRuntimeInstallationIds b),
        br_queuedRuntimeOperations := mapDelete i (br_queuedRuntimeOperations b) \<rparr>"

fun notifyRevokedEndpoints :: "(endpoint \<Rightarrow> bool) \<Rightarrow> string \<Rightarrow> bool \<Rightarrow> failure_envelope list \<Rightarrow> bridge \<Rightarrow> bool \<times> bridge" where
  "notifyRevokedEndpoints fails i notify [] b = (True, b)"
| "notifyRevokedEndpoints fails i notify (envelope # rest) b =
     (if fe_requestId envelope = i then
        (case mapGet (br_runtimeEndpoints b) i of
           None \<Rightarrow> notifyRevokedEndpoints fails i notify rest (forgetRuntime i b)
         | Some e \<Rightarrow>
             if \<not> notify then notifyRevokedEndpoints fails i notify rest (forgetRuntime i b)
             else (let b' = sendRuntime e (RuntimeNotice envelope) b in
                   if fails e then (False, b') else notifyRevokedEndpoints fails i notify rest (forgetRuntime i b')))
      else
        (case mapGet (br_clientEndpoints b) (fe_requestId envelope) of
           None \<Rightarrow> notifyRevokedEndpoints fails i notify rest b
         | Some e \<Rightarrow>
             (let b' = sendClient e (ClientNotice envelope) b in
              if fails e then (False, b')
              else notifyRevokedEndpoints fails i notify rest
                     (b'\<lparr>br_clientEndpoints := mapDelete (fe_requestId envelope) (br_clientEndpoints b')\<rparr>))))"

definition bridge_revokeRuntimeAttachment ::
  "(endpoint \<Rightarrow> bool) \<Rightarrow> string \<Rightarrow> bool \<Rightarrow> bridge \<Rightarrow> (bool \<times> failure_envelope list) \<times> bridge" where
  "bridge_revokeRuntimeAttachment fails i notify b =
     (case revokeRuntimeAttachment i (br_router b) of
        (envelopes, s) \<Rightarrow> (case notifyRevokedEndpoints fails i notify envelopes (b\<lparr>br_router := s\<rparr>) of (ok, b') \<Rightarrow> ((ok, envelopes), b')))"

fun notifyEach :: "(endpoint \<Rightarrow> bool) \<Rightarrow> string list \<Rightarrow> failure_envelope list \<Rightarrow> bridge \<Rightarrow> bool \<times> bridge" where
  "notifyEach fails [] envelopes b = (True, b)"
| "notifyEach fails (i # is) envelopes b =
     (case notifyRevokedEndpoints fails i True envelopes b of
        (False, b') \<Rightarrow> (False, b') | (True, b') \<Rightarrow> notifyEach fails is envelopes b')"

definition bridge_revokeRuntimeInstallation :: "(endpoint \<Rightarrow> bool) \<Rightarrow> string \<Rightarrow> bridge \<Rightarrow> (bool \<times> failure_envelope list) \<times> bridge" where
  "bridge_revokeRuntimeInstallation fails installation b =
     (let ids = map fst (filter (\<lambda>(_, inst). inst = installation) (br_attachedRuntimeInstallationIds b)) in
      case revokeRuntimeInstallation installation (br_router b) of
        (envelopes, s) \<Rightarrow> (case notifyEach fails ids envelopes (b\<lparr>br_router := s\<rparr>) of (ok, b') \<Rightarrow> ((ok, envelopes), b')))"

end
