(* ===== verification/Local_Connector.thy ===== *)
theory Local_Connector
  imports Gateway_Router Response_Schema
begin

text \<open>
  The local runtime connector (\<^verbatim>\<open>createLocalRuntimeConnector\<close> in
  \<^verbatim>\<open>packages/remote-runtime-host/src/index.ts\<close>), the end of the tunnel that executes commands.
  \<open>handleRuntimeOperation\<close> is asynchronous: other operations, a disconnect or a revocation can run wherever
  it awaits.  It is split at its awaits into \<open>receiveOperation\<close> (up to decryption), \<open>resumeOperation\<close> (after
  decryption, up to the forwarding of the command) and \<open>settleResponse\<close> (after the answer); the frames
  between the first two are the pending ones of the state.  The audit callback and the commands
  handed to \<open>sendRuntimeCommand\<close> are logs of the state; decryption is an option of the connector.
\<close>

section \<open>State\<close>

record connector_options =
  co_attachmentCapabilities :: "attachment_capability list"
  co_connectorVersion :: string
  co_deviceTrustLevel :: "trust_level option"
  co_featureCapabilities :: "string list option"
  co_gatewayRuntimeAttachmentId :: string
  co_clientAttachmentId :: "string option"
  co_runtimeApiVersion :: string
  co_decryptRuntimeCommand :: "(encrypted_payload \<Rightarrow> operation_frame \<Rightarrow> js option) option"

datatype command_audit_action = CommandDenied | CommandForwarded

record command_audit =
  ca_action :: command_audit_action
  ca_encrypted :: bool
  ca_gatewayRuntimeAttachmentId :: string
  ca_idempotencyKeyPresent :: bool
  ca_method :: string
  ca_clientAttachmentId :: string
  ca_operationClass :: operation_class
  ca_outerRequestId :: string
  ca_reason :: "string option"
  ca_requestId :: string
  ca_subcommand :: "string option"

text \<open>A forwarded command with the frame it came in and whether it was encrypted.\<close>

record forwarded =
  fw_frame :: operation_frame
  fw_command :: js
  fw_encrypted :: bool

record connector =
  cn_connected :: bool
  cn_revoked :: bool
  cn_sequence :: int
  cn_executedIdempotencyKeys :: "string list"
  cn_pending :: "operation_frame list"
  cn_forwarded :: "forwarded list"
  cn_audit :: "command_audit list"

definition createLocalRuntimeConnector :: connector where
  "createLocalRuntimeConnector =
     \<lparr> cn_connected = True, cn_revoked = False, cn_sequence = 0, cn_executedIdempotencyKeys = [],
       cn_pending = [], cn_forwarded = [], cn_audit = [] \<rparr>"

section \<open>Handling an operation\<close>

definition auditCommand ::
  "command_audit_action \<Rightarrow> operation_frame \<Rightarrow> js \<Rightarrow> bool \<Rightarrow> string option \<Rightarrow> connector \<Rightarrow> connector" where
  "auditCommand action frame command encrypted reason s =
     (let method = strOf (getProp command ''method'') in
      s\<lparr>cn_audit := cn_audit s @
         [\<lparr> ca_action = action, ca_encrypted = encrypted,
            ca_gatewayRuntimeAttachmentId = of_gatewayRuntimeAttachmentId frame,
            ca_idempotencyKeyPresent = hasIdempotencyKey (of_idempotencyKey frame), ca_method = method,
            ca_clientAttachmentId = of_clientAttachmentId frame, ca_operationClass = of_operationClass frame,
            ca_outerRequestId = of_requestId frame, ca_reason = reason,
            ca_requestId = strOf (getProp command ''requestId''),
            ca_subcommand = (if method = ''providerModel.command''
              then Some (strOf (getProp (getProp (getProp command ''payload'') ''command'') ''type'')) else None) \<rparr>]\<rparr>)"

definition decryptionFailed :: "operation_frame \<Rightarrow> failure_envelope + 'a" where
  "decryptionFailed frame =
     Inl (createAuthorizationFailureEnvelope (of_requestId frame) (Some ''Encrypted runtime operation cannot be decrypted.''))"

text \<open>Right: the command and whether it was encrypted.\<close>

definition commandForFrame :: "connector_options \<Rightarrow> operation_frame \<Rightarrow> failure_envelope + js \<times> bool" where
  "commandForFrame opts frame =
     (case of_payload frame of
        Some command \<Rightarrow> Inr (command, False)
      | None \<Rightarrow>
          (case (of_encryptedPayload frame, co_decryptRuntimeCommand opts) of
             (Some payload, Some decrypt) \<Rightarrow>
               (case decrypt payload frame of
                  None \<Rightarrow> decryptionFailed frame
                | Some decrypted \<Rightarrow>
                    (case validateRuntimeCommand decrypted (of_requestId frame) of
                       Inl e \<Rightarrow> Inl e | Inr command \<Rightarrow> Inr (command, True)))
           | _ \<Rightarrow> decryptionFailed frame))"

definition receiveOperation ::
  "(rat \<Rightarrow> string) \<Rightarrow> connector_options \<Rightarrow> js \<Rightarrow> nat option \<Rightarrow> connector \<Rightarrow> (failure_envelope + operation_frame) \<times> connector" where
  "receiveOperation numText opts input maxPayloadBytes s =
     (if cn_revoked s then (Inl (createAttachmentRevokedEnvelope ''revoked'' None), s)
      else if \<not> cn_connected s then (Inl (createRuntimeUnavailableEnvelope ''disconnected'' None), s)
      else (case validateRuntimeOperationFrame numText input
                   (case maxPayloadBytes of None \<Rightarrow> maxRuntimeOperationPayloadBytes | Some n \<Rightarrow> n) of
              Inl e \<Rightarrow> (Inl e, s)
            | Inr frame \<Rightarrow>
                if of_gatewayRuntimeAttachmentId frame \<noteq> co_gatewayRuntimeAttachmentId opts
                   \<or> (co_clientAttachmentId opts \<noteq> None \<and> co_clientAttachmentId opts \<noteq> Some (of_clientAttachmentId frame))
                then (Inl (createAuthorizationFailureEnvelope (of_requestId frame) None), s)
                else (Inr frame, s\<lparr>cn_pending := cn_pending s @ [frame]\<rparr>)))"

definition isGatewayHttpFrame :: "operation_frame \<Rightarrow> bool" where
  "isGatewayHttpFrame frame \<longleftrightarrow>
     (case runtimeOperationFrameReplyTarget frame of GatewayHttpRequestTarget _ \<Rightarrow> True | _ \<Rightarrow> False)"

definition connectorAuthorizationContext :: "connector_options \<Rightarrow> operation_frame \<Rightarrow> bool \<Rightarrow> authorization_context" where
  "connectorAuthorizationContext opts frame encrypted =
     \<lparr> ac_attachmentCapabilities = co_attachmentCapabilities opts,
       ac_deviceTrustLevel = (case of_deviceTrustLevel frame of Some t \<Rightarrow> t
         | None \<Rightarrow> (case co_deviceTrustLevel opts of Some t \<Rightarrow> t | None \<Rightarrow> Paired)),
       ac_encrypted = (encrypted \<or> isGatewayHttpFrame frame), ac_idempotencyKey = of_idempotencyKey frame,
       ac_metadataSliceOnly = (\<not> encrypted \<and> \<not> isGatewayHttpFrame frame),
       ac_operationClass = of_operationClass frame, ac_runtimeAttachmentAuthorized = True \<rparr>"

definition keyUsed :: string where
  "keyUsed = ''Runtime operation idempotency key has already been used.''"

definition forwardCommand :: "operation_frame \<Rightarrow> js \<Rightarrow> bool \<Rightarrow> connector \<Rightarrow> (failure_envelope + js) \<times> connector" where
  "forwardCommand frame command encrypted s =
     (let s' = auditCommand CommandForwarded frame command encrypted None s in
      (Inr command, s'\<lparr>cn_forwarded := cn_forwarded s' @
         [\<lparr> fw_frame = frame, fw_command = command, fw_encrypted = encrypted \<rparr>]\<rparr>))"

text \<open>Right: the command that was handed to the runtime.\<close>

definition executeCommand ::
  "connector_options \<Rightarrow> operation_frame \<Rightarrow> js \<Rightarrow> bool \<Rightarrow> connector \<Rightarrow> (failure_envelope + js) \<times> connector" where
  "executeCommand opts frame command encrypted s =
     (case authorizeRemoteRuntimeCommandWithPolicy command (connectorAuthorizationContext opts frame encrypted) of
        Inl e \<Rightarrow> (Inl e, auditCommand CommandDenied frame command encrypted (Some (fe_message e)) s)
      | Inr policy \<Rightarrow>
          if pt_idempotencyRequired policy then
            (let scope = remoteRuntimeGatewayIdempotencyScope (of_clientAttachmentId frame)
                           (case of_idempotencyKey frame of Some key \<Rightarrow> key | None \<Rightarrow> []) in
             if scope \<in> set (cn_executedIdempotencyKeys s)
             then (Inl (createAuthorizationFailureEnvelope (of_requestId frame) (Some keyUsed)),
                   auditCommand CommandDenied frame command encrypted (Some keyUsed) s)
             else forwardCommand frame command encrypted
                    (s\<lparr>cn_executedIdempotencyKeys := List.insert scope (cn_executedIdempotencyKeys s)\<rparr>))
          else forwardCommand frame command encrypted s)"

text \<open>\<open>None\<close>: there is no such pending operation.\<close>

definition resumeOperation ::
  "connector_options \<Rightarrow> nat \<Rightarrow> connector \<Rightarrow> (failure_envelope + js) option \<times> connector" where
  "resumeOperation opts n s =
     (if n \<ge> length (cn_pending s) then (None, s)
      else
        (let frame = cn_pending s ! n; s' = s\<lparr>cn_pending := take n (cn_pending s) @ drop (Suc n) (cn_pending s)\<rparr> in
         (case commandForFrame opts frame of
            Inl e \<Rightarrow> (Some (Inl e), s')
          | Inr (command, encrypted) \<Rightarrow>
              (case executeCommand opts frame command encrypted s' of (r, s'') \<Rightarrow> (Some r, s'')))))"

definition settleResponse :: "js \<Rightarrow> js \<Rightarrow> failure_envelope + js" where
  "settleResponse command response =
     (let method = strOf (getProp command ''method''); requestId = strOf (getProp command ''requestId'') in
      if \<not> isRemoteRuntimeProtocolServerEnvelopeForMethod method response (Some requestId)
      then remoteRuntimeGatewayFailure VALIDATION_FAILED requestId ''Runtime response envelope is malformed.''
      else (case remoteRuntimeProtocolResponseSchemaForMethod method of
              Some schema \<Rightarrow>
                if strOf (getProp response ''type'') \<in> set (rsch_serverMessageTypes schema) then Inr response
                else remoteRuntimeGatewayFailure VALIDATION_FAILED requestId
                       ''Runtime response envelope is not allowed for command method.''
            | None \<Rightarrow> remoteRuntimeGatewayFailure VALIDATION_FAILED requestId
                       ''Runtime response envelope is not allowed for command method.''))"

text \<open>The whole handler, when nothing else runs while it awaits; \<open>send\<close> is \<open>sendRuntimeCommand\<close>.\<close>

definition handleRuntimeOperation ::
  "(rat \<Rightarrow> string) \<Rightarrow> connector_options \<Rightarrow> (js \<Rightarrow> js) \<Rightarrow> js \<Rightarrow> nat option \<Rightarrow> connector \<Rightarrow> (failure_envelope + js) \<times> connector" where
  "handleRuntimeOperation numText opts send input maxPayloadBytes s =
     (case receiveOperation numText opts input maxPayloadBytes s of
        (Inl e, s1) \<Rightarrow> (Inl e, s1)
      | (Inr frame, s1) \<Rightarrow>
          (case resumeOperation opts (length (cn_pending s)) s1 of
             (Some (Inr command), s2) \<Rightarrow> (settleResponse command (send command), s2)
           | (Some (Inl e), s2) \<Rightarrow> (Inl e, s2)
           | (None, s2) \<Rightarrow> (decryptionFailed frame, s2)))"

section \<open>Connection state\<close>

definition disconnectGateway :: "connector \<Rightarrow> connector" where
  "disconnectGateway s = s\<lparr>cn_connected := False\<rparr>"

definition reconnectGateway :: "connector \<Rightarrow> connector" where
  "reconnectGateway s = (if \<not> cn_revoked s then s\<lparr>cn_connected := True\<rparr> else s)"

definition revokeConnector :: "connector_options \<Rightarrow> connector \<Rightarrow> failure_envelope \<times> connector" where
  "revokeConnector opts s =
     (createAttachmentRevokedEnvelope (co_gatewayRuntimeAttachmentId opts) None, s\<lparr>cn_revoked := True, cn_connected := False\<rparr>)"

definition connectorStatus :: "connector_options \<Rightarrow> connector \<Rightarrow> status_frame \<times> connector" where
  "connectorStatus opts s =
     (let s' = s\<lparr>cn_sequence := cn_sequence s + 1\<rparr> in
      (\<lparr> sf_attachmentCapabilities = co_attachmentCapabilities opts, sf_connectorVersion = co_connectorVersion opts,
         sf_featureCapabilities = (case co_featureCapabilities opts of None \<Rightarrow> [] | Some fs \<Rightarrow> fs),
         sf_gatewayRuntimeAttachmentId = co_gatewayRuntimeAttachmentId opts, sf_replay = ReplayUnsupported,
         sf_requestId = ''status_'' @ intText (cn_sequence s'), sf_runtimeApiVersion = co_runtimeApiVersion opts,
         sf_sequence = cn_sequence s',
         sf_status = (if cn_revoked s' then FrameRevoked else if cn_connected s' then FrameOnline else FrameUnavailable) \<rparr>, s'))"

end
