(* ===== verification/Router_Invariant.thy ===== *)
theory Router_Invariant
  imports Gateway_Router
begin

text \<open>
  The gateway router as a state machine: its operations as data, one step, the reachable states, and
  the invariant that relates its maps.
\<close>

section \<open>Steps\<close>

datatype router_op =
    AttachRuntime js bool string
  | AttachClient js bool string
  | RouteOperation js
  | RecordStatus js
  | MarkOnline string
  | MarkDegraded string
  | MarkUnavailable string
  | RevokeTrustedClient string
  | RevokeClientAttachment string
  | RevokeRuntimeAttachment string
  | RevokeInstallation string

fun routerStep :: "(rat \<Rightarrow> string) \<Rightarrow> router_options \<Rightarrow> router_op \<Rightarrow> router \<Rightarrow> router" where
  "routerStep numText opts (AttachRuntime request authorized newId) s = snd (attachRuntime request authorized newId s)"
| "routerStep numText opts (AttachClient request authorized newId) s =
     snd (attachRemoteRuntimeClient opts request authorized newId s)"
| "routerStep numText opts (RouteOperation input) s = snd (routeRuntimeOperation numText opts input s)"
| "routerStep numText opts (RecordStatus input) s = snd (recordRuntimeStatus input s)"
| "routerStep numText opts (MarkOnline i) s = snd (markRuntimeAttachmentOnline i s)"
| "routerStep numText opts (MarkDegraded i) s = snd (markRuntimeAttachmentDegraded i s)"
| "routerStep numText opts (MarkUnavailable i) s = snd (markRuntimeAttachmentUnavailable i s)"
| "routerStep numText opts (RevokeTrustedClient d) s = snd (revokeTrustedRuntimeClient d s)"
| "routerStep numText opts (RevokeClientAttachment i) s = snd (revokeRemoteRuntimeClientAttachment i s)"
| "routerStep numText opts (RevokeRuntimeAttachment i) s = snd (revokeRuntimeAttachment i s)"
| "routerStep numText opts (RevokeInstallation i) s = snd (revokeRuntimeInstallation i s)"

text \<open>The id generator returns a non-empty id it has not returned before.\<close>

fun freshId :: "router_op \<Rightarrow> router \<Rightarrow> bool" where
  "freshId (AttachRuntime request authorized newId) s \<longleftrightarrow>
     newId \<noteq> [] \<and> newId \<notin> fst ` set (rt_runtimeAttachments s)"
| "freshId (AttachClient request authorized newId) s \<longleftrightarrow> newId \<noteq> [] \<and> newId \<notin> fst ` set (rt_clients s)"
| "freshId _ s \<longleftrightarrow> True"

inductive router_reachable :: "(rat \<Rightarrow> string) \<Rightarrow> router_options \<Rightarrow> router \<Rightarrow> bool"
  for numText opts where
  reach_init: "router_reachable numText opts createRemoteRuntimeGatewayRouter"
| reach_step: "router_reachable numText opts s \<Longrightarrow> freshId op s \<Longrightarrow> router_reachable numText opts (routerStep numText opts op s)"

section \<open>The invariant\<close>

definition runtimes_wf :: "router \<Rightarrow> bool" where
  "runtimes_wf s \<longleftrightarrow> distinct (map fst (rt_runtimeAttachments s))
     \<and> (\<forall>k a. mapGet (rt_runtimeAttachments s) k = Some a \<longrightarrow> k \<noteq> [] \<and> gra_gatewayRuntimeAttachmentId a = k)"

definition latest_wf :: "router \<Rightarrow> bool" where
  "latest_wf s \<longleftrightarrow> (\<forall>i k. mapGet (rt_latest s) i = Some k \<longrightarrow>
     (\<exists>a. mapGet (rt_runtimeAttachments s) k = Some a \<and> gra_runtimeInstallationId a = i \<and> gra_status a \<noteq> AttRevoked))"

definition clients_wf :: "router \<Rightarrow> bool" where
  "clients_wf s \<longleftrightarrow> distinct (map fst (rt_clients s))
     \<and> (\<forall>k c. mapGet (rt_clients s) k = Some c \<longrightarrow> rca_clientAttachmentId c = k
          \<and> (\<exists>a. mapGet (rt_runtimeAttachments s) (rca_gatewayRuntimeAttachmentId c) = Some a
               \<and> gra_accountId a = rca_accountId c \<and> gra_runtimeInstallationId a = rca_runtimeInstallationId c
               \<and> (rca_status c = ClientAttached \<longrightarrow> gra_status a \<noteq> AttRevoked)))"

text \<open>At most one attached client per runtime and device, and at most the allowed number per runtime.\<close>

definition attached :: "router \<Rightarrow> string \<Rightarrow> client_attachment \<Rightarrow> bool" where
  "attached s k c \<longleftrightarrow> mapGet (rt_clients s) k = Some c \<and> rca_status c = ClientAttached"

definition one_per_device :: "router \<Rightarrow> bool" where
  "one_per_device s \<longleftrightarrow> (\<forall>k c k' c'. attached s k c \<longrightarrow> attached s k' c'
     \<longrightarrow> rca_gatewayRuntimeAttachmentId c = rca_gatewayRuntimeAttachmentId c'
     \<longrightarrow> rca_trustedRuntimeClientId c = rca_trustedRuntimeClientId c' \<longrightarrow> k = k')"

definition counts_bounded :: "router_options \<Rightarrow> router \<Rightarrow> bool" where
  "counts_bounded opts s \<longleftrightarrow>
     (\<forall>i. remoteRuntimeClientAttachmentCount i s \<le> ro_maxRemoteRuntimeClientAttachmentsPerRuntime opts)
   \<and> (\<forall>k n. mapGet (rt_operationCounts s) k = Some n \<longrightarrow> n \<le> ro_maxOperationsPerRemoteRuntimeClientAttachment opts)"

definition statuses_wf :: "router \<Rightarrow> bool" where
  "statuses_wf s \<longleftrightarrow> (\<forall>k f. mapGet (rt_statuses s) k = Some f \<longrightarrow> sf_gatewayRuntimeAttachmentId f = k
     \<and> sf_sequence f = lastSequence (rt_statusSequencer s) k
     \<and> (\<exists>a. mapGet (rt_runtimeAttachments s) k = Some a \<and> gra_status a \<noteq> AttRevoked))"

text \<open>The audit log accounts for every routed operation.\<close>

definition routedEvents :: "string \<Rightarrow> audit_event list \<Rightarrow> nat" where
  "routedEvents k events =
     length (filter (\<lambda>e. ae_action e = AuditOperationRouted \<and> ae_clientAttachmentId e = Some k) events)"

definition routed_audited :: "router \<Rightarrow> bool" where
  "routed_audited s \<longleftrightarrow> (\<forall>k. routedEvents k (rt_audit s) =
     (case mapGet (rt_operationCounts s) k of None \<Rightarrow> 0 | Some n \<Rightarrow> n))"

definition router_inv :: "router_options \<Rightarrow> router \<Rightarrow> bool" where
  "router_inv opts s \<longleftrightarrow> runtimes_wf s \<and> latest_wf s \<and> clients_wf s \<and> one_per_device s
     \<and> counts_bounded opts s \<and> statuses_wf s \<and> routed_audited s"

lemmas router_wf_defs = runtimes_wf_def latest_wf_def clients_wf_def one_per_device_def counts_bounded_def
  statuses_wf_def routed_audited_def

section \<open>Preservation\<close>

lemma routedEvents_append [simp]: "routedEvents k (xs @ ys) = routedEvents k xs + routedEvents k ys"
  by (simp add: routedEvents_def)

lemma routedEvents_other [simp]:
  "ae_action e \<noteq> AuditOperationRouted \<Longrightarrow> routedEvents k [e] = 0"
  "routedEvents k (map clientRevokedEvent cs) = 0"
  by (simp_all add: routedEvents_def clientRevokedEvent_def filter_map comp_def)

declare map_of_eq_Some_iff [simp del] Some_eq_map_of_iff [simp del]

lemma audit_sel [simp]:
  "rt_runtimeAttachments (audit e s) = rt_runtimeAttachments s" "rt_latest (audit e s) = rt_latest s"
  "rt_statuses (audit e s) = rt_statuses s" "rt_clients (audit e s) = rt_clients s"
  "rt_operationCounts (audit e s) = rt_operationCounts s"
  "rt_routedIdempotencyKeys (audit e s) = rt_routedIdempotencyKeys s"
  "rt_statusSequencer (audit e s) = rt_statusSequencer s" "rt_audit (audit e s) = rt_audit s @ [e]"
  by (simp_all add: audit_def)

lemma inv_audit: "ae_action e \<noteq> AuditOperationRouted \<Longrightarrow> router_inv opts (audit e s) = router_inv opts s"
  by (simp add: router_inv_def router_wf_defs attached_def remoteRuntimeClientAttachmentCount_def)

text \<open>Revoking clients.\<close>

lemma revokeClient_sel [simp]:
  "rca_accountId (revokeClient c) = rca_accountId c" "rca_deviceTrustLevel (revokeClient c) = rca_deviceTrustLevel c"
  "rca_gatewayRuntimeAttachmentId (revokeClient c) = rca_gatewayRuntimeAttachmentId c"
  "rca_clientAttachmentId (revokeClient c) = rca_clientAttachmentId c"
  "rca_runtimeInstallationId (revokeClient c) = rca_runtimeInstallationId c"
  "rca_status (revokeClient c) = ClientRevoked"
  "rca_trustedRuntimeClientId (revokeClient c) = rca_trustedRuntimeClientId c"
  by (simp_all add: revokeClient_def)

lemma revokeClientsWhere_sel [simp]:
  "rt_runtimeAttachments (revokeClientsWhere p s) = rt_runtimeAttachments s"
  "rt_latest (revokeClientsWhere p s) = rt_latest s" "rt_statuses (revokeClientsWhere p s) = rt_statuses s"
  "rt_operationCounts (revokeClientsWhere p s) = rt_operationCounts s"
  "rt_routedIdempotencyKeys (revokeClientsWhere p s) = rt_routedIdempotencyKeys s"
  "rt_statusSequencer (revokeClientsWhere p s) = rt_statusSequencer s"
  "map fst (rt_clients (revokeClientsWhere p s)) = map fst (rt_clients s)"
  "mapGet (rt_clients (revokeClientsWhere p s)) k =
     map_option (\<lambda>c. if p c \<and> rca_status c = ClientAttached then revokeClient c else c) (mapGet (rt_clients s) k)"
  "routedEvents k (rt_audit (revokeClientsWhere p s)) = routedEvents k (rt_audit s)"
  by (simp_all add: revokeClientsWhere_def)

lemma attached_revokeClientsWhere: "attached (revokeClientsWhere p s) k c \<longleftrightarrow> attached s k c \<and> \<not> p c"
proof -
  have "revokeClient c \<noteq> c" if "rca_status c = ClientAttached" for c
    using that revokeClient_sel(6) [of c] by (metis client_status.distinct(1))
  then show ?thesis by (auto simp: attached_def) metis
qed

lemma count_revokeClientsWhere:
  "remoteRuntimeClientAttachmentCount i (revokeClientsWhere p s) \<le> remoteRuntimeClientAttachmentCount i s"
proof -
  let ?f = "\<lambda>c. if p c \<and> rca_status c = ClientAttached then revokeClient c else c"
  have "length (filter P (map ?f cs)) \<le> length (filter P cs)"
    if P: "P = (\<lambda>c. rca_gatewayRuntimeAttachmentId c = i \<and> rca_status c = ClientAttached)" for P cs
    by (induction cs) (auto simp: P)
  from this [OF refl, of "map snd (rt_clients s)"] show ?thesis
    by (simp add: remoteRuntimeClientAttachmentCount_def revokeClientsWhere_def snd_mapValues del: map_map)
qed

lemma inv_revokeClientsWhere:
  assumes "router_inv opts s"
  shows "router_inv opts (revokeClientsWhere p s)"
proof -
  have "clients_wf (revokeClientsWhere p s)"
    using assms unfolding router_inv_def clients_wf_def by fastforce
  moreover have "one_per_device (revokeClientsWhere p s)"
    using assms unfolding router_inv_def one_per_device_def attached_revokeClientsWhere by blast
  moreover have "counts_bounded opts (revokeClientsWhere p s)"
    using assms le_trans [OF count_revokeClientsWhere [of _ p s]]
    unfolding router_inv_def counts_bounded_def by simp
  ultimately show ?thesis using assms unfolding router_inv_def
    by (simp add: runtimes_wf_def latest_wf_def statuses_wf_def routed_audited_def)
qed

lemma mapSet_as_mapValues:
  assumes "distinct (map fst m)" and "mapGet m k = Some v" and "\<And>k' v'. mapGet m k' = Some v' \<Longrightarrow> q v' \<longleftrightarrow> k' = k"
  shows "mapSet k (f v) m = mapValues (\<lambda>v. if q v then f v else v) m"
  using assms
proof (induction m)
  case Nil
  then show ?case by simp
next
  case (Cons e m)
  obtain k0 v0 where e: "e = (k0, v0)" by fastforce
  have q0: "q v0 \<longleftrightarrow> k0 = k" using Cons.prems(3) [of k0 v0] e by simp
  have q': "q v' \<longleftrightarrow> k' = k" if "mapGet m k' = Some v'" for k' v'
  proof -
    have "k' \<in> fst ` set m" using that by (metis map_of_SomeD fst_conv image_eqI)
    then have "k' \<noteq> k0" using Cons.prems(1) e by auto
    with Cons.prems(3) [of k' v'] that e show ?thesis by simp
  qed
  show ?case
  proof (cases "k0 = k")
    case True
    have "\<not> q b" if "(a, b) \<in> set m" for a b
      using q' [of a b] that Cons.prems(1) True e by (force simp: map_of_eq_Some_iff)
    then have "mapValues (\<lambda>v. if q v then f v else v) m = m"
      unfolding mapValues_def by (intro map_idI) auto
    with True q0 Cons.prems(2) e show ?thesis by (simp add: mapValues_def)
  next
    case False
    with Cons.IH [of] Cons.prems(1,2) q' q0 e show ?thesis by (simp add: mapValues_def)
  qed
qed

lemma map_of_filter_key:
  assumes "distinct (map fst m)" and "mapGet m k = Some v" and "\<And>k' v'. mapGet m k' = Some v' \<Longrightarrow> q v' \<longleftrightarrow> k' = k"
  shows "filter q (map snd m) = [v]"
  using assms
proof (induction m)
  case Nil
  then show ?case by simp
next
  case (Cons e m)
  obtain k0 v0 where e: "e = (k0, v0)" by fastforce
  have q0: "q v0 \<longleftrightarrow> k0 = k" using Cons.prems(3) [of k0 v0] e by simp
  have q': "q v' \<longleftrightarrow> k' = k" if "mapGet m k' = Some v'" for k' v'
  proof -
    have "k' \<in> fst ` set m" using that by (metis map_of_SomeD fst_conv image_eqI)
    then have "k' \<noteq> k0" using Cons.prems(1) e by auto
    with Cons.prems(3) [of k' v'] that e show ?thesis by simp
  qed
  show ?case
  proof (cases "k0 = k")
    case True
    have "\<not> q b" if "b \<in> set (map snd m)" for b
      using q' [of _ b] that Cons.prems(1) True e by (force simp: map_of_eq_Some_iff)
    then have "filter q (map snd m) = []" by (simp add: filter_empty_conv)
    with True q0 Cons.prems(2) e show ?thesis by simp
  next
    case False
    with Cons.IH Cons.prems(1,2) q' q0 e show ?thesis by simp
  qed
qed

lemma revokeClientAttachment_as_where:
  assumes "clients_wf s"
  shows "snd (revokeRemoteRuntimeClientAttachment i s) = revokeClientsWhere (\<lambda>c. rca_clientAttachmentId c = i) s
       \<or> snd (revokeRemoteRuntimeClientAttachment i s) = s"
proof (cases "\<exists>c. attached s i c")
  case False
  then show ?thesis by (auto simp: revokeRemoteRuntimeClientAttachment_def attached_def split: option.split)
next
  case True
  then obtain c where c: "mapGet (rt_clients s) i = Some c" "rca_status c = ClientAttached"
    by (auto simp: attached_def)
  let ?q = "\<lambda>c. rca_clientAttachmentId c = i \<and> rca_status c = ClientAttached"
  have dist: "distinct (map fst (rt_clients s))"
    and q: "\<And>k' v'. mapGet (rt_clients s) k' = Some v' \<Longrightarrow> rca_clientAttachmentId v' = k'"
    using assms by (auto simp: clients_wf_def)
  have q': "?q v' \<longleftrightarrow> k' = i" if "mapGet (rt_clients s) k' = Some v'" for k' v'
    using q [OF that] that c by auto
  have "mapSet i (revokeClient c) (rt_clients s) = mapValues (\<lambda>c. if ?q c then revokeClient c else c) (rt_clients s)"
    using dist c(1) q' by (rule mapSet_as_mapValues)
  moreover have "filter ?q (map snd (rt_clients s)) = [c]"
    using dist c(1) q' by (rule map_of_filter_key)
  ultimately show ?thesis using c
    by (simp add: revokeRemoteRuntimeClientAttachment_def revokeClientsWhere_def revokedClients_def audit_def)
qed

lemma inv_revokeClientAttachment:
  "router_inv opts s \<Longrightarrow> router_inv opts (snd (revokeRemoteRuntimeClientAttachment i s))"
  using revokeClientAttachment_as_where [of s i] inv_revokeClientsWhere [of opts s] by (auto simp: router_inv_def)

text \<open>Changes to one runtime attachment.\<close>

lemma client_side_frame:
  assumes "rt_clients s' = rt_clients s" and "rt_operationCounts s' = rt_operationCounts s" and "rt_audit s' = rt_audit s"
  shows "one_per_device s' = one_per_device s" "counts_bounded opts s' = counts_bounded opts s"
    "routed_audited s' = routed_audited s"
  using assms
  by (simp_all add: one_per_device_def attached_def counts_bounded_def routed_audited_def
      remoteRuntimeClientAttachmentCount_def)

lemma inv_runtime_side:
  assumes "router_inv opts s" and "rt_clients s' = rt_clients s" and "rt_operationCounts s' = rt_operationCounts s"
    and "rt_audit s' = rt_audit s" and "runtimes_wf s'" and "latest_wf s'" and "clients_wf s'" and "statuses_wf s'"
  shows "router_inv opts s'"
  using assms(1,5-8) client_side_frame [OF assms(2-4)] by (simp add: router_inv_def)

lemma inv_attachRuntime:
  assumes inv: "router_inv opts s" and fresh: "newId \<noteq> []" "newId \<notin> fst ` set (rt_runtimeAttachments s)"
  shows "router_inv opts (snd (attachRuntime request authorized newId s))"
proof (cases "authorized \<and> (\<exists>r. validateGatewayRuntimeAttachmentRegistrationRequest request = Inr r)")
  case False
  then show ?thesis using inv by (auto simp: attachRuntime_def split: sum.split)
next
  case True
  then obtain r where r: "validateGatewayRuntimeAttachmentRegistrationRequest request = Inr r" by blast
  let ?a = "attachmentOf r newId"
  let ?s = "s\<lparr> rt_runtimeAttachments := mapSet newId ?a (rt_runtimeAttachments s),
              rt_latest := mapSet (gra_runtimeInstallationId ?a) newId (rt_latest s) \<rparr>"
  have a: "gra_gatewayRuntimeAttachmentId ?a = newId" "gra_status ?a \<noteq> AttRevoked"
    by (simp_all add: attachmentOf_def)
  have none: "mapGet (rt_runtimeAttachments s) newId = None" using fresh(2) by (simp add: map_of_eq_None_iff)
  have old: "k \<noteq> newId" if "mapGet (rt_runtimeAttachments s) k = Some b" for k b using that none by auto
  have "runtimes_wf ?s" using inv a fresh(1) by (auto simp: router_inv_def runtimes_wf_def)
  moreover have "latest_wf ?s" using inv a old by (fastforce simp: router_inv_def latest_wf_def)
  moreover have "clients_wf ?s" using inv old by (fastforce simp: router_inv_def clients_wf_def)
  moreover have "statuses_wf ?s" using inv old by (fastforce simp: router_inv_def statuses_wf_def)
  ultimately have "router_inv opts ?s" by (intro inv_runtime_side [OF inv]) simp_all
  with True r show ?thesis by (simp add: attachRuntime_def Let_def inv_audit)
qed

lemma inv_markStatus:
  assumes inv: "router_inv opts s" and "status \<noteq> AttRevoked"
  shows "router_inv opts (snd (markRuntimeAttachmentStatus i status s))"
proof (cases "\<exists>a. mapGet (rt_runtimeAttachments s) i = Some a \<and> gra_status a \<noteq> AttRevoked")
  case False
  then show ?thesis using inv by (auto simp: markRuntimeAttachmentStatus_def split: option.split)
next
  case True
  then obtain a where a: "mapGet (rt_runtimeAttachments s) i = Some a" "gra_status a \<noteq> AttRevoked" by blast
  let ?s = "s\<lparr>rt_runtimeAttachments := mapSet i (a\<lparr>gra_status := status\<rparr>) (rt_runtimeAttachments s)\<rparr>"
  have "runtimes_wf ?s" using inv a by (auto simp: router_inv_def runtimes_wf_def)
  moreover have "latest_wf ?s" using inv a assms(2) by (fastforce simp: router_inv_def latest_wf_def)
  moreover have "clients_wf ?s" using inv a assms(2) by (fastforce simp: router_inv_def clients_wf_def)
  moreover have "statuses_wf ?s" using inv a assms(2) by (fastforce simp: router_inv_def statuses_wf_def)
  ultimately have "router_inv opts ?s" by (intro inv_runtime_side [OF inv]) simp_all
  with a show ?thesis by (simp add: markRuntimeAttachmentStatus_def)
qed

lemma inv_dropRuntime:
  assumes inv: "router_inv opts s" and a: "mapGet (rt_runtimeAttachments s) i = Some a"
    and idle: "\<And>k c. attached s k c \<Longrightarrow> rca_gatewayRuntimeAttachmentId c \<noteq> i"
    and latest: "\<And>j. mapGet l j = (if mapGet (rt_latest s) j = Some i then None else mapGet (rt_latest s) j)"
  shows "router_inv opts (s\<lparr> rt_runtimeAttachments := mapSet i (a\<lparr>gra_status := AttRevoked\<rparr>) (rt_runtimeAttachments s),
      rt_latest := l, rt_statuses := mapDelete i (rt_statuses s) \<rparr>)" (is "router_inv opts ?s")
proof (rule inv_runtime_side [OF inv])
  show "runtimes_wf ?s" using inv a by (auto simp: router_inv_def runtimes_wf_def)
  show "latest_wf ?s"
  proof (unfold latest_wf_def, intro allI impI)
    fix j k assume "mapGet (rt_latest ?s) j = Some k"
    then have l: "mapGet (rt_latest s) j = Some k" "k \<noteq> i" using latest [of j] by (auto split: if_splits)
    then show "\<exists>b. mapGet (rt_runtimeAttachments ?s) k = Some b \<and> gra_runtimeInstallationId b = j \<and> gra_status b \<noteq> AttRevoked"
      using inv by (auto simp: router_inv_def latest_wf_def)
  qed
  show "clients_wf ?s"
  proof (unfold clients_wf_def, intro conjI allI impI)
    show "distinct (map fst (rt_clients ?s))" using inv by (simp add: router_inv_def clients_wf_def)
  next
    fix k c assume "mapGet (rt_clients ?s) k = Some c"
    then have c: "mapGet (rt_clients s) k = Some c" by simp
    then show "rca_clientAttachmentId c = k" using inv by (auto simp: router_inv_def clients_wf_def)
    obtain b where b: "mapGet (rt_runtimeAttachments s) (rca_gatewayRuntimeAttachmentId c) = Some b"
      "gra_accountId b = rca_accountId c" "gra_runtimeInstallationId b = rca_runtimeInstallationId c"
      "rca_status c = ClientAttached \<Longrightarrow> gra_status b \<noteq> AttRevoked"
      using c inv unfolding router_inv_def clients_wf_def by metis
    then show "\<exists>a. mapGet (rt_runtimeAttachments ?s) (rca_gatewayRuntimeAttachmentId c) = Some a
        \<and> gra_accountId a = rca_accountId c \<and> gra_runtimeInstallationId a = rca_runtimeInstallationId c
        \<and> (rca_status c = ClientAttached \<longrightarrow> gra_status a \<noteq> AttRevoked)"
      using a c idle [of k c] by (auto simp: attached_def)
  qed
  show "statuses_wf ?s" using inv by (fastforce simp: router_inv_def statuses_wf_def)
qed simp_all

lemma inv_revokeRuntimeAttachmentById:
  assumes inv: "router_inv opts s"
  shows "router_inv opts (snd (revokeRuntimeAttachmentById i s))"
proof (cases "\<exists>a. mapGet (rt_runtimeAttachments s) i = Some a \<and> gra_status a \<noteq> AttRevoked")
  case False
  then show ?thesis using inv by (auto simp: revokeRuntimeAttachmentById_def split: option.split)
next
  case True
  then obtain a where a: "mapGet (rt_runtimeAttachments s) i = Some a" "gra_status a \<noteq> AttRevoked" by blast
  let ?p = "\<lambda>c. rca_gatewayRuntimeAttachmentId c = i"
  let ?l = "if mapGet (rt_latest s) (gra_runtimeInstallationId a) = Some i
            then mapDelete (gra_runtimeInstallationId a) (rt_latest s) else rt_latest s"
  let ?upd = "\<lambda>s. s\<lparr> rt_runtimeAttachments := mapSet i (a\<lparr>gra_status := AttRevoked\<rparr>) (rt_runtimeAttachments s),
      rt_latest := ?l, rt_statuses := mapDelete i (rt_statuses s) \<rparr>"
  have swap: "revokeClientsWhere ?p (?upd s) = ?upd (revokeClientsWhere ?p s)"
    by (simp add: revokeClientsWhere_def revokedClients_def)
  have l: "mapGet ?l j = (if mapGet (rt_latest s) j = Some i then None else mapGet (rt_latest s) j)" for j
  proof (cases "mapGet (rt_latest s) j = Some i")
    case True
    then have "gra_runtimeInstallationId a = j" using inv a by (force simp: router_inv_def latest_wf_def)
    with True show ?thesis by simp
  qed auto
  have "router_inv opts (?upd (revokeClientsWhere ?p s))"
    by (rule inv_dropRuntime [OF inv_revokeClientsWhere [OF inv]])
      (use a l in \<open>auto simp: attached_revokeClientsWhere\<close>)
  then show ?thesis using a
    by (simp add: revokeRuntimeAttachmentById_def Let_def swap inv_audit del: if_split)
qed

lemma inv_revokeAttachmentsOf:
  "router_inv opts s \<Longrightarrow> router_inv opts (snd (revokeAttachmentsOf inst ks s))"
proof (induction ks arbitrary: s)
  case Nil
  then show ?case by simp
next
  case (Cons k ks)
  have "router_inv opts (snd (revokeRuntimeAttachmentById j s))" for j
    using Cons.prems by (rule inv_revokeRuntimeAttachmentById)
  with Cons show ?case by (auto split: option.split prod.split) (metis snd_conv)
qed

lemma inv_forgetLatest:
  "router_inv opts s \<Longrightarrow> router_inv opts (s\<lparr>rt_latest := mapDelete inst (rt_latest s)\<rparr>)"
  by (rule inv_runtime_side) (auto simp: router_inv_def runtimes_wf_def latest_wf_def clients_wf_def statuses_wf_def)

lemma inv_revokeRuntimeInstallation:
  "router_inv opts s \<Longrightarrow> router_inv opts (snd (revokeRuntimeInstallation inst s))"
  using inv_revokeAttachmentsOf [of opts s inst "map fst (rt_runtimeAttachments s)"]
  by (auto simp: revokeRuntimeInstallation_def split: prod.split intro: inv_forgetLatest)

text \<open>Statuses.\<close>

lemma inv_recordRuntimeStatus:
  assumes inv: "router_inv opts s"
  shows "router_inv opts (snd (recordRuntimeStatus input s))"
proof (cases "validateRuntimeStatusFrame input")
  case (Inl e)
  then show ?thesis using inv by (simp add: recordRuntimeStatus_def)
next
  case (Inr f)
  let ?k = "sf_gatewayRuntimeAttachmentId f"
  show ?thesis
  proof (cases "\<exists>a. mapGet (rt_runtimeAttachments s) ?k = Some a \<and> gra_status a \<noteq> AttRevoked
      \<and> sf_sequence f = lastSequence (rt_statusSequencer s) ?k + 1")
    case False
    then have "snd (recordRuntimeStatus input s) = s"
      using Inr by (auto simp: recordRuntimeStatus_def sequencerAccept_def Let_def split: option.split)
    with inv show ?thesis by simp
  next
    case True
    then obtain a where a: "mapGet (rt_runtimeAttachments s) ?k = Some a" "gra_status a \<noteq> AttRevoked"
      "sf_sequence f = lastSequence (rt_statusSequencer s) ?k + 1" by blast
    let ?s = "s\<lparr> rt_statusSequencer := mapSet ?k (sf_sequence f) (rt_statusSequencer s),
                rt_statuses := mapSet ?k f (rt_statuses s) \<rparr>"
    have "statuses_wf ?s"
      using inv a by (auto simp: router_inv_def statuses_wf_def lastSequence_set)
    then have "router_inv opts ?s"
      using inv by (intro inv_runtime_side [OF inv]) (auto simp: router_inv_def runtimes_wf_def latest_wf_def clients_wf_def)
    with a Inr show ?thesis by (simp add: recordRuntimeStatus_def sequencerAccept_def Let_def)
  qed
qed

text \<open>Attaching a client.\<close>

lemma inv_addClient:
  assumes inv: "router_inv opts s" and fresh: "k \<notin> fst ` set (rt_clients s)"
    and a: "mapGet (rt_runtimeAttachments s) (rca_gatewayRuntimeAttachmentId c) = Some a"
    and c: "rca_clientAttachmentId c = k" "gra_accountId a = rca_accountId c"
      "gra_runtimeInstallationId a = rca_runtimeInstallationId c" "gra_status a \<noteq> AttRevoked"
    and room: "remoteRuntimeClientAttachmentCount (rca_gatewayRuntimeAttachmentId c) s
      < ro_maxRemoteRuntimeClientAttachmentsPerRuntime opts"
    and alone: "\<And>k' c'. attached s k' c' \<Longrightarrow> rca_gatewayRuntimeAttachmentId c' = rca_gatewayRuntimeAttachmentId c
      \<Longrightarrow> rca_trustedRuntimeClientId c' \<noteq> rca_trustedRuntimeClientId c"
  shows "router_inv opts (s\<lparr> rt_clients := mapSet k c (rt_clients s) \<rparr>)" (is "router_inv opts ?s")
proof -
  have none: "mapGet (rt_clients s) k = None" using fresh by (simp add: map_of_eq_None_iff)
  have set: "mapSet k c (rt_clients s) = rt_clients s @ [(k, c)]" using fresh by (intro mapSet_fresh) simp
  have att: "attached ?s k' c' \<Longrightarrow> (k' = k \<and> c' = c) \<or> (k' \<noteq> k \<and> attached s k' c')" for k' c'
    using none by (auto simp: attached_def split: if_splits)
  have "clients_wf ?s" using inv a c by (auto simp: router_inv_def clients_wf_def)
  moreover have "one_per_device ?s"
  proof (unfold one_per_device_def, intro allI impI)
    fix k1 c1 k2 c2
    assume "attached ?s k1 c1" "attached ?s k2 c2"
      "rca_gatewayRuntimeAttachmentId c1 = rca_gatewayRuntimeAttachmentId c2"
      "rca_trustedRuntimeClientId c1 = rca_trustedRuntimeClientId c2"
    then show "k1 = k2" using att [of k1 c1] att [of k2 c2] alone inv
      unfolding router_inv_def one_per_device_def by metis
  qed
  moreover have "counts_bounded opts ?s"
  proof -
    have "remoteRuntimeClientAttachmentCount i ?s = remoteRuntimeClientAttachmentCount i s
        + (if rca_gatewayRuntimeAttachmentId c = i \<and> rca_status c = ClientAttached then 1 else 0)" for i
      by (simp add: remoteRuntimeClientAttachmentCount_def set)
    with inv room show ?thesis
      by (auto simp: router_inv_def counts_bounded_def)
  qed
  ultimately show ?thesis using inv
    by (simp add: router_inv_def runtimes_wf_def latest_wf_def statuses_wf_def routed_audited_def)
qed

lemma inv_attachClient:
  assumes inv: "router_inv opts s" and fresh: "newId \<notin> fst ` set (rt_clients s)"
  shows "router_inv opts (snd (attachRemoteRuntimeClient opts request authorized newId s))"
proof -
  have "router_inv opts (s'\<lparr> rt_clients := mapSet newId (clientOf r a newId) (rt_clients s') \<rparr>)"
    if a: "mapGet (rt_runtimeAttachments s) k = Some a" "remoteRuntimeGatewayRuntimeAttachmentCanRoute a"
      "gra_accountId a = cr_accountId r" "gra_runtimeInstallationId a = cr_runtimeInstallationId r"
      and s': "s' = revokeExistingRemoteRuntimeClientAttachmentsForTrustedDevice (gra_gatewayRuntimeAttachmentId a)
                (cr_trustedRuntimeClientId r) s"
      and room: "\<not> remoteRuntimeClientAttachmentCount (gra_gatewayRuntimeAttachmentId a) s'
                \<ge> ro_maxRemoteRuntimeClientAttachmentsPerRuntime opts" for r a k s'
  proof (rule inv_addClient)
    have k: "gra_gatewayRuntimeAttachmentId a = k" using inv a(1) by (auto simp: router_inv_def runtimes_wf_def)
    have "fst ` set (rt_clients s') = set (map fst (rt_clients s'))" by simp
    also have "\<dots> = fst ` set (rt_clients s)"
      unfolding s' revokeExistingRemoteRuntimeClientAttachmentsForTrustedDevice_def revokeClientsWhere_sel(7) by simp
    finally show "newId \<notin> fst ` set (rt_clients s')" using fresh by simp
    show "router_inv opts s'"
      using inv unfolding s' revokeExistingRemoteRuntimeClientAttachmentsForTrustedDevice_def by (rule inv_revokeClientsWhere)
    show "rca_clientAttachmentId (clientOf r a newId) = newId" "gra_accountId a = rca_accountId (clientOf r a newId)"
      "gra_runtimeInstallationId a = rca_runtimeInstallationId (clientOf r a newId)"
      using a by (simp_all add: clientOf_def)
    show "gra_status a \<noteq> AttRevoked" using a(2) by (auto simp: remoteRuntimeGatewayRuntimeAttachmentCanRoute_def)
    show "mapGet (rt_runtimeAttachments s') (rca_gatewayRuntimeAttachmentId (clientOf r a newId)) = Some a"
      using a k unfolding s' revokeExistingRemoteRuntimeClientAttachmentsForTrustedDevice_def by (simp add: clientOf_def)
    show "remoteRuntimeClientAttachmentCount (rca_gatewayRuntimeAttachmentId (clientOf r a newId)) s'
        < ro_maxRemoteRuntimeClientAttachmentsPerRuntime opts"
      using room by (simp add: clientOf_def)
    show "rca_trustedRuntimeClientId c' \<noteq> rca_trustedRuntimeClientId (clientOf r a newId)"
      if "attached s' k' c'" "rca_gatewayRuntimeAttachmentId c' = rca_gatewayRuntimeAttachmentId (clientOf r a newId)" for k' c'
      using that unfolding s' revokeExistingRemoteRuntimeClientAttachmentsForTrustedDevice_def attached_revokeClientsWhere
      by (simp add: clientOf_def)
  qed
  moreover have "router_inv opts (revokeExistingRemoteRuntimeClientAttachmentsForTrustedDevice i d s)" for i d
    using inv unfolding revokeExistingRemoteRuntimeClientAttachmentsForTrustedDevice_def by (rule inv_revokeClientsWhere)
  ultimately show ?thesis using inv
    by (auto simp: attachRemoteRuntimeClient_def Let_def inv_audit clientAttachedEvent_def split: sum.split option.split)
qed

text \<open>Routing.\<close>

lemma inv_recordRouted:
  assumes inv: "router_inv opts s" and room: "used < ro_maxOperationsPerRemoteRuntimeClientAttachment opts"
    and used: "used = (case mapGet (rt_operationCounts s) (rca_clientAttachmentId client) of None \<Rightarrow> 0 | Some n \<Rightarrow> n)"
  shows "router_inv opts (recordRouted frame client runtime used s)" (is "router_inv opts ?s")
proof -
  have ev: "routedEvents k [routeEvent AuditOperationRouted r client runtime]
      = (if k = rca_clientAttachmentId client then 1 else 0)" for k r
    by (simp add: routedEvents_def routeEvent_def)
  have clients: "rt_clients ?s = rt_clients s" by (simp add: recordRouted_def)
  have "routed_audited ?s"
    using inv used by (auto simp: router_inv_def routed_audited_def recordRouted_def ev)
  moreover have "counts_bounded opts ?s"
    using inv room by (auto simp: router_inv_def counts_bounded_def recordRouted_def remoteRuntimeClientAttachmentCount_def)
  moreover have "one_per_device ?s" using inv unfolding router_inv_def one_per_device_def attached_def clients by blast
  ultimately show ?thesis using inv
    by (simp add: router_inv_def runtimes_wf_def latest_wf_def clients_wf_def statuses_wf_def clients)
      (simp add: recordRouted_def)
qed

lemma inv_denied: "router_inv opts s \<Longrightarrow> router_inv opts (snd (denied r c a s))"
  by (simp add: denied_def inv_audit)

lemma inv_routeAttached:
  assumes "router_inv opts s"
  shows "router_inv opts (snd (routeAttached opts frame client runtime s))"
proof -
  let ?used = "case mapGet (rt_operationCounts s) (rca_clientAttachmentId client) of None \<Rightarrow> 0 | Some n \<Rightarrow> n"
  have "router_inv opts (recordRouted f client runtime ?used s)"
    if "\<not> ?used \<ge> ro_maxOperationsPerRemoteRuntimeClientAttachment opts" for f
    using assms that by (intro inv_recordRouted) simp_all
  moreover have "ae_action (routeEvent AuditAuthorizationDenied r c a) \<noteq> AuditOperationRouted" for r c a
    by (simp add: routeEvent_def)
  ultimately show ?thesis using assms inv_denied [OF assms]
    by (auto simp: routeAttached_def Let_def inv_audit split: sum.split)
qed

lemma inv_routeRuntimeOperation:
  assumes "router_inv opts s"
  shows "router_inv opts (snd (routeRuntimeOperation numText opts input s))"
  using assms
  by (simp add: routeRuntimeOperation_def inv_denied inv_routeAttached split: sum.split reply_target.split option.split)

lemma inv_step:
  "router_inv opts s \<Longrightarrow> freshId op s \<Longrightarrow> router_inv opts (routerStep numText opts op s)"
  by (cases op)
    (auto simp: markRuntimeAttachmentOnline_def markRuntimeAttachmentDegraded_def markRuntimeAttachmentUnavailable_def
      revokeTrustedRuntimeClient_def revokeRuntimeAttachment_def Let_def
      intro: inv_attachRuntime inv_attachClient inv_routeRuntimeOperation inv_recordRuntimeStatus inv_markStatus
        inv_revokeClientsWhere inv_revokeClientAttachment inv_revokeRuntimeAttachmentById inv_revokeRuntimeInstallation)

lemma inv_init: "router_inv opts createRemoteRuntimeGatewayRouter"
  by (simp add: router_inv_def router_wf_defs attached_def createRemoteRuntimeGatewayRouter_def
      remoteRuntimeClientAttachmentCount_def routedEvents_def)

lemma reachable_inv: "router_reachable numText opts s \<Longrightarrow> router_inv opts s"
  by (induction rule: router_reachable.induct) (auto intro: inv_init inv_step)

end
