(* ===== verification/Policy_Theorems.thy ===== *)
theory Policy_Theorems
  imports Operation_Policy
begin

text \<open>
  Properties of the contract package and of the operation policy: every command that passes the
  protocol guard has a policy, authorisation grants nothing the policy forbids, negotiation picks a
  common version, reply targets stay with their frame, and public keys survive the wire.
\<close>

section \<open>Lemmas\<close>

lemma method_policy_of:
  "isRemoteRuntimeProtocolClientMethod method \<Longrightarrow> \<exists>t. map_of remoteRuntimeMethodPolicy method = Some t"
  using method_policy_total by (auto simp: list_all_iff methodValues_iff)

lemma subcommand_policy_of:
  "t \<in> set runtimeWebSocketProviderModelCommandTypeValues
     \<Longrightarrow> \<exists>p. map_of remoteRuntimeProviderModelSubcommandPolicy t = Some p"
  using subcommand_policy_total by (auto simp: list_all_iff)

lemma method_policy_wf: "map_of remoteRuntimeMethodPolicy method = Some t \<Longrightarrow> template_wf t"
  using table_wf(1) by (auto simp: list_all_iff dest!: map_of_SomeD)

lemma subcommand_policy_wf: "map_of remoteRuntimeProviderModelSubcommandPolicy c = Some t \<Longrightarrow> template_wf t"
  using table_wf(2) by (auto simp: list_all_iff dest!: map_of_SomeD)

lemma template_wf_withMethod [simp]: "template_wf (policy_template.truncate (withMethod t m s)) = template_wf t"
  by (simp add: template_wf_def withMethod_def policy_template.defs)

lemma policyForCommand_wf:
  "remoteRuntimeOperationPolicyForCommand command = Some p \<Longrightarrow> template_wf (policy_template.truncate p)"
  by (auto simp: remoteRuntimeOperationPolicyForCommand_def Let_def split: if_splits
      dest: method_policy_wf subcommand_policy_wf)

lemma command_method:
  "isRemoteRuntimeProtocolClientCommand v \<Longrightarrow> isRemoteRuntimeProtocolClientMethod (strOf (getProp v ''method''))"
  by (auto simp: isRemoteRuntimeProtocolClientCommand_def isRuntimeWebSocketClientCommand_def
      isRemoteRuntimeProtocolClientMethod_def Let_def split: if_splits)

lemma command_subcommand:
  assumes "isRemoteRuntimeProtocolClientCommand v" and "strOf (getProp v ''method'') = ''providerModel.command''"
  shows "strOf (getProp (getProp (getProp v ''payload'') ''command'') ''type'')
    \<in> set runtimeWebSocketProviderModelCommandTypeValues"
  using assms
  by (auto simp: isRemoteRuntimeProtocolClientCommand_def isRuntimeWebSocketClientCommand_def
      isRemoteRuntimeWebSocketClientMethod_def remoteRuntimeWebSocketClientMethodValues_def
      isProviderModelCommandPayload_def Let_def split: if_splits)

lemma authorize_Inr:
  assumes "authorizeRemoteRuntimeCommandWithPolicy command ctx = Inr p"
  shows "remoteRuntimeOperationPolicyForCommand command = Some p \<and> ac_runtimeAttachmentAuthorized ctx
    \<and> ac_operationClass ctx = pt_class p \<and> pt_requiredDeviceTrustLevel p \<le> ac_deviceTrustLevel ctx
    \<and> (pt_encryptionRequired p \<longrightarrow> ac_encrypted ctx)
    \<and> (ac_metadataSliceOnly ctx \<longrightarrow> pt_metadataSliceAllowed p)
    \<and> (\<forall>c. pt_requiredAttachmentCapability p = Some c \<longrightarrow> c \<in> set (ac_attachmentCapabilities ctx))
    \<and> (pt_idempotencyRequired p \<longrightarrow> hasIdempotencyKey (ac_idempotencyKey ctx))"
  using assms
  by (auto simp: authorizeRemoteRuntimeCommandWithPolicy_def authorizeWithPolicy_def Let_def
      remoteRuntimeAuthorizationFailure_def trustLevelSatisfies_iff split: option.splits if_splits)

lemma find_snoc: "find P (xs @ [x]) = (case find P xs of None \<Rightarrow> if P x then Some x else None | Some y \<Rightarrow> Some y)"
  by (induction xs) auto

lemma find_rev_Some_iff:
  "find P (rev xs) = Some v \<longleftrightarrow> (\<exists>ys zs. xs = ys @ v # zs \<and> P v \<and> (\<forall>z\<in>set zs. \<not> P z))"
proof (induction xs)
  case Nil
  then show ?case by simp
next
  case (Cons x xs)
  show ?case
  proof (cases "find P (rev xs)")
    case (Some w)
    then have "\<exists>z\<in>set xs. P z" by (auto simp: find_Some_iff) (metis nth_mem set_rev length_rev)
    then have "(\<exists>ys zs. x # xs = ys @ v # zs \<and> P v \<and> (\<forall>z\<in>set zs. \<not> P z))
        \<longleftrightarrow> (\<exists>ys zs. xs = ys @ v # zs \<and> P v \<and> (\<forall>z\<in>set zs. \<not> P z))"
      by (auto simp: Cons_eq_append_conv)
    with Some Cons.IH show ?thesis by (simp add: find_snoc)
  next
    case None
    then have "\<forall>z\<in>set xs. \<not> P z" by (auto simp: find_None_iff)
    with None show ?thesis by (auto simp: find_snoc Cons_eq_append_conv)
  qed
qed

lemma selectAdvertisedVersion_Some:
  "selectAdvertisedVersion advertised supported = Some v \<longleftrightarrow>
     (\<exists>before after. supported = before @ v # after \<and> v \<in> set advertised \<and> set after \<inter> set advertised = {})"
  unfolding selectAdvertisedVersion_def find_rev_Some_iff by blast

lemma acceptedVersions_Inr:
  "acceptedVersions h t w = Inr a \<longleftrightarrow>
     h = Some (av_remoteRuntimeHttp a) \<and> t = Some (av_remoteRuntimeTransport a) \<and> w = Some (av_runtimeWebSocket a)
   \<and> av_remoteRuntimeHttp a \<noteq> [] \<and> av_remoteRuntimeTransport a \<noteq> [] \<and> av_runtimeWebSocket a \<noteq> []"
  by (cases a) (auto simp: acceptedVersions_def split: option.splits)

lemma validatedTarget_bound:
  "validatedRuntimeOperationReplyTargetFromFrameAuthority frame requestId = Inr target \<Longrightarrow>
     target \<in> {RemoteRuntimeAttachmentTarget (ra_clientAttachmentId frame), GatewayHttpRequestTarget (ra_clientAttachmentId frame)}
   \<and> (ra_trustedGatewayHttpRequest frame \<longrightarrow> target = GatewayHttpRequestTarget (ra_clientAttachmentId frame))"
  by (auto simp: validatedRuntimeOperationReplyTargetFromFrameAuthority_def defaultReplyTarget_def Let_def
      runtimeOwnerForRemoteRuntimeAttachment_def split: if_splits)

lemma authorized_facts:
  assumes "authorizeRemoteRuntimeCommandWithPolicy command ctx = Inr p"
  shows "remoteRuntimeOperationPolicyForCommand command = Some p
    \<and> ac_runtimeAttachmentAuthorized ctx \<and> pt_class p = ac_operationClass ctx
    \<and> Paired \<le> ac_deviceTrustLevel ctx
    \<and> (ac_operationClass ctx \<noteq> MetadataRead \<longrightarrow>
         ac_deviceTrustLevel ctx = Trusted \<and> ac_encrypted ctx \<and> \<not> ac_metadataSliceOnly ctx)
    \<and> (ac_operationClass ctx \<notin> {MetadataRead, SensitiveRead} \<longrightarrow> hasIdempotencyKey (ac_idempotencyKey ctx))
    \<and> (\<exists>c. pt_requiredAttachmentCapability p = Some c \<and> c \<in> set (ac_attachmentCapabilities ctx))"
proof -
  note facts = authorize_Inr [OF assms]
  have "template_wf (policy_template.truncate p)" using facts policyForCommand_wf by blast
  then have wf: "pt_class p \<noteq> MetadataRead \<Longrightarrow> pt_encryptionRequired p \<and> pt_requiredDeviceTrustLevel p = Trusted
      \<and> \<not> pt_metadataSliceAllowed p"
    "pt_class p \<notin> {MetadataRead, SensitiveRead} \<Longrightarrow> pt_idempotencyRequired p"
    "pt_requiredDeviceTrustLevel p \<noteq> Untrusted" "pt_requiredAttachmentCapability p \<noteq> None"
    by (auto simp: template_wf_def policy_template.defs)
  have "Paired \<le> ac_deviceTrustLevel ctx"
    using facts wf(3) by (cases "pt_requiredDeviceTrustLevel p"; cases "ac_deviceTrustLevel ctx")
      (auto simp: less_eq_trust_level_def)
  moreover have "Trusted \<le> a \<longleftrightarrow> a = Trusted" for a
    by (cases a) (auto simp: less_eq_trust_level_def)
  ultimately show ?thesis using facts wf by fastforce
qed

section \<open>Properties\<close>

text \<open>Every command that passes the protocol guard has a row in the policy tables, so no method
  reaches the runtime without a policy, and that policy is well formed: everything but a metadata
  read demands encryption, an audit entry and a trusted client and is outside the metadata slice,
  and everything that changes state demands an idempotency key and local approval.\<close>
theorem command_has_policy:
  assumes "isRemoteRuntimeProtocolClientCommand command"
  shows "\<exists>p. remoteRuntimeOperationPolicyForCommand command = Some p
    \<and> op_method p = strOf (getProp command ''method'')
    \<and> (op_subcommand p \<noteq> None \<longleftrightarrow> op_method p = ''providerModel.command'')
    \<and> template_wf (policy_template.truncate p)"
proof -
  let ?m = "strOf (getProp command ''method'')"
  show ?thesis
  proof (cases "?m = ''providerModel.command''")
    case False
    obtain t where t: "map_of remoteRuntimeMethodPolicy ?m = Some t"
      using method_policy_of [OF command_method [OF assms]] by blast
    with False method_policy_wf [OF t] show ?thesis
      by (auto simp: remoteRuntimeOperationPolicyForCommand_def Let_def)
        (simp_all add: withMethod_def policy_template.defs)
  next
    case True
    obtain t where t: "map_of remoteRuntimeProviderModelSubcommandPolicy
        (strOf (getProp (getProp (getProp command ''payload'') ''command'') ''type'')) = Some t"
      using subcommand_policy_of [OF command_subcommand [OF assms True]] by blast
    with True subcommand_policy_wf [OF t] show ?thesis
      by (auto simp: remoteRuntimeOperationPolicyForCommand_def Let_def)
        (simp_all add: withMethod_def policy_template.defs)
  qed
qed

definition sampleCommand :: "string \<Rightarrow> js \<Rightarrow> js" where
  "sampleCommand method payload = JObj [(''requestId'', JStr ''r1''), (''protocolVersion'', JStr ''0.1.6''),
     (''method'', JStr method), (''payload'', payload)]"

theorem command_has_policy_witness:
  "\<exists>p. remoteRuntimeOperationPolicyForCommand (sampleCommand ''shutdown'' (JObj [])) = Some p
     \<and> template_wf (policy_template.truncate p)"
proof -
  have "isRemoteRuntimeProtocolClientCommand (sampleCommand ''shutdown'' (JObj []))" by code_simp
  from command_has_policy [OF this] show ?thesis by blast
qed

text \<open>C17: Authorisation grants only what the policy allows: when a command is authorised, the attachment
  is authorised, the declared class is the class of the policy, the client is at least paired and,
  unless the command is a metadata read, trusted and encrypted; a command that changes state has a
  non-empty idempotency key; outside metadata reads a metadata-only connection gets nothing; and the
  attachment has the capability the policy names.\<close>
theorem authorization_sound:
  assumes "authorizeRemoteRuntimeCommandWithPolicy command ctx = Inr p"
  shows "remoteRuntimeOperationPolicyForCommand command = Some p
    \<and> ac_runtimeAttachmentAuthorized ctx \<and> pt_class p = ac_operationClass ctx
    \<and> Paired \<le> ac_deviceTrustLevel ctx
    \<and> (ac_operationClass ctx \<noteq> MetadataRead \<longrightarrow>
         ac_deviceTrustLevel ctx = Trusted \<and> ac_encrypted ctx \<and> \<not> ac_metadataSliceOnly ctx)
    \<and> (ac_operationClass ctx \<notin> {MetadataRead, SensitiveRead} \<longrightarrow> hasIdempotencyKey (ac_idempotencyKey ctx))
    \<and> (\<exists>c. pt_requiredAttachmentCapability p = Some c \<and> c \<in> set (ac_attachmentCapabilities ctx))"
  using assms by (rule authorized_facts)

theorem authorization_sound_witness:
  "\<exists>p. authorizeRemoteRuntimeCommandWithPolicy (sampleCommand ''goal.pause'' (JObj [(''sessionId'', JStr ''s'')]))
        \<lparr> ac_attachmentCapabilities = [CapMutate], ac_deviceTrustLevel = Trusted, ac_encrypted = True,
          ac_idempotencyKey = Some ''i'', ac_metadataSliceOnly = False, ac_operationClass = Mutation,
          ac_runtimeAttachmentAuthorized = True \<rparr> = Inr p
     \<and> pt_class p = Mutation"
proof -
  let ?r = "authorizeRemoteRuntimeCommandWithPolicy (sampleCommand ''goal.pause'' (JObj [(''sessionId'', JStr ''s'')]))
        \<lparr> ac_attachmentCapabilities = [CapMutate], ac_deviceTrustLevel = Trusted, ac_encrypted = True,
          ac_idempotencyKey = Some ''i'', ac_metadataSliceOnly = False, ac_operationClass = Mutation,
          ac_runtimeAttachmentAuthorized = True \<rparr>"
  have "isl ?r = False" by code_simp
  then obtain p where p: "?r = Inr p" by (cases ?r) auto
  from authorization_sound [OF p] p show ?thesis by simp
qed

text \<open>Version negotiation from advertised lists succeeds exactly with, for each of the three protocols,
  the last version of our own list that the peer advertises: the accepted versions are supported by both sides, and no
  later supported version is advertised.\<close>
theorem negotiation_picks_last_common:
  "negotiateAdvertisedRemoteRuntimeVersions advertised supported = Inr accepted \<longleftrightarrow>
     (\<exists>b a. sv_remoteRuntimeHttp supported = b @ av_remoteRuntimeHttp accepted # a
        \<and> av_remoteRuntimeHttp accepted \<in> set (sv_remoteRuntimeHttp advertised)
        \<and> set a \<inter> set (sv_remoteRuntimeHttp advertised) = {})
   \<and> (\<exists>b a. sv_remoteRuntimeTransport supported = b @ av_remoteRuntimeTransport accepted # a
        \<and> av_remoteRuntimeTransport accepted \<in> set (sv_remoteRuntimeTransport advertised)
        \<and> set a \<inter> set (sv_remoteRuntimeTransport advertised) = {})
   \<and> (\<exists>b a. sv_runtimeWebSocket supported = b @ av_runtimeWebSocket accepted # a
        \<and> av_runtimeWebSocket accepted \<in> set (sv_runtimeWebSocket advertised)
        \<and> set a \<inter> set (sv_runtimeWebSocket advertised) = {})
   \<and> av_remoteRuntimeHttp accepted \<noteq> [] \<and> av_remoteRuntimeTransport accepted \<noteq> [] \<and> av_runtimeWebSocket accepted \<noteq> []"
  unfolding negotiateAdvertisedRemoteRuntimeVersions_def acceptedVersions_Inr selectAdvertisedVersion_Some
  by blast

text \<open>Whatever reply target a frame claims, a validated target carries the attachment id of the frame
  itself, and a frame that came from the trusted gateway HTTP path is never answered over a remote
  runtime attachment.\<close>
lemma reply_target_bound_to_frame:
  "validatedRuntimeOperationReplyTargetFromFrameAuthority frame requestId = Inr target \<Longrightarrow>
     target \<in> {RemoteRuntimeAttachmentTarget (ra_clientAttachmentId frame), GatewayHttpRequestTarget (ra_clientAttachmentId frame)}
   \<and> (ra_trustedGatewayHttpRequest frame \<longrightarrow> target = GatewayHttpRequestTarget (ra_clientAttachmentId frame))
   \<and> runtimeOperationReplyTargetFromFrameAuthority frame = target"
  by (auto simp: validatedRuntimeOperationReplyTargetFromFrameAuthority_def defaultReplyTarget_def Let_def
      runtimeOwnerForRemoteRuntimeAttachment_def runtimeOperationReplyTargetFromFrameAuthority_def split: if_splits)

lemma reply_target_bound_to_frame_witness:
  "runtimeOperationReplyTargetFromFrameAuthority
     \<lparr> ra_clientAttachmentId = ''a1'', ra_replyTarget = JUndef, ra_trustedGatewayHttpRequest = True \<rparr>
   = GatewayHttpRequestTarget ''a1''"
proof -
  let ?f = "\<lparr> ra_clientAttachmentId = ''a1'', ra_replyTarget = JUndef, ra_trustedGatewayHttpRequest = True \<rparr>"
  have "validatedRuntimeOperationReplyTargetFromFrameAuthority ?f ''r'' = Inr (GatewayHttpRequestTarget ''a1'')"
    by code_simp
  from reply_target_bound_to_frame [OF this] show ?thesis by simp
qed

text \<open>The status sequencer accepts, for each attachment, frames numbered 1, 2, 3 and so on: no gap, no
  repetition and no reordering, whatever frames arrive for it and for other attachments.\<close>
theorem status_sequence_gap_free:
  "map sf_sequence (filter (\<lambda>f. sf_gatewayRuntimeAttachmentId f = k) (acceptedFrames fs []))
   = map (\<lambda>i. 1 + int i)
       [0 ..< length (filter (\<lambda>f. sf_gatewayRuntimeAttachmentId f = k) (acceptedFrames fs []))]"
  using acceptedFrames_sequences [of k fs "[]"] by (simp add: lastSequence_def)

text \<open>Public keys survive the wire: a key the validator accepted is serialised without failure, to a value from which the
  validator reads the same key.\<close>
theorem public_key_roundtrip:
  "validateRemoteRuntimeAsymmetricPublicKey v = Inr k \<Longrightarrow>
     serializeRemoteRuntimeAsymmetricPublicKey k = Inr (publicKeyJson k)
   \<and> validateRemoteRuntimeAsymmetricPublicKey (publicKeyJson k) = Inr k"
proof -
  assume v: "validateRemoteRuntimeAsymmetricPublicKey v = Inr k"
  then have parts: "pk_createdAt k \<noteq> []" "pk_keyId k \<noteq> []" "pk_publicKey k \<noteq> []"
    "list_all isBase64UrlChar (pk_publicKey k)" "\<not> isPlaceholderRuntimeClientPublicKey (pk_publicKey k)"
    by (auto simp: validateRemoteRuntimeAsymmetricPublicKey_def isNonEmptyRemoteRuntimeContractString_def
        isBase64UrlRemoteRuntimeContractString_def split: if_splits option.splits)
  have "keyPurposeValue (JStr (keyPurposeText (pk_purpose k))) = Some (pk_purpose k)"
    by (simp only: key_purpose_enum.enumValue_Some_iff)
  with parts have "validateRemoteRuntimeAsymmetricPublicKey (publicKeyJson k) = Inr k"
    by (simp add: validateRemoteRuntimeAsymmetricPublicKey_def publicKeyJson_def
        isNonEmptyRemoteRuntimeContractString_def isBase64UrlRemoteRuntimeContractString_def)
  then show ?thesis by (simp add: serializeRemoteRuntimeAsymmetricPublicKey_def)
qed

theorem public_key_roundtrip_witness:
  "serializeRemoteRuntimeAsymmetricPublicKey
     \<lparr> pk_createdAt = ''2026'', pk_keyId = ''k'', pk_publicKey = ''AAAA'', pk_purpose = ResponseSigning \<rparr>
   = Inr (publicKeyJson \<lparr> pk_createdAt = ''2026'', pk_keyId = ''k'', pk_publicKey = ''AAAA'', pk_purpose = ResponseSigning \<rparr>)"
proof -
  let ?k = "\<lparr> pk_createdAt = ''2026'', pk_keyId = ''k'', pk_publicKey = ''AAAA'', pk_purpose = ResponseSigning \<rparr>"
  have "validateRemoteRuntimeAsymmetricPublicKey (publicKeyJson ?k) = Inr ?k" by code_simp
  from public_key_roundtrip [OF this] show ?thesis by simp
qed

end
