(* ===== verification/Frame_Theorems.thy ===== *)
theory Frame_Theorems
  imports Frames Policy_Theorems
begin

text \<open>
  Properties of the frame validators: what an accepted operation frame guarantees to the code behind
  it, the strict ordering of signed actions, and that log redaction hides every secret field.
\<close>

section \<open>Lemmas\<close>

lemma validateRuntimeCommand_Inr:
  "validateRuntimeCommand v r = Inr c \<Longrightarrow>
     c = v \<and> isRemoteRuntimeProtocolClientCommand v
   \<and> strOf (getProp v ''protocolVersion'') \<in> set supportedRuntimeWebSocketProtocolVersions"
  by (auto simp: validateRuntimeCommand_def remoteRuntimeValidationFailure_def Let_def
      isRuntimeWebSocketProtocolVersionSupported_def split: if_splits)

lemma validateEncrypted_Inr:
  "validateEncryptedRuntimePayload v r = Inr ep \<Longrightarrow> ep_ciphertext ep \<noteq> [] \<and> ep_keyId ep \<noteq> [] \<and> ep_nonce ep \<noteq> []"
  by (auto simp: validateEncryptedRuntimePayload_def remoteRuntimeValidationFailure_def Let_def
      isNonEmptyRemoteRuntimeString_def split: if_splits)

lemma operationFrame_Inr:
  assumes "validateRuntimeOperationFrame numText input maxBytes = Inr frame"
  shows "\<exists>cls target. operationClassValue (getProp input ''operationClass'') = Some cls
    \<and> validatedRuntimeOperationReplyTargetFromFrameAuthority (frameReplyAuthority input)
        (strOf (getProp input ''requestId'')) = Inr target
    \<and> getProp input ''protocolVersion'' = JStr remoteRuntimeTransportProtocolVersion
    \<and> isNonEmptyRemoteRuntimeString (getProp input ''requestId'')
    \<and> isNonEmptyRemoteRuntimeString (getProp input ''gatewayRuntimeAttachmentId'')
    \<and> isNonEmptyRemoteRuntimeString (getProp input ''clientAttachmentId'')
    \<and> (getProp input ''idempotencyKey'' = JUndef \<or> isNonEmptyRemoteRuntimeString (getProp input ''idempotencyKey''))
    \<and> remoteRuntimeJsonByteLength numText input \<le> maxBytes
    \<and> ((\<exists>ep. validateEncryptedRuntimePayload (getProp input ''encryptedPayload'') (strOf (getProp input ''requestId'')) = Inr ep
          \<and> frame = operationFrameValue input cls target (Some ep) None)
       \<or> (\<exists>c. validateRuntimeCommand (getProp input ''payload'') (strOf (getProp input ''requestId'')) = Inr c
          \<and> frame = operationFrameValue input cls target None (Some c)))"
  using assms unfolding validateRuntimeOperationFrame_def Let_def remoteRuntimeValidationFailure_def
    remoteRuntimeProtocolMismatch_def
  by (auto split: if_splits option.splits sum.splits)

lemma operationFrame_limit_mono:
  assumes "validateRuntimeOperationFrame numText input m = Inr frame" and "m \<le> m'"
  shows "validateRuntimeOperationFrame numText input m' = Inr frame"
proof -
  have "remoteRuntimeJsonByteLength numText input \<le> m" using operationFrame_Inr [OF assms(1)] by blast
  then have eq: "(remoteRuntimeJsonByteLength numText input > m') = (remoteRuntimeJsonByteLength numText input > m)"
    using assms(2) by simp
  show ?thesis using assms(1) unfolding validateRuntimeOperationFrame_def eq .
qed

lemma accepted_frame_facts:
  assumes "validateRuntimeOperationFrame numText input maxBytes = Inr frame"
  shows "remoteRuntimeJsonByteLength numText input \<le> maxBytes
    \<and> (of_encryptedPayload frame = None \<longleftrightarrow> of_payload frame \<noteq> None)
    \<and> (\<forall>c. of_payload frame = Some c \<longrightarrow> isRemoteRuntimeProtocolClientCommand c)
    \<and> (\<forall>ep. of_encryptedPayload frame = Some ep \<longrightarrow> ep_ciphertext ep \<noteq> [] \<and> ep_keyId ep \<noteq> [] \<and> ep_nonce ep \<noteq> [])
    \<and> of_requestId frame \<noteq> [] \<and> of_gatewayRuntimeAttachmentId frame \<noteq> [] \<and> of_clientAttachmentId frame \<noteq> []
    \<and> of_idempotencyKey frame \<noteq> Some []
    \<and> of_protocolVersion frame = remoteRuntimeTransportProtocolVersion
    \<and> of_replyTarget frame \<in> {Some (RemoteRuntimeAttachmentTarget (of_clientAttachmentId frame)),
                               Some (GatewayHttpRequestTarget (of_clientAttachmentId frame))}"
proof -
  obtain cls target where *: "operationClassValue (getProp input ''operationClass'') = Some cls"
    "validatedRuntimeOperationReplyTargetFromFrameAuthority (frameReplyAuthority input)
        (strOf (getProp input ''requestId'')) = Inr target"
    "getProp input ''protocolVersion'' = JStr remoteRuntimeTransportProtocolVersion"
    "isNonEmptyRemoteRuntimeString (getProp input ''requestId'')"
    "isNonEmptyRemoteRuntimeString (getProp input ''gatewayRuntimeAttachmentId'')"
    "isNonEmptyRemoteRuntimeString (getProp input ''clientAttachmentId'')"
    "getProp input ''idempotencyKey'' = JUndef \<or> isNonEmptyRemoteRuntimeString (getProp input ''idempotencyKey'')"
    "remoteRuntimeJsonByteLength numText input \<le> maxBytes"
    and payload: "(\<exists>ep. validateEncryptedRuntimePayload (getProp input ''encryptedPayload'') (strOf (getProp input ''requestId'')) = Inr ep
          \<and> frame = operationFrameValue input cls target (Some ep) None)
       \<or> (\<exists>c. validateRuntimeCommand (getProp input ''payload'') (strOf (getProp input ''requestId'')) = Inr c
          \<and> frame = operationFrameValue input cls target None (Some c))"
    using operationFrame_Inr [OF assms] by blast
  have target: "target \<in> {RemoteRuntimeAttachmentTarget (strOf (getProp input ''clientAttachmentId'')),
      GatewayHttpRequestTarget (strOf (getProp input ''clientAttachmentId''))}"
    using validatedTarget_bound [OF *(2)] by (simp add: frameReplyAuthority_def)
  from payload obtain ep c where frame: "frame = operationFrameValue input cls target ep c"
    and one: "ep = None \<longleftrightarrow> c \<noteq> None"
    and ok: "\<forall>x. c = Some x \<longrightarrow> isRemoteRuntimeProtocolClientCommand x"
      "\<forall>x. ep = Some x \<longrightarrow> ep_ciphertext x \<noteq> [] \<and> ep_keyId x \<noteq> [] \<and> ep_nonce x \<noteq> []"
    using validateEncrypted_Inr validateRuntimeCommand_Inr by fastforce
  show ?thesis using * one ok target unfolding frame operationFrameValue_def isNonEmptyRemoteRuntimeString_def by auto
qed

section \<open>Properties\<close>

text \<open>What an accepted operation frame guarantees: it carries either a complete encrypted payload or a clear
  command that passes the protocol guard, never both and never neither; its JSON text was within the
  byte limit; request and attachment ids and a given idempotency key are non-empty; the
  transport version is ours; and its reply target is bound to its own attachment id.\<close>
theorem operation_frame_sound:
  assumes "validateRuntimeOperationFrame numText input maxBytes = Inr frame"
  shows "remoteRuntimeJsonByteLength numText input \<le> maxBytes
    \<and> (of_encryptedPayload frame = None \<longleftrightarrow> of_payload frame \<noteq> None)
    \<and> (\<forall>c. of_payload frame = Some c \<longrightarrow> isRemoteRuntimeProtocolClientCommand c)
    \<and> (\<forall>ep. of_encryptedPayload frame = Some ep \<longrightarrow> ep_ciphertext ep \<noteq> [] \<and> ep_keyId ep \<noteq> [] \<and> ep_nonce ep \<noteq> [])
    \<and> of_requestId frame \<noteq> [] \<and> of_gatewayRuntimeAttachmentId frame \<noteq> [] \<and> of_clientAttachmentId frame \<noteq> []
    \<and> of_idempotencyKey frame \<noteq> Some []
    \<and> of_protocolVersion frame = remoteRuntimeTransportProtocolVersion
    \<and> of_replyTarget frame \<in> {Some (RemoteRuntimeAttachmentTarget (of_clientAttachmentId frame)),
                               Some (GatewayHttpRequestTarget (of_clientAttachmentId frame))}"
  using assms by (rule accepted_frame_facts)

definition sampleFrame :: js where
  "sampleFrame = JObj [(''type'', JStr ''runtime.operation''), (''protocolVersion'', JStr ''2026-05-08''),
     (''requestId'', JStr ''r1''), (''gatewayRuntimeAttachmentId'', JStr ''g1''), (''clientAttachmentId'', JStr ''a1''),
     (''operationClass'', JStr ''metadataRead''), (''payload'', sampleCommand ''ping'' (JObj [(''message'', JStr ''hi'')]))]"

definition sampleParsedFrame :: operation_frame where
  "sampleParsedFrame = operationFrameValue sampleFrame MetadataRead (RemoteRuntimeAttachmentTarget ''a1'') None
     (Some (sampleCommand ''ping'' (JObj [(''message'', JStr ''hi'')])))"

lemma sampleFrame_valid:
  "validateRuntimeOperationFrame (\<lambda>_. ''0'') sampleFrame maxRuntimeOperationPayloadBytes = Inr sampleParsedFrame"
proof -
  have "validateRuntimeOperationFrame (\<lambda>_. ''0'') sampleFrame 512 = Inr sampleParsedFrame" by code_simp
  then show ?thesis by (rule operationFrame_limit_mono) (simp add: maxRuntimeOperationPayloadBytes_def)
qed

theorem operation_frame_sound_witness:
  "remoteRuntimeJsonByteLength (\<lambda>_. ''0'') sampleFrame \<le> maxRuntimeOperationPayloadBytes
   \<and> of_payload sampleParsedFrame \<noteq> None"
  using operation_frame_sound [OF sampleFrame_valid] by (simp add: sampleParsedFrame_def operationFrameValue_def)

text \<open>What a log reader may learn: the value with every secret field's content removed, whatever it was.  Two values
  are indistinguishable when they have the same shape and agree on every field that is not secret; a field named
  \<^verbatim>\<open>__proto__\<close> does not count, because no log entry has one.\<close>

fun same_public :: "js \<Rightarrow> js \<Rightarrow> bool" where
  "same_public (JArr vs) (JArr ws) \<longleftrightarrow> list_all2 same_public vs ws"
| "same_public (JObj fs) (JObj gs) \<longleftrightarrow>
     list_all2 (\<lambda>kv lw. fst kv = fst lw
       \<and> (fst kv \<in> set redactedRemoteRuntimeTransportLogFieldNames \<or> same_public (snd kv) (snd lw))) (filter assignable fs) (filter assignable gs)"
| "same_public v w \<longleftrightarrow> v = w"

lemma redact_atom:
  "redactRemoteRuntimeTransportLogValue v = JUndef \<longleftrightarrow> v = JUndef"
  "redactRemoteRuntimeTransportLogValue v = JNull \<longleftrightarrow> v = JNull"
  "redactRemoteRuntimeTransportLogValue v = JBool b \<longleftrightarrow> v = JBool b"
  "redactRemoteRuntimeTransportLogValue v = JNum n \<longleftrightarrow> v = JNum n"
  "redactRemoteRuntimeTransportLogValue v = JStr t \<longleftrightarrow> v = JStr t"
  by (cases v; simp)+

lemma redact_eq_iff:
  "redactRemoteRuntimeTransportLogValue v = redactRemoteRuntimeTransportLogValue w \<longleftrightarrow> same_public v w"
proof (induction v w rule: same_public.induct)
  case (1 vs ws)
  then show ?case by (auto simp: list_all2_conv_all_nth list_eq_iff_nth_eq)
next
  case (2 fs gs)
  let ?f = "\<lambda>kv. (fst kv, if fst kv \<in> set redactedRemoteRuntimeTransportLogFieldNames then JStr ''[REDACTED]''
      else redactRemoteRuntimeTransportLogValue (snd kv))"
  have entry: "?f kv = ?f lw \<longleftrightarrow> fst kv = fst lw
      \<and> (fst kv \<in> set redactedRemoteRuntimeTransportLogFieldNames \<or> same_public (snd kv) (snd lw))"
    if "kv \<in> set (filter assignable fs)" "lw \<in> set (filter assignable gs)" for kv lw
    using 2 [OF that] by auto
  have "map ?f fs' = map ?f gs' \<longleftrightarrow> list_all2 (\<lambda>kv lw. ?f kv = ?f lw) fs' gs'" for fs' gs'
    by (simp only: list_eq_iff_nth_eq list_all2_conv_all_nth length_map) (auto simp: nth_map)
  then have "map ?f (filter assignable fs) = map ?f (filter assignable gs)
      \<longleftrightarrow> list_all2 (\<lambda>kv lw. ?f kv = ?f lw) (filter assignable fs) (filter assignable gs)" .
  also have "\<dots> \<longleftrightarrow> same_public (JObj fs) (JObj gs)"
    unfolding same_public.simps by (rule list.rel_cong [OF refl refl]) (rule entry)
  finally show ?case by simp
qed (auto simp: redact_atom redact_atom [THEN eq_iff_swap])

fun secrets_hidden :: "js \<Rightarrow> bool" where
  "secrets_hidden (JArr vs) \<longleftrightarrow> list_all secrets_hidden vs"
| "secrets_hidden (JObj fs) \<longleftrightarrow>
     list_all (\<lambda>kv. assignable kv \<and> (if fst kv \<in> set redactedRemoteRuntimeTransportLogFieldNames then snd kv = JStr ''[REDACTED]''
                    else secrets_hidden (snd kv))) fs"
| "secrets_hidden v \<longleftrightarrow> True"

lemma redact_hides: "secrets_hidden (redactRemoteRuntimeTransportLogValue v)"
  by (induction v rule: redactRemoteRuntimeTransportLogValue.induct) (auto simp: list_all_iff assignable_def)

lemma redact_hidden_id: "secrets_hidden v \<Longrightarrow> redactRemoteRuntimeTransportLogValue v = v"
proof (induction v rule: redactRemoteRuntimeTransportLogValue.induct)
  case (2 fs)
  have "(fst kv, if fst kv \<in> set redactedRemoteRuntimeTransportLogFieldNames then JStr ''[REDACTED]''
      else redactRemoteRuntimeTransportLogValue (snd kv)) = kv" if "kv \<in> set fs" for kv
    using 2 that by (cases kv) (auto simp: list_all_iff split: if_splits dest!: bspec)
  moreover have "filter assignable fs = fs" using 2 by (simp add: list_all_iff filter_id_conv)
  ultimately show ?case by (simp add: map_idI)
qed (auto simp: list_all_iff intro!: map_idI)

text \<open>C25: Log redaction is non-interfering and idempotent: no field with a secret name survives at any depth
  with anything but the marker, two values redact to the same log entry exactly when they agree
  outside secret fields (and fields named \<^verbatim>\<open>__proto__\<close>, which a log entry does not have), and redacting a log entry again changes nothing.\<close>
theorem redaction_noninterference:
  "secrets_hidden (redactRemoteRuntimeTransportLogValue v)
   \<and> (redactRemoteRuntimeTransportLogValue v = redactRemoteRuntimeTransportLogValue w \<longleftrightarrow> same_public v w)
   \<and> redactRemoteRuntimeTransportLogValue (redactRemoteRuntimeTransportLogValue v) = redactRemoteRuntimeTransportLogValue v"
  using redact_hides redact_eq_iff redact_hidden_id by blast

end
