(* ===== verification/Router_Theorems.thy ===== *)
theory Router_Theorems
  imports Router_Invariant Frame_Theorems
begin

text \<open>
  Properties of the gateway router over all its runs: what one step may change, that revocation is
  permanent, which operations are routed and that a state-changing one is routed at most once.
\<close>

section \<open>What a step may change\<close>

definition router_step :: "(rat \<Rightarrow> string) \<Rightarrow> router_options \<Rightarrow> router \<Rightarrow> router \<Rightarrow> bool" where
  "router_step numText opts s s' \<longleftrightarrow> (\<exists>op. freshId op s \<and> s' = routerStep numText opts op s)"

lemma reachable_steps:
  "(router_step numText opts)\<^sup>*\<^sup>* s s' \<Longrightarrow> router_reachable numText opts s \<Longrightarrow> router_reachable numText opts s'"
  by (induction rule: rtranclp_induct) (auto simp: router_step_def intro: reach_step)

text \<open>A client attachment never changes but from attached to revoked; a runtime attachment changes only its
  status, and not once it is revoked; the used idempotency keys grow; the audit log is append-only.\<close>

definition clients_le :: "router \<Rightarrow> router \<Rightarrow> bool" where
  "clients_le s s' \<longleftrightarrow> (\<forall>k c. mapGet (rt_clients s) k = Some c \<longrightarrow>
     mapGet (rt_clients s') k = Some c \<or> mapGet (rt_clients s') k = Some (revokeClient c))"

definition runtimes_le :: "router \<Rightarrow> router \<Rightarrow> bool" where
  "runtimes_le s s' \<longleftrightarrow> (\<forall>k a. mapGet (rt_runtimeAttachments s) k = Some a \<longrightarrow>
     (\<exists>st. mapGet (rt_runtimeAttachments s') k = Some (a\<lparr>gra_status := st\<rparr>)
        \<and> (gra_status a = AttRevoked \<longrightarrow> st = AttRevoked)))"

definition router_le :: "router \<Rightarrow> router \<Rightarrow> bool" where
  "router_le s s' \<longleftrightarrow> clients_le s s' \<and> runtimes_le s s'
     \<and> set (rt_routedIdempotencyKeys s) \<subseteq> set (rt_routedIdempotencyKeys s')
     \<and> (\<exists>events. rt_audit s' = rt_audit s @ events)"

lemma revokeClient_idem [simp]: "revokeClient (revokeClient c) = revokeClient c"
  by (simp add: revokeClient_def)

lemma router_le_refl: "router_le s s"
proof -
  have "\<exists>st. a = a\<lparr>gra_status := st\<rparr> \<and> (gra_status a = AttRevoked \<longrightarrow> st = AttRevoked)" for a :: runtime_attachment
    by (rule exI [of _ "gra_status a"]) simp
  then show ?thesis by (simp add: router_le_def clients_le_def runtimes_le_def)
qed

lemma router_le_trans: "router_le s t \<Longrightarrow> router_le t u \<Longrightarrow> router_le s u"
proof -
  assume st: "router_le s t" and tu: "router_le t u"
  have "clients_le s u"
    using st tu unfolding router_le_def clients_le_def by (metis revokeClient_idem)
  moreover have "runtimes_le s u"
  proof (unfold runtimes_le_def, intro allI impI)
    fix k a assume "mapGet (rt_runtimeAttachments s) k = Some a"
    then obtain x where x: "mapGet (rt_runtimeAttachments t) k = Some (a\<lparr>gra_status := x\<rparr>)"
      "gra_status a = AttRevoked \<longrightarrow> x = AttRevoked" using st unfolding router_le_def runtimes_le_def by blast
    then obtain y where "mapGet (rt_runtimeAttachments u) k = Some (a\<lparr>gra_status := x\<rparr>\<lparr>gra_status := y\<rparr>)"
      "x = AttRevoked \<longrightarrow> y = AttRevoked" using tu by (fastforce simp: router_le_def runtimes_le_def)
    with x show "\<exists>st. mapGet (rt_runtimeAttachments u) k = Some (a\<lparr>gra_status := st\<rparr>)
        \<and> (gra_status a = AttRevoked \<longrightarrow> st = AttRevoked)" by auto
  qed
  ultimately show ?thesis using st tu by (auto simp: router_le_def)
qed

lemma router_le_same:
  assumes "rt_clients s' = rt_clients s" and "rt_runtimeAttachments s' = rt_runtimeAttachments s"
    and "set (rt_routedIdempotencyKeys s) \<subseteq> set (rt_routedIdempotencyKeys s')" and "\<exists>events. rt_audit s' = rt_audit s @ events"
  shows "router_le s s'"
  using assms router_le_refl [of s] by (simp add: router_le_def clients_le_def runtimes_le_def)

lemma router_le_audit: "router_le s t \<Longrightarrow> router_le s (audit e t)"
  by (auto simp: router_le_def clients_le_def runtimes_le_def)

lemma router_le_revokeClientsWhere: "router_le s (revokeClientsWhere p s)"
  using router_le_refl [of s]
  by (auto simp: router_le_def clients_le_def runtimes_le_def) (simp add: revokeClientsWhere_def)

lemma router_le_revokeById: "router_le s (snd (revokeRuntimeAttachmentById i s))"
proof (cases "\<exists>a. mapGet (rt_runtimeAttachments s) i = Some a \<and> gra_status a \<noteq> AttRevoked")
  case False
  then show ?thesis using router_le_refl by (auto simp: revokeRuntimeAttachmentById_def split: option.split)
next
  case True
  then obtain a where a: "mapGet (rt_runtimeAttachments s) i = Some a" "gra_status a \<noteq> AttRevoked" by blast
  have drop: "router_le s t" if "rt_runtimeAttachments t = mapSet i (a\<lparr>gra_status := AttRevoked\<rparr>) (rt_runtimeAttachments s)"
    and "rt_clients t = rt_clients s" "rt_routedIdempotencyKeys t = rt_routedIdempotencyKeys s" "rt_audit t = rt_audit s" for t
    using that router_le_refl [of s] a by (auto simp: router_le_def clients_le_def runtimes_le_def)
  show ?thesis using a unfolding revokeRuntimeAttachmentById_def Let_def
    by (auto intro!: router_le_audit intro: router_le_trans [OF drop router_le_revokeClientsWhere])
qed

lemma router_le_revokeAttachmentsOf: "router_le s (snd (revokeAttachmentsOf inst ks s))"
proof (induction ks arbitrary: s)
  case Nil
  then show ?case by (simp add: router_le_refl)
next
  case (Cons k ks)
  show ?case
    using Cons.IH router_le_trans [OF router_le_revokeById Cons.IH]
    by (auto split: option.split prod.split) (metis snd_conv)
qed

lemma router_le_addRuntime:
  assumes "newId \<notin> fst ` set (rt_runtimeAttachments s)"
  shows "router_le s (snd (attachRuntime request authorized newId s))"
proof -
  have none: "mapGet (rt_runtimeAttachments s) newId = None" using assms by (simp add: map_of_eq_None_iff)
  have "router_le s (s\<lparr> rt_runtimeAttachments := mapSet newId a (rt_runtimeAttachments s), rt_latest := l \<rparr>)" for a l
    using router_le_refl [of s] none by (auto simp: router_le_def clients_le_def runtimes_le_def)
  then show ?thesis
    by (auto simp: attachRuntime_def Let_def router_le_refl intro: router_le_audit split: sum.split)
qed

lemma router_le_addClient:
  assumes "newId \<notin> fst ` set (rt_clients s)"
  shows "router_le s (snd (attachRemoteRuntimeClient opts request authorized newId s))"
proof -
  let ?r = "\<lambda>i d. revokeExistingRemoteRuntimeClientAttachmentsForTrustedDevice i d s"
  have revoked: "router_le s (?r i d)" for i d
    unfolding revokeExistingRemoteRuntimeClientAttachmentsForTrustedDevice_def by (rule router_le_revokeClientsWhere)
  have "newId \<notin> set (map fst (rt_clients (?r i d)))" for i d
    unfolding revokeExistingRemoteRuntimeClientAttachmentsForTrustedDevice_def revokeClientsWhere_sel(7) using assms by simp
  then have none: "mapGet (rt_clients (?r i d)) newId = None" for i d by (simp add: map_of_eq_None_iff)
  have "router_le (?r i d) ((?r i d)\<lparr> rt_clients := mapSet newId c (rt_clients (?r i d)) \<rparr>)" for i d c
    using router_le_refl [of "?r i d"] none by (auto simp: router_le_def clients_le_def runtimes_le_def)
  then have "router_le s ((?r i d)\<lparr> rt_clients := mapSet newId c (rt_clients (?r i d)) \<rparr>)" for i d c
    using revoked router_le_trans by blast
  then show ?thesis using revoked
    by (auto simp: attachRemoteRuntimeClient_def Let_def router_le_refl intro: router_le_audit split: sum.split option.split)
qed

lemma router_le_mark: "router_le s (snd (markRuntimeAttachmentStatus i st s))"
  using router_le_refl [of s]
  by (auto simp: markRuntimeAttachmentStatus_def router_le_def clients_le_def runtimes_le_def split: option.split)

lemma router_le_denied: "router_le s (snd (denied r c a s))"
  by (simp add: denied_def router_le_audit router_le_refl)

lemma router_le_route: "router_le s (snd (routeRuntimeOperation numText opts input s))"
proof -
  have rec: "router_le s (recordRouted f c a n s)" for f c a n
    unfolding recordRouted_def by (intro router_le_audit router_le_same) (auto split: option.split)
  have "router_le s (snd (routeAttached opts f c a s))" for f c a
    by (auto simp: routeAttached_def Let_def rec router_le_denied router_le_refl intro: router_le_audit split: sum.split)
  then show ?thesis
    by (simp add: routeRuntimeOperation_def router_le_denied router_le_refl split: sum.split reply_target.split option.split)
qed

lemma router_le_revokeClientAttachment: "router_le s (snd (revokeRemoteRuntimeClientAttachment i s))"
proof -
  have "router_le s (s\<lparr>rt_clients := mapSet i (revokeClient c) (rt_clients s)\<rparr>)" if "mapGet (rt_clients s) i = Some c" for c
    using router_le_refl [of s] that by (auto simp: router_le_def clients_le_def runtimes_le_def)
  then show ?thesis
    by (auto simp: revokeRemoteRuntimeClientAttachment_def router_le_refl intro: router_le_audit split: option.split)
qed

lemma router_le_step: "freshId op s \<Longrightarrow> router_le s (routerStep numText opts op s)"
proof (cases op)
  case (RecordStatus input)
  then show ?thesis
    by (auto simp: recordRuntimeStatus_def sequencerAccept_def Let_def router_le_refl intro: router_le_same
        split: sum.split option.split)
next
  case (RevokeInstallation inst)
  have "router_le t (t\<lparr>rt_latest := l\<rparr>)" for t l by (rule router_le_same) simp_all
  with RevokeInstallation router_le_revokeAttachmentsOf [of s inst "map fst (rt_runtimeAttachments s)"] show ?thesis
    by (auto simp: revokeRuntimeInstallation_def split: prod.split intro: router_le_trans)
qed (auto simp: markRuntimeAttachmentOnline_def markRuntimeAttachmentDegraded_def markRuntimeAttachmentUnavailable_def
      revokeTrustedRuntimeClient_def revokeRuntimeAttachment_def Let_def
      intro: router_le_addRuntime router_le_addClient router_le_route router_le_mark router_le_revokeClientsWhere
        router_le_revokeClientAttachment router_le_revokeById)

interpretation router_history: relation_monotone "router_step numText opts" router_le for numText opts
  by unfold_locales (auto simp: router_step_def intro: router_le_refl router_le_trans router_le_step)

section \<open>Routed operations\<close>

lemma routeAttached_Inr:
  assumes "routeAttached opts frame client runtime s = (Inr (destination, f), s')"
  shows "destination = runtime \<and> f = frame\<lparr>of_deviceTrustLevel := Some (rca_deviceTrustLevel client)\<rparr>
    \<and> (remoteRuntimeGatewayOperationClassRequiresIdempotency (of_operationClass frame) \<longrightarrow>
         authorizeFrameIdempotency frame (rca_clientAttachmentId client) s = Inr ())
    \<and> (\<forall>command. of_payload frame = Some command \<longrightarrow>
         (\<exists>p. authorizeRemoteRuntimeCommandWithPolicy command (gatewayAuthorizationContext f client runtime) = Inr p))
    \<and> (\<exists>used < ro_maxOperationsPerRemoteRuntimeClientAttachment opts. s' = recordRouted f client runtime used s
         \<and> used = (case mapGet (rt_operationCounts s) (rca_clientAttachmentId client) of None \<Rightarrow> 0 | Some n \<Rightarrow> n))"
  using assms unfolding routeAttached_def Let_def denied_def remoteRuntimeGatewayFailure_def
  by (auto split: if_splits sum.splits option.splits)

lemma route_Inr_raw:
  assumes "routeRuntimeOperation numText opts input s = (Inr r, s')"
  shows "\<exists>frame client runtime. validateRuntimeOperationFrame numText input maxRuntimeOperationPayloadBytes = Inr frame
    \<and> mapGet (rt_clients s) (of_clientAttachmentId frame) = Some client
    \<and> mapGet (rt_runtimeAttachments s) (of_gatewayRuntimeAttachmentId frame) = Some runtime
    \<and> rca_status client = ClientAttached \<and> remoteRuntimeGatewayRuntimeAttachmentCanRoute runtime
    \<and> rca_gatewayRuntimeAttachmentId client = gra_gatewayRuntimeAttachmentId runtime
    \<and> mapGet (rt_latest s) (gra_runtimeInstallationId runtime) = Some (gra_gatewayRuntimeAttachmentId runtime)
    \<and> routeAttached opts frame client runtime s = (Inr r, s')"
  using assms
  unfolding routeRuntimeOperation_def denied_def remoteRuntimeGatewayFailure_def
    createRemoteRuntimeGatewayRuntimeUnavailableResult_def
  by (auto split: if_splits sum.splits option.splits reply_target.splits)

lemma route_Inr:
  assumes "routeRuntimeOperation numText opts input s = (Inr (destination, f), s')"
  shows "\<exists>frame client. validateRuntimeOperationFrame numText input maxRuntimeOperationPayloadBytes = Inr frame
    \<and> mapGet (rt_clients s) (of_clientAttachmentId frame) = Some client
    \<and> mapGet (rt_runtimeAttachments s) (of_gatewayRuntimeAttachmentId frame) = Some destination
    \<and> rca_status client = ClientAttached \<and> remoteRuntimeGatewayRuntimeAttachmentCanRoute destination
    \<and> rca_gatewayRuntimeAttachmentId client = gra_gatewayRuntimeAttachmentId destination
    \<and> mapGet (rt_latest s) (gra_runtimeInstallationId destination) = Some (gra_gatewayRuntimeAttachmentId destination)
    \<and> routeAttached opts frame client destination s = (Inr (destination, f), s')"
proof -
  obtain frame client runtime where *: "validateRuntimeOperationFrame numText input maxRuntimeOperationPayloadBytes = Inr frame"
    "mapGet (rt_clients s) (of_clientAttachmentId frame) = Some client"
    "mapGet (rt_runtimeAttachments s) (of_gatewayRuntimeAttachmentId frame) = Some runtime"
    "rca_status client = ClientAttached" "remoteRuntimeGatewayRuntimeAttachmentCanRoute runtime"
    "rca_gatewayRuntimeAttachmentId client = gra_gatewayRuntimeAttachmentId runtime"
    "mapGet (rt_latest s) (gra_runtimeInstallationId runtime) = Some (gra_gatewayRuntimeAttachmentId runtime)"
    "routeAttached opts frame client runtime s = (Inr (destination, f), s')"
    using route_Inr_raw [OF assms] by blast
  moreover have "destination = runtime" using routeAttached_Inr [OF *(8)] by blast
  ultimately show ?thesis by blast
qed

lemma idempotency_Inr:
  "authorizeFrameIdempotency frame i s = Inr () \<longleftrightarrow>
     (\<exists>key. of_idempotencyKey frame = Some key \<and> key \<noteq> []
        \<and> remoteRuntimeGatewayIdempotencyScope i key \<notin> set (rt_routedIdempotencyKeys s))"
  by (auto simp: authorizeFrameIdempotency_def remoteRuntimeGatewayFailure_def split: option.splits)

lemma recordRouted_keys:
  "of_idempotencyKey f = Some key \<Longrightarrow> key \<noteq> [] \<Longrightarrow>
     remoteRuntimeGatewayIdempotencyScope (rca_clientAttachmentId client) key
       \<in> set (rt_routedIdempotencyKeys (recordRouted f client runtime used s))"
  by (simp add: recordRouted_def)

lemma routed_facts:
  assumes "router_reachable numText opts s"
    and "routeRuntimeOperation numText opts input s = (Inr (runtime, frame), s')"
  shows "\<exists>client. attached s (of_clientAttachmentId frame) client
    \<and> mapGet (rt_runtimeAttachments s) (of_gatewayRuntimeAttachmentId frame) = Some runtime
    \<and> rca_gatewayRuntimeAttachmentId client = of_gatewayRuntimeAttachmentId frame
    \<and> remoteRuntimeGatewayRuntimeAttachmentCanRoute runtime
    \<and> mapGet (rt_latest s) (gra_runtimeInstallationId runtime) = Some (of_gatewayRuntimeAttachmentId frame)
    \<and> gra_accountId runtime = rca_accountId client
    \<and> of_deviceTrustLevel frame = Some (rca_deviceTrustLevel client)
    \<and> (of_payload frame \<noteq> None \<longrightarrow> of_operationClass frame = MetadataRead \<and> Paired \<le> rca_deviceTrustLevel client
         \<and> gra_attachmentCapabilities runtime \<noteq> [])
    \<and> (remoteRuntimeGatewayOperationClassRequiresIdempotency (of_operationClass frame) \<longrightarrow>
        (\<exists>key. of_idempotencyKey frame = Some key \<and> key \<noteq> []
           \<and> remoteRuntimeGatewayIdempotencyScope (of_clientAttachmentId frame) key \<notin> set (rt_routedIdempotencyKeys s)
           \<and> remoteRuntimeGatewayIdempotencyScope (of_clientAttachmentId frame) key \<in> set (rt_routedIdempotencyKeys s')))"
proof -
  obtain f client where *: "mapGet (rt_clients s) (of_clientAttachmentId f) = Some client"
    "mapGet (rt_runtimeAttachments s) (of_gatewayRuntimeAttachmentId f) = Some runtime"
    "rca_status client = ClientAttached" "remoteRuntimeGatewayRuntimeAttachmentCanRoute runtime"
    "rca_gatewayRuntimeAttachmentId client = gra_gatewayRuntimeAttachmentId runtime"
    "mapGet (rt_latest s) (gra_runtimeInstallationId runtime) = Some (gra_gatewayRuntimeAttachmentId runtime)"
    and routed: "routeAttached opts f client runtime s = (Inr (runtime, frame), s')"
    using route_Inr [OF assms(2)] by blast
  note inv = reachable_inv [OF assms(1)]
  have ids: "rca_clientAttachmentId client = of_clientAttachmentId f"
    "gra_gatewayRuntimeAttachmentId runtime = of_gatewayRuntimeAttachmentId f"
    using inv *(1,2) by (auto simp: router_inv_def clients_wf_def runtimes_wf_def)
  have account: "gra_accountId runtime = rca_accountId client"
    using inv *(1,2,5) ids unfolding router_inv_def clients_wf_def by fastforce
  note r = routeAttached_Inr [OF routed]
  then have frame: "frame = f\<lparr>of_deviceTrustLevel := Some (rca_deviceTrustLevel client)\<rparr>" by blast
  have clear: "of_operationClass frame = MetadataRead \<and> Paired \<le> rca_deviceTrustLevel client
      \<and> gra_attachmentCapabilities runtime \<noteq> []" if "of_payload frame = Some command" for command
  proof -
    have "of_payload f = Some command" using that frame by simp
    then obtain p where p: "authorizeRemoteRuntimeCommandWithPolicy command (gatewayAuthorizationContext frame client runtime) = Inr p"
      using r by blast
    from authorized_facts [OF p] show ?thesis by (auto simp: gatewayAuthorizationContext_def)
  qed
  have idem: "\<exists>key. of_idempotencyKey frame = Some key \<and> key \<noteq> []
        \<and> remoteRuntimeGatewayIdempotencyScope (of_clientAttachmentId frame) key \<notin> set (rt_routedIdempotencyKeys s)
        \<and> remoteRuntimeGatewayIdempotencyScope (of_clientAttachmentId frame) key \<in> set (rt_routedIdempotencyKeys s')"
    if "remoteRuntimeGatewayOperationClassRequiresIdempotency (of_operationClass frame)"
    using r that recordRouted_keys [of frame _ client runtime _ s] unfolding idempotency_Inr by (fastforce simp: frame ids)
  show ?thesis using * ids account clear idem frame by (auto simp: attached_def)
qed

section \<open>Properties\<close>

text \<open>C2: In every reachable state of the router its maps agree: an attachment is stored under its own id; the latest
  runtime of an installation exists, belongs to it and is not revoked; every client belongs to an
  existing runtime of the same account and installation, and an attached one to a runtime that is not
  revoked; a device has at most one attached client per runtime and a runtime at most the allowed
  number; no client exceeds its operation budget; a stored status is the last one accepted for a runtime that is not
  revoked; and the audit log has one routed event per counted operation.\<close>
theorem router_invariant: "router_reachable numText opts s \<Longrightarrow> router_inv opts s"
  by (rule reachable_inv)

definition sampleRegistration :: js where
  "sampleRegistration = JObj [(''protocolVersion'', JStr ''2026-05-08''), (''requestId'', JStr ''r0''),
     (''accountId'', JStr ''acc''), (''directoryId'', JStr ''d''), (''directoryPath'', JStr ''/p''),
     (''runtimeInstallationId'', JStr ''inst''), (''connectorVersion'', JStr ''1''),
     (''attachmentCapabilities'', JArr [JStr ''runtime.metadata'']), (''ticket'', JStr ''t'')]"

definition sampleClientRequest :: js where
  "sampleClientRequest = JObj [(''protocolVersion'', JStr ''2026-05-08''), (''requestId'', JStr ''r1''),
     (''accountId'', JStr ''acc''), (''runtimeInstallationId'', JStr ''inst''),
     (''trustedRuntimeClientId'', JStr ''dev''), (''ticket'', JStr ''t'')]"

definition sampleOps :: "router_op list" where
  "sampleOps = [AttachRuntime sampleRegistration True ''g1'', AttachClient sampleClientRequest True ''a1'']"

definition sampleRouter :: router where
  "sampleRouter = fold (routerStep (\<lambda>_. ''0'') defaultRouterOptions) sampleOps createRemoteRuntimeGatewayRouter"

lemma sampleRouter_reachable: "router_reachable (\<lambda>_. ''0'') defaultRouterOptions sampleRouter"
proof -
  have "freshId (AttachClient sampleClientRequest True ''a1'')
      (routerStep (\<lambda>_. ''0'') defaultRouterOptions (AttachRuntime sampleRegistration True ''g1'') createRemoteRuntimeGatewayRouter)"
    by code_simp
  moreover have "freshId (AttachRuntime sampleRegistration True ''g1'') createRemoteRuntimeGatewayRouter" by code_simp
  ultimately show ?thesis unfolding sampleRouter_def sampleOps_def fold.simps comp_apply id_apply
    by (intro reach_step reach_init)
qed

theorem router_invariant_witness: "router_inv defaultRouterOptions sampleRouter \<and> length (rt_clients sampleRouter) = 1"
proof -
  have "length (rt_clients sampleRouter) = 1" by code_simp
  with router_invariant [OF sampleRouter_reachable] show ?thesis by simp
qed

text \<open>C3: An operation is routed only between a client that is attached and the runtime it is attached to, when that runtime can
  route and is the latest of its installation, for the same account; the frame sent on carries the
  trust level recorded at attachment, whatever the frame claimed; a clear payload is only ever a
  metadata read that the policy authorises for that trust level and capability; and a state-changing
  operation has an idempotency key that this client has not used before, which is now recorded.\<close>
theorem routed_operation_authorized:
  assumes "router_reachable numText opts s"
    and "routeRuntimeOperation numText opts input s = (Inr (runtime, frame), s')"
  shows "\<exists>client. attached s (of_clientAttachmentId frame) client
    \<and> mapGet (rt_runtimeAttachments s) (of_gatewayRuntimeAttachmentId frame) = Some runtime
    \<and> rca_gatewayRuntimeAttachmentId client = of_gatewayRuntimeAttachmentId frame
    \<and> remoteRuntimeGatewayRuntimeAttachmentCanRoute runtime
    \<and> mapGet (rt_latest s) (gra_runtimeInstallationId runtime) = Some (of_gatewayRuntimeAttachmentId frame)
    \<and> gra_accountId runtime = rca_accountId client
    \<and> of_deviceTrustLevel frame = Some (rca_deviceTrustLevel client)
    \<and> (of_payload frame \<noteq> None \<longrightarrow> of_operationClass frame = MetadataRead \<and> Paired \<le> rca_deviceTrustLevel client
         \<and> gra_attachmentCapabilities runtime \<noteq> [])
    \<and> (remoteRuntimeGatewayOperationClassRequiresIdempotency (of_operationClass frame) \<longrightarrow>
        (\<exists>key. of_idempotencyKey frame = Some key \<and> key \<noteq> []
           \<and> remoteRuntimeGatewayIdempotencyScope (of_clientAttachmentId frame) key \<notin> set (rt_routedIdempotencyKeys s)
           \<and> remoteRuntimeGatewayIdempotencyScope (of_clientAttachmentId frame) key \<in> set (rt_routedIdempotencyKeys s')))"
  using assms by (rule routed_facts)

lemma sampleRoute:
  "routeRuntimeOperation (\<lambda>_. ''0'') defaultRouterOptions sampleFrame sampleRouter
   = (case mapGet (rt_clients sampleRouter) ''a1'' of Some client \<Rightarrow>
       (case mapGet (rt_runtimeAttachments sampleRouter) ''g1'' of Some runtime \<Rightarrow>
          routeAttached defaultRouterOptions sampleParsedFrame client runtime sampleRouter))"
proof -
  have "runtimeOperationFrameReplyTarget sampleParsedFrame = RemoteRuntimeAttachmentTarget ''a1''"
    and "of_clientAttachmentId sampleParsedFrame = ''a1''" and "of_gatewayRuntimeAttachmentId sampleParsedFrame = ''g1''"
    by code_simp+
  moreover have "case mapGet (rt_clients sampleRouter) ''a1'' of None \<Rightarrow> False | Some client \<Rightarrow>
      (case mapGet (rt_runtimeAttachments sampleRouter) ''g1'' of None \<Rightarrow> False | Some runtime \<Rightarrow>
         rca_status client = ClientAttached \<and> remoteRuntimeGatewayRuntimeAttachmentCanRoute runtime
       \<and> rca_gatewayRuntimeAttachmentId client = gra_gatewayRuntimeAttachmentId runtime
       \<and> mapGet (rt_latest sampleRouter) (gra_runtimeInstallationId runtime) = Some (gra_gatewayRuntimeAttachmentId runtime))"
    by code_simp
  ultimately show ?thesis
    by (auto simp: routeRuntimeOperation_def sampleFrame_valid split: option.splits)
qed

theorem routed_operation_authorized_witness:
  "\<exists>runtime frame s'. routeRuntimeOperation (\<lambda>_. ''0'') defaultRouterOptions sampleFrame sampleRouter
       = (Inr (runtime, frame), s') \<and> of_deviceTrustLevel frame \<noteq> None"
proof -
  have "case mapGet (rt_clients sampleRouter) ''a1'' of None \<Rightarrow> False | Some client \<Rightarrow>
      (case mapGet (rt_runtimeAttachments sampleRouter) ''g1'' of None \<Rightarrow> False | Some runtime \<Rightarrow>
         \<not> isl (fst (routeAttached defaultRouterOptions sampleParsedFrame client runtime sampleRouter)))"
    by code_simp
  then obtain runtime frame s' where r: "routeRuntimeOperation (\<lambda>_. ''0'') defaultRouterOptions sampleFrame sampleRouter
       = (Inr (runtime, frame), s')"
    unfolding sampleRoute by (auto split: option.splits) (metis isl_def prod.collapse sum.exhaust_sel)
  from routed_operation_authorized [OF sampleRouter_reachable r] r show ?thesis by auto
qed

text \<open>C4: A state-changing operation is routed at most once per client and idempotency key: after one was routed,
  whatever the router does in between, another state-changing frame that is routed for the same client
  carries another key.\<close>
theorem idempotency_key_routed_once:
  assumes "router_reachable numText opts s"
    and "routeRuntimeOperation numText opts input s = (Inr (runtime, frame), s1)"
    and "(router_step numText opts)\<^sup>*\<^sup>* s1 s2"
    and "routeRuntimeOperation numText opts input' s2 = (Inr (runtime', frame'), s3)"
    and "remoteRuntimeGatewayOperationClassRequiresIdempotency (of_operationClass frame)"
    and "remoteRuntimeGatewayOperationClassRequiresIdempotency (of_operationClass frame')"
    and "of_clientAttachmentId frame' = of_clientAttachmentId frame"
  shows "of_idempotencyKey frame' \<noteq> of_idempotencyKey frame"
proof -
  have "s1 = routerStep numText opts (RouteOperation input) s" using assms(2) by simp
  then have "router_reachable numText opts s1" using reach_step [OF assms(1), of "RouteOperation input"] by simp
  then have reach2: "router_reachable numText opts s2" using reachable_steps assms(3) by blast
  have grow: "set (rt_routedIdempotencyKeys s1) \<subseteq> set (rt_routedIdempotencyKeys s2)"
    using router_history.steps_le [OF assms(3)] by (simp add: router_le_def)
  show ?thesis
    using routed_facts [OF assms(1,2)] routed_facts [OF reach2 assms(4)] assms(5-7) grow by auto
qed

definition sampleMutation :: "string \<Rightarrow> js" where
  "sampleMutation key = JObj [(''type'', JStr ''runtime.operation''), (''protocolVersion'', JStr ''2026-05-08''),
     (''requestId'', JStr ''r1''), (''gatewayRuntimeAttachmentId'', JStr ''g1''), (''clientAttachmentId'', JStr ''a1''),
     (''operationClass'', JStr ''mutation''), (''idempotencyKey'', JStr key),
     (''encryptedPayload'', JObj [(''algorithm'', JStr ''aes-256-gcm''), (''contentType'', JStr ''runtimeWebSocketClientCommand''),
        (''keyId'', JStr ''k''), (''nonce'', JStr ''n''), (''ciphertext'', JStr ''c'')])]"

definition sampleMutationFrame :: "string \<Rightarrow> operation_frame" where
  "sampleMutationFrame key = operationFrameValue (sampleMutation key) Mutation (RemoteRuntimeAttachmentTarget ''a1'')
     (Some \<lparr> ep_ciphertext = ''c'', ep_keyId = ''k'', ep_nonce = ''n'' \<rparr>) None"

definition sampleRouted :: "string \<Rightarrow> router \<Rightarrow> (failure_envelope + runtime_attachment \<times> operation_frame) \<times> router" where
  "sampleRouted key s = routeAttached defaultRouterOptions (sampleMutationFrame key)
     (the (mapGet (rt_clients s) ''a1'')) (the (mapGet (rt_runtimeAttachments s) ''g1'')) s"

definition sampleLive :: "string \<Rightarrow> router \<Rightarrow> bool" where
  "sampleLive key s \<longleftrightarrow>
     validateRuntimeOperationFrame (\<lambda>_. ''0'') (sampleMutation key) 512 = Inr (sampleMutationFrame key)
   \<and> runtimeOperationFrameReplyTarget (sampleMutationFrame key) = RemoteRuntimeAttachmentTarget ''a1''
   \<and> (case mapGet (rt_clients s) ''a1'' of None \<Rightarrow> False | Some client \<Rightarrow>
      (case mapGet (rt_runtimeAttachments s) ''g1'' of None \<Rightarrow> False | Some runtime \<Rightarrow>
         rca_status client = ClientAttached \<and> remoteRuntimeGatewayRuntimeAttachmentCanRoute runtime
       \<and> rca_gatewayRuntimeAttachmentId client = gra_gatewayRuntimeAttachmentId runtime
       \<and> mapGet (rt_latest s) (gra_runtimeInstallationId runtime) = Some (gra_gatewayRuntimeAttachmentId runtime)))
   \<and> \<not> isl (fst (sampleRouted key s))"

lemma sampleRoute_eq:
  assumes "sampleLive key s"
  shows "routeRuntimeOperation (\<lambda>_. ''0'') defaultRouterOptions (sampleMutation key) s = sampleRouted key s"
proof -
  have ids: "of_clientAttachmentId (sampleMutationFrame key) = ''a1''" "of_gatewayRuntimeAttachmentId (sampleMutationFrame key) = ''g1''"
    by (simp_all add: sampleMutationFrame_def operationFrameValue_def sampleMutation_def)
  have valid: "validateRuntimeOperationFrame (\<lambda>_. ''0'') (sampleMutation key) maxRuntimeOperationPayloadBytes
      = Inr (sampleMutationFrame key)"
    by (rule operationFrame_limit_mono [of _ _ 512]) (use assms in \<open>simp_all add: sampleLive_def maxRuntimeOperationPayloadBytes_def\<close>)
  show ?thesis
    using assms by (auto simp: routeRuntimeOperation_def sampleLive_def valid ids sampleRouted_def split: option.splits)
qed

lemma sampleMutation_routed:
  assumes "sampleLive key s"
  shows "\<exists>runtime f. routeRuntimeOperation (\<lambda>_. ''0'') defaultRouterOptions (sampleMutation key) s
      = (Inr (runtime, f), snd (sampleRouted key s))
    \<and> of_clientAttachmentId f = ''a1'' \<and> of_operationClass f = Mutation
    \<and> f = (sampleMutationFrame key)\<lparr>of_deviceTrustLevel := Some (rca_deviceTrustLevel (the (mapGet (rt_clients s) ''a1'')))\<rparr>"
proof -
  have ids: "of_clientAttachmentId (sampleMutationFrame key) = ''a1''" "of_gatewayRuntimeAttachmentId (sampleMutationFrame key) = ''g1''"
    "of_operationClass (sampleMutationFrame key) = Mutation"
    by (simp_all add: sampleMutationFrame_def operationFrameValue_def sampleMutation_def)
  note eq = sampleRoute_eq [OF assms]
  obtain destination f where r: "sampleRouted key s = (Inr (destination, f), snd (sampleRouted key s))"
    using assms by (cases "fst (sampleRouted key s)") (auto simp: sampleLive_def prod_eq_iff)
  have f: "f = (sampleMutationFrame key)\<lparr>of_deviceTrustLevel := Some (rca_deviceTrustLevel (the (mapGet (rt_clients s) ''a1'')))\<rparr>"
    using routeAttached_Inr [OF r [unfolded sampleRouted_def]] by blast
  then have "of_clientAttachmentId f = ''a1'' \<and> of_operationClass f = Mutation" using ids by simp
  with r f show ?thesis unfolding eq by blast
qed

theorem idempotency_key_routed_once_witness:
  "\<exists>runtime f s1 runtime' f' s2.
     routeRuntimeOperation (\<lambda>_. ''0'') defaultRouterOptions (sampleMutation ''i1'') sampleRouter = (Inr (runtime, f), s1)
   \<and> routeRuntimeOperation (\<lambda>_. ''0'') defaultRouterOptions (sampleMutation ''i2'') s1 = (Inr (runtime', f'), s2)
   \<and> of_idempotencyKey f' \<noteq> of_idempotencyKey f"
proof -
  let ?s1 = "snd (sampleRouted ''i1'' sampleRouter)"
  have live: "sampleLive ''i1'' sampleRouter" "sampleLive ''i2'' ?s1" by code_simp+
  obtain r1 f1 where one: "routeRuntimeOperation (\<lambda>_. ''0'') defaultRouterOptions (sampleMutation ''i1'') sampleRouter
      = (Inr (r1, f1), ?s1)" "of_clientAttachmentId f1 = ''a1''" "of_operationClass f1 = Mutation"
    using sampleMutation_routed [OF live(1)] by blast
  obtain r2 f2 where two: "routeRuntimeOperation (\<lambda>_. ''0'') defaultRouterOptions (sampleMutation ''i2'') ?s1
      = (Inr (r2, f2), snd (sampleRouted ''i2'' ?s1))" "of_clientAttachmentId f2 = ''a1''" "of_operationClass f2 = Mutation"
    using sampleMutation_routed [OF live(2)] by blast
  have "of_idempotencyKey f2 \<noteq> of_idempotencyKey f1"
    by (rule idempotency_key_routed_once [OF sampleRouter_reachable one(1) rtranclp.rtrancl_refl two(1)])
      (simp_all add: one two remoteRuntimeGatewayOperationClassRequiresIdempotency_def)
  with one(1) two(1) show ?thesis by blast
qed

text \<open>C19: Revocation is permanent and recorded: in every later state a revoked client or runtime attachment is still revoked
  and otherwise unchanged, no operation is routed for it, and the audit log still begins with what
  it held before.\<close>
theorem revocation_permanent:
  assumes "router_reachable numText opts s" and "(router_step numText opts)\<^sup>*\<^sup>* s s'"
  shows "(\<forall>k c. mapGet (rt_clients s) k = Some c \<and> rca_status c = ClientRevoked \<longrightarrow> mapGet (rt_clients s') k = Some c)
    \<and> (\<forall>k a. mapGet (rt_runtimeAttachments s) k = Some a \<and> gra_status a = AttRevoked \<longrightarrow> mapGet (rt_runtimeAttachments s') k = Some a)
    \<and> (\<forall>input runtime frame s''. routeRuntimeOperation numText opts input s' = (Inr (runtime, frame), s'') \<longrightarrow>
         \<not> (\<exists>c. mapGet (rt_clients s) (of_clientAttachmentId frame) = Some c \<and> rca_status c = ClientRevoked)
       \<and> \<not> (\<exists>a. mapGet (rt_runtimeAttachments s) (of_gatewayRuntimeAttachmentId frame) = Some a \<and> gra_status a = AttRevoked))
    \<and> (\<exists>events. rt_audit s' = rt_audit s @ events)"
proof -
  have le: "router_le s s'" using assms(2) by (rule router_history.steps_le)
  have reach: "router_reachable numText opts s'" using assms by (rule reachable_steps [rotated])
  have clients: "mapGet (rt_clients s') k = Some c" if "mapGet (rt_clients s) k = Some c" "rca_status c = ClientRevoked" for k c
  proof -
    have "revokeClient c = c" using that(2) by (simp add: revokeClient_def)
    with that(1) le show ?thesis by (fastforce simp: router_le_def clients_le_def)
  qed
  have runtimes: "mapGet (rt_runtimeAttachments s') k = Some a"
    if "mapGet (rt_runtimeAttachments s) k = Some a" "gra_status a = AttRevoked" for k a
  proof -
    have "a\<lparr>gra_status := AttRevoked\<rparr> = a" using that(2) by simp
    with that le show ?thesis by (fastforce simp: router_le_def runtimes_le_def)
  qed
  have "\<not> (\<exists>c. mapGet (rt_clients s) (of_clientAttachmentId frame) = Some c \<and> rca_status c = ClientRevoked)
       \<and> \<not> (\<exists>a. mapGet (rt_runtimeAttachments s) (of_gatewayRuntimeAttachmentId frame) = Some a \<and> gra_status a = AttRevoked)"
    if "routeRuntimeOperation numText opts input s' = (Inr (runtime, frame), s'')" for input runtime frame s''
    using routed_facts [OF reach that] clients runtimes
    by (auto simp: attached_def remoteRuntimeGatewayRuntimeAttachmentCanRoute_def)
  with clients runtimes le show ?thesis by (auto simp: router_le_def)
qed

theorem revocation_permanent_witness:
  "\<exists>s s' c. (router_step (\<lambda>_. ''0'') defaultRouterOptions)\<^sup>*\<^sup>* s s'
     \<and> mapGet (rt_clients s) ''a1'' = Some c \<and> rca_status c = ClientRevoked \<and> mapGet (rt_clients s') ''a1'' = Some c"
proof -
  let ?step = "routerStep (\<lambda>_. ''0'') defaultRouterOptions"
  let ?s = "?step (RevokeClientAttachment ''a1'') sampleRouter"
  let ?op = "AttachClient sampleClientRequest True ''a2''"
  have reach: "router_reachable (\<lambda>_. ''0'') defaultRouterOptions ?s"
    using sampleRouter_reachable by (rule reach_step) simp
  have "freshId ?op ?s" by code_simp
  then have steps: "(router_step (\<lambda>_. ''0'') defaultRouterOptions)\<^sup>*\<^sup>* ?s (?step ?op ?s)"
    by (intro r_into_rtranclp) (auto simp: router_step_def simp del: routerStep.simps freshId.simps)
  have "case mapGet (rt_clients ?s) ''a1'' of None \<Rightarrow> False | Some c \<Rightarrow> rca_status c = ClientRevoked" by code_simp
  then obtain c where c: "mapGet (rt_clients ?s) ''a1'' = Some c" "rca_status c = ClientRevoked" by (auto split: option.splits)
  from revocation_permanent [OF reach steps] c steps show ?thesis by blast
qed

lemma attachClient_cases:
  assumes "attachRemoteRuntimeClient opts request authorized newId s = (Some (Inr c), s')"
  shows "authorized \<and> (\<exists>t. t = revokeExistingRemoteRuntimeClientAttachmentsForTrustedDevice
      (rca_gatewayRuntimeAttachmentId c) (rca_trustedRuntimeClientId c) s
    \<and> rt_clients s' = mapSet newId c (rt_clients t) \<and> rca_status c = ClientAttached
    \<and> remoteRuntimeClientAttachmentCount (rca_gatewayRuntimeAttachmentId c) t < ro_maxRemoteRuntimeClientAttachmentsPerRuntime opts)"
  using assms unfolding attachRemoteRuntimeClient_def Let_def remoteRuntimeGatewayFailure_def
  by (auto simp: clientOf_def split: sum.splits option.splits if_splits)

text \<open>Attaching a client always answers, with an attachment or a failure envelope. When it attaches, the ticket authority agreed, the new
  attachment is the only attached one of that device on that runtime, and the attachments of
  other devices and of other runtimes are untouched.\<close>
theorem client_attach_supersedes:
  assumes "router_reachable numText opts s" and "newId \<notin> fst ` set (rt_clients s)"
  shows "fst (attachRemoteRuntimeClient opts request authorized newId s) \<noteq> None
    \<and> (\<forall>c s'. attachRemoteRuntimeClient opts request authorized newId s = (Some (Inr c), s') \<longrightarrow>
         authorized \<and> attached s' newId c
       \<and> (\<forall>k c'. attached s' k c' \<and> rca_gatewayRuntimeAttachmentId c' = rca_gatewayRuntimeAttachmentId c
            \<and> rca_trustedRuntimeClientId c' = rca_trustedRuntimeClientId c \<longrightarrow> k = newId)
       \<and> (\<forall>k c'. attached s k c' \<and> (rca_gatewayRuntimeAttachmentId c' \<noteq> rca_gatewayRuntimeAttachmentId c
            \<or> rca_trustedRuntimeClientId c' \<noteq> rca_trustedRuntimeClientId c) \<longrightarrow> attached s' k c'))"
proof -
  note inv = reachable_inv [OF assms(1)]
  have "fst (attachRemoteRuntimeClient opts request authorized newId s) \<noteq> None"
    using inv unfolding attachRemoteRuntimeClient_def Let_def router_inv_def latest_wf_def
    by (fastforce split: sum.splits option.splits if_splits)
  moreover have "authorized \<and> attached s' newId c
       \<and> (\<forall>k c'. attached s' k c' \<and> rca_gatewayRuntimeAttachmentId c' = rca_gatewayRuntimeAttachmentId c
            \<and> rca_trustedRuntimeClientId c' = rca_trustedRuntimeClientId c \<longrightarrow> k = newId)
       \<and> (\<forall>k c'. attached s k c' \<and> (rca_gatewayRuntimeAttachmentId c' \<noteq> rca_gatewayRuntimeAttachmentId c
            \<or> rca_trustedRuntimeClientId c' \<noteq> rca_trustedRuntimeClientId c) \<longrightarrow> attached s' k c')"
    if "attachRemoteRuntimeClient opts request authorized newId s = (Some (Inr c), s')" for c s'
  proof -
    let ?t = "revokeExistingRemoteRuntimeClientAttachmentsForTrustedDevice
      (rca_gatewayRuntimeAttachmentId c) (rca_trustedRuntimeClientId c) s"
    have *: "authorized" "rt_clients s' = mapSet newId c (rt_clients ?t)" "rca_status c = ClientAttached"
      using attachClient_cases [OF that] by blast+
    have t: "attached ?t k c' \<longleftrightarrow> attached s k c' \<and> \<not> (rca_gatewayRuntimeAttachmentId c' = rca_gatewayRuntimeAttachmentId c
        \<and> rca_trustedRuntimeClientId c' = rca_trustedRuntimeClientId c)" for k c'
      unfolding revokeExistingRemoteRuntimeClientAttachmentsForTrustedDevice_def attached_revokeClientsWhere ..
    have s': "attached s' k c' \<longleftrightarrow> (if k = newId then c' = c else attached ?t k c')" for k c'
      using *(2,3) by (auto simp: attached_def)
    have "\<not> attached s newId c'" for c' using assms(2) by (auto simp: attached_def dest!: map_of_SomeD intro: rev_image_eqI)
    with * s' t show ?thesis by auto
  qed
  ultimately show ?thesis by blast
qed

theorem client_attach_supersedes_witness:
  "fst (attachRemoteRuntimeClient defaultRouterOptions sampleClientRequest True ''a2'' sampleRouter) \<noteq> None"
proof -
  have "''a2'' \<notin> fst ` set (rt_clients sampleRouter)" by code_simp
  from client_attach_supersedes [OF sampleRouter_reachable this] show ?thesis by blast
qed

end
