(* ===== verification/Connector_Theorems.thy ===== *)
theory Connector_Theorems
  imports Local_Connector Router_Theorems
begin

text \<open>
  The local connector as a state machine, with its operations interleaved at the awaits: what it
  forwards is authorised, a state-changing command is forwarded at most once per client and key, and a
  revoked connector accepts nothing new.
\<close>

section \<open>Steps\<close>

datatype connector_op =
  Receive js "nat option" | Resume nat | Disconnect | Reconnect | Revoke | Status

fun connectorStep :: "(rat \<Rightarrow> string) \<Rightarrow> connector_options \<Rightarrow> connector_op \<Rightarrow> connector \<Rightarrow> connector" where
  "connectorStep numText opts (Receive input maxBytes) s = snd (receiveOperation numText opts input maxBytes s)"
| "connectorStep numText opts (Resume n) s = snd (resumeOperation opts n s)"
| "connectorStep numText opts Disconnect s = disconnectGateway s"
| "connectorStep numText opts Reconnect s = reconnectGateway s"
| "connectorStep numText opts Revoke s = snd (revokeConnector opts s)"
| "connectorStep numText opts Status s = snd (connectorStatus opts s)"

section \<open>The invariant\<close>

definition addressed :: "connector_options \<Rightarrow> operation_frame \<Rightarrow> bool" where
  "addressed opts frame \<longleftrightarrow> of_gatewayRuntimeAttachmentId frame = co_gatewayRuntimeAttachmentId opts
     \<and> (co_clientAttachmentId opts = None \<or> co_clientAttachmentId opts = Some (of_clientAttachmentId frame))"

definition command_ok :: "connector_options \<Rightarrow> forwarded \<Rightarrow> bool" where
  "command_ok opts fw \<longleftrightarrow> addressed opts (fw_frame fw) \<and> isRemoteRuntimeProtocolClientCommand (fw_command fw)
     \<and> (\<exists>p. authorizeRemoteRuntimeCommandWithPolicy (fw_command fw)
              (connectorAuthorizationContext opts (fw_frame fw) (fw_encrypted fw)) = Inr p)"

definition changes_state :: "forwarded \<Rightarrow> bool" where
  "changes_state fw \<longleftrightarrow> (case remoteRuntimeOperationPolicyForCommand (fw_command fw) of
     None \<Rightarrow> False | Some p \<Rightarrow> pt_idempotencyRequired p)"

definition scope_of :: "forwarded \<Rightarrow> string" where
  "scope_of fw = remoteRuntimeGatewayIdempotencyScope (of_clientAttachmentId (fw_frame fw))
     (case of_idempotencyKey (fw_frame fw) of Some key \<Rightarrow> key | None \<Rightarrow> [])"

definition scopes :: "connector \<Rightarrow> string list" where
  "scopes s = map scope_of (filter changes_state (cn_forwarded s))"

definition connector_inv :: "connector_options \<Rightarrow> connector \<Rightarrow> bool" where
  "connector_inv opts s \<longleftrightarrow>
     (\<forall>f\<in>set (cn_pending s). addressed opts f \<and> (\<forall>c. of_payload f = Some c \<longrightarrow> isRemoteRuntimeProtocolClientCommand c))
   \<and> (\<forall>fw\<in>set (cn_forwarded s). command_ok opts fw)
   \<and> distinct (scopes s) \<and> set (scopes s) = set (cn_executedIdempotencyKeys s)
   \<and> length (filter (\<lambda>a. ca_action a = CommandForwarded) (cn_audit s)) = length (cn_forwarded s)
   \<and> (cn_revoked s \<longrightarrow> \<not> cn_connected s)"

lemma auditCommand_sel [simp]:
  "cn_connected (auditCommand a f c e r s) = cn_connected s" "cn_revoked (auditCommand a f c e r s) = cn_revoked s"
  "cn_executedIdempotencyKeys (auditCommand a f c e r s) = cn_executedIdempotencyKeys s"
  "cn_pending (auditCommand a f c e r s) = cn_pending s" "cn_forwarded (auditCommand a f c e r s) = cn_forwarded s"
  "length (filter (\<lambda>a. ca_action a = CommandForwarded) (cn_audit (auditCommand a f c e r s)))
     = length (filter (\<lambda>a. ca_action a = CommandForwarded) (cn_audit s)) + (if a = CommandForwarded then 1 else 0)"
  by (simp_all add: auditCommand_def Let_def)

lemma connector_inv_denied:
  "connector_inv opts s \<Longrightarrow> connector_inv opts (auditCommand CommandDenied f c e r s)"
  by (simp add: connector_inv_def scopes_def)

lemma changes_state_iff:
  assumes "authorizeRemoteRuntimeCommandWithPolicy (fw_command fw) ctx = Inr p"
  shows "changes_state fw \<longleftrightarrow> pt_idempotencyRequired p"
  using authorized_facts [OF assms] by (simp add: changes_state_def)

lemma inv_executeCommand:
  assumes inv: "connector_inv opts s" and frame: "addressed opts frame" and command: "isRemoteRuntimeProtocolClientCommand command"
  shows "connector_inv opts (snd (executeCommand opts frame command encrypted s))"
proof (cases "authorizeRemoteRuntimeCommandWithPolicy command (connectorAuthorizationContext opts frame encrypted)")
  case (Inl e)
  then show ?thesis using inv by (simp add: executeCommand_def connector_inv_denied)
next
  case (Inr p)
  let ?fw = "\<lparr> fw_frame = frame, fw_command = command, fw_encrypted = encrypted \<rparr>"
  have ok: "command_ok opts ?fw" using frame command Inr by (simp add: command_ok_def)
  have changes: "changes_state ?fw \<longleftrightarrow> pt_idempotencyRequired p" using Inr by (intro changes_state_iff) simp
  have forward: "connector_inv opts (snd (forwardCommand frame command encrypted t))"
    if "cn_pending t = cn_pending s" "cn_forwarded t = cn_forwarded s" "cn_audit t = cn_audit s"
      "cn_revoked t = cn_revoked s" "cn_connected t = cn_connected s"
      and keys: "if pt_idempotencyRequired p then scope_of ?fw \<notin> set (cn_executedIdempotencyKeys s)
          \<and> set (cn_executedIdempotencyKeys t) = insert (scope_of ?fw) (set (cn_executedIdempotencyKeys s))
        else set (cn_executedIdempotencyKeys t) = set (cn_executedIdempotencyKeys s)" for t
    using inv that ok changes
    by (auto simp: connector_inv_def forwardCommand_def scopes_def Let_def split: if_splits)
  show ?thesis
  proof (cases "pt_idempotencyRequired p")
    case False
    then show ?thesis using Inr forward [of s] by (simp add: executeCommand_def)
  next
    case True
    show ?thesis
    proof (cases "scope_of ?fw \<in> set (cn_executedIdempotencyKeys s)")
      case True
      then show ?thesis using Inr inv \<open>pt_idempotencyRequired p\<close>
        by (simp add: executeCommand_def Let_def scope_of_def connector_inv_denied)
    next
      case False
      then show ?thesis
        using Inr \<open>pt_idempotencyRequired p\<close>
          forward [of "s\<lparr>cn_executedIdempotencyKeys := List.insert (scope_of ?fw) (cn_executedIdempotencyKeys s)\<rparr>"]
        by (simp add: executeCommand_def Let_def scope_of_def)
    qed
  qed
qed

lemma inv_dropPending:
  "connector_inv opts s \<Longrightarrow> connector_inv opts (s\<lparr>cn_pending := take n (cn_pending s) @ drop (Suc n) (cn_pending s)\<rparr>)"
  by (auto simp: connector_inv_def scopes_def dest: in_set_takeD in_set_dropD)

lemma commandForFrame_Inr:
  assumes "commandForFrame opts frame = Inr (command, encrypted)"
    and "\<forall>c. of_payload frame = Some c \<longrightarrow> isRemoteRuntimeProtocolClientCommand c"
  shows "isRemoteRuntimeProtocolClientCommand command \<and> (encrypted \<longleftrightarrow> of_payload frame = None)"
  using assms unfolding commandForFrame_def decryptionFailed_def
  by (auto split: option.splits sum.splits dest: validateRuntimeCommand_Inr)

lemma inv_resumeOperation:
  assumes inv: "connector_inv opts s"
  shows "connector_inv opts (snd (resumeOperation opts n s))"
proof (cases "n < length (cn_pending s)")
  case False
  then show ?thesis using inv by (simp add: resumeOperation_def)
next
  case True
  let ?s = "s\<lparr>cn_pending := take n (cn_pending s) @ drop (Suc n) (cn_pending s)\<rparr>" and ?f = "cn_pending s ! n"
  have f: "addressed opts ?f" "\<forall>c. of_payload ?f = Some c \<longrightarrow> isRemoteRuntimeProtocolClientCommand c"
    using inv nth_mem [OF True] by (auto simp: connector_inv_def)
  have "connector_inv opts (snd (executeCommand opts ?f command encrypted ?s))"
    if "commandForFrame opts ?f = Inr (command, encrypted)" for command encrypted
    using inv_dropPending [OF inv] f(1) commandForFrame_Inr [OF that f(2)] by (intro inv_executeCommand) simp_all
  with True inv_dropPending [OF inv] show ?thesis
    by (auto simp: resumeOperation_def Let_def split: sum.split prod.split)
qed

lemma inv_receiveOperation:
  assumes inv: "connector_inv opts s"
  shows "connector_inv opts (snd (receiveOperation numText opts input maxBytes s))"
proof -
  have "connector_inv opts (s\<lparr>cn_pending := cn_pending s @ [f]\<rparr>)"
    if "validateRuntimeOperationFrame numText input m = Inr f" "addressed opts f" for f m
    using inv that(2) accepted_frame_facts [OF that(1)] by (auto simp: connector_inv_def scopes_def)
  with inv show ?thesis
    by (auto simp: receiveOperation_def addressed_def split: sum.split)
qed

lemma inv_connection:
  "connector_inv opts s \<Longrightarrow> connector_inv opts (disconnectGateway s)"
  "connector_inv opts s \<Longrightarrow> connector_inv opts (reconnectGateway s)"
  "connector_inv opts s \<Longrightarrow> connector_inv opts (snd (revokeConnector opts s))"
  "connector_inv opts s \<Longrightarrow> connector_inv opts (snd (connectorStatus opts s))"
  by (simp_all add: disconnectGateway_def reconnectGateway_def revokeConnector_def connectorStatus_def Let_def
      connector_inv_def scopes_def)

interpretation connector_run: step_invariant "connectorStep numText opts" "connector_inv opts" for numText opts
proof
  fix s op assume "connector_inv opts s"
  then show "connector_inv opts (connectorStep numText opts op s)"
    by (cases op) (simp_all add: inv_receiveOperation inv_resumeOperation inv_connection)
qed

lemma inv_createLocalRuntimeConnector: "connector_inv opts createLocalRuntimeConnector"
  by (simp add: connector_inv_def createLocalRuntimeConnector_def scopes_def)

lemma reached_inv: "connector_inv opts (fold (connectorStep numText opts) ops createLocalRuntimeConnector)"
  by (rule connector_run.run_inv [OF inv_createLocalRuntimeConnector])

section \<open>Revocation\<close>

text \<open>Once revoked, a connector stays revoked, takes in nothing, and can only finish what was pending.\<close>

definition drains :: "connector \<Rightarrow> connector \<Rightarrow> bool" where
  "drains s t \<longleftrightarrow> (cn_revoked s \<longrightarrow> cn_revoked t \<and> set (cn_pending t) \<subseteq> set (cn_pending s)
     \<and> length (cn_pending t) + length (cn_forwarded t) \<le> length (cn_pending s) + length (cn_forwarded s)
     \<and> (\<exists>late. cn_forwarded t = cn_forwarded s @ late \<and> fw_frame ` set late \<subseteq> set (cn_pending s)))"

lemma drains_refl: "drains s s"
  by (simp add: drains_def)

lemma drains_trans: "drains s t \<Longrightarrow> drains t u \<Longrightarrow> drains s u"
proof -
  assume st: "drains s t" and tu: "drains t u"
  show ?thesis
  proof (unfold drains_def, intro impI)
    assume "cn_revoked s"
    then obtain l where t: "cn_revoked t" "set (cn_pending t) \<subseteq> set (cn_pending s)"
      "length (cn_pending t) + length (cn_forwarded t) \<le> length (cn_pending s) + length (cn_forwarded s)"
      "cn_forwarded t = cn_forwarded s @ l" "fw_frame ` set l \<subseteq> set (cn_pending s)"
      using st unfolding drains_def by blast
    then obtain k where u: "cn_revoked u" "set (cn_pending u) \<subseteq> set (cn_pending t)"
      "length (cn_pending u) + length (cn_forwarded u) \<le> length (cn_pending t) + length (cn_forwarded t)"
      "cn_forwarded u = cn_forwarded t @ k" "fw_frame ` set k \<subseteq> set (cn_pending t)"
      using tu unfolding drains_def by blast
    have "cn_forwarded u = cn_forwarded s @ (l @ k)" "fw_frame ` set (l @ k) \<subseteq> set (cn_pending s)"
      using t u by auto
    with t u show "cn_revoked u \<and> set (cn_pending u) \<subseteq> set (cn_pending s)
       \<and> length (cn_pending u) + length (cn_forwarded u) \<le> length (cn_pending s) + length (cn_forwarded s)
       \<and> (\<exists>late. cn_forwarded u = cn_forwarded s @ late \<and> fw_frame ` set late \<subseteq> set (cn_pending s))"
      by (meson le_trans subset_trans)
  qed
qed

lemma executeCommand_forwarded:
  "cn_revoked (snd (executeCommand opts f c e s)) = cn_revoked s
   \<and> cn_pending (snd (executeCommand opts f c e s)) = cn_pending s
   \<and> (cn_forwarded (snd (executeCommand opts f c e s)) = cn_forwarded s
      \<or> cn_forwarded (snd (executeCommand opts f c e s)) = cn_forwarded s @ [\<lparr> fw_frame = f, fw_command = c, fw_encrypted = e \<rparr>])"
  by (simp add: executeCommand_def forwardCommand_def Let_def split: sum.split)

lemma drains_resume: "drains s (snd (resumeOperation opts n s))"
proof (cases "n < length (cn_pending s)")
  case False
  then show ?thesis by (simp add: resumeOperation_def drains_refl)
next
  case True
  let ?s = "s\<lparr>cn_pending := take n (cn_pending s) @ drop (Suc n) (cn_pending s)\<rparr>" and ?f = "cn_pending s ! n"
  have sub: "set (cn_pending ?s) \<subseteq> set (cn_pending s)" "?f \<in> set (cn_pending s)"
    "Suc (length (cn_pending ?s)) = length (cn_pending s)"
    using True by (auto dest: in_set_takeD in_set_dropD)
  have "drains s ?s" using sub by (simp add: drains_def)
  moreover have "drains s (snd (executeCommand opts ?f c e ?s))" for c e
    using executeCommand_forwarded [of opts ?f c e ?s] sub by (auto simp: drains_def)
  ultimately show ?thesis using True
    by (auto simp: resumeOperation_def Let_def split: sum.split prod.split) (metis snd_conv)
qed

interpretation connector_history: step_monotone "connectorStep numText opts" drains for numText opts
proof
  show "drains s s" for s by (rule drains_refl)
  show "drains s t \<Longrightarrow> drains t u \<Longrightarrow> drains s u" for s t u by (rule drains_trans)
  show "drains s (connectorStep numText opts op s)" for s op
  proof (cases op)
    case (Receive input m)
    then show ?thesis by (simp add: drains_def receiveOperation_def)
  next
    case (Resume n)
    then show ?thesis by (simp add: drains_resume)
  qed (auto simp: drains_def disconnectGateway_def reconnectGateway_def revokeConnector_def connectorStatus_def Let_def)
qed

lemma forwarded_facts:
  assumes "fw \<in> set (cn_forwarded (fold (connectorStep numText opts) ops createLocalRuntimeConnector))"
  shows "of_gatewayRuntimeAttachmentId (fw_frame fw) = co_gatewayRuntimeAttachmentId opts
    \<and> isRemoteRuntimeProtocolClientCommand (fw_command fw)
    \<and> (\<exists>p. remoteRuntimeOperationPolicyForCommand (fw_command fw) = Some p
         \<and> pt_class p = of_operationClass (fw_frame fw)
         \<and> (\<exists>c. pt_requiredAttachmentCapability p = Some c \<and> c \<in> set (co_attachmentCapabilities opts)))
    \<and> (of_operationClass (fw_frame fw) \<noteq> MetadataRead \<longrightarrow> fw_encrypted fw \<or> isGatewayHttpFrame (fw_frame fw))
    \<and> (of_operationClass (fw_frame fw) \<noteq> MetadataRead \<longrightarrow>
         of_deviceTrustLevel (fw_frame fw) = Some Trusted
       \<or> (of_deviceTrustLevel (fw_frame fw) = None \<and> co_deviceTrustLevel opts = Some Trusted))"
proof -
  have ok: "command_ok opts fw" using reached_inv assms unfolding connector_inv_def by blast
  then obtain p where p: "authorizeRemoteRuntimeCommandWithPolicy (fw_command fw)
      (connectorAuthorizationContext opts (fw_frame fw) (fw_encrypted fw)) = Inr p" by (auto simp: command_ok_def)
  from authorized_facts [OF p] ok show ?thesis
    by (auto simp: connectorAuthorizationContext_def command_ok_def addressed_def split: option.splits)
qed

section \<open>Properties\<close>

definition sampleConnectorOptions :: connector_options where
  "sampleConnectorOptions =
     \<lparr> co_attachmentCapabilities = [CapMetadata, CapSensitiveRead, CapMutate], co_connectorVersion = ''1'',
       co_deviceTrustLevel = Some Trusted, co_featureCapabilities = None, co_gatewayRuntimeAttachmentId = ''g1'',
       co_clientAttachmentId = None, co_runtimeApiVersion = ''0.1.6'',
       co_decryptRuntimeCommand = Some (\<lambda>_ _. Some (sampleCommand ''goal.pause'' (JObj [(''sessionId'', JStr ''s'')]))) \<rparr>"

definition sampleRun :: "connector_op list \<Rightarrow> connector" where
  "sampleRun ops = fold (connectorStep (\<lambda>_. ''0'') sampleConnectorOptions) ops createLocalRuntimeConnector"

definition sampleMutations :: "connector_op list" where
  "sampleMutations = [Receive (sampleMutation ''i1'') (Some 512), Receive (sampleMutation ''i2'') (Some 512), Resume 1, Resume 0]"

text \<open>C8: However its operations, disconnects and revocations interleave, the connector hands the runtime each
  state-changing command at most once per client and idempotency key: two such commands it forwarded
  differ in client or in key. Each has a key, and every forwarded command is in the audit log.\<close>
theorem connector_executes_once:
  assumes "s = fold (connectorStep numText opts) ops createLocalRuntimeConnector"
    and "i < j" and "j < length (filter changes_state (cn_forwarded s))"
  shows "(of_clientAttachmentId (fw_frame (filter changes_state (cn_forwarded s) ! i)), of_idempotencyKey (fw_frame (filter changes_state (cn_forwarded s) ! i)))
      \<noteq> (of_clientAttachmentId (fw_frame (filter changes_state (cn_forwarded s) ! j)), of_idempotencyKey (fw_frame (filter changes_state (cn_forwarded s) ! j)))
    \<and> hasIdempotencyKey (of_idempotencyKey (fw_frame (filter changes_state (cn_forwarded s) ! j)))
    \<and> length (filter (\<lambda>a. ca_action a = CommandForwarded) (cn_audit s)) = length (cn_forwarded s)"
proof -
  note inv = reached_inv [of opts numText ops, folded assms(1)]
  let ?fws = "filter changes_state (cn_forwarded s)"
  have "scope_of (?fws ! i) \<noteq> scope_of (?fws ! j)"
    using inv assms(2,3) unfolding connector_inv_def scopes_def distinct_conv_nth by (auto dest: less_trans)
  then have differ: "(of_clientAttachmentId (fw_frame (?fws ! i)), of_idempotencyKey (fw_frame (?fws ! i)))
      \<noteq> (of_clientAttachmentId (fw_frame (?fws ! j)), of_idempotencyKey (fw_frame (?fws ! j)))"
    by (auto simp: scope_of_def)
  have "?fws ! j \<in> set ?fws" using assms(3) by (rule nth_mem)
  then have mem: "?fws ! j \<in> set (cn_forwarded s)" "changes_state (?fws ! j)" by auto
  then obtain p where p: "authorizeRemoteRuntimeCommandWithPolicy (fw_command (?fws ! j))
      (connectorAuthorizationContext opts (fw_frame (?fws ! j)) (fw_encrypted (?fws ! j))) = Inr p"
    using inv unfolding connector_inv_def command_ok_def by blast
  have "pt_idempotencyRequired p" using changes_state_iff [OF p] mem by simp
  then have "hasIdempotencyKey (of_idempotencyKey (fw_frame (?fws ! j)))"
    using authorize_Inr [OF p] by (simp add: connectorAuthorizationContext_def)
  with differ inv show ?thesis by (simp add: connector_inv_def)
qed

theorem connector_executes_once_witness:
  "(of_clientAttachmentId (fw_frame (filter changes_state (cn_forwarded (sampleRun sampleMutations)) ! 0)),
    of_idempotencyKey (fw_frame (filter changes_state (cn_forwarded (sampleRun sampleMutations)) ! 0)))
   \<noteq> (of_clientAttachmentId (fw_frame (filter changes_state (cn_forwarded (sampleRun sampleMutations)) ! 1)),
      of_idempotencyKey (fw_frame (filter changes_state (cn_forwarded (sampleRun sampleMutations)) ! 1)))"
proof -
  have "length (filter changes_state (cn_forwarded (sampleRun sampleMutations))) = 2" by code_simp
  then show ?thesis using connector_executes_once [OF sampleRun_def [of sampleMutations], of 0 1] by simp
qed

text \<open>A revoked connector stays revoked and takes in no operation; all it still forwards are operations that
  were waiting for decryption when it was revoked, each at most once.\<close>
theorem revoked_connector_drains:
  assumes "cn_revoked s" and "t = fold (connectorStep numText opts) ops s"
  shows "fst (receiveOperation numText opts input maxBytes t) = Inl (createAttachmentRevokedEnvelope ''revoked'' None)
    \<and> sf_status (fst (connectorStatus opts t)) = FrameRevoked
    \<and> (\<exists>late. cn_forwarded t = cn_forwarded s @ late \<and> fw_frame ` set late \<subseteq> set (cn_pending s)
         \<and> length late \<le> length (cn_pending s))"
proof -
  have "drains s t" unfolding assms(2) by (rule connector_history.run_le)
  then obtain late where t: "cn_revoked t" "cn_forwarded t = cn_forwarded s @ late" "fw_frame ` set late \<subseteq> set (cn_pending s)"
    "length (cn_pending t) + length (cn_forwarded t) \<le> length (cn_pending s) + length (cn_forwarded s)"
    using assms(1) unfolding drains_def by blast
  then have "length late \<le> length (cn_pending s)" by simp
  with t show ?thesis by (auto simp: receiveOperation_def connectorStatus_def Let_def)
qed

theorem revoked_connector_drains_witness:
  "fst (receiveOperation (\<lambda>_. ''0'') sampleConnectorOptions sampleFrame None (sampleRun [Revoke, Reconnect]))
   = Inl (createAttachmentRevokedEnvelope ''revoked'' None)"
proof -
  have "cn_revoked (sampleRun [Revoke])" by code_simp
  moreover have "sampleRun [Revoke, Reconnect] = fold (connectorStep (\<lambda>_. ''0'') sampleConnectorOptions) [Reconnect] (sampleRun [Revoke])"
    by (simp add: sampleRun_def)
  ultimately show ?thesis using revoked_connector_drains by blast
qed

text \<open>Revocation does not stop an operation in flight: a command whose decryption was awaited when
  \<open>revoke\<close> ran is still handed to the runtime afterwards, because the revoked flag is not read again
  after the await.\<close>
theorem revoked_connector_still_forwards:
  "let s = sampleRun [Receive (sampleMutation ''i1'') (Some 512), Revoke, Resume 0] in
     cn_revoked s \<and> length (cn_forwarded s) = 1"
  by code_simp

definition claimedGatewayFrame :: js where
  "claimedGatewayFrame = JObj [(''type'', JStr ''runtime.operation''), (''protocolVersion'', JStr ''2026-05-08''),
     (''requestId'', JStr ''r1''), (''gatewayRuntimeAttachmentId'', JStr ''g1''), (''clientAttachmentId'', JStr ''a1''),
     (''operationClass'', JStr ''sensitiveRead''), (''deviceTrustLevel'', JStr ''trusted''),
     (''replyTarget'', JObj [(''kind'', JStr ''gatewayHttpRequest''), (''gatewayHttpRequestId'', JStr ''a1'')]),
     (''payload'', sampleCommand ''agent.list'' (JObj []))]"

text \<open>The connector takes a frame for a gateway HTTP request by its reply target alone: a frame without the
  trusted marker that names a gateway HTTP request as its reply target gets a clear sensitive read
  forwarded. The router refuses such frames, so the connector relies on every frame having passed it.\<close>
theorem unmarked_gateway_frame_forwarded:
  "let s = sampleRun [Receive claimedGatewayFrame (Some 1024), Resume 0] in
     map (\<lambda>fw. (fw_encrypted fw, of_trustedGatewayHttpRequest (fw_frame fw), of_operationClass (fw_frame fw))) (cn_forwarded s)
       = [(False, False, SensitiveRead)]"
  by code_simp

end
