(* ===== verification/Frame_Transport.thy ===== *)
theory Frame_Transport
  imports Connector_Theorems
begin

text \<open>
  What happens to an operation frame between the router and the connector.  A frame that passed the validator is well
  formed (\<open>frame_wf\<close>), stays so when the router records the trust level of its client, and, serialised and
  validated again, is read back as it was.
\<close>

section \<open>From the router to the connector\<close>

text \<open>A frame as the router sends it on: what the validator guarantees of it.\<close>

definition frame_wf :: "operation_frame \<Rightarrow> bool" where
  "frame_wf f \<longleftrightarrow> of_requestId f \<noteq> [] \<and> of_gatewayRuntimeAttachmentId f \<noteq> [] \<and> of_clientAttachmentId f \<noteq> []
     \<and> of_idempotencyKey f \<noteq> Some [] \<and> of_protocolVersion f = remoteRuntimeTransportProtocolVersion
     \<and> (\<exists>t. of_replyTarget f = Some t \<and> (t = GatewayHttpRequestTarget (of_clientAttachmentId f)
          \<or> (t = RemoteRuntimeAttachmentTarget (of_clientAttachmentId f) \<and> \<not> of_trustedGatewayHttpRequest f)))
     \<and> ((\<exists>ep. of_encryptedPayload f = Some ep \<and> of_payload f = None \<and> ep_ciphertext ep \<noteq> [] \<and> ep_keyId ep \<noteq> [] \<and> ep_nonce ep \<noteq> [])
        \<or> (\<exists>c. of_encryptedPayload f = None \<and> of_payload f = Some c
             \<and> (\<forall>r. validateRuntimeCommand c r = Inr c)))"

lemma validateRuntimeCommand_again: "validateRuntimeCommand c r = Inr c' \<Longrightarrow> validateRuntimeCommand c r' = Inr c"
  by (auto simp: validateRuntimeCommand_def remoteRuntimeValidationFailure_def Let_def split: if_splits)

lemma validateRuntimeCommand_id: "validateRuntimeCommand c r = Inr c' \<Longrightarrow> c' = c"
  using validateRuntimeCommand_Inr by blast

lemma frame_wf_validated:
  assumes "validateRuntimeOperationFrame numText input m = Inr f"
  shows "frame_wf f"
proof -
  obtain cls target where *: 
    "validatedRuntimeOperationReplyTargetFromFrameAuthority (frameReplyAuthority input) (strOf (getProp input ''requestId'')) = Inr target"
    and payload: "(\<exists>ep. validateEncryptedRuntimePayload (getProp input ''encryptedPayload'') (strOf (getProp input ''requestId'')) = Inr ep
          \<and> f = operationFrameValue input cls target (Some ep) None)
       \<or> (\<exists>c. validateRuntimeCommand (getProp input ''payload'') (strOf (getProp input ''requestId'')) = Inr c
          \<and> f = operationFrameValue input cls target None (Some c))"
    using operationFrame_Inr [OF assms] by blast
  have target: "target = GatewayHttpRequestTarget (of_clientAttachmentId f)
      \<or> (target = RemoteRuntimeAttachmentTarget (of_clientAttachmentId f) \<and> \<not> of_trustedGatewayHttpRequest f)"
    and some: "of_replyTarget f = Some target"
    using validatedTarget_bound [OF *] payload by (auto simp: frameReplyAuthority_def operationFrameValue_def)
  have "(\<exists>ep. of_encryptedPayload f = Some ep \<and> of_payload f = None \<and> ep_ciphertext ep \<noteq> [] \<and> ep_keyId ep \<noteq> [] \<and> ep_nonce ep \<noteq> [])
        \<or> (\<exists>c. of_encryptedPayload f = None \<and> of_payload f = Some c \<and> (\<forall>r. validateRuntimeCommand c r = Inr c))"
    using payload
  proof
    assume "\<exists>ep. validateEncryptedRuntimePayload (getProp input ''encryptedPayload'') (strOf (getProp input ''requestId'')) = Inr ep
          \<and> f = operationFrameValue input cls target (Some ep) None"
    then show ?thesis using validateEncrypted_Inr by (fastforce simp: operationFrameValue_def)
  next
    assume "\<exists>c. validateRuntimeCommand (getProp input ''payload'') (strOf (getProp input ''requestId'')) = Inr c
          \<and> f = operationFrameValue input cls target None (Some c)"
    then show ?thesis using validateRuntimeCommand_again validateRuntimeCommand_id by (fastforce simp: operationFrameValue_def)
  qed
  with accepted_frame_facts [OF assms] target some show ?thesis by (auto simp: frame_wf_def)
qed

lemma operationFrameJson_getProp:
  "getProp (operationFrameJson f) ''type'' = JStr ''runtime.operation''"
  "getProp (operationFrameJson f) ''protocolVersion'' = JStr (of_protocolVersion f)"
  "getProp (operationFrameJson f) ''requestId'' = JStr (of_requestId f)"
  "getProp (operationFrameJson f) ''gatewayRuntimeAttachmentId'' = JStr (of_gatewayRuntimeAttachmentId f)"
  "getProp (operationFrameJson f) ''clientAttachmentId'' = JStr (of_clientAttachmentId f)"
  "getProp (operationFrameJson f) ''operationClass'' = JStr (operationClassText (of_operationClass f))"
  "getProp (operationFrameJson f) ''deviceTrustLevel'' = (case of_deviceTrustLevel f of None \<Rightarrow> JUndef | Some t \<Rightarrow> JStr (trustLevelText t))"
  "getProp (operationFrameJson f) ''idempotencyKey'' = (case of_idempotencyKey f of None \<Rightarrow> JUndef | Some k \<Rightarrow> JStr k)"
  "getProp (operationFrameJson f) ''trustedGatewayHttpRequest'' = (if of_trustedGatewayHttpRequest f then JBool True else JUndef)"
  "getProp (operationFrameJson f) ''replyTarget'' = replyTargetJson (of_replyTarget f)"
  "getProp (operationFrameJson f) ''encryptedPayload'' = encryptedPayloadJson (of_encryptedPayload f)"
  "getProp (operationFrameJson f) ''payload'' = (case of_payload f of None \<Rightarrow> JUndef | Some c \<Rightarrow> c)"
  "isRecord (operationFrameJson f)"
  by (simp_all add: operationFrameJson_def)

lemma trust_text [simp]: "trustLevelValue (JStr (trustLevelText t)) = Some t"
  by (simp only: trust_level_enum.enumValue_Some_iff)

lemma class_text [simp]: "operationClassValue (JStr (operationClassText c)) = Some c"
  by (simp only: operation_class_enum.enumValue_Some_iff)

lemma trust_undef [simp]: "trustLevelValue JUndef = None"
  by (simp add: enumValue_def)

lemma command_not_undef: "validateRuntimeCommand c r = Inr c' \<Longrightarrow> c \<noteq> JUndef"
  by (auto simp: validateRuntimeCommand_def remoteRuntimeValidationFailure_def Let_def split: if_splits)

lemma validatedTarget_again:
  assumes "i \<noteq> []" and "t = GatewayHttpRequestTarget i \<or> (t = RemoteRuntimeAttachmentTarget i \<and> \<not> trusted)"
  shows "validatedRuntimeOperationReplyTargetFromFrameAuthority
    \<lparr> ra_clientAttachmentId = i, ra_replyTarget = replyTargetJson (Some t), ra_trustedGatewayHttpRequest = trusted \<rparr> r = Inr t"
  using assms
  by (auto simp: replyTargetJson_def validatedRuntimeOperationReplyTargetFromFrameAuthority_def
      isNonEmptyRemoteRuntimeContractString_def runtimeOwnerForRemoteRuntimeAttachment_def)

lemma replyTarget_again:
  assumes "frame_wf f"
  shows "validatedRuntimeOperationReplyTargetFromFrameAuthority (frameReplyAuthority (operationFrameJson f)) r = Inr (the (of_replyTarget f))"
proof -
  obtain t where t: "of_replyTarget f = Some t" "of_clientAttachmentId f \<noteq> []"
    "t = GatewayHttpRequestTarget (of_clientAttachmentId f)
      \<or> (t = RemoteRuntimeAttachmentTarget (of_clientAttachmentId f) \<and> \<not> of_trustedGatewayHttpRequest f)"
    using assms unfolding frame_wf_def by blast
  have "frameReplyAuthority (operationFrameJson f) = \<lparr> ra_clientAttachmentId = of_clientAttachmentId f,
      ra_replyTarget = replyTargetJson (Some t), ra_trustedGatewayHttpRequest = of_trustedGatewayHttpRequest f \<rparr>"
    by (simp add: frameReplyAuthority_def operationFrameJson_getProp t)
  with validatedTarget_again [OF t(2,3)] t(1) show ?thesis by simp
qed

lemma frameValue_again:
  assumes "frame_wf f"
  shows "operationFrameValue (operationFrameJson f) (of_operationClass f) (the (of_replyTarget f)) (of_encryptedPayload f) (of_payload f) = f"
proof (rule operation_frame.equality)
  have "of_replyTarget f = Some (the (of_replyTarget f))" using assms by (auto simp: frame_wf_def)
  then show "of_replyTarget (operationFrameValue (operationFrameJson f) (of_operationClass f) (the (of_replyTarget f))
      (of_encryptedPayload f) (of_payload f)) = of_replyTarget f"
    by (simp add: operationFrameValue_def)
qed (simp_all add: operationFrameValue_def operationFrameJson_getProp split: option.split)

lemma encrypted_again:
  "ep_ciphertext ep \<noteq> [] \<Longrightarrow> ep_keyId ep \<noteq> [] \<Longrightarrow> ep_nonce ep \<noteq> [] \<Longrightarrow>
     validateEncryptedRuntimePayload (encryptedPayloadJson (Some ep)) r = Inr ep"
  by (simp add: validateEncryptedRuntimePayload_def encryptedPayloadJson_def isNonEmptyRemoteRuntimeString_def Let_def)

lemma validate_again:
  assumes wf: "frame_wf f"
  shows "validateRuntimeOperationFrame numText (operationFrameJson f) m =
    (if remoteRuntimeJsonByteLength numText (operationFrameJson f) \<le> m then Inr f
     else remoteRuntimeValidationFailure PAYLOAD_TOO_LARGE (of_requestId f) ''Runtime operation frame exceeds the payload limit.'')"
proof -
  have trust: "\<not> ((case of_deviceTrustLevel f of None \<Rightarrow> JUndef | Some t \<Rightarrow> JStr (trustLevelText t)) \<noteq> JUndef
      \<and> \<not> isRemoteRuntimeClientTrustLevel (case of_deviceTrustLevel f of None \<Rightarrow> JUndef | Some t \<Rightarrow> JStr (trustLevelText t)))"
    by (simp add: isRemoteRuntimeClientTrustLevel_def split: option.split)
  have key: "\<not> ((case of_idempotencyKey f of None \<Rightarrow> JUndef | Some k \<Rightarrow> JStr k) \<noteq> JUndef
      \<and> \<not> isNonEmptyRemoteRuntimeString (case of_idempotencyKey f of None \<Rightarrow> JUndef | Some k \<Rightarrow> JStr k))"
    using wf by (auto simp: frame_wf_def isNonEmptyRemoteRuntimeString_def split: option.split)
  have marker: "\<not> ((if of_trustedGatewayHttpRequest f then JBool True else JUndef) \<noteq> JUndef
      \<and> (if of_trustedGatewayHttpRequest f then JBool True else JUndef) \<noteq> JBool True)" by simp
  have ids: "isNonEmptyRemoteRuntimeString (JStr (of_requestId f))" "isNonEmptyRemoteRuntimeString (JStr (of_gatewayRuntimeAttachmentId f))"
    "isNonEmptyRemoteRuntimeString (JStr (of_clientAttachmentId f))" "of_protocolVersion f = remoteRuntimeTransportProtocolVersion"
    using wf by (simp_all add: frame_wf_def isNonEmptyRemoteRuntimeString_def)
  consider (encrypted) ep where "of_encryptedPayload f = Some ep" "of_payload f = None" "ep_ciphertext ep \<noteq> []" "ep_keyId ep \<noteq> []" "ep_nonce ep \<noteq> []"
    | (clear) c where "of_encryptedPayload f = None" "of_payload f = Some c" "\<forall>r. validateRuntimeCommand c r = Inr c"
    using wf unfolding frame_wf_def by blast
  then show ?thesis
  proof cases
    case encrypted
    have "encryptedPayloadJson (Some ep) \<noteq> JUndef" by (simp add: encryptedPayloadJson_def)
    then show ?thesis
      using encrypted frameValue_again [OF wf]
      unfolding validateRuntimeOperationFrame_def Let_def operationFrameJson_getProp replyTarget_again [OF wf]
      by (simp add: operationFrameJson_getProp(13) trust key marker ids encrypted_again remoteRuntimeValidationFailure_def del: if_split)
  next
    case clear
    have "c \<noteq> JUndef" using clear(3) command_not_undef by blast
    then show ?thesis
      using clear frameValue_again [OF wf]
      unfolding validateRuntimeOperationFrame_def Let_def operationFrameJson_getProp replyTarget_again [OF wf]
      by (simp add: operationFrameJson_getProp(13) trust key marker ids encryptedPayloadJson_def remoteRuntimeValidationFailure_def del: if_split)
  qed
qed

lemma frameReplyTarget_trust [simp]:
  "runtimeOperationFrameReplyTarget (f\<lparr>of_deviceTrustLevel := t\<rparr>) = runtimeOperationFrameReplyTarget f"
  by (simp add: runtimeOperationFrameReplyTarget_def)

lemma routed_not_gateway_http:
  assumes "routeRuntimeOperation numText opts input s = (Inr (runtime, f), s')"
  shows "\<not> isGatewayHttpFrame f"
proof -
  obtain frame client where frame: "validateRuntimeOperationFrame numText input maxRuntimeOperationPayloadBytes = Inr frame"
    and routed: "routeAttached opts frame client runtime s = (Inr (runtime, f), s')"
    using route_Inr [OF assms] by blast
  have "\<not> isGatewayHttpFrame frame"
    using assms frame by (auto simp: routeRuntimeOperation_def isGatewayHttpFrame_def remoteRuntimeGatewayFailure_def split: reply_target.splits)
  moreover have "f = frame\<lparr>of_deviceTrustLevel := Some (rca_deviceTrustLevel client)\<rparr>"
    using routeAttached_Inr [OF routed] by blast
  ultimately show ?thesis by (simp add: isGatewayHttpFrame_def)
qed

lemma routed_wf:
  assumes "routeRuntimeOperation numText opts input s = (Inr (runtime, f), s')"
  shows "frame_wf f"
proof -
  obtain frame client where frame: "validateRuntimeOperationFrame numText input maxRuntimeOperationPayloadBytes = Inr frame"
    and routed: "routeAttached opts frame client runtime s = (Inr (runtime, f), s')"
    using route_Inr [OF assms] by blast
  have "f = frame\<lparr>of_deviceTrustLevel := Some (rca_deviceTrustLevel client)\<rparr>"
    using routeAttached_Inr [OF routed] by blast
  then show ?thesis using frame_wf_validated [OF frame] by (simp add: frame_wf_def)
qed

section \<open>A trusted client and an operation it sends\<close>

definition sampleTrustedRequest :: js where
  "sampleTrustedRequest = JObj [(''protocolVersion'', JStr ''2026-05-08''), (''requestId'', JStr ''r1''),
     (''accountId'', JStr ''acc''), (''runtimeInstallationId'', JStr ''inst''), (''deviceTrustLevel'', JStr ''trusted''),
     (''trustedRuntimeClientId'', JStr ''dev''), (''ticket'', JStr ''t'')]"

definition sampleTrustedRouter :: router where
  "sampleTrustedRouter = fold (routerStep (\<lambda>_. ''0'') defaultRouterOptions)
     [AttachRuntime sampleRegistration True ''g1'', AttachClient sampleTrustedRequest True ''a1''] createRemoteRuntimeGatewayRouter"

definition sampleSent :: operation_frame where
  "sampleSent = (sampleMutationFrame ''i1'')\<lparr>of_deviceTrustLevel := Some Trusted\<rparr>"

lemma sampleTrustedRouter_reachable: "router_reachable (\<lambda>_. ''0'') defaultRouterOptions sampleTrustedRouter"
proof -
  have "freshId (AttachClient sampleTrustedRequest True ''a1'')
      (routerStep (\<lambda>_. ''0'') defaultRouterOptions (AttachRuntime sampleRegistration True ''g1'') createRemoteRuntimeGatewayRouter)"
    by code_simp
  moreover have "freshId (AttachRuntime sampleRegistration True ''g1'') createRemoteRuntimeGatewayRouter" by code_simp
  ultimately show ?thesis unfolding sampleTrustedRouter_def fold.simps comp_apply id_apply
    by (intro reach_step reach_init)
qed

lemma sample_routed:
  "\<exists>runtime s'. routeRuntimeOperation (\<lambda>_. ''0'') defaultRouterOptions (sampleMutation ''i1'') sampleTrustedRouter
     = (Inr (runtime, sampleSent), s')"
proof -
  have "sampleLive ''i1'' sampleTrustedRouter" by code_simp
  moreover have "rca_deviceTrustLevel (the (mapGet (rt_clients sampleTrustedRouter) ''a1'')) = Trusted" by code_simp
  ultimately show ?thesis using sampleMutation_routed by (metis sampleSent_def)
qed

end
