(* ===== verification/Bridge_Theorems.thy ===== *)
theory Bridge_Theorems
  imports Socket_Bridge Frame_Transport
begin

text \<open>
  What the socket bridge keeps, over all interleavings of its operations with the settling of sends: its
  tables agree with the router's, its queues are bounded, and nothing reaches a runtime that the router did not route.
\<close>

section \<open>Operations\<close>

datatype bridge_op =
    BridgeAttachRuntime js bool string "endpoint option"
  | BridgeAttachClient js bool string endpoint
  | BridgeRoute js
  | BridgePoll string int "string option"
  | BridgeDeliver string js
  | BridgeDeliverFrame js
  | BridgeSettle nat bool
  | BridgeRevokeDevice "endpoint \<Rightarrow> bool" string
  | BridgeRevokeClient "endpoint \<Rightarrow> bool" string bool bool
  | BridgeRevokeRuntime "endpoint \<Rightarrow> bool" string bool
  | BridgeRevokeInstallation "endpoint \<Rightarrow> bool" string

fun bridgeStep :: "(string \<Rightarrow> string \<Rightarrow> bool) \<Rightarrow> (rat \<Rightarrow> string) \<Rightarrow> bridge_options \<Rightarrow> bridge_op \<Rightarrow> bridge \<Rightarrow> bridge" where
  "bridgeStep le numText opts (BridgeAttachRuntime request authorized newId endpoint) b =
     snd (bridge_attachRuntime request authorized newId endpoint b)"
| "bridgeStep le numText opts (BridgeAttachClient request authorized newId endpoint) b =
     snd (bridge_attachRemoteRuntimeClient opts request authorized newId endpoint b)"
| "bridgeStep le numText opts (BridgeRoute input) b = snd (bridge_routeRuntimeOperation numText opts input b)"
| "bridgeStep le numText opts (BridgePoll i limit installation) b = snd (bridge_pollRuntimeOperations i limit installation b)"
| "bridgeStep le numText opts (BridgeDeliver i envelope) b = snd (deliverRuntimeEnvelope i envelope b)"
| "bridgeStep le numText opts (BridgeDeliverFrame input) b = snd (deliverRuntimeResponseFrame input b)"
| "bridgeStep le numText opts (BridgeSettle n threw) b = settleSend opts n threw b"
| "bridgeStep le numText opts (BridgeRevokeDevice fails device) b = snd (bridge_revokeTrustedRuntimeClient fails device b)"
| "bridgeStep le numText opts (BridgeRevokeClient fails i notifyEndpoint notifyRuntimeEndpoint) b =
     snd (bridge_revokeRemoteRuntimeClientAttachment le opts fails i notifyEndpoint notifyRuntimeEndpoint b)"
| "bridgeStep le numText opts (BridgeRevokeRuntime fails i notify) b = snd (bridge_revokeRuntimeAttachment fails i notify b)"
| "bridgeStep le numText opts (BridgeRevokeInstallation fails i) b = snd (bridge_revokeRuntimeInstallation fails i b)"

fun bridgeFresh :: "bridge_op \<Rightarrow> bridge \<Rightarrow> bool" where
  "bridgeFresh (BridgeAttachRuntime request authorized newId endpoint) b \<longleftrightarrow>
     freshId (AttachRuntime request authorized newId) (br_router b)"
| "bridgeFresh (BridgeAttachClient request authorized newId endpoint) b \<longleftrightarrow>
     freshId (AttachClient request authorized newId) (br_router b)"
| "bridgeFresh _ b \<longleftrightarrow> True"

text \<open>A run from the start; the identifiers of new attachments are fresh when they are drawn.\<close>

definition bridgeRun :: "(string \<Rightarrow> string \<Rightarrow> bool) \<Rightarrow> (rat \<Rightarrow> string) \<Rightarrow> bridge_options \<Rightarrow> bridge_op list \<Rightarrow> bridge" where
  "bridgeRun le numText opts ops =
     fold (bridgeStep le numText opts) ops (createRemoteRuntimeSocketBridge createRemoteRuntimeGatewayRouter)"

fun freshFrom :: "(string \<Rightarrow> string \<Rightarrow> bool) \<Rightarrow> (rat \<Rightarrow> string) \<Rightarrow> bridge_options \<Rightarrow> bridge_op list \<Rightarrow> bridge \<Rightarrow> bool" where
  "freshFrom le numText opts [] b \<longleftrightarrow> True"
| "freshFrom le numText opts (op # ops) b \<longleftrightarrow> bridgeFresh op b \<and> freshFrom le numText opts ops (bridgeStep le numText opts op b)"

definition freshRun :: "(string \<Rightarrow> string \<Rightarrow> bool) \<Rightarrow> (rat \<Rightarrow> string) \<Rightarrow> bridge_options \<Rightarrow> bridge_op list \<Rightarrow> bool" where
  "freshRun le numText opts ops \<longleftrightarrow>
     freshFrom le numText opts ops (createRemoteRuntimeSocketBridge createRemoteRuntimeGatewayRouter)"

lemma bridgeRun_snoc: "bridgeRun le numText opts (ops @ [op]) = bridgeStep le numText opts op (bridgeRun le numText opts ops)"
  by (simp add: bridgeRun_def)

lemma freshFrom_append:
  "freshFrom le numText opts (ops @ ops') b \<longleftrightarrow>
     freshFrom le numText opts ops b \<and> freshFrom le numText opts ops' (fold (bridgeStep le numText opts) ops b)"
  by (induction ops arbitrary: b) simp_all

lemma freshRun_snoc:
  "freshRun le numText opts (ops @ [op]) \<longleftrightarrow> freshRun le numText opts ops \<and> bridgeFresh op (bridgeRun le numText opts ops)"
  by (simp add: freshRun_def freshFrom_append bridgeRun_def)

text \<open>Where an operation that the bridge hands on comes from: a step of the run routed it, in the state that the run had reached; and when it
  was handed to an endpoint, that was the endpoint of the runtime it is addressed to.\<close>

definition routedInRun ::
  "(string \<Rightarrow> string \<Rightarrow> bool) \<Rightarrow> (rat \<Rightarrow> string) \<Rightarrow> bridge_options \<Rightarrow> bridge_op list \<Rightarrow> endpoint option \<Rightarrow> operation_frame \<Rightarrow> bool" where
  "routedInRun le numText opts ops endpoint f \<longleftrightarrow>
     (\<exists>before input after runtime s. ops = before @ BridgeRoute input # after
        \<and> routeRuntimeOperation numText (bo_router opts) input (br_router (bridgeRun le numText opts before)) = (Inr (runtime, f), s)
        \<and> (endpoint \<noteq> None \<longrightarrow>
             mapGet (br_runtimeEndpoints (bridgeRun le numText opts before)) (of_gatewayRuntimeAttachmentId f) = endpoint))"

lemma routedInRun_snoc: "routedInRun le numText opts ops endpoint f \<Longrightarrow> routedInRun le numText opts (ops @ [op]) endpoint f"
  by (fastforce simp: routedInRun_def)

section \<open>The invariant\<close>

text \<open>\<open>handed endpoint f\<close> is what is known of an operation that was handed to an endpoint, or waits to be.\<close>

definition messages_ok :: "(endpoint option \<Rightarrow> operation_frame \<Rightarrow> bool) \<Rightarrow> bridge \<Rightarrow> bool" where
  "messages_ok handed b \<longleftrightarrow>
     (\<forall>i f. Operation f \<in> set (queueOf i b) \<longrightarrow> handed None f \<and> of_gatewayRuntimeAttachmentId f = i)
   \<and> (\<forall>runtime f. SendingOperation runtime f \<in> set (br_pending b) \<longrightarrow>
        handed None f \<and> of_gatewayRuntimeAttachmentId f = gra_gatewayRuntimeAttachmentId runtime)
   \<and> (\<forall>e f. (e, Operation f) \<in> set (br_runtimeSent b) \<longrightarrow> handed (Some e) f)
   \<and> (\<forall>e v. (e, Envelope v) \<in> set (br_clientSent b) \<longrightarrow> isRuntimeWebSocketServerEnvelope_ws v None)"

definition tables_ok :: "bridge \<Rightarrow> bool" where
  "tables_ok b \<longleftrightarrow> fst ` set (br_runtimeEndpoints b) \<subseteq> set (br_attachedRuntimeIds b)
   \<and> fst ` set (br_attachedRuntimeInstallationIds b) = set (br_attachedRuntimeIds b)
   \<and> (\<forall>i inst. mapGet (br_attachedRuntimeInstallationIds b) i = Some inst \<longrightarrow>
        (\<exists>a. mapGet (rt_runtimeAttachments (br_router b)) i = Some a \<and> gra_runtimeInstallationId a = inst))
   \<and> fst ` set (br_clientEndpoints b) \<subseteq> fst ` set (rt_clients (br_router b))"

definition queues_bounded :: "bridge_options \<Rightarrow> bridge \<Rightarrow> bool" where
  "queues_bounded opts b \<longleftrightarrow> (\<forall>i. length (queueOf i b) \<le> maxQueued opts)"

definition bridge_inv :: "(endpoint option \<Rightarrow> operation_frame \<Rightarrow> bool) \<Rightarrow> (rat \<Rightarrow> string) \<Rightarrow> bridge_options \<Rightarrow> bridge \<Rightarrow> bool" where
  "bridge_inv handed numText opts b \<longleftrightarrow> router_reachable numText (bo_router opts) (br_router b)
     \<and> messages_ok handed b \<and> tables_ok b \<and> queues_bounded opts b"

lemmas bridge_inv_defs = bridge_inv_def messages_ok_def tables_ok_def queues_bounded_def

lemma queueOf_sel [simp]:
  "queueOf i (b\<lparr>br_router := s\<rparr>) = queueOf i b"
  "queueOf i (b\<lparr>br_runtimeEndpoints := x\<rparr>) = queueOf i b"
  "queueOf i (b\<lparr>br_clientEndpoints := y\<rparr>) = queueOf i b"
  "queueOf i (b\<lparr>br_pending := z\<rparr>) = queueOf i b"
  "queueOf i (b\<lparr>br_attachedRuntimeIds := u\<rparr>) = queueOf i b"
  "queueOf i (b\<lparr>br_attachedRuntimeInstallationIds := v\<rparr>) = queueOf i b"
  "queueOf i (b\<lparr>br_runtimeSent := w\<rparr>) = queueOf i b"
  "queueOf i (b\<lparr>br_clientSent := t\<rparr>) = queueOf i b"
  by (simp_all add: queueOf_def)

lemma queueOf_set [simp]:
  "queueOf i (b\<lparr>br_queuedRuntimeOperations := mapSet k q (br_queuedRuntimeOperations b)\<rparr>) = (if i = k then q else queueOf i b)"
  "queueOf i (b\<lparr>br_queuedRuntimeOperations := mapDelete k (br_queuedRuntimeOperations b)\<rparr>) = (if i = k then [] else queueOf i b)"
  by (simp_all add: queueOf_def)

text \<open>A step of the router under the bridge.\<close>

lemma inv_router:
  assumes inv: "bridge_inv handed numText opts b" and fresh: "freshId op (br_router b)"
    and s: "s = routerStep numText (bo_router opts) op (br_router b)"
  shows "bridge_inv handed numText opts (b\<lparr>br_router := s\<rparr>)"
proof -
  have le: "router_le (br_router b) s" unfolding s using fresh by (rule router_le_step)
  have t: "tables_ok b" using inv by (simp add: bridge_inv_def)
  have kept: "\<exists>a. mapGet (rt_runtimeAttachments s) i = Some a \<and> gra_runtimeInstallationId a = inst"
    if known: "mapGet (br_attachedRuntimeInstallationIds b) i = Some inst" for i inst
  proof -
    obtain a where a: "mapGet (rt_runtimeAttachments (br_router b)) i = Some a" "gra_runtimeInstallationId a = inst"
      using t known unfolding tables_ok_def by blast
    then obtain st where "mapGet (rt_runtimeAttachments s) i = Some (a\<lparr>gra_status := st\<rparr>)"
      using le unfolding router_le_def runtimes_le_def by blast
    with a(2) show ?thesis by simp
  qed
  have clients: "fst ` set (rt_clients (br_router b)) \<subseteq> fst ` set (rt_clients s)"
  proof
    fix k assume "k \<in> fst ` set (rt_clients (br_router b))"
    then obtain c where "mapGet (rt_clients (br_router b)) k = Some c" by (metis map_of_eq_None_iff option.exhaust)
    then have "mapGet (rt_clients s) k \<noteq> None" using le unfolding router_le_def clients_le_def by blast
    then show "k \<in> fst ` set (rt_clients s)" by (metis map_of_eq_None_iff)
  qed
  have "fst ` set (br_clientEndpoints b) \<subseteq> fst ` set (rt_clients s)"
    using t clients unfolding tables_ok_def by (meson order_trans)
  with t kept have "tables_ok (b\<lparr>br_router := s\<rparr>)" by (simp add: tables_ok_def)
  moreover have "router_reachable numText (bo_router opts) s" unfolding s using inv fresh by (auto simp: bridge_inv_def intro: reach_step)
  ultimately show ?thesis using inv by (simp add: bridge_inv_def messages_ok_def queues_bounded_def)
qed

text \<open>Changes of the bridge alone.\<close>

lemma map_delete_keys: "fst ` set (mapDelete k m) = fst ` set m - {k}"
  by (force simp: AList.delete_eq)

lemma map_update_keys: "fst ` set (mapSet k v m) = insert k (fst ` set m)"
  by (simp add: dom_map_of_conv_image_fst [symmetric] update_conv' )

lemma inv_dropClient:
  "bridge_inv handed numText opts b \<Longrightarrow> bridge_inv handed numText opts (b\<lparr>br_clientEndpoints := mapDelete k (br_clientEndpoints b)\<rparr>)"
  by (auto simp: bridge_inv_defs map_delete_keys)

lemma inv_notice:
  "bridge_inv handed numText opts b \<Longrightarrow> bridge_inv handed numText opts (sendClient e (ClientNotice envelope) b)"
  "bridge_inv handed numText opts b \<Longrightarrow> bridge_inv handed numText opts (sendRuntime e (RuntimeNotice envelope) b)"
  by (simp_all add: bridge_inv_defs sendClient_def sendRuntime_def)

lemma inv_forgetRuntime: "bridge_inv handed numText opts b \<Longrightarrow> bridge_inv handed numText opts (forgetRuntime i b)"
  by (auto simp: bridge_inv_def messages_ok_def queues_bounded_def tables_ok_def forgetRuntime_def map_delete_keys queueOf_def)

lemma inv_enqueue:
  assumes "bridge_inv handed numText opts b" and "length (queueOf i b) < maxQueued opts"
    and "\<forall>f. m = Operation f \<longrightarrow> handed None f \<and> of_gatewayRuntimeAttachmentId f = i"
  shows "bridge_inv handed numText opts (b\<lparr>br_queuedRuntimeOperations := mapSet i (queueOf i b @ [m]) (br_queuedRuntimeOperations b)\<rparr>)"
  using assms by (auto simp: bridge_inv_def messages_ok_def queues_bounded_def tables_ok_def)

lemma inv_dequeue:
  assumes "bridge_inv handed numText opts b"
  shows "bridge_inv handed numText opts (b\<lparr>br_queuedRuntimeOperations := mapDelete i (br_queuedRuntimeOperations b)\<rparr>)"
    and "bridge_inv handed numText opts (b\<lparr>br_queuedRuntimeOperations := mapSet i (drop n (queueOf i b)) (br_queuedRuntimeOperations b)\<rparr>)"
  using assms by (auto simp: bridge_inv_def messages_ok_def queues_bounded_def tables_ok_def le_diff_conv
      intro: trans_le_add1 dest: in_set_dropD)

section \<open>The operations keep the invariant\<close>

lemma inv_notifyClients: "bridge_inv handed numText opts b \<Longrightarrow> bridge_inv handed numText opts (snd (notifyClients fails envelopes b))"
  by (induction envelopes arbitrary: b) (auto simp: Let_def inv_notice inv_dropClient split: option.split)

lemma inv_dropClients: "bridge_inv handed numText opts b \<Longrightarrow> bridge_inv handed numText opts (snd (dropClients fails notify envelopes b))"
  by (induction envelopes arbitrary: b) (auto simp: Let_def inv_notice inv_dropClient split: option.split)

lemma inv_notifyRuntime: "bridge_inv handed numText opts b \<Longrightarrow> bridge_inv handed numText opts (snd (notifyRuntime opts fails i endpoint envelopes b))"
  by (induction envelopes arbitrary: b) (auto simp: Let_def inv_notice inv_enqueue split: option.split)

lemma inv_notifyRevoked: "bridge_inv handed numText opts b \<Longrightarrow> bridge_inv handed numText opts (snd (notifyRevokedEndpoints fails i notify envelopes b))"
  by (induction envelopes arbitrary: b) (auto simp: Let_def inv_notice inv_dropClient inv_forgetRuntime split: option.split)

lemma inv_notifyEach: "bridge_inv handed numText opts b \<Longrightarrow> bridge_inv handed numText opts (snd (notifyEach fails is envelopes b))"
proof (induction "is" arbitrary: b)
  case (Cons i "is")
  then show ?case using inv_notifyRevoked [OF Cons.prems, of fails i True envelopes]
    by (auto split: prod.split bool.split)
qed simp

lemma inv_queueRouted:
  assumes "bridge_inv handed numText opts b" and "handed None f"
    and "of_gatewayRuntimeAttachmentId f = gra_gatewayRuntimeAttachmentId runtime"
  shows "bridge_inv handed numText opts (snd (queueRouted opts runtime f b))"
  using assms by (auto simp: queueRouted_def queueRuntimeOperationIfAllowed_def intro!: inv_enqueue)

lemma inv_settleSend:
  assumes inv: "bridge_inv handed numText opts b"
  shows "bridge_inv handed numText opts (settleSend opts n threw b)"
proof (cases "n < length (br_pending b)")
  case True
  let ?b = "b\<lparr>br_pending := take n (br_pending b) @ drop (Suc n) (br_pending b)\<rparr>"
  have b: "bridge_inv handed numText opts ?b"
    using inv by (auto simp: bridge_inv_def messages_ok_def tables_ok_def queues_bounded_def dest: in_set_takeD in_set_dropD)
  have e: "bridge_inv handed numText opts (?b\<lparr>br_runtimeEndpoints := mapDelete i (br_runtimeEndpoints ?b)\<rparr>)" for i
    using b by (auto simp: bridge_inv_def messages_ok_def tables_ok_def queues_bounded_def map_delete_keys)
  show ?thesis
  proof (cases "br_pending b ! n")
    case (SendingOperation runtime f)
    then have "SendingOperation runtime f \<in> set (br_pending b)" using True nth_mem by metis
    then have "handed None f" "of_gatewayRuntimeAttachmentId f = gra_gatewayRuntimeAttachmentId runtime"
      using inv by (auto simp: bridge_inv_def messages_ok_def)
    from inv_queueRouted [OF e this] SendingOperation True b show ?thesis by (auto simp: settleSend_def Let_def)
  next
    case (SendingEnvelope i)
    then show ?thesis using True b inv_dropClient [OF b] by (auto simp: settleSend_def Let_def)
  qed
qed (simp add: settleSend_def inv)

lemma inv_deliver:
  assumes inv: "bridge_inv handed numText opts b"
  shows "bridge_inv handed numText opts (snd (deliverRuntimeEnvelope i envelope b))"
  using inv by (auto simp: deliverRuntimeEnvelope_def sendClient_def bridge_inv_def messages_ok_def tables_ok_def
      queues_bounded_def split: option.split)

lemma inv_poll:
  assumes inv: "bridge_inv handed numText opts b"
  shows "bridge_inv handed numText opts (snd (bridge_pollRuntimeOperations i limit installation b))"
  using inv_dequeue [OF inv] inv by (simp add: bridge_pollRuntimeOperations_def Let_def)

lemma inv_route:
  assumes inv: "bridge_inv handed numText opts b"
    and new: "\<And>runtime f s. routeRuntimeOperation numText (bo_router opts) input (br_router b) = (Inr (runtime, f), s) \<Longrightarrow> handed None f"
      "\<And>runtime f s e. routeRuntimeOperation numText (bo_router opts) input (br_router b) = (Inr (runtime, f), s) \<Longrightarrow>
         mapGet (br_runtimeEndpoints b) (of_gatewayRuntimeAttachmentId f) = Some e \<Longrightarrow> handed (Some e) f"
  shows "bridge_inv handed numText opts (snd (bridge_routeRuntimeOperation numText opts input b))"
proof -
  obtain r s where rs: "routeRuntimeOperation numText (bo_router opts) input (br_router b) = (r, s)" by (cases "routeRuntimeOperation numText (bo_router opts) input (br_router b)")
  have b: "bridge_inv handed numText opts (b\<lparr>br_router := s\<rparr>)"
    by (rule inv_router [OF inv, of "RouteOperation input"]) (simp_all add: rs)
  show ?thesis
  proof (cases r)
    case (Inl e)
    then show ?thesis using rs b by (simp add: bridge_routeRuntimeOperation_def)
  next
    case (Inr rf)
    obtain runtime f where rf: "rf = (runtime, f)" by (cases rf)
    have reach: "router_reachable numText (bo_router opts) (br_router b)" using inv by (simp add: bridge_inv_def)
    note routed = new(1) [OF rs [unfolded Inr rf]] and to = new(2) [OF rs [unfolded Inr rf]]
    have "mapGet (rt_runtimeAttachments (br_router b)) (of_gatewayRuntimeAttachmentId f) = Some runtime"
      using routed_facts [OF reach, of input runtime f s] rs Inr rf by blast
    then have i: "of_gatewayRuntimeAttachmentId f = gra_gatewayRuntimeAttachmentId runtime"
      using reachable_inv [OF reach] by (auto simp: router_inv_def runtimes_wf_def)
    have "bridge_inv handed numText opts (sendRuntime e (Operation f) (b\<lparr>br_router := s, br_pending := br_pending b @ [SendingOperation runtime f]\<rparr>))"
      if "mapGet (br_runtimeEndpoints b) (gra_gatewayRuntimeAttachmentId runtime) = Some e" for e
      using b routed i to [of e] that by (auto simp: sendRuntime_def bridge_inv_def messages_ok_def tables_ok_def queues_bounded_def)
    with rs Inr rf inv_queueRouted [OF b routed i] show ?thesis
      by (auto simp: bridge_routeRuntimeOperation_def Let_def split: option.split prod.split)
  qed
qed

lemma attachRuntime_Inr:
  assumes "attachRuntime request authorized newId s = (Inr a, s')"
  shows "gra_gatewayRuntimeAttachmentId a = newId \<and> mapGet (rt_runtimeAttachments s') newId = Some a"
  using assms by (auto simp: attachRuntime_def attachmentOf_def remoteRuntimeGatewayFailure_def Let_def split: sum.splits if_splits)

lemma attachClient_known:
  assumes "attachRemoteRuntimeClient ropts request authorized newId s = (Some (Inr c), s')"
  shows "rca_clientAttachmentId c \<in> fst ` set (rt_clients s')"
  using assms unfolding attachRemoteRuntimeClient_def Let_def remoteRuntimeGatewayFailure_def
  by (auto simp: clientOf_def map_update_keys split: sum.splits if_splits option.splits)

lemma inv_bridge_attachRuntime:
  assumes inv: "bridge_inv handed numText opts b" and fresh: "freshId (AttachRuntime request authorized newId) (br_router b)"
  shows "bridge_inv handed numText opts (snd (bridge_attachRuntime request authorized newId endpoint b))"
proof -
  obtain r s where rs: "attachRuntime request authorized newId (br_router b) = (r, s)" by (cases "attachRuntime request authorized newId (br_router b)")
  have b: "bridge_inv handed numText opts (b\<lparr>br_router := s\<rparr>)" by (rule inv_router [OF inv fresh]) (simp add: rs)
  show ?thesis
  proof (cases r)
    case (Inl e)
    then show ?thesis using rs b by (simp add: bridge_attachRuntime_def)
  next
    case (Inr a)
    note a = attachRuntime_Inr [OF rs [unfolded Inr]]
    from b have "tables_ok (snd (bridge_attachRuntime request authorized newId endpoint b))"
      using rs Inr a by (auto simp: bridge_attachRuntime_def Let_def bridge_inv_def tables_ok_def map_update_keys split: option.split)
    with b rs Inr show ?thesis
      by (simp add: bridge_attachRuntime_def Let_def bridge_inv_def messages_ok_def queues_bounded_def)
  qed
qed

lemma inv_bridge_attachClient:
  assumes inv: "bridge_inv handed numText opts b" and fresh: "freshId (AttachClient request authorized newId) (br_router b)"
  shows "bridge_inv handed numText opts (snd (bridge_attachRemoteRuntimeClient opts request authorized newId endpoint b))"
proof -
  obtain r s where rs: "attachRemoteRuntimeClient (bo_router opts) request authorized newId (br_router b) = (r, s)"
    by (cases "attachRemoteRuntimeClient (bo_router opts) request authorized newId (br_router b)")
  have b: "bridge_inv handed numText opts (b\<lparr>br_router := s\<rparr>)" by (rule inv_router [OF inv fresh]) (simp add: rs)
  have "bridge_inv handed numText opts (b\<lparr>br_router := s, br_clientEndpoints := mapSet (rca_clientAttachmentId c) endpoint (br_clientEndpoints b)\<rparr>)"
    if "r = Some (Inr c)" for c
    using b attachClient_known [OF rs [unfolded that]]
    by (auto simp: bridge_inv_def messages_ok_def queues_bounded_def tables_ok_def map_update_keys)
  with b rs show ?thesis by (auto simp: bridge_attachRemoteRuntimeClient_def split: option.split sum.split)
qed

lemma inv_bridge_revokeClient:
  assumes inv: "bridge_inv handed numText opts b"
  shows "bridge_inv handed numText opts (snd (bridge_revokeRemoteRuntimeClientAttachment le opts fails i notifyEndpoint notifyRuntimeEndpoint b))"
proof -
  obtain envelopes s where rs: "revokeRemoteRuntimeClientAttachment i (br_router b) = (envelopes, s)" by (cases "revokeRemoteRuntimeClientAttachment i (br_router b)")
  have "bridge_inv handed numText opts (b\<lparr>br_router := s\<rparr>)"
    by (rule inv_router [OF inv, of "RevokeClientAttachment i"]) (simp_all add: rs)
  then have b: "bridge_inv handed numText opts (snd (dropClients fails notifyEndpoint envelopes (b\<lparr>br_router := s\<rparr>)))" by (rule inv_dropClients)
  obtain ok b1 where drop: "dropClients fails notifyEndpoint envelopes (b\<lparr>br_router := s\<rparr>) = (ok, b1)"
    by (cases "dropClients fails notifyEndpoint envelopes (b\<lparr>br_router := s\<rparr>)")
  have b1: "bridge_inv handed numText opts b1" using b drop by simp
  have "bridge_inv handed numText opts (snd (notifyRuntime opts fails k e envelopes b1))" for k e by (rule inv_notifyRuntime [OF b1])
  with rs drop b1 show ?thesis
    by (cases ok) (auto simp: bridge_revokeRemoteRuntimeClientAttachment_def Let_def split: option.split prod.split, metis snd_conv)
qed

lemma inv_bridgeStep:
  assumes inv: "bridge_inv handed numText opts b" and fresh: "bridgeFresh op b"
    and new: "\<And>input runtime f s. op = BridgeRoute input \<Longrightarrow>
        routeRuntimeOperation numText (bo_router opts) input (br_router b) = (Inr (runtime, f), s) \<Longrightarrow> handed None f"
      "\<And>input runtime f s e. op = BridgeRoute input \<Longrightarrow>
        routeRuntimeOperation numText (bo_router opts) input (br_router b) = (Inr (runtime, f), s) \<Longrightarrow>
        mapGet (br_runtimeEndpoints b) (of_gatewayRuntimeAttachmentId f) = Some e \<Longrightarrow> handed (Some e) f"
  shows "bridge_inv handed numText opts (bridgeStep le numText opts op b)"
proof (cases op)
  case (BridgeRevokeDevice fails device)
  have "bridge_inv handed numText opts (b\<lparr>br_router := snd (revokeTrustedRuntimeClient device (br_router b))\<rparr>)"
    by (rule inv_router [OF inv, of "RevokeTrustedClient device"]) simp_all
  from inv_notifyClients [OF this] BridgeRevokeDevice show ?thesis
    by (auto simp: bridge_revokeTrustedRuntimeClient_def split: prod.split) (metis snd_conv)
next
  case (BridgeRevokeRuntime fails i notify)
  have "bridge_inv handed numText opts (b\<lparr>br_router := snd (revokeRuntimeAttachment i (br_router b))\<rparr>)"
    by (rule inv_router [OF inv, of "RevokeRuntimeAttachment i"]) simp_all
  from inv_notifyRevoked [OF this] BridgeRevokeRuntime show ?thesis
    by (auto simp: bridge_revokeRuntimeAttachment_def split: prod.split) (metis snd_conv)
next
  case (BridgeRevokeInstallation fails i)
  have "bridge_inv handed numText opts (b\<lparr>br_router := snd (revokeRuntimeInstallation i (br_router b))\<rparr>)"
    by (rule inv_router [OF inv, of "RevokeInstallation i"]) simp_all
  from inv_notifyEach [OF this] BridgeRevokeInstallation show ?thesis
    by (auto simp: bridge_revokeRuntimeInstallation_def Let_def split: prod.split) (metis snd_conv)
next
  case (BridgeDeliverFrame input)
  then show ?thesis using inv inv_deliver [OF inv] by (auto simp: deliverRuntimeResponseFrame_def split: sum.split)
next
  case (BridgeRoute input)
  then show ?thesis using inv_route [OF inv new [OF BridgeRoute]] by simp
qed (use inv fresh in \<open>simp_all add: inv_bridge_attachRuntime inv_bridge_attachClient inv_poll inv_deliver
      inv_settleSend inv_bridge_revokeClient del: freshId.simps\<close>)

lemma bridge_inv_mono:
  assumes "bridge_inv handed numText opts b" and "\<And>e f. handed e f \<Longrightarrow> handed' e f"
  shows "bridge_inv handed' numText opts b"
  using assms by (auto simp: bridge_inv_def messages_ok_def)

lemma bridge_run_inv:
  "freshRun le numText opts ops \<Longrightarrow> bridge_inv (routedInRun le numText opts ops) numText opts (bridgeRun le numText opts ops)"
proof (induction ops rule: rev_induct)
  case Nil
  show ?case by (simp add: bridgeRun_def bridge_inv_def messages_ok_def tables_ok_def queues_bounded_def queueOf_def
        createRemoteRuntimeSocketBridge_def reach_init)
next
  case (snoc op ops)
  then have "bridge_inv (routedInRun le numText opts (ops @ [op])) numText opts (bridgeRun le numText opts ops)"
    by (auto simp: freshRun_snoc intro: bridge_inv_mono routedInRun_snoc)
  then show ?case unfolding bridgeRun_snoc
    by (rule inv_bridgeStep) (use snoc.prems in \<open>auto simp: freshRun_snoc routedInRun_def\<close>)
qed

section \<open>Properties\<close>

definition sampleBridgeOptions :: bridge_options where
  "sampleBridgeOptions = \<lparr> bo_maxQueuedRuntimeOperationsPerRuntime = None, bo_queueRuntimeOperationsWhenDisconnected = True,
     bo_router = defaultRouterOptions \<rparr>"

definition sampleJoining :: "bridge_op list" where
  "sampleJoining = [BridgeAttachRuntime sampleRegistration True ''g1'' (Some ''host''), BridgeAttachClient sampleTrustedRequest True ''a1'' ''phone'']"

abbreviation sampleBridgeRun :: "bridge_op list \<Rightarrow> bridge" where
  "sampleBridgeRun \<equiv> bridgeRun (\<lambda>_ _. True) (\<lambda>_. ''0'') sampleBridgeOptions"

definition sampleJoined :: bridge where
  "sampleJoined = sampleBridgeRun sampleJoining"

definition sampleRouting :: "bridge_op list" where
  "sampleRouting = sampleJoining @ [BridgeRoute (sampleMutation ''i1'')]"

definition sampleBridge :: bridge where
  "sampleBridge = sampleBridgeRun sampleRouting"

lemma sampleJoining_fresh: "freshRun (\<lambda>_ _. True) (\<lambda>_. ''0'') sampleBridgeOptions sampleJoining"
  by code_simp

lemma sampleRouting_fresh: "freshRun (\<lambda>_ _. True) (\<lambda>_. ''0'') sampleBridgeOptions sampleRouting"
  unfolding sampleRouting_def freshRun_snoc by (simp add: sampleJoining_fresh)

lemma sampleBridge_sent: "(''host'', Operation sampleSent) \<in> set (br_runtimeSent sampleBridge)"
proof -
  obtain runtime s' where r: "routeRuntimeOperation (\<lambda>_. ''0'') defaultRouterOptions (sampleMutation ''i1'') sampleTrustedRouter
      = (Inr (runtime, sampleSent), s')" using sample_routed by blast
  have "of_gatewayRuntimeAttachmentId sampleSent = ''g1''" by code_simp
  then have known: "mapGet (rt_runtimeAttachments sampleTrustedRouter) ''g1'' = Some runtime"
    using routed_facts [OF sampleTrustedRouter_reachable r] by auto
  then have "gra_gatewayRuntimeAttachmentId runtime = ''g1''"
    using reachable_inv [OF sampleTrustedRouter_reachable] by (auto simp: router_inv_def runtimes_wf_def)
  moreover have "br_router sampleJoined = sampleTrustedRouter" "mapGet (br_runtimeEndpoints sampleJoined) ''g1'' = Some ''host''"
    by code_simp+
  moreover have step: "sampleBridge = snd (bridge_routeRuntimeOperation (\<lambda>_. ''0'') sampleBridgeOptions (sampleMutation ''i1'') sampleJoined)"
    by (simp add: sampleBridge_def sampleRouting_def bridgeRun_snoc sampleJoined_def)
  ultimately show ?thesis using r
    by (simp add: step bridge_routeRuntimeOperation_def sampleBridgeOptions_def Let_def sendRuntime_def)
qed

text \<open>C5: However attaching, routing, polling, delivering, revoking and the settling of sends interleave, the bridge
  keeps the router in a good state, its endpoints belong to attachments that the router knows with the recorded installation, its queues
  within their limit. Every operation that waits in the queue of a runtime is addressed to that runtime and was routed by an earlier step of
  this run, in the state the bridge had then; every operation that was handed to an endpoint was routed by such a step, at which the endpoint
  was the one of the runtime it is addressed to. A client is handed only well-formed envelopes.\<close>
theorem bridge_invariant:
  assumes "freshRun le numText opts ops" and "b = bridgeRun le numText opts ops"
  shows "router_inv (bo_router opts) (br_router b) \<and> tables_ok b \<and> (\<forall>i. length (queueOf i b) \<le> maxQueued opts)
    \<and> (\<forall>i f. Operation f \<in> set (queueOf i b) \<longrightarrow> of_gatewayRuntimeAttachmentId f = i \<and> routedInRun le numText opts ops None f)
    \<and> (\<forall>e f. (e, Operation f) \<in> set (br_runtimeSent b) \<longrightarrow> routedInRun le numText opts ops (Some e) f)
    \<and> (\<forall>e v. (e, Envelope v) \<in> set (br_clientSent b) \<longrightarrow> isRuntimeWebSocketServerEnvelope_ws v None)"
proof -
  note inv = bridge_run_inv [OF assms(1), folded assms(2)]
  then have "router_inv (bo_router opts) (br_router b)" using reachable_inv unfolding bridge_inv_def by blast
  with inv show ?thesis by (simp add: bridge_inv_def messages_ok_def queues_bounded_def)
qed

theorem bridge_invariant_witness:
  "(''host'', Operation sampleSent) \<in> set (br_runtimeSent sampleBridge) \<and>
   routedInRun (\<lambda>_ _. True) (\<lambda>_. ''0'') sampleBridgeOptions sampleRouting (Some ''host'') sampleSent"
  using bridge_invariant [OF sampleRouting_fresh sampleBridge_def] sampleBridge_sent by blast

lemma forgotten: "mapGet (br_runtimeEndpoints (forgetRuntime i b)) i = None" "i \<notin> set (br_attachedRuntimeIds (forgetRuntime i b))"
  "queueOf i (forgetRuntime i b) = []"
  by (simp_all add: forgetRuntime_def queueOf_def)

definition unknownRuntime :: "string \<Rightarrow> bridge \<Rightarrow> bool" where
  "unknownRuntime i b \<longleftrightarrow> mapGet (br_runtimeEndpoints b) i = None \<and> i \<notin> set (br_attachedRuntimeIds b) \<and> queueOf i b = []"

text \<open>What the notifications of a revocation leave when no send throws.\<close>

lemma notifyRevoked_keeps:
  assumes "notifyRevokedEndpoints fails i notify envelopes b = (True, b')"
  shows "(unknownRuntime i b \<longrightarrow> unknownRuntime i b') \<and> (mapGet (br_clientEndpoints b) k = None \<longrightarrow> mapGet (br_clientEndpoints b') k = None)"
  using assms
  by (induction envelopes arbitrary: b)
    (fastforce simp: Let_def unknownRuntime_def forgotten forgetRuntime_def sendRuntime_def sendClient_def queueOf_def
      split: if_splits option.splits)+

lemma notifyRevoked_forgets:
  assumes "notifyRevokedEndpoints fails i notify envelopes b = (True, b')" and "envelope \<in> set envelopes"
  shows "if fe_requestId envelope = i then unknownRuntime i b' else mapGet (br_clientEndpoints b') (fe_requestId envelope) = None"
  using assms
proof (induction envelopes arbitrary: b)
  case (Cons e envelopes)
  show ?case
  proof (cases "envelope \<in> set envelopes")
    case True
    with Cons show ?thesis by (auto simp: Let_def split: if_splits option.splits)
  next
    case False
    then have "e = envelope" using Cons.prems by simp
    then show ?thesis using Cons.prems(1) notifyRevoked_keeps
      by (auto simp: Let_def unknownRuntime_def forgotten split: if_splits option.splits)
  qed
qed simp

lemma notifyRevoked_router: "br_router (snd (notifyRevokedEndpoints fails i notify envelopes b)) = br_router b"
  by (induction envelopes arbitrary: b) (auto simp: Let_def sendClient_def sendRuntime_def forgetRuntime_def split: option.split)

lemma revokeById_envelopes:
  assumes "revokeRuntimeAttachmentById i s = (envelopes, s')" and "envelopes \<noteq> []"
  shows "i \<in> fe_requestId ` set envelopes
    \<and> (\<forall>k c. attached s k c \<and> rca_gatewayRuntimeAttachmentId c = i \<longrightarrow> rca_clientAttachmentId c \<in> fe_requestId ` set envelopes)"
  using assms
  by (auto simp: revokeRuntimeAttachmentById_def createAttachmentRevokedEnvelope_def attached_def revokedClients_def Let_def
      createRemoteRuntimeTransportFailureEnvelope_def image_image dest!: map_of_SomeD split: option.splits if_splits) force+

text \<open>When the revocation of a runtime attachment has run to its end, the bridge has forgotten it: no endpoint,
  no queue, its polls are refused, the router routes nothing to it, and no client that was attached to it
  has an endpoint left (unless a client has the id of the runtime itself).\<close>
theorem revoked_runtime_forgotten:
  assumes "freshRun le numText opts ops" and b: "b = bridgeRun le numText opts ops"
    and "bridge_revokeRuntimeAttachment fails i notify b = ((True, envelopes), b')" and "envelopes \<noteq> []"
  shows "mapGet (br_runtimeEndpoints b') i = None \<and> queueOf i b' = []
    \<and> fst (bridge_pollRuntimeOperations i limit installation b') = Inl (createRuntimeUnavailableEnvelope i None)
    \<and> (\<exists>a. mapGet (rt_runtimeAttachments (br_router b')) i = Some a \<and> gra_status a = AttRevoked)
    \<and> (\<forall>k c. attached (br_router b) k c \<and> rca_gatewayRuntimeAttachmentId c = i \<and> k \<noteq> i \<longrightarrow> mapGet (br_clientEndpoints b') k = None)"
proof -
  obtain s where rs: "revokeRuntimeAttachmentById i (br_router b) = (envelopes, s)"
    and run: "notifyRevokedEndpoints fails i notify envelopes (b\<lparr>br_router := s\<rparr>) = (True, b')"
    using assms(3) by (auto simp: bridge_revokeRuntimeAttachment_def revokeRuntimeAttachment_def split: prod.splits)
  have router: "br_router b' = s" using notifyRevoked_router [of fails i notify envelopes "b\<lparr>br_router := s\<rparr>"] run by simp
  have revoked: "\<exists>a. mapGet (rt_runtimeAttachments s) i = Some a \<and> gra_status a = AttRevoked"
    using rs assms(4) by (auto simp: revokeRuntimeAttachmentById_def Let_def split: option.splits if_splits)
  obtain e where "e \<in> set envelopes" "fe_requestId e = i" using revokeById_envelopes [OF rs assms(4)] by blast
  then have gone: "unknownRuntime i b'" using notifyRevoked_forgets [OF run] by metis
  have "mapGet (br_clientEndpoints b') k = None"
    if c: "attached (br_router b) k c" "rca_gatewayRuntimeAttachmentId c = i" "k \<noteq> i" for k c
  proof -
    have k: "rca_clientAttachmentId c = k"
      using c(1) reachable_inv [of numText "bo_router opts" "br_router b"] bridge_run_inv [OF assms(1), folded b]
      by (auto simp: attached_def bridge_inv_def router_inv_def clients_wf_def)
    have "k \<in> fe_requestId ` set envelopes" using revokeById_envelopes [OF rs assms(4)] c(1,2) k by blast
    then obtain e where "e \<in> set envelopes" "fe_requestId e = k" by blast
    then show ?thesis using notifyRevoked_forgets [OF run] c(3) by metis
  qed
  then have "\<forall>k c. attached (br_router b) k c \<and> rca_gatewayRuntimeAttachmentId c = i \<and> k \<noteq> i \<longrightarrow> mapGet (br_clientEndpoints b') k = None"
    by blast
  with gone revoked router show ?thesis by (simp add: unknownRuntime_def bridge_pollRuntimeOperations_def)
qed

theorem revoked_runtime_forgotten_witness:
  "mapGet (br_clientEndpoints (snd (bridge_revokeRuntimeAttachment (\<lambda>_. False) ''g1'' True sampleJoined))) ''a1'' = None
   \<and> mapGet (br_clientEndpoints sampleJoined) ''a1'' = Some ''phone''"
proof -
  let ?run = "bridge_revokeRuntimeAttachment (\<lambda>_. False) ''g1'' True sampleJoined"
  have "fst (fst ?run) \<and> snd (fst ?run) \<noteq> []" by code_simp
  then have run: "?run = ((True, snd (fst ?run)), snd ?run)" and envelopes: "snd (fst ?run) \<noteq> []" by (simp_all add: prod_eq_iff)
  have "case mapGet (rt_clients (br_router sampleJoined)) ''a1'' of None \<Rightarrow> False
      | Some c \<Rightarrow> rca_status c = ClientAttached \<and> rca_gatewayRuntimeAttachmentId c = ''g1''" by code_simp
  then obtain c where "attached (br_router sampleJoined) ''a1'' c" "rca_gatewayRuntimeAttachmentId c = ''g1''"
    by (auto simp: attached_def split: option.splits)
  moreover have "mapGet (br_clientEndpoints sampleJoined) ''a1'' = Some ''phone''" by code_simp
  moreover have "''a1'' \<noteq> ''g1''" by simp
  ultimately show ?thesis using revoked_runtime_forgotten [OF sampleJoining_fresh sampleJoined_def run envelopes] by blast
qed

text \<open>A superseded client keeps its endpoint: when a device attaches a second time the router revokes its first
  attachment, but the bridge goes on delivering envelopes addressed to the revoked attachment, because
  delivery asks only for an endpoint and attaching removes none.\<close>
theorem superseded_client_still_served:
  "let b = sampleBridgeRun (sampleJoining @ [BridgeAttachClient sampleTrustedRequest True ''a2'' ''tablet'']);
       b' = snd (deliverRuntimeEnvelope ''a1'' (JObj [(''type'', JStr ''heartbeat''), (''timestamp'', JStr ''now'')]) b) in
   map_option rca_status (mapGet (rt_clients (br_router b)) ''a1'') = Some ClientRevoked
   \<and> map fst (br_clientSent b') = [''phone'']"
  by code_simp

end
