(* ===== verification/Websocket_Theorems.thy ===== *)
theory Websocket_Theorems
  imports Runtime_Websocket Policy_Theorems
begin

text \<open>
  How the guards of the runtime's WebSocket protocol relate to those of the remote runtime contracts, and that
  the replay payloads the runtime builds pass the guard that its clients apply.
\<close>

lemma subscription_target_ws: "isRuntimeWebSocketSubscriptionTarget p \<Longrightarrow> isRemoteRuntimeSubscriptionTarget p"
proof -
  have safe: "jsNumTest (\<lambda>n. numSafeInteger n \<and> numGe n 0) v \<Longrightarrow> jsNumTest numSafeInteger v" for v by (cases v) auto
  assume "isRuntimeWebSocketSubscriptionTarget p"
  then show ?thesis
    by (auto simp: isRuntimeWebSocketSubscriptionTarget_def isRuntimeWebSocketProviderThreadSubscriptionPayload_def
        isRemoteRuntimeSubscriptionTarget_def isOptionalSafeIntegerOrNull_ws_def isSafeNonNegativeInteger_def
        isOptionalSafeIntegerOrNull_def dest: safe split: if_splits)
qed

lemma client_payload_ws:
  assumes "isClientPayload_ws method p" and "method \<in> {''subscribe'', ''unsubscribe'', ''resume''}"
  shows "isRemoteRuntimeSubscriptionTarget p"
  using assms by (auto simp: isClientPayload_ws_def Let_def intro: subscription_target_ws)

lemma ws_command_contract:
  assumes "isRuntimeWebSocketClientCommand_ws v"
  shows "isRuntimeWebSocketClientCommand v"
proof -
  let ?m = "strOf (getProp v ''method'')" and ?p = "getProp v ''payload''"
  have payload: "isClientPayload_ws ?m ?p" using assms by (simp add: isRuntimeWebSocketClientCommand_ws_def)
  have "[] \<notin> set supportedRuntimeWebSocketProtocolVersions" by (simp add: supportedRuntimeWebSocketProtocolVersions_def)
  then have "isNonEmptyString (getProp v ''protocolVersion'')"
    using assms by (auto simp: isRuntimeWebSocketClientCommand_ws_def isNonEmptyString_def isRuntimeWebSocketProtocolVersionSupported_def)
  moreover have "?m = ''initialize'' \<Longrightarrow> isInitializePayload ?p" "?m = ''ping'' \<Longrightarrow> isString (getProp ?p ''message'')"
    "?m = ''providerModel.command'' \<Longrightarrow> isProviderModelCommandPayload ?p"
    using payload by (simp_all add: isClientPayload_ws_def Let_def)
  moreover have "?m \<in> {''subscribe'', ''unsubscribe'', ''resume''} \<Longrightarrow> isRemoteRuntimeSubscriptionTarget ?p"
    using client_payload_ws [OF payload] .
  ultimately show ?thesis
    using assms by (simp add: isRuntimeWebSocketClientCommand_def isRuntimeWebSocketClientCommand_ws_def Let_def)
qed

text \<open>A command that the runtime itself accepts is never refused by the validation of the gateway: every value that
  passes the runtime's own guard passes the guard of the remote contracts and is validated unchanged,
  and its method has a response schema.\<close>
theorem runtime_command_never_refused:
  assumes "isRuntimeWebSocketClientCommand_ws v"
  shows "validateRuntimeCommand v fallbackRequestId = Inr v
    \<and> (\<exists>schema. remoteRuntimeProtocolResponseSchemaForMethod (strOf (getProp v ''method'')) = Some schema)"
proof -
  have "isRemoteRuntimeProtocolClientCommand v"
    using ws_command_contract [OF assms] by (simp add: isRemoteRuntimeProtocolClientCommand_def)
  moreover have "isNonEmptyRemoteRuntimeString (getProp v ''requestId'')" "isRecord v" "isString (getProp v ''protocolVersion'')"
    "isRuntimeWebSocketProtocolVersionSupported (strOf (getProp v ''protocolVersion''))"
    "isRemoteRuntimeProtocolClientMethod (strOf (getProp v ''method''))"
    using assms by (simp_all add: isRuntimeWebSocketClientCommand_ws_def isNonEmptyString_def isNonEmptyRemoteRuntimeString_def
        isRemoteRuntimeProtocolClientMethod_def)
  ultimately show ?thesis using schema_of_method
    by (auto simp: validateRuntimeCommand_def Let_def)
qed

theorem runtime_command_never_refused_witness:
  "validateRuntimeCommand (sampleCommand ''turn.interrupt'' (JObj [(''threadId'', JStr ''t''), (''turnId'', JStr ''u'')])) ''r''
     = Inr (sampleCommand ''turn.interrupt'' (JObj [(''threadId'', JStr ''t''), (''turnId'', JStr ''u'')]))"
proof -
  have "isRuntimeWebSocketClientCommand_ws (sampleCommand ''turn.interrupt'' (JObj [(''threadId'', JStr ''t''), (''turnId'', JStr ''u'')]))"
    by code_simp
  from runtime_command_never_refused [OF this] show ?thesis by blast
qed

text \<open>A replay of well-formed events passes the guard, unless its last sequence number is the largest safe
  integer: then the next one is not safe.\<close>

lemma replay_payload_accepted:
  assumes "\<forall>e\<in>set events. isRuntimeWebSocketEventFrame e" and "length events < 2 ^ 32"
  shows "isRuntimeWebSocketReplayPayload (createRuntimeWebSocketReplayPayload events)
    \<longleftrightarrow> events = [] \<or> getProp (last events) ''sequence'' \<noteq> JInt 9007199254740991"
proof (cases "events = []")
  case True
  then show ?thesis by (simp add: createRuntimeWebSocketReplayPayload_def isRuntimeWebSocketReplayPayload_def
        isSafeNonNegativeInteger_def maxSafeInteger_def)
next
  case False
  then have "isRuntimeWebSocketEventFrame (last events)" using assms(1) by simp
  then obtain n where n: "getProp (last events) ''sequence'' = JNum (JFin n)" "of_int \<lfloor>n\<rfloor> = n" "0 \<le> n" "n \<le> maxSafeInteger"
    unfolding isRuntimeWebSocketEventFrame_def isSafeNonNegativeInteger_def
    by (cases "getProp (last events) ''sequence''") (auto elim!: numSafeInteger.elims)
  obtain i where i: "n = of_int i" using n(2) by metis
  have "int (length events) \<le> 9007199254740991" using assms(2) by simp
  then have "isSafeNonNegativeInteger (JInt (int (length events)))" unfolding isSafeNonNegativeInteger_def
    by (simp only: jsNumTest.simps numSafe_of_int) simp
  moreover have "isSafeNonNegativeInteger (JNum (JFin (n + 1))) \<longleftrightarrow> i \<noteq> 9007199254740991"
  proof -
    have "n + 1 = of_int (i + 1)" "0 \<le> i" "i \<le> 9007199254740991" using i n(3,4) by (simp_all add: maxSafeInteger_def)
    then show ?thesis unfolding isSafeNonNegativeInteger_def
      by (simp only: jsNumTest.simps numSafe_of_int) (auto simp: numGe.simps)
  qed
  moreover have "getProp (last events) ''sequence'' = JInt 9007199254740991 \<longleftrightarrow> i = 9007199254740991"
    using n(1) i by (metis jnum.inject js.inject(2) of_int_eq_iff)
  ultimately show ?thesis using False assms(1) n(1)
    by (simp add: createRuntimeWebSocketReplayPayload_def isRuntimeWebSocketReplayPayload_def list_all_iff)
qed

end
