(* ===== verification/Lifecycle_Theorems.thy ===== *)
theory Lifecycle_Theorems
  imports Response_Events
begin

text \<open>
  What the lifecycle state machine of the response events guarantees of a stream it accepts.  The locale
  \<open>sealing\<close> is the contract of a table whose entries are closed for good, \<open>bracketing\<close> that of one whose
  entries are opened once, used while open and closed once; every table of the lifecycle is an instance.
\<close>

section \<open>Accepted streams\<close>

primrec runSteps :: "('s \<Rightarrow> 'e \<Rightarrow> 's option) \<Rightarrow> 's \<Rightarrow> 'e list \<Rightarrow> 's option" where
  "runSteps step s [] = Some s"
| "runSteps step s (e # es) = (case step s e of None \<Rightarrow> None | Some t \<Rightarrow> runSteps step t es)"

lemma runSteps_append:
  "runSteps step s (xs @ ys) = (case runSteps step s xs of None \<Rightarrow> None | Some t \<Rightarrow> runSteps step t ys)"
  by (induction xs arbitrary: s) (auto split: option.split)

lemma runSteps_split:
  assumes "runSteps step s (pre @ e # post) = Some t"
  obtains u v where "runSteps step s pre = Some u" and "step u e = Some v" and "runSteps step v post = Some t"
  using assms by (auto simp: runSteps_append split: option.splits)

definition occurrences :: "('e \<Rightarrow> bool) \<Rightarrow> 'e list \<Rightarrow> nat" where
  "occurrences P es = length (filter P es)"

lemma occurrences_simps [simp]:
  "occurrences P [] = 0"
  "occurrences P (es @ fs) = occurrences P es + occurrences P fs"
  "occurrences P (e # es) = (if P e then 1 else 0) + occurrences P es"
  by (simp_all add: occurrences_def)

locale sealing =
  fixes step :: "'s \<Rightarrow> 'e \<Rightarrow> 's option"
    and sealed :: "'k \<Rightarrow> 's \<Rightarrow> bool"
    and seals touches :: "'k \<Rightarrow> 'e \<Rightarrow> bool"
  assumes seals_touches: "seals k e \<Longrightarrow> touches k e"
    and touch_unsealed: "step s e = Some t \<Longrightarrow> touches k e \<Longrightarrow> \<not> sealed k s"
    and step_sealed: "step s e = Some t \<Longrightarrow> sealed k t \<longleftrightarrow> sealed k s \<or> seals k e"
begin

lemma run_sealed: "runSteps step s es = Some t \<Longrightarrow> sealed k t \<longleftrightarrow> sealed k s \<or> 0 < occurrences (seals k) es"
  by (induction es arbitrary: s) (auto simp: step_sealed split: option.splits)

lemma sealed_untouched:
  assumes "runSteps step s (pre @ e # post) = Some t" and "touches k e"
  shows "occurrences (seals k) pre = 0"
proof -
  obtain u v where "runSteps step s pre = Some u" "step u e = Some v" using runSteps_split [OF assms(1)] .
  with touch_unsealed [OF _ assms(2)] run_sealed show ?thesis by blast
qed

end

datatype phase = Fresh | Open | Closed

locale bracketing =
  fixes step :: "'s \<Rightarrow> 'e \<Rightarrow> 's option"
    and phase :: "'k \<Rightarrow> 's \<Rightarrow> phase"
    and opens closes needs :: "'k \<Rightarrow> 'e \<Rightarrow> bool"
  assumes open_close: "\<not> (opens k e \<and> closes k e)"
    and closes_needs: "closes k e \<Longrightarrow> needs k e"
    and step_opens: "step s e = Some t \<Longrightarrow> opens k e \<Longrightarrow> phase k s = Fresh"
    and step_needs: "step s e = Some t \<Longrightarrow> needs k e \<Longrightarrow> phase k s = Open"
    and step_phase: "step s e = Some t \<Longrightarrow> phase k t = (if opens k e then Open else if closes k e then Closed else phase k s)"
begin

lemma run_phase:
  assumes "runSteps step s es = Some t" and "phase k s = Fresh"
  shows "(occurrences (opens k) es, occurrences (closes k) es) = (case phase k t of Fresh \<Rightarrow> (0, 0) | Open \<Rightarrow> (1, 0) | Closed \<Rightarrow> (1, 1))"
  using assms(1)
proof (induction es arbitrary: t rule: rev_induct)
  case Nil
  then show ?case using assms(2) by simp
next
  case (snoc e es)
  then obtain u where u: "runSteps step s es = Some u" "step u e = Some t"
    by (auto simp: runSteps_append split: option.splits)
  have now: "phase k t = (if opens k e then Open else if closes k e then Closed else phase k u)"
    and "opens k e \<Longrightarrow> phase k u = Fresh" and "closes k e \<Longrightarrow> phase k u = Open"
    using step_phase [OF u(2)] step_opens [OF u(2)] step_needs [OF u(2) closes_needs] by blast+
  with snoc.IH [OF u(1)] open_close [of k e] show ?case by (cases "phase k u") auto
qed

lemma bracketed:
  assumes "runSteps step s (pre @ e # post) = Some t" and "phase k s = Fresh"
  shows "opens k e \<Longrightarrow> occurrences (opens k) pre = 0 \<and> occurrences (closes k) pre = 0"
    and "needs k e \<Longrightarrow> occurrences (opens k) pre = 1 \<and> occurrences (closes k) pre = 0"
proof -
  obtain u v where u: "runSteps step s pre = Some u" "step u e = Some v" using runSteps_split [OF assms(1)] .
  show "occurrences (opens k) pre = 0 \<and> occurrences (closes k) pre = 0" if "opens k e"
    using run_phase [OF u(1) assms(2)] step_opens [OF u(2) that] by simp
  show "occurrences (opens k) pre = 1 \<and> occurrences (closes k) pre = 0" if "needs k e"
    using run_phase [OF u(1) assms(2)] step_needs [OF u(2) that] by simp
qed

end

text \<open>A bracketed table seals its entries.\<close>

sublocale bracketing \<subseteq> sealed: sealing step "\<lambda>k s. phase k s = Closed" closes "\<lambda>k e. opens k e \<or> needs k e"
proof
  show "closes k e \<Longrightarrow> opens k e \<or> needs k e" for k e using closes_needs by blast
  show "step s e = Some t \<Longrightarrow> opens k e \<or> needs k e \<Longrightarrow> phase k s \<noteq> Closed" for s e t k
    using step_opens step_needs by fastforce
  show "step s e = Some t \<Longrightarrow> phase k t = Closed \<longleftrightarrow> phase k s = Closed \<or> closes k e" for s e t k
    using step_phase [of s e t k] step_opens [of s e t k] open_close [of k e] by (auto split: if_splits)
qed

section \<open>The tables of the lifecycle\<close>

definition acceptEvent :: "lifecycle_state \<Rightarrow> response_event \<Rightarrow> lifecycle_state option" where
  "acceptEvent s e = (case validateNormalizedResponseTransition s e of Inl _ \<Rightarrow> None
     | Inr _ \<Rightarrow> Some (applyNormalizedResponseTransition s e))"

definition emptyLifecycle :: lifecycle_state where
  "emptyLifecycle = \<lparr> lc_responses = None, lc_run = None, lc_textItems = None, lc_reasoningItems = None,
     lc_structuredOutputItems = None, lc_toolItems = None \<rparr>"

definition responsePhase :: "string \<Rightarrow> lifecycle_state \<Rightarrow> phase" where
  "responsePhase r s = (case slotOf (lc_responses s) r of Own LStarted \<Rightarrow> Open | Own _ \<Rightarrow> Closed | _ \<Rightarrow> Fresh)"

definition toolPhase :: "string \<Rightarrow> lifecycle_state \<Rightarrow> phase" where
  "toolPhase i s = (case slotOf (lc_toolItems s) i of Own ToolIsRequested \<Rightarrow> Open | Own _ \<Rightarrow> Closed | _ \<Rightarrow> Fresh)"

definition runPhase :: "unit \<Rightarrow> lifecycle_state \<Rightarrow> phase" where
  "runPhase _ s = (case lc_run s of None \<Rightarrow> Fresh | Some LStarted \<Rightarrow> Open | Some _ \<Rightarrow> Closed)"

text \<open>The id \<open>i\<close> names the entry \<open>k\<close>; the key \<^verbatim>\<open>__proto__\<close> is no entry of a plain object.\<close>

definition names :: "string option \<Rightarrow> string \<Rightarrow> bool" where
  "names i k \<longleftrightarrow> i = Some k \<and> k \<noteq> ''__proto__'' \<and> k \<noteq> []"

definition startsResponse :: "string \<Rightarrow> response_event \<Rightarrow> bool" where
  "startsResponse r e \<longleftrightarrow> (case ev_body e of ResponseStarted _ \<Rightarrow> names (ev_responseId e) r | _ \<Rightarrow> False)"

definition endsResponse :: "string \<Rightarrow> response_event \<Rightarrow> bool" where
  "endsResponse r e \<longleftrightarrow> (case ev_body e of ResponseCompleted _ \<Rightarrow> names (ev_responseId e) r
     | ResponseFailed _ \<Rightarrow> names (ev_responseId e) r | ResponseCancelled _ \<Rightarrow> names (ev_responseId e) r | _ \<Rightarrow> False)"

text \<open>Output of a response, or its end.\<close>

definition belongsToResponse :: "string \<Rightarrow> response_event \<Rightarrow> bool" where
  "belongsToResponse r e \<longleftrightarrow> endsResponse r e \<or> (case ev_body e of TextDelta _ \<Rightarrow> names (ev_responseId e) r
     | TextCompleted _ _ \<Rightarrow> names (ev_responseId e) r | ReasoningDelta _ _ \<Rightarrow> names (ev_responseId e) r
     | ReasoningCompleted _ \<Rightarrow> names (ev_responseId e) r | StructuredCompleted _ _ \<Rightarrow> names (ev_responseId e) r | _ \<Rightarrow> False)"

definition requestsTool :: "string \<Rightarrow> response_event \<Rightarrow> bool" where
  "requestsTool i e \<longleftrightarrow> (case ev_body e of ToolRequested _ \<Rightarrow> names (ev_itemId e) i | _ \<Rightarrow> False)"

definition endsTool :: "string \<Rightarrow> response_event \<Rightarrow> bool" where
  "endsTool i e \<longleftrightarrow> (case ev_body e of ToolCompleted _ \<Rightarrow> names (ev_itemId e) i
     | ToolFailed _ \<Rightarrow> names (ev_itemId e) i | ToolCancelled _ \<Rightarrow> names (ev_itemId e) i | _ \<Rightarrow> False)"

definition belongsToTool :: "string \<Rightarrow> response_event \<Rightarrow> bool" where
  "belongsToTool i e \<longleftrightarrow> endsTool i e \<or> (case ev_body e of ToolUpdated _ _ \<Rightarrow> names (ev_itemId e) i | _ \<Rightarrow> False)"

definition startsRun :: "unit \<Rightarrow> response_event \<Rightarrow> bool" where
  "startsRun _ e \<longleftrightarrow> (case ev_body e of RunStarted _ \<Rightarrow> True | _ \<Rightarrow> False)"

definition endsRun :: "unit \<Rightarrow> response_event \<Rightarrow> bool" where
  "endsRun _ e \<longleftrightarrow> (case ev_body e of RunCompleted _ \<Rightarrow> True | RunFailed _ \<Rightarrow> True | RunCancelled _ \<Rightarrow> True | _ \<Rightarrow> False)"

definition completesText :: "string \<Rightarrow> response_event \<Rightarrow> bool" where
  "completesText i e \<longleftrightarrow> (case ev_body e of TextCompleted _ _ \<Rightarrow> names (ev_itemId e) i | _ \<Rightarrow> False)"

definition extendsText :: "string \<Rightarrow> response_event \<Rightarrow> bool" where
  "extendsText i e \<longleftrightarrow> completesText i e \<or> (case ev_body e of TextDelta _ \<Rightarrow> names (ev_itemId e) i | _ \<Rightarrow> False)"

definition completesReasoning :: "string \<Rightarrow> response_event \<Rightarrow> bool" where
  "completesReasoning i e \<longleftrightarrow> (case ev_body e of ReasoningCompleted _ \<Rightarrow> names (ev_itemId e) i | _ \<Rightarrow> False)"

definition extendsReasoning :: "string \<Rightarrow> response_event \<Rightarrow> bool" where
  "extendsReasoning i e \<longleftrightarrow> completesReasoning i e \<or> (case ev_body e of ReasoningDelta _ _ \<Rightarrow> names (ev_itemId e) i | _ \<Rightarrow> False)"

definition completesStructured :: "string \<Rightarrow> response_event \<Rightarrow> bool" where
  "completesStructured i e \<longleftrightarrow> (case ev_body e of StructuredCompleted _ _ \<Rightarrow> names (ev_itemId e) i | _ \<Rightarrow> False)"

lemmas event_kinds = startsResponse_def endsResponse_def belongsToResponse_def requestsTool_def endsTool_def belongsToTool_def
  startsRun_def endsRun_def completesText_def extendsText_def completesReasoning_def extendsReasoning_def completesStructured_def

lemma slotOf_copy [simp]: "slotOf (Some (orEmptyTable t)) k = slotOf t k"
  by (simp add: slotOf_def orEmptyTable_def)

lemma slotOf_setSlot [simp]:
  "slotOf (setSlot i v t) k = (if k = keyOf i \<and> k \<noteq> ''__proto__'' then Own v else slotOf t k)"
  by (auto simp: slotOf_def setSlot_def orEmptyTable_def split: option.split)

lemma slotOf_proto: "slotOf t ''__proto__'' \<noteq> Absent"
  by (simp add: slotOf_def objectPrototypeKeys_def split: option.split)

lemma acceptEvent_Some:
  "acceptEvent s e = Some t \<longleftrightarrow> validateNormalizedResponseTransition s e = Inr () \<and> t = applyNormalizedResponseTransition s e"
  by (auto simp: acceptEvent_def split: sum.split)

lemmas transition_defs = acceptEvent_Some validateNormalizedResponseTransition_def applyNormalizedResponseTransition_def
  copyOf_def okIf_def responseIsStarted_def toolIsRequested_def Let_def


lemma entry_key: "present i \<Longrightarrow> keyOf i = k \<and> k \<noteq> ''__proto__'' \<longleftrightarrow> names i k"
  by (cases i) (auto simp: present_def names_def keyOf_def)

lemma names_keyOf: "names i k \<Longrightarrow> keyOf i = k"
  by (simp add: names_def keyOf_def)

lemma slotOf_setSlot_names:
  assumes "present i"
  shows "slotOf (setSlot i v t) k = (if names i k then Own v else slotOf t k)"
  unfolding slotOf_setSlot entry_key [OF assms, symmetric] by auto

interpretation responses: bracketing acceptEvent responsePhase startsResponse endsResponse belongsToResponse
proof
  fix k s e t
  show "\<not> (startsResponse k e \<and> endsResponse k e)" by (auto simp: event_kinds split: event_body.splits)
  show "endsResponse k e \<Longrightarrow> belongsToResponse k e" by (simp add: belongsToResponse_def)
  assume step: "acceptEvent s e = Some t"
  show "responsePhase k s = Fresh" if "startsResponse k e"
    using step that by (cases "ev_body e") (auto simp: transition_defs event_kinds names_def keyOf_def responsePhase_def split: if_splits)
  show "responsePhase k s = Open" if "belongsToResponse k e"
    using step that by (cases "ev_body e") (auto simp: transition_defs event_kinds names_def keyOf_def responsePhase_def split: if_splits)
  show "responsePhase k t = (if startsResponse k e then Open else if endsResponse k e then Closed else responsePhase k s)"
    using step by (cases "ev_body e")
      (auto simp: transition_defs event_kinds slotOf_setSlot_names responsePhase_def simp del: slotOf_setSlot split: if_splits)
qed

interpretation tools: bracketing acceptEvent toolPhase requestsTool endsTool belongsToTool
proof
  fix k s e t
  show "\<not> (requestsTool k e \<and> endsTool k e)" by (auto simp: event_kinds split: event_body.splits)
  show "endsTool k e \<Longrightarrow> belongsToTool k e" by (simp add: belongsToTool_def)
  assume step: "acceptEvent s e = Some t"
  show "toolPhase k s = Fresh" if "requestsTool k e"
    using step that by (cases "ev_body e") (auto simp: transition_defs event_kinds names_def keyOf_def toolPhase_def split: if_splits)
  show "toolPhase k s = Open" if "belongsToTool k e"
    using step that by (cases "ev_body e") (auto simp: transition_defs event_kinds names_def keyOf_def toolPhase_def split: if_splits)
  show "toolPhase k t = (if requestsTool k e then Open else if endsTool k e then Closed else toolPhase k s)"
    using step by (cases "ev_body e")
      (auto simp: transition_defs event_kinds slotOf_setSlot_names toolPhase_def simp del: slotOf_setSlot
        dest: names_keyOf split: if_splits)
qed

interpretation lifecycle_run: bracketing acceptEvent runPhase startsRun endsRun endsRun
proof
  fix k s e t
  show "\<not> (startsRun k e \<and> endsRun k e)" by (auto simp: event_kinds split: event_body.splits)
  show "endsRun k e \<Longrightarrow> endsRun k e" .
  assume step: "acceptEvent s e = Some t"
  show "runPhase k s = Fresh" if "startsRun k e"
    using step that by (cases "ev_body e") (auto simp: transition_defs event_kinds runPhase_def split: if_splits)
  show "runPhase k s = Open" if "endsRun k e"
    using step that by (cases "ev_body e") (auto simp: transition_defs event_kinds runPhase_def split: if_splits)
  show "runPhase k t = (if startsRun k e then Open else if endsRun k e then Closed else runPhase k s)"
    using step by (cases "ev_body e") (auto simp: transition_defs event_kinds runPhase_def split: if_splits)
qed

definition textSealed :: "string \<Rightarrow> lifecycle_state \<Rightarrow> bool" where
  "textSealed i s \<longleftrightarrow> slotOf (lc_textItems s) i = Own ItemCompleted"

definition reasoningSealed :: "string \<Rightarrow> lifecycle_state \<Rightarrow> bool" where
  "reasoningSealed i s \<longleftrightarrow> slotOf (lc_reasoningItems s) i = Own ItemCompleted"

definition structuredSealed :: "string \<Rightarrow> lifecycle_state \<Rightarrow> bool" where
  "structuredSealed i s \<longleftrightarrow> slotOf (lc_structuredOutputItems s) i = Own StructCompleted"

lemmas item_defs = event_kinds slotOf_setSlot_names textSealed_def reasoningSealed_def structuredSealed_def

interpretation texts: sealing acceptEvent textSealed completesText extendsText
proof
  fix k s e t
  show "completesText k e \<Longrightarrow> extendsText k e" by (simp add: extendsText_def)
  assume step: "acceptEvent s e = Some t"
  show "\<not> textSealed k s" if "extendsText k e"
    using step that by (cases "ev_body e") (auto simp: transition_defs item_defs dest: names_keyOf split: if_splits)
  show "textSealed k t \<longleftrightarrow> textSealed k s \<or> completesText k e"
    using step by (cases "ev_body e") (auto simp: transition_defs item_defs simp del: slotOf_setSlot dest: names_keyOf split: if_splits)
qed

interpretation reasonings: sealing acceptEvent reasoningSealed completesReasoning extendsReasoning
proof
  fix k s e t
  show "completesReasoning k e \<Longrightarrow> extendsReasoning k e" by (simp add: extendsReasoning_def)
  assume step: "acceptEvent s e = Some t"
  show "\<not> reasoningSealed k s" if "extendsReasoning k e"
    using step that by (cases "ev_body e") (auto simp: transition_defs item_defs dest: names_keyOf split: if_splits)
  show "reasoningSealed k t \<longleftrightarrow> reasoningSealed k s \<or> completesReasoning k e"
    using step by (cases "ev_body e") (auto simp: transition_defs item_defs simp del: slotOf_setSlot dest: names_keyOf split: if_splits)
qed

interpretation structures: sealing acceptEvent structuredSealed completesStructured completesStructured
proof
  fix k s e t
  show "completesStructured k e \<Longrightarrow> completesStructured k e" .
  assume step: "acceptEvent s e = Some t"
  show "\<not> structuredSealed k s" if "completesStructured k e"
    using step that by (cases "ev_body e") (auto simp: transition_defs item_defs dest: names_keyOf split: if_splits)
  show "structuredSealed k t \<longleftrightarrow> structuredSealed k s \<or> completesStructured k e"
    using step by (cases "ev_body e") (auto simp: transition_defs item_defs simp del: slotOf_setSlot dest: names_keyOf split: if_splits)
qed

text \<open>Whatever the event, a terminal run accepts it no more.\<close>

interpretation finished: sealing acceptEvent "\<lambda>k s. runPhase k s = Closed" endsRun "\<lambda>_ _. True"
proof
  fix k s e t
  assume step: "acceptEvent s e = Some t"
  show "runPhase k s \<noteq> Closed"
    using step by (auto simp: transition_defs runPhase_def split: if_splits option.split lifecycle_status.split)
  show "runPhase k t = Closed \<longleftrightarrow> runPhase k s = Closed \<or> endsRun k e" by (rule lifecycle_run.sealed.step_sealed [OF step])
qed simp

section \<open>Properties\<close>

lemma emptyLifecycle_fresh [simp]:
  "responsePhase r emptyLifecycle = Fresh" "toolPhase i emptyLifecycle = Fresh" "runPhase () emptyLifecycle = Fresh"
  by (simp_all add: emptyLifecycle_def responsePhase_def toolPhase_def runPhase_def slotOf_def orEmptyTable_def)

text \<open>C18: In every stream of response events that the lifecycle accepts from the start, and for every id but
  \<^verbatim>\<open>__proto__\<close>, outputs and the end of a response come after exactly one start of it and before any end of it,
  updates and the end of a tool item after exactly one request and before any end; a response and
  a tool item are started once; nothing follows the completion of a text, reasoning or structured item for that item; a run is ended
  only after it was started, is started at most once, and nothing at all follows its end.\<close>
theorem accepted_stream_bracketed:
  assumes "runSteps acceptEvent emptyLifecycle (pre @ e # post) = Some t"
  shows "(belongsToResponse r e \<longrightarrow> occurrences (startsResponse r) pre = 1 \<and> occurrences (endsResponse r) pre = 0)
    \<and> (startsResponse r e \<longrightarrow> occurrences (startsResponse r) pre = 0 \<and> occurrences (endsResponse r) pre = 0)
    \<and> (belongsToTool i e \<longrightarrow> occurrences (requestsTool i) pre = 1 \<and> occurrences (endsTool i) pre = 0)
    \<and> (requestsTool i e \<longrightarrow> occurrences (requestsTool i) pre = 0 \<and> occurrences (endsTool i) pre = 0)
    \<and> (extendsText i e \<longrightarrow> occurrences (completesText i) pre = 0)
    \<and> (extendsReasoning i e \<longrightarrow> occurrences (completesReasoning i) pre = 0)
    \<and> (completesStructured i e \<longrightarrow> occurrences (completesStructured i) pre = 0)
    \<and> (endsRun () e \<longrightarrow> occurrences (startsRun ()) pre = 1)
    \<and> (startsRun () e \<longrightarrow> occurrences (startsRun ()) pre = 0)
    \<and> occurrences (endsRun ()) pre = 0"
  using responses.bracketed [OF assms] tools.bracketed [OF assms] lifecycle_run.bracketed [OF assms]
    texts.sealed_untouched [OF assms] reasonings.sealed_untouched [OF assms] structures.sealed_untouched [OF assms]
    finished.sealed_untouched [OF assms]
  by simp

definition sampleEvent :: "string \<Rightarrow> string \<Rightarrow> event_body \<Rightarrow> response_event" where
  "sampleEvent response item body =
     \<lparr> ev_attempt = JFin 1, ev_causationId = None, ev_correlationId = ''c'', ev_dedupeKey = ''d'', ev_eventId = ''e'',
       ev_itemId = Some item, ev_model = None, ev_originResponseId = None, ev_providerId = ''p'', ev_providerMetadataRef = None,
       ev_responseId = Some response, ev_runId = ''run'', ev_sequence = JFin 1, ev_sessionId = ''s'', ev_timestamp = ''t'', ev_body = body \<rparr>"

definition sampleOpening :: "response_event list" where
  "sampleOpening =
     [sampleEvent [] [] (RunStarted \<lparr> rsp_capabilitySnapshot = [], rsp_inputSummaryRef = None, rsp_supersedesRunId = None \<rparr>),
      sampleEvent ''r'' [] (ResponseStarted \<lparr> rst_providerRequestRef = None, rst_streaming = True, rst_resumedFromResponseId = None \<rparr>)]"

theorem accepted_stream_bracketed_witness:
  "occurrences (startsResponse ''r'') sampleOpening = 1 \<and> occurrences (completesText ''i'') sampleOpening = 0"
proof -
  let ?e = "sampleEvent ''r'' ''i'' (TextCompleted False ''hello'')"
  let ?closing = "[sampleEvent ''r'' [] (ResponseCompleted FinishStop), sampleEvent [] [] (RunCompleted [])]"
  have "runSteps acceptEvent emptyLifecycle (sampleOpening @ ?e # ?closing) \<noteq> None" by code_simp
  then obtain t where run: "runSteps acceptEvent emptyLifecycle (sampleOpening @ ?e # ?closing) = Some t" by blast
  have "belongsToResponse ''r'' ?e" "extendsText ''i'' ?e" by code_simp+
  with accepted_stream_bracketed [OF run, of "''r''" "''i''"] show ?thesis by blast
qed

text \<open>The tables are plain objects: a response named like a member of \<^verbatim>\<open>Object.prototype\<close> is refused as already
  existing although it never started, and the completion of a text item named \<^verbatim>\<open>__proto__\<close> is accepted
  any number of times, since the assignment that should record it has no effect.\<close>
theorem prototype_names_break_lifecycle:
  "validateNormalizedResponseTransition emptyLifecycle (sampleEvent ''constructor'' [] (ResponseStarted p))
     = Inl ''Response constructor already exists.''
   \<and> runSteps acceptEvent emptyLifecycle
        (sampleOpening @ replicate n (sampleEvent ''r'' ''__proto__'' (TextCompleted False ''hello''))) \<noteq> None"
proof -
  let ?done = "sampleEvent ''r'' ''__proto__'' (TextCompleted False ''hello'')"
  have "case runSteps acceptEvent emptyLifecycle sampleOpening of None \<Rightarrow> False
      | Some s \<Rightarrow> (case acceptEvent s ?done of None \<Rightarrow> False | Some t \<Rightarrow> acceptEvent t ?done = Some t)"
    by code_simp
  then obtain s t where s: "runSteps acceptEvent emptyLifecycle sampleOpening = Some s"
    and t: "acceptEvent s ?done = Some t" "acceptEvent t ?done = Some t"
    by (auto split: option.splits)
  have fixpoint: "runSteps acceptEvent t (replicate m ?done) = Some t" for m
    by (induction m) (simp_all add: t)
  have "runSteps acceptEvent emptyLifecycle (sampleOpening @ replicate n ?done) \<noteq> None"
    using fixpoint by (cases n) (simp_all add: runSteps_append s t)
  moreover have "validateNormalizedResponseTransition emptyLifecycle (sampleEvent ''constructor'' [] (ResponseStarted p))
     = Inl ''Response constructor already exists.''"
    by (simp add: validateNormalizedResponseTransition_def emptyLifecycle_def sampleEvent_def present_def slotOf_def orEmptyTable_def
        keyOf_def objectPrototypeKeys_def okIf_def)
  ultimately show ?thesis by blast
qed

end
