(* ===== verification/Session_Turns.thy ===== *)
theory Session_Turns
  imports Prelude
begin

text \<open>
  The session turn coordinator (\<^verbatim>\<open>createSessionTurnCoordinator\<close> in \<^verbatim>\<open>packages/cli-session-turns/src/index.ts\<close>).
  The state object of a session is shared: it is held by the map \<open>states\<close> and by every submission and
  drain loop that is waiting, and the map can forget it meanwhile, so the state objects live in a heap and
  are passed by address.  The coroutines of the coordinator are split at their awaits: a \<open>task\<close> is a coroutine that
  waits, \<open>resumeTask\<close> runs it with the awaited result up to its next await.  The calls of the
  environment (\<open>runPrompt\<close>, \<open>steerActiveTurn\<close>, \<open>runLoop\<close> and the others) are the awaited results.
\<close>

section \<open>State\<close>

record 'i queue_item =
  qi_input :: 'i
  qi_id :: string

record 'i session_state =
  ss_draining :: bool
  ss_persisted :: "string list"
  ss_queue :: "'i queue_item list"

text \<open>Which optional dependencies are present: \<open>persistPromptOnly\<close> together with \<open>runLoop\<close>, and \<open>isSessionBusy\<close>;
  \<open>steerActiveTurn\<close> and \<open>waitUntilIdle\<close> are awaited in any case, their absence is the result undefined.\<close>

record 'i turn_deps =
  td_getSessionId :: "'i \<Rightarrow> string"
  td_persists :: bool
  td_isSessionBusy :: bool

datatype 'i turn_caller = FromQueue nat string "'i queue_item" | FromSubmit nat string 'i string

datatype 'i turn_task =
    Steering "'i turn_caller"
  | Prompting "'i turn_caller"
  | BetweenItems nat string
  | CheckingBusy nat string 'i string
  | Persisting nat string string
  | WaitingIdle nat string
  | Looping nat string
  | CheckingNewer nat string

datatype 'm awaited = Busy bool | Steered "'m option" | Message 'm | Newer bool | Settled | Threw string

datatype 'm turn_outcome = Resolved 'm bool | Rejected string

record ('i, 'm) coordinator =
  co_heap :: "'i session_state list"
  co_states :: "(string, nat) js_map"
  co_sequence :: int
  co_tasks :: "'i turn_task list"
  co_submitted :: "(string \<times> string) list"
  co_settled :: "((string \<times> string) \<times> 'm turn_outcome) list"

definition createSessionTurnCoordinator :: "('i, 'm) coordinator" where
  "createSessionTurnCoordinator =
     \<lparr> co_heap = [], co_states = [], co_sequence = 0, co_tasks = [], co_submitted = [], co_settled = [] \<rparr>"

section \<open>Helpers of the coordinator\<close>

definition stateFor :: "string \<Rightarrow> ('i, 'm) coordinator \<Rightarrow> nat \<times> ('i, 'm) coordinator" where
  "stateFor sessionId c =
     (case mapGet (co_states c) sessionId of
        Some a \<Rightarrow> (a, c)
      | None \<Rightarrow> (length (co_heap c),
          c\<lparr>co_heap := co_heap c @ [\<lparr> ss_draining = False, ss_persisted = [], ss_queue = [] \<rparr>],
            co_states := mapSet sessionId (length (co_heap c)) (co_states c)\<rparr>))"

definition nextQueueItemId :: "string \<Rightarrow> string \<Rightarrow> ('i, 'm) coordinator \<Rightarrow> string \<times> ('i, 'm) coordinator" where
  "nextQueueItemId sessionId now c =
     (let sequence = co_sequence c + 1 in
      (sessionId @ '':'' @ now @ '':'' @ intText sequence, c\<lparr>co_sequence := sequence\<rparr>))"

definition updateState :: "nat \<Rightarrow> ('i session_state \<Rightarrow> 'i session_state) \<Rightarrow> ('i, 'm) coordinator \<Rightarrow> ('i, 'm) coordinator" where
  "updateState a f c = c\<lparr>co_heap := (co_heap c)[a := f (co_heap c ! a)]\<rparr>"

definition cleanup :: "string \<Rightarrow> nat \<Rightarrow> ('i, 'm) coordinator \<Rightarrow> ('i, 'm) coordinator" where
  "cleanup sessionId a c =
     (let state = co_heap c ! a in
      if ss_persisted state = [] \<and> ss_queue state = [] then c\<lparr>co_states := mapDelete sessionId (co_states c)\<rparr> else c)"

definition await :: "'i turn_task \<Rightarrow> ('i, 'm) coordinator \<Rightarrow> ('i, 'm) coordinator" where
  "await t c = c\<lparr>co_tasks := co_tasks c @ [t]\<rparr>"

definition settle :: "string \<Rightarrow> string \<Rightarrow> 'm turn_outcome \<Rightarrow> ('i, 'm) coordinator \<Rightarrow> ('i, 'm) coordinator" where
  "settle sessionId i outcome c = c\<lparr>co_settled := co_settled c @ [((sessionId, i), outcome)]\<rparr>"

text \<open>\<open>read\<close> is \<open>readMessages\<close> when there is one.\<close>

definition hasNewerUserMessage ::
  "('m \<Rightarrow> string option) \<Rightarrow> ('m \<Rightarrow> string option) \<Rightarrow> 'm list option \<Rightarrow> 'm \<Rightarrow> bool" where
  "hasNewerUserMessage messageId messageRole messages message =
     (case messages of
        None \<Rightarrow> False
      | Some ms \<Rightarrow>
          messageId message \<noteq> None \<and> messageId message \<noteq> Some [] \<and> messageRole message = Some ''assistant''
          \<and> (case dropWhile (\<lambda>m. messageId m \<noteq> messageId message) ms of
               [] \<Rightarrow> False
             | _ # later \<Rightarrow> (\<exists>m\<in>set later. messageRole m = Some ''user'')))"

section \<open>Drain loops\<close>

definition finishDraining :: "string \<Rightarrow> nat \<Rightarrow> ('i, 'm) coordinator \<Rightarrow> ('i, 'm) coordinator" where
  "finishDraining sessionId a c = cleanup sessionId a (updateState a (ss_draining_update (\<lambda>_. False)) c)"

text \<open>The loop test of \<open>drainQueuedPrompts\<close>: take the next item or leave through \<open>finally\<close>.\<close>

definition nextQueued :: "string \<Rightarrow> nat \<Rightarrow> ('i, 'm) coordinator \<Rightarrow> ('i, 'm) coordinator" where
  "nextQueued sessionId a c =
     (case ss_queue (co_heap c ! a) of
        [] \<Rightarrow> finishDraining sessionId a c
      | item # rest \<Rightarrow> await (Steering (FromQueue a sessionId item)) (updateState a (ss_queue_update (\<lambda>_. rest)) c))"

definition drainQueuedPrompts :: "string \<Rightarrow> nat \<Rightarrow> ('i, 'm) coordinator \<Rightarrow> ('i, 'm) coordinator" where
  "drainQueuedPrompts sessionId a c =
     (if ss_draining (co_heap c ! a) then c
      else nextQueued sessionId a (updateState a (ss_draining_update (\<lambda>_. True)) c))"

definition nextPersisted :: "string \<Rightarrow> nat \<Rightarrow> ('i, 'm) coordinator \<Rightarrow> ('i, 'm) coordinator" where
  "nextPersisted sessionId a c =
     (case ss_persisted (co_heap c ! a) of
        [] \<Rightarrow> finishDraining sessionId a c
      | i # rest \<Rightarrow>
          (let c' = updateState a (ss_persisted_update (\<lambda>_. rest)) c in
           if i = [] then finishDraining sessionId a c' else await (WaitingIdle a sessionId) c'))"

definition drainPersistedPrompts :: "string \<Rightarrow> nat \<Rightarrow> ('i, 'm) coordinator \<Rightarrow> ('i, 'm) coordinator" where
  "drainPersistedPrompts sessionId a c =
     (if ss_draining (co_heap c ! a) then c
      else nextPersisted sessionId a (updateState a (ss_draining_update (\<lambda>_. True)) c))"

section \<open>Submission\<close>

text \<open>The part of \<open>submit\<close> up to its first await.\<close>

definition submit :: "'i turn_deps \<Rightarrow> 'i \<Rightarrow> string \<Rightarrow> ('i, 'm) coordinator \<Rightarrow> ('i, 'm) coordinator" where
  "submit deps input now c =
     (let sessionId = td_getSessionId deps input;
          (a, c1) = stateFor sessionId c;
          (i, c2) = nextQueueItemId sessionId now c1;
          c3 = c2\<lparr>co_submitted := co_submitted c2 @ [(sessionId, i)]\<rparr> in
      if td_persists deps then
        if td_isSessionBusy deps \<and> \<not> ss_draining (co_heap c3 ! a) then await (CheckingBusy a sessionId input i) c3
        else await (Persisting a sessionId i) c3
      else drainQueuedPrompts sessionId a
             (updateState a (ss_queue_update (\<lambda>q. q @ [\<lparr> qi_input = input, qi_id = i \<rparr>])) c3))"

text \<open>The \<open>finally\<close> block of the direct path of \<open>submit\<close>.\<close>

definition finishDirect :: "string \<Rightarrow> nat \<Rightarrow> ('i, 'm) coordinator \<Rightarrow> ('i, 'm) coordinator" where
  "finishDirect sessionId a c =
     (let c' = updateState a (ss_draining_update (\<lambda>_. False)) c in
      if ss_persisted (co_heap c' ! a) \<noteq> [] then drainPersistedPrompts sessionId a c' else cleanup sessionId a c')"

definition callerSettled :: "'i turn_caller \<Rightarrow> 'm turn_outcome \<Rightarrow> ('i, 'm) coordinator \<Rightarrow> ('i, 'm) coordinator" where
  "callerSettled caller outcome c =
     (case caller of
        FromQueue a sessionId item \<Rightarrow> await (BetweenItems a sessionId) (settle sessionId (qi_id item) outcome c)
      | FromSubmit a sessionId input i \<Rightarrow> settle sessionId i outcome (finishDirect sessionId a c))"

text \<open>\<open>None\<close>: the result is not one that this task waits for.\<close>

fun resumeTask :: "'i turn_task \<Rightarrow> 'm awaited \<Rightarrow> ('i, 'm) coordinator \<Rightarrow> ('i, 'm) coordinator option" where
  "resumeTask (Steering caller) (Steered (Some m)) c = Some (callerSettled caller (Resolved m False) c)"
| "resumeTask (Steering caller) (Steered None) c = Some (await (Prompting caller) c)"
| "resumeTask (Steering caller) (Threw e) c = Some (callerSettled caller (Rejected e) c)"
| "resumeTask (Prompting caller) (Message m) c = Some (callerSettled caller (Resolved m False) c)"
| "resumeTask (Prompting caller) (Threw e) c = Some (callerSettled caller (Rejected e) c)"
| "resumeTask (BetweenItems a sessionId) Settled c = Some (nextQueued sessionId a c)"
| "resumeTask (CheckingBusy a sessionId input i) (Busy True) c = Some (await (Persisting a sessionId i) c)"
| "resumeTask (CheckingBusy a sessionId input i) (Busy False) c =
     Some (await (Steering (FromSubmit a sessionId input i)) (updateState a (ss_draining_update (\<lambda>_. True)) c))"
| "resumeTask (CheckingBusy a sessionId input i) (Threw e) c = Some (settle sessionId i (Rejected e) c)"
| "resumeTask (Persisting a sessionId i) (Message m) c =
     (let c' = drainPersistedPrompts sessionId a (updateState a (ss_persisted_update (\<lambda>p. p @ [i])) c) in
      Some (settle sessionId i (Resolved m (ss_draining (co_heap c' ! a))) c'))"
| "resumeTask (Persisting a sessionId i) (Threw e) c = Some (settle sessionId i (Rejected e) c)"
| "resumeTask (WaitingIdle a sessionId) Settled c = Some (await (Looping a sessionId) c)"
| "resumeTask (WaitingIdle a sessionId) (Threw e) c = Some (finishDraining sessionId a c)"
| "resumeTask (Looping a sessionId) (Message m) c = Some (await (CheckingNewer a sessionId) c)"
| "resumeTask (Looping a sessionId) (Threw e) c = Some (finishDraining sessionId a c)"
| "resumeTask (CheckingNewer a sessionId) (Newer True) c = Some (await (Looping a sessionId) c)"
| "resumeTask (CheckingNewer a sessionId) (Newer False) c = Some (nextPersisted sessionId a c)"
| "resumeTask (CheckingNewer a sessionId) (Threw e) c = Some (finishDraining sessionId a c)"
| "resumeTask _ _ c = None"

definition resume :: "nat \<Rightarrow> 'm awaited \<Rightarrow> ('i, 'm) coordinator \<Rightarrow> ('i, 'm) coordinator option" where
  "resume n result c =
     (if n < length (co_tasks c)
      then resumeTask (co_tasks c ! n) result (c\<lparr>co_tasks := take n (co_tasks c) @ drop (Suc n) (co_tasks c)\<rparr>)
      else None)"

definition pending :: "string \<Rightarrow> ('i, 'm) coordinator \<Rightarrow> string list" where
  "pending sessionId c =
     (case mapGet (co_states c) sessionId of None \<Rightarrow> []
      | Some a \<Rightarrow> map qi_id (ss_queue (co_heap c ! a)) @ ss_persisted (co_heap c ! a))"

end
