(* ===== verification/Turn_Theorems.thy ===== *)
theory Turn_Theorems
  imports Session_Turns
begin

text \<open>
  What the session turn coordinator guarantees.  Without \<open>persistPromptOnly\<close> every submission goes through
  the queue of its session: prompts of a session run one at a time, in the order of submission, each is
  settled exactly once, and if every awaited call returns all of them are.  With it, the exclusion depends on a
  test that is made before an await, and fails.
\<close>

section \<open>Reachable states\<close>

datatype ('i, 'm) turn_op = Submit 'i string | Resume nat "'m awaited"

fun turnStep :: "'i turn_deps \<Rightarrow> ('i, 'm) turn_op \<Rightarrow> ('i, 'm) coordinator \<Rightarrow> ('i, 'm) coordinator" where
  "turnStep deps (Submit input now) c = submit deps input now c"
| "turnStep deps (Resume n result) c = (case resume n result c of None \<Rightarrow> c | Some c' \<Rightarrow> c')"

definition turnRun :: "'i turn_deps \<Rightarrow> ('i, 'm) turn_op list \<Rightarrow> ('i, 'm) coordinator" where
  "turnRun deps ops = fold (turnStep deps) ops createSessionTurnCoordinator"

section \<open>The queue of a session\<close>

fun callerKey :: "'i turn_caller \<Rightarrow> string \<times> nat" where
  "callerKey (FromQueue a sessionId _) = (sessionId, a)"
| "callerKey (FromSubmit a sessionId _ _) = (sessionId, a)"

fun taskKey :: "'i turn_task \<Rightarrow> string \<times> nat" where
  "taskKey (Steering caller) = callerKey caller"
| "taskKey (Prompting caller) = callerKey caller"
| "taskKey (BetweenItems a sessionId) = (sessionId, a)"
| "taskKey (CheckingBusy a sessionId _ _) = (sessionId, a)"
| "taskKey (Persisting a sessionId _) = (sessionId, a)"
| "taskKey (WaitingIdle a sessionId) = (sessionId, a)"
| "taskKey (Looping a sessionId) = (sessionId, a)"
| "taskKey (CheckingNewer a sessionId) = (sessionId, a)"

fun callerIds :: "'i turn_caller \<Rightarrow> string list" where
  "callerIds (FromQueue _ _ item) = [qi_id item]"
| "callerIds (FromSubmit _ _ _ i) = [i]"

text \<open>The submission a task of the queue is running.\<close>

fun taskIds :: "'i turn_task \<Rightarrow> string list" where
  "taskIds (Steering caller) = callerIds caller"
| "taskIds (Prompting caller) = callerIds caller"
| "taskIds _ = []"

fun ofQueue :: "'i turn_task \<Rightarrow> bool" where
  "ofQueue (Steering (FromQueue _ _ _)) = True"
| "ofQueue (Prompting (FromQueue _ _ _)) = True"
| "ofQueue (BetweenItems _ _) = True"
| "ofQueue _ = False"

definition idsOf :: "string \<Rightarrow> (string \<times> string) list \<Rightarrow> string list" where
  "idsOf sessionId entries = map snd (filter (\<lambda>(s, _). s = sessionId) entries)"

definition submittedIds :: "string \<Rightarrow> ('i, 'm) coordinator \<Rightarrow> string list" where
  "submittedIds sessionId c = idsOf sessionId (co_submitted c)"

definition settledIds :: "string \<Rightarrow> ('i, 'm) coordinator \<Rightarrow> string list" where
  "settledIds sessionId c = idsOf sessionId (map fst (co_settled c))"

definition queueIds :: "nat \<Rightarrow> ('i, 'm) coordinator \<Rightarrow> string list" where
  "queueIds a c = map qi_id (ss_queue (co_heap c ! a))"

text \<open>A task of the queue accounts for its session.\<close>

definition task_ok :: "('i, 'm) coordinator \<Rightarrow> 'i turn_task \<Rightarrow> bool" where
  "task_ok c t \<longleftrightarrow> ofQueue t \<and> taskKey t \<in> set (co_states c)
     \<and> submittedIds (fst (taskKey t)) c = settledIds (fst (taskKey t)) c @ taskIds t @ queueIds (snd (taskKey t)) c"

definition state_ok :: "('i, 'm) coordinator \<Rightarrow> string \<times> nat \<Rightarrow> bool" where
  "state_ok c k \<longleftrightarrow> snd k < length (co_heap c) \<and> ss_draining (co_heap c ! snd k) \<and> ss_persisted (co_heap c ! snd k) = []"

definition queue_inv :: "('i, 'm) coordinator \<Rightarrow> bool" where
  "queue_inv c \<longleftrightarrow> distinct (map fst (co_states c)) \<and> distinct (map snd (co_states c))
     \<and> distinct (map taskKey (co_tasks c)) \<and> taskKey ` set (co_tasks c) = set (co_states c)
     \<and> (\<forall>k\<in>set (co_states c). state_ok c k) \<and> (\<forall>t\<in>set (co_tasks c). task_ok c t)
     \<and> (\<forall>s. s \<notin> fst ` set (co_states c) \<longrightarrow> submittedIds s c = settledIds s c)"

lemma idsOf_simps [simp]:
  "idsOf s [] = []"
  "idsOf s (xs @ ys) = idsOf s xs @ idsOf s ys"
  "idsOf s ((s', i) # xs) = (if s' = s then i # idsOf s xs else idsOf s xs)"
  by (simp_all add: idsOf_def)

lemma key_unique:
  assumes "queue_inv c" "(s, a) \<in> set (co_states c)" "(s', a') \<in> set (co_states c)"
  shows "s = s' \<longleftrightarrow> a = a'"
proof -
  have "inj_on fst (set (co_states c))" "inj_on snd (set (co_states c))"
    using assms(1) by (simp_all add: queue_inv_def distinct_map)
  with assms(2,3) show ?thesis by (metis fst_conv snd_conv inj_onD prod.inject)
qed

lemma other_key:
  assumes "queue_inv c" "(s, a) \<in> set (co_states c)" "k \<in> set (co_states c)" "k \<noteq> (s, a)"
  shows "fst k \<noteq> s" and "snd k \<noteq> a"
  using key_unique [OF assms(1,2), of "fst k" "snd k"] assms(3,4) by (metis prod.collapse)+

text \<open>An operation that works on one session only.\<close>

lemma inv_local:
  assumes inv: "queue_inv c" and key: "(s, a) \<in> set (co_states c)" and states: "co_states c' = co_states c"
    and keys: "distinct (map taskKey (co_tasks c'))" "taskKey ` set (co_tasks c') = set (co_states c)"
    and tasks: "\<forall>t\<in>set (co_tasks c'). t \<in> set (co_tasks c) \<or> taskKey t = (s, a)"
    and mine: "\<forall>t\<in>set (co_tasks c'). taskKey t = (s, a) \<longrightarrow> task_ok c' t" "state_ok c' (s, a)"
    and heap: "length (co_heap c') = length (co_heap c)" "\<forall>b. b \<noteq> a \<longrightarrow> co_heap c' ! b = co_heap c ! b"
    and logs: "\<forall>s'. s' \<noteq> s \<longrightarrow> submittedIds s' c' = submittedIds s' c \<and> settledIds s' c' = settledIds s' c"
  shows "queue_inv c'"
proof -
  have "state_ok c' k" if k: "k \<in> set (co_states c)" for k
  proof (cases "k = (s, a)")
    case False
    from other_key(2) [OF inv key k False] show ?thesis using inv k heap by (auto simp: queue_inv_def state_ok_def)
  qed (use mine in simp)
  moreover have "task_ok c' t" if t: "t \<in> set (co_tasks c')" for t
  proof (cases "taskKey t = (s, a)")
    case False
    then have old: "task_ok c t" using inv tasks t by (auto simp: queue_inv_def)
    then have "taskKey t \<in> set (co_states c)" by (simp add: task_ok_def)
    from other_key [OF inv key this False] old logs heap states show ?thesis by (simp add: task_ok_def queueIds_def)
  qed (use mine t in simp)
  moreover have "submittedIds s' c' = settledIds s' c'" if "s' \<notin> fst ` set (co_states c)" for s'
  proof -
    have "s' \<noteq> s" using that key by force
    then show ?thesis using that logs inv by (auto simp: queue_inv_def)
  qed
  ultimately show ?thesis using inv keys states by (simp add: queue_inv_def)
qed

lemma taken_task:
  assumes "n < length ts" and "distinct (map f ts)"
  shows "set (take n ts @ drop (Suc n) ts) = set ts - {ts ! n}" and "distinct (map f (take n ts @ drop (Suc n) ts))"
    and "f (ts ! n) \<notin> f ` set (take n ts @ drop (Suc n) ts)"
proof -
  have ts: "ts = take n ts @ ts ! n # drop (Suc n) ts" using assms(1) by (rule id_take_nth_drop)
  have d: "distinct (map f (take n ts) @ f (ts ! n) # map f (drop (Suc n) ts))"
    using assms(2) by (metis (no_types, lifting) ts list.simps(9) map_append)
  then show "distinct (map f (take n ts @ drop (Suc n) ts))" and "f (ts ! n) \<notin> f ` set (take n ts @ drop (Suc n) ts)" by auto
  then have "ts ! n \<notin> set (take n ts @ drop (Suc n) ts)" by blast
  moreover have "set ts = insert (ts ! n) (set (take n ts @ drop (Suc n) ts))" by (subst ts) auto
  ultimately show "set (take n ts @ drop (Suc n) ts) = set ts - {ts ! n}" by auto
qed

lemma task_key_known: "queue_inv c \<Longrightarrow> t \<in> set (co_tasks c) \<Longrightarrow> taskKey t \<in> set (co_states c)"
  by (auto simp: queue_inv_def)

lemma inv_replace:
  assumes inv: "queue_inv c" and n: "n < length (co_tasks c)" and t: "taskKey (co_tasks c ! n) = (s, a)"
    and tasks: "co_tasks c' = take n (co_tasks c) @ drop (Suc n) (co_tasks c) @ [t']" "taskKey t' = (s, a)"
    and mine: "task_ok c' t'" "state_ok c' (s, a)" and states: "co_states c' = co_states c"
    and heap: "length (co_heap c') = length (co_heap c)" "\<forall>b. b \<noteq> a \<longrightarrow> co_heap c' ! b = co_heap c ! b"
    and logs: "\<forall>s'. s' \<noteq> s \<longrightarrow> submittedIds s' c' = submittedIds s' c \<and> settledIds s' c' = settledIds s' c"
  shows "queue_inv c'"
proof -
  have d: "distinct (map taskKey (co_tasks c))" "taskKey ` set (co_tasks c) = set (co_states c)"
    using inv by (simp_all add: queue_inv_def)
  let ?others = "take n (co_tasks c) @ drop (Suc n) (co_tasks c)"
  note others = taken_task [OF n d(1)]
  have c': "set (co_tasks c') = insert t' (set ?others)" "distinct (map taskKey (co_tasks c'))"
    using others(2,3) t tasks by auto
  have "set (co_tasks c) = insert (co_tasks c ! n) (set ?others)" using others(1) nth_mem [OF n] by blast
  then have "insert (s, a) (taskKey ` set ?others) = taskKey ` set (co_tasks c)" using t by simp
  then have keys: "taskKey ` set (co_tasks c') = set (co_states c)" using c'(1) tasks(2) d(2) by simp
  have key: "(s, a) \<in> set (co_states c)" using task_key_known [OF inv nth_mem [OF n]] t by simp
  show ?thesis
  proof (rule inv_local [OF inv key states c'(2) keys _ _ mine(2) heap logs])
    show "\<forall>x\<in>set (co_tasks c'). x \<in> set (co_tasks c) \<or> taskKey x = (s, a)"
      using c'(1) others(1) tasks(2) by auto
    show "\<forall>x\<in>set (co_tasks c'). taskKey x = (s, a) \<longrightarrow> task_ok c' x"
      using c'(1) others(3) t mine(1) by (metis image_eqI insert_iff)
  qed
qed

lemma inv_remove:
  assumes inv: "queue_inv c" and n: "n < length (co_tasks c)" and t: "co_tasks c ! n = BetweenItems a s"
    and empty: "ss_queue (co_heap c ! a) = []"
    and tasks: "co_tasks c' = take n (co_tasks c) @ drop (Suc n) (co_tasks c)"
    and states: "co_states c' = mapDelete s (co_states c)"
    and heap: "length (co_heap c') = length (co_heap c)" "\<forall>b. b \<noteq> a \<longrightarrow> co_heap c' ! b = co_heap c ! b"
    and logs: "co_submitted c' = co_submitted c" "co_settled c' = co_settled c"
  shows "queue_inv c'"
proof -
  have d: "distinct (map taskKey (co_tasks c))" "taskKey ` set (co_tasks c) = set (co_states c)"
    "distinct (map fst (co_states c))" "distinct (map snd (co_states c))"
    using inv by (simp_all add: queue_inv_def)
  note others = taken_task [OF n d(1)]
  have key: "(s, a) \<in> set (co_states c)" using task_key_known [OF inv nth_mem [OF n]] t by simp
  note unique = key_unique [OF inv key]
  have left: "set (co_states c') = set (co_states c) - {(s, a)}"
    using states unique by (auto simp: AList.delete_eq)
  have keys: "taskKey ` set (co_tasks c') = set (co_states c')"
  proof -
    have "set (co_tasks c) = insert (co_tasks c ! n) (set (co_tasks c'))" using others(1) nth_mem [OF n] tasks by auto
    then have "set (co_states c) = insert (s, a) (taskKey ` set (co_tasks c'))" using d(2) t by auto
    moreover have "(s, a) \<notin> taskKey ` set (co_tasks c')"
      using others(3) unfolding tasks t taskKey.simps .
    ultimately show ?thesis unfolding left by (metis Diff_insert_absorb)
  qed
  have ids [simp]: "submittedIds s' c' = submittedIds s' c" "settledIds s' c' = settledIds s' c" for s'
    using logs by (simp_all add: submittedIds_def settledIds_def)
  have "state_ok c' k" if k: "k \<in> set (co_states c')" for k
  proof -
    have "snd k \<noteq> a" using k left other_key(2) [OF inv key] by blast
    then show ?thesis using inv k left heap by (auto simp: queue_inv_def state_ok_def)
  qed
  moreover have "task_ok c' x" if x: "x \<in> set (co_tasks c')" for x
  proof -
    have k: "taskKey x \<in> set (co_states c')" using keys x by blast
    then have "snd (taskKey x) \<noteq> a" using left other_key(2) [OF inv key] by blast
    moreover have "task_ok c x" using inv x others(1) tasks by (auto simp: queue_inv_def)
    ultimately show ?thesis using heap k by (simp add: task_ok_def queueIds_def)
  qed
  moreover have "task_ok c (BetweenItems a s)" using inv n t nth_mem by (fastforce simp: queue_inv_def)
  then have "submittedIds s c = settledIds s c" using empty by (simp add: task_ok_def queueIds_def)
  then have "submittedIds s' c' = settledIds s' c'" if "s' \<notin> fst ` set (co_states c')" for s'
  proof (cases "s' = s")
    case False
    then have "s' \<notin> fst ` set (co_states c)" using that left by force
    then show ?thesis using inv unfolding queue_inv_def ids by blast
  qed (simp add: \<open>submittedIds s c = settledIds s c\<close>)
  moreover have "distinct (map fst (co_states c'))" "distinct (map snd (co_states c'))"
    using d(3,4) states by (simp_all add: AList.delete_eq distinct_map inj_on_def)
  ultimately show ?thesis using keys others(2) tasks by (simp add: queue_inv_def)
qed

lemma inv_add:
  assumes inv: "queue_inv c" and fresh: "s \<notin> fst ` set (co_states c)" and a: "a = length (co_heap c)"
    and states: "co_states c' = co_states c @ [(s, a)]" and heap: "co_heap c' = co_heap c @ [st]"
    and tasks: "co_tasks c' = co_tasks c @ [t]" "taskKey t = (s, a)"
    and mine: "task_ok c' t" "state_ok c' (s, a)"
    and logs: "\<forall>s'. s' \<noteq> s \<longrightarrow> submittedIds s' c' = submittedIds s' c \<and> settledIds s' c' = settledIds s' c"
  shows "queue_inv c'"
proof -
  have old: "state_ok c k" if "k \<in> set (co_states c)" for k using inv that by (simp add: queue_inv_def)
  then have bound: "snd k < a" if "k \<in> set (co_states c)" for k using that a by (simp add: state_ok_def)
  have "state_ok c' k" if "k \<in> set (co_states c)" for k
    using old [OF that] bound [OF that] heap a by (simp add: state_ok_def nth_append)
  moreover have "task_ok c' x" if x: "x \<in> set (co_tasks c)" for x
  proof -
    have x': "task_ok c x" "taskKey x \<in> set (co_states c)" using inv x by (auto simp: queue_inv_def)
    have "fst (taskKey x) \<noteq> s" using fresh x'(2) by force
    then show ?thesis using x' bound [OF x'(2)] logs states heap a by (simp add: task_ok_def queueIds_def nth_append)
  qed
  moreover have "a \<notin> snd ` set (co_states c)" "(s, a) \<notin> set (co_states c)" using bound fresh by force+
  moreover have "submittedIds s' c' = settledIds s' c'" if "s' \<notin> fst ` set (co_states c')" for s'
    using that inv logs states by (auto simp: queue_inv_def)
  ultimately show ?thesis
    using inv fresh states tasks mine by (auto simp: queue_inv_def)
qed

section \<open>The operations keep the queues\<close>

lemma state_of: "queue_inv c \<Longrightarrow> k \<in> set (co_states c) \<Longrightarrow> state_ok c k"
  by (simp add: queue_inv_def)

lemma task_of: "queue_inv c \<Longrightarrow> n < length (co_tasks c) \<Longrightarrow> task_ok c (co_tasks c ! n)"
  by (simp add: queue_inv_def)

lemma state_for_task:
  assumes "queue_inv c" "n < length (co_tasks c)" "taskKey (co_tasks c ! n) = (s, a)"
  shows "state_ok c (s, a)"
  using state_of [OF assms(1) task_key_known [OF assms(1) nth_mem [OF assms(2)]]] assms(3) by simp

lemmas turn_defs = await_def settle_def updateState_def task_ok_def state_ok_def submittedIds_def settledIds_def queueIds_def

lemma inv_settled:
  assumes inv: "queue_inv c" and n: "n < length (co_tasks c)"
    and t: "co_tasks c ! n = Steering caller \<or> co_tasks c ! n = Prompting caller" and caller: "caller = FromQueue a s item"
  shows "queue_inv (callerSettled caller outcome (c\<lparr>co_tasks := take n (co_tasks c) @ drop (Suc n) (co_tasks c)\<rparr>))"
proof (rule inv_replace [OF inv n, of s a])
  have "taskKey (co_tasks c ! n) = (s, a)" using t caller by auto
  then show "taskKey (co_tasks c ! n) = (s, a)" and "state_ok (callerSettled caller outcome
      (c\<lparr>co_tasks := take n (co_tasks c) @ drop (Suc n) (co_tasks c)\<rparr>)) (s, a)"
    using state_for_task [OF inv n] caller by (auto simp: callerSettled_def turn_defs)
  show "task_ok (callerSettled caller outcome (c\<lparr>co_tasks := take n (co_tasks c) @ drop (Suc n) (co_tasks c)\<rparr>)) (BetweenItems a s)"
    using task_of [OF inv n] t caller by (auto simp: callerSettled_def turn_defs)
qed (simp_all add: caller callerSettled_def turn_defs)

lemma inv_prompting:
  assumes inv: "queue_inv c" and n: "n < length (co_tasks c)"
    and t: "co_tasks c ! n = Steering caller" and caller: "caller = FromQueue a s item"
  shows "queue_inv (await (Prompting caller) (c\<lparr>co_tasks := take n (co_tasks c) @ drop (Suc n) (co_tasks c)\<rparr>))"
  by (rule inv_replace [OF inv n, of s a "_" "Prompting caller"])
    (use state_for_task [OF inv n] task_of [OF inv n] t caller in \<open>simp_all add: turn_defs\<close>)

lemma inv_nextQueued:
  assumes inv: "queue_inv c" and n: "n < length (co_tasks c)" and t: "co_tasks c ! n = BetweenItems a s"
  shows "queue_inv (nextQueued s a (c\<lparr>co_tasks := take n (co_tasks c) @ drop (Suc n) (co_tasks c)\<rparr>))"
proof -
  have a: "state_ok c (s, a)" using state_for_task [OF inv n] t by simp
  show ?thesis
  proof (cases "ss_queue (co_heap c ! a)")
    case Nil
    show ?thesis
      by (rule inv_remove [OF inv n t Nil]) (use a Nil in \<open>simp_all add: nextQueued_def finishDraining_def cleanup_def turn_defs Let_def\<close>)
  next
    case (Cons item rest)
    show ?thesis
      by (rule inv_replace [OF inv n, of s a "_" "Steering (FromQueue a s item)"])
        (use a Cons t task_of [OF inv n] in \<open>simp_all add: nextQueued_def turn_defs\<close>)
  qed
qed

lemma inv_resumeTask:
  assumes inv: "queue_inv c" and n: "n < length (co_tasks c)"
    and run: "resumeTask (co_tasks c ! n) result (c\<lparr>co_tasks := take n (co_tasks c) @ drop (Suc n) (co_tasks c)\<rparr>) = Some c'"
  shows "queue_inv c'"
proof -
  have q: "ofQueue (co_tasks c ! n)" using task_of [OF inv n] by (simp add: task_ok_def)
  show ?thesis
  proof (cases "co_tasks c ! n")
    case (Steering caller)
    then obtain a s item where caller: "caller = FromQueue a s item" using q by (cases caller) auto
    show ?thesis
    proof (cases result)
      case (Steered m)
      then show ?thesis
        using run Steering inv_settled [OF inv n _ caller] inv_prompting [OF inv n Steering caller] by (cases m) auto
    next
      case (Threw e)
      then show ?thesis using run Steering inv_settled [OF inv n _ caller] by auto
    qed (use run Steering in auto)
  next
    case (Prompting caller)
    then obtain a s item where caller: "caller = FromQueue a s item" using q by (cases caller) auto
    show ?thesis using run Prompting inv_settled [OF inv n _ caller] by (cases result) auto
  next
    case (BetweenItems a s)
    then show ?thesis using run inv_nextQueued [OF inv n BetweenItems] by (cases result) auto
  qed (use q in auto)
qed

lemma inv_submit:
  assumes inv: "queue_inv c" and deps: "\<not> td_persists deps"
  shows "queue_inv (submit deps input now c)"
proof -
  let ?s = "td_getSessionId deps input"
  show ?thesis
  proof (cases "mapGet (co_states c) ?s")
    case (Some a)
    have key: "(?s, a) \<in> set (co_states c)" using Some by (rule map_of_SomeD)
    have a: "state_ok c (?s, a)" using state_of [OF inv key] .
    have facts: "distinct (map taskKey (co_tasks c))" "taskKey ` set (co_tasks c) = set (co_states c)" "\<forall>t\<in>set (co_tasks c). task_ok c t"
      using inv by (simp_all add: queue_inv_def)
    show ?thesis
      by (rule inv_local [OF inv key])
        (use facts a Some deps in \<open>auto simp: submit_def stateFor_def nextQueueItemId_def drainQueuedPrompts_def turn_defs Let_def\<close>)
  next
    case None
    let ?a = "length (co_heap c)" and ?i = "fst (nextQueueItemId (td_getSessionId deps input) now c)"
    have fresh: "?s \<notin> fst ` set (co_states c)" using None by (simp add: map_of_eq_None_iff)
    have ids: "submittedIds ?s c = settledIds ?s c" using inv fresh by (simp add: queue_inv_def)
    show ?thesis
      by (rule inv_add [OF inv fresh refl, of _ "\<lparr> ss_draining = True, ss_persisted = [], ss_queue = [] \<rparr>"
            "Steering (FromQueue ?a ?s \<lparr> qi_input = input, qi_id = ?i \<rparr>)"])
        (use ids None deps in \<open>simp_all add: submit_def stateFor_def nextQueueItemId_def drainQueuedPrompts_def nextQueued_def
           turn_defs mapSet_fresh_get Let_def\<close>)
  qed
qed

interpretation queued_turns: step_invariant "turnStep (deps\<lparr>td_persists := False\<rparr>)" queue_inv for deps
proof
  fix c :: "('a, 'b) coordinator" and op
  assume inv: "queue_inv c"
  show "queue_inv (turnStep (deps\<lparr>td_persists := False\<rparr>) op c)"
  proof (cases op)
    case (Submit input now)
    then show ?thesis using inv_submit [OF inv] by simp
  next
    case (Resume n result)
    then show ?thesis using inv inv_resumeTask [OF inv] by (auto simp: resume_def split: option.split)
  qed
qed

lemma inv_createSessionTurnCoordinator: "queue_inv createSessionTurnCoordinator"
  by (simp add: queue_inv_def createSessionTurnCoordinator_def submittedIds_def settledIds_def)

lemma turnRun_inv:
  assumes "\<not> td_persists deps"
  shows "queue_inv (turnRun deps ops)"
proof -
  have "deps = deps\<lparr>td_persists := False\<rparr>" using assms by simp
  then show ?thesis unfolding turnRun_def by (metis queued_turns.run_inv inv_createSessionTurnCoordinator)
qed

section \<open>Progress\<close>

text \<open>Which results a task can get.\<close>

fun answers :: "'i turn_task \<Rightarrow> 'm awaited \<Rightarrow> bool" where
  "answers (Steering _) r \<longleftrightarrow> (case r of Steered _ \<Rightarrow> True | Threw _ \<Rightarrow> True | _ \<Rightarrow> False)"
| "answers (Prompting _) r \<longleftrightarrow> (case r of Message _ \<Rightarrow> True | Threw _ \<Rightarrow> True | _ \<Rightarrow> False)"
| "answers (BetweenItems _ _) r \<longleftrightarrow> r = Settled"
| "answers (CheckingBusy _ _ _ _) r \<longleftrightarrow> (case r of Busy _ \<Rightarrow> True | Threw _ \<Rightarrow> True | _ \<Rightarrow> False)"
| "answers (Persisting _ _ _) r \<longleftrightarrow> (case r of Message _ \<Rightarrow> True | Threw _ \<Rightarrow> True | _ \<Rightarrow> False)"
| "answers (WaitingIdle _ _) r \<longleftrightarrow> (case r of Settled \<Rightarrow> True | Threw _ \<Rightarrow> True | _ \<Rightarrow> False)"
| "answers (Looping _ _) r \<longleftrightarrow> (case r of Message _ \<Rightarrow> True | Threw _ \<Rightarrow> True | _ \<Rightarrow> False)"
| "answers (CheckingNewer _ _) r \<longleftrightarrow> (case r of Newer _ \<Rightarrow> True | Threw _ \<Rightarrow> True | _ \<Rightarrow> False)"

lemma answers_resume: "answers t r \<Longrightarrow> \<exists>c'. resumeTask t r c = Some c'"
proof (cases t)
  case (CheckingBusy a s i k)
  then show "answers t r \<Longrightarrow> ?thesis" by (cases r) (auto split: bool.splits, metis (full_types) resumeTask.simps(7,8))
next
  case (CheckingNewer a s)
  then show "answers t r \<Longrightarrow> ?thesis" by (cases r) (auto, metis (full_types) resumeTask.simps(16,17))
next
  case (Steering caller)
  then show "answers t r \<Longrightarrow> ?thesis" by (cases r) (auto, metis option.exhaust resumeTask.simps(1,2))
qed (cases r; auto simp: Let_def)+

text \<open>Run what waits until nothing does; \<open>pick\<close> is the scheduler, \<open>env\<close> answers the calls.\<close>

primrec settleTurns ::
  "(('i, 'm) coordinator \<Rightarrow> nat) \<Rightarrow> ('i turn_task \<Rightarrow> ('i, 'm) coordinator \<Rightarrow> 'm awaited) \<Rightarrow> nat \<Rightarrow> ('i, 'm) coordinator \<Rightarrow> ('i, 'm) coordinator" where
  "settleTurns pick env 0 c = c"
| "settleTurns pick env (Suc fuel) c =
     (if co_tasks c = [] then c
      else (let n = pick c mod length (co_tasks c) in
            case resume n (env (co_tasks c ! n) c) c of None \<Rightarrow> c | Some c' \<Rightarrow> settleTurns pick env fuel c'))"

fun taskWeight :: "'i turn_task \<Rightarrow> nat" where
  "taskWeight (Steering _) = 3"
| "taskWeight (Prompting _) = 2"
| "taskWeight _ = 1"

lemma taskWeight_pos [simp]: "taskWeight t \<noteq> 0"
  by (cases t) auto

definition turnsLeft :: "('i, 'm) coordinator \<Rightarrow> nat" where
  "turnsLeft c = 3 * sum_list (map (\<lambda>st. length (ss_queue st)) (co_heap c)) + sum_list (map taskWeight (co_tasks c))"

lemma sum_taken:
  "n < length ts \<Longrightarrow> sum_list (map f ts) = f (ts ! n) + sum_list (map f (take n ts @ drop (Suc n) ts))" for f :: "'a \<Rightarrow> nat"
  by (subst id_take_nth_drop [of n ts]) simp_all

lemma sum_updated:
  "a < length xs \<Longrightarrow> sum_list (map f (xs[a := x])) + f (xs ! a) = sum_list (map f xs) + f x" for f :: "'a \<Rightarrow> nat"
  by (induction xs arbitrary: a) (auto split: nat.split)

lemma resume_decreases:
  assumes inv: "queue_inv c" and n: "n < length (co_tasks c)"
    and run: "resumeTask (co_tasks c ! n) result (c\<lparr>co_tasks := take n (co_tasks c) @ drop (Suc n) (co_tasks c)\<rparr>) = Some c'"
  shows "turnsLeft c' < turnsLeft c \<and> co_submitted c' = co_submitted c"
proof -
  have q: "ofQueue (co_tasks c ! n)" using task_of [OF inv n] by (simp add: task_ok_def)
  note sum = sum_taken [OF n, of taskWeight]
  show ?thesis
  proof (cases "co_tasks c ! n")
    case (Steering caller)
    then obtain a s item where "caller = FromQueue a s item" using q by (cases caller) auto
    then show ?thesis using run Steering sum by (cases result rule: awaited.exhaust)
      (auto simp: turnsLeft_def callerSettled_def await_def settle_def split: option.splits elim!: resumeTask.elims)
  next
    case (Prompting caller)
    then obtain a s item where "caller = FromQueue a s item" using q by (cases caller) auto
    then show ?thesis using run Prompting sum by (cases result)
      (auto simp: turnsLeft_def callerSettled_def await_def settle_def)
  next
    case (BetweenItems a s)
    then have c': "c' = nextQueued s a (c\<lparr>co_tasks := take n (co_tasks c) @ drop (Suc n) (co_tasks c)\<rparr>)" using run by (cases result) auto
    have a: "a < length (co_heap c)" using state_for_task [OF inv n] BetweenItems by (simp add: state_ok_def)
    note upd = sum_updated [OF a, of "\<lambda>st. length (ss_queue st)"]
    show ?thesis
    proof (cases "ss_queue (co_heap c ! a)")
      case Nil
      then show ?thesis using sum BetweenItems upd [of "(co_heap c ! a)\<lparr>ss_draining := False\<rparr>"]
        by (auto simp: c' nextQueued_def finishDraining_def cleanup_def updateState_def turnsLeft_def Let_def)
    next
      case (Cons item rest)
      then show ?thesis using sum BetweenItems upd [of "(co_heap c ! a)\<lparr>ss_queue := rest\<rparr>"]
        by (auto simp: c' nextQueued_def updateState_def await_def turnsLeft_def)
    qed
  qed (use q in auto)
qed

lemma no_task_all_settled:
  assumes "queue_inv c" and "co_tasks c = []"
  shows "settledIds s c = submittedIds s c"
  using assms by (simp add: queue_inv_def)

lemma settleTurns_settles:
  assumes "queue_inv c" and "turnsLeft c \<le> fuel" and env: "\<forall>t c. answers t (env t c)"
  shows "co_tasks (settleTurns pick env fuel c) = [] \<and> queue_inv (settleTurns pick env fuel c)
    \<and> co_submitted (settleTurns pick env fuel c) = co_submitted c"
  using assms(1,2)
proof (induction fuel arbitrary: c)
  case 0
  then have "co_tasks c = []" by (cases "co_tasks c") (auto simp: turnsLeft_def)
  then show ?case using 0 by simp
next
  case (Suc fuel)
  show ?case
  proof (cases "co_tasks c = []")
    case False
    define n where "n = pick c mod length (co_tasks c)"
    have n: "n < length (co_tasks c)" using False by (simp add: n_def)
    obtain c' where run: "resumeTask (co_tasks c ! n) (env (co_tasks c ! n) c)
        (c\<lparr>co_tasks := take n (co_tasks c) @ drop (Suc n) (co_tasks c)\<rparr>) = Some c'"
      using answers_resume env by blast
    have next': "settleTurns pick env (Suc fuel) c = settleTurns pick env fuel c'"
      using False n run by (simp add: n_def [symmetric] resume_def Let_def)
    from resume_decreases [OF Suc.prems(1) n run] Suc.prems(2)
    have "turnsLeft c' \<le> fuel" "co_submitted c' = co_submitted c" by auto
    with Suc.IH [OF inv_resumeTask [OF Suc.prems(1) n run]] show ?thesis unfolding next' by simp
  qed (use Suc.prems in simp)
qed

section \<open>Properties\<close>

text \<open>The submission of a session that is being run.\<close>

definition inFlight :: "string \<Rightarrow> ('i, 'm) coordinator \<Rightarrow> string list" where
  "inFlight sessionId c = concat (map taskIds (filter (\<lambda>t. fst (taskKey t) = sessionId) (co_tasks c)))"

lemma single_task:
  assumes inv: "queue_inv c" and key: "(s, a) \<in> set (co_states c)"
  shows "\<exists>t. filter (\<lambda>t. fst (taskKey t) = s) (co_tasks c) = [t] \<and> taskKey t = (s, a) \<and> task_ok c t"
proof -
  have facts: "distinct (map taskKey (co_tasks c))" "taskKey ` set (co_tasks c) = set (co_states c)" using inv by (simp_all add: queue_inv_def)
  obtain n where n: "n < length (co_tasks c)" "taskKey (co_tasks c ! n) = (s, a)"
    using key facts(2) by (metis image_iff in_set_conv_nth)
  have split: "co_tasks c = take n (co_tasks c) @ co_tasks c ! n # drop (Suc n) (co_tasks c)" using n(1) by (rule id_take_nth_drop)
  have "fst (taskKey t) \<noteq> s" if t: "t \<in> set (take n (co_tasks c) @ drop (Suc n) (co_tasks c))" for t
  proof -
    have "taskKey t \<noteq> (s, a)" using taken_task(3) [OF n(1) facts(1)] t n(2) by (metis imageI)
    moreover have "t \<in> set (co_tasks c)" using taken_task(1) [OF n(1) facts(1)] t by blast
    ultimately show ?thesis using other_key(1) [OF inv key] facts(2) by blast
  qed
  then have "filter (\<lambda>t. fst (taskKey t) = s) (co_tasks c) = [co_tasks c ! n]"
    using n(2) by (subst split) (auto simp: filter_empty_conv)
  with n(2) task_of [OF inv n(1)] show ?thesis by blast
qed

lemma in_order:
  assumes inv: "queue_inv c"
  shows "submittedIds s c = settledIds s c @ inFlight s c @ pending s c \<and> length (inFlight s c) \<le> 1"
proof (cases "mapGet (co_states c) s")
  case None
  then have none: "s \<notin> fst ` set (co_states c)" by (simp add: map_of_eq_None_iff)
  then have "filter (\<lambda>t. fst (taskKey t) = s) (co_tasks c) = []"
    using inv unfolding queue_inv_def filter_empty_conv by (metis imageI)
  with None none inv show ?thesis by (simp add: inFlight_def pending_def queue_inv_def)
next
  case (Some a)
  have key: "(s, a) \<in> set (co_states c)" using Some by (rule map_of_SomeD)
  obtain t where t: "filter (\<lambda>t. fst (taskKey t) = s) (co_tasks c) = [t]" "taskKey t = (s, a)" "task_ok c t"
    using single_task [OF inv key] by blast
  have "ss_persisted (co_heap c ! a) = []" using state_of [OF inv key] by (simp add: state_ok_def)
  moreover have "length (taskIds t) \<le> 1" using t(3) by (cases t rule: ofQueue.cases) (auto simp: task_ok_def)
  ultimately show ?thesis using t Some by (simp add: inFlight_def pending_def task_ok_def queueIds_def)
qed

text \<open>C9: Without \<open>persistPromptOnly\<close>, however submissions and awaited results interleave, each session
  runs one prompt at a time and in order: its submissions are, in order, those settled, the at most one in
  flight and those pending; and when every awaited call returns, with any scheduler, all of them are
  settled, in the order of submission, after a number of steps bounded by \<open>turnsLeft\<close>.\<close>
theorem session_turns_in_order:
  assumes "\<not> td_persists deps" and "c = turnRun deps ops" and "\<forall>t c. answers t (env t c)"
  shows "(\<forall>s. submittedIds s c = settledIds s c @ inFlight s c @ pending s c \<and> length (inFlight s c) \<le> 1)
    \<and> co_tasks (settleTurns pick env (turnsLeft c) c) = []
    \<and> (\<forall>s. settledIds s (settleTurns pick env (turnsLeft c) c) = submittedIds s c)"
proof -
  have inv: "queue_inv c" using turnRun_inv [OF assms(1)] assms(2) by simp
  let ?c = "settleTurns pick env (turnsLeft c) c"
  have final: "co_tasks ?c = []" "queue_inv ?c" "co_submitted ?c = co_submitted c"
    using settleTurns_settles [OF inv order_refl assms(3)] by blast+
  have "settledIds s ?c = submittedIds s c" for s
    using no_task_all_settled [OF final(2,1)] final(3) by (simp add: submittedIds_def)
  with final(1) in_order [OF inv] show ?thesis by blast
qed

definition sampleDeps :: "bool \<Rightarrow> bool \<Rightarrow> (string \<times> string) turn_deps" where
  "sampleDeps persists busy = \<lparr> td_getSessionId = fst, td_persists = persists, td_isSessionBusy = busy \<rparr>"

definition sampleAnswer :: "'i turn_task \<Rightarrow> ('i, string) coordinator \<Rightarrow> string awaited" where
  "sampleAnswer t c = (case t of BetweenItems _ _ \<Rightarrow> Settled | _ \<Rightarrow> Threw ''offline'')"

definition sampleTurns :: "(string \<times> string, string) coordinator" where
  "sampleTurns = turnRun (sampleDeps False False)
     [Submit (''s'', ''hello'') ''1'', Submit (''s'', ''again'') ''2'', Submit (''t'', ''other'') ''3'', Resume 0 (Steered None)]"

theorem session_turns_in_order_witness:
  "settledIds ''s'' (settleTurns (\<lambda>_. 1) sampleAnswer (turnsLeft sampleTurns) sampleTurns) = [''s:1:1'', ''s:2:2'']"
proof -
  have "\<not> td_persists (sampleDeps False False)" by (simp add: sampleDeps_def)
  moreover have "\<forall>t c. answers t (sampleAnswer t c)" by (simp add: sampleAnswer_def split: turn_task.split)
  ultimately have "settledIds ''s'' (settleTurns (\<lambda>_. 1) sampleAnswer (turnsLeft sampleTurns) sampleTurns) = submittedIds ''s'' sampleTurns"
    using session_turns_in_order [OF _ sampleTurns_def] by blast
  also have "\<dots> = [''s:1:1'', ''s:2:2'']" by code_simp
  finally show ?thesis .
qed

text \<open>With \<open>persistPromptOnly\<close> and \<open>isSessionBusy\<close> the exclusion fails: the draining flag is read before
  \<open>isSessionBusy\<close> is awaited and not again, so two submissions of one session that both find it idle
  run their prompts at the same time; and when the first is done it clears the flag under the second and lets the
  map forget the session, so that a third submission starts on a fresh state beside the second.\<close>
theorem concurrent_submissions_both_run:
  "let two = [Submit (''s'', ''one'') ''1'', Submit (''s'', ''two'') ''2'', Resume 0 (Busy False), Resume 0 (Busy False),
              Resume 0 (Steered None), Resume 0 (Steered None)];
       three = two @ [Resume 0 (Message ''done''), Submit (''s'', ''three'') ''3'', Resume 1 (Busy False), Resume 1 (Steered None)] in
   map taskIds (co_tasks (turnRun (sampleDeps True True) two)) = [[''s:1:1''], [''s:2:2'']]
   \<and> map taskKey (co_tasks (turnRun (sampleDeps True True) three :: (string \<times> string, string) coordinator)) = [(''s'', 0), (''s'', 1)]"
  by code_simp

end
