(* ===== verification/Wildcard.thy ===== *)
theory Wildcard
  imports Response_Events "HOL-Library.Char_ord" "HOL-Library.List_Lexorder" "HOL-Library.Product_Lexorder"
begin

text \<open>
  The wildcard patterns of the permission rules (\<^verbatim>\<open>packages/cli-host/src/util/wildcard.ts\<close>) and the prefix of a shell
  command that an approval covers (\<^verbatim>\<open>packages/cli-host/src/permission/arity.ts\<close>).  The regular expression that \<open>match\<close>
  builds is a list of items and \<open>test\<close> its semantics; a declarative reading of a pattern is proved equivalent.
\<close>

section \<open>Patterns\<close>

text \<open>What \<open>match\<close> writes into the expression: an escaped character, \<^verbatim>\<open>.\<close>, \<^verbatim>\<open>.*\<close> and the group \<^verbatim>\<open>( .*)?\<close>.\<close>

datatype regex_item = Lit char | AnyChar | AnyText | OptionalArgs

definition slashes :: "string \<Rightarrow> string" where
  "slashes s = map (\<lambda>c. if c = CHR 0x5C then CHR ''/'' else c) s"

definition escapedItem :: "char \<Rightarrow> regex_item" where
  "escapedItem c = (if c = CHR ''*'' then AnyText else if c = CHR ''?'' then AnyChar else Lit c)"

definition escaped :: "string \<Rightarrow> regex_item list" where
  "escaped pattern =
     (let items = map escapedItem pattern; n = length items in
      if 2 \<le> n \<and> drop (n - 2) items = [Lit (CHR '' ''), AnyText] then take (n - 2) items @ [OptionalArgs] else items)"

text \<open>The comparison of characters: the flag \<^verbatim>\<open>i\<close> on Windows compares the upper case of the code units.\<close>

definition canonicalize :: "char \<Rightarrow> char" where
  "canonicalize c = (let n = of_char c :: nat in
     if (97 \<le> n \<and> n \<le> 122) \<or> (224 \<le> n \<and> n \<le> 254 \<and> n \<noteq> 247) then char_of (n - 32) else c)"

definition sameChar :: "bool \<Rightarrow> char \<Rightarrow> char \<Rightarrow> bool" where
  "sameChar windows c d \<longleftrightarrow> (if windows then canonicalize c = canonicalize d else c = d)"

text \<open>\<open>test\<close> of the anchored expression, with the flag \<^verbatim>\<open>s\<close>.\<close>

fun regexTest :: "bool \<Rightarrow> regex_item list \<Rightarrow> string \<Rightarrow> bool" where
  "regexTest windows [] s = (s = [])"
| "regexTest windows (Lit c # items) s = (case s of [] \<Rightarrow> False | d # s' \<Rightarrow> sameChar windows c d \<and> regexTest windows items s')"
| "regexTest windows (AnyChar # items) s = (case s of [] \<Rightarrow> False | d # s' \<Rightarrow> regexTest windows items s')"
| "regexTest windows (AnyText # items) s =
     list_ex (\<lambda>n. regexTest windows items (drop n s)) [0..<Suc (length s)]"
| "regexTest windows (OptionalArgs # items) s =
     (regexTest windows items s \<or>
      (case s of [] \<Rightarrow> False | d # s' \<Rightarrow> d = CHR '' '' \<and> list_ex (\<lambda>n. regexTest windows items (drop n s')) [0..<Suc (length s')]))"

definition match :: "bool \<Rightarrow> string \<Rightarrow> string \<Rightarrow> bool" where
  "match windows str pattern = regexTest windows (escaped (slashes pattern)) (slashes str)"

section \<open>Tables of patterns\<close>

definition sortedEntries :: "(string, 'v) js_map \<Rightarrow> (string \<times> 'v) list" where
  "sortedEntries patterns = sort_key (\<lambda>(key, _). (length key, key)) patterns"

definition all_patterns :: "bool \<Rightarrow> string \<Rightarrow> (string, 'v) js_map \<Rightarrow> 'v option" where
  "all_patterns windows input patterns =
     fold (\<lambda>(pattern, v) result. if match windows input pattern then Some v else result) (sortedEntries patterns) None"

fun matchSequence :: "bool \<Rightarrow> string list \<Rightarrow> string list \<Rightarrow> bool" where
  "matchSequence windows items [] = True"
| "matchSequence windows items (pattern # rest) =
     (if pattern = ''*'' then matchSequence windows items rest
      else list_ex (\<lambda>i. match windows (items ! i) pattern \<and> matchSequence windows (drop (Suc i) items) rest) [0..<length items])"

text \<open>\<^verbatim>\<open>split(/\s+/)\<close>.\<close>

function splitWhite :: "string \<Rightarrow> string list" where
  "splitWhite s =
     (let word = takeWhile (\<lambda>c. \<not> isWhite c) s; rest = dropWhile (\<lambda>c. \<not> isWhite c) s in
      if rest = [] then [word] else word # splitWhite (dropWhile isWhite rest))"
  by pat_completeness auto
termination
proof (relation "measure length")
  fix s :: string and word rest assume rest: "rest = dropWhile (\<lambda>c. \<not> isWhite c) s" "rest \<noteq> []"
  then have "isWhite (hd rest)" using hd_dropWhile [of "\<lambda>c. \<not> isWhite c" s] by simp
  then have "length (dropWhile isWhite rest) < length rest"
    using rest(2) by (cases rest) (simp_all add: less_Suc_eq_le length_dropWhile_le)
  also have "\<dots> \<le> length s" by (simp add: rest(1) length_dropWhile_le)
  finally show "(dropWhile isWhite rest, s) \<in> measure length" by simp
qed simp

definition allStructured :: "bool \<Rightarrow> string \<Rightarrow> string list \<Rightarrow> (string, 'v) js_map \<Rightarrow> 'v option" where
  "allStructured windows head tail patterns =
     fold (\<lambda>(pattern, v) result.
         let parts = splitWhite pattern in
         if \<not> match windows head (hd parts) then result
         else if length parts = 1 \<or> matchSequence windows tail (tl parts) then Some v
         else result)
       (sortedEntries patterns) None"

section \<open>What a pattern means\<close>

text \<open>A star stands for any text, a question mark for any character, every other character for itself.\<close>

inductive globs :: "bool \<Rightarrow> string \<Rightarrow> string \<Rightarrow> bool" for windows where
  globs_end: "globs windows [] []"
| globs_star: "globs windows p s \<Longrightarrow> globs windows (CHR ''*'' # p) (t @ s)"
| globs_any: "globs windows p s \<Longrightarrow> globs windows (CHR ''?'' # p) (d # s)"
| globs_char: "globs windows p s \<Longrightarrow> c \<noteq> CHR ''*'' \<Longrightarrow> c \<noteq> CHR ''?'' \<Longrightarrow> sameChar windows c d \<Longrightarrow> globs windows (c # p) (d # s)"

inductive_cases globs_NilE: "globs windows [] s"
inductive_cases globs_ConsE: "globs windows (c # p) s"

lemma list_ex_drop: "list_ex (\<lambda>n. P (drop n s)) [0..<Suc (length s)] \<longleftrightarrow> (\<exists>t u. s = t @ u \<and> P u)"
proof
  assume "list_ex (\<lambda>n. P (drop n s)) [0..<Suc (length s)]"
  then obtain n where "P (drop n s)" by (auto simp: list_ex_iff simp del: upt_Suc)
  then show "\<exists>t u. s = t @ u \<and> P u" by (intro exI [of _ "take n s"] exI [of _ "drop n s"]) simp
next
  assume "\<exists>t u. s = t @ u \<and> P u"
  then obtain t u where "s = t @ u" "P u" by blast
  then show "list_ex (\<lambda>n. P (drop n s)) [0..<Suc (length s)]"
    by (auto simp: list_ex_iff simp del: upt_Suc intro!: bexI [of _ "length t"])
qed

lemma regexTest_AnyText: "regexTest windows (AnyText # items) s \<longleftrightarrow> (\<exists>t u. s = t @ u \<and> regexTest windows items u)"
  by (simp only: regexTest.simps list_ex_drop)

lemma regexTest_OptionalArgs: "regexTest windows (OptionalArgs # items) s \<longleftrightarrow>
    regexTest windows items s \<or> (\<exists>t u. s = CHR '' '' # t @ u \<and> regexTest windows items u)"
  by (cases s) (auto simp only: regexTest.simps list_ex_drop list.simps)

declare regexTest.simps(4,5) [simp del] regexTest_AnyText [simp] regexTest_OptionalArgs [simp]

lemma regexTest_globs: "regexTest windows (map escapedItem p) s \<longleftrightarrow> globs windows p s"
proof
  assume "regexTest windows (map escapedItem p) s"
  then show "globs windows p s"
    by (induction p arbitrary: s) (auto simp: escapedItem_def split: if_splits list.splits intro: globs.intros)
next
  assume "globs windows p s"
  then show "regexTest windows (map escapedItem p) s"
    by induction (auto simp: escapedItem_def)
qed

lemma sameChar_space [simp]: "sameChar windows (CHR '' '') d \<longleftrightarrow> d = CHR '' ''"
proof -
  have "canonicalize (CHR '' '') = CHR '' ''" by (simp add: canonicalize_def)
  moreover have "canonicalize d = CHR '' '' \<Longrightarrow> d = CHR '' ''"
  proof -
    assume eq: "canonicalize d = CHR '' ''"
    have "of_char (canonicalize d) = (if (97 \<le> (of_char d :: nat) \<and> (of_char d :: nat) \<le> 122) \<or>
        (224 \<le> (of_char d :: nat) \<and> (of_char d :: nat) \<le> 254 \<and> (of_char d :: nat) \<noteq> 247) then (of_char d :: nat) - 32 else of_char d)"
      by (auto simp: canonicalize_def Let_def)
    with eq have "(of_char d :: nat) = of_char (CHR '' '')" by (auto split: if_splits)
    then show ?thesis by (simp only: of_char_eq_iff)
  qed
  ultimately show ?thesis by (auto simp: sameChar_def)
qed

lemma regexTest_optional:
  "regexTest windows (items @ [OptionalArgs]) s \<longleftrightarrow>
     regexTest windows items s \<or> regexTest windows (items @ [Lit (CHR '' ''), AnyText]) s"
proof (induction windows items s rule: regexTest.induct)
  case (1 windows s)
  then show ?case by (auto split: list.splits)
next
  case (4 windows items s)
  have "regexTest windows (items @ [OptionalArgs]) u \<longleftrightarrow> regexTest windows items u \<or> regexTest windows (items @ [Lit (CHR '' ''), AnyText]) u"
    if "s = t @ u" for t u
    using 4 [of "length t"] that by (auto simp del: upt_Suc)
  then show ?case by auto blast+
next
  case (5 windows items s)
  have "regexTest windows (items @ [OptionalArgs]) u \<longleftrightarrow> regexTest windows items u \<or> regexTest windows (items @ [Lit (CHR '' ''), AnyText]) u"
    if "s = CHR '' '' # t @ u" for t u
    using 5(2) [of "CHR '' ''" "t @ u" "length t"] that by (auto simp del: upt_Suc)
  then show ?case using 5(1) by auto
qed (auto split: list.splits)

lemma escapedItem_eq [simp]: "escapedItem c = AnyText \<longleftrightarrow> c = CHR ''*''" "escapedItem c = Lit d \<longleftrightarrow> c = d \<and> d \<noteq> CHR ''*'' \<and> d \<noteq> CHR ''?''"
  by (auto simp: escapedItem_def)

lemma escaped_tail: "escaped (p @ '' *'') = map escapedItem p @ [OptionalArgs]"
  by (simp add: escaped_def escapedItem_def Let_def)

lemma escaped_plain: "\<nexists>p. pattern = p @ '' *'' \<Longrightarrow> escaped pattern = map escapedItem pattern"
proof -
  assume none: "\<nexists>p. pattern = p @ '' *''"
  have False if "2 \<le> length pattern" "drop (length pattern - 2) (map escapedItem pattern) = [Lit (CHR '' ''), AnyText]"
  proof -
    have "drop (length pattern - 2) pattern = '' *''" using that(2) by (auto simp: drop_map map_eq_Cons_conv)
    then have "pattern = take (length pattern - 2) pattern @ '' *''" by (metis append_take_drop_id)
    with none show False by blast
  qed
  then show ?thesis by (auto simp: escaped_def Let_def)
qed

lemma wildcard_match:
  "match windows str pattern \<longleftrightarrow>
     globs windows (slashes pattern) (slashes str) \<or>
     (\<exists>p. slashes pattern = p @ '' *'' \<and> globs windows p (slashes str))"
proof (cases "\<exists>p. slashes pattern = p @ '' *''")
  case True
  then obtain p where p: "slashes pattern = p @ '' *''" by blast
  have "regexTest windows (map escapedItem p @ [Lit (CHR '' ''), AnyText]) (slashes str) \<longleftrightarrow> globs windows (p @ '' *'') (slashes str)"
    using regexTest_globs [of windows "p @ '' *''"] by (simp add: escapedItem_def)
  then show ?thesis by (auto simp: match_def p escaped_tail regexTest_optional regexTest_globs)
next
  case False
  then show ?thesis by (simp add: match_def escaped_plain regexTest_globs)
qed

text \<open>C27: A pattern matches what it says: a star is any text, a question mark any character, every other character itself
  (whatever characters are special in a regular expression), backslashes and slashes are the same, and a pattern that
  ends with a space and a star also matches without both.\<close>
theorem wildcard_match_spec:
  "match windows str pattern \<longleftrightarrow>
     globs windows (slashes pattern) (slashes str) \<or>
     (\<exists>p. slashes pattern = p @ '' *'' \<and> globs windows p (slashes str))"
  by (rule wildcard_match)

end
