(* ===== verification/Permission.thy ===== *)
theory Permission
  imports Wildcard
begin

text \<open>
  Permissions of the agent's tools (\<^verbatim>\<open>packages/cli-host/src/permission\<close>): the rules and their evaluation, the prefix of a
  shell command that an approval covers, and the service that asks the user.  The service is a machine whose steps are
  the calls of \<open>ask\<close> and \<open>reply\<close>, the resumption or interruption of a waiting call and the end of the instance, in any
  order.  A deferred is an index into a list of their states.  The identifier of a request without one is an argument
  of \<open>ask\<close> (it is made by \<^verbatim>\<open>PermissionID.ascending\<close>).
\<close>

section \<open>The prefix of a command\<close>

definition ARITY :: "(string \<times> nat) list" where
  "ARITY = [
    (''cat'', 1), (''cd'', 1), (''chmod'', 1), (''chown'', 1), (''cp'', 1), (''echo'', 1), (''env'', 1),
    (''export'', 1), (''grep'', 1), (''kill'', 1), (''killall'', 1), (''ln'', 1), (''ls'', 1), (''mkdir'', 1),
    (''mv'', 1), (''ps'', 1), (''pwd'', 1), (''rm'', 1), (''rmdir'', 1), (''sleep'', 1), (''source'', 1),
    (''tail'', 1), (''touch'', 1), (''unset'', 1), (''which'', 1), (''aws'', 3), (''az'', 3), (''bazel'', 2),
    (''brew'', 2), (''bun'', 2), (''bun run'', 3), (''bun x'', 3), (''cargo'', 2), (''cargo add'', 3),
    (''cargo run'', 3), (''cdk'', 2), (''cf'', 2), (''cmake'', 2), (''composer'', 2), (''consul'', 2),
    (''consul kv'', 3), (''crictl'', 2), (''deno'', 2), (''deno task'', 3), (''doctl'', 3), (''docker'', 2),
    (''docker builder'', 3), (''docker compose'', 3), (''docker container'', 3), (''docker image'', 3),
    (''docker network'', 3), (''docker volume'', 3), (''eksctl'', 2), (''eksctl create'', 3), (''firebase'', 2),
    (''flyctl'', 2), (''gcloud'', 3), (''gh'', 3), (''git'', 2), (''git config'', 3), (''git remote'', 3),
    (''git stash'', 3), (''go'', 2), (''gradle'', 2), (''helm'', 2), (''heroku'', 2), (''hugo'', 2), (''ip'', 2),
    (''ip addr'', 3), (''ip link'', 3), (''ip netns'', 3), (''ip route'', 3), (''kind'', 2), (''kind create'', 3),
    (''kubectl'', 2), (''kubectl kustomize'', 3), (''kubectl rollout'', 3), (''kustomize'', 2), (''make'', 2),
    (''mc'', 2), (''mc admin'', 3), (''minikube'', 2), (''mongosh'', 2), (''mysql'', 2), (''mvn'', 2), (''ng'', 2),
    (''npm'', 2), (''npm exec'', 3), (''npm init'', 3), (''npm run'', 3), (''npm view'', 3), (''nvm'', 2),
    (''nx'', 2), (''openssl'', 2), (''openssl req'', 3), (''openssl x509'', 3), (''pip'', 2), (''pipenv'', 2),
    (''pnpm'', 2), (''pnpm dlx'', 3), (''pnpm exec'', 3), (''pnpm run'', 3), (''poetry'', 2), (''podman'', 2),
    (''podman container'', 3), (''podman image'', 3), (''psql'', 2), (''pulumi'', 2), (''pulumi stack'', 3),
    (''pyenv'', 2), (''python'', 2), (''rake'', 2), (''rbenv'', 2), (''redis-cli'', 2), (''rustup'', 2),
    (''serverless'', 2), (''sfdx'', 3), (''skaffold'', 2), (''sls'', 2), (''sst'', 2), (''swift'', 2),
    (''systemctl'', 2), (''terraform'', 2), (''terraform workspace'', 3), (''tmux'', 2), (''turbo'', 2),
    (''ufw'', 2), (''vault'', 2), (''vault auth'', 3), (''vault kv'', 3), (''vercel'', 2), (''volta'', 2),
    (''wp'', 2), (''yarn'', 2), (''yarn dlx'', 3), (''yarn run'', 3)]"

text \<open>\<^verbatim>\<open>ARITY[prefix]\<close>: the table is a plain object, so the members of \<^verbatim>\<open>Object.prototype\<close> are found too; as the end of a
  slice they count as zero.\<close>

definition arityOf :: "string \<Rightarrow> nat option" where
  "arityOf command =
     (case map_of ARITY command of Some n \<Rightarrow> Some n
      | None \<Rightarrow> if command \<in> set objectPrototypeKeys then Some 0 else None)"

fun prefixFrom :: "string list \<Rightarrow> nat \<Rightarrow> string list" where
  "prefixFrom tokens 0 = (if tokens = [] then [] else take 1 tokens)"
| "prefixFrom tokens (Suc n) =
     (case arityOf (join '' '' (take (Suc n) tokens)) of Some arity \<Rightarrow> take arity tokens | None \<Rightarrow> prefixFrom tokens n)"

definition prefix_bash :: "string list \<Rightarrow> string list" where
  "prefix_bash tokens = prefixFrom tokens (length tokens)"

section \<open>Rules\<close>

datatype action = Allow | Deny | Ask

record rule =
  r_permission :: string
  r_pattern :: string
  r_action :: action

type_synonym ruleset = "rule list"

definition ruleMatches :: "bool \<Rightarrow> string \<Rightarrow> string \<Rightarrow> rule \<Rightarrow> bool" where
  "ruleMatches windows permission pattern r \<longleftrightarrow>
     match windows permission (r_permission r) \<and> match windows pattern (r_pattern r)"

definition evaluate :: "bool \<Rightarrow> string \<Rightarrow> string \<Rightarrow> ruleset list \<Rightarrow> rule" where
  "evaluate windows permission pattern rulesets =
     (case find (ruleMatches windows permission pattern) (rev (concat rulesets)) of
        Some r \<Rightarrow> r
      | None \<Rightarrow> \<lparr> r_permission = permission, r_pattern = ''*'', r_action = Ask \<rparr>)"

definition merge :: "ruleset list \<Rightarrow> ruleset" where
  "merge rulesets = concat rulesets"

text \<open>The value of a key of the configuration: one action, or an action for each pattern.\<close>

datatype config_rule = ConfigAction action | ConfigObject "(string \<times> action) list"

definition expand :: "string \<Rightarrow> string \<Rightarrow> string" where
  "expand homedir pattern =
     (case stripPrefix ''~/'' pattern of Some _ \<Rightarrow> homedir @ drop 1 pattern
      | None \<Rightarrow> if pattern = ''~'' then homedir
         else (case stripPrefix ''$HOME/'' pattern of Some _ \<Rightarrow> homedir @ drop 5 pattern
          | None \<Rightarrow> (case stripPrefix ''$HOME'' pattern of Some _ \<Rightarrow> homedir @ drop 5 pattern | None \<Rightarrow> pattern)))"

fun configRules :: "string \<Rightarrow> string \<times> config_rule \<Rightarrow> ruleset" where
  "configRules homedir (key, ConfigAction a) = [\<lparr> r_permission = key, r_pattern = ''*'', r_action = a \<rparr>]"
| "configRules homedir (key, ConfigObject entries) =
     map (\<lambda>(pattern, a). \<lparr> r_permission = key, r_pattern = expand homedir pattern, r_action = a \<rparr>) entries"

definition fromConfig :: "string \<Rightarrow> (string \<times> config_rule) list \<Rightarrow> ruleset" where
  "fromConfig homedir permission = concat (map (configRules homedir) permission)"

definition EDIT_TOOLS :: "string list" where
  "EDIT_TOOLS = [''edit'', ''write'', ''apply_patch'']"

definition disabled :: "bool \<Rightarrow> string list \<Rightarrow> ruleset \<Rightarrow> string list" where
  "disabled windows tools ruleset =
     remdups (filter (\<lambda>tool.
       let permission = (if tool \<in> set EDIT_TOOLS then ''edit'' else tool) in
       case find (\<lambda>r. match windows permission (r_permission r)) (rev ruleset) of
         None \<Rightarrow> False | Some r \<Rightarrow> r_pattern r = ''*'' \<and> r_action r = Deny) tools)"

section \<open>The service\<close>

record permission_request =
  pr_id :: string
  pr_sessionID :: string
  pr_permission :: string
  pr_patterns :: "string list"
  pr_always :: "string list"

datatype user_reply = Once | Always | Reject

datatype ask_error = RejectedError | CorrectedError string | DeniedError ruleset

datatype deferred = Waiting | Granted | Refused ask_error

datatype permission_event = Asked permission_request | Replied string string user_reply

record permission_state =
  ps_windows :: bool
  ps_pending :: "(string, permission_request \<times> nat) js_map"
  ps_approved :: ruleset
  ps_deferreds :: "deferred list"
  ps_asked :: "permission_request list"
  ps_running :: "nat list"
  ps_events :: "permission_event list"

text \<open>\<open>ps_asked\<close> records, for each deferred, the request that waits on it, the local variables of that call of \<open>ask\<close>;
  \<open>ps_running\<close> are the calls that have not ended.
  \<open>approved\<close> starts with the rules stored for the project.\<close>

definition initPermission :: "bool \<Rightarrow> ruleset \<Rightarrow> permission_state" where
  "initPermission windows stored =
     \<lparr> ps_windows = windows, ps_pending = [], ps_approved = stored, ps_deferreds = [], ps_asked = [], ps_running = [], ps_events = [] \<rparr>"

definition publish :: "permission_event \<Rightarrow> permission_state \<Rightarrow> permission_state" where
  "publish e s = s\<lparr>ps_events := ps_events s @ [e]\<rparr>"

text \<open>The state of a deferred is set once: completing it again does nothing.\<close>

definition completeDeferred :: "nat \<Rightarrow> deferred \<Rightarrow> permission_state \<Rightarrow> permission_state" where
  "completeDeferred d v s =
     (if d < length (ps_deferreds s) \<and> ps_deferreds s ! d = Waiting then s\<lparr>ps_deferreds := (ps_deferreds s)[d := v]\<rparr> else s)"

text \<open>The loop over the patterns of a request: refused, or whether the user is to be asked.\<close>

fun needsAsk :: "bool \<Rightarrow> string \<Rightarrow> ruleset \<Rightarrow> ruleset \<Rightarrow> string list \<Rightarrow> bool option" where
  "needsAsk windows permission ruleset approved [] = Some False"
| "needsAsk windows permission ruleset approved (pattern # patterns) =
     (case r_action (evaluate windows permission pattern [ruleset, approved]) of
        Deny \<Rightarrow> None
      | Allow \<Rightarrow> needsAsk windows permission ruleset approved patterns
      | Ask \<Rightarrow> map_option (\<lambda>_. True) (needsAsk windows permission ruleset approved patterns))"

datatype ask_result = Returns | Fails ask_error | WaitsFor nat

definition ask :: "ruleset \<Rightarrow> permission_request \<Rightarrow> permission_state \<Rightarrow> ask_result \<times> permission_state" where
  "ask ruleset request s =
     (case needsAsk (ps_windows s) (pr_permission request) ruleset (ps_approved s) (pr_patterns request) of
        None \<Rightarrow> (Fails (DeniedError (filter (\<lambda>r. match (ps_windows s) (pr_permission request) (r_permission r)) ruleset)), s)
      | Some False \<Rightarrow> (Returns, s)
      | Some True \<Rightarrow>
          (let d = length (ps_deferreds s) in
           (WaitsFor d, publish (Asked request)
              (s\<lparr>ps_deferreds := ps_deferreds s @ [Waiting], ps_asked := ps_asked s @ [request], ps_running := ps_running s @ [d],
                 ps_pending := mapSet (pr_id request) (request, d) (ps_pending s)\<rparr>))))"

text \<open>The end of a waiting call, when its deferred is completed or the call is interrupted.\<close>

definition finishAsk :: "nat \<Rightarrow> permission_state \<Rightarrow> permission_state" where
  "finishAsk d s =
     (if d \<in> set (ps_running s)
      then s\<lparr>ps_pending := mapDelete (pr_id (ps_asked s ! d)) (ps_pending s), ps_running := removeAll d (ps_running s)\<rparr>
      else s)"

definition resumeAsk :: "nat \<Rightarrow> permission_state \<Rightarrow> permission_state" where
  "resumeAsk d s = (if d \<in> set (ps_running s) \<and> ps_deferreds s ! d \<noteq> Waiting then finishAsk d s else s)"

fun settleAll :: "user_reply \<Rightarrow> deferred \<Rightarrow> (string \<times> permission_request \<times> nat) list \<Rightarrow> permission_state \<Rightarrow> permission_state" where
  "settleAll r v [] s = s"
| "settleAll r v ((key, info, d) # items) s =
     settleAll r v items
       (completeDeferred d v
         (publish (Replied (pr_sessionID info) (pr_id info) r) (s\<lparr>ps_pending := mapDelete key (ps_pending s)\<rparr>)))"

definition ofSession :: "string \<Rightarrow> permission_state \<Rightarrow> (string \<times> permission_request \<times> nat) list" where
  "ofSession sessionID s = filter (\<lambda>(key, info, d). pr_sessionID info = sessionID) (ps_pending s)"

definition coveredBy :: "permission_state \<Rightarrow> permission_request \<Rightarrow> bool" where
  "coveredBy s info \<longleftrightarrow>
     list_all (\<lambda>pattern. r_action (evaluate (ps_windows s) (pr_permission info) pattern [ps_approved s]) = Allow) (pr_patterns info)"

definition approvals :: "permission_request \<Rightarrow> ruleset" where
  "approvals info = map (\<lambda>pattern. \<lparr> r_permission = pr_permission info, r_pattern = pattern, r_action = Allow \<rparr>) (pr_always info)"

definition reply :: "string \<Rightarrow> user_reply \<Rightarrow> string option \<Rightarrow> permission_state \<Rightarrow> permission_state" where
  "reply requestID r message s =
     (case mapGet (ps_pending s) requestID of
        None \<Rightarrow> s
      | Some (info, d) \<Rightarrow>
          (let s1 = publish (Replied (pr_sessionID info) (pr_id info) r) (s\<lparr>ps_pending := mapDelete requestID (ps_pending s)\<rparr>) in
           case r of
             Reject \<Rightarrow>
               (let s2 = completeDeferred d
                      (Refused (case message of None \<Rightarrow> RejectedError | Some m \<Rightarrow> if m = [] then RejectedError else CorrectedError m)) s1 in
                settleAll Reject (Refused RejectedError) (ofSession (pr_sessionID info) s2) s2)
           | Once \<Rightarrow> completeDeferred d Granted s1
           | Always \<Rightarrow>
               (let s2 = completeDeferred d Granted s1; s3 = s2\<lparr>ps_approved := ps_approved s2 @ approvals info\<rparr> in
                settleAll Always Granted (filter (\<lambda>(key, item, d'). coveredBy s3 item) (ofSession (pr_sessionID info) s3)) s3)))"

definition list_pending :: "permission_state \<Rightarrow> permission_request list" where
  "list_pending s = map (\<lambda>(key, info, d). info) (ps_pending s)"

text \<open>The finalizer of the instance.\<close>

definition finalizer :: "permission_state \<Rightarrow> permission_state" where
  "finalizer s = (fold (\<lambda>(key, info, d). completeDeferred d (Refused RejectedError)) (ps_pending s) s)\<lparr>ps_pending := []\<rparr>"

datatype permission_op =
    AskOp ruleset permission_request
  | ReplyOp string user_reply "string option"
  | ResumeAsk nat
  | InterruptAsk nat
  | Finalize

fun permissionStep :: "permission_op \<Rightarrow> permission_state \<Rightarrow> permission_state" where
  "permissionStep (AskOp ruleset request) s = snd (ask ruleset request s)"
| "permissionStep (ReplyOp requestID r message) s = reply requestID r message s"
| "permissionStep (ResumeAsk d) s = resumeAsk d s"
| "permissionStep (InterruptAsk d) s = finishAsk d s"
| "permissionStep Finalize s = finalizer s"

end
