(* ===== verification/Permission_Theorems.thy ===== *)
theory Permission_Theorems
  imports Permission
begin

text \<open>
  What the permission service guarantees: a call that waited for the user returns only after an affirmative reply that
  covers it, a waiting call stays listed and every reply settles it, and a command approved for good runs again
  without asking.
\<close>

section \<open>Frames\<close>

lemma publish_simps [simp]:
  "ps_windows (publish e s) = ps_windows s" "ps_pending (publish e s) = ps_pending s" "ps_approved (publish e s) = ps_approved s"
  "ps_deferreds (publish e s) = ps_deferreds s" "ps_asked (publish e s) = ps_asked s" "ps_running (publish e s) = ps_running s"
  by (simp_all add: publish_def)

lemma completeDeferred_simps [simp]:
  "ps_windows (completeDeferred d v s) = ps_windows s" "ps_pending (completeDeferred d v s) = ps_pending s"
  "ps_approved (completeDeferred d v s) = ps_approved s" "ps_asked (completeDeferred d v s) = ps_asked s"
  "ps_running (completeDeferred d v s) = ps_running s" "length (ps_deferreds (completeDeferred d v s)) = length (ps_deferreds s)"
  by (simp_all add: completeDeferred_def)

lemma completeDeferred_get:
  "d' < length (ps_deferreds s) \<Longrightarrow> ps_deferreds (completeDeferred d v s) ! d' =
     (if d' = d \<and> ps_deferreds s ! d = Waiting then v else ps_deferreds s ! d')"
  by (auto simp: completeDeferred_def nth_list_update)

lemma settleAll_simps [simp]:
  "ps_windows (settleAll r v items s) = ps_windows s" "ps_approved (settleAll r v items s) = ps_approved s"
  "ps_asked (settleAll r v items s) = ps_asked s" "ps_running (settleAll r v items s) = ps_running s"
  "length (ps_deferreds (settleAll r v items s)) = length (ps_deferreds s)"
  by (induction r v items s rule: settleAll.induct) simp_all

lemma settleAll_pending: "ps_pending (settleAll r v items s) = filter (\<lambda>e. fst e \<notin> fst ` set items) (ps_pending s)"
proof (induction r v items s rule: settleAll.induct)
  case (2 r v key info d items s)
  then show ?case by (auto simp: AList.delete_eq intro!: filter_cong)
qed simp

lemma settleAll_get:
  assumes "v \<noteq> Waiting" and "d' < length (ps_deferreds s)"
  shows "ps_deferreds (settleAll r v items s) ! d' =
    (if ps_deferreds s ! d' = Waiting \<and> (\<exists>(key, info, d)\<in>set items. d = d') then v else ps_deferreds s ! d')"
  using assms
proof (induction r v items s rule: settleAll.induct)
  case (2 r v key info d items s)
  then show ?case by (auto simp: completeDeferred_get)
qed simp

lemmas permission_frames = settleAll_pending settleAll_get completeDeferred_get

section \<open>Invariant\<close>

text \<open>A pending entry is filed under the identifier of its request, belongs to the call that made it and waits.\<close>

definition entryOk :: "permission_state \<Rightarrow> string \<times> permission_request \<times> nat \<Rightarrow> bool" where
  "entryOk s e = (case e of (key, info, d) \<Rightarrow>
     key = pr_id info \<and> d < length (ps_deferreds s) \<and> ps_asked s ! d = info \<and> ps_deferreds s ! d = Waiting)"

definition permissionOk :: "permission_state \<Rightarrow> bool" where
  "permissionOk s \<longleftrightarrow> length (ps_asked s) = length (ps_deferreds s) \<and> distinct (map fst (ps_pending s)) \<and>
     distinct (map (\<lambda>(key, info, d). d) (ps_pending s)) \<and> (\<forall>e\<in>set (ps_pending s). entryOk s e) \<and>
     (\<forall>d\<in>set (ps_running s). d < length (ps_deferreds s))"

lemma distinct_map_filter_pending: "distinct (map f xs) \<Longrightarrow> distinct (map f (filter P xs))"
  by (induction xs) auto

lemma mapDelete_filter: "mapDelete k m = filter (\<lambda>e. fst e \<noteq> k) m"
  by (auto simp: AList.delete_eq intro!: filter_cong)

lemma permissionOk_filter:
  assumes ok: "permissionOk s" and "ps_pending t = filter P (ps_pending s)" and "ps_asked t = ps_asked s"
    and "set (ps_running t) \<subseteq> set (ps_running s)" and "length (ps_deferreds t) = length (ps_deferreds s)"
    and "\<And>e. e \<in> set (ps_pending s) \<Longrightarrow> P e \<Longrightarrow> ps_deferreds t ! snd (snd e) = Waiting"
  shows "permissionOk t"
  using assms by (auto simp: permissionOk_def entryOk_def distinct_map_filter_pending)

lemma pending_same_deferred:
  assumes "permissionOk s" and "(key, info, d) \<in> set (ps_pending s)" and "(key', info', d) \<in> set (ps_pending s)"
  shows "key' = key \<and> info' = info"
proof -
  have "inj_on (\<lambda>(key, info, d). d) (set (ps_pending s))" using assms(1) by (simp add: permissionOk_def distinct_map)
  from inj_onD [OF this _ assms(2,3)] show ?thesis by simp
qed

lemma settleAll_ok:
  assumes ok: "permissionOk s" and items: "set items \<subseteq> set (ps_pending s)" and v: "v \<noteq> Waiting"
  shows "permissionOk (settleAll r v items s)"
proof (rule permissionOk_filter [OF ok settleAll_pending])
  fix e assume e: "e \<in> set (ps_pending s)" "fst e \<notin> fst ` set items"
  obtain key info d where [simp]: "e = (key, info, d)" by (cases e)
  have "d < length (ps_deferreds s)" "ps_deferreds s ! d = Waiting"
    using ok e(1) by (auto simp: permissionOk_def entryOk_def)
  moreover have "\<not> (\<exists>(k, i, d')\<in>set items. d' = d)"
  proof
    assume "\<exists>(k, i, d')\<in>set items. d' = d"
    then obtain k i where item: "(k, i, d) \<in> set items" by auto
    then have "k = key" using pending_same_deferred [OF ok, of key info d k i] e(1) items by auto
    with item e(2) show False by (force simp: image_iff)
  qed
  ultimately show "ps_deferreds (settleAll r v items s) ! snd (snd e) = Waiting"
    using v by (auto simp: settleAll_get)
qed simp_all

text \<open>A reply settles its own request, then the requests of the session that it decides too.\<close>

lemma reply_cases:
  "reply key r message s = (case mapGet (ps_pending s) key of
     None \<Rightarrow> s
   | Some (info, d) \<Rightarrow> (case r of
       Once \<Rightarrow> settleAll Once Granted [(key, info, d)] s
     | Reject \<Rightarrow>
         (let s2 = settleAll Reject (Refused (case message of None \<Rightarrow> RejectedError
                      | Some m \<Rightarrow> if m = [] then RejectedError else CorrectedError m)) [(key, info, d)] s in
          settleAll Reject (Refused RejectedError) (ofSession (pr_sessionID info) s2) s2)
     | Always \<Rightarrow>
         (let s2 = settleAll Always Granted [(key, info, d)] s; s3 = s2\<lparr>ps_approved := ps_approved s2 @ approvals info\<rparr> in
          settleAll Always Granted (filter (\<lambda>(key, item, d'). coveredBy s3 item) (ofSession (pr_sessionID info) s3)) s3)))"
  by (simp add: reply_def Let_def split: option.split user_reply.split)

lemma ofSession_subset: "set (ofSession sessionID s) \<subseteq> set (ps_pending s)"
  by (auto simp: ofSession_def)

lemma approved_ok: "permissionOk (s\<lparr>ps_approved := a\<rparr>) \<longleftrightarrow> permissionOk s"
  by (simp add: permissionOk_def entryOk_def)

lemma reply_ok:
  assumes "permissionOk s"
  shows "permissionOk (reply key r message s)"
proof (cases "mapGet (ps_pending s) key")
  case None
  then show ?thesis using assms by (simp add: reply_cases)
next
  case (Some e)
  obtain info d where e: "e = (info, d)" by (cases e)
  have here: "set [(key, info, d)] \<subseteq> set (ps_pending s)" using Some e by (auto dest: map_of_SomeD)
  have first: "permissionOk (settleAll r v [(key, info, d)] s)" if "v \<noteq> Waiting" for r v
    using assms here that by (rule settleAll_ok)
  show ?thesis
  proof (cases r)
    case Once
    then show ?thesis using Some e first by (simp add: reply_cases)
  next
    case Always
    let ?s3 = "(settleAll Always Granted [(key, info, d)] s)\<lparr>ps_approved := ps_approved s @ approvals info\<rparr>"
    have "permissionOk ?s3" using first [of Granted Always] by (simp only: approved_ok) simp
    then have "permissionOk (settleAll Always Granted (filter (\<lambda>(key, item, d'). coveredBy ?s3 item) (ofSession (pr_sessionID info) ?s3)) ?s3)"
      by (rule settleAll_ok) (rule subset_trans [OF filter_is_subset ofSession_subset], simp)
    then show ?thesis using Some e Always by (simp add: reply_cases Let_def)
  next
    case Reject
    then show ?thesis using Some e
      by (simp only: reply_cases option.case prod.case user_reply.case Let_def)
        (intro settleAll_ok first ofSession_subset; simp split: option.split)
  qed
qed

lemma distinct_map_update:
  "distinct (map f m) \<Longrightarrow> f (k, v) \<notin> f ` set m \<Longrightarrow> distinct (map f (mapSet k v m))"
proof (induction m)
  case (Cons e m)
  have "set (mapSet k v m) \<subseteq> insert (k, v) (set m)" for m by (induction m) auto
  with Cons show ?case by (cases e) (fastforce simp: image_iff)
qed simp

lemma ask_ok:
  assumes "permissionOk s"
  shows "permissionOk (snd (ask ruleset request s))"
proof -
  let ?d = "length (ps_deferreds s)"
  let ?t = "s\<lparr>ps_deferreds := ps_deferreds s @ [Waiting], ps_asked := ps_asked s @ [request], ps_running := ps_running s @ [?d],
       ps_pending := mapSet (pr_id request) (request, ?d) (ps_pending s)\<rparr>"
  have "permissionOk ?t"
    unfolding permissionOk_def
  proof (intro conjI)
    have "?d \<notin> (\<lambda>(key, info, d). d) ` set (ps_pending s)"
      using assms by (auto simp: permissionOk_def entryOk_def)
    then show "distinct (map (\<lambda>(key, info, d). d) (ps_pending ?t))"
      using assms by (auto simp: permissionOk_def intro!: distinct_map_update)
    have "set (mapSet (pr_id request) (request, ?d) m) \<subseteq> insert (pr_id request, request, ?d) (set m)" for m
      by (induction m) auto
    then show "\<forall>e\<in>set (ps_pending ?t). entryOk ?t e"
      using assms by (fastforce simp: permissionOk_def entryOk_def nth_append)
  qed (use assms in \<open>auto simp: permissionOk_def\<close>)
  moreover have "permissionOk (publish e t) \<longleftrightarrow> permissionOk t" for e t by (simp add: permissionOk_def entryOk_def)
  ultimately show ?thesis using assms by (auto simp: ask_def Let_def split: option.splits bool.splits)
qed

lemma finalize_frames:
  "ps_asked (fold (\<lambda>(key, info, d). completeDeferred d v) items s) = ps_asked s \<and>
   ps_running (fold (\<lambda>(key, info, d). completeDeferred d v) items s) = ps_running s \<and>
   length (ps_deferreds (fold (\<lambda>(key, info, d). completeDeferred d v) items s)) = length (ps_deferreds s)"
  by (induction items arbitrary: s) (auto split: prod.splits)

lemma finishAsk_ok:
  assumes ok: "permissionOk s"
  shows "permissionOk (finishAsk d s)"
proof (rule permissionOk_filter [OF ok])
  show "ps_pending (finishAsk d s) = filter (\<lambda>e. d \<in> set (ps_running s) \<longrightarrow> fst e \<noteq> pr_id (ps_asked s ! d)) (ps_pending s)"
    by (simp add: finishAsk_def mapDelete_filter)
qed (use ok in \<open>auto simp: finishAsk_def permissionOk_def entryOk_def\<close>)

lemma permission_step_ok: "permissionOk s \<Longrightarrow> permissionOk (permissionStep op s)"
  by (cases op)
    (auto simp: ask_ok reply_ok resumeAsk_def finishAsk_ok, simp add: finalizer_def permissionOk_def finalize_frames)

interpretation permission: step_invariant permissionStep permissionOk
  by unfold_locales (rule permission_step_ok)

lemma permission_init_ok: "permissionOk (initPermission windows stored)"
  by (simp add: permissionOk_def initPermission_def)

lemmas permission_run_ok = permission.run_inv [OF permission_init_ok]

section \<open>Consent\<close>

text \<open>\<open>consented s d key r message\<close>: this reply, given in this state, grants the call that waits on \<open>d\<close>.\<close>

definition consented :: "permission_state \<Rightarrow> nat \<Rightarrow> string \<Rightarrow> user_reply \<Rightarrow> string option \<Rightarrow> bool" where
  "consented s d key r message \<longleftrightarrow> (\<exists>info d'. mapGet (ps_pending s) key = Some (info, d') \<and> info = ps_asked s ! d' \<and>
     (d' = d \<and> r \<noteq> Reject \<or>
      r = Always \<and> pr_sessionID (ps_asked s ! d) = pr_sessionID info \<and> coveredBy (reply key r message s) (ps_asked s ! d)))"

lemma step_asked: "\<exists>more. ps_asked (permissionStep op s) = ps_asked s @ more"
proof (cases op)
  case (ReplyOp key r message)
  then show ?thesis by (auto simp: reply_cases Let_def split: option.split user_reply.split prod.split)
qed (auto simp: ask_def resumeAsk_def finishAsk_def finalizer_def finalize_frames Let_def split: option.split bool.split)

lemma finalize_get:
  "d < length (ps_deferreds s) \<Longrightarrow> ps_deferreds (fold (\<lambda>(key, info, d). completeDeferred d v) items s) ! d \<in> {v, ps_deferreds s ! d}"
proof (induction items arbitrary: s)
  case (Cons e items)
  obtain key info d' where e: "e = (key, info, d')" by (cases e)
  have "ps_deferreds (completeDeferred d' v s) ! d \<in> {v, ps_deferreds s ! d}" using Cons.prems by (simp add: completeDeferred_get)
  with Cons.IH [of "completeDeferred d' v s"] Cons.prems show ?case by (auto simp: e)
qed simp

lemma coveredBy_cong: "ps_windows s = ps_windows t \<Longrightarrow> ps_approved s = ps_approved t \<Longrightarrow> coveredBy s info = coveredBy t info"
  by (simp add: coveredBy_def)

lemma reply_grants:
  assumes ok: "permissionOk s" and d: "d < length (ps_deferreds s)"
    and old: "ps_deferreds s ! d \<noteq> Granted" and new: "ps_deferreds (reply key r message s) ! d = Granted"
  shows "consented s d key r message"
proof (cases "mapGet (ps_pending s) key")
  case None
  then show ?thesis using old new by (simp add: reply_cases)
next
  case (Some e)
  obtain info d' where e: "e = (info, d')" by (cases e)
  have "(key, info, d') \<in> set (ps_pending s)" using Some e by (simp add: map_of_SomeD)
  then have info: "info = ps_asked s ! d'" using ok by (auto simp: permissionOk_def entryOk_def)
  note here = Some [unfolded e] info
  show ?thesis
  proof (cases r)
    case Once
    with here old new d show ?thesis by (auto simp: consented_def reply_cases completeDeferred_get split: if_splits)
  next
    case Reject
    with here old new d have False
      by (auto simp: reply_cases Let_def settleAll_get completeDeferred_get split: if_splits option.splits)
    then show ?thesis ..
  next
    case Always
    let ?s2 = "settleAll Always Granted [(key, info, d')] s"
    let ?s3 = "?s2\<lparr>ps_approved := ps_approved ?s2 @ approvals info\<rparr>"
    let ?items = "filter (\<lambda>(key, item, d'). coveredBy ?s3 item) (ofSession (pr_sessionID info) ?s3)"
    have r: "reply key r message s = settleAll Always Granted ?items ?s3" using Always here by (simp add: reply_cases Let_def)
    have ok2: "permissionOk ?s2" using ok Some e by (intro settleAll_ok) (auto dest: map_of_SomeD)
    show ?thesis
    proof (cases "d' = d")
      case True
      then show ?thesis using here Always by (auto simp: consented_def)
    next
      case False
      then have "ps_deferreds ?s3 ! d = ps_deferreds s ! d" using d by (simp add: completeDeferred_get)
      with new old d have "\<exists>(k, item, d'')\<in>set ?items. d'' = d"
        unfolding r by (subst (asm) settleAll_get) (auto split: if_splits)
      then obtain k item where item: "(k, item, d) \<in> set ?items" by auto
      then have covered: "coveredBy ?s3 item" "pr_sessionID item = pr_sessionID info" "(k, item, d) \<in> set (ps_pending ?s2)"
        by (auto simp: ofSession_def)
      then have "item = ps_asked s ! d" using ok2 by (fastforce simp: permissionOk_def entryOk_def)
      moreover have "coveredBy (reply key r message s) item" unfolding r using covered(1) by (simp add: coveredBy_def)
      ultimately show ?thesis using here Always covered(2) by (auto simp: consented_def)
    qed
  qed
qed

lemma step_grants:
  assumes ok: "permissionOk s" and d: "d < length (ps_deferreds (permissionStep op s))"
    and new: "ps_deferreds (permissionStep op s) ! d = Granted"
  shows "d < length (ps_deferreds s) \<and>
    (ps_deferreds s ! d = Granted \<or> (\<exists>key r message. op = ReplyOp key r message \<and> consented s d key r message))"
proof (cases op)
  case (AskOp ruleset request)
  then show ?thesis using d new
    by (auto simp: ask_def Let_def nth_append less_Suc_eq split: option.splits bool.splits if_splits)
next
  case (ReplyOp key r message)
  have "length (ps_deferreds (reply key r message s)) = length (ps_deferreds s)"
    by (auto simp: reply_cases Let_def split: option.split user_reply.split)
  then show ?thesis using reply_grants [OF ok, of d key r message] d new ReplyOp by auto
next
  case Finalize
  then show ?thesis using d new finalize_get [of d s "Refused RejectedError" "ps_pending s"]
    by (auto simp: finalizer_def finalize_frames)
qed (use d new in \<open>auto simp: resumeAsk_def finishAsk_def split: if_splits\<close>)

text \<open>C20: A tool call that had to wait for the user proceeds only with consent: whatever calls, replies, interruptions and
  restarts interleave, a call is granted only after a reply that was not a rejection, given while a request was pending
  that was its own, or one of the same session answered for good such that the rules then approved allow each of the
  call's patterns.\<close>
theorem permission_granted_only_with_consent:
  assumes "s = fold permissionStep ops (initPermission windows stored)"
    and "d < length (ps_deferreds s)" and "ps_deferreds s ! d = Granted"
  shows "\<exists>before key r message after. ops = before @ ReplyOp key r message # after \<and>
    (let s0 = fold permissionStep before (initPermission windows stored) in
     consented s0 d key r message \<and> ps_asked s0 ! d = ps_asked s ! d)"
  using assms
proof (induction ops arbitrary: s rule: rev_induct)
  case Nil
  then show ?case by (simp add: initPermission_def)
next
  case (snoc op ops)
  let ?s0 = "fold permissionStep ops (initPermission windows stored)"
  have s: "s = permissionStep op ?s0" using snoc.prems(1) by simp
  have ok: "permissionOk ?s0" by (rule permission_run_ok)
  from step_grants [OF ok] snoc.prems(2,3) have g: "d < length (ps_deferreds ?s0)"
      "ps_deferreds ?s0 ! d = Granted \<or> (\<exists>key r message. op = ReplyOp key r message \<and> consented ?s0 d key r message)"
    unfolding s by blast+
  have asked: "ps_asked s ! d = ps_asked ?s0 ! d"
    using step_asked [of op ?s0] g(1) ok by (auto simp: s permissionOk_def nth_append)
  from g(2) show ?case
  proof
    assume "ps_deferreds ?s0 ! d = Granted"
    from snoc.IH [OF refl g(1) this] obtain before key r message after where
      b: "ops = before @ ReplyOp key r message # after"
        "let s0 = fold permissionStep before (initPermission windows stored) in consented s0 d key r message \<and> ps_asked s0 ! d = ps_asked ?s0 ! d"
      by blast
    then show ?thesis using asked by (intro exI [of _ before] exI [of _ key] exI [of _ r] exI [of _ message] exI [of _ "after @ [op]"]) simp
  next
    assume "\<exists>key r message. op = ReplyOp key r message \<and> consented ?s0 d key r message"
    then show ?thesis using asked by (intro exI [of _ ops]) auto
  qed
qed

definition samplePermissionRequest :: "string \<Rightarrow> permission_request" where
  "samplePermissionRequest key = \<lparr> pr_id = key, pr_sessionID = ''s'', pr_permission = ''bash'', pr_patterns = [''git push''], pr_always = [''git push *''] \<rparr>"

definition samplePermissionOps :: "permission_op list" where
  "samplePermissionOps = [AskOp [] (samplePermissionRequest ''p1''), AskOp [] (samplePermissionRequest ''p2''), ReplyOp ''p1'' Always None]"

theorem permission_granted_only_with_consent_witness:
  "\<exists>before key r message after. samplePermissionOps = before @ ReplyOp key r message # after \<and>
    (let s0 = fold permissionStep before (initPermission False []) in
     consented s0 1 key r message \<and> ps_asked s0 ! 1 = ps_asked (fold permissionStep samplePermissionOps (initPermission False [])) ! 1)"
proof -
  have "1 < length (ps_deferreds (fold permissionStep samplePermissionOps (initPermission False [])))"
    "ps_deferreds (fold permissionStep samplePermissionOps (initPermission False [])) ! 1 = Granted"
    by code_simp+
  from permission_granted_only_with_consent [OF refl this] show ?thesis .
qed

section \<open>No waiting call is forgotten\<close>

text \<open>The identifiers of the requests made; the service makes a fresh one for each.\<close>

definition askIds :: "permission_op list \<Rightarrow> string list" where
  "askIds ops = concat (map (\<lambda>op. case op of AskOp ruleset request \<Rightarrow> [pr_id request] | _ \<Rightarrow> []) ops)"

definition listedOk :: "permission_state \<Rightarrow> bool" where
  "listedOk s \<longleftrightarrow> distinct (map pr_id (ps_asked s)) \<and>
     (\<forall>d\<in>set (ps_running s). ps_deferreds s ! d = Waiting \<longrightarrow> (pr_id (ps_asked s ! d), ps_asked s ! d, d) \<in> set (ps_pending s))"

lemma settleAll_listed:
  assumes ok: "permissionOk s" and listed: "listedOk s" and items: "set items \<subseteq> set (ps_pending s)" and v: "v \<noteq> Waiting"
  shows "listedOk (settleAll r v items s)"
  unfolding listedOk_def
proof (intro conjI ballI impI)
  fix d assume d: "d \<in> set (ps_running (settleAll r v items s))" "ps_deferreds (settleAll r v items s) ! d = Waiting"
  have len: "d < length (ps_deferreds s)" using d(1) ok by (simp add: permissionOk_def)
  then have old: "ps_deferreds s ! d = Waiting" "\<not> (\<exists>(key, info, d')\<in>set items. d' = d)"
    using d(2) v by (auto simp: settleAll_get split: if_splits)
  let ?e = "(pr_id (ps_asked s ! d), ps_asked s ! d, d)"
  have e: "?e \<in> set (ps_pending s)" using listed d(1) old(1) by (simp add: listedOk_def)
  have "fst ?e \<notin> fst ` set items"
  proof
    assume "fst ?e \<in> fst ` set items"
    then obtain item where item: "item \<in> set items" "fst item = fst ?e" by auto
    have "distinct (map fst (ps_pending s))" using ok by (simp add: permissionOk_def)
    with item items e have "item = ?e" by (metis (no_types, lifting) eq_key_imp_eq_value prod.collapse subsetD)
    with item(1) old(2) show False by auto
  qed
  with e show "(pr_id (ps_asked (settleAll r v items s) ! d), ps_asked (settleAll r v items s) ! d, d) \<in> set (ps_pending (settleAll r v items s))"
    by (simp add: settleAll_pending)
qed (use listed in \<open>simp add: listedOk_def\<close>)

lemma reply_listed:
  assumes ok: "permissionOk s" and listed: "listedOk s"
  shows "listedOk (reply key r message s)"
proof (cases "mapGet (ps_pending s) key")
  case None
  then show ?thesis using listed by (simp add: reply_cases)
next
  case (Some e)
  obtain info d where e: "e = (info, d)" by (cases e)
  have here: "set [(key, info, d)] \<subseteq> set (ps_pending s)" using Some e by (auto dest: map_of_SomeD)
  have first: "permissionOk (settleAll r v [(key, info, d)] s)" "listedOk (settleAll r v [(key, info, d)] s)" if "v \<noteq> Waiting" for r v
    using settleAll_ok settleAll_listed ok listed here that by blast+
  show ?thesis
  proof (cases r)
    case Once
    then show ?thesis using Some e first by (simp add: reply_cases)
  next
    case Always
    let ?s3 = "(settleAll Always Granted [(key, info, d)] s)\<lparr>ps_approved := ps_approved s @ approvals info\<rparr>"
    have "permissionOk ?s3" "listedOk ?s3"
      using first [of Granted Always] by (simp_all only: approved_ok listedOk_def) simp_all
    then have "listedOk (settleAll Always Granted (filter (\<lambda>(key, item, d'). coveredBy ?s3 item) (ofSession (pr_sessionID info) ?s3)) ?s3)"
      by (rule settleAll_listed) (rule subset_trans [OF filter_is_subset ofSession_subset], simp)
    then show ?thesis using Some e Always by (simp add: reply_cases Let_def)
  next
    case Reject
    then show ?thesis using Some e
      by (simp only: reply_cases option.case prod.case user_reply.case Let_def)
        (intro settleAll_listed first ofSession_subset; simp split: option.split)
  qed
qed

lemma finalize_settles:
  assumes "v \<noteq> Waiting" and "d < length (ps_deferreds s)" and "ps_deferreds s ! d \<noteq> Waiting \<or> (key, info, d) \<in> set items"
  shows "ps_deferreds (fold (\<lambda>(key, info, d). completeDeferred d v) items s) ! d \<noteq> Waiting"
  using assms(2,3)
proof (induction items arbitrary: s)
  case (Cons e items)
  obtain k i d' where e: "e = (k, i, d')" by (cases e)
  have "ps_deferreds (completeDeferred d' v s) ! d \<noteq> Waiting \<or> (key, info, d) \<in> set items"
    using Cons.prems assms(1) by (auto simp: e completeDeferred_get)
  with Cons.IH [of "completeDeferred d' v s"] Cons.prems(1) show ?case by (simp add: e)
qed simp

lemma finishAsk_asked [simp]: "ps_asked (finishAsk d s) = ps_asked s"
  by (simp add: finishAsk_def)

lemma finishAsk_listed:
  assumes ok: "permissionOk s" and listed: "listedOk s"
  shows "listedOk (finishAsk d s)"
proof -
  have "pr_id (ps_asked s ! d') \<noteq> pr_id (ps_asked s ! d)" if "d \<in> set (ps_running s)" "d' \<in> set (ps_running s)" "d' \<noteq> d" for d'
    using ok listed that by (auto simp: listedOk_def permissionOk_def distinct_map inj_on_def nth_eq_iff_index_eq distinct_conv_nth)
  then show ?thesis using listed by (auto simp: finishAsk_def listedOk_def mapDelete_filter)
qed

lemma ask_listed:
  assumes ok: "permissionOk s" and listed: "listedOk s" and fresh: "pr_id request \<notin> pr_id ` set (ps_asked s)"
  shows "listedOk (snd (ask ruleset request s))"
proof -
  have "pr_id request \<notin> set (map fst (ps_pending s))"
  proof
    assume "pr_id request \<in> set (map fst (ps_pending s))"
    then obtain info d where "(pr_id request, info, d) \<in> set (ps_pending s)" by auto
    then have "pr_id request = pr_id (ps_asked s ! d)" "d < length (ps_asked s)" using ok by (auto simp: permissionOk_def entryOk_def)
    with fresh show False by simp
  qed
  then have new: "mapSet (pr_id request) e (ps_pending s) = ps_pending s @ [(pr_id request, e)]" for e
    by (rule mapSet_fresh)
  show ?thesis using listed fresh ok
    by (auto simp: ask_def listedOk_def permissionOk_def new Let_def nth_append split: option.split bool.split)
qed

lemma listed_run:
  assumes "distinct (askIds ops)"
  shows "listedOk (fold permissionStep ops (initPermission windows stored)) \<and>
    pr_id ` set (ps_asked (fold permissionStep ops (initPermission windows stored))) \<subseteq> set (askIds ops)"
  using assms
proof (induction ops rule: rev_induct)
  case Nil
  then show ?case by (simp add: listedOk_def initPermission_def)
next
  case (snoc op ops)
  let ?s = "fold permissionStep ops (initPermission windows stored)"
  have ids: "askIds (ops @ [op]) = askIds ops @ askIds [op]" by (simp add: askIds_def)
  have ok: "permissionOk ?s" by (rule permission_run_ok)
  have IH: "listedOk ?s" "pr_id ` set (ps_asked ?s) \<subseteq> set (askIds ops)" using snoc ids by auto
  show ?case
  proof (cases op)
    case (AskOp ruleset request)
    then have "pr_id request \<notin> set (askIds ops)" using snoc.prems ids by (auto simp: askIds_def)
    then have "listedOk (snd (ask ruleset request ?s))" using IH ok by (intro ask_listed) auto
    moreover have "pr_id ` set (ps_asked (snd (ask ruleset request ?s))) \<subseteq> insert (pr_id request) (pr_id ` set (ps_asked ?s))"
      by (auto simp: ask_def Let_def split: option.splits bool.splits)
    ultimately show ?thesis using IH AskOp ids by (auto simp: askIds_def)
  next
    case (ReplyOp key r message)
    have "ps_asked (reply key r message ?s) = ps_asked ?s" by (auto simp: reply_cases Let_def split: option.split user_reply.split)
    then show ?thesis using IH ids ReplyOp reply_listed [OF ok] by (auto simp: askIds_def)
  next
    case Finalize
    have "ps_deferreds (finalizer ?s) ! d \<noteq> Waiting" if "d \<in> set (ps_running ?s)" for d
      using that IH(1) ok finalize_settles [of "Refused RejectedError" d ?s "pr_id (ps_asked ?s ! d)" "ps_asked ?s ! d" "ps_pending ?s"]
      by (auto simp: finalizer_def listedOk_def permissionOk_def)
    then show ?thesis using IH Finalize ids by (auto simp: askIds_def listedOk_def finalizer_def finalize_frames)
  next
    case (ResumeAsk d)
    then have "askIds [op] = []" by (simp add: askIds_def)
    then show ?thesis using IH ids finishAsk_listed [OF ok IH(1)] ResumeAsk by (auto simp: resumeAsk_def)
  next
    case (InterruptAsk d)
    then have "askIds [op] = []" by (simp add: askIds_def)
    then show ?thesis using IH ids finishAsk_listed [OF ok IH(1)] InterruptAsk by auto
  qed
qed

definition refusal :: "string option \<Rightarrow> ask_error" where
  "refusal message = (case message of None \<Rightarrow> RejectedError | Some m \<Rightarrow> if m = [] then RejectedError else CorrectedError m)"

text \<open>C24: No waiting call is forgotten: as long as request identifiers are not reused, a call that still waits is listed as
  pending, a reply to its identifier settles it at once, and a rejection settles with it every other waiting call of
  the session.\<close>
theorem permission_waiting_call_settled:
  assumes "s = fold permissionStep ops (initPermission windows stored)" and "distinct (askIds ops)"
    and "d \<in> set (ps_running s)" and "ps_deferreds s ! d = Waiting"
  shows "ps_asked s ! d \<in> set (list_pending s) \<and>
    ps_deferreds (reply (pr_id (ps_asked s ! d)) r message s) ! d = (if r = Reject then Refused (refusal message) else Granted) \<and>
    (\<forall>d'\<in>set (ps_running s). d' \<noteq> d \<and> ps_deferreds s ! d' = Waiting \<and> pr_sessionID (ps_asked s ! d') = pr_sessionID (ps_asked s ! d) \<longrightarrow>
      ps_deferreds (reply (pr_id (ps_asked s ! d)) Reject message s) ! d' = Refused RejectedError)"
proof -
  have ok: "permissionOk s" unfolding assms(1) by (rule permission_run_ok)
  have listed: "listedOk s" using listed_run [OF assms(2)] assms(1) by blast
  let ?info = "ps_asked s ! d"
  have e: "(pr_id ?info, ?info, d) \<in> set (ps_pending s)" using listed assms(3,4) by (simp add: listedOk_def)
  then have get: "mapGet (ps_pending s) (pr_id ?info) = Some (?info, d)" using ok by (simp add: permissionOk_def)
  have len: "d' < length (ps_deferreds s)" if "d' \<in> set (ps_running s)" for d' using ok that by (simp add: permissionOk_def)
  have listed_here: "?info \<in> set (list_pending s)" using e by (force simp: list_pending_def)
  have settled: "ps_deferreds (reply (pr_id ?info) r message s) ! d = (if r = Reject then Refused (refusal message) else Granted)"
    using get len [OF assms(3)] assms(4)
    by (cases r) (auto simp: reply_cases Let_def settleAll_get completeDeferred_get refusal_def split: option.split)
  have session: "\<forall>d'\<in>set (ps_running s). d' \<noteq> d \<and> ps_deferreds s ! d' = Waiting \<and> pr_sessionID (ps_asked s ! d') = pr_sessionID ?info \<longrightarrow>
      ps_deferreds (reply (pr_id ?info) Reject message s) ! d' = Refused RejectedError"
  proof (intro ballI impI)
    fix d' assume d': "d' \<in> set (ps_running s)" "d' \<noteq> d \<and> ps_deferreds s ! d' = Waiting \<and> pr_sessionID (ps_asked s ! d') = pr_sessionID ?info"
    let ?info' = "ps_asked s ! d'"
    have e': "(pr_id ?info', ?info', d') \<in> set (ps_pending s)" using listed d' by (simp add: listedOk_def)
    then have "mapGet (ps_pending s) (pr_id ?info') = Some (?info', d')" using ok by (simp add: permissionOk_def)
    then have "pr_id ?info' \<noteq> pr_id ?info" using get d' by auto
    then show "ps_deferreds (reply (pr_id ?info) Reject message s) ! d' = Refused RejectedError"
      using get e' d' len [of d'] by (auto simp: reply_cases Let_def settleAll_get completeDeferred_get ofSession_def mapDelete_filter)
  qed
  show ?thesis using listed_here settled session by blast
qed

theorem permission_waiting_call_settled_witness:
  "let s = fold permissionStep (butlast samplePermissionOps) (initPermission False []) in
    ps_asked s ! 1 \<in> set (list_pending s) \<and>
    ps_deferreds (reply ''p2'' Once None s) ! 1 = Granted \<and>
    (\<forall>d'\<in>set (ps_running s). d' \<noteq> 1 \<and> ps_deferreds s ! d' = Waiting \<and> pr_sessionID (ps_asked s ! d') = pr_sessionID (ps_asked s ! 1) \<longrightarrow>
      ps_deferreds (reply ''p2'' Reject None s) ! d' = Refused RejectedError)"
proof -
  define s where "s = fold permissionStep (butlast samplePermissionOps) (initPermission False [])"
  have "distinct (askIds (butlast samplePermissionOps))" "1 \<in> set (ps_running s)" "ps_deferreds s ! 1 = Waiting" "pr_id (ps_asked s ! 1) = ''p2''"
    unfolding s_def by code_simp+
  with permission_waiting_call_settled [OF s_def, of 1] show ?thesis
    unfolding Let_def s_def [symmetric] by (metis user_reply.distinct(3))
qed

section \<open>Rules\<close>

lemma find_rev_append: "find P (rev (xs @ ys)) = (case find P (rev ys) of None \<Rightarrow> find P (rev xs) | Some y \<Rightarrow> Some y)"
proof -
  have "find P (xs @ ys) = (case find P xs of None \<Rightarrow> find P ys | Some y \<Rightarrow> Some y)" for xs ys :: "'a list"
    by (induction xs) auto
  then show ?thesis by simp
qed

lemma find_rev_last:
  "find P (rev xs) = Some x \<Longrightarrow> \<exists>before after. xs = before @ x # after \<and> P x \<and> (\<forall>y\<in>set after. \<not> P y)"
proof (induction xs rule: rev_induct)
  case (snoc y ys)
  then show ?case
  proof (cases "P y")
    case False
    with snoc obtain before after where "ys = before @ x # after" "P x" "\<forall>y\<in>set after. \<not> P y" by auto
    then show ?thesis using False by (intro exI [of _ before] exI [of _ "after @ [y]"]) auto
  next
    case True
    with snoc show ?thesis by (intro exI [of _ ys] exI [of _ "[]"]) simp
  qed
qed simp

lemma needsAsk_None: "needsAsk windows permission ruleset approved patterns = None \<longleftrightarrow>
    (\<exists>p\<in>set patterns. r_action (evaluate windows permission p [ruleset, approved]) = Deny)"
  by (induction patterns) (auto split: action.split)

lemma needsAsk_False: "needsAsk windows permission ruleset approved patterns = Some False \<longleftrightarrow>
    (\<forall>p\<in>set patterns. r_action (evaluate windows permission p [ruleset, approved]) = Allow)"
  by (induction patterns) (auto split: action.split)

text \<open>The outcome of asking: a call fails as denied exactly when the last matching rule of one of its patterns denies it, and
  returns at once exactly when the last matching rule of each of its patterns allows it; the rules the user approved
  come after those of the agent, and a pattern without any matching rule is asked for.\<close>
theorem permission_last_rule_decides:
  "((\<exists>e. fst (ask ruleset request s) = Fails e) \<longleftrightarrow>
     (\<exists>p\<in>set (pr_patterns request). \<exists>before r after. ruleset @ ps_approved s = before @ r # after \<and> r_action r = Deny \<and>
        ruleMatches (ps_windows s) (pr_permission request) p r \<and>
        (\<forall>r'\<in>set after. \<not> ruleMatches (ps_windows s) (pr_permission request) p r'))) \<and>
   (fst (ask ruleset request s) = Returns \<longleftrightarrow>
     (\<forall>p\<in>set (pr_patterns request). \<exists>before r after. ruleset @ ps_approved s = before @ r # after \<and> r_action r = Allow \<and>
        ruleMatches (ps_windows s) (pr_permission request) p r \<and>
        (\<forall>r'\<in>set after. \<not> ruleMatches (ps_windows s) (pr_permission request) p r')))"
proof -
  have decides: "r_action (evaluate (ps_windows s) (pr_permission request) p [ruleset, ps_approved s]) = a \<longleftrightarrow>
      (\<exists>before r after. ruleset @ ps_approved s = before @ r # after \<and> r_action r = a \<and>
        ruleMatches (ps_windows s) (pr_permission request) p r \<and>
        (\<forall>r'\<in>set after. \<not> ruleMatches (ps_windows s) (pr_permission request) p r'))" (is "?l \<longleftrightarrow> ?r") if "a \<noteq> Ask" for p a
  proof
    assume ?l
    with that obtain r where r: "find (ruleMatches (ps_windows s) (pr_permission request) p) (rev (ruleset @ ps_approved s)) = Some r" "r_action r = a"
      by (auto simp: evaluate_def split: option.splits)
    then show ?r using find_rev_last [OF r(1)] by blast
  next
    assume ?r
    then obtain before r after where r: "ruleset @ ps_approved s = before @ r # after" "r_action r = a"
        "ruleMatches (ps_windows s) (pr_permission request) p r" "\<forall>r'\<in>set after. \<not> ruleMatches (ps_windows s) (pr_permission request) p r'"
      by blast
    then have "find (ruleMatches (ps_windows s) (pr_permission request) p) (rev after) = None" by (simp add: find_None_iff)
    moreover have "concat [ruleset, ps_approved s] = (before @ [r]) @ after" using r(1) by simp
    ultimately show ?l using r(2,3) by (simp only: evaluate_def find_rev_append) simp
  qed
  have "(\<exists>e. fst (ask ruleset request s) = Fails e) \<longleftrightarrow>
      needsAsk (ps_windows s) (pr_permission request) ruleset (ps_approved s) (pr_patterns request) = None"
    "fst (ask ruleset request s) = Returns \<longleftrightarrow>
      needsAsk (ps_windows s) (pr_permission request) ruleset (ps_approved s) (pr_patterns request) = Some False"
    by (auto simp: ask_def Let_def split: option.splits bool.splits)
  then show ?thesis by (simp add: needsAsk_None needsAsk_False decides)
qed

definition denyAll :: rule where
  "denyAll = \<lparr> r_permission = ''ba*'', r_pattern = ''*'', r_action = Deny \<rparr>"

theorem permission_last_rule_decides_witness:
  "\<exists>e. fst (ask [denyAll] (samplePermissionRequest ''p1'') (initPermission False [])) = Fails e"
proof -
  have "ruleMatches False ''bash'' ''git push'' denyAll" "r_action denyAll = Deny" by code_simp+
  then have "\<exists>p\<in>set (pr_patterns (samplePermissionRequest ''p1'')). \<exists>before r after.
      [denyAll] @ ps_approved (initPermission False []) = before @ r # after \<and> r_action r = Deny \<and>
      ruleMatches (ps_windows (initPermission False [])) (pr_permission (samplePermissionRequest ''p1'')) p r \<and>
      (\<forall>r'\<in>set after. \<not> ruleMatches (ps_windows (initPermission False [])) (pr_permission (samplePermissionRequest ''p1'')) p r')"
    by (auto simp: samplePermissionRequest_def initPermission_def intro!: exI [of _ "[]"] exI [of _ denyAll])
  then show ?thesis
    using permission_last_rule_decides [of "[denyAll]" "samplePermissionRequest ''p1''" "initPermission False []"] by blast
qed

section \<open>Approved commands\<close>

lemma globs_refl: "globs windows p p"
proof (induction p)
  case (Cons c p)
  then show ?case using globs_star [OF Cons, of "[c]"] globs_any [OF Cons] globs_char [OF Cons, of c c]
    by (cases "c = CHR ''*'' \<or> c = CHR ''?''") (auto simp: sameChar_def)
qed (rule globs_end)

lemma globs_append_refl: "globs windows q s \<Longrightarrow> globs windows (p @ q) (p @ s)"
proof (induction p)
  case (Cons c p)
  then show ?case using globs_star [of windows "p @ q" "p @ s" "[c]"] globs_any globs_char [of windows "p @ q" "p @ s" c c]
    by (cases "c = CHR ''*'' \<or> c = CHR ''?''") (auto simp: sameChar_def)
qed simp

lemma match_refl: "match windows s s"
  by (simp add: wildcard_match globs_refl)

lemma join_take: "n < length tokens \<Longrightarrow> 0 < n \<Longrightarrow> \<exists>rest. join '' '' tokens = join '' '' (take n tokens) @ '' '' @ rest"
proof (induction "'' ''" tokens arbitrary: n rule: join.induct)
  case (3 x y ys)
  show ?case
  proof (cases "n = 1")
    case False
    then obtain m where n: "n = Suc m" "0 < m" using 3(3) by (cases n) auto
    then have "\<exists>rest. join '' '' (y # ys) = join '' '' (take m (y # ys)) @ '' '' @ rest" using 3 by auto
    then show ?thesis using n by (cases m) auto
  qed simp
qed auto

lemma match_prefix:
  assumes "0 < n" and "tokens \<noteq> []"
  shows "match windows (join '' '' tokens) (join '' '' (take n tokens) @ '' *'')"
proof (cases "n < length tokens")
  case True
  then obtain rest where rest: "join '' '' tokens = join '' '' (take n tokens) @ '' '' @ rest" using join_take assms(1) by blast
  have "globs windows '' *'' (slashes ('' '' @ rest))"
    using globs_char [OF globs_star [OF globs_end, of windows "slashes rest"], of "CHR '' ''" "CHR '' ''"]
    by (simp add: slashes_def sameChar_def)
  then show ?thesis unfolding rest
    using globs_append_refl [of windows "'' *''" "slashes ('' '' @ rest)" "slashes (join '' '' (take n tokens))"]
    by (simp add: wildcard_match slashes_def)
next
  case False
  then show ?thesis by (simp add: wildcard_match slashes_def globs_refl)
qed

lemma arity_positive: "map_of ARITY command = Some n \<Longrightarrow> 0 < n"
proof -
  have "list_all (\<lambda>(k, n). 0 < n) ARITY" by code_simp
  then show "map_of ARITY command = Some n \<Longrightarrow> 0 < n" by (auto simp: list_all_iff dest: map_of_SomeD)
qed

lemma prototype_keys_words: "k \<in> set objectPrototypeKeys \<Longrightarrow> CHR '' '' \<notin> set k"
  by (auto simp: objectPrototypeKeys_def)

lemma prefixFrom_take:
  assumes "tokens \<noteq> []" and "hd tokens \<notin> set objectPrototypeKeys" and "n \<le> length tokens"
  shows "\<exists>m>0. prefixFrom tokens n = take m tokens"
  using assms(3)
proof (induction n)
  case 0
  then show ?case using assms(1) by auto
next
  case (Suc n)
  have "join '' '' (take (Suc n) tokens) \<notin> set objectPrototypeKeys"
  proof (cases "take (Suc n) tokens" rule: remdups_adj.cases)
    case (3 x y xs)
    then show ?thesis using prototype_keys_words [of "x @ CHR '' '' # join '' '' (y # xs)"] by auto
  qed (use assms in \<open>cases tokens, auto\<close>)+
  then show ?case using Suc arity_positive by (auto simp: arityOf_def split: option.splits)
qed

lemma approved_last:
  assumes "\<exists>r\<in>set rs. ruleMatches windows permission p r" and "\<forall>r\<in>set rs. r_action r = Allow"
  shows "r_action (evaluate windows permission p [ruleset, approved @ rs]) = Allow"
proof -
  let ?find = "find (ruleMatches windows permission p) (rev rs)"
  have "?find \<noteq> None" using assms(1) by (auto simp: find_None_iff)
  then obtain r where r: "?find = Some r" by blast
  from find_rev_last [OF this] have "r \<in> set rs" by auto
  moreover have "concat [ruleset, approved @ rs] = (ruleset @ approved) @ rs" by simp
  ultimately show ?thesis using r assms(2) by (simp only: evaluate_def find_rev_append) simp
qed

lemma prefix_bash_take:
  assumes "tokens \<noteq> []" and "hd tokens \<notin> set objectPrototypeKeys"
  obtains m where "0 < m" "prefix_bash tokens = take m tokens"
  using prefixFrom_take [OF assms order_refl] by (auto simp: prefix_bash_def)

text \<open>A command approved for good runs again without asking. When the user answers a shell request with always, whose
  always patterns are the prefixes of its commands as the shell tool makes them, then asking again for any of the same
  commands returns at once, whatever rules the agent has then; a command named like a member of Object.prototype is
  excepted, for which the prefix is empty.\<close>
theorem approved_command_runs_again:
  assumes "mapGet (ps_pending s) key = Some (info, d)"
    and "pr_always info = map (\<lambda>tokens. join '' '' (prefix_bash tokens) @ '' *'') commands"
    and "\<forall>tokens\<in>set commands. tokens \<noteq> [] \<and> hd tokens \<notin> set objectPrototypeKeys"
    and "pr_permission again = pr_permission info" and "set (pr_patterns again) \<subseteq> join '' '' ` set commands"
  shows "fst (ask ruleset again (reply key Always message s)) = Returns"
proof -
  let ?t = "reply key Always message s"
  have t: "ps_approved ?t = ps_approved s @ approvals info" "ps_windows ?t = ps_windows s"
    using assms(1) by (simp_all add: reply_cases Let_def)
  have "r_action (evaluate (ps_windows s) (pr_permission again) p [ruleset, ps_approved s @ approvals info]) = Allow"
    if p: "p \<in> set (pr_patterns again)" for p
  proof (rule approved_last)
    obtain tokens where tokens: "tokens \<in> set commands" "p = join '' '' tokens" using p assms(5) by auto
    then obtain m where m: "0 < m" "prefix_bash tokens = take m tokens" using prefix_bash_take assms(3) by blast
    have "match (ps_windows s) p (join '' '' (prefix_bash tokens) @ '' *'')"
      using match_prefix [OF m(1)] tokens m(2) assms(3) by simp
    then have "ruleMatches (ps_windows s) (pr_permission again) p
        \<lparr> r_permission = pr_permission info, r_pattern = join '' '' (prefix_bash tokens) @ '' *'', r_action = Allow \<rparr>"
      using assms(4) by (simp add: ruleMatches_def match_refl)
    moreover have "\<lparr> r_permission = pr_permission info, r_pattern = join '' '' (prefix_bash tokens) @ '' *'', r_action = Allow \<rparr> \<in> set (approvals info)"
      using tokens(1) assms(2) by (force simp: approvals_def)
    ultimately show "\<exists>r\<in>set (approvals info). ruleMatches (ps_windows s) (pr_permission again) p r" by blast
  qed (auto simp: approvals_def)
  then have "needsAsk (ps_windows ?t) (pr_permission again) ruleset (ps_approved ?t) (pr_patterns again) = Some False"
    by (simp add: needsAsk_False t)
  then show ?thesis by (simp add: ask_def)
qed

theorem approved_command_runs_again_witness:
  "fst (ask [\<lparr> r_permission = ''bash'', r_pattern = ''*'', r_action = Deny \<rparr>] (samplePermissionRequest ''p9'')
      (reply ''p1'' Always None (fold permissionStep (butlast samplePermissionOps) (initPermission False [])))) = Returns"
proof -
  have "mapGet (ps_pending (fold permissionStep (butlast samplePermissionOps) (initPermission False []))) ''p1'' = Some (samplePermissionRequest ''p1'', 0)"
    by code_simp
  moreover have "pr_always (samplePermissionRequest ''p1'') = map (\<lambda>tokens. join '' '' (prefix_bash tokens) @ '' *'') [[''git'', ''push'']]"
    by code_simp
  ultimately show ?thesis
    by (rule approved_command_runs_again) (simp_all add: samplePermissionRequest_def objectPrototypeKeys_def)
qed

text \<open>The exception: the approval of a command with such a name covers nothing, and the user is asked again.\<close>

lemma prototype_command_not_covered:
  "prefix_bash [''constructor'', ''x''] = [] \<and>
   r_action (evaluate False ''bash'' ''constructor x''
     [[\<lparr> r_permission = ''bash'', r_pattern = join '' '' (prefix_bash [''constructor'', ''x'']) @ '' *'', r_action = Allow \<rparr>]]) = Ask"
  by code_simp

section \<open>Disabled tools\<close>

text \<open>A tool that is not offered to the model because it is disabled would be denied on every pattern.\<close>

lemma match_star: "match windows s ''*''"
  using globs_star [OF globs_end, of windows "slashes s"] by (simp add: wildcard_match slashes_def)

lemma disabled_tool_denied:
  assumes "tool \<in> set (disabled windows tools ruleset)"
  shows "r_action (evaluate windows (if tool \<in> set EDIT_TOOLS then ''edit'' else tool) pattern [ruleset]) = Deny"
proof -
  let ?permission = "if tool \<in> set EDIT_TOOLS then ''edit'' else tool"
  obtain r where r: "find (\<lambda>r. match windows ?permission (r_permission r)) (rev ruleset) = Some r" "r_pattern r = ''*''" "r_action r = Deny"
    using assms by (auto simp: disabled_def Let_def split: option.splits)
  from find_rev_last [OF r(1)] obtain before after
    where split: "ruleset = before @ r # after" "match windows ?permission (r_permission r)"
      "\<forall>r'\<in>set after. \<not> match windows ?permission (r_permission r')" by blast
  have "find (ruleMatches windows ?permission pattern) (rev after) = None"
    using split(3) by (auto simp: find_None_iff ruleMatches_def)
  moreover have "ruleMatches windows ?permission pattern r" using split(2) r(2) match_star by (simp add: ruleMatches_def)
  moreover have "concat [ruleset] = (before @ [r]) @ after" using split(1) by simp
  ultimately show ?thesis using r(3) by (simp only: evaluate_def find_rev_append) simp
qed

end
