(* ===== verification/Patch.thy ===== *)
theory Patch
  imports Prelude
begin

text \<open>
  The patch tool of the agent (\<^verbatim>\<open>packages/cli-host/src/patch/index.ts\<close>): the parser of the patch format, the search for the
  lines to replace, the application of the replacements to the lines of a file and of the hunks to the files.  A file
  system is a map from paths to files; a file is its text and whether a byte order mark precedes it (the mark, like
  every code unit above 255, is outside the alphabet of the model, so of \<open>normalizeUnicode\<close> the no-break space is
  left).  A position in the list of lines is the suffix that starts there.
\<close>

section \<open>Text\<close>

abbreviation lf :: char where
  "lf \<equiv> CHR 0x0A"

text \<open>\<^verbatim>\<open>split("\n")\<close>.\<close>

fun splitLines :: "string \<Rightarrow> string list" where
  "splitLines [] = [[]]"
| "splitLines (c # cs) = (if c = lf then [] # splitLines cs
     else (case splitLines cs of l # ls \<Rightarrow> (c # l) # ls | [] \<Rightarrow> [[c]]))"

definition trimEnd :: "string \<Rightarrow> string" where
  "trimEnd s = rev (dropWhile isWhite (rev s))"

definition startsWith :: "string \<Rightarrow> string \<Rightarrow> bool" where
  "startsWith s p \<longleftrightarrow> take (length p) s = p"

definition endsWith :: "string \<Rightarrow> string \<Rightarrow> bool" where
  "endsWith s p \<longleftrightarrow> length p \<le> length s \<and> drop (length s - length p) s = p"

section \<open>Patches\<close>

record update_chunk =
  uc_old_lines :: "string list"
  uc_new_lines :: "string list"
  uc_change_context :: "string option"
  uc_is_end_of_file :: bool

datatype hunk =
    AddHunk string string
  | DeleteHunk string
  | UpdateHunk string "string option" "update_chunk list"

definition addMarker :: string where "addMarker = ''*** Add File:''"
definition deleteMarker :: string where "deleteMarker = ''*** Delete File:''"
definition updateMarker :: string where "updateMarker = ''*** Update File:''"
definition moveMarker :: string where "moveMarker = ''*** Move to:''"

text \<open>\<open>None\<close>: no header.  The file path, the path to move to and the lines after the header.\<close>

definition parsePatchHeader :: "string list \<Rightarrow> (string \<times> string option \<times> string list) option" where
  "parsePatchHeader lines =
     (case lines of
        [] \<Rightarrow> None
      | line # rest \<Rightarrow>
          let named = (\<lambda>marker move rest. let filePath = trim (drop (length marker) line) in
                         if filePath = [] then None else Some (filePath, move, rest)) in
          if startsWith line addMarker then named addMarker None rest
          else if startsWith line deleteMarker then named deleteMarker None rest
          else if startsWith line updateMarker then
            (case rest of
               next # rest' \<Rightarrow>
                 if startsWith next moveMarker then named updateMarker (Some (trim (drop (length moveMarker) next))) rest'
                 else named updateMarker None rest
             | [] \<Rightarrow> named updateMarker None rest)
          else None)"

text \<open>The inner loop of \<open>parseUpdateFileChunks\<close>: the old lines, the new lines, the end-of-file flag and what follows.\<close>

fun parseChangeLines :: "string list \<Rightarrow> string list \<Rightarrow> string list \<Rightarrow> string list \<times> string list \<times> bool \<times> string list" where
  "parseChangeLines [] oldLines newLines = (oldLines, newLines, False, [])"
| "parseChangeLines (line # rest) oldLines newLines =
     (if startsWith line ''@@'' \<or> startsWith line ''***'' then (oldLines, newLines, False, line # rest)
      else if line = ''*** End of File'' then (oldLines, newLines, True, rest)
      else if startsWith line '' '' then parseChangeLines rest (oldLines @ [drop 1 line]) (newLines @ [drop 1 line])
      else if startsWith line ''-'' then parseChangeLines rest (oldLines @ [drop 1 line]) newLines
      else if startsWith line ''+'' then parseChangeLines rest oldLines (newLines @ [drop 1 line])
      else parseChangeLines rest oldLines newLines)"

lemma parseChangeLines_length:
  "parseChangeLines lines oldLines newLines = (o', n', e, rest) \<Longrightarrow> length rest \<le> length lines"
  by (induction lines oldLines newLines rule: parseChangeLines.induct) (auto split: if_splits)

function parseUpdateFileChunks :: "string list \<Rightarrow> update_chunk list \<times> string list" where
  "parseUpdateFileChunks [] = ([], [])"
| "parseUpdateFileChunks (line # rest) =
     (if startsWith line ''***'' then ([], line # rest)
      else if startsWith line ''@@'' then
        (let contextLine = trim (drop 2 line);
             (oldLines, newLines, isEndOfFile, rest') = parseChangeLines rest [] [];
             (chunks, rest'') = parseUpdateFileChunks rest' in
         (\<lparr> uc_old_lines = oldLines, uc_new_lines = newLines,
            uc_change_context = (if contextLine = [] then None else Some contextLine), uc_is_end_of_file = isEndOfFile \<rparr> # chunks, rest''))
      else parseUpdateFileChunks rest)"
  by pat_completeness auto
termination
  by (relation "measure length") (auto dest!: sym [of "(_, _, _, _)"] parseChangeLines_length)

lemma parseUpdateFileChunks_length: "parseUpdateFileChunks lines = (chunks, rest) \<Longrightarrow> length rest \<le> length lines"
proof (induction lines arbitrary: chunks rest rule: parseUpdateFileChunks.induct)
  case (2 line tail)
  obtain oldLines newLines e rest' where inner: "parseChangeLines tail [] [] = (oldLines, newLines, e, rest')"
    by (cases "parseChangeLines tail [] []")
  have "length rest' \<le> length tail" using inner by (rule parseChangeLines_length)
  then show ?case using 2 inner
    by (auto split: if_splits prod.splits simp: Let_def intro: le_trans) (meson le_SucI le_trans)+
qed simp

text \<open>The added lines, each followed by a newline, and what follows.\<close>

fun addedLines :: "string list \<Rightarrow> string \<times> string list" where
  "addedLines [] = ([], [])"
| "addedLines (line # rest) =
     (if startsWith line ''***'' then ([], line # rest)
      else (case addedLines rest of
              (content, rest') \<Rightarrow> ((if startsWith line ''+'' then drop 1 line @ [lf] else []) @ content, rest')))"

definition parseAddFileContent :: "string list \<Rightarrow> string \<times> string list" where
  "parseAddFileContent lines =
     (case addedLines lines of
        (content, rest) \<Rightarrow> ((if endsWith content [lf] then butlast content else content), rest))"

lemma addedLines_length: "addedLines lines = (content, rest) \<Longrightarrow> length rest \<le> length lines"
  by (induction lines arbitrary: content rest) (fastforce split: if_splits prod.splits)+

section \<open>Heredocs\<close>

definition isWordChar :: "char \<Rightarrow> bool" where
  "isWordChar c \<longleftrightarrow> (let n = of_char c :: nat in (48 \<le> n \<and> n \<le> 57) \<or> (65 \<le> n \<and> n \<le> 90) \<or> n = 95 \<or> (97 \<le> n \<and> n \<le> 122))"

definition dropQuote :: "string \<Rightarrow> string" where
  "dropQuote s = (case s of c # cs \<Rightarrow> if c = CHR 0x27 \<or> c = CHR 0x22 then cs else s | [] \<Rightarrow> [])"

text \<open>The shortest \<open>content\<close> such that what follows is a line break, the word and a rest that closes the match.\<close>

definition heredocContent :: "(string \<Rightarrow> bool) \<Rightarrow> string \<Rightarrow> string \<Rightarrow> string option" where
  "heredocContent closing word s =
     map_option (\<lambda>n. take n s)
       (find (\<lambda>n. case stripPrefix (lf # word) (drop n s) of None \<Rightarrow> False | Some rest \<Rightarrow> closing rest) [0..<length s])"

text \<open>\<^verbatim>\<open>\s*\n\<close> of the header line: greedy, so the last line break of the white space for which the rest matches.\<close>

definition heredocBody :: "(string \<Rightarrow> bool) \<Rightarrow> string \<Rightarrow> string \<Rightarrow> string option" where
  "heredocBody closing word s =
     (let white = takeWhile isWhite s;
          ends = filter (\<lambda>n. white ! n = lf) (rev [0..<length white]) in
      case find (\<lambda>n. heredocContent closing word (drop (Suc n) s) \<noteq> None) ends of
        None \<Rightarrow> None | Some n \<Rightarrow> heredocContent closing word (drop (Suc n) s))"

definition stripHeredoc :: "string \<Rightarrow> string" where
  "stripHeredoc input =
     (let afterCat = (case stripPrefix ''cat'' input of
                        Some (c # cs) \<Rightarrow> if isWhite c then dropWhile isWhite cs else input | _ \<Rightarrow> input) in
      case stripPrefix ''<<'' afterCat of
        None \<Rightarrow> input
      | Some s \<Rightarrow>
          (let quoted = dropQuote s; word = takeWhile isWordChar quoted in
           if word = [] then input
           else (case heredocBody (list_all isWhite) word (dropQuote (dropWhile isWordChar quoted)) of None \<Rightarrow> input | Some body \<Rightarrow> body)))"

section \<open>The parser\<close>

text \<open>The loop between the markers; \<open>after\<close> is the number of lines from the end marker on.\<close>

function parseHunks :: "nat \<Rightarrow> string list \<Rightarrow> hunk list" where
  "parseHunks after lines =
     (if length lines \<le> after then []
      else (case parsePatchHeader lines of
              None \<Rightarrow> parseHunks after (tl lines)
            | Some (filePath, movePath, rest) \<Rightarrow>
                if startsWith (hd lines) addMarker then
                  (case parseAddFileContent rest of (content, rest') \<Rightarrow> AddHunk filePath content # parseHunks after rest')
                else if startsWith (hd lines) deleteMarker then DeleteHunk filePath # parseHunks after rest
                else if startsWith (hd lines) updateMarker then
                  (case parseUpdateFileChunks rest of (chunks, rest') \<Rightarrow> UpdateHunk filePath movePath chunks # parseHunks after rest')
                else parseHunks after (tl lines)))"
  by pat_completeness auto

lemma parsePatchHeader_length: "parsePatchHeader lines = Some (p, m, rest) \<Longrightarrow> length rest < length lines"
  by (auto simp: parsePatchHeader_def Let_def split: list.splits if_splits)

lemma parseAddFileContent_length: "parseAddFileContent lines = (content, rest) \<Longrightarrow> length rest \<le> length lines"
  using addedLines_length by (auto simp: parseAddFileContent_def split: prod.splits)

termination parseHunks
  by (relation "measure (\<lambda>(_, lines). length lines)")
    (auto dest!: parsePatchHeader_length parseAddFileContent_length [OF sym] parseUpdateFileChunks_length [OF sym])

definition beginMarker :: string where "beginMarker = ''*** Begin Patch''"
definition endMarker :: string where "endMarker = ''*** End Patch''"

fun findIndex :: "('a \<Rightarrow> bool) \<Rightarrow> 'a list \<Rightarrow> nat option" where
  "findIndex p [] = None"
| "findIndex p (x # xs) = (if p x then Some 0 else map_option Suc (findIndex p xs))"

definition parsePatch :: "string \<Rightarrow> string + hunk list" where
  "parsePatch patchText =
     (let lines = splitLines (stripHeredoc (trim patchText)) in
      case (findIndex (\<lambda>line. trim line = beginMarker) lines, findIndex (\<lambda>line. trim line = endMarker) lines) of
        (Some beginIdx, Some endIdx) \<Rightarrow>
          if beginIdx \<ge> endIdx then Inl ''Invalid patch format: missing Begin/End markers''
          else Inr (parseHunks (length lines - endIdx) (drop (Suc beginIdx) lines))
      | _ \<Rightarrow> Inl ''Invalid patch format: missing Begin/End markers'')"

datatype maybe_apply_patch =
    PatchBody string "hunk list"
  | PatchParseError string
  | NotApplyPatch

text \<open>The here document of a script: \<^verbatim>\<open>apply_patch\<close>, white space, \<^verbatim>\<open><<\<close>, the quoted word, its lines.\<close>

definition isQuote :: "char \<Rightarrow> bool" where
  "isQuote c \<longleftrightarrow> c = CHR 0x27 \<or> c = CHR 0x22"

definition scriptHeredocAt :: "string \<Rightarrow> string option" where
  "scriptHeredocAt s =
     (case stripPrefix ''apply_patch'' s of None \<Rightarrow> None | Some s1 \<Rightarrow>
     (case stripPrefix ''<<'' (dropWhile isWhite s1) of Some (q # s2) \<Rightarrow>
        (let word = takeWhile isWordChar s2 in
         case dropWhile isWordChar s2 of
           q' # s3 \<Rightarrow> if isQuote q \<and> word \<noteq> [] \<and> isQuote q' then heredocBody (\<lambda>_. True) word s3 else None
         | [] \<Rightarrow> None)
      | _ \<Rightarrow> None))"

fun scriptHeredoc :: "string \<Rightarrow> string option" where
  "scriptHeredoc [] = None"
| "scriptHeredoc (c # cs) = (case scriptHeredocAt (c # cs) of Some body \<Rightarrow> Some body | None \<Rightarrow> scriptHeredoc cs)"

definition maybeParseApplyPatch :: "string list \<Rightarrow> maybe_apply_patch" where
  "maybeParseApplyPatch argv =
     (let body = (\<lambda>patch. case parsePatch patch of Inl e \<Rightarrow> PatchParseError e | Inr hunks \<Rightarrow> PatchBody patch hunks) in
      case argv of
        [command, patch] \<Rightarrow> if command \<in> {''apply_patch'', ''applypatch''} then body patch else NotApplyPatch
      | [shell, flag, script] \<Rightarrow>
          if shell = ''bash'' \<and> flag = ''-lc'' then (case scriptHeredoc script of Some patch \<Rightarrow> body patch | None \<Rightarrow> NotApplyPatch)
          else NotApplyPatch
      | _ \<Rightarrow> NotApplyPatch)"

section \<open>Finding lines\<close>

definition normalizeUnicode :: "string \<Rightarrow> string" where
  "normalizeUnicode s = map (\<lambda>c. if c = CHR 0xA0 then CHR '' '' else c) s"

definition matchesAt :: "(string \<Rightarrow> string \<Rightarrow> bool) \<Rightarrow> string list \<Rightarrow> string list \<Rightarrow> nat \<Rightarrow> bool" where
  "matchesAt compare lines pattern i \<longleftrightarrow> list_all2 compare (take (length pattern) (drop i lines)) pattern"

text \<open>\<open>None\<close> is \<open>-1\<close>.\<close>

definition tryMatch :: "string list \<Rightarrow> string list \<Rightarrow> nat \<Rightarrow> (string \<Rightarrow> string \<Rightarrow> bool) \<Rightarrow> bool \<Rightarrow> nat option" where
  "tryMatch lines pattern startIndex compare eof =
     (if eof \<and> startIndex + length pattern \<le> length lines \<and> matchesAt compare lines pattern (length lines - length pattern)
      then Some (length lines - length pattern)
      else find (matchesAt compare lines pattern) [startIndex..<Suc (length lines) - length pattern])"

definition orElseTry :: "nat option \<Rightarrow> nat option \<Rightarrow> nat option" where
  "orElseTry a b = (case a of Some i \<Rightarrow> Some i | None \<Rightarrow> b)"

definition seekSequence :: "string list \<Rightarrow> string list \<Rightarrow> nat \<Rightarrow> bool \<Rightarrow> nat option" where
  "seekSequence lines pattern startIndex eof =
     (if pattern = [] then None
      else orElseTry (tryMatch lines pattern startIndex (\<lambda>a b. a = b) eof)
          (orElseTry (tryMatch lines pattern startIndex (\<lambda>a b. trimEnd a = trimEnd b) eof)
          (orElseTry (tryMatch lines pattern startIndex (\<lambda>a b. trim a = trim b) eof)
             (tryMatch lines pattern startIndex (\<lambda>a b. normalizeUnicode (trim a) = normalizeUnicode (trim b)) eof))))"

section \<open>Replacements\<close>

type_synonym replacement = "nat \<times> nat \<times> string list"

definition insertionIndex :: "string list \<Rightarrow> nat" where
  "insertionIndex lines = (if lines \<noteq> [] \<and> last lines = [] then length lines - 1 else length lines)"

definition contextNotFound :: "string \<Rightarrow> string \<Rightarrow> string" where
  "contextNotFound context filePath = ''Failed to find context '' @ [CHR 0x27] @ context @ [CHR 0x27] @ '' in '' @ filePath"

definition linesNotFound :: "string list \<Rightarrow> string \<Rightarrow> string" where
  "linesNotFound oldLines filePath = ''Failed to find expected lines in '' @ filePath @ '':'' @ [lf] @ join [lf] oldLines"

text \<open>The match of the old lines of a chunk, with the retry without a trailing empty line: where, how many, the new lines.\<close>

definition seekChunk :: "string list \<Rightarrow> update_chunk \<Rightarrow> nat \<Rightarrow> replacement option" where
  "seekChunk lines chunk lineIndex =
     (let pattern = uc_old_lines chunk; newSlice = uc_new_lines chunk; eof = uc_is_end_of_file chunk in
      case seekSequence lines pattern lineIndex eof of
        Some found \<Rightarrow> Some (found, length pattern, newSlice)
      | None \<Rightarrow>
          if pattern \<noteq> [] \<and> last pattern = [] then
            (let pattern' = butlast pattern;
                 newSlice' = (if newSlice \<noteq> [] \<and> last newSlice = [] then butlast newSlice else newSlice) in
             map_option (\<lambda>found. (found, length pattern', newSlice')) (seekSequence lines pattern' lineIndex eof))
          else None)"

fun collectReplacements :: "string list \<Rightarrow> string \<Rightarrow> update_chunk list \<Rightarrow> nat \<Rightarrow> string + replacement list" where
  "collectReplacements lines filePath [] lineIndex = Inr []"
| "collectReplacements lines filePath (chunk # chunks) lineIndex =
     (case (case uc_change_context chunk of
              None \<Rightarrow> Inr lineIndex
            | Some context \<Rightarrow>
                if context = [] then Inr lineIndex
                else (case seekSequence lines [context] lineIndex False of
                   None \<Rightarrow> Inl (contextNotFound context filePath) | Some i \<Rightarrow> Inr (i + 1))) of
        Inl e \<Rightarrow> Inl e
      | Inr start \<Rightarrow>
          if uc_old_lines chunk = [] then
            map_sum id (\<lambda>rs. (insertionIndex lines, 0, uc_new_lines chunk) # rs) (collectReplacements lines filePath chunks start)
          else (case seekChunk lines chunk start of
                  None \<Rightarrow> Inl (linesNotFound (uc_old_lines chunk) filePath)
                | Some (found, len, newSlice) \<Rightarrow>
                    map_sum id (\<lambda>rs. (found, len, newSlice) # rs) (collectReplacements lines filePath chunks (found + len))))"

definition computeReplacements :: "string list \<Rightarrow> string \<Rightarrow> update_chunk list \<Rightarrow> string + replacement list" where
  "computeReplacements lines filePath chunks = map_sum id (sort_key fst) (collectReplacements lines filePath chunks 0)"

text \<open>\<^verbatim>\<open>splice(start, len)\<close> and the insertion of the new lines one by one.\<close>

definition spliceLines :: "replacement \<Rightarrow> string list \<Rightarrow> string list" where
  "spliceLines r lines = (case r of (start, len, new) \<Rightarrow> take start lines @ new @ drop (start + len) lines)"

definition applyReplacements :: "string list \<Rightarrow> replacement list \<Rightarrow> string list" where
  "applyReplacements lines replacements = foldr spliceLines replacements lines"

section \<open>Files\<close>

text \<open>Messages of the tool, and the failures of the file system, whose text is the system's.\<close>

datatype patch_error = PatchMessage string | ReadFailed string | UnlinkFailed string

record patch_file =
  pf_bom :: bool
  pf_text :: string

record file_update =
  fu_unified_diff :: string
  fu_content :: string
  fu_bom :: bool

fun diffLines :: "string list \<Rightarrow> string list \<Rightarrow> string \<times> bool" where
  "diffLines [] [] = ([], False)"
| "diffLines os ns =
     (let old = (case os of o1 # _ \<Rightarrow> o1 | [] \<Rightarrow> []); new = (case ns of n1 # _ \<Rightarrow> n1 | [] \<Rightarrow> []);
          (diff, changed) = diffLines (tl os) (tl ns) in
      if old \<noteq> new
      then ((if old \<noteq> [] then ''-'' @ old @ [lf] else []) @ (if new \<noteq> [] then ''+'' @ new @ [lf] else []) @ diff, True)
      else ((if old \<noteq> [] then '' '' @ old @ [lf] else []) @ diff, changed))"

definition generateUnifiedDiff :: "string \<Rightarrow> string \<Rightarrow> string" where
  "generateUnifiedDiff oldContent newContent =
     (case diffLines (splitLines oldContent) (splitLines newContent) of
        (diff, hasChanges) \<Rightarrow> if hasChanges then ''@@ -1 +1 @@'' @ [lf] @ diff else [])"

definition fileLines :: "string \<Rightarrow> string list" where
  "fileLines text = (let lines = splitLines text in if last lines = [] then butlast lines else lines)"

text \<open>\<open>None\<close>: the file cannot be read.\<close>

definition deriveNewContentsFromChunks :: "string \<Rightarrow> patch_file option \<Rightarrow> update_chunk list \<Rightarrow> patch_error + file_update" where
  "deriveNewContentsFromChunks filePath file chunks =
     (case file of
        None \<Rightarrow> Inl (ReadFailed filePath)
      | Some f \<Rightarrow>
          (case computeReplacements (fileLines (pf_text f)) filePath chunks of
             Inl e \<Rightarrow> Inl (PatchMessage e)
           | Inr replacements \<Rightarrow>
               (let newLines = applyReplacements (fileLines (pf_text f)) replacements;
                    newLines' = (if newLines = [] \<or> last newLines \<noteq> [] then newLines @ [[]] else newLines);
                    newContent = join [lf] newLines' in
                Inr \<lparr> fu_unified_diff = generateUnifiedDiff (pf_text f) newContent, fu_content = newContent, fu_bom = pf_bom f \<rparr>)))"

type_synonym patch_fs = "(string, patch_file) js_map"

record affected_paths =
  ap_added :: "string list"
  ap_modified :: "string list"
  ap_deleted :: "string list"

text \<open>One hunk; a failing call leaves the file system as the calls before it left it.\<close>

fun applyHunk :: "hunk \<Rightarrow> affected_paths \<Rightarrow> patch_fs \<Rightarrow> (patch_error + affected_paths) \<times> patch_fs" where
  "applyHunk (AddHunk path contents) ap fs =
     (Inr (ap\<lparr>ap_added := ap_added ap @ [path]\<rparr>), mapSet path \<lparr> pf_bom = False, pf_text = contents \<rparr> fs)"
| "applyHunk (DeleteHunk path) ap fs =
     (case mapGet fs path of
        None \<Rightarrow> (Inl (UnlinkFailed path), fs)
      | Some _ \<Rightarrow> (Inr (ap\<lparr>ap_deleted := ap_deleted ap @ [path]\<rparr>), mapDelete path fs))"
| "applyHunk (UpdateHunk path movePath chunks) ap fs =
     (case deriveNewContentsFromChunks path (mapGet fs path) chunks of
        Inl e \<Rightarrow> (Inl e, fs)
      | Inr u \<Rightarrow>
          (let file = \<lparr> pf_bom = fu_bom u, pf_text = fu_content u \<rparr> in
           if movePath = None \<or> movePath = Some []
           then (Inr (ap\<lparr>ap_modified := ap_modified ap @ [path]\<rparr>), mapSet path file fs)
           else (Inr (ap\<lparr>ap_modified := ap_modified ap @ [the movePath]\<rparr>), mapDelete path (mapSet (the movePath) file fs))))"

fun applyHunks :: "hunk list \<Rightarrow> affected_paths \<Rightarrow> patch_fs \<Rightarrow> (patch_error + affected_paths) \<times> patch_fs" where
  "applyHunks [] ap fs = (Inr ap, fs)"
| "applyHunks (h # hs) ap fs =
     (case applyHunk h ap fs of (Inl e, fs') \<Rightarrow> (Inl e, fs') | (Inr ap', fs') \<Rightarrow> applyHunks hs ap' fs')"

definition applyHunksToFiles :: "hunk list \<Rightarrow> patch_fs \<Rightarrow> (patch_error + affected_paths) \<times> patch_fs" where
  "applyHunksToFiles hunks fs =
     (if hunks = [] then (Inl (PatchMessage ''No files were modified.''), fs)
      else applyHunks hunks \<lparr> ap_added = [], ap_modified = [], ap_deleted = [] \<rparr> fs)"

definition applyPatch :: "string \<Rightarrow> patch_fs \<Rightarrow> (patch_error + affected_paths) \<times> patch_fs" where
  "applyPatch patchText fs = (case parsePatch patchText of Inl e \<Rightarrow> (Inl (PatchMessage e), fs) | Inr hunks \<Rightarrow> applyHunksToFiles hunks fs)"

section \<open>Verified patches\<close>

datatype file_change =
    AddChange string
  | DeleteChange string
  | UpdateChange string "string option" string

datatype verified_patch =
    VerifiedBody "(string, file_change) js_map" string string
  | CorrectnessError patch_error
  | ImplicitInvocation
  | NotAPatch

text \<open>\<open>resolve\<close> is \<^verbatim>\<open>path.resolve(cwd, path)\<close>; a text read from a file includes its byte order mark, which the model
  keeps apart.\<close>

fun verifiedChanges :: "(string \<Rightarrow> string) \<Rightarrow> patch_fs \<Rightarrow> hunk list \<Rightarrow> (string, file_change) js_map \<Rightarrow> patch_error + (string, file_change) js_map" where
  "verifiedChanges resolve fs [] changes = Inr changes"
| "verifiedChanges resolve fs (AddHunk path contents # hs) changes =
     verifiedChanges resolve fs hs (mapSet (resolve path) (AddChange contents) changes)"
| "verifiedChanges resolve fs (DeleteHunk path # hs) changes =
     (case mapGet fs (resolve path) of
        None \<Rightarrow> Inl (PatchMessage (''Failed to read file for deletion: '' @ resolve path))
      | Some f \<Rightarrow> verifiedChanges resolve fs hs (mapSet (resolve path) (DeleteChange (pf_text f)) changes))"
| "verifiedChanges resolve fs (UpdateHunk path movePath chunks # hs) changes =
     (let moved = (case movePath of Some m \<Rightarrow> if m = [] then None else Some (resolve m) | None \<Rightarrow> None) in
      case deriveNewContentsFromChunks (resolve path) (mapGet fs (resolve path)) chunks of
        Inl e \<Rightarrow> Inl e
      | Inr u \<Rightarrow>
          verifiedChanges resolve fs hs
            (mapSet (case moved of Some m \<Rightarrow> m | None \<Rightarrow> resolve path)
              (UpdateChange (fu_unified_diff u) moved (fu_content u)) changes))"

definition maybeParseApplyPatchVerified :: "(string \<Rightarrow> string \<Rightarrow> string) \<Rightarrow> patch_fs \<Rightarrow> string list \<Rightarrow> string \<Rightarrow> verified_patch" where
  "maybeParseApplyPatchVerified resolve fs argv cwd =
     (if (case argv of [patch] \<Rightarrow> \<not> isl (parsePatch patch) | _ \<Rightarrow> False) then ImplicitInvocation
      else (case maybeParseApplyPatch argv of
              PatchBody patch hunks \<Rightarrow>
                (case verifiedChanges (resolve cwd) fs hunks [] of
                   Inl e \<Rightarrow> CorrectnessError e | Inr changes \<Rightarrow> VerifiedBody changes patch cwd)
            | PatchParseError e \<Rightarrow> CorrectnessError (PatchMessage e)
            | NotApplyPatch \<Rightarrow> NotAPatch))"

end
