(* ===== verification/Patch_Theorems.thy ===== *)
theory Patch_Theorems
  imports Patch
begin

text \<open>
  What the patch tool guarantees: a printed patch is parsed back to its hunks; the chunks of an update that name the
  lines they replace are applied in order, each to lines that agree with it, and change nothing else; and an
  insertion that the tool loses.
\<close>

section \<open>Text\<close>

lemma splitLines_nonempty [simp]: "splitLines s \<noteq> []"
  by (induction s) (auto split: list.splits)

lemma splitLines_line: "lf \<notin> set l \<Longrightarrow> splitLines l = [l]"
  by (induction l) auto

lemma splitLines_cons: "lf \<notin> set l \<Longrightarrow> splitLines (l @ lf # s) = l # splitLines s"
  by (induction l) auto

lemma splitLines_join: "ls \<noteq> [] \<Longrightarrow> \<forall>l\<in>set ls. lf \<notin> set l \<Longrightarrow> splitLines (join [lf] ls) = ls"
  by (induction "[lf]" ls rule: join.induct) (auto simp: splitLines_line splitLines_cons)

lemma join_splitLines: "join [lf] (splitLines s) = s"
proof (induction s)
  case (Cons c s)
  then show ?case by (cases "splitLines s"; cases "tl (splitLines s)") auto
qed simp

lemma splitLines_no_lf: "l \<in> set (splitLines s) \<Longrightarrow> lf \<notin> set l"
  by (induction s arbitrary: l) (auto split: list.splits if_splits)

lemma trim_space [simp]: "trim (CHR '' '' # s) = trim s"
  by (simp add: trim_def isWhite_def)

lemma trim_Nil [simp]: "trim [] = []"
  by (simp add: trim_def)

lemma trim_head: "\<not> isWhite c \<Longrightarrow> \<exists>t. trim (c # s) = c # t"
proof -
  assume c: "\<not> isWhite c"
  then have "trim (c # s) = rev (dropWhile isWhite (rev s @ [c]))" by (simp add: trim_def)
  then show ?thesis using c by (cases "\<forall>x\<in>set s. isWhite x") (auto simp: dropWhile_append)
qed

lemma trim_ends: "s \<noteq> [] \<Longrightarrow> \<not> isWhite (hd s) \<Longrightarrow> \<not> isWhite (last s) \<Longrightarrow> trim s = s"
proof -
  assume "s \<noteq> []" "\<not> isWhite (hd s)" "\<not> isWhite (last s)"
  then have "dropWhile isWhite s = s" "dropWhile isWhite (rev s) = rev s"
    by (simp_all add: dropWhile_eq_self_iff hd_rev)
  then show ?thesis by (simp add: trim_def)
qed

section \<open>Printing\<close>

text \<open>The text of a list of hunks, as the format of the tool describes it.\<close>

definition printChunk :: "update_chunk \<Rightarrow> string list" where
  "printChunk c = (case uc_change_context c of None \<Rightarrow> ''@@'' | Some context \<Rightarrow> ''@@ '' @ context) #
     map ((#) CHR ''-'') (uc_old_lines c) @ map ((#) CHR ''+'') (uc_new_lines c)"

fun printHunk :: "hunk \<Rightarrow> string list" where
  "printHunk (AddHunk path contents) = (addMarker @ '' '' @ path) # map ((#) CHR ''+'') (splitLines contents)"
| "printHunk (DeleteHunk path) = [deleteMarker @ '' '' @ path]"
| "printHunk (UpdateHunk path movePath chunks) =
     (updateMarker @ '' '' @ path) # (case movePath of None \<Rightarrow> [] | Some m \<Rightarrow> [moveMarker @ '' '' @ m]) @ concat (map printChunk chunks)"

definition printPatch :: "hunk list \<Rightarrow> string" where
  "printPatch hunks = join [lf] (beginMarker # concat (map printHunk hunks) @ [endMarker])"

definition trimmedLine :: "string \<Rightarrow> bool" where
  "trimmedLine s \<longleftrightarrow> trim s = s \<and> lf \<notin> set s"

definition wfChunk :: "update_chunk \<Rightarrow> bool" where
  "wfChunk c \<longleftrightarrow> list_all (\<lambda>l. lf \<notin> set l) (uc_old_lines c @ uc_new_lines c) \<and> \<not> uc_is_end_of_file c \<and>
     (case uc_change_context c of None \<Rightarrow> True | Some context \<Rightarrow> context \<noteq> [] \<and> trimmedLine context)"

fun wfHunk :: "hunk \<Rightarrow> bool" where
  "wfHunk (AddHunk path contents) = (path \<noteq> [] \<and> trimmedLine path)"
| "wfHunk (DeleteHunk path) = (path \<noteq> [] \<and> trimmedLine path)"
| "wfHunk (UpdateHunk path movePath chunks) =
     (path \<noteq> [] \<and> trimmedLine path \<and> (case movePath of None \<Rightarrow> True | Some m \<Rightarrow> trimmedLine m) \<and> list_all wfChunk chunks)"

lemmas marker_defs = addMarker_def deleteMarker_def updateMarker_def moveMarker_def beginMarker_def endMarker_def

text \<open>What can follow a hunk: a line of three asterisks that is not a move.\<close>

definition follows :: "string list \<Rightarrow> bool" where
  "follows ls \<longleftrightarrow> (\<exists>l rest. ls = l # rest \<and> startsWith l ''***'' \<and> \<not> startsWith l moveMarker)"

lemma startsWith_append [simp]: "startsWith (p @ s) p"
  by (simp add: startsWith_def)

lemma startsWith_Cons [simp]: "startsWith (c # s) (d # p) \<longleftrightarrow> c = d \<and> startsWith s p"
  by (auto simp: startsWith_def)

lemma startsWith_Nil [simp]: "startsWith s []" "startsWith [] (d # p) \<longleftrightarrow> False"
  by (simp_all add: startsWith_def)

lemma printed_follows: "follows (printHunk h @ rest)"
  by (cases h) (auto simp: follows_def marker_defs)

lemma change_lines_printed:
  assumes "follows rest \<or> (\<exists>l rs. rest = l # rs \<and> startsWith l ''@@'')"
  shows "parseChangeLines (map ((#) CHR ''-'') os @ map ((#) CHR ''+'') ns @ rest) xs ys = (xs @ os, ys @ ns, False, rest)"
proof (induction os arbitrary: xs)
  case Nil
  have "parseChangeLines rest xs ys = (xs, ys, False, rest)" for ys using assms by (auto simp: follows_def)
  then show ?case by (simp, induction ns arbitrary: ys) auto
qed simp

lemma chunks_printed:
  assumes "list_all wfChunk chunks" and "follows rest"
  shows "parseUpdateFileChunks (concat (map printChunk chunks) @ rest) = (chunks, rest)"
  using assms(1)
proof (induction chunks)
  case Nil
  then show ?case using assms(2) by (auto simp: follows_def)
next
  case (Cons c chunks)
  let ?tail = "concat (map printChunk chunks) @ rest"
  have next_line: "follows ?tail \<or> (\<exists>l rs. ?tail = l # rs \<and> startsWith l ''@@'')"
    using assms(2) by (cases chunks) (auto simp: printChunk_def split: option.splits)
  have c: "wfChunk c" and chunks: "parseUpdateFileChunks ?tail = (chunks, rest)" using Cons by simp_all
  have changes: "parseChangeLines (map ((#) CHR ''-'') (uc_old_lines c) @ map ((#) CHR ''+'') (uc_new_lines c) @ ?tail) [] []
      = (uc_old_lines c, uc_new_lines c, False, ?tail)"
    using change_lines_printed [OF next_line] by simp
  show ?case using c chunks changes
    by (cases "uc_change_context c") (simp_all add: printChunk_def [of c] wfChunk_def [of c] trimmedLine_def Let_def)
qed

lemma added_printed: "follows rest \<Longrightarrow>
    addedLines (map ((#) CHR ''+'') ls @ rest) = (concat (map (\<lambda>l. l @ [lf]) ls), rest)"
  by (induction ls) (auto simp: follows_def)

lemma join_terminated: "ls \<noteq> [] \<Longrightarrow> concat (map (\<lambda>l. l @ [lf]) ls) = join [lf] ls @ [lf]"
  by (induction "[lf]" ls rule: join.induct) auto

lemma content_printed: "follows rest \<Longrightarrow> parseAddFileContent (map ((#) CHR ''+'') (splitLines contents) @ rest) = (contents, rest)"
  using added_printed [of rest "splitLines contents"] join_terminated [of "splitLines contents"]
  by (simp add: parseAddFileContent_def endsWith_def join_splitLines butlast_append)

lemma chunks_no_move:
  assumes "follows rest"
  shows "\<exists>l ls. concat (map printChunk chunks) @ rest = l # ls \<and> \<not> startsWith l moveMarker"
  using assms by (cases chunks) (auto simp: follows_def printChunk_def moveMarker_def split: option.splits)

lemma header_printed:
  assumes "wfHunk h" and "follows rest"
  shows "parsePatchHeader (printHunk h @ rest) = Some (case h of
      AddHunk path contents \<Rightarrow> (path, None, map ((#) CHR ''+'') (splitLines contents) @ rest)
    | DeleteHunk path \<Rightarrow> (path, None, rest)
    | UpdateHunk path movePath chunks \<Rightarrow> (path, movePath, concat (map printChunk chunks) @ rest))"
proof (cases h)
  case (UpdateHunk path movePath chunks)
  obtain l ls where "concat (map printChunk chunks) @ rest = l # ls" "\<not> startsWith l moveMarker"
    using chunks_no_move [OF assms(2)] by blast
  then show ?thesis using assms(1) UpdateHunk
    by (cases movePath) (simp_all add: parsePatchHeader_def marker_defs trimmedLine_def Let_def)
qed (use assms in \<open>simp_all add: parsePatchHeader_def marker_defs trimmedLine_def Let_def\<close>)

declare parseHunks.simps [simp del]

lemma hunks_printed:
  assumes "list_all wfHunk hunks"
  shows "parseHunks 1 (concat (map printHunk hunks) @ [endMarker]) = hunks"
  using assms
proof (induction hunks)
  case Nil
  then show ?case by (simp add: parseHunks.simps)
next
  case (Cons h hunks)
  let ?rest = "concat (map printHunk hunks) @ [endMarker]"
  have rest: "follows ?rest"
    using printed_follows by (cases hunks) (auto simp: follows_def marker_defs)
  have header: "parsePatchHeader (printHunk h @ ?rest) = Some (case h of
      AddHunk path contents \<Rightarrow> (path, None, map ((#) CHR ''+'') (splitLines contents) @ ?rest)
    | DeleteHunk path \<Rightarrow> (path, None, ?rest)
    | UpdateHunk path movePath chunks \<Rightarrow> (path, movePath, concat (map printChunk chunks) @ ?rest))"
    using Cons.prems rest by (intro header_printed) simp_all
  have IH: "parseHunks 1 ?rest = hunks" using Cons by simp
  have len: "\<not> length (printHunk h @ ?rest) \<le> 1" by (cases h) simp_all
  show ?case
  proof (cases h)
    case (AddHunk path contents)
    then show ?thesis using header IH len content_printed [OF rest, of contents]
      by (subst parseHunks.simps) (simp add: marker_defs)
  next
    case (DeleteHunk path)
    then show ?thesis using header IH len by (subst parseHunks.simps) (simp add: marker_defs)
  next
    case (UpdateHunk path movePath chunks)
    then show ?thesis using header IH len chunks_printed [OF _ rest, of chunks] Cons.prems
      by (subst parseHunks.simps) (simp add: marker_defs)
  qed
qed

lemma no_marker_head:
  "c \<noteq> CHR ''*'' \<Longrightarrow> \<not> isWhite c \<Longrightarrow> trim (c # t) \<noteq> CHR ''*'' # u"
  using trim_head [of c t] by auto

lemma no_marker_inside: "trim (p @ x # t) = p @ y # u \<Longrightarrow> \<not> isWhite (hd (p @ [x])) \<Longrightarrow> \<not> isWhite x \<Longrightarrow> x = y"
proof -
  assume eq: "trim (p @ x # t) = p @ y # u" and "\<not> isWhite (hd (p @ [x]))" and x: "\<not> isWhite x"
  then have "dropWhile isWhite (p @ x # t) = p @ x # t" by (cases p) simp_all
  then have "trim (p @ x # t) = rev (dropWhile isWhite (rev t @ x # rev p))" by (simp add: trim_def)
  also have "\<dots> = p @ x # rev (dropWhile isWhite (rev t))"
    using x by (cases "\<forall>z\<in>set t. isWhite z") (simp_all add: dropWhile_append)
  finally show "x = y" using eq by simp
qed

lemma printed_lines_not_markers:
  assumes "l \<in> set (printHunk h)"
  shows "trim l \<noteq> beginMarker \<and> trim l \<noteq> endMarker"
proof -
  have chunk: "trim l \<noteq> beginMarker \<and> trim l \<noteq> endMarker" if "l \<in> set (printChunk c)" for l c
    using that by (auto simp: printChunk_def marker_defs isWhite_def no_marker_head split: option.splits)
  have named: "trim (''*** '' @ x # t) \<noteq> beginMarker \<and> trim (''*** '' @ x # t) \<noteq> endMarker"
    if "x \<in> {CHR ''A'', CHR ''D'', CHR ''U'', CHR ''M''}" for x t
    using no_marker_inside [of "''*** ''" x t] that by (auto simp: marker_defs isWhite_def)
  show ?thesis
    using assms chunk named
    by (cases h) (auto simp: addMarker_def deleteMarker_def updateMarker_def moveMarker_def no_marker_head isWhite_def
        beginMarker_def endMarker_def split: option.splits)
qed

lemma printed_lines_single:
  assumes "wfHunk h" and "l \<in> set (printHunk h)"
  shows "lf \<notin> set l"
proof -
  have chunk: "lf \<notin> set l" if "l \<in> set (printChunk c)" "wfChunk c" for l c
    using that by (auto simp: printChunk_def wfChunk_def list_all_iff trimmedLine_def split: option.splits)
  show ?thesis using assms
    by (cases h) (auto simp: marker_defs trimmedLine_def list_all_iff dest: chunk splitLines_no_lf split: option.splits)
qed

lemma findIndex_first: "\<forall>x\<in>set xs. \<not> P x \<Longrightarrow> P y \<Longrightarrow> findIndex P (xs @ y # zs) = Some (length xs)"
  by (induction xs) auto

lemma join_last: "\<exists>t. join [lf] (xs @ [y]) = t @ y"
  by (induction "[lf]" xs rule: join.induct) auto

lemma printed_lines:
  assumes "list_all wfHunk hunks"
  shows "splitLines (stripHeredoc (trim (printPatch hunks))) = beginMarker # concat (map printHunk hunks) @ [endMarker]"
    (is "_ = ?lines")
proof -
  obtain t where t: "join [lf] (concat (map printHunk hunks) @ [endMarker]) = t @ endMarker"
    using join_last by blast
  then have t: "printPatch hunks = beginMarker @ lf # t @ endMarker"
    by (cases "concat (map printHunk hunks) @ [endMarker]") (auto simp: printPatch_def)
  have "trim (printPatch hunks) = printPatch hunks"
    unfolding t by (rule trim_ends) (simp_all add: marker_defs isWhite_def)
  moreover have "stripHeredoc (printPatch hunks) = printPatch hunks"
    by (simp add: t stripHeredoc_def marker_defs)
  moreover have "\<forall>l\<in>set ?lines. lf \<notin> set l"
    using assms printed_lines_single by (auto simp: list_all_iff marker_defs)
  ultimately show ?thesis by (simp add: printPatch_def splitLines_join)
qed

text \<open>C26: Parsing inverts printing: a patch printed in the format of the tool, with any number of added, deleted, updated and
  moved files, is parsed back to exactly its hunks, for every content, every path without surrounding white space and
  every chunk of whole lines.\<close>
theorem patch_print_parse:
  assumes "list_all wfHunk hunks"
  shows "parsePatch (printPatch hunks) = Inr hunks"
proof -
  let ?body = "concat (map printHunk hunks)"
  have markers: "\<forall>l\<in>set ?body. trim l \<noteq> beginMarker \<and> trim l \<noteq> endMarker"
    using printed_lines_not_markers by auto
  have trimmed: "trim beginMarker = beginMarker" "trim endMarker = endMarker" "beginMarker \<noteq> endMarker"
    by (simp_all add: marker_defs trim_def isWhite_def)
  have "findIndex (\<lambda>line. trim line = beginMarker) (beginMarker # ?body @ [endMarker]) = Some 0"
    using trimmed by simp
  moreover have "findIndex (\<lambda>line. trim line = endMarker) ((beginMarker # ?body) @ [endMarker]) = Some (length (beginMarker # ?body))"
    using trimmed markers by (intro findIndex_first) auto
  ultimately show ?thesis
    using hunks_printed [OF assms] by (simp add: parsePatch_def printed_lines [OF assms] Let_def)
qed

definition sampleHunks :: "hunk list" where
  "sampleHunks = [AddHunk ''a.txt'' ''one'', UpdateHunk ''b.txt'' (Some ''c.txt'')
     [\<lparr> uc_old_lines = [''x''], uc_new_lines = [''y'', ''''], uc_change_context = Some ''f'', uc_is_end_of_file = False \<rparr>], DeleteHunk ''d'']"

theorem patch_print_parse_witness: "parsePatch (printPatch sampleHunks) = Inr sampleHunks"
  by (rule patch_print_parse) code_simp

section \<open>Applying\<close>

text \<open>The loosest of the four comparisons of lines, which the other three refine.\<close>

definition sameLine :: "string \<Rightarrow> string \<Rightarrow> bool" where
  "sameLine a b \<longleftrightarrow> normalizeUnicode (trim a) = normalizeUnicode (trim b)"

lemma trim_trimEnd: "trim s = dropWhile isWhite (trimEnd s)"
proof (induction s)
  case (Cons c s)
  have tail: "trimEnd (c # s) = (if trimEnd s = [] \<and> isWhite c then [] else c # trimEnd s)"
    by (auto simp: trimEnd_def dropWhile_append)
  show ?case
  proof (cases "isWhite c")
    case True
    then show ?thesis using Cons by (auto simp: tail trim_def)
  next
    case False
    then have "trim (c # s) = trimEnd (c # s)" by (simp add: trim_def trimEnd_def)
    then show ?thesis using False by (simp add: tail)
  qed
qed (simp add: trim_def trimEnd_def)

lemma tryMatch_sound:
  assumes "tryMatch lines pattern start compare eof = Some i"
  shows "start \<le> i \<and> i + length pattern \<le> length lines \<and> (\<forall>j<length pattern. compare (lines ! (i + j)) (pattern ! j))"
  using assms by (auto simp: tryMatch_def matchesAt_def find_Some_iff list_all2_conv_all_nth split: if_splits)

lemma seekSequence_sound:
  assumes "seekSequence lines pattern start eof = Some i"
  shows "start \<le> i \<and> i + length pattern \<le> length lines \<and> (\<forall>j<length pattern. sameLine (lines ! (i + j)) (pattern ! j))"
  using assms
  by (auto simp: seekSequence_def orElseTry_def sameLine_def trim_trimEnd split: if_splits option.splits
      dest!: tryMatch_sound)

lemma seekSequence_segment:
  assumes "seekSequence lines pattern start eof = Some i" and "len = length pattern"
  shows "start \<le> i \<and> i + len \<le> length lines \<and> list_all2 sameLine (take len (drop i lines)) pattern"
  using seekSequence_sound [OF assms(1)] assms(2) by (auto simp: list_all2_conv_all_nth)

text \<open>What a chunk does to the lines it replaces: they agree with its old lines, or with these less a trailing empty line.\<close>

definition chunkApplied :: "update_chunk \<Rightarrow> string list \<Rightarrow> string list \<Rightarrow> bool" where
  "chunkApplied c old new \<longleftrightarrow>
     list_all2 sameLine old (uc_old_lines c) \<and> new = uc_new_lines c \<or>
     uc_old_lines c \<noteq> [] \<and> last (uc_old_lines c) = [] \<and> list_all2 sameLine old (butlast (uc_old_lines c)) \<and>
     new = (if uc_new_lines c \<noteq> [] \<and> last (uc_new_lines c) = [] then butlast (uc_new_lines c) else uc_new_lines c)"

lemma seekChunk_sound:
  assumes "seekChunk lines c start = Some (found, len, new)"
  shows "start \<le> found \<and> found + len \<le> length lines \<and> chunkApplied c (take len (drop found lines)) new"
proof (cases "seekSequence lines (uc_old_lines c) start (uc_is_end_of_file c)")
  case None
  then have "seekSequence lines (butlast (uc_old_lines c)) start (uc_is_end_of_file c) = Some found"
      "len = length (butlast (uc_old_lines c))" "uc_old_lines c \<noteq> []" "last (uc_old_lines c) = []"
      "new = (if uc_new_lines c \<noteq> [] \<and> last (uc_new_lines c) = [] then butlast (uc_new_lines c) else uc_new_lines c)"
    using assms by (auto simp: seekChunk_def Let_def split: if_splits)
  then show ?thesis using seekSequence_segment unfolding chunkApplied_def by blast
next
  case (Some i)
  then show ?thesis using assms seekSequence_segment [OF Some] by (simp add: seekChunk_def chunkApplied_def)
qed

text \<open>A piece of the file: lines kept, lines replaced and what replaces them.\<close>

type_synonym piece = "string list \<times> string list \<times> string list"

definition oldLinesOf :: "piece list \<Rightarrow> string list" where
  "oldLinesOf pieces = concat (map (\<lambda>(keep, old, new). keep @ old) pieces)"

definition newLinesOf :: "piece list \<Rightarrow> string list" where
  "newLinesOf pieces = concat (map (\<lambda>(keep, old, new). keep @ new) pieces)"

text \<open>A piece is the work of a chunk; the lines kept before it hold the context line of the chunk.\<close>

definition pieceOf :: "piece \<Rightarrow> update_chunk \<Rightarrow> bool" where
  "pieceOf p c = (case p of (keep, old, new) \<Rightarrow> chunkApplied c old new \<and>
     (\<forall>context. uc_change_context c = Some context \<and> context \<noteq> [] \<longrightarrow> (\<exists>l\<in>set keep. sameLine l context)))"

lemma before_after_simps [simp]:
  "oldLinesOf [] = []" "newLinesOf [] = []"
  "oldLinesOf ((keep, old, new) # ps) = keep @ old @ oldLinesOf ps" "newLinesOf ((keep, old, new) # ps) = keep @ new @ newLinesOf ps"
  by (simp_all add: oldLinesOf_def newLinesOf_def)

lemma map_sum_Inr: "map_sum id f x = Inr y \<longleftrightarrow> (\<exists>z. x = Inr z \<and> y = f z)"
  by (cases x) auto

lemma collect_step:
  assumes "collectReplacements lines path (c # cs) start = Inr rs" and "uc_old_lines c \<noteq> []"
  obtains found len new rs' where "rs = (found, len, new) # rs'" "collectReplacements lines path cs (found + len) = Inr rs'"
    "start \<le> found" "found + len \<le> length lines"
    "pieceOf (take (found - start) (drop start lines), take len (drop found lines), new) c"
proof -
  obtain pos where pos: "start \<le> pos" "\<forall>context. uc_change_context c = Some context \<and> context \<noteq> [] \<longrightarrow>
        (\<exists>i. start \<le> i \<and> i < pos \<and> i < length lines \<and> sameLine (lines ! i) context)"
    and rest: "(case seekChunk lines c pos of None \<Rightarrow> Inl (linesNotFound (uc_old_lines c) path)
        | Some (found, len, new) \<Rightarrow> map_sum id (\<lambda>rs. (found, len, new) # rs) (collectReplacements lines path cs (found + len))) = Inr rs"
  proof (cases "uc_change_context c")
    case None
    then show thesis using that [of start] assms by simp
  next
    case (Some ctx)
    show thesis
    proof (cases "ctx = []")
      case True
      then show thesis using that [of start] assms Some by simp
    next
      case False
      then obtain i where i: "seekSequence lines [ctx] start False = Some i" using assms Some by (auto split: option.splits)
      then show thesis using that [of "Suc i"] assms Some False seekSequence_sound [OF i] by fastforce
    qed
  qed
  then obtain found len new rs' where hit: "seekChunk lines c pos = Some (found, len, new)"
    and rs: "rs = (found, len, new) # rs'" "collectReplacements lines path cs (found + len) = Inr rs'"
    by (auto split: option.splits simp: map_sum_Inr)
  note sound = seekChunk_sound [OF hit]
  have "lines ! i \<in> set (take (found - start) (drop start lines))" if "start \<le> i" "i < pos" "i < length lines" for i
    using that sound by (auto simp: in_set_conv_nth intro!: exI [of _ "i - start"])
  then have "pieceOf (take (found - start) (drop start lines), take len (drop found lines), new) c"
    using sound pos(2) unfolding pieceOf_def by blast
  then show thesis using that [OF rs] sound pos(1) by auto
qed

lemma collected_pieces:
  assumes "collectReplacements lines path chunks start = Inr rs" and "list_all (\<lambda>c. uc_old_lines c \<noteq> []) chunks"
    and "start \<le> length lines"
  shows "\<exists>pieces rest. drop start lines = oldLinesOf pieces @ rest \<and> foldr spliceLines rs lines = take start lines @ newLinesOf pieces @ rest \<and>
    list_all2 pieceOf pieces chunks \<and> sorted (map fst rs) \<and> (\<forall>r\<in>set rs. start \<le> fst r)"
  using assms
proof (induction chunks arbitrary: start rs)
  case Nil
  then show ?case by (intro exI [of _ "[]"] exI [of _ "drop start lines"]) auto
next
  case (Cons c chunks)
  obtain found len new rs' where rs: "rs = (found, len, new) # rs'" "collectReplacements lines path chunks (found + len) = Inr rs'"
    and at: "start \<le> found" "found + len \<le> length lines"
    and p: "pieceOf (take (found - start) (drop start lines), take len (drop found lines), new) c"
    by (rule collect_step [OF Cons.prems(1)]) (use Cons.prems(2) in simp)
  from Cons.IH [OF rs(2)] Cons.prems(2) at obtain pieces rest
    where IH: "drop (found + len) lines = oldLinesOf pieces @ rest" "foldr spliceLines rs' lines = take (found + len) lines @ newLinesOf pieces @ rest"
      "list_all2 pieceOf pieces chunks" "sorted (map fst rs')" "\<forall>r\<in>set rs'. found + len \<le> fst r"
    by auto
  let ?keep = "take (found - start) (drop start lines)" and ?old = "take len (drop found lines)"
  have cut: "take start lines @ ?keep = take found lines"
    using at take_add [of start "found - start" lines] by simp
  have "drop start lines = ?keep @ drop found lines"
    using at by (metis append_take_drop_id drop_drop le_add_diff_inverse2)
  also have "drop found lines = ?old @ oldLinesOf pieces @ rest"
    using IH(1) by (metis add.commute append_take_drop_id drop_drop)
  finally have "drop start lines = oldLinesOf ((?keep, ?old, new) # pieces) @ rest" by simp
  moreover have "foldr spliceLines rs lines = take start lines @ newLinesOf ((?keep, ?old, new) # pieces) @ rest"
    using at cut by (simp add: rs IH(2) spliceLines_def flip: append_assoc)
  ultimately show ?case
    using IH p at by (intro exI [of _ "(?keep, ?old, new) # pieces"] exI [of _ rest]) (auto simp: rs)
qed

text \<open>C22: An update is applied as it is written: when every chunk names lines to replace and the update succeeds, the file
  falls into pieces, one for each chunk and in their order; each piece keeps its first lines, among them a line that
  agrees with the context of the chunk, and replaces lines that agree with the old lines of the chunk by its new
  lines; all else of the file stays, and the result ends with a newline.\<close>
theorem patch_update_applied:
  assumes "deriveNewContentsFromChunks path (Some f) chunks = Inr u" and "list_all (\<lambda>c. uc_old_lines c \<noteq> []) chunks"
  shows "\<exists>pieces rest. list_all2 pieceOf pieces chunks \<and> fileLines (pf_text f) = oldLinesOf pieces @ rest \<and>
    fu_content u = (let new = newLinesOf pieces @ rest in join [lf] (if new = [] \<or> last new \<noteq> [] then new @ [[]] else new)) \<and>
    fu_bom u = pf_bom f"
proof -
  let ?lines = "fileLines (pf_text f)"
  obtain rs where rs: "collectReplacements ?lines path chunks 0 = Inr rs"
    using assms(1) by (auto simp: deriveNewContentsFromChunks_def computeReplacements_def map_sum_Inr split: sum.splits)
  from collected_pieces [OF this assms(2)] obtain pieces rest
    where p: "?lines = oldLinesOf pieces @ rest" "foldr spliceLines rs ?lines = newLinesOf pieces @ rest" "list_all2 pieceOf pieces chunks"
      and sorted: "sorted (map fst rs)"
    by auto
  have "computeReplacements ?lines path chunks = Inr rs"
    using sorted by (simp add: computeReplacements_def rs sort_key_id_if_sorted)
  then have "fu_content u = (let new = newLinesOf pieces @ rest in join [lf] (if new = [] \<or> last new \<noteq> [] then new @ [[]] else new))"
      "fu_bom u = pf_bom f"
    using assms(1) p(2) by (auto simp: deriveNewContentsFromChunks_def applyReplacements_def Let_def)
  with p show ?thesis by blast
qed

definition sampleFile :: patch_file where
  "sampleFile = \<lparr> pf_bom = False, pf_text = join [lf] [''f'', ''x '', ''z'', ''''] \<rparr>"

definition sampleChunk :: update_chunk where
  "sampleChunk = \<lparr> uc_old_lines = [''x''], uc_new_lines = [''y''], uc_change_context = Some ''f'', uc_is_end_of_file = False \<rparr>"

theorem patch_update_applied_witness:
  "\<exists>u :: file_update. fu_content u = join [lf] [''f'', ''y'', ''z'', []] \<and>
    (\<exists>pieces rest. list_all2 pieceOf pieces [sampleChunk] \<and> fileLines (pf_text sampleFile) = oldLinesOf pieces @ rest \<and>
      fu_content u = (let new = newLinesOf pieces @ rest in join [lf] (if new = [] \<or> last new \<noteq> [] then new @ [[]] else new)) \<and>
      fu_bom u = pf_bom sampleFile)"
proof -
  have "\<not> isl (deriveNewContentsFromChunks ''a'' (Some sampleFile) [sampleChunk]) \<and>
      fu_content (projr (deriveNewContentsFromChunks ''a'' (Some sampleFile) [sampleChunk])) = join [lf] [''f'', ''y'', ''z'', '''']"
    by code_simp
  then obtain u where u: "deriveNewContentsFromChunks ''a'' (Some sampleFile) [sampleChunk] = Inr u"
    "fu_content u = join [lf] [''f'', ''y'', ''z'', '''']"
    by (cases "deriveNewContentsFromChunks ''a'' (Some sampleFile) [sampleChunk]") auto
  have "list_all (\<lambda>c. uc_old_lines c \<noteq> []) [sampleChunk]" by code_simp
  from u(2) patch_update_applied [OF u(1) this] show ?thesis by - (rule exI [of _ u], rule conjI)
qed

section \<open>A lost insertion\<close>

text \<open>An insertion can be lost. In a file that ends with an empty line a chunk without old lines inserts before that line,
  which may lie inside the lines another chunk of the same update replaces: the update succeeds, the inserted line is
  nowhere in the result and a line that was to be replaced is still there.\<close>
theorem patch_insertion_lost:
  "fu_content (projr (deriveNewContentsFromChunks ''a'' (Some \<lparr> pf_bom = False, pf_text = join [lf] [''p'', '''', ''''] \<rparr>)
      [\<lparr> uc_old_lines = [], uc_new_lines = [''inserted''], uc_change_context = None, uc_is_end_of_file = False \<rparr>,
       \<lparr> uc_old_lines = [''p'', ''''], uc_new_lines = [''q''], uc_change_context = None, uc_is_end_of_file = False \<rparr>]))
    = join [lf] [''q'', '''']"
  by code_simp

end
