(* ===== verification/Rw_Lock.thy ===== *)
theory Rw_Lock
  imports Prelude
begin

text \<open>
  The readers-writer locks of the host (\<^verbatim>\<open>packages/cli-host/src/util/lock.ts\<close>).  The table maps a key to a lock object on a
  heap, because the closures that release a lock hold the object and not the key's present entry.  A ticket is one call
  of \<open>read\<close> or \<open>write\<close>: queued until its promise is resolved, held until it is disposed.  The callbacks in the waiting
  lists are the tickets they resolve.
\<close>

section \<open>Locks\<close>

record rw_lock =
  lk_readers :: int
  lk_writer :: bool
  lk_waitingReaders :: "nat list"
  lk_waitingWriters :: "nat list"

datatype ticket_status = Queued | Held | Disposed

record ticket =
  tk_key :: string
  tk_lock :: nat
  tk_write :: bool
  tk_status :: ticket_status

record lock_table =
  lt_locks :: "(string, nat) js_map"
  lt_heap :: "rw_lock list"
  lt_tickets :: "ticket list"

definition initLocks :: lock_table where
  "initLocks = \<lparr> lt_locks = [], lt_heap = [], lt_tickets = [] \<rparr>"

definition newLock :: rw_lock where
  "newLock = \<lparr> lk_readers = 0, lk_writer = False, lk_waitingReaders = [], lk_waitingWriters = [] \<rparr>"

definition getLock :: "string \<Rightarrow> lock_table \<Rightarrow> nat \<times> lock_table" where
  "getLock key t =
     (case mapGet (lt_locks t) key of
        Some a \<Rightarrow> (a, t)
      | None \<Rightarrow> (let a = length (lt_heap t) in
          (a, t\<lparr>lt_locks := mapSet key a (lt_locks t), lt_heap := lt_heap t @ [newLock]\<rparr>)))"

definition updateLock :: "nat \<Rightarrow> (rw_lock \<Rightarrow> rw_lock) \<Rightarrow> lock_table \<Rightarrow> lock_table" where
  "updateLock a f t = t\<lparr>lt_heap := (lt_heap t)[a := f (lt_heap t ! a)]\<rparr>"

definition setStatus :: "nat \<Rightarrow> ticket_status \<Rightarrow> lock_table \<Rightarrow> lock_table" where
  "setStatus i st t = t\<lparr>lt_tickets := (lt_tickets t)[i := (lt_tickets t ! i)\<lparr>tk_status := st\<rparr>]\<rparr>"

definition newTicket :: "string \<Rightarrow> nat \<Rightarrow> bool \<Rightarrow> ticket_status \<Rightarrow> lock_table \<Rightarrow> lock_table" where
  "newTicket key a w st t = t\<lparr>lt_tickets := lt_tickets t @ [\<lparr> tk_key = key, tk_lock = a, tk_write = w, tk_status = st \<rparr>]\<rparr>"

section \<open>Operations\<close>

fun wakeReaders :: "nat \<Rightarrow> nat list \<Rightarrow> lock_table \<Rightarrow> lock_table" where
  "wakeReaders a [] t = t"
| "wakeReaders a (i # is) t =
     wakeReaders a is (setStatus i Held (updateLock a (\<lambda>l. l\<lparr>lk_readers := lk_readers l + 1, lk_waitingReaders := is\<rparr>) t))"

definition processLock :: "string \<Rightarrow> lock_table \<Rightarrow> lock_table" where
  "processLock key t =
     (case mapGet (lt_locks t) key of
        None \<Rightarrow> t
      | Some a \<Rightarrow>
          (let l = lt_heap t ! a in
           if lk_writer l \<or> lk_readers l > 0 then t
           else case lk_waitingWriters l of
             i # is \<Rightarrow> setStatus i Held (updateLock a (\<lambda>l. l\<lparr>lk_writer := True, lk_waitingWriters := is\<rparr>) t)
           | [] \<Rightarrow>
               (let t' = wakeReaders a (lk_waitingReaders l) t; l' = lt_heap t' ! a in
                if lk_readers l' = 0 \<and> \<not> lk_writer l' \<and> lk_waitingReaders l' = [] \<and> lk_waitingWriters l' = []
                then t'\<lparr>lt_locks := mapDelete key (lt_locks t')\<rparr> else t')))"

definition readLock :: "string \<Rightarrow> lock_table \<Rightarrow> lock_table" where
  "readLock key t =
     (case getLock key t of (a, t1) \<Rightarrow>
        let l = lt_heap t1 ! a; i = length (lt_tickets t1) in
        if \<not> lk_writer l \<and> lk_waitingWriters l = []
        then newTicket key a False Held (updateLock a (\<lambda>l. l\<lparr>lk_readers := lk_readers l + 1\<rparr>) t1)
        else newTicket key a False Queued (updateLock a (\<lambda>l. l\<lparr>lk_waitingReaders := lk_waitingReaders l @ [i]\<rparr>) t1))"

definition writeLock :: "string \<Rightarrow> lock_table \<Rightarrow> lock_table" where
  "writeLock key t =
     (case getLock key t of (a, t1) \<Rightarrow>
        let l = lt_heap t1 ! a; i = length (lt_tickets t1) in
        if \<not> lk_writer l \<and> lk_readers l = 0
        then newTicket key a True Held (updateLock a (\<lambda>l. l\<lparr>lk_writer := True\<rparr>) t1)
        else newTicket key a True Queued (updateLock a (\<lambda>l. l\<lparr>lk_waitingWriters := lk_waitingWriters l @ [i]\<rparr>) t1))"

text \<open>Disposing a resolved ticket; nothing stops a caller from doing so twice.\<close>

definition disposeLock :: "nat \<Rightarrow> lock_table \<Rightarrow> lock_table" where
  "disposeLock i t =
     (if i < length (lt_tickets t) \<and> tk_status (lt_tickets t ! i) \<noteq> Queued then
        (let k = lt_tickets t ! i in
         processLock (tk_key k) (setStatus i Disposed
           (updateLock (tk_lock k) (\<lambda>l. if tk_write k then l\<lparr>lk_writer := False\<rparr> else l\<lparr>lk_readers := lk_readers l - 1\<rparr>) t)))
      else t)"

datatype lock_op = ReadOp string | WriteOp string | DisposeOp nat

fun lockStep :: "lock_op \<Rightarrow> lock_table \<Rightarrow> lock_table" where
  "lockStep (ReadOp key) t = readLock key t"
| "lockStep (WriteOp key) t = writeLock key t"
| "lockStep (DisposeOp i) t = disposeLock i t"

text \<open>A run in which every ticket is disposed at most once, and only while it is held.\<close>

fun disposesOnce :: "lock_op list \<Rightarrow> lock_table \<Rightarrow> bool" where
  "disposesOnce [] t = True"
| "disposesOnce (op # ops) t =
     ((case op of DisposeOp i \<Rightarrow> i < length (lt_tickets t) \<and> tk_status (lt_tickets t ! i) = Held | _ \<Rightarrow> True) \<and>
      disposesOnce ops (lockStep op t))"

end
