(* ===== verification/Lock_Theorems.thy ===== *)
theory Lock_Theorems
  imports Rw_Lock
begin

text \<open>
  What the locks guarantee when every ticket is disposed once: a writer excludes everybody else, nobody waits for a lock
  that nobody holds, the table keeps no unused lock, and disposing what is held serves everybody who waits.
\<close>

section \<open>Tickets of a lock\<close>

definition ticketsOf :: "lock_table \<Rightarrow> nat \<Rightarrow> bool \<Rightarrow> ticket_status \<Rightarrow> nat set" where
  "ticketsOf t a w st = {i. i < length (lt_tickets t) \<and> tk_lock (lt_tickets t ! i) = a \<and> tk_write (lt_tickets t ! i) = w \<and>
     tk_status (lt_tickets t ! i) = st}"

lemma finite_ticketsOf [simp]: "finite (ticketsOf t a w st)"
  by (simp add: ticketsOf_def)

lemma ticketsOf_heap [simp]: "ticketsOf (t\<lparr>lt_heap := h\<rparr>) = ticketsOf t" "ticketsOf (t\<lparr>lt_locks := m\<rparr>) = ticketsOf t"
  "ticketsOf (updateLock a f t) = ticketsOf t"
  by (simp_all add: ticketsOf_def fun_eq_iff updateLock_def)

lemma ticketsOf_setStatus:
  assumes "i \<in> ticketsOf t a w st" and "st \<noteq> st'"
  shows "ticketsOf (setStatus i st' t) =
    (\<lambda>a' w' s. if a' = a \<and> w' = w then (if s = st' then insert i (ticketsOf t a w st')
       else if s = st then ticketsOf t a w st - {i} else ticketsOf t a w s) else ticketsOf t a' w' s)"
  using assms by (fastforce simp: ticketsOf_def setStatus_def fun_eq_iff nth_list_update split: if_splits)

lemma ticketsOf_setStatus_update [simp]: "ticketsOf (setStatus i st (updateLock a f t)) = ticketsOf (setStatus i st t)"
  by (simp add: ticketsOf_def setStatus_def updateLock_def fun_eq_iff)

lemma ticketsOf_newTicket:
  "ticketsOf (newTicket key a w st t) =
    (\<lambda>a' w' s. if a' = a \<and> w' = w \<and> s = st then insert (length (lt_tickets t)) (ticketsOf t a w st) else ticketsOf t a' w' s)"
  by (fastforce simp: ticketsOf_def newTicket_def fun_eq_iff nth_append less_Suc_eq split: if_splits)

lemma fresh_ticket [simp]: "length (lt_tickets t) \<notin> ticketsOf t a w st"
  by (simp add: ticketsOf_def)

section \<open>One lock\<close>

text \<open>The fields of a lock count its tickets \<open>T\<close>; a writer holds alone.\<close>

definition counts :: "(bool \<Rightarrow> ticket_status \<Rightarrow> nat set) \<Rightarrow> rw_lock \<Rightarrow> bool" where
  "counts T l \<longleftrightarrow> lk_readers l = int (card (T False Held)) \<and> (lk_writer l \<longleftrightarrow> T True Held \<noteq> {}) \<and> card (T True Held) \<le> 1 \<and>
     (T True Held \<noteq> {} \<longrightarrow> T False Held = {}) \<and>
     set (lk_waitingReaders l) = T False Queued \<and> distinct (lk_waitingReaders l) \<and>
     set (lk_waitingWriters l) = T True Queued \<and> distinct (lk_waitingWriters l)"

text \<open>Nobody waits for a lock that nobody holds.\<close>

definition settled :: "(bool \<Rightarrow> ticket_status \<Rightarrow> nat set) \<Rightarrow> bool" where
  "settled T \<longleftrightarrow> (T False Held = {} \<and> T True Held = {} \<longrightarrow> T False Queued = {} \<and> T True Queued = {})"

definition inUse :: "(bool \<Rightarrow> ticket_status \<Rightarrow> nat set) \<Rightarrow> bool" where
  "inUse T \<longleftrightarrow> T False Held \<noteq> {} \<or> T True Held \<noteq> {}"

section \<open>The table\<close>

definition ident :: "lock_table \<Rightarrow> (string \<times> nat \<times> bool) list" where
  "ident t = map (\<lambda>k. (tk_key k, tk_lock k, tk_status k = Disposed)) (lt_tickets t)"

text \<open>\<open>tableOk keys t\<close>: the invariant, where the locks of \<open>keys\<close> may still have to be processed.\<close>

definition tableOk :: "string set \<Rightarrow> lock_table \<Rightarrow> bool" where
  "tableOk keys t \<longleftrightarrow> distinct (map fst (lt_locks t)) \<and> distinct (map snd (lt_locks t)) \<and>
     (\<forall>(k, a)\<in>set (lt_locks t). a < length (lt_heap t)) \<and>
     (\<forall>(k, a, disposed)\<in>set (ident t). a < length (lt_heap t) \<and> (\<not> disposed \<longrightarrow> (k, a) \<in> set (lt_locks t))) \<and>
     (\<forall>a<length (lt_heap t). counts (ticketsOf t a) (lt_heap t ! a)) \<and>
     (\<forall>(k, a)\<in>set (lt_locks t). k \<notin> keys \<longrightarrow> inUse (ticketsOf t a) \<and> settled (ticketsOf t a))"

lemma ident_simps [simp]: "ident (t\<lparr>lt_heap := h\<rparr>) = ident t" "ident (t\<lparr>lt_locks := m\<rparr>) = ident t" "ident (updateLock a f t) = ident t"
  by (simp_all add: ident_def updateLock_def)

lemma ident_held: "i \<in> ticketsOf t a w Queued \<Longrightarrow> ident (setStatus i Held t) = ident t"
  by (auto simp: ident_def setStatus_def ticketsOf_def map_update intro!: list_update_same_conv [THEN iffD2])

lemma table_simps [simp]:
  "lt_locks (updateLock a f t) = lt_locks t" "lt_tickets (updateLock a f t) = lt_tickets t"
  "lt_heap (updateLock a f t) = (lt_heap t)[a := f (lt_heap t ! a)]"
  "lt_locks (setStatus i st t) = lt_locks t" "lt_heap (setStatus i st t) = lt_heap t"
  "lt_locks (newTicket k a w st t) = lt_locks t" "lt_heap (newTicket k a w st t) = lt_heap t"
  by (simp_all add: updateLock_def setStatus_def newTicket_def)

lemma wakeReaders_frame:
  assumes "counts (ticketsOf t a) (lt_heap t ! a)" and "a < length (lt_heap t)" and "lk_waitingReaders (lt_heap t ! a) = is"
    and "ticketsOf t a True Held = {}"
  shows "let t' = wakeReaders a is t in
    counts (ticketsOf t' a) (lt_heap t' ! a) \<and> ticketsOf t' a False Queued = {} \<and> ticketsOf t' a True = ticketsOf t a True \<and>
    ticketsOf t' a False Held = ticketsOf t a False Held \<union> set is \<and>
    (\<forall>b. b \<noteq> a \<longrightarrow> ticketsOf t' b = ticketsOf t b \<and> lt_heap t' ! b = lt_heap t ! b) \<and>
    ident t' = ident t \<and> lt_locks t' = lt_locks t \<and> length (lt_heap t') = length (lt_heap t)"
  using assms
proof (induction "is" arbitrary: t)
  case Nil
  then show ?case by (auto simp: counts_def)
next
  case (Cons i "is")
  let ?u = "setStatus i Held (updateLock a (\<lambda>l. l\<lparr>lk_readers := lk_readers l + 1, lk_waitingReaders := is\<rparr>) t)"
  have i: "i \<in> ticketsOf t a False Queued" "i \<notin> set is" "set is = ticketsOf t a False Queued - {i}" "distinct is"
    using Cons.prems by (auto simp: counts_def)
  then have fresh: "i \<notin> ticketsOf t a False Held" by (auto simp: ticketsOf_def)
  note T = ticketsOf_setStatus [OF i(1), of Held, simplified]
  have "counts (ticketsOf ?u a) (lt_heap ?u ! a)" "lk_waitingReaders (lt_heap ?u ! a) = is" "ticketsOf ?u a True Held = {}" "a < length (lt_heap ?u)"
    using Cons.prems i fresh by (simp_all add: T counts_def)
  from Cons.IH [OF this(1,4,2,3)] show ?case
    using i(1) Cons.prems by (auto simp: T Let_def ident_held [of i _ a False])
qed

lemma tableOk_key:
  assumes "tableOk keys t" and "(k, a) \<in> set (lt_locks t)" and "(k', a) \<in> set (lt_locks t)"
  shows "k' = k"
proof -
  have "inj_on snd (set (lt_locks t))" using assms(1) by (simp add: tableOk_def distinct_map)
  from inj_onD [OF this _ assms(3,2)] show ?thesis by simp
qed

lemma tableOk_update:
  assumes ok: "tableOk {k} t" and a: "(k, a) \<in> set (lt_locks t)"
    and "ident t' = ident t" and "lt_locks t' = lt_locks t" and "length (lt_heap t') = length (lt_heap t)"
    and others: "\<And>b. b \<noteq> a \<Longrightarrow> ticketsOf t' b = ticketsOf t b \<and> lt_heap t' ! b = lt_heap t ! b"
    and "counts (ticketsOf t' a) (lt_heap t' ! a)" and "k \<in> keys \<or> inUse (ticketsOf t' a) \<and> settled (ticketsOf t' a)"
  shows "tableOk keys t'"
  unfolding tableOk_def
proof (intro conjI)
  show "\<forall>b<length (lt_heap t'). counts (ticketsOf t' b) (lt_heap t' ! b)"
    using assms by (metis (mono_tags, lifting) tableOk_def)
  show "\<forall>(k', b)\<in>set (lt_locks t'). k' \<notin> keys \<longrightarrow> inUse (ticketsOf t' b) \<and> settled (ticketsOf t' b)"
  proof (clarify)
    fix k' b assume kb: "(k', b) \<in> set (lt_locks t')" "k' \<notin> keys"
    show "inUse (ticketsOf t' b) \<and> settled (ticketsOf t' b)"
    proof (cases "b = a")
      case True
      then have "k' = k" using tableOk_key [OF ok a] kb(1) assms(4) by simp
      then show ?thesis using True kb(2) assms(8) by blast
    next
      case False
      have "k' \<noteq> k" using False kb(1) a ok assms(4) by (auto simp: tableOk_def dest: eq_key_imp_eq_value)
      then have "inUse (ticketsOf t b) \<and> settled (ticketsOf t b)" using kb(1) ok assms(4) by (auto simp: tableOk_def)
      then show ?thesis using others [OF False] by simp
    qed
  qed
qed (use assms in \<open>auto simp: tableOk_def\<close>)

lemma tableOk_ticket:
  assumes "tableOk keys t" and "i < length (lt_tickets t)"
  shows "tk_lock (lt_tickets t ! i) < length (lt_heap t)"
    and "tk_status (lt_tickets t ! i) \<noteq> Disposed \<Longrightarrow> (tk_key (lt_tickets t ! i), tk_lock (lt_tickets t ! i)) \<in> set (lt_locks t)"
proof -
  have "(tk_key (lt_tickets t ! i), tk_lock (lt_tickets t ! i), tk_status (lt_tickets t ! i) = Disposed) \<in> set (ident t)"
    using assms(2) by (simp add: ident_def)
  then show "tk_lock (lt_tickets t ! i) < length (lt_heap t)"
      "tk_status (lt_tickets t ! i) \<noteq> Disposed \<Longrightarrow> (tk_key (lt_tickets t ! i), tk_lock (lt_tickets t ! i)) \<in> set (lt_locks t)"
    using assms(1) by (auto simp: tableOk_def)
qed

lemma tableOk_D:
  assumes "tableOk keys t"
  shows "distinct (map fst (lt_locks t))" "distinct (map snd (lt_locks t))"
    and "(k, a) \<in> set (lt_locks t) \<Longrightarrow> a < length (lt_heap t)"
    and "a < length (lt_heap t) \<Longrightarrow> counts (ticketsOf t a) (lt_heap t ! a)"
    and "(k, a) \<in> set (lt_locks t) \<Longrightarrow> k \<notin> keys \<Longrightarrow> inUse (ticketsOf t a) \<and> settled (ticketsOf t a)"
  using assms by (auto simp: tableOk_def)

lemma tableOk_I:
  assumes "distinct (map fst (lt_locks t))" and "distinct (map snd (lt_locks t))"
    and "\<And>k a. (k, a) \<in> set (lt_locks t) \<Longrightarrow> a < length (lt_heap t)"
    and "\<And>i. i < length (lt_tickets t) \<Longrightarrow> tk_lock (lt_tickets t ! i) < length (lt_heap t)"
    and "\<And>i. i < length (lt_tickets t) \<Longrightarrow> tk_status (lt_tickets t ! i) \<noteq> Disposed \<Longrightarrow>
      (tk_key (lt_tickets t ! i), tk_lock (lt_tickets t ! i)) \<in> set (lt_locks t)"
    and "\<And>a. a < length (lt_heap t) \<Longrightarrow> counts (ticketsOf t a) (lt_heap t ! a)"
    and "\<And>k a. (k, a) \<in> set (lt_locks t) \<Longrightarrow> k \<notin> keys \<Longrightarrow> inUse (ticketsOf t a) \<and> settled (ticketsOf t a)"
  shows "tableOk keys t"
proof -
  have "\<forall>(k, a, disposed)\<in>set (ident t). a < length (lt_heap t) \<and> (\<not> disposed \<longrightarrow> (k, a) \<in> set (lt_locks t))"
    using assms(4,5) by (auto simp: ident_def in_set_conv_nth)
  then show ?thesis using assms(1-3,6,7) unfolding tableOk_def by blast
qed

lemma tableOk_delete:
  assumes ok: "tableOk {k} t" and a: "(k, a) \<in> set (lt_locks t)"
    and free: "\<And>w. ticketsOf t a w Held = {}" "\<And>w. ticketsOf t a w Queued = {}"
  shows "tableOk {} (t\<lparr>lt_locks := mapDelete k (lt_locks t)\<rparr>)"
proof (rule tableOk_I)
  let ?t = "t\<lparr>lt_locks := mapDelete k (lt_locks t)\<rparr>"
  have locks: "lt_locks ?t = filter (\<lambda>e. fst e \<noteq> k) (lt_locks t)" by (auto simp: AList.delete_eq intro!: filter_cong)
  show "distinct (map fst (lt_locks ?t))" "distinct (map snd (lt_locks ?t))"
    unfolding locks using tableOk_D(1,2) [OF ok] by (simp_all add: distinct_map_filter)
  fix i assume i: "i < length (lt_tickets ?t)" "tk_status (lt_tickets ?t ! i) \<noteq> Disposed"
  have entry: "(tk_key (lt_tickets t ! i), tk_lock (lt_tickets t ! i)) \<in> set (lt_locks t)" using tableOk_ticket(2) [OF ok] i by simp
  have "i \<in> ticketsOf t (tk_lock (lt_tickets t ! i)) (tk_write (lt_tickets t ! i)) (tk_status (lt_tickets t ! i))"
    using i by (simp add: ticketsOf_def)
  then have "tk_lock (lt_tickets t ! i) \<noteq> a" using free i(2) by (cases "tk_status (lt_tickets t ! i)") auto
  then have "tk_key (lt_tickets t ! i) \<noteq> k" using entry a tableOk_D(1) [OF ok] by (auto dest: eq_key_imp_eq_value)
  with entry show "(tk_key (lt_tickets ?t ! i), tk_lock (lt_tickets ?t ! i)) \<in> set (lt_locks ?t)"
    unfolding locks by simp
qed (use tableOk_D [OF ok] tableOk_ticket [OF ok] in \<open>auto simp: AList.delete_eq\<close>)

lemma process_ok:
  assumes ok: "tableOk {k} t" and a: "(k, a) \<in> set (lt_locks t)"
  shows "tableOk {} (processLock k t) \<and> ident (processLock k t) = ident t"
proof -
  have get: "mapGet (lt_locks t) k = Some a" and len: "a < length (lt_heap t)" and c: "counts (ticketsOf t a) (lt_heap t ! a)"
    using ok a by (auto simp: tableOk_def)
  let ?l = "lt_heap t ! a"
  consider (busy) "lk_writer ?l \<or> lk_readers ?l > 0"
    | (writer) i "is" where "\<not> lk_writer ?l" "\<not> lk_readers ?l > 0" "lk_waitingWriters ?l = i # is"
    | (readers) "\<not> lk_writer ?l" "\<not> lk_readers ?l > 0" "lk_waitingWriters ?l = []"
    by (cases "lk_waitingWriters ?l") auto
  then show ?thesis
  proof cases
    case busy
    then have "inUse (ticketsOf t a) \<and> settled (ticketsOf t a)" using c by (auto simp: counts_def inUse_def settled_def card_gt_0_iff)
    moreover have "processLock k t = t" using busy get by (auto simp: processLock_def Let_def)
    ultimately show ?thesis using ok a len c by (auto intro: tableOk_update [OF ok a])
  next
    case writer
    let ?f = "\<lambda>l. l\<lparr>lk_writer := True, lk_waitingWriters := is\<rparr>"
    let ?t = "setStatus i Held (updateLock a ?f t)"
    have i: "i \<in> ticketsOf t a True Queued" "set is = ticketsOf t a True Queued - {i}" "distinct is"
      and free: "ticketsOf t a True Held = {}" "ticketsOf t a False Held = {}"
      using c writer by (auto simp: counts_def)
    note T = ticketsOf_setStatus [OF i(1), of Held, simplified]
    have "tableOk {} ?t"
    proof (rule tableOk_update [OF ok a])
      show "counts (ticketsOf ?t a) (lt_heap ?t ! a)" using c len i free by (auto simp: T counts_def)
      show "k \<in> {} \<or> inUse (ticketsOf ?t a) \<and> settled (ticketsOf ?t a)" by (simp add: T inUse_def settled_def)
    qed (use i(1) in \<open>auto simp: T ident_held [of i _ a True]\<close>)
    moreover have "ident ?t = ident t" using i(1) by (simp add: ident_held [of i _ a True])
    ultimately show ?thesis using writer get by (simp add: processLock_def Let_def)
  next
    case readers
    have free: "ticketsOf t a True Held = {}" "ticketsOf t a False Held = {}" "ticketsOf t a True Queued = {}"
      using c readers by (auto simp: counts_def)
    define t' where "t' = wakeReaders a (lk_waitingReaders ?l) t"
    have w: "counts (ticketsOf t' a) (lt_heap t' ! a)" "ticketsOf t' a False Queued = {}" "ticketsOf t' a True = ticketsOf t a True"
        "ticketsOf t' a False Held = ticketsOf t a False Held \<union> set (lk_waitingReaders ?l)"
        "\<And>b. b \<noteq> a \<Longrightarrow> ticketsOf t' b = ticketsOf t b \<and> lt_heap t' ! b = lt_heap t ! b"
        "ident t' = ident t" "lt_locks t' = lt_locks t" "length (lt_heap t') = length (lt_heap t)"
      using wakeReaders_frame [OF c len refl free(1)] by (simp_all add: t'_def Let_def)
    show ?thesis
    proof (cases "lk_waitingReaders ?l = []")
      case True
      then have t': "t' = t" by (simp add: t'_def)
      have "processLock k t = t\<lparr>lt_locks := mapDelete k (lt_locks t)\<rparr>"
        using readers get True c free by (simp add: processLock_def Let_def counts_def)
      moreover have "ticketsOf t a b Held = {}" "ticketsOf t a b Queued = {}" for b using free w(2) t' by (cases b; simp)+
      ultimately show ?thesis using tableOk_delete [OF ok a] by simp
    next
      case False
      then have use: "ticketsOf t' a False Held \<noteq> {}" using w(4) by simp
      then have "lk_readers (lt_heap t' ! a) \<noteq> 0" using w(1) by (auto simp: counts_def)
      then have "processLock k t = t'" using readers get by (simp add: processLock_def Let_def t'_def)
      moreover have "tableOk {} t'"
        by (rule tableOk_update [OF ok a w(6,7,8,5) w(1)]) (use use in \<open>simp_all add: inUse_def settled_def\<close>)
      ultimately show ?thesis using w(6) by simp
    qed
  qed
qed

lemma dispose_ok_ident:
  assumes ok: "tableOk {} t" and i: "i < length (lt_tickets t)" "tk_status (lt_tickets t ! i) = Held"
  shows "tableOk {} (disposeLock i t) \<and>
    ident (disposeLock i t) = (ident t)[i := (tk_key (lt_tickets t ! i), tk_lock (lt_tickets t ! i), True)]"
proof -
  define k where "k = lt_tickets t ! i"
  let ?a = "tk_lock k" and ?w = "tk_write k"
  let ?f = "\<lambda>l. if ?w then l\<lparr>lk_writer := False\<rparr> else l\<lparr>lk_readers := lk_readers l - 1\<rparr>"
  let ?t = "setStatus i Disposed (updateLock ?a ?f t)"
  have a: "(tk_key k, ?a) \<in> set (lt_locks t)" "?a < length (lt_heap t)"
    using tableOk_ticket [OF ok i(1)] i(2) by (simp_all add: k_def)
  have here: "i \<in> ticketsOf t ?a ?w Held" using i by (simp add: ticketsOf_def k_def)
  note T = ticketsOf_setStatus [OF here, of Disposed, simplified]
  have c: "counts (ticketsOf t ?a) (lt_heap t ! ?a)" using ok a(2) by (simp add: tableOk_def)
  have c': "counts (ticketsOf ?t ?a) (lt_heap ?t ! ?a)"
  proof (cases ?w)
    case True
    have "card (ticketsOf t ?a True Held) \<le> 1" using c by (simp add: counts_def)
    then have "ticketsOf t ?a True Held = {i}" using here True by (auto simp: card_le_Suc0_iff_eq)
    then show ?thesis using c a(2) True by (simp add: T counts_def)
  next
    case False
    have "card (ticketsOf t ?a False Held) = Suc (card (ticketsOf t ?a False Held - {i}))"
      using card.remove [OF finite_ticketsOf, of i t ?a False Held] here False by simp
    moreover have "ticketsOf t ?a True Held = {}" using c here False by (auto simp: counts_def)
    ultimately show ?thesis using c a(2) False by (simp add: T counts_def)
  qed
  have "tableOk {tk_key k} ?t"
  proof (rule tableOk_I)
    fix b assume "b < length (lt_heap ?t)"
    then show "counts (ticketsOf ?t b) (lt_heap ?t ! b)"
      using c' tableOk_D(4) [OF ok, of b] by (cases "b = ?a") (simp_all add: T)
  next
    fix k' b assume kb: "(k', b) \<in> set (lt_locks ?t)" "k' \<notin> {tk_key k}"
    then have "b \<noteq> ?a" using tableOk_key [OF ok a(1)] by auto
    then show "inUse (ticketsOf ?t b) \<and> settled (ticketsOf ?t b)" using kb tableOk_D(5) [OF ok, of k' b] by (simp add: T)
  next
    fix j assume j: "j < length (lt_tickets ?t)"
    then show "tk_lock (lt_tickets ?t ! j) < length (lt_heap ?t)"
      using tableOk_ticket(1) [OF ok, of j] by (cases "j = i") (simp_all add: setStatus_def)
    assume "tk_status (lt_tickets ?t ! j) \<noteq> Disposed"
    then show "(tk_key (lt_tickets ?t ! j), tk_lock (lt_tickets ?t ! j)) \<in> set (lt_locks ?t)"
      using j tableOk_ticket(2) [OF ok, of j] by (cases "j = i") (simp_all add: setStatus_def)
  qed (use tableOk_D(1-3) [OF ok] in simp_all)
  from process_ok [OF this, of ?a] a show ?thesis using i
    by (simp add: disposeLock_def Let_def k_def) (simp add: ident_def setStatus_def map_update)
qed

lemmas dispose_ok = dispose_ok_ident [THEN conjunct1]

lemma getLock_ok:
  assumes ok: "tableOk {} t" and get: "getLock k t = (a, t1)"
  shows "tableOk {k} t1" "(k, a) \<in> set (lt_locks t1)" "settled (ticketsOf t1 a)" "lt_tickets t1 = lt_tickets t"
proof -
  have "tableOk {k} t1 \<and> (k, a) \<in> set (lt_locks t1) \<and> settled (ticketsOf t1 a) \<and> lt_tickets t1 = lt_tickets t"
  proof (cases "mapGet (lt_locks t) k")
    case None
    let ?a = "length (lt_heap t)"
    have t1: "a = ?a" "t1 = t\<lparr>lt_locks := lt_locks t @ [(k, ?a)], lt_heap := lt_heap t @ [newLock]\<rparr>"
      using None get by (auto simp: getLock_def Let_def mapSet_fresh_get)
    have none: "ticketsOf t ?a w st = {}" for w st
      using tableOk_ticket(1) [OF ok] by (fastforce simp: ticketsOf_def)
    have T: "ticketsOf t1 = ticketsOf t" "ident t1 = ident t" by (simp_all add: t1 ticketsOf_def fun_eq_iff ident_def)
    have "k \<notin> set (map fst (lt_locks t))" using None by (simp add: map_of_eq_None_iff)
    moreover have "?a \<notin> snd ` set (lt_locks t)" using tableOk_D(3) [OF ok] by force
    moreover have "counts (ticketsOf t1 b) (lt_heap t1 ! b)" if "b < length (lt_heap t1)" for b
    proof (cases "b = ?a")
      case True
      then show ?thesis by (simp add: T counts_def none, simp add: t1 newLock_def)
    next
      case False
      then show ?thesis using that tableOk_D(4) [OF ok, of b] by (simp add: T, simp add: t1 nth_append)
    qed
    ultimately have "tableOk {k} t1"
      using tableOk_D(1,2) [OF ok] tableOk_D(3,5) [OF ok] tableOk_ticket [OF ok]
      by (intro tableOk_I) (auto simp: T, auto simp: t1 less_Suc_eq)
    then show ?thesis using T none by (simp add: t1 settled_def)
  next
    case (Some b)
    then have "a = b" "t1 = t" using get by (simp_all add: getLock_def)
    then show ?thesis using Some ok by (auto simp: tableOk_def dest: map_of_SomeD)
  qed
  then show "tableOk {k} t1" "(k, a) \<in> set (lt_locks t1)" "settled (ticketsOf t1 a)" "lt_tickets t1 = lt_tickets t" by blast+
qed

lemma newTicket_ok:
  assumes ok: "tableOk {k} t" and a: "(k, a) \<in> set (lt_locks t)" and st: "st \<noteq> Disposed"
    and c: "counts (ticketsOf (newTicket k a w st t) a) (f (lt_heap t ! a))"
    and use: "inUse (ticketsOf (newTicket k a w st t) a)" "settled (ticketsOf (newTicket k a w st t) a)"
  shows "tableOk {} (newTicket k a w st (updateLock a f t))"
proof -
  let ?t = "newTicket k a w st (updateLock a f t)"
  have len: "a < length (lt_heap t)" using ok a by (auto simp: tableOk_def)
  have T: "ticketsOf ?t = ticketsOf (newTicket k a w st t)" by (simp add: ticketsOf_newTicket fun_eq_iff)
  have others: "ticketsOf ?t b = ticketsOf t b" if "b \<noteq> a" for b using that by (simp add: ticketsOf_newTicket fun_eq_iff)
  show ?thesis
    unfolding tableOk_def
  proof (intro conjI)
    show "\<forall>b<length (lt_heap ?t). counts (ticketsOf ?t b) (lt_heap ?t ! b)"
    proof (intro allI impI)
      fix b assume "b < length (lt_heap ?t)"
      then show "counts (ticketsOf ?t b) (lt_heap ?t ! b)" using c ok others len by (cases "b = a") (auto simp: T tableOk_def)
    qed
    show "\<forall>(k', b)\<in>set (lt_locks ?t). k' \<notin> {} \<longrightarrow> inUse (ticketsOf ?t b) \<and> settled (ticketsOf ?t b)"
    proof clarify
      fix k' b assume kb: "(k', b) \<in> set (lt_locks ?t)"
      show "inUse (ticketsOf ?t b) \<and> settled (ticketsOf ?t b)"
      proof (cases "b = a")
        case False
        then have "k' \<noteq> k" using kb a ok by (auto simp: tableOk_def dest: eq_key_imp_eq_value)
        then show ?thesis using kb ok others [OF False] by (auto simp: tableOk_def)
      qed (use use T in simp)
    qed
  qed (use ok a st len in \<open>auto simp: tableOk_def ident_def newTicket_def\<close>)
qed

lemma read_ok:
  assumes ok: "tableOk {} t"
  shows "tableOk {} (readLock k t)"
proof -
  obtain a t1 where get: "getLock k t = (a, t1)" by fastforce
  note g = getLock_ok [OF ok get]
  have c: "counts (ticketsOf t1 a) (lt_heap t1 ! a)" using g(1,2) by (auto simp: tableOk_def)
  show ?thesis
  proof (cases "\<not> lk_writer (lt_heap t1 ! a) \<and> lk_waitingWriters (lt_heap t1 ! a) = []")
    case True
    then have "tableOk {} (newTicket k a False Held (updateLock a (\<lambda>l. l\<lparr>lk_readers := lk_readers l + 1\<rparr>) t1))"
      using c by (intro newTicket_ok g) (auto simp: ticketsOf_newTicket counts_def inUse_def settled_def)
    then show ?thesis using True by (simp add: readLock_def get Let_def)
  next
    case False
    then have busy: "ticketsOf t1 a True Held \<noteq> {} \<or> ticketsOf t1 a True Queued \<noteq> {}" using c by (auto simp: counts_def)
    then have used: "ticketsOf t1 a True Held \<noteq> {} \<or> ticketsOf t1 a False Held \<noteq> {}" using g(3) by (auto simp: settled_def)
    have "tableOk {} (newTicket k a False Queued (updateLock a (\<lambda>l. l\<lparr>lk_waitingReaders := lk_waitingReaders l @ [length (lt_tickets t1)]\<rparr>) t1))"
    proof (intro newTicket_ok g)
      show "counts (ticketsOf (newTicket k a False Queued t1) a)
          ((lt_heap t1 ! a)\<lparr>lk_waitingReaders := lk_waitingReaders (lt_heap t1 ! a) @ [length (lt_tickets t1)]\<rparr>)"
        using c by (auto simp: ticketsOf_newTicket counts_def)
    qed (use used in \<open>auto simp: ticketsOf_newTicket inUse_def settled_def\<close>)
    then show ?thesis using False by (auto simp: readLock_def get Let_def)
  qed
qed

lemma write_ok:
  assumes ok: "tableOk {} t"
  shows "tableOk {} (writeLock k t)"
proof -
  obtain a t1 where get: "getLock k t = (a, t1)" by fastforce
  note g = getLock_ok [OF ok get]
  have c: "counts (ticketsOf t1 a) (lt_heap t1 ! a)" using g(1,2) by (auto simp: tableOk_def)
  show ?thesis
  proof (cases "\<not> lk_writer (lt_heap t1 ! a) \<and> lk_readers (lt_heap t1 ! a) = 0")
    case True
    then have "tableOk {} (newTicket k a True Held (updateLock a (\<lambda>l. l\<lparr>lk_writer := True\<rparr>) t1))"
      using c by (intro newTicket_ok g) (auto simp: ticketsOf_newTicket counts_def inUse_def settled_def)
    then show ?thesis using True by (simp add: writeLock_def get Let_def)
  next
    case False
    then have used: "ticketsOf t1 a True Held \<noteq> {} \<or> ticketsOf t1 a False Held \<noteq> {}" using c by (auto simp: counts_def)
    have "tableOk {} (newTicket k a True Queued (updateLock a (\<lambda>l. l\<lparr>lk_waitingWriters := lk_waitingWriters l @ [length (lt_tickets t1)]\<rparr>) t1))"
    proof (intro newTicket_ok g)
      show "counts (ticketsOf (newTicket k a True Queued t1) a)
          ((lt_heap t1 ! a)\<lparr>lk_waitingWriters := lk_waitingWriters (lt_heap t1 ! a) @ [length (lt_tickets t1)]\<rparr>)"
        using c by (auto simp: ticketsOf_newTicket counts_def)
    qed (use used in \<open>auto simp: ticketsOf_newTicket inUse_def settled_def\<close>)
    then show ?thesis using False by (auto simp: writeLock_def get Let_def)
  qed
qed

section \<open>Runs\<close>

lemma lock_run_ok:
  assumes "tableOk {} t" and "disposesOnce ops t"
  shows "tableOk {} (fold lockStep ops t)"
  using assms
proof (induction ops arbitrary: t)
  case (Cons op ops)
  have "tableOk {} (lockStep op t)" using Cons.prems by (cases op) (auto simp: read_ok write_ok dispose_ok)
  then show ?case using Cons by simp
qed simp

lemma initLocks_ok: "tableOk {} initLocks"
  by (simp add: tableOk_def initLocks_def ident_def)

definition hasStatus :: "lock_table \<Rightarrow> nat \<Rightarrow> ticket_status \<Rightarrow> bool" where
  "hasStatus t i st \<longleftrightarrow> i < length (lt_tickets t) \<and> tk_status (lt_tickets t ! i) = st"

definition ticketKey :: "lock_table \<Rightarrow> nat \<Rightarrow> string" where
  "ticketKey t i = tk_key (lt_tickets t ! i)"

lemma same_lock:
  assumes ok: "tableOk {} t" and "hasStatus t i st" "hasStatus t j st'" and "st \<noteq> Disposed" "st' \<noteq> Disposed"
  shows "ticketKey t i = ticketKey t j \<longleftrightarrow> tk_lock (lt_tickets t ! i) = tk_lock (lt_tickets t ! j)"
  using tableOk_ticket(2) [OF ok, of i] tableOk_ticket(2) [OF ok, of j] tableOk_D(1) [OF ok] tableOk_key [OF ok] assms(2-5)
  by (auto simp: hasStatus_def ticketKey_def dest: eq_key_imp_eq_value)

lemma exclusive:
  assumes ok: "tableOk {} t" and i: "hasStatus t i Held" and j: "hasStatus t j Held" and "i \<noteq> j" and "ticketKey t i = ticketKey t j"
  shows "\<not> tk_write (lt_tickets t ! i)"
proof
  assume w: "tk_write (lt_tickets t ! i)"
  let ?a = "tk_lock (lt_tickets t ! i)" and ?w = "tk_write (lt_tickets t ! j)"
  have "tk_lock (lt_tickets t ! j) = ?a" using same_lock [OF ok i j] assms(5) by simp
  then have "i \<in> ticketsOf t ?a True Held" "j \<in> ticketsOf t ?a ?w Held" using i j w by (simp_all add: ticketsOf_def hasStatus_def)
  moreover have "counts (ticketsOf t ?a) (lt_heap t ! ?a)"
    using tableOk_D(4) [OF ok] tableOk_ticket(1) [OF ok] i by (simp add: hasStatus_def)
  ultimately show False using \<open>i \<noteq> j\<close> by (cases ?w) (auto simp: counts_def card_le_Suc0_iff_eq)
qed

lemma waiting_held:
  assumes ok: "tableOk {} t" and i: "hasStatus t i Queued"
  shows "\<exists>j. hasStatus t j Held \<and> ticketKey t j = ticketKey t i"
proof -
  let ?a = "tk_lock (lt_tickets t ! i)"
  have "(ticketKey t i, ?a) \<in> set (lt_locks t)" using tableOk_ticket(2) [OF ok, of i] i by (simp add: hasStatus_def ticketKey_def)
  then have "inUse (ticketsOf t ?a)" using tableOk_D(5) [OF ok] by blast
  then obtain j w where "j \<in> ticketsOf t ?a w Held" by (auto simp: inUse_def)
  then have j: "hasStatus t j Held" "tk_lock (lt_tickets t ! j) = ?a" by (simp_all add: ticketsOf_def hasStatus_def)
  then show ?thesis using same_lock [OF ok j(1) i] by auto
qed

lemma table_keys:
  assumes ok: "tableOk {} t"
  shows "fst ` set (lt_locks t) = {ticketKey t i | i. \<exists>st. hasStatus t i st \<and> st \<noteq> Disposed}" (is "?l = ?r")
proof
  show "?l \<subseteq> ?r"
  proof
    fix k assume "k \<in> ?l"
    then obtain a where a: "(k, a) \<in> set (lt_locks t)" by auto
    then have "inUse (ticketsOf t a)" using tableOk_D(5) [OF ok] by simp
    then obtain j w where "j \<in> ticketsOf t a w Held" by (auto simp: inUse_def)
    then have j: "hasStatus t j Held" "tk_lock (lt_tickets t ! j) = a" by (simp_all add: ticketsOf_def hasStatus_def)
    then have "(ticketKey t j, a) \<in> set (lt_locks t)" using tableOk_ticket(2) [OF ok, of j] by (simp add: hasStatus_def ticketKey_def)
    then have "ticketKey t j = k" using tableOk_key [OF ok a] by blast
    then show "k \<in> ?r" using j(1) by blast
  qed
  show "?r \<subseteq> ?l" using tableOk_ticket(2) [OF ok] by (force simp: hasStatus_def ticketKey_def)
qed

text \<open>C21: Readers and writers exclude each other. After any run of requests and disposals in which no ticket is disposed twice,
  for every key: a writer holds the lock alone; whoever waits for it waits for somebody who holds it, so no wake-up is
  lost; and the table has a lock object for exactly the keys that somebody holds or waits for.\<close>
theorem rw_lock_excludes:
  assumes "disposesOnce ops initLocks" and "t = fold lockStep ops initLocks"
  shows "(\<forall>i j. hasStatus t i Held \<and> hasStatus t j Held \<and> i \<noteq> j \<and> ticketKey t i = ticketKey t j \<longrightarrow> \<not> tk_write (lt_tickets t ! i)) \<and>
    (\<forall>i. hasStatus t i Queued \<longrightarrow> (\<exists>j. hasStatus t j Held \<and> ticketKey t j = ticketKey t i)) \<and>
    fst ` set (lt_locks t) = {ticketKey t i | i. \<exists>st. hasStatus t i st \<and> st \<noteq> Disposed}"
proof -
  have "tableOk {} t" unfolding assms(2) using initLocks_ok assms(1) by (rule lock_run_ok)
  then show ?thesis using exclusive waiting_held table_keys by blast
qed

definition sampleLockOps :: "lock_op list" where
  "sampleLockOps = [ReadOp ''k'', ReadOp ''k'', WriteOp ''k'', ReadOp ''k'', DisposeOp 0, WriteOp ''m'', DisposeOp 1]"

theorem rw_lock_excludes_witness:
  "let t = fold lockStep sampleLockOps initLocks in
    (\<forall>i j. hasStatus t i Held \<and> hasStatus t j Held \<and> i \<noteq> j \<and> ticketKey t i = ticketKey t j \<longrightarrow> \<not> tk_write (lt_tickets t ! i)) \<and>
    (\<forall>i. hasStatus t i Queued \<longrightarrow> (\<exists>j. hasStatus t j Held \<and> ticketKey t j = ticketKey t i)) \<and>
    fst ` set (lt_locks t) = {ticketKey t i | i. \<exists>st. hasStatus t i st \<and> st \<noteq> Disposed}"
proof -
  have "disposesOnce sampleLockOps initLocks" by code_simp
  from rw_lock_excludes [OF this refl] show ?thesis unfolding Let_def .
qed

section \<open>Everybody is served\<close>

definition undisposed :: "lock_table \<Rightarrow> nat" where
  "undisposed t = length (filter (\<lambda>(k, a, disposed). \<not> disposed) (ident t))"

lemma dispose_ident:
  assumes ok: "tableOk {} t" and i: "hasStatus t i Held"
  shows "ident (disposeLock i t) = (ident t)[i := (tk_key (lt_tickets t ! i), tk_lock (lt_tickets t ! i), True)]"
  using dispose_ok_ident [OF ok] i by (simp add: hasStatus_def)

lemma length_filter_update:
  "i < length xs \<Longrightarrow> P (xs ! i) \<Longrightarrow> \<not> P y \<Longrightarrow> Suc (length (filter P (xs[i := y]))) = length (filter P xs)"
proof (induction xs arbitrary: i)
  case (Cons x xs)
  then show ?case by (cases i) auto
qed simp

lemma dispose_decreases:
  assumes ok: "tableOk {} t" and i: "hasStatus t i Held"
  shows "Suc (undisposed (disposeLock i t)) = undisposed t"
  using i unfolding undisposed_def dispose_ident [OF assms]
  by (intro length_filter_update) (auto simp: hasStatus_def ident_def)

lemma disposals_decrease:
  assumes "tableOk {} t" and "disposesOnce (map DisposeOp ds) t"
  shows "length ds + undisposed (fold disposeLock ds t) = undisposed t"
  using assms
proof (induction ds arbitrary: t)
  case (Cons i ds)
  then have i: "hasStatus t i Held" by (simp add: hasStatus_def)
  have "tableOk {} (disposeLock i t)" using Cons.prems by (simp add: dispose_ok)
  then have "length ds + undisposed (fold disposeLock ds (disposeLock i t)) = undisposed (disposeLock i t)"
    using Cons by simp
  then show ?case using dispose_decreases [OF Cons.prems(1) i] by simp
qed simp

lemma fold_disposals: "fold lockStep (map DisposeOp ds) t = fold disposeLock ds t"
  by (induction ds arbitrary: t) auto

text \<open>Releasing serves everybody. Once no more requests come, any sequence of disposals of held tickets is at most as long as
  the number of tickets not yet disposed, and when it can go no further every ticket has been served and disposed and
  the table of locks is empty.\<close>
theorem rw_lock_serves_all:
  assumes "disposesOnce ops initLocks" and "t = fold lockStep ops initLocks" and "disposesOnce (map DisposeOp ds) t"
  shows "length ds \<le> undisposed t \<and>
    ((\<nexists>i. hasStatus (fold disposeLock ds t) i Held) \<longrightarrow>
      (\<forall>i<length (lt_tickets (fold disposeLock ds t)). hasStatus (fold disposeLock ds t) i Disposed) \<and>
      lt_locks (fold disposeLock ds t) = [])"
proof -
  have ok: "tableOk {} t" unfolding assms(2) using initLocks_ok assms(1) by (rule lock_run_ok)
  let ?u = "fold disposeLock ds t"
  have ok': "tableOk {} ?u" using lock_run_ok [OF ok assms(3)] by (simp add: fold_disposals)
  have "hasStatus ?u i Disposed" if none: "\<nexists>i. hasStatus ?u i Held" and i: "i < length (lt_tickets ?u)" for i
    using waiting_held [OF ok', of i] none i by (cases "tk_status (lt_tickets ?u ! i)") (auto simp: hasStatus_def)
  moreover have "lt_locks ?u = []" if "\<nexists>i. hasStatus ?u i Held"
  proof -
    have "fst ` set (lt_locks ?u) = {}" using table_keys [OF ok'] that waiting_held [OF ok']
      by (auto, metis (full_types) ticket_status.exhaust)
    then show ?thesis by simp
  qed
  ultimately show ?thesis using disposals_decrease [OF ok assms(3)] by auto
qed

theorem rw_lock_serves_all_witness:
  "let t = fold lockStep sampleLockOps initLocks; ds = [2, 3, 4] in
    length ds \<le> undisposed t \<and>
    ((\<nexists>i. hasStatus (fold disposeLock ds t) i Held) \<longrightarrow>
      (\<forall>i<length (lt_tickets (fold disposeLock ds t)). hasStatus (fold disposeLock ds t) i Disposed) \<and>
      lt_locks (fold disposeLock ds t) = [])"
proof -
  have "disposesOnce sampleLockOps initLocks" "disposesOnce (map DisposeOp [2, 3, 4]) (fold lockStep sampleLockOps initLocks)"
    by code_simp+
  from rw_lock_serves_all [OF this(1) refl this(2)] show ?thesis unfolding Let_def .
qed

end
