(* ===== verification/Identifiers.thy ===== *)
theory Identifiers
  imports Prelude "HOL-Library.Char_ord" "HOL-Library.List_Lexorder"
begin

text \<open>
  Sortable identifiers (\<^verbatim>\<open>packages/cli-host/src/id/id.ts\<close>): a prefix, 48 bits of time and counter in hexadecimal and random
  characters.  Strings are ordered by their code units, as JavaScript compares them.  The module's two variables are a
  state; the clock and the random bytes are arguments.
\<close>

section \<open>Identifiers\<close>

datatype id_kind = EventId | SessionId | MessageId | PermissionId | QuestionId | UserId | PartId | PtyId | ToolId | WorkspaceId | EntryId

fun prefixes :: "id_kind \<Rightarrow> string" where
  "prefixes EventId = ''evt''"
| "prefixes SessionId = ''ses''"
| "prefixes MessageId = ''msg''"
| "prefixes PermissionId = ''per''"
| "prefixes QuestionId = ''que''"
| "prefixes UserId = ''usr''"
| "prefixes PartId = ''prt''"
| "prefixes PtyId = ''pty''"
| "prefixes ToolId = ''tool''"
| "prefixes WorkspaceId = ''wrk''"
| "prefixes EntryId = ''ent''"

datatype direction = Ascending | Descending

record id_state =
  ids_lastTimestamp :: int
  ids_counter :: int

definition initIds :: id_state where
  "initIds = \<lparr> ids_lastTimestamp = 0, ids_counter = 0 \<rparr>"

definition id_schema :: "id_kind \<Rightarrow> string \<Rightarrow> bool" where
  "id_schema kind s \<longleftrightarrow> stripPrefix (prefixes kind) s \<noteq> None"

definition base62 :: string where
  "base62 = ''0123456789ABCDEFGHIJKLMNOPQRSTUVWXYZabcdefghijklmnopqrstuvwxyz''"

definition randomBase62 :: "nat list \<Rightarrow> string" where
  "randomBase62 bytes = map (\<lambda>b. base62 ! (b mod 62)) bytes"

definition hexDigit :: "int \<Rightarrow> char" where
  "hexDigit d = (if d < 10 then char_of (48 + nat d) else char_of (87 + nat d))"

text \<open>The six bytes \<^verbatim>\<open>(now >> 40 - 8 * i) & 0xff\<close> in hexadecimal.\<close>

definition timeByte :: "int \<Rightarrow> nat \<Rightarrow> int" where
  "timeByte now i = now div 2 ^ (40 - 8 * i) mod 256"

definition timeHex :: "int \<Rightarrow> string" where
  "timeHex now = concat (map (\<lambda>i. [hexDigit (timeByte now i div 16), hexDigit (timeByte now i mod 16)]) [0..<6])"

text \<open>\<open>random\<close> are the fourteen bytes drawn for the identifier.\<close>

definition create :: "string \<Rightarrow> direction \<Rightarrow> int \<Rightarrow> nat list \<Rightarrow> id_state \<Rightarrow> string \<times> id_state" where
  "create pre dir currentTimestamp random s =
     (let s1 = (if currentTimestamp \<noteq> ids_lastTimestamp s then \<lparr> ids_lastTimestamp = currentTimestamp, ids_counter = 0 \<rparr> else s);
          s2 = s1\<lparr>ids_counter := ids_counter s1 + 1\<rparr>;
          now = currentTimestamp * 0x1000 + ids_counter s2;
          now' = (if dir = Descending then - now - 1 else now) in
      (pre @ ''_'' @ timeHex now' @ randomBase62 random, s2))"

definition wrongPrefix :: "string \<Rightarrow> string \<Rightarrow> string" where
  "wrongPrefix given pre = ''ID '' @ given @ '' does not start with '' @ pre"

definition generateID :: "id_kind \<Rightarrow> direction \<Rightarrow> string option \<Rightarrow> int \<Rightarrow> nat list \<Rightarrow> id_state \<Rightarrow> (string + string) \<times> id_state" where
  "generateID kind dir given clock random s =
     (case given of
        Some g \<Rightarrow>
          if g = [] then (case create (prefixes kind) dir clock random s of (i, s') \<Rightarrow> (Inr i, s'))
          else if stripPrefix (prefixes kind) g = None then (Inl (wrongPrefix g (prefixes kind)), s)
          else (Inr g, s)
      | None \<Rightarrow> (case create (prefixes kind) dir clock random s of (i, s') \<Rightarrow> (Inr i, s')))"

definition ascending :: "id_kind \<Rightarrow> string option \<Rightarrow> int \<Rightarrow> nat list \<Rightarrow> id_state \<Rightarrow> (string + string) \<times> id_state" where
  "ascending kind given clock random s = generateID kind Ascending given clock random s"

definition descending :: "id_kind \<Rightarrow> string option \<Rightarrow> int \<Rightarrow> nat list \<Rightarrow> id_state \<Rightarrow> (string + string) \<times> id_state" where
  "descending kind given clock random s = generateID kind Descending given clock random s"

text \<open>\<^verbatim>\<open>BigInt("0x" + hex)\<close>; \<open>None\<close> is the error it throws.\<close>

definition hexValue :: "char \<Rightarrow> int option" where
  "hexValue c = (let n = of_char c :: nat in
     if 48 \<le> n \<and> n \<le> 57 then Some (int n - 48)
     else if 97 \<le> n \<and> n \<le> 102 then Some (int n - 87)
     else if 65 \<le> n \<and> n \<le> 70 then Some (int n - 55)
     else None)"

fun hexNumber :: "string \<Rightarrow> int \<Rightarrow> int option" where
  "hexNumber [] acc = Some acc"
| "hexNumber (c # cs) acc = (case hexValue c of None \<Rightarrow> None | Some v \<Rightarrow> hexNumber cs (acc * 16 + v))"

definition timestamp :: "string \<Rightarrow> int option" where
  "timestamp i =
     (let pre = takeWhile (\<lambda>c. c \<noteq> CHR ''_'') i; hex = take 12 (drop (length pre + 1) i) in
      if hex = [] then None else map_option (\<lambda>encoded. encoded div 0x1000) (hexNumber hex 0))"

fun createAll :: "string \<Rightarrow> direction \<Rightarrow> (int \<times> nat list) list \<Rightarrow> id_state \<Rightarrow> string list" where
  "createAll pre dir [] s = []"
| "createAll pre dir ((clock, random) # calls) s =
     (case create pre dir clock random s of (i, s') \<Rightarrow> i # createAll pre dir calls s')"

section \<open>Hexadecimal text\<close>

fun hexText :: "nat \<Rightarrow> int \<Rightarrow> string" where
  "hexText 0 n = []"
| "hexText (Suc k) n = hexDigit (n div 16 ^ k mod 16) # hexText k n"

lemma byte_digits: "(n mod 256) div 16 = n div 16 mod 16" "(n mod 256) mod 16 = n mod 16" for n :: int
proof -
  have "n mod (16 * 16) = 16 * (n div 16 mod 16) + n mod 16" by (rule zmod_zmult2_eq) simp
  then show "(n mod 256) div 16 = n div 16 mod 16" by simp
  show "(n mod 256) mod 16 = n mod 16" by (simp add: mod_mod_cancel)
qed

lemma hexText_unfold: "0 < k \<Longrightarrow> hexText k n = hexDigit (n div 16 ^ (k - 1) mod 16) # hexText (k - 1) n"
  by (cases k) simp_all

lemma timeHex_text: "timeHex now = hexText 12 now"
proof -
  have "[0..<6] = [0, 1, 2, 3, 4, 5 :: nat]" by code_simp
  then show ?thesis
    by (simp add: timeHex_def timeByte_def byte_digits zdiv_zmult2_eq [symmetric] hexText_unfold)
qed

lemma length_hexText [simp]: "length (hexText k n) = k"
  by (induction k) simp_all

lemma hexText_mod: "hexText k (n mod 16 ^ k) = hexText k n"
proof -
  have "hexText k (n mod 16 ^ j) = hexText k n" if "k \<le> j" for j
    using that
  proof (induction k)
    case (Suc k)
    have "n mod 16 ^ j div 16 ^ k mod 16 = n div 16 ^ k mod 16"
    proof -
      obtain d where d: "j = k + Suc d" using Suc.prems less_iff_Suc_add [of k j] by auto
      have "n mod (16 ^ k * 16 ^ Suc d) = 16 ^ k * (n div 16 ^ k mod 16 ^ Suc d) + n mod 16 ^ k" by (rule zmod_zmult2_eq) simp
      then have "n mod (16 ^ k * 16 ^ Suc d) div 16 ^ k = n div 16 ^ k mod 16 ^ Suc d" by (simp del: power_Suc)
      moreover have "(16 :: int) ^ j = 16 ^ k * 16 ^ Suc d" by (simp add: d power_add)
      ultimately have "n mod 16 ^ j div 16 ^ k = n div 16 ^ k mod 16 ^ Suc d" by (simp only:)
      then show ?thesis by (simp add: mod_mod_cancel)
    qed
    then show ?case using Suc by simp
  qed simp
  then show ?thesis by simp
qed

lemma hexDigit_value: "0 \<le> d \<Longrightarrow> d < 16 \<Longrightarrow> hexValue (hexDigit d) = Some d"
  by (auto simp: hexValue_def hexDigit_def Let_def)

lemma hexDigit_less: "0 \<le> d \<Longrightarrow> d < e \<Longrightarrow> e < 16 \<Longrightarrow> hexDigit d < hexDigit e"
  by (auto simp: hexDigit_def less_char_def)

lemma hexNumber_text: "hexNumber (hexText k n) acc = Some (acc * 16 ^ k + n mod 16 ^ k)"
proof (induction k arbitrary: acc)
  case (Suc k)
  have "n mod (16 ^ k * 16) = 16 ^ k * (n div 16 ^ k mod 16) + n mod 16 ^ k" by (rule zmod_zmult2_eq) simp
  then show ?case using Suc by (simp add: hexDigit_value algebra_simps)
qed simp

lemma leading_digit: "0 \<le> n \<Longrightarrow> n < 16 * 16 ^ k \<Longrightarrow> 0 \<le> n div 16 ^ k \<and> n div 16 ^ k < 16" for n :: int
proof -
  assume n: "0 \<le> n" "n < 16 * 16 ^ k"
  have "0 \<le> n mod 16 ^ k" by simp
  then have "n div 16 ^ k * 16 ^ k \<le> n" using div_mult_mod_eq [of n "16 ^ k"] by linarith
  then have "n div 16 ^ k * 16 ^ k < 16 * 16 ^ k" using n(2) by linarith
  then show ?thesis using n(1) by (simp add: pos_imp_zdiv_nonneg_iff)
qed

lemma hexText_less:
  "0 \<le> m \<Longrightarrow> m < n \<Longrightarrow> n < 16 ^ k \<Longrightarrow> hexText k m @ x < hexText k n @ y"
proof (induction k arbitrary: m n)
  case (Suc k)
  have bounds: "0 \<le> m div 16 ^ k" "m div 16 ^ k < 16" "0 \<le> n div 16 ^ k" "n div 16 ^ k < 16"
    using leading_digit [of m k] leading_digit [of n k] Suc.prems by simp_all
  then have digits: "m div 16 ^ k mod 16 = m div 16 ^ k" "n div 16 ^ k mod 16 = n div 16 ^ k" by simp_all
  have le: "m div 16 ^ k \<le> n div 16 ^ k" using Suc.prems by (simp add: zdiv_mono1)
  show ?case
  proof (cases "m div 16 ^ k = n div 16 ^ k")
    case True
    then have "m mod 16 ^ k < n mod 16 ^ k" using Suc.prems(2) by (metis add_less_cancel_left div_mult_mod_eq mult.commute)
    then have "hexText k (m mod 16 ^ k) @ x < hexText k (n mod 16 ^ k) @ y" by (intro Suc.IH) simp_all
    then show ?thesis using True by (simp add: hexText_mod)
  next
    case False
    then have "hexDigit (m div 16 ^ k) < hexDigit (n div 16 ^ k)" using le bounds by (intro hexDigit_less) auto
    then show ?thesis by (simp add: digits)
  qed
qed simp

section \<open>Time stamps\<close>

lemma create_parts:
  assumes "create pre dir clock random s = (i, s')"
  shows "ids_lastTimestamp s' = clock"
    and "ids_counter s' = (if clock = ids_lastTimestamp s then ids_counter s + 1 else 1)"
    and "i = pre @ ''_'' @ hexText 12 (if dir = Descending then - (clock * 0x1000 + ids_counter s') - 1 else clock * 0x1000 + ids_counter s')
      @ randomBase62 random"
  using assms by (auto simp: create_def Let_def timeHex_text algebra_simps)

lemma timestamp_text:
  assumes "CHR ''_'' \<notin> set pre"
  shows "timestamp (pre @ ''_'' @ hexText 12 n @ r) = Some (n mod 2 ^ 48 div 0x1000)"
proof -
  have p: "takeWhile (\<lambda>c. c \<noteq> CHR ''_'') (pre @ ''_'' @ hexText 12 n @ r) = pre"
    using assms by (subst takeWhile_append2) auto
  have ne: "hexText 12 n \<noteq> []" using length_hexText [of 12 n] by (metis list.size(3) zero_neq_numeral)
  have hex: "take 12 (drop (length pre + 1) (pre @ ''_'' @ hexText 12 n @ r)) = hexText 12 n" by simp
  have "hexNumber (hexText 12 n) 0 = Some (n mod 2 ^ 48)" using hexNumber_text [of 12 n 0] by simp
  then show ?thesis by (simp only: timestamp_def p Let_def hex ne if_False option.map)
qed

text \<open>What the time stamp of an identifier is: for an ascending identifier made at a non-negative clock, with fewer than 4096
  identifiers made in that millisecond, reading its time stamp gives the clock modulo two to the 36, because only 48 bits are kept;
  so it is the clock exactly for clocks below two to the 36.\<close>
theorem identifier_timestamp_wraps:
  assumes "create pre Ascending clock random s = (i, s')" and "CHR ''_'' \<notin> set pre"
    and "0 \<le> clock" and "0 \<le> ids_counter s" and "ids_counter s' < 4096"
  shows "timestamp i = Some (clock mod 2 ^ 36) \<and> (timestamp i = Some clock \<longleftrightarrow> clock < 2 ^ 36)"
proof -
  have c: "0 \<le> ids_counter s'" using create_parts(2) [OF assms(1)] assms(4) by (auto split: if_splits)
  have "timestamp i = Some ((clock * 0x1000 + ids_counter s') mod 2 ^ 48 div 0x1000)"
    using create_parts(3) [OF assms(1)] timestamp_text [OF assms(2)] by simp
  moreover have "(clock * 4096 + ids_counter s') mod (4096 * 2 ^ 36) =
      4096 * ((clock * 4096 + ids_counter s') div 4096 mod 2 ^ 36) + (clock * 4096 + ids_counter s') mod 4096"
    by (rule zmod_zmult2_eq) simp
  moreover have "(clock * 4096 + ids_counter s') div 4096 = clock" using c assms(5) by simp
  ultimately have t: "timestamp i = Some (clock mod 2 ^ 36)" by simp
  have "clock mod 2 ^ 36 < 2 ^ 36" by simp
  then have "clock mod 2 ^ 36 = clock \<longleftrightarrow> clock < 2 ^ 36" using assms(3) by (metis mod_pos_pos_trivial)
  with t show ?thesis by simp
qed

definition sampleRandom :: "nat list" where
  "sampleRandom = replicate 14 0"

theorem identifier_timestamp_wraps_witness:
  "timestamp (fst (create ''msg'' Ascending 1786706395136 sampleRandom initIds)) = Some 0"
proof -
  obtain i s' where i: "create ''msg'' Ascending 1786706395136 sampleRandom initIds = (i, s')" by fastforce
  have "ids_counter s' = 1" using create_parts(2) [OF i] by (simp add: initIds_def)
  then have "timestamp i = Some (1786706395136 mod 2 ^ 36)"
    using identifier_timestamp_wraps [OF i] by (simp add: initIds_def)
  then show ?thesis by (simp add: i)
qed

section \<open>Order\<close>

definition nowOf :: "id_state \<Rightarrow> int" where
  "nowOf s = ids_lastTimestamp s * 0x1000 + ids_counter s"

lemma mod_complement: "0 < b \<Longrightarrow> (- n - 1) mod b = b - 1 - n mod b" for b n :: int
proof -
  assume b: "0 < b"
  have "- n - 1 = b * (- (n div b) - 1) + (b - 1 - n mod b)"
    using mult_div_mod_eq [of b n] by (simp add: algebra_simps)
  moreover have "0 \<le> n mod b" "n mod b < b" using b by simp_all
  ultimately show ?thesis by (intro int_mod_pos_eq) auto
qed

lemma hexText_window:
  assumes "m < n" and "m div 16 ^ k = n div 16 ^ k"
  shows "hexText k m @ x < hexText k n @ y" "hexText k (- n - 1) @ x < hexText k (- m - 1) @ y"
proof -
  have "m mod 16 ^ k < n mod 16 ^ k" using assms by (metis add_less_cancel_left div_mult_mod_eq)
  moreover from this have "(- n - 1) mod 16 ^ k < (- m - 1) mod 16 ^ k" by (simp add: mod_complement)
  ultimately show "hexText k m @ x < hexText k n @ y" "hexText k (- n - 1) @ x < hexText k (- m - 1) @ y"
    using hexText_less [of "m mod 16 ^ k" "n mod 16 ^ k" k x y] hexText_less [of "(- n - 1) mod 16 ^ k" "(- m - 1) mod 16 ^ k" k x y]
    by (simp_all add: hexText_mod)
qed

lemma create_order:
  assumes "create pre dir clock random s = (i, s')" and "create pre dir clock' random' u = (i', u')"
    and "nowOf s' < nowOf u'" and "nowOf s' div 2 ^ 48 = nowOf u' div 2 ^ 48"
  shows "if dir = Descending then i' < i else i < i'"
proof -
  have "(16 :: int) ^ 12 = 2 ^ 48" by simp
  then have w: "hexText 12 (nowOf s') @ x < hexText 12 (nowOf u') @ y" "hexText 12 (- nowOf u' - 1) @ y < hexText 12 (- nowOf s' - 1) @ x" for x y
    using hexText_window [of "nowOf s'" "nowOf u'" 12] assms(3,4) by simp_all
  have "nowOf s' = clock * 0x1000 + ids_counter s'" "nowOf u' = clock' * 0x1000 + ids_counter u'"
    using create_parts(1) [OF assms(1)] create_parts(1) [OF assms(2)] by (simp_all add: nowOf_def)
  then have "i = pre @ ''_'' @ hexText 12 (if dir = Descending then - nowOf s' - 1 else nowOf s') @ randomBase62 random"
      "i' = pre @ ''_'' @ hexText 12 (if dir = Descending then - nowOf u' - 1 else nowOf u') @ randomBase62 random'"
    using create_parts(3) [OF assms(1)] create_parts(3) [OF assms(2)] by simp_all
  moreover have "p @ a < p @ b \<longleftrightarrow> a < b" for p a b :: string by (induction p) simp_all
  ultimately show ?thesis using w by simp
qed

text \<open>The calls of \<open>create\<close> that follow a state: the clock never goes back, no millisecond has more than 4095 of them.\<close>

definition clocksOk :: "int list \<Rightarrow> id_state \<Rightarrow> bool" where
  "clocksOk clocks s \<longleftrightarrow> sorted (ids_lastTimestamp s # clocks) \<and> 0 \<le> ids_counter s \<and>
     (\<forall>c. int (count_list clocks c) + (if c = ids_lastTimestamp s then ids_counter s else 0) \<le> 4095)"

lemma clocksOk_step:
  assumes "clocksOk (clock # clocks) s" and "create pre dir clock random s = (i, s')"
  shows "clocksOk clocks s'" "nowOf s < nowOf s'" "1 \<le> ids_counter s'" "ids_counter s' \<le> 4095"
proof -
  note c = create_parts(1,2) [OF assms(2)]
  have count: "int (count_list (clock # clocks) k) + (if k = ids_lastTimestamp s then ids_counter s else 0) \<le> 4095" for k
    using assms(1) by (simp add: clocksOk_def)
  have le: "ids_lastTimestamp s \<le> clock" "0 \<le> ids_counter s" using assms(1) by (simp_all add: clocksOk_def)
  have old: "ids_counter s \<le> 4095" using count [of "ids_lastTimestamp s"] by simp
  show "1 \<le> ids_counter s'" "ids_counter s' \<le> 4095" using c le count [of clock] by (auto split: if_splits)
  show "nowOf s < nowOf s'"
  proof (cases "clock = ids_lastTimestamp s")
    case False
    then have "ids_lastTimestamp s + 1 \<le> clock" using le by simp
    then show ?thesis using c old False by (simp add: nowOf_def)
  qed (use c in \<open>simp add: nowOf_def\<close>)
  have "int (count_list clocks k) + (if k = clock then ids_counter s' else 0) \<le> 4095" for k
    using count [of k] c le by (auto split: if_splits)
  then show "clocksOk clocks s'" using assms(1) c le by (auto simp: clocksOk_def)
qed

lemma created_after:
  assumes "clocksOk (map fst calls) s" and "i' \<in> set (createAll pre dir calls s)"
  shows "\<exists>clock random u u'. create pre dir clock random u = (i', u') \<and> nowOf s < nowOf u' \<and> clock \<in> set (map fst calls) \<and> ids_counter u' \<le> 4095 \<and> 1 \<le> ids_counter u'"
  using assms
proof (induction calls arbitrary: s)
  case (Cons call calls)
  obtain clock random where call: "call = (clock, random)" by (cases call)
  obtain i s' where i: "create pre dir clock random s = (i, s')" by fastforce
  have step: "clocksOk (map fst calls) s'" "nowOf s < nowOf s'" "1 \<le> ids_counter s'" "ids_counter s' \<le> 4095"
    using clocksOk_step [OF _ i] Cons.prems(1) call by simp_all
  show ?case
  proof (cases "i' = i")
    case True
    then show ?thesis using i step call by auto
  next
    case False
    then have "i' \<in> set (createAll pre dir calls s')" using Cons.prems(2) by (simp add: call i)
    from Cons.IH [OF step(1) this] step(2) show ?thesis by (fastforce intro: less_trans)
  qed
qed simp

lemma window_of_clock: "1 \<le> c \<Longrightarrow> c \<le> 4095 \<Longrightarrow> (clock * 0x1000 + c) div 2 ^ 48 = clock div 2 ^ 36" for c clock :: int
proof -
  assume "1 \<le> c" "c \<le> 4095"
  then have "(clock * 4096 + c) div 4096 = clock" by simp
  moreover have "(clock * 4096 + c) div (4096 * 2 ^ 36) = (clock * 4096 + c) div 4096 div 2 ^ 36" by (rule zdiv_zmult2_eq) simp
  ultimately show ?thesis by simp
qed

text \<open>C23: Identifiers are made in order: as long as the clock does not go back, no millisecond makes more than 4095 of them and
  the clocks lie between two multiples of two to the 36, ascending identifiers of a kind are strictly increasing as
  strings and descending ones strictly decreasing, whatever the random characters are.\<close>
theorem identifiers_in_order:
  assumes "clocksOk (map fst calls) s" and "\<forall>clock\<in>set (map fst calls). clock div 2 ^ 36 = w"
  shows "sorted_wrt (if dir = Descending then (>) else (<)) (createAll pre dir calls s)"
  using assms
proof (induction calls arbitrary: s)
  case (Cons call calls)
  obtain clock random where call: "call = (clock, random)" by (cases call)
  obtain i s' where i: "create pre dir clock random s = (i, s')" by fastforce
  have step: "clocksOk (map fst calls) s'" "1 \<le> ids_counter s'" "ids_counter s' \<le> 4095"
    using clocksOk_step [OF _ i] Cons.prems(1) call by simp_all
  have "if dir = Descending then i' < i else i < i'" if later: "i' \<in> set (createAll pre dir calls s')" for i'
  proof -
    obtain clock' random' u u' where u: "create pre dir clock' random' u = (i', u')" "nowOf s' < nowOf u'" "clock' \<in> set (map fst calls)"
        "ids_counter u' \<le> 4095" "1 \<le> ids_counter u'" using created_after [OF step(1) later] by blast
    have "nowOf s' div 2 ^ 48 = clock div 2 ^ 36" "nowOf u' div 2 ^ 48 = clock' div 2 ^ 36"
      using window_of_clock step u create_parts(1) [OF i] create_parts(1) [OF u(1)] by (simp_all add: nowOf_def)
    then have "nowOf s' div 2 ^ 48 = nowOf u' div 2 ^ 48" using Cons.prems(2) u(3) call by auto
    from create_order [OF i u(1,2) this] show ?thesis .
  qed
  moreover have "sorted_wrt (if dir = Descending then (>) else (<)) (createAll pre dir calls s')"
    using Cons step(1) by simp
  ultimately show ?case by (auto simp: call i)
qed simp

definition sampleCalls :: "(int \<times> nat list) list" where
  "sampleCalls = [(1760000000000, replicate 14 61), (1760000000000, sampleRandom), (1760000000001, sampleRandom)]"

theorem identifiers_in_order_witness:
  "sorted_wrt (<) (createAll ''msg'' Ascending sampleCalls initIds)"
proof -
  have "clocksOk (map fst sampleCalls) initIds" by (auto simp: clocksOk_def sampleCalls_def initIds_def)
  moreover have "\<forall>clock\<in>set (map fst sampleCalls). clock div 2 ^ 36 = 25" by (simp add: sampleCalls_def)
  ultimately show ?thesis using identifiers_in_order [of sampleCalls initIds 25 Ascending "''msg''"] by simp
qed

text \<open>The order wraps: an identifier made at the clock 1786706395136 (a multiple of two to the 36, in August 2026) sorts before
  one made a millisecond earlier, whatever the random characters are.\<close>
theorem identifier_order_wraps:
  "\<exists>earlier later. createAll ''msg'' Ascending [(1786706395135, random), (1786706395136, random')] initIds = [earlier, later] \<and> later < earlier"
proof -
  obtain i s i' s' where i: "create ''msg'' Ascending 1786706395135 random initIds = (i, s)"
    and i': "create ''msg'' Ascending 1786706395136 random' s = (i', s')" by fastforce
  have c: "ids_counter s = 1" "ids_counter s' = 1"
    using create_parts(1,2) [OF i] create_parts(2) [OF i'] by (simp_all add: initIds_def)
  have wrap: "(1786706395136 * 4096 + 1) mod 16 ^ 12 = (1 :: int)" "(1786706395135 * 4096 + 1) mod 16 ^ 12 = (281474976706561 :: int)" by simp_all
  have "hexText 12 1 @ x < hexText 12 281474976706561 @ y" for x y by (rule hexText_less) simp_all
  then have "hexText 12 (1786706395136 * 4096 + 1) @ x < hexText 12 (1786706395135 * 4096 + 1) @ y" for x y
    using hexText_mod [of 12 "1786706395136 * 4096 + 1"] hexText_mod [of 12 "1786706395135 * 4096 + 1"] unfolding wrap by metis
  then have "i' < i" using create_parts(3) [OF i] create_parts(3) [OF i'] c by simp
  then show ?thesis by (simp add: i i')
qed

end
