(* ===== verification/Edit_Tool.thy ===== *)
theory Edit_Tool
  imports Patch Wildcard
begin

text \<open>
  The edit tool (\<^verbatim>\<open>packages/cli-host/src/tool/edit.ts\<close>): the replacers that look for the text to replace, from the exact to the
  loosest, and \<open>replace\<close> that applies the first candidate with a single occurrence.  A generator is the list of what it
  yields; the one that may yield forever is a partial function.  Similarities are doubles: \<open>fl\<close> rounds the result of
  an arithmetic operation, and the theorems hold for every such rounding.
\<close>

section \<open>Strings\<close>

definition cr :: char where
  "cr = CHR 0x0D"

text \<open>\<^verbatim>\<open>indexOf(s, start)\<close>, \<^verbatim>\<open>lastIndexOf\<close>, \<^verbatim>\<open>includes\<close> and \<^verbatim>\<open>substring\<close>; \<open>None\<close> is \<open>-1\<close>.\<close>

definition indexOf :: "string \<Rightarrow> string \<Rightarrow> nat \<Rightarrow> nat option" where
  "indexOf content s start = find (\<lambda>n. startsWith (drop n content) s) [min start (length content)..<Suc (length content)]"

definition lastIndexOf :: "string \<Rightarrow> string \<Rightarrow> nat option" where
  "lastIndexOf content s = find (\<lambda>n. startsWith (drop n content) s) (rev [0..<Suc (length content)])"

definition includesText :: "string \<Rightarrow> string \<Rightarrow> bool" where
  "includesText content s \<longleftrightarrow> indexOf content s 0 \<noteq> None"

definition substring :: "string \<Rightarrow> nat \<Rightarrow> nat \<Rightarrow> string" where
  "substring s a b = take (b - a) (drop a s)"

text \<open>The substitution patterns of a replacement text that is a string.\<close>

fun getSubstitution :: "string \<Rightarrow> string \<Rightarrow> string \<Rightarrow> string \<Rightarrow> string" where
  "getSubstitution matched before behind [] = []"
| "getSubstitution matched before behind [c] = [c]"
| "getSubstitution matched before behind (c # d # t) =
     (if c = CHR ''$'' \<and> d = CHR ''$'' then CHR ''$'' # getSubstitution matched before behind t
      else if c = CHR ''$'' \<and> d = CHR ''&'' then matched @ getSubstitution matched before behind t
      else if c = CHR ''$'' \<and> d = CHR 0x60 then before @ getSubstitution matched before behind t
      else if c = CHR ''$'' \<and> d = CHR 0x27 then behind @ getSubstitution matched before behind t
      else c # getSubstitution matched before behind (d # t))"

text \<open>\<^verbatim>\<open>content.replaceAll(search, newString)\<close>; the last two arguments are what is done and what is left.\<close>

function replaceAllFrom :: "string \<Rightarrow> string \<Rightarrow> string \<Rightarrow> string \<Rightarrow> string" where
  "replaceAllFrom search newString before rest =
     (if startsWith rest search then
        getSubstitution search before (drop (length search) rest) newString @
        (if search = [] then (case rest of [] \<Rightarrow> [] | c # cs \<Rightarrow> c # replaceAllFrom search newString (before @ [c]) cs)
         else replaceAllFrom search newString (before @ search) (drop (length search) rest))
      else (case rest of [] \<Rightarrow> [] | c # cs \<Rightarrow> c # replaceAllFrom search newString (before @ [c]) cs))"
  by pat_completeness auto
termination
proof (relation "measure (\<lambda>(search, _, _, rest). length rest)")
  fix search newString before rest :: string assume "startsWith rest search" "search \<noteq> []"
  then have "0 < length search" "length search \<le> length rest"
    by (simp_all add: startsWith_def) (metis length_take min.cobounded1)
  then have "length rest - length search < length rest" by linarith
  then show "((search, newString, before @ search, drop (length search) rest), search, newString, before, rest)
      \<in> measure (\<lambda>(search, _, _, rest). length rest)" by simp
qed auto

declare replaceAllFrom.simps [simp del]

definition replaceAll :: "string \<Rightarrow> string \<Rightarrow> string \<Rightarrow> string" where
  "replaceAll content search newString = replaceAllFrom search newString [] content"

section \<open>Line endings\<close>

fun normalizeLineEndings :: "string \<Rightarrow> string" where
  "normalizeLineEndings (c # d # t) =
     (if c = cr \<and> d = lf then lf # normalizeLineEndings t else c # normalizeLineEndings (d # t))"
| "normalizeLineEndings t = t"

definition detectLineEnding :: "string \<Rightarrow> string" where
  "detectLineEnding t = (if includesText t [cr, lf] then [cr, lf] else [lf])"

definition convertToLineEnding :: "string \<Rightarrow> string \<Rightarrow> string" where
  "convertToLineEnding t ending = (if ending = [lf] then t else concat (map (\<lambda>c. if c = lf then [cr, lf] else [c]) t))"

section \<open>Distance\<close>

text \<open>The cells of a row of the matrix after the first, from the row above; \<open>left\<close> is the cell before.\<close>

fun levCells :: "char \<Rightarrow> string \<Rightarrow> nat list \<Rightarrow> nat \<Rightarrow> nat list" where
  "levCells c (d # ds) (diag # up # ups) left =
     (let cell = min (min (up + 1) (left + 1)) (diag + (if c = d then 0 else 1)) in cell # levCells c ds (up # ups) cell)"
| "levCells c ds prev left = []"

fun levRows :: "string \<Rightarrow> string \<Rightarrow> nat \<Rightarrow> nat list \<Rightarrow> nat list" where
  "levRows [] b i row = row"
| "levRows (c # a) b i row = levRows a b (Suc i) (Suc i # levCells c b row (Suc i))"

definition levenshtein :: "string \<Rightarrow> string \<Rightarrow> nat" where
  "levenshtein a b =
     (if a = [] \<or> b = [] then max (length a) (length b)
      else last (levRows a b 0 [0..<Suc (length b)]))"

section \<open>Replacers\<close>

definition popEmpty :: "string list \<Rightarrow> string list" where
  "popEmpty ls = (if ls \<noteq> [] \<and> last ls = [] then butlast ls else ls)"

text \<open>The text from the start of a line to the end of the block of \<open>n\<close> lines that starts there.\<close>

definition lineOffset :: "string list \<Rightarrow> nat \<Rightarrow> nat" where
  "lineOffset lines i = sum_list (map (\<lambda>l. length l + 1) (take i lines))"

definition blockText :: "string \<Rightarrow> string list \<Rightarrow> nat \<Rightarrow> nat \<Rightarrow> string" where
  "blockText content lines i n =
     (let start = lineOffset lines i; lens = map length (take n (drop i lines)) in
      substring content start (start + sum_list lens + (n - 1)))"

definition SimpleReplacer :: "string \<Rightarrow> string \<Rightarrow> string list" where
  "SimpleReplacer content oldText = [oldText]"

definition trimmedAt :: "string list \<Rightarrow> string list \<Rightarrow> nat \<Rightarrow> bool" where
  "trimmedAt lines search i \<longleftrightarrow> list_all2 (\<lambda>a b. trim a = trim b) (take (length search) (drop i lines)) search"

definition LineTrimmedReplacer :: "string \<Rightarrow> string \<Rightarrow> string list" where
  "LineTrimmedReplacer content oldText =
     (let originalLines = splitLines content; searchLines = popEmpty (splitLines oldText); n = length searchLines in
      map (\<lambda>i. blockText content originalLines i n)
        (filter (trimmedAt originalLines searchLines) [0..<Suc (length originalLines) - n]))"

text \<open>The candidates of the block anchors: a line that agrees with the first line, the first line after the next one that
  agrees with the last.\<close>

definition anchorEnd :: "string list \<Rightarrow> string \<Rightarrow> nat \<Rightarrow> nat option" where
  "anchorEnd lines lastLine i = List.find (\<lambda>j. trim (lines ! j) = lastLine) [i + 2..<length lines]"

definition anchorCandidates :: "string list \<Rightarrow> string \<Rightarrow> string \<Rightarrow> (nat \<times> nat) list" where
  "anchorCandidates lines firstLine lastLine =
     concat (map (\<lambda>i. if trim (lines ! i) = firstLine
         then (case anchorEnd lines lastLine i of Some j \<Rightarrow> [(i, j)] | None \<Rightarrow> []) else []) [0..<length lines])"

definition middlePairs :: "string list \<Rightarrow> string list \<Rightarrow> nat \<times> nat \<Rightarrow> (string \<times> string) list" where
  "middlePairs lines search candidate =
     (case candidate of (startLine, endLine) \<Rightarrow>
        map (\<lambda>j. (trim (lines ! (startLine + j)), trim (search ! j)))
          [1..<min (length search - 1) (endLine - startLine)])"

definition linesToCheck :: "string list \<Rightarrow> nat \<times> nat \<Rightarrow> int" where
  "linesToCheck search candidate =
     (case candidate of (startLine, endLine) \<Rightarrow> min (int (length search) - 2) (int (endLine - startLine + 1) - 2))"

definition lineSimilarity :: "(rat \<Rightarrow> rat) \<Rightarrow> string \<Rightarrow> string \<Rightarrow> rat" where
  "lineSimilarity fl originalLine searchLine =
     fl (1 - fl (of_nat (levenshtein originalLine searchLine) / of_nat (max (length originalLine) (length searchLine))))"

definition SINGLE_CANDIDATE_SIMILARITY_THRESHOLD :: rat where
  "SINGLE_CANDIDATE_SIMILARITY_THRESHOLD = 0"

definition MULTIPLE_CANDIDATES_SIMILARITY_THRESHOLD :: "(rat \<Rightarrow> rat) \<Rightarrow> rat" where
  "MULTIPLE_CANDIDATES_SIMILARITY_THRESHOLD fl = fl (3 / 10)"

fun singleSimilarity :: "(rat \<Rightarrow> rat) \<Rightarrow> int \<Rightarrow> (string \<times> string) list \<Rightarrow> rat \<Rightarrow> rat" where
  "singleSimilarity fl n [] similarity = similarity"
| "singleSimilarity fl n ((ol, sl) # pairs) similarity =
     (if max (length ol) (length sl) = 0 then singleSimilarity fl n pairs similarity
      else (let similarity' = fl (similarity + fl (lineSimilarity fl ol sl / of_int n)) in
            if similarity' \<ge> SINGLE_CANDIDATE_SIMILARITY_THRESHOLD then similarity' else singleSimilarity fl n pairs similarity'))"

fun totalSimilarity :: "(rat \<Rightarrow> rat) \<Rightarrow> (string \<times> string) list \<Rightarrow> rat \<Rightarrow> rat" where
  "totalSimilarity fl [] similarity = similarity"
| "totalSimilarity fl ((ol, sl) # pairs) similarity =
     totalSimilarity fl pairs (if max (length ol) (length sl) = 0 then similarity else fl (similarity + lineSimilarity fl ol sl))"

definition averageSimilarity :: "(rat \<Rightarrow> rat) \<Rightarrow> string list \<Rightarrow> string list \<Rightarrow> nat \<times> nat \<Rightarrow> rat" where
  "averageSimilarity fl lines search candidate =
     (let n = linesToCheck search candidate in
      if n > 0 then fl (totalSimilarity fl (middlePairs lines search candidate) 0 / of_int n) else 1)"

fun bestCandidate :: "((nat \<times> nat) \<Rightarrow> rat) \<Rightarrow> (nat \<times> nat) list \<Rightarrow> rat \<Rightarrow> (nat \<times> nat) option \<Rightarrow> rat \<times> (nat \<times> nat) option" where
  "bestCandidate sim [] maxSimilarity best = (maxSimilarity, best)"
| "bestCandidate sim (candidate # candidates) maxSimilarity best =
     (if sim candidate > maxSimilarity then bestCandidate sim candidates (sim candidate) (Some candidate)
      else bestCandidate sim candidates maxSimilarity best)"

definition BlockAnchorReplacer :: "(rat \<Rightarrow> rat) \<Rightarrow> string \<Rightarrow> string \<Rightarrow> string list" where
  "BlockAnchorReplacer fl content oldText =
     (let originalLines = splitLines content; allSearchLines = splitLines oldText; searchLines = popEmpty allSearchLines;
          candidates = anchorCandidates originalLines (trim (hd searchLines)) (trim (last searchLines));
          block = (\<lambda>(startLine, endLine). blockText content originalLines startLine (endLine - startLine + 1)) in
      if length allSearchLines < 3 then []
      else case candidates of
        [] \<Rightarrow> []
      | [candidate] \<Rightarrow>
          (let n = linesToCheck searchLines candidate;
               similarity = (if n > 0 then singleSimilarity fl n (middlePairs originalLines searchLines candidate) 0 else 1) in
           if similarity \<ge> SINGLE_CANDIDATE_SIMILARITY_THRESHOLD then [block candidate] else [])
      | _ \<Rightarrow>
          (case bestCandidate (averageSimilarity fl originalLines searchLines) candidates (- 1) None of
             (maxSimilarity, Some candidate) \<Rightarrow>
               if maxSimilarity \<ge> MULTIPLE_CANDIDATES_SIMILARITY_THRESHOLD fl then [block candidate] else []
           | (_, None) \<Rightarrow> []))"

text \<open>\<^verbatim>\<open>text.replace(/\s+/g, " ").trim()\<close>.\<close>

fun collapseWhite :: "string \<Rightarrow> string" where
  "collapseWhite [] = []"
| "collapseWhite (c # t) =
     (if isWhite c then (case t of d # _ \<Rightarrow> if isWhite d then collapseWhite t else CHR '' '' # collapseWhite t | [] \<Rightarrow> '' '')
      else c # collapseWhite t)"

definition normalizeWhitespace :: "string \<Rightarrow> string" where
  "normalizeWhitespace s = trim (collapseWhite s)"

text \<open>The expression of the words joined by \<^verbatim>\<open>\s+\<close> at the start of a text: what it matches.  A word does not start with white
  space, so the white space before it is matched as a whole.\<close>

fun matchWords :: "string list \<Rightarrow> string \<Rightarrow> string option" where
  "matchWords [] s = Some []"
| "matchWords [w] s = map_option (\<lambda>_. w) (stripPrefix w s)"
| "matchWords (w # ws) s =
     (case stripPrefix w s of
        None \<Rightarrow> None
      | Some s' \<Rightarrow>
          (let white = takeWhile isWhite s' in
           if white = [] then None else map_option (\<lambda>m. w @ white @ m) (matchWords ws (dropWhile isWhite s'))))"

fun firstMatch :: "string list \<Rightarrow> string \<Rightarrow> string option" where
  "firstMatch ws [] = matchWords ws []"
| "firstMatch ws (c # s) = (case matchWords ws (c # s) of Some m \<Rightarrow> Some m | None \<Rightarrow> firstMatch ws s)"

definition windowsOf :: "string list \<Rightarrow> nat \<Rightarrow> string list" where
  "windowsOf lines n = map (\<lambda>i. join [lf] (take n (drop i lines))) [0..<Suc (length lines) - n]"

definition WhitespaceNormalizedReplacer :: "string \<Rightarrow> string \<Rightarrow> string list" where
  "WhitespaceNormalizedReplacer content oldText =
     (let normalizedFind = normalizeWhitespace oldText; lines = splitLines content; findLines = splitLines oldText in
      concat (map (\<lambda>line.
          if normalizeWhitespace line = normalizedFind then [line]
          else if includesText (normalizeWhitespace line) normalizedFind
          then (case firstMatch (splitWhite (trim oldText)) line of Some m \<Rightarrow> [m] | None \<Rightarrow> [])
          else []) lines) @
      (if length findLines > 1
       then filter (\<lambda>block. normalizeWhitespace block = normalizedFind) (windowsOf lines (length findLines))
       else []))"

definition removeIndentation :: "string \<Rightarrow> string" where
  "removeIndentation t =
     (let lines = splitLines t; nonEmptyLines = filter (\<lambda>line. length (trim line) > 0) lines in
      case map (\<lambda>line. length (takeWhile isWhite line)) nonEmptyLines of
        [] \<Rightarrow> t
      | i # is \<Rightarrow>
          (let minIndent = fold min is i in
           join [lf] (map (\<lambda>line. if length (trim line) = 0 then line else drop minIndent line) lines)))"

definition IndentationFlexibleReplacer :: "string \<Rightarrow> string \<Rightarrow> string list" where
  "IndentationFlexibleReplacer content oldText =
     filter (\<lambda>block. removeIndentation block = removeIndentation oldText)
       (windowsOf (splitLines content) (length (splitLines oldText)))"

definition unescapedChar :: "char \<Rightarrow> char option" where
  "unescapedChar c =
     (if c = CHR ''n'' then Some lf else if c = CHR ''t'' then Some (CHR 0x09) else if c = CHR ''r'' then Some cr
      else if c = CHR 0x27 \<or> c = CHR 0x22 \<or> c = CHR 0x60 \<or> c = CHR 0x5C \<or> c = lf \<or> c = CHR ''$'' then Some c
      else None)"

fun unescapeString :: "string \<Rightarrow> string" where
  "unescapeString (c # d # t) =
     (if c = CHR 0x5C then (case unescapedChar d of Some e \<Rightarrow> e # unescapeString t | None \<Rightarrow> c # unescapeString (d # t))
      else c # unescapeString (d # t))"
| "unescapeString t = t"

definition EscapeNormalizedReplacer :: "string \<Rightarrow> string \<Rightarrow> string list" where
  "EscapeNormalizedReplacer content oldText =
     (let unescapedFind = unescapeString oldText in
      (if includesText content unescapedFind then [unescapedFind] else []) @
      filter (\<lambda>block. unescapeString block = unescapedFind)
        (windowsOf (splitLines content) (length (splitLines unescapedFind))))"

definition TrimmedBoundaryReplacer :: "string \<Rightarrow> string \<Rightarrow> string list" where
  "TrimmedBoundaryReplacer content oldText =
     (let trimmedFind = trim oldText in
      if trimmedFind = oldText then []
      else (if includesText content trimmedFind then [trimmedFind] else []) @
        filter (\<lambda>block. trim block = trimmedFind) (windowsOf (splitLines content) (length (splitLines oldText))))"

text \<open>At least half of the lines in the middle that are not both empty agree.\<close>

definition middleAgrees :: "string list \<Rightarrow> string list \<Rightarrow> bool" where
  "middleAgrees blockLines findLines =
     (let pairs = filter (\<lambda>(b, f). b \<noteq> [] \<or> f \<noteq> [])
            (map (\<lambda>k. (trim (blockLines ! k), trim (findLines ! k))) [1..<length blockLines - 1]) in
      pairs = [] \<or> 2 * length (filter (\<lambda>(b, f). b = f) pairs) \<ge> length pairs)"

definition ContextAwareReplacer :: "string \<Rightarrow> string \<Rightarrow> string list" where
  "ContextAwareReplacer content oldText =
     (let allFindLines = splitLines oldText; findLines = popEmpty allFindLines; contentLines = splitLines content in
      if length allFindLines < 3 then []
      else concat (map (\<lambda>(i, j).
          let blockLines = take (Suc j - i) (drop i contentLines) in
          if length blockLines = length findLines \<and> middleAgrees blockLines findLines then [join [lf] blockLines] else [])
        (anchorCandidates contentLines (trim (hd findLines)) (trim (last findLines)))))"

section \<open>Replacing\<close>

definition identicalMessage :: string where
  "identicalMessage = ''No changes to apply: oldString and newString are identical.''"

definition notFoundMessage :: string where
  "notFoundMessage = ''Could not find oldString in the file. It must match exactly, including whitespace, indentation, and line endings.''"

definition multipleMessage :: string where
  "multipleMessage = ''Found multiple matches for oldString. Provide more surrounding context to make the match unique.''"

text \<open>One candidate: the new content, or whether nothing was found so far.\<close>

definition trySearch :: "string \<Rightarrow> string \<Rightarrow> bool \<Rightarrow> string \<Rightarrow> bool \<Rightarrow> bool + string" where
  "trySearch content newString all search notFound =
     (case indexOf content search 0 of
        None \<Rightarrow> Inl notFound
      | Some index \<Rightarrow>
          if all then Inr (replaceAll content search newString)
          else if lastIndexOf content search \<noteq> Some index then Inl False
          else Inr (substring content 0 index @ newString @ drop (index + length search) content))"

fun trySearches :: "string \<Rightarrow> string \<Rightarrow> bool \<Rightarrow> string list \<Rightarrow> bool \<Rightarrow> bool + string" where
  "trySearches content newString all [] notFound = Inl notFound"
| "trySearches content newString all (search # searches) notFound =
     (case trySearch content newString all search notFound of
        Inl notFound' \<Rightarrow> trySearches content newString all searches notFound'
      | Inr r \<Rightarrow> Inr r)"

definition finiteReplacers :: "(rat \<Rightarrow> rat) \<Rightarrow> string \<Rightarrow> string \<Rightarrow> string list" where
  "finiteReplacers fl content oldText =
     SimpleReplacer content oldText @ LineTrimmedReplacer content oldText @ BlockAnchorReplacer fl content oldText @
     WhitespaceNormalizedReplacer content oldText @ IndentationFlexibleReplacer content oldText @
     EscapeNormalizedReplacer content oldText @ TrimmedBoundaryReplacer content oldText @ ContextAwareReplacer content oldText"

text \<open>The loop over \<open>MultiOccurrenceReplacer\<close>, which yields the text itself for each of its occurrences.\<close>

partial_function (option) multiOccurrence :: "string \<Rightarrow> string \<Rightarrow> string \<Rightarrow> bool \<Rightarrow> nat \<Rightarrow> bool \<Rightarrow> (bool + string) option" where
  [code]: "multiOccurrence content oldText newString all startIndex notFound =
     (case indexOf content oldText startIndex of
        None \<Rightarrow> Some (Inl notFound)
      | Some index \<Rightarrow>
          (case trySearch content newString all oldText notFound of
             Inl notFound' \<Rightarrow> multiOccurrence content oldText newString all (index + length oldText) notFound'
           | Inr r \<Rightarrow> Some (Inr r)))"

text \<open>\<open>None\<close>: the loop does not end.\<close>

definition replace :: "(rat \<Rightarrow> rat) \<Rightarrow> string \<Rightarrow> string \<Rightarrow> string \<Rightarrow> bool \<Rightarrow> (string + string) option" where
  "replace fl content oldString newString all =
     (if oldString = newString then Some (Inl identicalMessage)
      else case trySearches content newString all (finiteReplacers fl content oldString) True of
        Inr r \<Rightarrow> Some (Inr r)
      | Inl notFound \<Rightarrow>
          (case multiOccurrence content oldString newString all 0 notFound of
             None \<Rightarrow> None
           | Some (Inr r) \<Rightarrow> Some (Inr r)
           | Some (Inl notFound') \<Rightarrow> Some (Inl (if notFound' then notFoundMessage else multipleMessage))))"

section \<open>The tool\<close>

text \<open>A text of the model has no byte order mark in it: the mark of a file is its \<open>pf_bom\<close>.\<close>

datatype edit_target = Missing | Directory | RegularFile patch_file

text \<open>The content that \<open>execute\<close> writes, or its error.\<close>

definition editContents :: "(rat \<Rightarrow> rat) \<Rightarrow> string \<Rightarrow> edit_target \<Rightarrow> string \<Rightarrow> string \<Rightarrow> bool \<Rightarrow> (patch_error + patch_file) option" where
  "editContents fl filePath target oldString newString all =
     (if filePath = [] then Some (Inl (PatchMessage ''filePath is required''))
      else if oldString = newString then Some (Inl (PatchMessage identicalMessage))
      else if oldString = [] then
        (case target of
           Missing \<Rightarrow> Some (Inr \<lparr> pf_bom = False, pf_text = newString \<rparr>)
         | Directory \<Rightarrow> Some (Inl (ReadFailed filePath))
         | RegularFile f \<Rightarrow> Some (Inr \<lparr> pf_bom = pf_bom f, pf_text = newString \<rparr>))
      else (case target of
              Missing \<Rightarrow> Some (Inl (PatchMessage (''File '' @ filePath @ '' not found'')))
            | Directory \<Rightarrow> Some (Inl (PatchMessage (''Path is a directory, not a file: '' @ filePath)))
            | RegularFile f \<Rightarrow>
                (let ending = detectLineEnding (pf_text f);
                     old = convertToLineEnding (normalizeLineEndings oldString) ending;
                     replacement = convertToLineEnding (normalizeLineEndings newString) ending in
                 map_option (map_sum PatchMessage (\<lambda>t. f\<lparr>pf_text := t\<rparr>)) (replace fl (pf_text f) old replacement all))))"

text \<open>The handler: it asks for the permission (\<open>refusal\<close> is the user's refusal), writes the file, runs the formatter, whose
  result keeps the mark, and publishes the events.\<close>

datatype edit_event = FileEdited string | FileChanged string | FileAdded string

record edit_state =
  es_targets :: "(string, edit_target) js_map"
  es_asked :: "string list"
  es_events :: "edit_event list"

definition targetAt :: "edit_state \<Rightarrow> string \<Rightarrow> edit_target" where
  "targetAt s filePath = (case mapGet (es_targets s) filePath of Some t \<Rightarrow> t | None \<Rightarrow> Missing)"

definition executeEdit ::
  "(rat \<Rightarrow> rat) \<Rightarrow> (string \<Rightarrow> patch_file \<Rightarrow> string option) \<Rightarrow> patch_error option \<Rightarrow> edit_state \<Rightarrow> string \<Rightarrow> string \<Rightarrow> string \<Rightarrow> bool \<Rightarrow>
     ((patch_error + patch_file) \<times> edit_state) option" where
  "executeEdit fl formatter refusal s filePath oldString newString all =
     (case editContents fl filePath (targetAt s filePath) oldString newString all of
        None \<Rightarrow> None
      | Some (Inl e) \<Rightarrow> Some (Inl e, s)
      | Some (Inr f) \<Rightarrow>
          (let asked = s\<lparr>es_asked := es_asked s @ [filePath]\<rparr> in
           case refusal of
             Some e \<Rightarrow> Some (Inl e, asked)
           | None \<Rightarrow>
               (let written = (case formatter filePath f of Some t \<Rightarrow> f\<lparr>pf_text := t\<rparr> | None \<Rightarrow> f);
                    existed = (targetAt s filePath \<noteq> Missing) in
                Some (Inr written, asked\<lparr>es_targets := mapSet filePath (RegularFile written) (es_targets s),
                  es_events := es_events s @ [FileEdited filePath, if existed then FileChanged filePath else FileAdded filePath]\<rparr>))))"

definition isContentLine :: "string \<Rightarrow> bool" where
  "isContentLine line \<longleftrightarrow> (startsWith line ''+'' \<or> startsWith line ''-'' \<or> startsWith line '' '') \<and>
     \<not> startsWith line ''---'' \<and> \<not> startsWith line ''+++''"

definition trimDiff :: "string \<Rightarrow> string" where
  "trimDiff diff =
     (let lines = splitLines diff; contentLines = filter isContentLine lines;
          indents = map (\<lambda>line. length (takeWhile isWhite (drop 1 line))) (filter (\<lambda>line. length (trim (drop 1 line)) > 0) contentLines) in
      case indents of
        [] \<Rightarrow> diff
      | i # is \<Rightarrow>
          (let m = fold min is i in
           if m = 0 then diff
           else join [lf] (map (\<lambda>line. if isContentLine line then take 1 line @ drop m (drop 1 line) else line) lines)))"

end
