(* ===== verification/Edit_Theorems.thy ===== *)
theory Edit_Theorems
  imports Edit_Tool Patch_Theorems
begin

text \<open>
  What the edit tool does to a file: the distance it computes is the least number of edits, a single replacement replaces the only
  occurrence of what was found and nothing else, every occurrence is replaced when all are asked for, the search ends, and an exact
  match is replaced in a file with Windows line endings as in one without.
\<close>

section \<open>Distance\<close>

text \<open>One character is inserted, deleted or replaced, anywhere in the text.\<close>

inductive editStep :: "string \<Rightarrow> string \<Rightarrow> bool" where
  insert_char: "editStep s (c # s)"
| delete_char: "editStep (c # s) s"
| replace_char: "editStep (c # s) (d # s)"
| later_char: "editStep s t \<Longrightarrow> editStep (c # s) (c # t)"

text \<open>The distance as a recursion on the texts.\<close>

fun editDist :: "string \<Rightarrow> string \<Rightarrow> nat" where
  "editDist [] ys = length ys"
| "editDist xs [] = length xs"
| "editDist (x # xs) (y # ys) = min (min (editDist xs (y # ys) + 1) (editDist (x # xs) ys + 1)) (editDist xs ys + (if x = y then 0 else 1))"

lemma dist_Nil2 [simp]: "editDist xs [] = length xs"
  by (cases xs) simp_all

lemma min3_mono: "a' \<le> a + 1 \<Longrightarrow> b' \<le> b + 1 \<Longrightarrow> c' \<le> c + 1 \<Longrightarrow> min (min a' b') c' \<le> min (min a b) c + (1 :: nat)"
  by (simp add: min_def)

lemma dist_insert1: "editDist (x # xs) ys \<le> editDist xs ys + 1"
  by (cases ys) simp_all

lemma dist_insert: "editDist xs (y # ys) \<le> editDist xs ys + 1"
  by (cases xs) simp_all

lemma dist_delete: "editDist xs ys \<le> editDist xs (y # ys) + 1"
proof (induction xs)
  case (Cons x xs)
  have "editDist (x # xs) ys \<le> editDist xs ys + 1" by (rule dist_insert1)
  with Cons show ?case by simp
qed simp

lemma dist_replace: "editDist xs (d # ys) \<le> editDist xs (c # ys) + 1"
proof (induction xs)
  case (Cons x xs)
  show ?case by (simp only: editDist.simps, rule min3_mono) (use Cons in simp_all)
qed simp

lemma dist_later:
  assumes "\<And>xs. editDist xs t \<le> editDist xs s + 1"
  shows "editDist xs (c # t) \<le> editDist xs (c # s) + 1"
proof (induction xs)
  case Nil then show ?case using assms [of "[]"] by simp
next
  case (Cons x xs) with assms [of xs] assms [of "x # xs"] show ?case by simp
qed

lemma dist_step: "editStep s t \<Longrightarrow> editDist xs t \<le> editDist xs s + 1"
  by (induction arbitrary: xs rule: editStep.induct) (rule dist_insert dist_delete dist_replace dist_later; assumption?)+

lemma dist_refl [simp]: "editDist xs xs = 0"
  by (induction xs) simp_all

lemma dist_le_steps: "(editStep ^^ n) xs ys \<Longrightarrow> editDist xs ys \<le> n"
proof (induction n arbitrary: ys)
  case (Suc n)
  then obtain zs where "(editStep ^^ n) xs zs" "editStep zs ys" by auto
  with Suc.IH [of zs] dist_step [of zs ys xs] show ?case by simp
qed simp

lemma later_steps: "(editStep ^^ n) s t \<Longrightarrow> (editStep ^^ n) (c # s) (c # t)"
  by (induction n arbitrary: t) (auto intro: later_char)

lemma steps_dist: "(editStep ^^ editDist xs ys) xs ys"
proof (induction xs ys rule: editDist.induct)
  case (1 ys) show ?case by (induction ys) (auto intro: relpowp_Suc_I insert_char)
next
  case (2 x xs)
  have "(editStep ^^ length xs) xs []" for xs by (induction xs) (auto intro: relpowp_Suc_I2 delete_char simp del: relpowp.simps(2))
  from this [of "x # xs"] show ?case by simp
next
  case (3 x xs y ys)
  have del: "(editStep ^^ (editDist xs (y # ys) + 1)) (x # xs) (y # ys)"
    using relpowp_Suc_I2 [OF delete_char "3.IH"(1)] by simp
  have ins: "(editStep ^^ (editDist (x # xs) ys + 1)) (x # xs) (y # ys)"
    using relpowp_Suc_I [OF "3.IH"(2) insert_char] by simp
  have rep: "(editStep ^^ (editDist xs ys + (if x = y then 0 else 1))) (x # xs) (y # ys)"
    using later_steps [OF "3.IH"(3), of y] relpowp_Suc_I2 [OF replace_char later_steps [OF "3.IH"(3)], of x y] by auto
  show ?case using del ins rep by (simp only: editDist.simps min_def split: if_split) blast
qed

theorem dist_least: "editDist xs ys = (LEAST n. (editStep ^^ n) xs ys)"
  by (rule Least_equality [symmetric]) (auto intro: steps_dist dist_le_steps)

text \<open>Reading both texts backwards does not change what a step is.\<close>

lemma step_behind: "editStep s t \<Longrightarrow> editStep (s @ u) (t @ u)"
  by (induction rule: editStep.induct) (auto intro: editStep.intros)

lemma step_after: "editStep s t \<Longrightarrow> editStep (u @ s) (u @ t)"
  by (induction u) (auto intro: later_char)

lemma step_rev: "editStep s t \<Longrightarrow> editStep (rev s) (rev t)"
proof (induction rule: editStep.induct)
  case (insert_char s c) show ?case using step_after [OF editStep.insert_char [of "[]" c], of "rev s"] by simp
next
  case (delete_char c s) show ?case using step_after [OF editStep.delete_char [of c "[]"], of "rev s"] by simp
next
  case (replace_char c s d) show ?case using step_after [OF editStep.replace_char [of c "[]" d], of "rev s"] by simp
next
  case (later_char s t c) then show ?case using step_behind [of "rev s" "rev t" "[c]"] by simp
qed

lemma steps_rev: "(editStep ^^ n) (rev s) (rev t) \<longleftrightarrow> (editStep ^^ n) s t"
proof -
  have "(editStep ^^ n) s t \<Longrightarrow> (editStep ^^ n) (rev s) (rev t)" for s t
    by (induction n arbitrary: t) (auto intro: step_rev)
  from this [of s t] this [of "rev s" "rev t"] show ?thesis by auto
qed

text \<open>A row of the matrix holds the distances to the prefixes of the second text, each text read backwards.\<close>

fun distRow :: "string \<Rightarrow> string \<Rightarrow> string \<Rightarrow> nat list" where
  "distRow as bs [] = [editDist as bs]"
| "distRow as bs (c # cs) = editDist as bs # distRow as (c # bs) cs"

lemma distRow_hd: "\<exists>ds. distRow as bs cs = editDist as bs # ds"
  by (cases cs) simp_all

lemma levCells_distRow: "editDist (c # as) bs # levCells c cs (distRow as bs cs) (editDist (c # as) bs) = distRow (c # as) bs cs"
proof (induction cs arbitrary: bs)
  case (Cons d cs)
  obtain ds where ds: "distRow as (d # bs) cs = editDist as (d # bs) # ds" using distRow_hd by blast
  with Cons [of "d # bs"] show ?case by (simp add: Let_def)
qed simp

lemma levRows_distRow: "length as = i \<Longrightarrow> levRows a b i (distRow as [] b) = distRow (rev a @ as) [] b"
proof (induction a arbitrary: as i)
  case (Cons c a)
  have "Suc i # levCells c b (distRow as [] b) (Suc i) = distRow (c # as) [] b"
    using levCells_distRow [of c as "[]" b] Cons.prems by simp
  with Cons.IH [of "c # as" "Suc i"] Cons.prems show ?case by simp
qed simp

lemma first_distRow: "distRow [] bs cs = [length bs..<Suc (length bs + length cs)]"
proof (induction cs arbitrary: bs)
  case (Cons c cs) show ?case using Cons [of "c # bs"] by (simp add: upt_rec)
qed simp

lemma last_distRow: "last (distRow as bs cs) = editDist as (rev cs @ bs)"
proof (induction cs arbitrary: bs)
  case (Cons c cs)
  have "distRow as (c # bs) cs \<noteq> []" by (cases cs) simp_all
  with Cons show ?case by simp
qed simp

lemma levenshtein_dist: "levenshtein a b = editDist (rev a) (rev b)"
proof (cases "a = [] \<or> b = []")
  case False
  have "distRow [] [] b = [0..<Suc (length b)]" using first_distRow [of "[]" b] by simp
  then have "levRows a b 0 [0..<Suc (length b)] = distRow (rev a) [] b"
    using levRows_distRow [of "[]" 0 a b] by simp
  with False show ?thesis by (simp add: levenshtein_def last_distRow)
qed (auto simp: levenshtein_def)

text \<open>C31: The matrix of the distance computes the least number of edits (a character inserted, deleted or replaced) that turn one text
  into the other.\<close>
theorem levenshtein_least_edits: "levenshtein a b = (LEAST n. (editStep ^^ n) a b)"
  by (simp add: levenshtein_dist dist_least steps_rev)

section \<open>Occurrences\<close>

lemma startsWith_iff: "startsWith s p \<longleftrightarrow> (\<exists>t. s = p @ t)"
  by (auto simp: startsWith_def) (metis append_take_drop_id)

text \<open>Where a text starts in another.\<close>

definition occursAt :: "string \<Rightarrow> string \<Rightarrow> nat \<Rightarrow> bool" where
  "occursAt content s n \<longleftrightarrow> n \<le> length content \<and> startsWith (drop n content) s"

lemma occursAt_iff: "occursAt content s n \<longleftrightarrow> (\<exists>p q. content = p @ s @ q \<and> length p = n)"
proof
  assume "occursAt content s n"
  then obtain t where "drop n content = s @ t" "n \<le> length content" by (auto simp: occursAt_def startsWith_iff)
  then show "\<exists>p q. content = p @ s @ q \<and> length p = n" by (metis append_take_drop_id length_take min.absorb2)
qed (auto simp: occursAt_def startsWith_iff)

lemma find_upt_Some:
  assumes "List.find P [a..<b] = Some i" shows "a \<le> i" "i < b" "P i" "\<And>j. a \<le> j \<Longrightarrow> j < i \<Longrightarrow> \<not> P j"
proof -
  from assms obtain k where k: "k < b - a" "P (a + k)" "i = a + k" "\<forall>j<k. \<not> P (a + j)" by (auto simp: find_Some_iff)
  then show "a \<le> i" "i < b" "P i" by auto
  show "\<not> P j" if "a \<le> j" "j < i" for j using k(3,4) that by (metis le_add_diff_inverse nat_add_left_cancel_less)
qed

lemma indexOf_Some:
  assumes "indexOf content s start = Some i"
  shows "occursAt content s i" "min start (length content) \<le> i" "\<And>j. start \<le> j \<Longrightarrow> occursAt content s j \<Longrightarrow> i \<le> j"
proof -
  note f = find_upt_Some [OF assms [unfolded indexOf_def]]
  show "occursAt content s i" "min start (length content) \<le> i" using f by (auto simp: occursAt_def)
  show "i \<le> j" if "start \<le> j" "occursAt content s j" for j
    using f(4) [of j] that by (fastforce simp: occursAt_def)
qed

lemma indexOf_None: "indexOf content s start = None \<longleftrightarrow> (\<forall>j. min start (length content) \<le> j \<longrightarrow> \<not> occursAt content s j)"
  by (auto simp: indexOf_def find_None_iff occursAt_def simp del: upt_Suc)

lemma lastIndexOf_Some:
  assumes "lastIndexOf content s = Some i" and "occursAt content s j" shows "j \<le> i"
proof -
  let ?xs = "rev [0..<Suc (length content)]"
  from assms(1) obtain k where k: "k < length ?xs" "?xs ! k = i" "\<forall>m<k. \<not> startsWith (drop (?xs ! m) content) s"
    unfolding lastIndexOf_def find_Some_iff by metis
  have nth: "?xs ! m = length content - m" if "m < Suc (length content)" for m using that by (subst rev_nth) (simp_all del: upt_Suc)
  show ?thesis
  proof (rule ccontr)
    assume "\<not> j \<le> i"
    with assms(2) k nth have "length content - j < k" "?xs ! (length content - j) = j" by (auto simp: occursAt_def simp del: upt_Suc)
    with k(3) assms(2) show False by (auto simp: occursAt_def)
  qed
qed

lemma lastIndexOf_occurs: "lastIndexOf content s = Some i \<Longrightarrow> occursAt content s i"
proof -
  assume "lastIndexOf content s = Some i"
  then obtain k where "k < length (rev [0..<Suc (length content)])" "rev [0..<Suc (length content)] ! k = i" "startsWith (drop i content) s"
    unfolding lastIndexOf_def find_Some_iff by blast
  moreover from this(1,2) have "i \<in> set (rev [0..<Suc (length content)])" using nth_mem by blast
  ultimately show ?thesis by (auto simp: occursAt_def)
qed

lemma unique_index:
  "indexOf content s 0 = Some i \<and> lastIndexOf content s = Some i \<longleftrightarrow> occursAt content s i \<and> (\<forall>j. occursAt content s j \<longrightarrow> j = i)"
  (is "?L = ?R")
proof
  assume ?L
  then show ?R using indexOf_Some [of content s 0 i] lastIndexOf_Some [of content s i] by (meson le0 le_antisym)
next
  assume r: ?R
  then obtain k where k: "indexOf content s 0 = Some k" using indexOf_None [of content s 0] by fastforce
  have "lastIndexOf content s \<noteq> None"
    using r by (auto simp: lastIndexOf_def find_None_iff occursAt_def simp del: upt_Suc)
  then obtain l where l: "lastIndexOf content s = Some l" by blast
  have "k = i" "l = i" using r indexOf_Some(1) [OF k] lastIndexOf_occurs [OF l] by blast+
  with k l show ?L by simp
qed

section \<open>Replacing a single occurrence\<close>

text \<open>The text is there, in one place only: \<open>p\<close> is before it and \<open>q\<close> after it.\<close>

definition onlyAt :: "string \<Rightarrow> string \<Rightarrow> string \<Rightarrow> string \<Rightarrow> bool" where
  "onlyAt content p s q \<longleftrightarrow> content = p @ s @ q \<and> (\<forall>p' q'. content = p' @ s @ q' \<longrightarrow> p' = p)"

lemma onlyAt_occursAt: "onlyAt content p s q \<longleftrightarrow> content = p @ s @ q \<and> (\<forall>j. occursAt content s j \<longrightarrow> j = length p)"
proof -
  have "p' = p" if "content = p @ s @ q" "content = p' @ s @ q'" "length p' = length p" for p' q'
    using that by (metis append_eq_append_conv)
  then show ?thesis unfolding onlyAt_def occursAt_iff by blast
qed

lemma trySearch_onlyAt:
  "trySearch content newString False search notFound = Inr r \<longleftrightarrow> (\<exists>p q. onlyAt content p search q \<and> r = p @ newString @ q)"
proof
  assume r: "trySearch content newString False search notFound = Inr r"
  then obtain i where i: "indexOf content search 0 = Some i" "lastIndexOf content search = Some i"
    and "r = take i content @ newString @ drop (i + length search) content"
    by (auto simp: trySearch_def substring_def split: option.splits if_splits)
  moreover from i unique_index [of content search i] obtain p q where "content = p @ search @ q" "length p = i"
    "\<forall>j. occursAt content search j \<longrightarrow> j = i" by (auto simp: occursAt_iff)
  ultimately show "\<exists>p q. onlyAt content p search q \<and> r = p @ newString @ q" by (auto simp: onlyAt_occursAt)
next
  assume "\<exists>p q. onlyAt content p search q \<and> r = p @ newString @ q"
  then obtain p q where p: "content = p @ search @ q" "\<forall>j. occursAt content search j \<longrightarrow> j = length p" "r = p @ newString @ q"
    by (auto simp: onlyAt_occursAt)
  then have "indexOf content search 0 = Some (length p)" "lastIndexOf content search = Some (length p)"
    using unique_index [of content search "length p"] by (auto simp: occursAt_iff)
  with p show "trySearch content newString False search notFound = Inr r" by (simp add: trySearch_def substring_def)
qed

lemma trySearches_Inr:
  "trySearches content newString all searches notFound = Inr r \<Longrightarrow>
     \<exists>search notFound'. search \<in> set searches \<and> trySearch content newString all search notFound' = Inr r"
  by (induction searches arbitrary: notFound) (fastforce split: sum.splits)+

lemma multiOccurrence_Inr:
  assumes "multiOccurrence content oldText newString all start notFound = Some (Inr r)"
  shows "\<exists>notFound'. trySearch content newString all oldText notFound' = Inr r"
proof -
  let ?P = "\<lambda>content oldText newString all (_ :: nat) (_ :: bool) (y :: bool + string). \<forall>r. y = Inr r \<longrightarrow> (\<exists>notFound'. trySearch content newString all oldText notFound' = Inr r)"
  have "?P content oldText newString all start notFound (Inr r)"
    by (rule multiOccurrence.raw_induct [where P = ?P, OF _ assms])
      (fastforce split: option.splits sum.splits)
  then show ?thesis by blast
qed

lemma oldText_candidate: "oldText \<in> set (finiteReplacers fl content oldText)"
  by (simp add: finiteReplacers_def SimpleReplacer_def)

lemma replace_Inr:
  assumes "replace fl content oldString newString all = Some (Inr r)"
  shows "\<exists>search notFound. search \<in> set (finiteReplacers fl content oldString) \<and> trySearch content newString all search notFound = Inr r"
  using assms trySearches_Inr [of content newString all "finiteReplacers fl content oldString" True r]
    multiOccurrence_Inr [of content oldString newString all 0 _ r] oldText_candidate [of oldString fl content]
  by (auto simp: replace_def split: if_splits sum.splits option.splits)

text \<open>C30: A single replacement that succeeds replaces a text that one of the replacers proposed and that is in the file once; what is
  before it and what is behind it is kept.\<close>
theorem edit_replaces_only_occurrence:
  assumes "replace fl content oldString newString False = Some (Inr r)"
  shows "\<exists>search \<in> set (finiteReplacers fl content oldString). \<exists>p q. onlyAt content p search q \<and> r = p @ newString @ q"
  using replace_Inr [OF assms] trySearch_onlyAt by blast

theorem edit_replaces_only_occurrence_witness:
  "\<exists>search \<in> set (finiteReplacers (\<lambda>x. x) ''let x = 1;'' ''x  =  1''). \<exists>p q.
     onlyAt ''let x = 1;'' p search q \<and> ''let y = 2;'' = p @ ''y = 2'' @ q"
  by (rule edit_replaces_only_occurrence) code_simp

lemma replace_exact:
  assumes "onlyAt content p oldString q" and "oldString \<noteq> newString"
  shows "replace fl content oldString newString False = Some (Inr (p @ newString @ q))"
proof -
  have "trySearch content newString False oldString True = Inr (p @ newString @ q)" using assms(1) trySearch_onlyAt by blast
  then show ?thesis using assms(2) by (simp add: replace_def finiteReplacers_def SimpleReplacer_def)
qed

section \<open>The search ends\<close>

lemma occursAt_length: "occursAt content s n \<Longrightarrow> n + length s \<le> length content"
  by (auto simp: occursAt_iff)

lemma multiOccurrence_ends:
  assumes "oldText \<noteq> []" shows "\<exists>r. multiOccurrence content oldText newString all start notFound = Some r"
proof (induction "length content - start" arbitrary: start notFound rule: less_induct)
  case less
  show ?case
  proof (cases "indexOf content oldText start")
    case None then show ?thesis by (subst multiOccurrence.simps) simp
  next
    case (Some index)
    have bounds: "min start (length content) \<le> index" "index + length oldText \<le> length content"
      using indexOf_Some [OF Some] occursAt_length by blast+
    with assms have "length content - (index + length oldText) < length content - start" by (cases oldText) auto
    from less [OF this] show ?thesis using Some by (subst multiOccurrence.simps) (auto split: sum.splits)
  qed
qed

text \<open>The search for a text that is not empty ends, with the new content or an error, whatever it looks through.\<close>
theorem edit_replace_ends:
  assumes "oldString \<noteq> []" shows "\<exists>r. replace fl content oldString newString all = Some r"
proof -
  have "\<exists>r. multiOccurrence content oldString newString all 0 notFound = Some r" for notFound
    by (rule multiOccurrence_ends [OF assms])
  then show ?thesis by (auto simp: replace_def split: sum.splits option.splits) (metis not_None_eq)
qed

theorem edit_replace_ends_witness: "\<exists>r. replace (\<lambda>x. x) ''aa'' ''a'' ''b'' False = Some r"
  by (rule edit_replace_ends) simp

section \<open>Replacing every occurrence\<close>

lemma getSubstitution_plain: "CHR ''$'' \<notin> set t \<Longrightarrow> getSubstitution m b a t = t"
  by (induction m b a t rule: getSubstitution.induct) auto

lemma occursAt_Cons: "\<not> startsWith (c # cs) s \<Longrightarrow> (\<forall>j. \<not> occursAt cs s j) \<Longrightarrow> \<not> occursAt (c # cs) s j"
  by (cases j) (auto simp: occursAt_def)

text \<open>The first occurrence is replaced, then those in what is behind it, until there is none.\<close>

inductive replacedAll :: "string \<Rightarrow> string \<Rightarrow> string \<Rightarrow> string \<Rightarrow> bool" where
  no_more: "(\<forall>j. \<not> occursAt content search j) \<Longrightarrow> replacedAll search newString content content"
| first_one: "(\<forall>j < length p. \<not> occursAt (p @ search @ q) search j) \<Longrightarrow> replacedAll search newString q r \<Longrightarrow>
    replacedAll search newString (p @ search @ q) (p @ newString @ r)"

lemma replacedAll_Cons:
  assumes "replacedAll search newString cs r" and "\<not> startsWith (c # cs) search"
  shows "replacedAll search newString (c # cs) (c # r)"
  using assms
proof cases
  case no_more then show ?thesis using assms(2) occursAt_Cons by (auto intro: replacedAll.no_more)
next
  case (first_one p q r')
  have "\<not> occursAt ((c # p) @ search @ q) search j" if "j < length (c # p)" for j
    using that first_one(1,3) assms(2) by (cases j) (auto simp: occursAt_def)
  with first_one replacedAll.first_one [of "c # p" search q newString r'] show ?thesis by auto
qed

lemma replaceAllFrom_replaced:
  assumes "search \<noteq> []" and "CHR ''$'' \<notin> set newString"
  shows "replacedAll search newString rest (replaceAllFrom search newString before rest)"
proof (induction "length rest" arbitrary: before rest rule: less_induct)
  case less
  note step = replaceAllFrom.simps [of search newString before rest]
  show ?case
  proof (cases "startsWith rest search")
    case True
    then obtain q where q: "rest = search @ q" by (auto simp: startsWith_iff)
    with assms(1) have "replacedAll search newString q (replaceAllFrom search newString (before @ search) q)" by (intro less) simp
    from replacedAll.first_one [of "[]", OF _ this] show ?thesis using q True assms step by (simp add: getSubstitution_plain)
  next
    case False
    show ?thesis
    proof (cases rest)
      case Nil with False show ?thesis using step by (auto simp: occursAt_def intro: replacedAll.no_more)
    next
      case (Cons c cs)
      then have "replacedAll search newString cs (replaceAllFrom search newString (before @ [c]) cs)" by (intro less) simp
      from replacedAll_Cons [OF this] show ?thesis using False Cons step by simp
    qed
  qed
qed

text \<open>When all occurrences are asked for and the text is in the file, they are replaced one after the other from the left, and no
  replacement is looked through again; the new text is taken as it is when it has no dollar sign.\<close>
theorem edit_replaces_all:
  assumes "oldString \<noteq> []" and "oldString \<noteq> newString" and "CHR ''$'' \<notin> set newString" and "content = p @ oldString @ q"
  shows "\<exists>r. replace fl content oldString newString True = Some (Inr r) \<and> replacedAll oldString newString content r"
proof -
  have "indexOf content oldString 0 \<noteq> None" using assms(4) by (auto simp: indexOf_None occursAt_iff)
  then have "replace fl content oldString newString True = Some (Inr (replaceAll content oldString newString))"
    using assms(2) by (auto simp: replace_def finiteReplacers_def SimpleReplacer_def trySearch_def)
  with replaceAllFrom_replaced [OF assms(1,3)] show ?thesis by (simp add: replaceAll_def)
qed

theorem edit_replaces_all_witness:
  "\<exists>r. replace (\<lambda>x. x) ''ababa'' ''aba'' ''c'' True = Some (Inr r) \<and> replacedAll ''aba'' ''c'' ''ababa'' r"
  by (rule edit_replaces_all [where p = "[]" and q = "''ba''"]) simp_all

text \<open>A dollar sign is read as a substitution pattern when all occurrences are replaced, and as itself when one is.\<close>
theorem edit_dollar_read_as_pattern:
  assumes "oldString \<noteq> []" and "oldString \<noteq> ''$$''"
  shows "replace fl oldString oldString ''$$'' False = Some (Inr ''$$'')
    \<and> replace fl oldString oldString ''$$'' True = Some (Inr ''$'')"
proof -
  have "onlyAt oldString [] oldString []" by (auto simp: onlyAt_occursAt dest!: occursAt_length)
  from replace_exact [OF this assms(2)] have "replace fl oldString oldString ''$$'' False = Some (Inr ''$$'')" by simp
  have "occursAt oldString oldString 0" by (simp add: occursAt_def startsWith_def)
  then have "indexOf oldString oldString 0 \<noteq> None" unfolding indexOf_None by auto
  then have "replace fl oldString oldString ''$$'' True = Some (Inr (replaceAll oldString oldString ''$$''))"
    using assms(2) by (auto simp: replace_def finiteReplacers_def SimpleReplacer_def trySearch_def)
  moreover have "replaceAll oldString oldString ''$$'' = ''$''"
    using assms(1) by (simp add: replaceAll_def replaceAllFrom.simps startsWith_def)
  ultimately show ?thesis using \<open>replace fl oldString oldString ''$$'' False = Some (Inr ''$$'')\<close> by simp
qed

theorem edit_dollar_read_as_pattern_witness:
  "replace (\<lambda>x. x) ''cost'' ''cost'' ''$$'' False = Some (Inr ''$$'') \<and> replace (\<lambda>x. x) ''cost'' ''cost'' ''$$'' True = Some (Inr ''$'')"
  by (rule edit_dollar_read_as_pattern) simp_all

section \<open>Line endings\<close>

definition windowsText :: "string \<Rightarrow> string" where
  "windowsText t = concat (map (\<lambda>c. if c = lf then [cr, lf] else [c]) t)"

lemma windowsText_simps [simp]:
  "windowsText [] = []" "windowsText (c # t) = (if c = lf then cr # lf # windowsText t else c # windowsText t)"
  "windowsText (s @ t) = windowsText s @ windowsText t"
  by (simp_all add: windowsText_def)

lemma cr_lf [simp]: "cr \<noteq> lf" "lf \<noteq> cr"
  by (simp_all add: cr_def)

lemma convert_windows: "convertToLineEnding t [cr, lf] = windowsText t"
  by (simp add: convertToLineEnding_def windowsText_def)

lemma normalizeLineEndings_plain: "cr \<notin> set t \<Longrightarrow> normalizeLineEndings t = t"
  by (induction t rule: normalizeLineEndings.induct) auto

lemma windowsText_prefix:
  "windowsText t = windowsText s @ q \<Longrightarrow> cr \<notin> set t \<Longrightarrow> cr \<notin> set s \<Longrightarrow> \<exists>q'. t = s @ q'"
proof (induction s arbitrary: t)
  case (Cons c s)
  then obtain d t' where t: "t = d # t'" by (cases t) (auto split: if_splits)
  with Cons.prems have "d = c" "windowsText t' = windowsText s @ q" by (auto split: if_splits)
  with Cons.IH [of t'] Cons.prems t show ?case by auto
qed simp

lemma windowsText_occurs:
  assumes "windowsText t = p @ windowsText s @ q" "s \<noteq> []" "cr \<notin> set t" "cr \<notin> set s"
  shows "\<exists>p' q'. t = p' @ s @ q' \<and> p = windowsText p'"
  using assms(1,3)
proof (induction t arbitrary: p)
  case Nil with assms(2) show ?case by (cases s) (auto split: if_splits)
next
  case (Cons d t)
  show ?case
  proof (cases p)
    case Nil
    with windowsText_prefix [of "d # t" s q] Cons.prems assms(4) show ?thesis by (metis append_Nil windowsText_simps(1))
  next
    case (Cons x p1)
    show ?thesis
    proof (cases "d = lf")
      case False
      with Cons.IH [of p1] Cons.prems Cons obtain p' q' where "t = p' @ s @ q'" "p1 = windowsText p'" by auto
      with False Cons Cons.prems show ?thesis by (intro exI [of _ "d # p'"] exI [of _ q']) auto
    next
      case True
      with Cons Cons.prems have "x = cr" "lf # windowsText t = p1 @ windowsText s @ q" by auto
      moreover from this assms(2,4) obtain p2 where "p1 = lf # p2" by (cases p1; cases s) (auto split: if_splits)
      moreover from calculation Cons.IH [of p2] Cons.prems obtain p' q' where "t = p' @ s @ q'" "p2 = windowsText p'" by auto
      ultimately show ?thesis using True Cons by (intro exI [of _ "lf # p'"] exI [of _ q']) auto
    qed
  qed
qed

lemma windowsText_inj: "windowsText s = windowsText t \<Longrightarrow> cr \<notin> set s \<Longrightarrow> cr \<notin> set t \<Longrightarrow> s = t"
  using windowsText_prefix [of s t "[]"] windowsText_prefix [of t s "[]"] by auto

lemma onlyAt_windowsText:
  assumes "onlyAt t p s q" "s \<noteq> []" "cr \<notin> set t"
  shows "onlyAt (windowsText t) (windowsText p) (windowsText s) (windowsText q)"
proof -
  have t: "t = p @ s @ q" using assms(1) unfolding onlyAt_def by blast
  with assms(3) have "cr \<notin> set s" by simp
  have "p' = windowsText p" if "windowsText t = p' @ windowsText s @ q'" for p' q'
    using windowsText_occurs [OF that assms(2,3) \<open>cr \<notin> set s\<close>] assms(1) unfolding onlyAt_def by blast
  moreover have "windowsText t = windowsText p @ windowsText s @ windowsText q" using t by simp
  ultimately show ?thesis unfolding onlyAt_def by blast
qed

lemma detectLineEnding_windows: "lf \<in> set t \<Longrightarrow> detectLineEnding (windowsText t) = [cr, lf]"
proof -
  assume "lf \<in> set t"
  then obtain p q where "t = p @ lf # q" by (meson split_list)
  then have "windowsText t = windowsText p @ [cr, lf] @ windowsText q" by simp
  then have "occursAt (windowsText t) [cr, lf] (length (windowsText p))" unfolding occursAt_iff by blast
  then have "indexOf (windowsText t) [cr, lf] 0 \<noteq> None" unfolding indexOf_None by auto
  then show ?thesis by (simp add: detectLineEnding_def includesText_def)
qed

text \<open>A file with Windows line endings: a text that is in it once, given with the other line endings, is replaced, and the file that
  is written has Windows line endings throughout.\<close>
theorem edit_windows_file:
  assumes "onlyAt t p oldString q" and "lf \<in> set t" and "oldString \<noteq> []" and "oldString \<noteq> newString"
    and "cr \<notin> set t" and "cr \<notin> set newString" and "filePath \<noteq> []"
  shows "editContents fl filePath (RegularFile \<lparr> pf_bom = b, pf_text = windowsText t \<rparr>) oldString newString False =
    Some (Inr \<lparr> pf_bom = b, pf_text = windowsText (p @ newString @ q) \<rparr>)"
proof -
  have "t = p @ oldString @ q" using assms(1) unfolding onlyAt_def by blast
  with assms(5) have "cr \<notin> set oldString" by simp
  moreover from this have "windowsText oldString \<noteq> windowsText newString" using windowsText_inj assms(4,6) by blast
  from replace_exact [OF onlyAt_windowsText [OF assms(1,3,5)] this]
  have "replace fl (windowsText t) (windowsText oldString) (windowsText newString) False = Some (Inr (windowsText (p @ newString @ q)))" by simp
  ultimately show ?thesis
    using assms by (simp add: editContents_def detectLineEnding_windows normalizeLineEndings_plain convert_windows Let_def)
qed

theorem edit_windows_file_witness:
  "editContents (\<lambda>x. x) ''f'' (RegularFile \<lparr> pf_bom = False, pf_text = windowsText (''a'' @ [lf] @ ''b'') \<rparr>) (''a'' @ [lf]) [lf] False =
    Some (Inr \<lparr> pf_bom = False, pf_text = windowsText ([] @ [lf] @ ''b'') \<rparr>)"
proof (rule edit_windows_file)
  show "onlyAt (''a'' @ [lf] @ ''b'') [] (''a'' @ [lf]) ''b''" by (auto simp: onlyAt_def Cons_eq_append_conv)
qed (simp_all add: cr_def)

section \<open>Blocks of lines\<close>

lemma join_Cons: "ls \<noteq> [] \<Longrightarrow> join sep (l # ls) = l @ sep @ join sep ls"
  by (cases ls) simp_all

lemma drop_lineOffset: "i < length ls \<Longrightarrow> drop (lineOffset ls i) (join [lf] ls) = join [lf] (drop i ls)"
proof (induction i arbitrary: ls)
  case (Suc i)
  then obtain l ls' where "ls = l # ls'" "ls' \<noteq> []" "i < length ls'" by (cases ls) force+
  with Suc.IH [of ls'] show ?case by (simp add: lineOffset_def join_Cons)
qed (simp add: lineOffset_def)

lemma take_lines:
  "0 < n \<Longrightarrow> n \<le> length ls \<Longrightarrow> take (sum_list (map length (take n ls)) + (n - 1)) (join [lf] ls) = join [lf] (take n ls)"
proof (induction n arbitrary: ls)
  case (Suc n)
  then obtain l ls' where ls: "ls = l # ls'" by (cases ls) auto
  show ?case
  proof (cases n)
    case 0 with ls show ?thesis by (cases ls') simp_all
  next
    case (Suc m)
    with ls Suc.prems have "ls' \<noteq> []" "take n ls' \<noteq> []" by auto
    with Suc.IH [of ls'] Suc.prems Suc ls show ?thesis by (simp add: join_Cons)
  qed
qed simp

text \<open>The offsets that the replacers compute from the lengths of the lines cut out whole lines.\<close>

lemma blockText_lines:
  assumes "0 < n" and "i + n \<le> length (splitLines content)"
  shows "blockText content (splitLines content) i n = join [lf] (take n (drop i (splitLines content)))"
proof -
  let ?ls = "splitLines content"
  have "drop (lineOffset ?ls i) content = join [lf] (drop i ?ls)"
    using drop_lineOffset [of i ?ls] assms by (simp add: join_splitLines)
  with take_lines [of n "drop i ?ls"] assms show ?thesis by (simp add: blockText_def substring_def Let_def)
qed

lemma popEmpty_nonempty: "s \<noteq> [] \<Longrightarrow> popEmpty (splitLines s) \<noteq> []"
  using join_splitLines [of s] by (cases "splitLines s" rule: rev_cases) (auto simp: popEmpty_def)

lemma trimmedAt_iff: "i + length search \<le> length ls \<Longrightarrow>
    trimmedAt ls search i \<longleftrightarrow> map trim (take (length search) (drop i ls)) = map trim search"
  by (simp add: trimmedAt_def list_all2_conv_all_nth list_eq_iff_nth_eq)

text \<open>The candidates that differ from the text in the white space around its lines: the blocks of whole lines of the file
  that agree with it line by line when trimmed, and nothing else.\<close>
theorem line_trimmed_candidates:
  assumes "oldText \<noteq> []"
  shows "set (LineTrimmedReplacer content oldText) =
    {join [lf] block | p block q. splitLines content = p @ block @ q \<and> map trim block = map trim (popEmpty (splitLines oldText))}"
    (is "_ = ?B")
proof -
  let ?ls = "splitLines content" and ?search = "popEmpty (splitLines oldText)"
  let ?n = "length ?search"
  have n: "0 < ?n" using popEmpty_nonempty [OF assms] by simp
  have "set (LineTrimmedReplacer content oldText) =
      {join [lf] (take ?n (drop i ?ls)) | i. i + ?n \<le> length ?ls \<and> map trim (take ?n (drop i ?ls)) = map trim ?search}"
    using n by (auto simp: LineTrimmedReplacer_def Let_def trimmedAt_iff blockText_lines less_diff_conv less_Suc_eq_le)
  also have "\<dots> = ?B" (is "?A = _")
  proof (intro equalityI subsetI)
    fix x assume "x \<in> ?A"
    then obtain i where "x = join [lf] (take ?n (drop i ?ls))" "map trim (take ?n (drop i ?ls)) = map trim ?search" by blast
    moreover have "?ls = take i ?ls @ take ?n (drop i ?ls) @ drop ?n (drop i ?ls)" by (simp only: append_take_drop_id)
    ultimately show "x \<in> ?B" by blast
  next
    fix x assume "x \<in> ?B"
    then obtain p block q where b: "x = join [lf] block" "?ls = p @ block @ q" "map trim block = map trim ?search" by blast
    from b(3) have "length block = ?n" by (metis length_map)
    with b(2) have "take ?n (drop (length p) ?ls) = block" "length p + ?n \<le> length ?ls" by simp_all
    with b(1,3) show "x \<in> ?A" by blast
  qed
  finally show ?thesis .
qed

theorem line_trimmed_candidates_witness:
  "set (LineTrimmedReplacer ('' a'' @ [lf] @ ''b'') ''a'') =
    {join [lf] block | p block q. splitLines ('' a'' @ [lf] @ ''b'') = p @ block @ q \<and> map trim block = map trim (popEmpty (splitLines ''a''))}"
  by (rule line_trimmed_candidates) simp

section \<open>Where the fallbacks go wrong\<close>

text \<open>In a file with Windows line endings a candidate that was found by its trimmed lines takes the carriage return of its last line
  with it: the line that is written ends differently from the others.\<close>
theorem edit_loses_carriage_return:
  "editContents fl ''f'' (RegularFile \<lparr> pf_bom = False, pf_text = windowsText (''a'' @ [lf] @ '' b'' @ [lf] @ ''c'') \<rparr>) ''  b'' ''d'' False =
     Some (Inr \<lparr> pf_bom = False, pf_text = ''a'' @ [cr, lf] @ ''d'' @ [lf] @ ''c'' \<rparr>)"
  by code_simp

text \<open>White space that is not in the file, with all occurrences asked for: the empty text is found instead, and the new text is put
  between all characters of the file.\<close>
theorem edit_spreads_new_text:
  "editContents fl ''f'' (RegularFile \<lparr> pf_bom = False, pf_text = ''ab'' \<rparr>) '' '' ''-'' True =
     Some (Inr \<lparr> pf_bom = False, pf_text = ''-a-b-'' \<rparr>)"
  by code_simp

section \<open>Writing\<close>

lemma mark_kept: "map_sum PatchMessage (\<lambda>t. old\<lparr>pf_text := t\<rparr>) z = Inr f \<Longrightarrow> pf_bom f = pf_bom old"
  by (cases z) auto

text \<open>What the tool does to the files: nothing when the search fails or the permission is refused; otherwise only the file it was asked
  to edit changes, and its byte order mark is kept.\<close>
theorem edit_writes_one_file:
  assumes "executeEdit fl formatter refusal s filePath oldString newString all = Some (r, s')"
  shows "(case r of Inl e \<Rightarrow> es_targets s' = es_targets s \<and> es_events s' = es_events s
    | Inr f \<Rightarrow> refusal = None \<and> es_asked s' = es_asked s @ [filePath] \<and> mapGet (es_targets s') filePath = Some (RegularFile f)
        \<and> (\<forall>p. p \<noteq> filePath \<longrightarrow> mapGet (es_targets s') p = mapGet (es_targets s) p)
        \<and> (\<forall>old. targetAt s filePath = RegularFile old \<longrightarrow> pf_bom f = pf_bom old))"
proof -
  have bom: "pf_bom f = pf_bom old" if "editContents fl filePath (RegularFile old) oldString newString all = Some (Inr f)" for f old
    using that by (auto simp: editContents_def Let_def split: if_splits dest: mark_kept)
  show ?thesis
    using assms bom
    by (auto simp: executeEdit_def Let_def split: option.splits sum.splits if_splits)
qed

end
