(* ===== verification/Chat_Pages.thy ===== *)
theory Chat_Pages
  imports Goal_Protocol
begin

text \<open>
  Pages of the chats of a runtime, of the messages of a chat and of its goals
  (\<^verbatim>\<open>packages/remote-runtime-host/src/index.ts\<close>, \<^verbatim>\<open>packages/remote-runtime-host/src/remote-runtime-manager.ts\<close>), and the
  loop of the manager that collects all chats of a directory.  A cursor is the base64url text of a JSON value: it is modelled as
  that value, or as a text that does not decode.  The host that lists the chats and \<open>localeCompare\<close> are parameters.
\<close>

section \<open>Cursors\<close>

datatype cursor_text = Undecodable | Encodes js

record active_chat =
  chat_agent :: "string option"
  chat_createdAt :: string
  chat_messageCount :: "nat option"
  chat_model :: "string option"
  chat_path :: "string option"
  chat_projectId :: string
  chat_sessionId :: string
  chat_status :: string
  chat_title :: string
  chat_updatedAt :: string

record active_chat_cursor =
  ac_offset :: "nat option"
  ac_seenSessionIds :: "string list"
  ac_sessionId :: string
  ac_snapshotId :: "string option"
  ac_updatedAt :: string

fun jsNat :: "js \<Rightarrow> nat option" where
  "jsNat (JNum (JFin r)) = (if numSafeInteger (JFin r) \<and> 0 \<le> r then Some (nat \<lfloor>r\<rfloor>) else None)"
| "jsNat _ = None"

definition remoteRuntimeDecodeCursor :: "cursor_text \<Rightarrow> string \<Rightarrow> string + js" where
  "remoteRuntimeDecodeCursor cursor message = (case cursor of Undecodable \<Rightarrow> Inl message | Encodes v \<Rightarrow> Inr v)"

definition encodeRemoteRuntimeActiveChatCursor :: "active_chat \<Rightarrow> nat \<Rightarrow> string list \<Rightarrow> cursor_text" where
  "encodeRemoteRuntimeActiveChatCursor chat offset seenSessionIds =
     Encodes (JObj [(''offset'', JInt (int offset)), (''seenSessionIds'', JArr (map JStr seenSessionIds)),
       (''sessionId'', JStr (chat_sessionId chat)), (''updatedAt'', JStr (chat_updatedAt chat))])"

definition activeChatCursorInvalid :: string where
  "activeChatCursorInvalid = ''Active chat cursor is not valid.''"

definition decodeRemoteRuntimeActiveChatCursor :: "cursor_text \<Rightarrow> string + active_chat_cursor" where
  "decodeRemoteRuntimeActiveChatCursor cursor =
     (case remoteRuntimeDecodeCursor cursor activeChatCursorInvalid of
        Inl e \<Rightarrow> Inl e
      | Inr v \<Rightarrow>
          if isRecord v \<and> isString (getProp v ''sessionId'') \<and> isString (getProp v ''updatedAt'')
          then Inr \<lparr> ac_offset = jsNat (getProp v ''offset''),
                     ac_seenSessionIds = (if isArray (getProp v ''seenSessionIds'')
                       then map strOf (filter isString (arrayItems (getProp v ''seenSessionIds'')))
                       else [strOf (getProp v ''sessionId'')]),
                     ac_sessionId = strOf (getProp v ''sessionId''),
                     ac_snapshotId = (if isString (getProp v ''snapshotId'') then Some (strOf (getProp v ''snapshotId'')) else None),
                     ac_updatedAt = strOf (getProp v ''updatedAt'') \<rparr>
          else Inl activeChatCursorInvalid)"

record message_cursor =
  mc_endExclusive :: nat
  mc_pageSize :: nat
  mc_sessionId :: string

definition encodeRemoteRuntimeChatMessageCursor :: "message_cursor \<Rightarrow> cursor_text" where
  "encodeRemoteRuntimeChatMessageCursor cursor =
     Encodes (JObj [(''endExclusive'', JInt (int (mc_endExclusive cursor))), (''pageSize'', JInt (int (mc_pageSize cursor))),
       (''sessionId'', JStr (mc_sessionId cursor))])"

definition messageCursorInvalid :: string where
  "messageCursorInvalid = ''Chat message cursor is not valid.''"

definition decodeRemoteRuntimeChatMessageCursor :: "cursor_text \<Rightarrow> string + message_cursor" where
  "decodeRemoteRuntimeChatMessageCursor cursor =
     (case remoteRuntimeDecodeCursor cursor messageCursorInvalid of
        Inl e \<Rightarrow> Inl e
      | Inr v \<Rightarrow>
          if isRecord v then
            (case (jsNat (getProp v ''endExclusive''), jsNat (getProp v ''pageSize''), getProp v ''sessionId'') of
               (Some e, Some n, JStr s) \<Rightarrow>
                 if n > 0 \<and> s \<noteq> [] then Inr \<lparr> mc_endExclusive = e, mc_pageSize = n, mc_sessionId = s \<rparr>
                 else Inl messageCursorInvalid
             | _ \<Rightarrow> Inl messageCursorInvalid)
          else Inl messageCursorInvalid)"

record goal_cursor =
  gc_threadId :: string
  gc_updatedAt :: rat

definition encodeRemoteRuntimeGoalCursor :: "stored_goal \<Rightarrow> cursor_text" where
  "encodeRemoteRuntimeGoalCursor goal =
     Encodes (JObj [(''threadId'', JStr (tg_threadId goal)), (''updatedAt'', JNum (JFin (tg_updatedAt goal)))])"

definition goalCursorInvalid :: string where
  "goalCursorInvalid = ''Goal cursor is not valid.''"

definition decodeRemoteRuntimeGoalCursor :: "cursor_text \<Rightarrow> string + goal_cursor" where
  "decodeRemoteRuntimeGoalCursor cursor =
     (case remoteRuntimeDecodeCursor cursor goalCursorInvalid of
        Inl e \<Rightarrow> Inl e
      | Inr v \<Rightarrow>
          if isRecord v then
            (case (getProp v ''threadId'', getProp v ''updatedAt'') of
               (JStr t, JNum (JFin r)) \<Rightarrow>
                 if t \<noteq> [] \<and> numSafeInteger (JFin r) then Inr \<lparr> gc_threadId = t, gc_updatedAt = r \<rparr> else Inl goalCursorInvalid
             | _ \<Rightarrow> Inl goalCursorInvalid)
          else Inl goalCursorInvalid)"

section \<open>Pages\<close>

text \<open>The pages of chats and of messages take a whole number as their limit.\<close>

record page_payload =
  pp_cursor :: "cursor_text option"
  pp_limit :: "int option"

record 'a page =
  pg_items :: "'a list"
  pg_hasNewer :: bool
  pg_hasOlder :: bool
  pg_newerCursor :: "cursor_text option"
  pg_olderCursor :: "cursor_text option"

definition pageLimit :: "int option \<Rightarrow> int \<Rightarrow> nat" where
  "pageLimit limit fallback = nat (min (max (case limit of Some l \<Rightarrow> l | None \<Rightarrow> fallback) 1) 100)"

definition activeChatCursor :: "cursor_text option \<Rightarrow> string + active_chat_cursor option" where
  "activeChatCursor cursor =
     (case cursor of None \<Rightarrow> Inr None | Some c \<Rightarrow> map_sum id Some (decodeRemoteRuntimeActiveChatCursor c))"

definition createRemoteRuntimeActiveChatPage :: "active_chat list \<Rightarrow> page_payload \<Rightarrow> string + active_chat page" where
  "createRemoteRuntimeActiveChatPage activeChats payload =
     (case activeChatCursor (pp_cursor payload) of
        Inl e \<Rightarrow> Inl e
      | Inr cursor \<Rightarrow>
          (let limit = pageLimit (pp_limit payload) 25;
               seenSessionIds = (case cursor of Some c \<Rightarrow> ac_seenSessionIds c | None \<Rightarrow> []);
               startOffset = (case cursor of Some c \<Rightarrow> (case ac_offset c of Some n \<Rightarrow> n | None \<Rightarrow> 0) | None \<Rightarrow> 0);
               remainingChats = filter (\<lambda>chat. chat_sessionId chat \<notin> set seenSessionIds) activeChats;
               page = take limit remainingChats;
               hasOlder = length remainingChats > limit;
               hasNewer = startOffset > 0 \<or> seenSessionIds \<noteq> [];
               nextOffset = startOffset + length page in
           Inr \<lparr> pg_items = page, pg_hasNewer = hasNewer, pg_hasOlder = hasOlder,
             pg_newerCursor = (if hasNewer \<and> page \<noteq> []
               then Some (encodeRemoteRuntimeActiveChatCursor (hd page) (startOffset - limit) []) else None),
             pg_olderCursor = (if hasOlder \<and> page \<noteq> []
               then Some (encodeRemoteRuntimeActiveChatCursor (last page) nextOffset [chat_sessionId (last page)]) else None) \<rparr>))"

definition createConsolidatedActiveChatProjectionPage :: "active_chat list \<Rightarrow> page_payload \<Rightarrow> string + active_chat page" where
  "createConsolidatedActiveChatProjectionPage activeChats payload =
     (case activeChatCursor (pp_cursor payload) of
        Inl e \<Rightarrow> Inl e
      | Inr cursor \<Rightarrow>
          (let limit = pageLimit (pp_limit payload) 25;
               startOffset = (case cursor of Some c \<Rightarrow> (case ac_offset c of Some n \<Rightarrow> n | None \<Rightarrow> 0) | None \<Rightarrow> 0);
               page = take limit (drop startOffset activeChats);
               hasOlder = length activeChats > startOffset + limit in
           Inr \<lparr> pg_items = page, pg_hasNewer = startOffset > 0, pg_hasOlder = hasOlder,
             pg_newerCursor = (if startOffset > 0 \<and> page \<noteq> []
               then Some (encodeRemoteRuntimeActiveChatCursor (hd page) (startOffset - limit) []) else None),
             pg_olderCursor = (if hasOlder \<and> page \<noteq> []
               then Some (encodeRemoteRuntimeActiveChatCursor (last page) (startOffset + length page) [chat_sessionId (last page)])
               else None) \<rparr>))"

definition sessionMismatch :: string where
  "sessionMismatch = ''Chat message cursor does not match the requested session.''"

definition createRemoteRuntimeChatMessagesPage :: "string \<Rightarrow> 'm list \<Rightarrow> page_payload \<Rightarrow> string + 'm page" where
  "createRemoteRuntimeChatMessagesPage sessionId messages payload =
     (let requestedLimit = pageLimit (pp_limit payload) 50 in
      case (case pp_cursor payload of
              Some c \<Rightarrow> decodeRemoteRuntimeChatMessageCursor c
            | None \<Rightarrow> Inr \<lparr> mc_endExclusive = length messages, mc_pageSize = requestedLimit, mc_sessionId = sessionId \<rparr>) of
        Inl e \<Rightarrow> Inl e
      | Inr cursor \<Rightarrow>
          if mc_sessionId cursor \<noteq> sessionId then Inl sessionMismatch
          else
            (let pageSize = min (max (mc_pageSize cursor) 1) 100;
                 endExclusive = min (mc_endExclusive cursor) (length messages);
                 start = endExclusive - pageSize in
             Inr \<lparr> pg_items = take (endExclusive - start) (drop start messages),
               pg_hasNewer = endExclusive < length messages, pg_hasOlder = start > 0,
               pg_newerCursor = (if endExclusive < length messages
                 then Some (encodeRemoteRuntimeChatMessageCursor
                   \<lparr> mc_endExclusive = min (length messages) (endExclusive + pageSize), mc_pageSize = pageSize, mc_sessionId = sessionId \<rparr>)
                 else None),
               pg_olderCursor = (if start > 0
                 then Some (encodeRemoteRuntimeChatMessageCursor
                   \<lparr> mc_endExclusive = start, mc_pageSize = pageSize, mc_sessionId = sessionId \<rparr>)
                 else None) \<rparr>))"

section \<open>The chats of a directory\<close>

text \<open>The loop of \<open>listAllActiveChatsForEntry\<close>; the host is asked with the cursor and the limit 100.  \<open>None\<close>: it does not end.\<close>

partial_function (option) collectActiveChats ::
  "(cursor_text option \<Rightarrow> active_chat list) \<Rightarrow> string \<Rightarrow> cursor_text option \<Rightarrow> string list \<Rightarrow> active_chat list \<Rightarrow>
     (string + active_chat list) option" where
  [code]: "collectActiveChats listActiveChats directory cursor seenSessionIds activeChats =
     (case createRemoteRuntimeActiveChatPage (listActiveChats cursor) \<lparr> pp_cursor = cursor, pp_limit = Some 100 \<rparr> of
        Inl e \<Rightarrow> Some (Inl e)
      | Inr page \<Rightarrow>
          (let newActiveChats = filter (\<lambda>chat. chat_sessionId chat \<notin> set seenSessionIds) (pg_items page);
               activeChats' = activeChats @ map (\<lambda>chat. chat\<lparr>chat_path := (case chat_path chat of
                 Some p \<Rightarrow> Some p | None \<Rightarrow> Some directory)\<rparr>) newActiveChats in
           if (pg_items page \<noteq> [] \<and> newActiveChats = []) \<or> pg_olderCursor page = None then Some (Inr activeChats')
           else collectActiveChats listActiveChats directory (pg_olderCursor page)
                  (seenSessionIds @ map chat_sessionId newActiveChats) activeChats'))"

definition listAllActiveChatsForEntry :: "(cursor_text option \<Rightarrow> active_chat list) \<Rightarrow> string \<Rightarrow> (string + active_chat list) option" where
  "listAllActiveChatsForEntry listActiveChats directory = collectActiveChats listActiveChats directory None [] []"

section \<open>Goals\<close>

text \<open>\<open>localeCompare\<close> is a parameter; the sign of the comparisons is what is used.\<close>

definition compareStoredGoalsDescending :: "(string \<Rightarrow> string \<Rightarrow> int) \<Rightarrow> stored_goal \<Rightarrow> stored_goal \<Rightarrow> rat" where
  "compareStoredGoalsDescending localeCompare left right =
     (if tg_updatedAt left \<noteq> tg_updatedAt right then tg_updatedAt right - tg_updatedAt left
      else of_int (localeCompare (tg_threadId right) (tg_threadId left)))"

definition compareGoalToCursor :: "(string \<Rightarrow> string \<Rightarrow> int) \<Rightarrow> stored_goal \<Rightarrow> goal_cursor \<Rightarrow> rat" where
  "compareGoalToCursor localeCompare goal cursor =
     (if tg_updatedAt goal \<noteq> gc_updatedAt cursor then gc_updatedAt cursor - tg_updatedAt goal
      else of_int (localeCompare (gc_threadId cursor) (tg_threadId goal)))"

text \<open>\<open>Array.prototype.sort\<close> with a comparison: it is stable.\<close>

fun insertCompared :: "('a \<Rightarrow> 'a \<Rightarrow> rat) \<Rightarrow> 'a \<Rightarrow> 'a list \<Rightarrow> 'a list" where
  "insertCompared cmp x [] = [x]"
| "insertCompared cmp x (y # ys) = (if cmp x y \<le> 0 then x # y # ys else y # insertCompared cmp x ys)"

definition sortCompared :: "('a \<Rightarrow> 'a \<Rightarrow> rat) \<Rightarrow> 'a list \<Rightarrow> 'a list" where
  "sortCompared cmp xs = foldr (insertCompared cmp) xs []"

record goals_page =
  gp_goals :: "stored_goal list"
  gp_hasOlder :: bool
  gp_olderCursor :: "cursor_text option"

text \<open>The limit is any number of the payload; one that is not finite counts as none.\<close>

definition goalLimit :: "jnum option \<Rightarrow> nat" where
  "goalLimit limit = nat \<lfloor>min (max (case limit of Some (JFin r) \<Rightarrow> r | _ \<Rightarrow> 20) 1) 100\<rfloor>"

text \<open>The list of the goals of a directory when the host has no list of its own: \<open>projectable\<close> are the sessions that are shown.\<close>

definition listDirectoryGoals ::
  "(string \<Rightarrow> string \<Rightarrow> int) \<Rightarrow> stored_goal list \<Rightarrow> string list \<Rightarrow> goal_status option \<Rightarrow> jnum option \<Rightarrow> cursor_text option \<Rightarrow> string + goals_page" where
  "listDirectoryGoals localeCompare storedGoals projectable status limit cursor =
     (let limit = goalLimit limit in
      case (case cursor of None \<Rightarrow> Inr None | Some c \<Rightarrow> map_sum id Some (decodeRemoteRuntimeGoalCursor c)) of
        Inl e \<Rightarrow> Inl e
      | Inr cursor \<Rightarrow>
          (let authorityFilteredGoals = filter (\<lambda>goal. tg_threadId goal \<in> set projectable) storedGoals;
               filteredGoals = filter (\<lambda>goal. case cursor of None \<Rightarrow> True | Some c \<Rightarrow> compareGoalToCursor localeCompare goal c > 0)
                 (sortCompared (compareStoredGoalsDescending localeCompare)
                   (filter (\<lambda>goal. case status of None \<Rightarrow> True | Some s \<Rightarrow> tg_status goal = s) authorityFilteredGoals));
               pageGoals = take limit filteredGoals;
               hasOlder = length filteredGoals > limit in
           Inr \<lparr> gp_goals = pageGoals, gp_hasOlder = hasOlder,
             gp_olderCursor = (if hasOlder then Some (encodeRemoteRuntimeGoalCursor (last pageGoals)) else None) \<rparr>))"

text \<open>The host's own list, the dependency \<open>listGoals\<close>, comes first; without it only the goals of one directory can be listed.\<close>

record goal_query =
  gq_cursor :: "cursor_text option"
  gq_directories :: "string list"
  gq_limit :: "jnum option"
  gq_status :: "goal_status option"

definition listAuthoritativeRemoteRuntimeGoals ::
  "(goal_query \<Rightarrow> goals_page) option \<Rightarrow> (string \<Rightarrow> string \<Rightarrow> int) \<Rightarrow> stored_goal list \<Rightarrow> string list \<Rightarrow> goal_query \<Rightarrow> string + goals_page" where
  "listAuthoritativeRemoteRuntimeGoals listGoals localeCompare storedGoals projectable query =
     (case listGoals of
        Some list \<Rightarrow> Inr (list query)
      | None \<Rightarrow>
          if length (gq_directories query) > 1 then Inl ''Remote runtime goal aggregation requires a goal list reader.''
          else listDirectoryGoals localeCompare storedGoals projectable (gq_status query) (gq_limit query) (gq_cursor query))"

end
