(* ===== verification/Page_Theorems.thy ===== *)
theory Page_Theorems
  imports Chat_Pages
begin

text \<open>
  Reading on with the cursor of a page: the older pages of the messages of a chat, of the chats of a runtime and of the goals of a
  directory together hold every entry once, in order, and the last page ends the reading.  The contract that makes it so is the
  locale \<open>older_pages\<close>.  The loop that collects the chats of a directory ends and collects all of them.
\<close>

section \<open>Reading on\<close>

text \<open>The pages that a reader gets with one cursor after the other; \<open>None\<close> when there are more than \<open>fuel\<close>.\<close>

fun readOlder :: "nat \<Rightarrow> (cursor_text option \<Rightarrow> string + 'a list \<times> cursor_text option) \<Rightarrow> cursor_text option \<Rightarrow> (string + 'a list list) option" where
  "readOlder 0 fetch cursor = None"
| "readOlder (Suc fuel) fetch cursor =
     (case fetch cursor of
        Inl e \<Rightarrow> Some (Inl e)
      | Inr (xs, None) \<Rightarrow> Some (Inr [xs])
      | Inr (xs, Some older) \<Rightarrow> map_option (map_sum id ((#) xs)) (readOlder fuel fetch (Some older)))"

text \<open>The contract of a list that is read in pages: \<open>after x cursor n\<close> says that the cursor stands after \<open>n\<close> of the entries.\<close>

locale older_pages =
  fixes ok :: "'x \<Rightarrow> bool" and entries :: "'x \<Rightarrow> 'a list"
    and fetch :: "'x \<Rightarrow> cursor_text option \<Rightarrow> string + 'a list \<times> cursor_text option"
    and after :: "'x \<Rightarrow> cursor_text option \<Rightarrow> nat \<Rightarrow> bool"
  assumes at_start: "ok x \<Longrightarrow> after x None 0"
    and page_at: "ok x \<Longrightarrow> after x cursor n \<Longrightarrow> \<exists>k older. k > 0 \<and> fetch x cursor = Inr (take k (drop n (entries x)), older) \<and>
      (case older of None \<Rightarrow> length (entries x) \<le> n + k | Some c \<Rightarrow> after x (Some c) (n + k) \<and> n + k < length (entries x))"
begin

lemma read_from:
  assumes "ok x" "after x cursor n" "length (entries x) - n < fuel"
  shows "\<exists>pages. readOlder fuel (fetch x) cursor = Some (Inr pages) \<and> concat pages = drop n (entries x)"
  using assms(2,3)
proof (induction fuel arbitrary: cursor n)
  case (Suc fuel)
  from page_at [OF assms(1) Suc.prems(1)] obtain k older where page: "k > 0" "fetch x cursor = Inr (take k (drop n (entries x)), older)"
    and older: "case older of None \<Rightarrow> length (entries x) \<le> n + k | Some c \<Rightarrow> after x (Some c) (n + k) \<and> n + k < length (entries x)"
    by blast
  show ?case
  proof (cases older)
    case None with page older show ?thesis by simp
  next
    case (Some c)
    with older have c: "after x (Some c) (n + k)" "n + k < length (entries x)" by simp_all
    then have "length (entries x) - (n + k) < fuel" using page(1) Suc.prems(2) by simp
    from Suc.IH [OF c(1) this] obtain pages where "readOlder fuel (fetch x) (Some c) = Some (Inr pages)"
      "concat pages = drop (n + k) (entries x)" by blast
    moreover have "take k (drop n (entries x)) @ drop (n + k) (entries x) = drop n (entries x)"
      by (metis add.commute append_take_drop_id drop_drop)
    ultimately show ?thesis using page(2) Some by simp
  qed
qed simp

lemma read_all:
  "ok x \<Longrightarrow> \<exists>pages. readOlder (Suc (length (entries x))) (fetch x) None = Some (Inr pages) \<and> concat pages = entries x"
  using read_from [OF _ at_start, of x "Suc (length (entries x))"] by simp

end

lemma jsNat_int [simp]: "n \<le> 9007199254740991 \<Longrightarrow> jsNat (JInt (int n)) = Some n"
  using numSafe_of_int [of "int n"] by simp

lemma pageLimit_pos: "0 < pageLimit limit fallback"
  by (simp add: pageLimit_def)

lemma goalLimit_pos: "0 < goalLimit limit"
proof -
  have "(1 :: int) \<le> \<lfloor>min (max r 1) 100\<rfloor>" for r :: rat by (simp add: le_floor_iff)
  then show ?thesis by (simp add: goalLimit_def)
qed

lemma activeChatCursor_None [simp]: "activeChatCursor None = Inr None"
  by (simp add: activeChatCursor_def)

lemma activeChatCursor_encoded: "n \<le> 9007199254740991 \<Longrightarrow>
    activeChatCursor (Some (encodeRemoteRuntimeActiveChatCursor chat n seen)) =
      Inr (Some \<lparr> ac_offset = Some n, ac_seenSessionIds = seen, ac_sessionId = chat_sessionId chat, ac_snapshotId = None,
        ac_updatedAt = chat_updatedAt chat \<rparr>)"
  using jsNat_int [of n]
  by (simp add: activeChatCursor_def decodeRemoteRuntimeActiveChatCursor_def encodeRemoteRuntimeActiveChatCursor_def
      remoteRuntimeDecodeCursor_def comp_def)

text \<open>A cursor that was made from a position is read back as that position.\<close>

lemma messageCursor_roundtrip:
  "mc_endExclusive c \<le> 9007199254740991 \<Longrightarrow> mc_pageSize c \<le> 9007199254740991 \<Longrightarrow> 0 < mc_pageSize c \<Longrightarrow> mc_sessionId c \<noteq> [] \<Longrightarrow>
    decodeRemoteRuntimeChatMessageCursor (encodeRemoteRuntimeChatMessageCursor c) = Inr c"
  using jsNat_int [of "mc_endExclusive c"] jsNat_int [of "mc_pageSize c"]
  by (simp add: decodeRemoteRuntimeChatMessageCursor_def encodeRemoteRuntimeChatMessageCursor_def remoteRuntimeDecodeCursor_def del: jsNat_int)

section \<open>The chats of a runtime\<close>

definition consolidatedFetch :: "int option \<Rightarrow> active_chat list \<Rightarrow> cursor_text option \<Rightarrow> string + active_chat list \<times> cursor_text option" where
  "consolidatedFetch limit chats cursor = map_sum id (\<lambda>p. (pg_items p, pg_olderCursor p))
     (createConsolidatedActiveChatProjectionPage chats \<lparr> pp_cursor = cursor, pp_limit = limit \<rparr>)"

definition consolidatedAt :: "active_chat list \<Rightarrow> cursor_text option \<Rightarrow> nat \<Rightarrow> bool" where
  "consolidatedAt chats cursor n \<longleftrightarrow> n \<le> 9007199254740991 \<and>
     (cursor = None \<and> n = 0 \<or> n < length chats \<and> (\<exists>chat seen. cursor = Some (encodeRemoteRuntimeActiveChatCursor chat n seen)))"

definition shortList :: "'a list \<Rightarrow> bool" where
  "shortList xs \<longleftrightarrow> length xs \<le> 4294967295"

lemma consolidated_page:
  assumes "consolidatedAt chats cursor n"
  shows "consolidatedFetch limit chats cursor =
    (let k = pageLimit limit 25; page = take k (drop n chats) in
     Inr (page, if length chats > n + k \<and> page \<noteq> []
       then Some (encodeRemoteRuntimeActiveChatCursor (last page) (n + length page) [chat_sessionId (last page)]) else None))"
  using assms unfolding consolidatedAt_def
  by (elim conjE disjE exE) (simp_all add: consolidatedFetch_def createConsolidatedActiveChatProjectionPage_def activeChatCursor_encoded Let_def)

interpretation chats: older_pages shortList "\<lambda>chats. chats" "consolidatedFetch limit" consolidatedAt for limit
proof
  fix x :: "active_chat list" and cursor n
  show "consolidatedAt x None 0" by (simp add: consolidatedAt_def)
  assume "shortList x" and at_pos: "consolidatedAt x cursor n"
  let ?k = "pageLimit limit 25"
  let ?page = "take ?k (drop n x)"
  let ?older = "if length x > n + ?k \<and> ?page \<noteq> []
    then Some (encodeRemoteRuntimeActiveChatCursor (last ?page) (n + length ?page) [chat_sessionId (last ?page)]) else None"
  have "consolidatedAt x (Some (encodeRemoteRuntimeActiveChatCursor (last ?page) (n + length ?page) [chat_sessionId (last ?page)])) (n + ?k)"
    if "length x > n + ?k"
  proof -
    have "length ?page = ?k" using that by simp
    with that \<open>shortList x\<close> show ?thesis by (auto simp: consolidatedAt_def shortList_def)
  qed
  then show "\<exists>k older. k > 0 \<and> consolidatedFetch limit x cursor = Inr (take k (drop n x), older) \<and>
      (case older of None \<Rightarrow> length x \<le> n + k | Some c \<Rightarrow> consolidatedAt x (Some c) (n + k) \<and> n + k < length x)"
    using consolidated_page [OF at_pos, of limit] pageLimit_pos [of limit 25]
    by (intro exI [of _ ?k] exI [of _ ?older]) (auto simp: Let_def)
qed

text \<open>The chats of a runtime: whatever the page size, the pages that a client reads with the older cursors are together the list of
  the chats, each once and in its order, and the reading ends.\<close>
theorem active_chat_pages_complete:
  assumes "length activeChats \<le> 4294967295"
  shows "\<exists>pages. readOlder (Suc (length activeChats)) (consolidatedFetch limit activeChats) None = Some (Inr pages) \<and> concat pages = activeChats"
  by (rule chats.read_all) (simp add: shortList_def assms)

text \<open>Sample chats for the witnesses.\<close>

definition sampleChat :: "nat \<Rightarrow> active_chat" where
  "sampleChat n = \<lparr> chat_agent = None, chat_createdAt = ''t'', chat_messageCount = None, chat_model = None, chat_path = None,
     chat_projectId = ''p'', chat_sessionId = replicate n CHR ''s'', chat_status = ''idle'', chat_title = ''c'', chat_updatedAt = ''t'' \<rparr>"

lemma sampleChat_distinct: "distinct (map chat_sessionId (map sampleChat [1..<4]))"
proof -
  have "length (chat_sessionId (sampleChat n)) = n" for n by (simp add: sampleChat_def)
  then have "inj (\<lambda>n. chat_sessionId (sampleChat n))" by (metis injI)
  then have "distinct (map (\<lambda>n. chat_sessionId (sampleChat n)) [1..<4])" by (auto simp: distinct_map intro: inj_on_subset)
  then show ?thesis by (simp only: map_map comp_def)
qed

theorem active_chat_pages_complete_witness:
  "\<exists>pages. readOlder (Suc (length (map sampleChat [1..<4]))) (consolidatedFetch (Some 1) (map sampleChat [1..<4])) None = Some (Inr pages)
    \<and> concat pages = map sampleChat [1..<4]"
  by (rule active_chat_pages_complete) simp

section \<open>The messages of a chat\<close>

definition messageFetch :: "int option \<Rightarrow> string \<times> 'm list \<Rightarrow> cursor_text option \<Rightarrow> string + 'm list \<times> cursor_text option" where
  "messageFetch limit source cursor = (case source of (sessionId, messages) \<Rightarrow> map_sum id (\<lambda>p. (rev (pg_items p), pg_olderCursor p))
     (createRemoteRuntimeChatMessagesPage sessionId messages \<lparr> pp_cursor = cursor, pp_limit = limit \<rparr>))"

text \<open>The newest message comes first, since the pages are read from the end.\<close>

definition messageAt :: "int option \<Rightarrow> string \<times> 'm list \<Rightarrow> cursor_text option \<Rightarrow> nat \<Rightarrow> bool" where
  "messageAt limit source cursor n \<longleftrightarrow> (case source of (sessionId, messages) \<Rightarrow>
     cursor = None \<and> n = 0 \<or> n < length messages \<and> cursor = Some (encodeRemoteRuntimeChatMessageCursor
       \<lparr> mc_endExclusive = length messages - n, mc_pageSize = pageLimit limit 50, mc_sessionId = sessionId \<rparr>))"

definition chatOk :: "string \<times> 'm list \<Rightarrow> bool" where
  "chatOk source \<longleftrightarrow> fst source \<noteq> [] \<and> shortList (snd source)"

lemma pageLimit_le: "pageLimit limit fallback \<le> 100"
  by (simp add: pageLimit_def)

lemma message_page:
  assumes "chatOk (sessionId, messages)" and "messageAt limit (sessionId, messages) cursor n"
  shows "messageFetch limit (sessionId, messages) cursor =
    (let k = pageLimit limit 50; e = length messages - n; start = e - k in
     Inr (rev (take (e - start) (drop start messages)), if start > 0
       then Some (encodeRemoteRuntimeChatMessageCursor \<lparr> mc_endExclusive = start, mc_pageSize = k, mc_sessionId = sessionId \<rparr>) else None))"
proof -
  let ?c = "\<lparr> mc_endExclusive = length messages - n, mc_pageSize = pageLimit limit 50, mc_sessionId = sessionId \<rparr>"
  have "decodeRemoteRuntimeChatMessageCursor (encodeRemoteRuntimeChatMessageCursor ?c) = Inr ?c"
    using assms(1) pageLimit_le [of limit 50] pageLimit_pos [of limit 50]
    by (intro messageCursor_roundtrip) (auto simp: chatOk_def shortList_def)
  moreover have "min (max (pageLimit limit 50) 1) 100 = pageLimit limit 50"
    using pageLimit_le [of limit 50] pageLimit_pos [of limit 50] by simp
  ultimately show ?thesis
    using assms(2) by (auto simp: messageAt_def messageFetch_def createRemoteRuntimeChatMessagesPage_def Let_def)
qed

lemma rev_slice: "n \<le> length xs \<Longrightarrow> rev (take (length xs - n - (length xs - n - k)) (drop (length xs - n - k) xs)) = take k (drop n (rev xs))"
  by (simp add: drop_rev take_rev take_drop)

interpretation messages: older_pages chatOk "\<lambda>source. rev (snd source)" "messageFetch limit" "messageAt limit" for limit
proof
  fix x :: "string \<times> 'm list" and cursor n
  show "messageAt limit x None 0" by (simp add: messageAt_def split: prod.splits)
  assume ok: "chatOk x" and at_pos: "messageAt limit x cursor n"
  obtain sessionId messages where x: "x = (sessionId, messages)" by (cases x)
  let ?k = "pageLimit limit 50"
  let ?start = "length messages - n - ?k"
  let ?older = "if ?start > 0 then Some (encodeRemoteRuntimeChatMessageCursor
    \<lparr> mc_endExclusive = ?start, mc_pageSize = ?k, mc_sessionId = sessionId \<rparr>) else None"
  have "n \<le> length messages" using at_pos x by (auto simp: messageAt_def)
  then have "messageFetch limit x cursor = Inr (take ?k (drop n (rev messages)), ?older)"
    using message_page [of sessionId messages limit cursor n] ok at_pos x rev_slice [of n messages ?k] by (simp add: Let_def) linarith
  moreover have "messageAt limit x ?older (n + ?k)" if "?start > 0" using that x by (auto simp: messageAt_def)
  ultimately show "\<exists>k older. k > 0 \<and> messageFetch limit x cursor = Inr (take k (drop n (rev (snd x))), older) \<and>
      (case older of None \<Rightarrow> length (rev (snd x)) \<le> n + k | Some c \<Rightarrow> messageAt limit x (Some c) (n + k) \<and> n + k < length (rev (snd x)))"
    using pageLimit_pos [of limit 50] x by (intro exI [of _ ?k] exI [of _ ?older]) auto
qed

text \<open>The messages of a chat: whatever the page size, the pages that a client reads backwards with the older cursors are together the
  messages, newest first, each once, and the reading ends.\<close>
theorem message_pages_complete:
  assumes "sessionId \<noteq> []" and "length messages \<le> 4294967295"
  shows "\<exists>pages. readOlder (Suc (length messages)) (messageFetch limit (sessionId, messages)) None = Some (Inr pages)
    \<and> concat pages = rev messages"
  using messages.read_all [of "(sessionId, messages)" limit] assms by (simp add: chatOk_def shortList_def)

theorem message_pages_complete_witness:
  "\<exists>pages. readOlder (Suc (length [1 :: nat, 2, 3])) (messageFetch (Some 2) (''ses_1'', [1 :: nat, 2, 3])) None = Some (Inr pages)
    \<and> concat pages = rev [1 :: nat, 2, 3]"
  by (rule message_pages_complete) simp_all

section \<open>The goals of a directory\<close>

text \<open>\<open>localeCompare\<close> orders the threads of the goals.\<close>

definition ordersText :: "(string \<Rightarrow> string \<Rightarrow> int) \<Rightarrow> string set \<Rightarrow> bool" where
  "ordersText localeCompare S \<longleftrightarrow>
     (\<forall>a\<in>S. \<forall>b\<in>S. (localeCompare a b = 0 \<longleftrightarrow> a = b) \<and> (localeCompare a b < 0 \<longleftrightarrow> localeCompare b a > 0)) \<and>
     (\<forall>a\<in>S. \<forall>b\<in>S. \<forall>c\<in>S. localeCompare a b < 0 \<longrightarrow> localeCompare b c < 0 \<longrightarrow> localeCompare a c < 0)"

record goal_source =
  go_localeCompare :: "string \<Rightarrow> string \<Rightarrow> int"
  go_storedGoals :: "stored_goal list"
  go_projectable :: "string list"
  go_status :: "goal_status option"

definition goalsShown :: "goal_source \<Rightarrow> stored_goal list" where
  "goalsShown src = sortCompared (compareStoredGoalsDescending (go_localeCompare src))
     (filter (\<lambda>goal. case go_status src of None \<Rightarrow> True | Some s \<Rightarrow> tg_status goal = s)
       (filter (\<lambda>goal. tg_threadId goal \<in> set (go_projectable src)) (go_storedGoals src)))"

definition goalsOk :: "goal_source \<Rightarrow> bool" where
  "goalsOk src \<longleftrightarrow> distinct (map tg_threadId (go_storedGoals src)) \<and>
     ordersText (go_localeCompare src) (tg_threadId ` set (go_storedGoals src)) \<and>
     list_all (\<lambda>g. tg_threadId g \<noteq> [] \<and> numSafeInteger (JFin (tg_updatedAt g))) (go_storedGoals src)"

definition goalFetch :: "jnum option \<Rightarrow> goal_source \<Rightarrow> cursor_text option \<Rightarrow> string + stored_goal list \<times> cursor_text option" where
  "goalFetch limit src cursor = map_sum id (\<lambda>p. (gp_goals p, gp_olderCursor p))
     (listDirectoryGoals (go_localeCompare src) (go_storedGoals src) (go_projectable src) (go_status src) limit cursor)"

definition goalAt :: "goal_source \<Rightarrow> cursor_text option \<Rightarrow> nat \<Rightarrow> bool" where
  "goalAt src cursor n \<longleftrightarrow> cursor = None \<and> n = 0 \<or>
     0 < n \<and> n < length (goalsShown src) \<and> cursor = Some (encodeRemoteRuntimeGoalCursor (goalsShown src ! (n - 1)))"

lemma insertCompared_set [simp]: "set (insertCompared cmp x ys) = insert x (set ys)"
  by (induction ys) auto

lemma sortCompared_set [simp]: "set (sortCompared cmp xs) = set xs"
  by (induction xs) (auto simp: sortCompared_def)

text \<open>\<open>before\<close> is the strict order of the comparison on \<open>S\<close>, a total one.\<close>

lemma insertCompared_sorted:
  assumes "\<And>a b c. a \<in> S \<Longrightarrow> b \<in> S \<Longrightarrow> c \<in> S \<Longrightarrow> cmp a b < 0 \<Longrightarrow> cmp b c < 0 \<Longrightarrow> cmp a c < 0"
    and "\<And>a b. a \<in> S \<Longrightarrow> b \<in> S \<Longrightarrow> cmp a b > 0 \<Longrightarrow> cmp b a < 0"
    and "sorted_wrt (\<lambda>a b. cmp a b < 0) ys" "set ys \<subseteq> S" "x \<in> S" "\<And>y. y \<in> set ys \<Longrightarrow> cmp x y \<noteq> 0"
  shows "sorted_wrt (\<lambda>a b. cmp a b < (0 :: rat)) (insertCompared cmp x ys)"
  using assms(3-6)
proof (induction ys)
  case (Cons y ys)
  show ?case
  proof (cases "cmp x y \<le> 0")
    case True
    with Cons.prems have "cmp x y < 0" by (metis list.set_intros(1) order_le_less)
    moreover have "cmp x z < 0" if "z \<in> set ys" for z
      using assms(1) [of x y z] that Cons.prems \<open>cmp x y < 0\<close> by auto
    ultimately show ?thesis using True Cons.prems by simp
  next
    case False
    then have "cmp y x < 0" using assms(2) [of x y] Cons.prems by simp
    then show ?thesis using False Cons by auto
  qed
qed simp

lemma sortCompared_sorted:
  assumes "\<And>a b c. a \<in> S \<Longrightarrow> b \<in> S \<Longrightarrow> c \<in> S \<Longrightarrow> cmp a b < 0 \<Longrightarrow> cmp b c < 0 \<Longrightarrow> cmp a c < 0"
    and "\<And>a b. a \<in> S \<Longrightarrow> b \<in> S \<Longrightarrow> cmp a b > 0 \<Longrightarrow> cmp b a < (0 :: rat)"
    and "set xs \<subseteq> S" and "distinct xs" and "\<And>a b. a \<in> S \<Longrightarrow> b \<in> S \<Longrightarrow> a \<noteq> b \<Longrightarrow> cmp a b \<noteq> 0"
  shows "sorted_wrt (\<lambda>a b. cmp a b < 0) (sortCompared cmp xs)"
  using assms(3,4)
proof (induction xs)
  case (Cons x xs)
  have "sorted_wrt (\<lambda>a b. cmp a b < 0) (insertCompared cmp x (sortCompared cmp xs))"
  proof (rule insertCompared_sorted [where S = S])
    show "cmp x y \<noteq> 0" if "y \<in> set (sortCompared cmp xs)" for y using that Cons.prems assms(5) [of x y] by auto
    show "sorted_wrt (\<lambda>a b. cmp a b < 0) (sortCompared cmp xs)" using Cons by simp
    show "set (sortCompared cmp xs) \<subseteq> S" "x \<in> S" using Cons.prems by simp_all
  qed (fact assms(1,2))+
  then show ?case by (simp add: sortCompared_def)
qed (simp add: sortCompared_def)

lemma compare_negative: "compareStoredGoalsDescending lc a b < 0 \<longleftrightarrow>
    tg_updatedAt b < tg_updatedAt a \<or> tg_updatedAt a = tg_updatedAt b \<and> lc (tg_threadId b) (tg_threadId a) < 0"
  by (auto simp: compareStoredGoalsDescending_def)

lemma compare_zero: "compareStoredGoalsDescending lc a b = 0 \<longleftrightarrow>
    tg_updatedAt a = tg_updatedAt b \<and> lc (tg_threadId b) (tg_threadId a) = 0"
  by (auto simp: compareStoredGoalsDescending_def)

lemma compare_positive: "compareStoredGoalsDescending lc a b > 0 \<longleftrightarrow>
    tg_updatedAt a < tg_updatedAt b \<or> tg_updatedAt a = tg_updatedAt b \<and> lc (tg_threadId b) (tg_threadId a) > 0"
  by (auto simp: compareStoredGoalsDescending_def)

lemma goals_comparison:
  fixes src :: goal_source
  assumes "goalsOk src"
  defines "cmp \<equiv> compareStoredGoalsDescending (go_localeCompare src)" and "S \<equiv> set (go_storedGoals src)"
  shows "\<And>a b c. a \<in> S \<Longrightarrow> b \<in> S \<Longrightarrow> c \<in> S \<Longrightarrow> cmp a b < 0 \<Longrightarrow> cmp b c < 0 \<Longrightarrow> cmp a c < 0"
    and "\<And>a b. a \<in> S \<Longrightarrow> b \<in> S \<Longrightarrow> cmp a b > 0 \<longleftrightarrow> cmp b a < 0"
    and "\<And>a b. a \<in> S \<Longrightarrow> b \<in> S \<Longrightarrow> cmp a b = 0 \<longleftrightarrow> a = b"
proof -
  let ?lc = "go_localeCompare src"
  have lc: "(?lc (tg_threadId a) (tg_threadId b) = 0 \<longleftrightarrow> tg_threadId a = tg_threadId b)
      \<and> (?lc (tg_threadId a) (tg_threadId b) < 0 \<longleftrightarrow> ?lc (tg_threadId b) (tg_threadId a) > 0)" if "a \<in> S" "b \<in> S" for a b
    using assms(1) that unfolding goalsOk_def ordersText_def S_def by blast
  have trans: "?lc (tg_threadId a) (tg_threadId c) < 0"
    if "a \<in> S" "b \<in> S" "c \<in> S" "?lc (tg_threadId a) (tg_threadId b) < 0" "?lc (tg_threadId b) (tg_threadId c) < 0" for a b c
    using assms(1) that unfolding goalsOk_def ordersText_def S_def by blast
  have inj: "a = b" if "a \<in> S" "b \<in> S" "tg_threadId a = tg_threadId b" for a b
    using assms(1) that unfolding goalsOk_def S_def by (meson distinct_map inj_onD)
  show "cmp a c < 0" if "a \<in> S" "b \<in> S" "c \<in> S" "cmp a b < 0" "cmp b c < 0" for a b c
    using that trans [of c b a] unfolding cmp_def compare_negative by (elim disjE conjE) auto
  show "cmp a b > 0 \<longleftrightarrow> cmp b a < 0" if "a \<in> S" "b \<in> S" for a b
    unfolding cmp_def compare_positive compare_negative using lc [OF that] by (metis (no_types))
  show "cmp a b = 0 \<longleftrightarrow> a = b" if "a \<in> S" "b \<in> S" for a b
    unfolding cmp_def compare_zero using lc [OF that(2,1)] inj [OF that] by (metis (no_types))
qed

lemma goalsShown_sorted:
  assumes "goalsOk src"
  shows "sorted_wrt (\<lambda>a b. compareStoredGoalsDescending (go_localeCompare src) a b < 0) (goalsShown src)"
    and "set (goalsShown src) \<subseteq> set (go_storedGoals src)"
proof -
  note facts = goals_comparison [OF assms]
  have "distinct (go_storedGoals src)" using assms by (simp add: goalsOk_def distinct_map)
  show "sorted_wrt (\<lambda>a b. compareStoredGoalsDescending (go_localeCompare src) a b < 0) (goalsShown src)"
    unfolding goalsShown_def
  proof (rule sortCompared_sorted [where S = "set (go_storedGoals src)"])
    show "distinct (filter (\<lambda>goal. case go_status src of None \<Rightarrow> True | Some s \<Rightarrow> tg_status goal = s)
        (filter (\<lambda>goal. tg_threadId goal \<in> set (go_projectable src)) (go_storedGoals src)))"
      using \<open>distinct (go_storedGoals src)\<close> by simp
  qed (blast intro: facts(1) dest: facts(2) [THEN iffD1] facts(3) [THEN iffD1] | auto)+
  show "set (goalsShown src) \<subseteq> set (go_storedGoals src)" by (auto simp: goalsShown_def)
qed

lemma filter_after:
  assumes "sorted_wrt P xs" "n < length xs"
    and "\<And>x. x \<in> set xs \<Longrightarrow> Q x \<longleftrightarrow> P (xs ! n) x" and "\<And>x. x \<in> set xs \<Longrightarrow> \<not> P x x"
    and "\<And>x y. x \<in> set xs \<Longrightarrow> y \<in> set xs \<Longrightarrow> P x y \<Longrightarrow> \<not> P y x"
  shows "filter Q xs = drop (Suc n) xs"
proof -
  have "filter Q (take (Suc n) xs) = []"
  proof (simp only: filter_empty_conv, intro ballI)
    fix x assume "x \<in> set (take (Suc n) xs)"
    then obtain i where i: "i < Suc n" "x = xs ! i" by (auto simp: in_set_conv_nth)
    then have "i = n \<or> P x (xs ! n)" using assms(1,2) by (auto simp: sorted_wrt_iff_nth_less less_Suc_eq)
    moreover have "x \<in> set xs" "xs ! n \<in> set xs" using i assms(2) by auto
    ultimately show "\<not> Q x" using assms(3,4,5) i by blast
  qed
  moreover have "filter Q (drop (Suc n) xs) = drop (Suc n) xs"
  proof (simp only: filter_id_conv, intro ballI)
    fix x assume x: "x \<in> set (drop (Suc n) xs)"
    then obtain i where "i < length (drop (Suc n) xs)" "x = drop (Suc n) xs ! i" by (auto simp: in_set_conv_nth)
    then have "P (xs ! n) x" using assms(1,2) by (auto simp: sorted_wrt_iff_nth_less)
    then show "Q x" using assms(3) set_drop_subset [of "Suc n" xs] x by auto
  qed
  ultimately show ?thesis by (metis append_Nil append_take_drop_id filter_append)
qed

lemma goalCursor_roundtrip:
  "tg_threadId g \<noteq> [] \<Longrightarrow> numSafeInteger (JFin (tg_updatedAt g)) \<Longrightarrow>
    decodeRemoteRuntimeGoalCursor (encodeRemoteRuntimeGoalCursor g) = Inr \<lparr> gc_threadId = tg_threadId g, gc_updatedAt = tg_updatedAt g \<rparr>"
  by (simp add: decodeRemoteRuntimeGoalCursor_def encodeRemoteRuntimeGoalCursor_def remoteRuntimeDecodeCursor_def)

lemma compareGoalToCursor_stored:
  "compareGoalToCursor lc goal \<lparr> gc_threadId = tg_threadId g, gc_updatedAt = tg_updatedAt g \<rparr> = compareStoredGoalsDescending lc goal g"
  by (simp add: compareGoalToCursor_def compareStoredGoalsDescending_def)

lemma goalFetch_shown:
  "goalFetch limit src cursor =
     (case (case cursor of None \<Rightarrow> Inr None | Some c \<Rightarrow> map_sum id Some (decodeRemoteRuntimeGoalCursor c)) of
        Inl e \<Rightarrow> Inl e
      | Inr cursor \<Rightarrow>
          (let k = goalLimit limit;
               rest = filter (\<lambda>goal. case cursor of None \<Rightarrow> True | Some c \<Rightarrow> compareGoalToCursor (go_localeCompare src) goal c > 0) (goalsShown src) in
           Inr (take k rest, if length rest > k then Some (encodeRemoteRuntimeGoalCursor (last (take k rest))) else None)))"
  unfolding goalFetch_def listDirectoryGoals_def goalsShown_def Let_def by (simp split: sum.split del: filter_filter)

lemma goal_page:
  assumes "goalsOk src" and "goalAt src cursor n"
  shows "goalFetch limit src cursor = (let k = goalLimit limit; rest = drop n (goalsShown src); page = take k rest in
    Inr (page, if length rest > k then Some (encodeRemoteRuntimeGoalCursor (last page)) else None))"
proof (cases "cursor = None")
  case True
  with assms(2) show ?thesis by (simp add: goalAt_def goalFetch_shown Let_def)
next
  case False
  let ?g = "goalsShown src ! (n - 1)" and ?cmp = "compareStoredGoalsDescending (go_localeCompare src)"
  have n: "0 < n" "n < length (goalsShown src)" and c: "cursor = Some (encodeRemoteRuntimeGoalCursor ?g)"
    using assms(2) False by (auto simp: goalAt_def)
  note sorted = goalsShown_sorted [OF assms(1)] and facts = goals_comparison [OF assms(1)]
  have g: "?g \<in> set (go_storedGoals src)" using n sorted(2) by (meson less_imp_diff_less nth_mem subsetD)
  then have "decodeRemoteRuntimeGoalCursor (encodeRemoteRuntimeGoalCursor ?g) = Inr \<lparr> gc_threadId = tg_threadId ?g, gc_updatedAt = tg_updatedAt ?g \<rparr>"
    using assms(1) by (intro goalCursor_roundtrip) (auto simp: goalsOk_def list_all_iff)
  moreover have "filter (\<lambda>goal. compareGoalToCursor (go_localeCompare src) goal \<lparr> gc_threadId = tg_threadId ?g, gc_updatedAt = tg_updatedAt ?g \<rparr> > 0)
      (goalsShown src) = drop (Suc (n - 1)) (goalsShown src)"
  proof (rule filter_after [OF sorted(1)])
    show "compareGoalToCursor (go_localeCompare src) x \<lparr> gc_threadId = tg_threadId ?g, gc_updatedAt = tg_updatedAt ?g \<rparr> > 0
        \<longleftrightarrow> ?cmp ?g x < 0" if "x \<in> set (goalsShown src)" for x
      using facts(2) [of x ?g] g that sorted(2) unfolding compareGoalToCursor_stored by blast
    show "\<not> ?cmp x x < 0" if "x \<in> set (goalsShown src)" for x
      using facts(3) [of x x] that sorted(2) by auto
    show "\<not> ?cmp y x < 0" if "x \<in> set (goalsShown src)" "y \<in> set (goalsShown src)" "?cmp x y < 0" for x y
      using facts(2) [of x y] that sorted(2) by fastforce
  qed (use n in simp)
  ultimately show ?thesis
    using c n by (simp add: goalFetch_shown Let_def)
qed

interpretation goals: older_pages goalsOk goalsShown "goalFetch limit" goalAt for limit
proof
  fix x :: goal_source and cursor n
  show "goalAt x None 0" by (simp add: goalAt_def)
  assume ok: "goalsOk x" and at_pos: "goalAt x cursor n"
  let ?k = "goalLimit limit" and ?L = "goalsShown x"
  let ?page = "take ?k (drop n ?L)"
  let ?older = "if length (drop n ?L) > ?k then Some (encodeRemoteRuntimeGoalCursor (last ?page)) else None"
  have "last ?page = ?L ! (n + ?k - 1)" if "length (drop n ?L) > ?k"
  proof -
    have "length ?page = ?k" "?page \<noteq> []" using that goalLimit_pos [of limit] by auto
    then have "last ?page = drop n ?L ! (?k - 1)" using goalLimit_pos [of limit] by (simp add: last_conv_nth)
    then show ?thesis using that goalLimit_pos [of limit] by simp
  qed
  then have "goalAt x ?older (n + ?k)" if "length (drop n ?L) > ?k"
    using that goalLimit_pos [of limit] by (simp add: goalAt_def)
  then show "\<exists>k older. k > 0 \<and> goalFetch limit x cursor = Inr (take k (drop n ?L), older) \<and>
      (case older of None \<Rightarrow> length ?L \<le> n + k | Some c \<Rightarrow> goalAt x (Some c) (n + k) \<and> n + k < length ?L)"
    using goal_page [OF ok at_pos, of limit] goalLimit_pos [of limit]
    by (intro exI [of _ ?k] exI [of _ ?older]) (auto simp: Let_def)
qed

text \<open>C32: The goals of a directory: when the threads of the goals are ordered by the comparison of texts, the pages of the goals that are shown
  are together the goals in the order of the last change, each once, and the reading ends.\<close>
theorem goal_pages_complete:
  "goalsOk src \<Longrightarrow> \<exists>pages. readOlder (Suc (length (goalsShown src))) (goalFetch limit src) None = Some (Inr pages)
     \<and> concat pages = goalsShown src"
  by (rule goals.read_all)

definition sampleGoals :: goal_source where
  "sampleGoals = \<lparr> go_localeCompare = (\<lambda>a b. if a = b then 0 else if a = ''ses_1'' then - 1 else 1),
     go_storedGoals = map (\<lambda>t. \<lparr> tg_threadId = t, tg_objective = ''o'', tg_status = GoalActive, tg_tokenBudget = None, tg_tokensUsed = 0,
       tg_timeUsedSeconds = 0, tg_createdAt = 1, tg_updatedAt = 1, sg_goalId = t, sg_budgetLimitReported = False \<rparr>) [''ses_1'', ''ses_2''],
     go_projectable = [''ses_1'', ''ses_2''], go_status = None \<rparr>"

theorem goal_pages_complete_witness:
  "\<exists>pages. readOlder (Suc (length (goalsShown sampleGoals))) (goalFetch (Some (JFin (3 / 2))) sampleGoals) None = Some (Inr pages)
     \<and> concat pages = goalsShown sampleGoals"
  by (rule goal_pages_complete) (simp add: goalsOk_def sampleGoals_def ordersText_def numSafe_of_int [of 1, simplified])

section \<open>Collecting the chats of a directory\<close>

text \<open>The loop ends when the host knows finitely many chats: every round that goes on has found a new one.\<close>

theorem collecting_chats_ends:
  assumes "finite S" and "\<And>cursor chat. chat \<in> set (listActiveChats cursor) \<Longrightarrow> chat_sessionId chat \<in> S"
  shows "\<exists>r. collectActiveChats listActiveChats directory cursor seen acc = Some r"
proof (induction "card (S - set seen)" arbitrary: cursor seen acc rule: less_induct)
  case less
  show ?case
  proof (cases "createRemoteRuntimeActiveChatPage (listActiveChats cursor) \<lparr> pp_cursor = cursor, pp_limit = Some 100 \<rparr>")
    case (Inl e) then show ?thesis by (subst collectActiveChats.simps) simp
  next
    case (Inr page)
    let ?new = "filter (\<lambda>chat. chat_sessionId chat \<notin> set seen) (pg_items page)"
    have items: "set (pg_items page) \<subseteq> set (listActiveChats cursor)" and empty: "pg_items page = [] \<Longrightarrow> pg_olderCursor page = None"
      using Inr by (auto simp: createRemoteRuntimeActiveChatPage_def Let_def split: sum.splits dest!: in_set_takeD)
    show ?thesis
    proof (cases "?new = []")
      case True with Inr empty show ?thesis by (subst collectActiveChats.simps) (auto simp: Let_def)
    next
      case False
      then obtain chat where "chat \<in> set ?new" by (meson hd_in_set)
      then have "chat_sessionId chat \<in> S" "chat_sessionId chat \<notin> set seen" using items assms(2) by auto
      then have "S - set (seen @ map chat_sessionId ?new) \<subset> S - set seen" using \<open>chat \<in> set ?new\<close> by auto
      then have "card (S - set (seen @ map chat_sessionId ?new)) < card (S - set seen)" using assms(1) by (simp add: psubset_card_mono)
      from less [OF this] Inr show ?thesis by (subst collectActiveChats.simps) (auto simp: Let_def)
    qed
  qed
qed

theorem collecting_chats_ends_witness:
  "\<exists>r. collectActiveChats (\<lambda>_. [sampleChat 1]) ''/repo'' None [] [] = Some r"
  by (rule collecting_chats_ends [where S = "{''s''}"]) (simp_all add: sampleChat_def)

definition withDirectory :: "string \<Rightarrow> active_chat \<Rightarrow> active_chat" where
  "withDirectory directory chat = chat\<lparr>chat_path := (case chat_path chat of Some p \<Rightarrow> Some p | None \<Rightarrow> Some directory)\<rparr>"

text \<open>The contract of the host: it returns the chats from the offset of the cursor on, one more than asked for.\<close>

definition hostPages :: "active_chat list \<Rightarrow> (cursor_text option \<Rightarrow> active_chat list) \<Rightarrow> bool" where
  "hostPages chats listActiveChats \<longleftrightarrow> listActiveChats None = take 101 chats \<and>
     (\<forall>chat n seen. listActiveChats (Some (encodeRemoteRuntimeActiveChatCursor chat n seen)) = take 101 (drop n chats))"

definition pageAfter :: "active_chat list \<Rightarrow> nat \<Rightarrow> cursor_text option" where
  "pageAfter chats n = (if n = 0 then None
     else Some (encodeRemoteRuntimeActiveChatCursor (chats ! (n - 1)) n [chat_sessionId (chats ! (n - 1))]))"

lemma id_fresh: "distinct (map f xs) \<Longrightarrow> 0 < n \<Longrightarrow> n \<le> length xs \<Longrightarrow> filter (\<lambda>x. f x \<noteq> f (xs ! (n - 1))) (take m (drop n xs)) = take m (drop n xs)"
  by (auto simp: filter_id_conv in_set_conv_nth distinct_conv_nth dest!: in_set_takeD)

lemma host_page:
  assumes "hostPages chats listActiveChats" "distinct (map chat_sessionId chats)" "length chats \<le> 4294967295" "n \<le> length chats"
  shows "\<exists>page. createRemoteRuntimeActiveChatPage (listActiveChats (pageAfter chats n)) \<lparr> pp_cursor = pageAfter chats n, pp_limit = Some 100 \<rparr> = Inr page
    \<and> pg_items page = take 100 (drop n chats)
    \<and> pg_olderCursor page = (if length chats > n + 100 then pageAfter chats (n + 100) else None)"
proof -
  have limit: "pageLimit (Some 100) 25 = 100" by (simp add: pageLimit_def)
  have last: "last (take 100 (drop n chats)) = chats ! (n + 99)" "take 100 (drop n chats) \<noteq> []" if "length chats > n + 100"
    using that by (auto simp: last_conv_nth)
  show ?thesis
  proof (cases "n = 0")
    case True
    with assms limit last show ?thesis
      by (auto simp: pageAfter_def hostPages_def createRemoteRuntimeActiveChatPage_def Let_def)
  next
    case False
    with assms(4) id_fresh [OF assms(2), of n 101] have fresh:
      "filter (\<lambda>chat. chat_sessionId chat \<noteq> chat_sessionId (chats ! (n - Suc 0))) (take 101 (drop n chats)) = take 101 (drop n chats)" by simp
    have "take 100 (take 101 (drop n chats)) = take 100 (drop n chats)" by (simp add: min_def)
    with False assms limit last fresh show ?thesis
      by (auto simp: pageAfter_def hostPages_def createRemoteRuntimeActiveChatPage_def Let_def activeChatCursor_encoded add.commute)
  qed
qed

lemma collect_from:
  assumes "hostPages chats listActiveChats" "distinct (map chat_sessionId chats)" "length chats \<le> 4294967295" "n \<le> length chats"
  shows "collectActiveChats listActiveChats directory (pageAfter chats n) (map chat_sessionId (take n chats)) (map (withDirectory directory) (take n chats))
    = Some (Inr (map (withDirectory directory) chats))"
  using assms(4)
proof (induction "length chats - n" arbitrary: n rule: less_induct)
  case less
  from host_page [OF assms(1-3) less.prems] obtain page where page:
    "createRemoteRuntimeActiveChatPage (listActiveChats (pageAfter chats n)) \<lparr> pp_cursor = pageAfter chats n, pp_limit = Some 100 \<rparr> = Inr page"
    "pg_items page = take 100 (drop n chats)" "pg_olderCursor page = (if length chats > n + 100 then pageAfter chats (n + 100) else None)" by blast
  have "chat_sessionId chat \<notin> set (map chat_sessionId (take n chats))" if "chat \<in> set (drop n chats)" for chat
    using that assms(2) by (metis append_take_drop_id disjoint_iff distinct_append image_eqI map_append set_map)
  then have new: "filter (\<lambda>chat. chat_sessionId chat \<notin> set (map chat_sessionId (take n chats))) (take 100 (drop n chats)) = take 100 (drop n chats)"
    unfolding filter_id_conv by (blast dest: in_set_takeD)
  have add: "map f (take n chats) @ map f (take 100 (drop n chats)) = map f (take (n + 100) chats)" for f :: "active_chat \<Rightarrow> 'b"
    by (simp add: take_add flip: map_append)
  show ?case
  proof (cases "length chats > n + 100")
    case True
    then obtain c where "pageAfter chats (n + 100) = Some c" "take 100 (drop n chats) \<noteq> []" by (auto simp: pageAfter_def)
    moreover have "collectActiveChats listActiveChats directory (pageAfter chats (n + 100)) (map chat_sessionId (take (n + 100) chats))
        (map (withDirectory directory) (take (n + 100) chats)) = Some (Inr (map (withDirectory directory) chats))"
      using True by (intro less.hyps) auto
    ultimately show ?thesis using page new True
      by (subst collectActiveChats.simps) (simp add: Let_def add withDirectory_def [symmetric])
  next
    case False
    then have "take 100 (drop n chats) = drop n chats" by simp
    with page new False show ?thesis
      by (subst collectActiveChats.simps) (simp add: Let_def withDirectory_def [symmetric] flip: map_append)
  qed
qed

text \<open>The chats of a directory: from a host that pages by the offset of the cursor, with different sessions, the manager collects all of
  them, in order, each with the directory as its path when it has none.\<close>
theorem all_chats_collected:
  assumes "hostPages chats listActiveChats" and "distinct (map chat_sessionId chats)" and "length chats \<le> 4294967295"
  shows "listAllActiveChatsForEntry listActiveChats directory = Some (Inr (map (withDirectory directory) chats))"
  using collect_from [OF assms, of 0 directory] by (simp add: listAllActiveChatsForEntry_def pageAfter_def)

theorem all_chats_collected_witness:
  "\<exists>listActiveChats. hostPages (map sampleChat [1..<4]) listActiveChats \<and>
     listAllActiveChatsForEntry listActiveChats ''/repo'' = Some (Inr (map (withDirectory ''/repo'') (map sampleChat [1..<4])))"
proof -
  let ?chats = "map sampleChat [1..<4]"
  let ?host = "\<lambda>cursor. case cursor of Some (Encodes (JObj ((k, JNum (JFin r)) # fs))) \<Rightarrow> take 101 (drop (nat \<lfloor>r\<rfloor>) ?chats) | _ \<Rightarrow> take 101 ?chats"
  have host: "hostPages ?chats ?host" by (simp add: hostPages_def encodeRemoteRuntimeActiveChatCursor_def)
  have "listAllActiveChatsForEntry ?host ''/repo'' = Some (Inr (map (withDirectory ''/repo'') ?chats))"
    by (rule all_chats_collected [OF host sampleChat_distinct]) simp
  with host show ?thesis by blast
qed

section \<open>Paging through the whole list\<close>

definition activeFetch :: "int option \<Rightarrow> active_chat list \<Rightarrow> cursor_text option \<Rightarrow> string + active_chat list \<times> cursor_text option" where
  "activeFetch limit chats cursor = map_sum id (\<lambda>p. (pg_items p, pg_olderCursor p))
     (createRemoteRuntimeActiveChatPage chats \<lparr> pp_cursor = cursor, pp_limit = limit \<rparr>)"

lemma without_one:
  "distinct (map f xs) \<Longrightarrow> j < length xs \<Longrightarrow> filter (\<lambda>x. f x \<noteq> f (xs ! j)) xs = take j xs @ drop (Suc j) xs"
proof -
  assume d: "distinct (map f xs)" and j: "j < length xs"
  have "filter (\<lambda>x. f x \<noteq> f (xs ! j)) (take j xs @ xs ! j # drop (Suc j) xs) = take j xs @ drop (Suc j) xs"
  proof -
    have "distinct (map f (take j xs @ xs ! j # drop (Suc j) xs))" using d id_take_nth_drop [OF j] by simp
    then have "\<forall>x \<in> set (take j xs) \<union> set (drop (Suc j) xs). f x \<noteq> f (xs ! j)" by (auto simp: image_iff)
    then show ?thesis by (simp add: filter_id_conv)
  qed
  then show ?thesis using id_take_nth_drop [OF j] by simp
qed

lemma activeChatCursor_seen:
  "\<exists>c. activeChatCursor (Some (encodeRemoteRuntimeActiveChatCursor chat offset seen)) = Inr (Some c) \<and> ac_seenSessionIds c = seen"
  by (simp add: activeChatCursor_def decodeRemoteRuntimeActiveChatCursor_def encodeRemoteRuntimeActiveChatCursor_def
      remoteRuntimeDecodeCursor_def comp_def)

lemma activeFetch_seen:
  assumes "activeChatCursor cursor = Inr c" and "seen = (case c of Some c \<Rightarrow> ac_seenSessionIds c | None \<Rightarrow> [])"
    and "rest = filter (\<lambda>chat. chat_sessionId chat \<notin> set seen) chats" and "length rest > pageLimit limit 25"
  shows "\<exists>offset. activeFetch limit chats cursor = Inr (take (pageLimit limit 25) rest,
    Some (encodeRemoteRuntimeActiveChatCursor (rest ! (pageLimit limit 25 - 1)) offset [chat_sessionId (rest ! (pageLimit limit 25 - 1))]))"
proof -
  have ne: "take (pageLimit limit 25) rest \<noteq> []" using assms(4) pageLimit_pos [of limit 25] by auto
  moreover have "last (take (pageLimit limit 25) rest) = rest ! (pageLimit limit 25 - 1)"
    using assms(4) pageLimit_pos [of limit 25] last_conv_nth [OF ne] by simp
  ultimately have "take (pageLimit limit 25) rest \<noteq> []" "last (take (pageLimit limit 25) rest) = rest ! (pageLimit limit 25 - 1)" by blast+
  moreover have "\<exists>offset. activeFetch limit chats cursor = Inr (take (pageLimit limit 25) rest,
      if length rest > pageLimit limit 25 \<and> take (pageLimit limit 25) rest \<noteq> []
      then Some (encodeRemoteRuntimeActiveChatCursor (last (take (pageLimit limit 25) rest)) offset
        [chat_sessionId (last (take (pageLimit limit 25) rest))]) else None)"
    unfolding activeFetch_def createRemoteRuntimeActiveChatPage_def assms(3) assms(2) by (simp add: assms(1) Let_def) blast
  ultimately show ?thesis using assms(4) by simp
qed

lemma active_page:
  assumes "distinct (map chat_sessionId chats)" "length chats > pageLimit limit 25 + 1"
    and "cursor = None \<or> (\<exists>j \<le> pageLimit limit 25. \<exists>chat offset. cursor =
      Some (encodeRemoteRuntimeActiveChatCursor chat offset [chat_sessionId (chats ! j)]))"
  shows "\<exists>j \<le> pageLimit limit 25. \<exists>xs chat offset. set xs \<subseteq> set (take (pageLimit limit 25 + 1) chats) \<and>
    activeFetch limit chats cursor = Inr (xs, Some (encodeRemoteRuntimeActiveChatCursor chat offset [chat_sessionId (chats ! j)]))"
proof -
  let ?k = "pageLimit limit 25"
  note pos = pageLimit_pos [of limit 25]
  from assms(3) consider "cursor = None" | j chat offset where "j \<le> ?k"
    "cursor = Some (encodeRemoteRuntimeActiveChatCursor chat offset [chat_sessionId (chats ! j)])" by blast
  then show ?thesis
  proof cases
    case 1
    then obtain offset where "activeFetch limit chats cursor = Inr (take ?k chats,
        Some (encodeRemoteRuntimeActiveChatCursor (chats ! (?k - 1)) offset [chat_sessionId (chats ! (?k - 1))]))"
      using activeFetch_seen [of cursor None "[]" chats chats limit] assms(2) by auto
    moreover have "set (take ?k chats) \<subseteq> set (take (?k + 1) chats)" by (rule set_take_subset_set_take) simp
    ultimately show ?thesis by (meson diff_le_self)
  next
    case (2 j chat offset)
    let ?rest = "take j chats @ drop (Suc j) chats"
    let ?i = "if ?k - 1 < j then ?k - 1 else ?k"
    obtain c where c: "activeChatCursor cursor = Inr (Some c)" "ac_seenSessionIds c = [chat_sessionId (chats ! j)]"
      using activeChatCursor_seen 2(2) by blast
    have "?rest = filter (\<lambda>x. chat_sessionId x \<notin> set [chat_sessionId (chats ! j)]) chats"
      using without_one [OF assms(1), of j] 2(1) assms(2) by simp
    moreover have "length ?rest > ?k" using 2(1) assms(2) by simp
    ultimately obtain offset' where page: "activeFetch limit chats cursor = Inr (take ?k ?rest,
        Some (encodeRemoteRuntimeActiveChatCursor (?rest ! (?k - 1)) offset' [chat_sessionId (?rest ! (?k - 1))]))"
      using activeFetch_seen [OF c(1), of "[chat_sessionId (chats ! j)]" ?rest chats limit] c(2) by auto
    have "?rest ! (?k - 1) = chats ! ?i" using 2(1) assms(2) pos by (auto simp: nth_append)
    moreover have "set (take ?k ?rest) \<subseteq> set (take (?k + 1) chats)"
    proof -
      have "set (take (?k - j) (drop (Suc j) chats)) \<subseteq> set (take (?k + 1) chats)"
        using set_drop_subset [of "Suc j" "take (?k + 1) chats"] 2(1) by (simp add: drop_take)
      moreover have "set (take j chats) \<subseteq> set (take (?k + 1) chats)" using 2(1) by (intro set_take_subset_set_take) simp
      ultimately show ?thesis using 2(1) assms(2) by (auto simp: min_def)
    qed
    ultimately show ?thesis using page by (intro exI [of _ ?i]) auto
  qed
qed

text \<open>A list of more chats than one page and another one, given as a whole: a cursor remembers only the last chat of its page, so the
  pages never leave the first chats and the reading does not end.\<close>
theorem active_chat_paging_circles:
  assumes "distinct (map chat_sessionId chats)" "length chats > pageLimit limit 25 + 1"
  shows "readOlder fuel (activeFetch limit chats) None = None"
proof -
  have "readOlder fuel (activeFetch limit chats) cursor = None"
    if "cursor = None \<or> (\<exists>j \<le> pageLimit limit 25. \<exists>chat offset. cursor =
      Some (encodeRemoteRuntimeActiveChatCursor chat offset [chat_sessionId (chats ! j)]))" for cursor
    using that
  proof (induction fuel arbitrary: cursor)
    case (Suc fuel)
    from active_page [OF assms Suc.prems] obtain j xs chat offset where "j \<le> pageLimit limit 25"
      "activeFetch limit chats cursor = Inr (xs, Some (encodeRemoteRuntimeActiveChatCursor chat offset [chat_sessionId (chats ! j)]))" by blast
    moreover from this(1) have "readOlder fuel (activeFetch limit chats)
        (Some (encodeRemoteRuntimeActiveChatCursor chat offset [chat_sessionId (chats ! j)])) = None" by (intro Suc.IH) blast
    ultimately show ?case by simp
  qed simp
  then show ?thesis by blast
qed

theorem active_chat_paging_circles_witness:
  "readOlder 100 (activeFetch (Some 1) (map sampleChat [1..<4])) None = None"
  by (rule active_chat_paging_circles [OF sampleChat_distinct]) (simp add: pageLimit_def)

end
