(* ===== verification/Message_Parts.thy ===== *)
theory Message_Parts
  imports Remote_Protocol "HOL-Library.List_Lexorder" "HOL-Library.Char_ord"
begin

text \<open>
  What of a message part leaves the host (\<^verbatim>\<open>packages/remote-runtime-host/src/index.ts\<close>):
  \<open>projectRemoteRuntimeMessagePartPayload\<close> picks the fields of a part that may be sent to a remote client,
  \<open>sanitizeRemoteRuntimeMessagePartPayload\<close> keeps those that are JSON, and the guard of the responses checks them.  A record of the
  source is an object value, null is \<open>JNull\<close>; an object under construction is its list of fields.
\<close>

section \<open>Values\<close>

type_synonym fields = "(string \<times> js) list"

fun remoteRuntimePartIsJsonValue :: "js \<Rightarrow> bool" where
  "remoteRuntimePartIsJsonValue JUndef = False"
| "remoteRuntimePartIsJsonValue (JArr vs) = list_all remoteRuntimePartIsJsonValue vs"
| "remoteRuntimePartIsJsonValue (JObj fs) = list_all (\<lambda>kv. remoteRuntimePartIsJsonValue (snd kv)) fs"
| "remoteRuntimePartIsJsonValue v = True"

definition remoteRuntimePartRecordValue :: "js \<Rightarrow> js" where
  "remoteRuntimePartRecordValue v = (if isRecord v then v else JNull)"

definition remoteRuntimePartStringValue :: "js \<Rightarrow> string option" where
  "remoteRuntimePartStringValue v = (if isString v \<and> strOf v \<noteq> [] then Some (strOf v) else None)"

definition remoteRuntimePartJsonObjectValue :: "js \<Rightarrow> js" where
  "remoteRuntimePartJsonObjectValue v =
     (case v of JObj fs \<Rightarrow> JObj (filter (\<lambda>kv. remoteRuntimePartIsJsonValue (snd kv)) fs) | _ \<Rightarrow> JNull)"

definition remoteRuntimePartJsonArrayValue :: "js \<Rightarrow> js" where
  "remoteRuntimePartJsonArrayValue v = (case v of JArr vs \<Rightarrow> JArr (filter remoteRuntimePartIsJsonValue vs) | _ \<Rightarrow> JNull)"

definition remoteRuntimePartObjectOrNull :: "fields \<Rightarrow> js" where
  "remoteRuntimePartObjectOrNull value = (if value = [] then JNull else JObj value)"

text \<open>\<^verbatim>\<open>target[key] = value\<close> under a condition, and the spread \<^verbatim>\<open>...(c ? { key: value } : {})\<close>.\<close>

definition setIf :: "bool \<Rightarrow> string \<Rightarrow> js \<Rightarrow> fields \<Rightarrow> fields" where
  "setIf c key v target = (if c then AList.update key v target else target)"

definition fieldIf :: "bool \<Rightarrow> string \<Rightarrow> js \<Rightarrow> fields" where
  "fieldIf c key v = (if c then [(key, v)] else [])"

definition remoteRuntimePartCopyField :: "js \<Rightarrow> string \<Rightarrow> fields \<Rightarrow> fields" where
  "remoteRuntimePartCopyField source key target = setIf (getProp source key \<noteq> JUndef) key (getProp source key) target"

definition remoteRuntimePartCopyStringField :: "js \<Rightarrow> string \<Rightarrow> fields \<Rightarrow> fields" where
  "remoteRuntimePartCopyStringField source key target = setIf (isString (getProp source key)) key (getProp source key) target"

definition remoteRuntimePartCopyArrayField :: "js \<Rightarrow> string \<Rightarrow> fields \<Rightarrow> fields" where
  "remoteRuntimePartCopyArrayField source key target = setIf (isArray (getProp source key)) key (getProp source key) target"

definition remoteRuntimePartCopyObjectField :: "js \<Rightarrow> string \<Rightarrow> fields \<Rightarrow> fields" where
  "remoteRuntimePartCopyObjectField source key target = setIf (isRecord (getProp source key)) key (getProp source key) target"

section \<open>Tools\<close>

definition remoteRuntimePartObject :: "js \<Rightarrow> string list \<Rightarrow> js" where
  "remoteRuntimePartObject source keys = remoteRuntimePartObjectOrNull (fold (remoteRuntimePartCopyField source) keys [])"

text \<open>An assignment of a scalar to \<open>__proto__\<close> does nothing.\<close>

definition remoteRuntimePartScalarObject :: "js \<Rightarrow> js" where
  "remoteRuntimePartScalarObject source =
     remoteRuntimePartObjectOrNull (fold (\<lambda>key.
       let v = getProp source key in setIf ((isBoolean v \<or> isNumber v \<or> isString v) \<and> key \<noteq> ''__proto__'') key v)
       (sort (objectKeys source)) [])"

definition toolInputKeys :: "string option \<Rightarrow> string list option" where
  "toolInputKeys tool =
     (if tool = Some ''bash'' then Some [''command'', ''description'', ''workdir'']
      else if tool = Some ''read'' then Some [''filePath'', ''path'']
      else if tool = Some ''grep'' \<or> tool = Some ''glob'' then Some [''pattern'', ''path'']
      else if tool = Some ''webfetch'' then Some [''url'']
      else if tool = Some ''websearch'' then Some [''query'']
      else if tool = Some ''task'' then Some [''description'', ''subagent_type'']
      else if tool = Some ''edit'' then Some [''filePath'']
      else if tool = Some ''write'' then Some [''content'', ''filePath'']
      else if tool = Some ''apply_patch'' then Some [''filePath'']
      else if tool = Some ''todowrite'' then Some [''todos'']
      else if tool = Some ''question'' then Some [''questions'']
      else if tool = Some ''skill'' then Some [''name'']
      else None)"

definition remoteRuntimePartToolInput :: "string option \<Rightarrow> js \<Rightarrow> js" where
  "remoteRuntimePartToolInput tool input =
     (if \<not> isRecord input then JNull
      else case toolInputKeys tool of
        Some keys \<Rightarrow> remoteRuntimePartObject input keys
      | None \<Rightarrow> remoteRuntimePartScalarObject input)"

definition remoteRuntimePartToolMetadata :: "string option \<Rightarrow> js \<Rightarrow> js \<Rightarrow> js" where
  "remoteRuntimePartToolMetadata tool metadata state =
     (if tool = Some ''bash'' then
        (case (case remoteRuntimePartStringValue (getProp metadata ''output'') of
                 Some t \<Rightarrow> Some t | None \<Rightarrow> remoteRuntimePartStringValue (getProp state ''output'')) of
           Some t \<Rightarrow> JObj [(''output'', JStr t)]
         | None \<Rightarrow> JNull)
      else if tool = Some ''read'' then remoteRuntimePartObjectOrNull (remoteRuntimePartCopyArrayField metadata ''loaded'' [])
      else if tool = Some ''grep'' then remoteRuntimePartObjectOrNull (remoteRuntimePartCopyField metadata ''matches'' [])
      else if tool = Some ''glob'' then remoteRuntimePartObjectOrNull (remoteRuntimePartCopyField metadata ''count'' [])
      else if tool = Some ''websearch'' then remoteRuntimePartObjectOrNull (remoteRuntimePartCopyField metadata ''numResults'' [])
      else if tool = Some ''task'' then
        remoteRuntimePartObjectOrNull (remoteRuntimePartCopyField metadata ''sessionId''
          (remoteRuntimePartCopyObjectField metadata ''sessionId'' []))
      else if tool = Some ''edit'' \<or> tool = Some ''write'' \<or> tool = Some ''apply_patch'' then
        remoteRuntimePartObjectOrNull (remoteRuntimePartCopyObjectField metadata ''diagnostics''
          (remoteRuntimePartCopyField metadata ''diff'' (remoteRuntimePartCopyArrayField metadata ''files''
            (remoteRuntimePartCopyObjectField metadata ''filediff'' []))))
      else if tool = Some ''todowrite'' then remoteRuntimePartObjectOrNull (remoteRuntimePartCopyArrayField metadata ''todos'' [])
      else if tool = Some ''question'' then remoteRuntimePartObjectOrNull (remoteRuntimePartCopyArrayField metadata ''answers'' [])
      else JNull)"

definition remoteRuntimePartToolState :: "string option \<Rightarrow> js \<Rightarrow> js" where
  "remoteRuntimePartToolState tool state =
     (if \<not> isRecord state then JNull
      else case remoteRuntimePartStringValue (getProp state ''status'') of
        None \<Rightarrow> JNull
      | Some status \<Rightarrow>
          (let input = remoteRuntimePartToolInput tool (remoteRuntimePartRecordValue (getProp state ''input''));
               metadata = remoteRuntimePartToolMetadata tool (remoteRuntimePartRecordValue (getProp state ''metadata'')) state;
               compacted = getProp (remoteRuntimePartRecordValue (getProp state ''time'')) ''compacted'' in
           JObj (
             setIf (compacted \<noteq> JUndef) ''time'' (JObj [(''compacted'', JBool True)])
            (setIf (metadata \<noteq> JNull) ''metadata'' metadata
            (setIf (status = ''error'' \<and> isString (getProp state ''error'')) ''error'' (getProp state ''error'')
            (setIf (status = ''completed'' \<and> isString (getProp state ''output'')) ''output'' (getProp state ''output'')
            (setIf (input \<noteq> JNull) ''input'' input
            (remoteRuntimePartCopyStringField state ''title'' [(''status'', JStr status)]))))))))"

definition remoteRuntimePartTextMetadata :: "js \<Rightarrow> js" where
  "remoteRuntimePartTextMetadata metadata =
     (if isRecord metadata \<and> isString (getProp metadata ''kind'') then JObj [(''kind'', getProp metadata ''kind'')] else JNull)"

section \<open>Sanitising\<close>

definition compactionPhase :: "js \<Rightarrow> bool" where
  "compactionPhase v \<longleftrightarrow> v \<in> {JStr ''manual'', JStr ''preTurn'', JStr ''midTurn''}"

definition compactionReason :: "js \<Rightarrow> bool" where
  "compactionReason v \<longleftrightarrow> v \<in> {JStr ''contextLimit'', JStr ''modelDownshift'', JStr ''userRequested'', JStr ''overflow''}"

text \<open>\<^verbatim>\<open>...(typeof payload.key === "string" ? { key: payload.key } : {})\<close>, and so on.\<close>

definition keepIf :: "(js \<Rightarrow> bool) \<Rightarrow> js \<Rightarrow> string \<Rightarrow> fields" where
  "keepIf p payload key = fieldIf (p (getProp payload key)) key (getProp payload key)"

definition keepObject :: "js \<Rightarrow> string \<Rightarrow> fields" where
  "keepObject payload key =
     (let v = remoteRuntimePartJsonObjectValue (getProp payload key) in fieldIf (v \<noteq> JNull) key v)"

text \<open>The fields of a part between its identifiers and its type, by its type.\<close>

definition sanitizedFields :: "string \<Rightarrow> js \<Rightarrow> fields option" where
  "sanitizedFields type payload =
     (if type = ''text'' \<or> type = ''reasoning'' then
        Some (keepObject payload ''metadata'' @ keepIf isBoolean payload ''synthetic'' @ keepIf isString payload ''text'')
      else if type = ''tool'' then
        Some (keepObject payload ''input'' @ keepObject payload ''metadata'' @ keepObject payload ''state'' @ keepIf isString payload ''tool'')
      else if type = ''file'' then
        Some (keepIf isString payload ''filename'' @ keepIf isString payload ''mime'' @ keepObject payload ''source'' @ keepIf isString payload ''url'')
      else if type = ''patch'' then
        (let files = remoteRuntimePartJsonArrayValue (getProp payload ''files'') in Some (fieldIf (files \<noteq> JNull) ''files'' files))
      else if type = ''snapshot'' \<or> type = ''step-start'' then Some (keepIf isString payload ''snapshot'')
      else if type = ''step-finish'' then
        Some (keepIf (\<lambda>v. isNumber v \<or> isString v) payload ''cost'' @ keepIf isString payload ''reason'' @
          keepIf isString payload ''snapshot'' @ keepObject payload ''tokens'')
      else if type = ''subtask'' then
        Some (keepIf isString payload ''agent'' @ keepIf isString payload ''description'' @ keepIf isString payload ''prompt'')
      else if type = ''agent'' then Some (keepIf isString payload ''name'')
      else if type = ''retry'' then Some (keepIf isNumber payload ''attempt'' @ keepIf remoteRuntimePartIsJsonValue payload ''error'')
      else if type = ''compaction'' then
        Some (keepIf isBoolean payload ''auto'' @ keepIf isBoolean payload ''overflow'' @ keepIf compactionPhase payload ''phase'' @
          keepIf compactionReason payload ''reason'' @ keepIf isString payload ''tail_start_id'')
      else None)"

definition sanitizeRemoteRuntimeMessagePartPayload :: "js \<Rightarrow> js" where
  "sanitizeRemoteRuntimeMessagePartPayload payload =
     (case remoteRuntimePartStringValue (getProp payload ''type'') of
        None \<Rightarrow> JNull
      | Some type \<Rightarrow>
          (case sanitizedFields type payload of
             None \<Rightarrow> JNull
           | Some fs \<Rightarrow> JObj (keepIf isString payload ''id'' @ keepIf isString payload ''messageID'' @ fs @ [(''type'', JStr type)])))"

section \<open>Projection\<close>

text \<open>The fields of a part that go on, by its type; \<open>None\<close> for a type that is not sent.\<close>

definition projectFields :: "string \<Rightarrow> js \<Rightarrow> fields \<Rightarrow> fields option" where
  "projectFields type part payload =
     (let copy = remoteRuntimePartCopyStringField part;
          partRecord = (\<lambda>key. remoteRuntimePartRecordValue (getProp part key));
          tool = remoteRuntimePartStringValue (getProp part ''tool'') in
      if type = ''text'' then
        (let metadata = remoteRuntimePartTextMetadata (partRecord ''metadata'') in
         Some (setIf (metadata \<noteq> JNull) ''metadata'' metadata
           (setIf (isBoolean (getProp part ''synthetic'')) ''synthetic'' (getProp part ''synthetic'') (copy ''text'' payload))))
      else if type = ''reasoning'' then Some (copy ''text'' payload)
      else if type = ''tool'' then
        (let state = remoteRuntimePartToolState tool (partRecord ''state'');
             metadata = remoteRuntimePartToolMetadata tool (partRecord ''metadata'') (partRecord ''state'') in
         Some (setIf (metadata \<noteq> JNull) ''metadata'' metadata (setIf (state \<noteq> JNull) ''state'' state (copy ''tool'' payload))))
      else if type = ''file'' then
        Some (setIf (partRecord ''source'' \<noteq> JNull) ''source'' (partRecord ''source'')
          (copy ''url'' (copy ''mime'' (copy ''filename'' payload))))
      else if type = ''patch'' then Some (setIf (isArray (getProp part ''files'')) ''files'' (getProp part ''files'') payload)
      else if type = ''subtask'' then Some (copy ''prompt'' (copy ''agent'' (copy ''description'' payload)))
      else if type = ''agent'' then Some (copy ''name'' payload)
      else if type = ''snapshot'' \<or> type = ''step-start'' then Some (copy ''snapshot'' payload)
      else if type = ''step-finish'' then
        Some (copy ''snapshot'' (setIf (partRecord ''tokens'' \<noteq> JNull) ''tokens'' (partRecord ''tokens'')
          (setIf (isNumber (getProp part ''cost'') \<or> isString (getProp part ''cost'')) ''cost'' (getProp part ''cost'') (copy ''reason'' payload))))
      else if type = ''retry'' then
        Some (setIf (partRecord ''error'' \<noteq> JNull) ''error'' (partRecord ''error'')
          (setIf (isNumber (getProp part ''attempt'')) ''attempt'' (getProp part ''attempt'') payload))
      else if type = ''compaction'' then
        Some (copy ''tail_start_id'' (setIf (compactionReason (getProp part ''reason'')) ''reason'' (getProp part ''reason'')
          (setIf (compactionPhase (getProp part ''phase'')) ''phase'' (getProp part ''phase'')
          (setIf (isBoolean (getProp part ''overflow'')) ''overflow'' (getProp part ''overflow'')
          (setIf (isBoolean (getProp part ''auto'')) ''auto'' (getProp part ''auto'') payload)))))
      else None)"

definition projectRemoteRuntimeMessagePartPayload :: "js \<Rightarrow> js" where
  "projectRemoteRuntimeMessagePartPayload part =
     (case remoteRuntimePartStringValue (getProp part ''type'') of
        None \<Rightarrow> JNull
      | Some type \<Rightarrow>
          (case projectFields type part (remoteRuntimePartCopyStringField part ''messageID''
             (remoteRuntimePartCopyStringField part ''id'' [(''type'', JStr type)])) of
             None \<Rightarrow> JNull
           | Some payload \<Rightarrow> sanitizeRemoteRuntimeMessagePartPayload (JObj payload)))"

end
