(* ===== verification/Host_Guards.thy ===== *)
theory Host_Guards
  imports Frames Message_Parts
begin

text \<open>
  The guards of the HTTP contract of a remote runtime and the validators of the requests and responses of a chat
  (\<^verbatim>\<open>packages/remote-runtime-host/src/index.ts\<close>, enumerations of \<^verbatim>\<open>packages/remote-runtime-contracts/src/index.ts\<close>).
  A guard is a test of a JavaScript value, a validator returns a failure envelope or the value.
\<close>

section \<open>Enumerations\<close>

definition runtimeConnectionCandidateKindValues :: "string list" where
  "runtimeConnectionCandidateKindValues = [''direct'', ''cloudflareTunnel'', ''zrokPublicHttp'', ''interbaseRelay'']"

definition runtimeConnectionCandidateEnvironmentValues :: "string list" where
  "runtimeConnectionCandidateEnvironmentValues = [''simulator'', ''physicalDevice'', ''lan'', ''tunnel'', ''gateway'']"

definition runtimeConnectionCandidateHostReachabilityValues :: "string list" where
  "runtimeConnectionCandidateHostReachabilityValues = [''loopback'', ''lan'', ''public'']"

definition remoteRuntimeStatusSnapshotStateValues :: "string list" where
  "remoteRuntimeStatusSnapshotStateValues = [''online'', ''degraded'', ''offline'', ''revoked'', ''unavailable'']"

definition remoteRuntimeRealtimeEventTypeValues :: "string list" where
  "remoteRuntimeRealtimeEventTypeValues =
     [''runtime.status.changed'', ''activeChats.changed'', ''chat.changed'', ''chatMessages.changed'', ''goals.changed'',
      ''aliases.changed'', ''chat.stream.delta'', ''chat.stream.part'', ''operation.completed'', ''operation.failed'']"

definition oneOf :: "string list \<Rightarrow> js \<Rightarrow> bool" where
  "oneOf texts v \<longleftrightarrow> isString v \<and> strOf v \<in> set texts"

definition isRuntimeConnectionCandidateKind :: "js \<Rightarrow> bool" where
  "isRuntimeConnectionCandidateKind v \<longleftrightarrow> oneOf runtimeConnectionCandidateKindValues v"

definition isRuntimeConnectionCandidateEnvironment :: "js \<Rightarrow> bool" where
  "isRuntimeConnectionCandidateEnvironment v \<longleftrightarrow> oneOf runtimeConnectionCandidateEnvironmentValues v"

definition isRuntimeConnectionCandidateHostReachability :: "js \<Rightarrow> bool" where
  "isRuntimeConnectionCandidateHostReachability v \<longleftrightarrow> oneOf runtimeConnectionCandidateHostReachabilityValues v"

definition isRemoteRuntimeStatusSnapshotState :: "js \<Rightarrow> bool" where
  "isRemoteRuntimeStatusSnapshotState v \<longleftrightarrow> oneOf remoteRuntimeStatusSnapshotStateValues v"

definition isRemoteRuntimeRealtimeEventType :: "js \<Rightarrow> bool" where
  "isRemoteRuntimeRealtimeEventType v \<longleftrightarrow> oneOf remoteRuntimeRealtimeEventTypeValues v"

section \<open>Primitive guards\<close>

definition isNullableRemoteRuntimeString :: "js \<Rightarrow> bool" where
  "isNullableRemoteRuntimeString v \<longleftrightarrow> v = JNull \<or> isString v"

definition isSafeNonNegativeRemoteRuntimeInteger :: "js \<Rightarrow> bool" where
  "isSafeNonNegativeRemoteRuntimeInteger v \<longleftrightarrow> jsNumTest (\<lambda>n. numSafeInteger n \<and> numGe n 0) v"

definition isOptionalSafeNonNegativeRemoteRuntimeIntegerOrNull :: "js \<Rightarrow> bool" where
  "isOptionalSafeNonNegativeRemoteRuntimeIntegerOrNull v \<longleftrightarrow> v = JUndef \<or> v = JNull \<or> isSafeNonNegativeRemoteRuntimeInteger v"

definition isOptionalSafeNonNegativeRemoteRuntimeInteger :: "js \<Rightarrow> bool" where
  "isOptionalSafeNonNegativeRemoteRuntimeInteger v \<longleftrightarrow> v = JUndef \<or> isSafeNonNegativeRemoteRuntimeInteger v"

definition isOptionalRemoteRuntimeBooleanOrNull :: "js \<Rightarrow> bool" where
  "isOptionalRemoteRuntimeBooleanOrNull v \<longleftrightarrow> v = JUndef \<or> v = JNull \<or> isBoolean v"

definition isOptionalRemoteRuntimeBoolean :: "js \<Rightarrow> bool" where
  "isOptionalRemoteRuntimeBoolean v \<longleftrightarrow> v = JUndef \<or> isBoolean v"

definition isOptionalRemoteRuntimeStringOrNull :: "js \<Rightarrow> bool" where
  "isOptionalRemoteRuntimeStringOrNull v \<longleftrightarrow> v = JUndef \<or> v = JNull \<or> isString v"

definition isOptionalRemoteRuntimeString :: "js \<Rightarrow> bool" where
  "isOptionalRemoteRuntimeString v \<longleftrightarrow> v = JUndef \<or> isString v"

definition isOptionalRemoteRuntimeStringOrNumber :: "js \<Rightarrow> bool" where
  "isOptionalRemoteRuntimeStringOrNumber v \<longleftrightarrow> v = JUndef \<or> isString v \<or> isNumber v"

fun isRemoteRuntimeJsonValue :: "js \<Rightarrow> bool" where
  "isRemoteRuntimeJsonValue JUndef = False"
| "isRemoteRuntimeJsonValue (JArr vs) = list_all isRemoteRuntimeJsonValue vs"
| "isRemoteRuntimeJsonValue (JObj fs) = list_all (\<lambda>kv. isRemoteRuntimeJsonValue (snd kv)) fs"
| "isRemoteRuntimeJsonValue v = True"

definition isOptionalRemoteRuntimeJsonValue :: "js \<Rightarrow> bool" where
  "isOptionalRemoteRuntimeJsonValue v \<longleftrightarrow> v = JUndef \<or> isRemoteRuntimeJsonValue v"

definition isOptionalRemoteRuntimeJsonArray :: "js \<Rightarrow> bool" where
  "isOptionalRemoteRuntimeJsonArray v \<longleftrightarrow> v = JUndef \<or> arrayEvery isRemoteRuntimeJsonValue v"

definition isOptionalRemoteRuntimeJsonObject :: "js \<Rightarrow> bool" where
  "isOptionalRemoteRuntimeJsonObject v \<longleftrightarrow> v = JUndef \<or> isRecord v \<and> list_all isRemoteRuntimeJsonValue (objectValues v)"

definition isRemoteRuntimeMessageRoleValue :: "js \<Rightarrow> bool" where
  "isRemoteRuntimeMessageRoleValue v \<longleftrightarrow> v \<in> {JStr ''assistant'', JStr ''system'', JStr ''user''}"

definition isRemoteRuntimeHttpContractVersionValue :: "js \<Rightarrow> bool" where
  "isRemoteRuntimeHttpContractVersionValue v \<longleftrightarrow> isString v \<and> isRemoteRuntimeHttpContractVersionSupported (strOf v)"

definition hasCompatibleRemoteRuntimeHttpVersion :: "js \<Rightarrow> bool" where
  "hasCompatibleRemoteRuntimeHttpVersion v \<longleftrightarrow> isRemoteRuntimeHttpContractVersionValue (getProp v ''remoteRuntimeHttpVersion'')"

section \<open>Messages, chats and goals\<close>

definition isRemoteRuntimeChatMessagePartPayloadValue :: "js \<Rightarrow> bool" where
  "isRemoteRuntimeChatMessagePartPayloadValue v \<longleftrightarrow>
     (let type = strOf (getProp v ''type''); string_ok = (\<lambda>key. isOptionalRemoteRuntimeString (getProp v key));
          object_ok = (\<lambda>key. isOptionalRemoteRuntimeJsonObject (getProp v key)) in
      isRecord v \<and> isNonEmptyRemoteRuntimeString (getProp v ''type'') \<and> string_ok ''id'' \<and> string_ok ''messageID'' \<and>
      (if type = ''text'' \<or> type = ''reasoning'' then
         string_ok ''text'' \<and> isOptionalRemoteRuntimeBoolean (getProp v ''synthetic'') \<and> object_ok ''metadata''
       else if type = ''tool'' then string_ok ''tool'' \<and> object_ok ''input'' \<and> object_ok ''metadata'' \<and> object_ok ''state''
       else if type = ''file'' then string_ok ''filename'' \<and> string_ok ''mime'' \<and> object_ok ''source'' \<and> string_ok ''url''
       else if type = ''patch'' then isOptionalRemoteRuntimeJsonArray (getProp v ''files'')
       else if type = ''snapshot'' \<or> type = ''step-start'' then string_ok ''snapshot''
       else if type = ''step-finish'' then
         isOptionalRemoteRuntimeStringOrNumber (getProp v ''cost'') \<and> string_ok ''reason'' \<and> object_ok ''tokens''
       else if type = ''subtask'' then string_ok ''agent'' \<and> string_ok ''description'' \<and> string_ok ''prompt''
       else if type = ''agent'' then string_ok ''name''
       else if type = ''retry'' then
         isOptionalSafeNonNegativeRemoteRuntimeInteger (getProp v ''attempt'') \<and> isOptionalRemoteRuntimeJsonValue (getProp v ''error'')
       else if type = ''compaction'' then
         isOptionalRemoteRuntimeBoolean (getProp v ''auto'') \<and> isOptionalRemoteRuntimeBoolean (getProp v ''overflow'') \<and>
         string_ok ''phase'' \<and> string_ok ''reason'' \<and> string_ok ''tail_start_id''
       else False))"

definition isRemoteRuntimeChatMessagePartProjectionValue :: "js \<Rightarrow> bool" where
  "isRemoteRuntimeChatMessagePartProjectionValue v \<longleftrightarrow>
     isRecord v
   \<and> isNullableRemoteRuntimeString (getProp v ''id'') \<and> isNonEmptyRemoteRuntimeString (getProp v ''kind'')
   \<and> isNullableRemoteRuntimeString (getProp v ''messageId'')
   \<and> (getProp v ''rawPart'' = JNull \<or> isRemoteRuntimeChatMessagePartPayloadValue (getProp v ''rawPart''))
   \<and> isNullableRemoteRuntimeString (getProp v ''status'') \<and> isNullableRemoteRuntimeString (getProp v ''text'')
   \<and> isNullableRemoteRuntimeString (getProp v ''title'')"

definition isRemoteRuntimeChatMessageProjectionValue :: "js \<Rightarrow> bool" where
  "isRemoteRuntimeChatMessageProjectionValue v \<longleftrightarrow>
     isRecord v
   \<and> isNullableRemoteRuntimeString (getProp v ''agent'') \<and> isNullableRemoteRuntimeString (getProp v ''completedAt'')
   \<and> isNonEmptyRemoteRuntimeString (getProp v ''createdAt'') \<and> isNullableRemoteRuntimeString (getProp v ''errorMessage'')
   \<and> isNullableRemoteRuntimeString (getProp v ''errorName'') \<and> isNullableRemoteRuntimeString (getProp v ''finishReason'')
   \<and> isNonEmptyRemoteRuntimeString (getProp v ''id'') \<and> isNullableRemoteRuntimeString (getProp v ''model'')
   \<and> isNullableRemoteRuntimeString (getProp v ''parentId'')
   \<and> arrayEvery isRemoteRuntimeChatMessagePartProjectionValue (getProp v ''parts'')
   \<and> isRemoteRuntimeMessageRoleValue (getProp v ''role'') \<and> isNonEmptyRemoteRuntimeString (getProp v ''sessionId'')"

definition isHostThreadGoalStatusValue :: "js \<Rightarrow> bool" where
  "isHostThreadGoalStatusValue v \<longleftrightarrow> isString v \<and> isThreadGoalStatus (strOf v)"

definition isThreadGoalValue :: "js \<Rightarrow> bool" where
  "isThreadGoalValue v \<longleftrightarrow>
     isRecord v
   \<and> isNonEmptyRemoteRuntimeString (getProp v ''threadId'') \<and> isString (getProp v ''objective'')
   \<and> isHostThreadGoalStatusValue (getProp v ''status'')
   \<and> (getProp v ''tokenBudget'' = JNull \<or> jsNumTest numFinite (getProp v ''tokenBudget''))
   \<and> jsNumTest numFinite (getProp v ''tokensUsed'') \<and> jsNumTest numFinite (getProp v ''timeUsedSeconds'')
   \<and> jsNumTest numFinite (getProp v ''createdAt'') \<and> jsNumTest numFinite (getProp v ''updatedAt'')"

definition isRemoteRuntimePromptAliasValue :: "js \<Rightarrow> bool" where
  "isRemoteRuntimePromptAliasValue v \<longleftrightarrow>
     isRecord v \<and> isNonEmptyRemoteRuntimeString (getProp v ''alias'') \<and> isNonEmptyRemoteRuntimeString (getProp v ''prompt'')
   \<and> jsNumTest numFinite (getProp v ''updatedAt'')"

definition isRemoteRuntimeActiveChatMetadataProjectionValue :: "js \<Rightarrow> bool" where
  "isRemoteRuntimeActiveChatMetadataProjectionValue v \<longleftrightarrow>
     isRecord v
   \<and> isNullableRemoteRuntimeString (getProp v ''agent'') \<and> isNonEmptyRemoteRuntimeString (getProp v ''createdAt'')
   \<and> (getProp v ''goal'' = JUndef \<or> getProp v ''goal'' = JNull \<or> isThreadGoalValue (getProp v ''goal''))
   \<and> isOptionalRemoteRuntimeBooleanOrNull (getProp v ''hasActiveTurn'')
   \<and> isOptionalRemoteRuntimeStringOrNull (getProp v ''lastText'')
   \<and> isOptionalSafeNonNegativeRemoteRuntimeIntegerOrNull (getProp v ''messageCount'')
   \<and> isNullableRemoteRuntimeString (getProp v ''model'') \<and> isNullableRemoteRuntimeString (getProp v ''path'')
   \<and> isNonEmptyRemoteRuntimeString (getProp v ''projectId'')
   \<and> isOptionalRemoteRuntimeStringOrNull (getProp v ''providerId'') \<and> isOptionalRemoteRuntimeStringOrNull (getProp v ''providerName'')
   \<and> isNonEmptyRemoteRuntimeString (getProp v ''sessionId'')
   \<and> isString (getProp v ''status'') \<and> strOf (getProp v ''status'') \<in> set runtimeThreadStatusValues
   \<and> isNonEmptyRemoteRuntimeString (getProp v ''title'') \<and> isNonEmptyRemoteRuntimeString (getProp v ''updatedAt'')"

definition isRemoteRuntimePageInfoValue :: "js \<Rightarrow> bool" where
  "isRemoteRuntimePageInfoValue v \<longleftrightarrow>
     isRecord v \<and> isBoolean (getProp v ''hasNewer'') \<and> isBoolean (getProp v ''hasOlder'')
   \<and> isNullableRemoteRuntimeString (getProp v ''newerCursor'') \<and> isNullableRemoteRuntimeString (getProp v ''olderCursor'')"

definition isRemoteRuntimeGoalsPageInfoValue :: "js \<Rightarrow> bool" where
  "isRemoteRuntimeGoalsPageInfoValue v \<longleftrightarrow>
     isRecord v \<and> isBoolean (getProp v ''hasOlder'') \<and> isNullableRemoteRuntimeString (getProp v ''olderCursor'')"

section \<open>Providers\<close>

definition isRuntimeProviderModelInfoValue :: "js \<Rightarrow> bool" where
  "isRuntimeProviderModelInfoValue v \<longleftrightarrow>
     isRecord v \<and> isNonEmptyRemoteRuntimeString (getProp v ''id'') \<and> isNonEmptyRemoteRuntimeString (getProp v ''name'')
   \<and> isNonEmptyRemoteRuntimeString (getProp v ''status'')"

definition isRuntimeProviderInfoValue :: "js \<Rightarrow> bool" where
  "isRuntimeProviderInfoValue v \<longleftrightarrow>
     isRecord v \<and> isNonEmptyRemoteRuntimeString (getProp v ''id'') \<and> isRecord (getProp v ''models'')
   \<and> list_all isRuntimeProviderModelInfoValue (objectValues (getProp v ''models'')) \<and> isNonEmptyRemoteRuntimeString (getProp v ''name'')"

definition isRuntimeProviderListResponseValue :: "js \<Rightarrow> bool" where
  "isRuntimeProviderListResponseValue v \<longleftrightarrow>
     isRecord v \<and> arrayEvery isRuntimeProviderInfoValue (getProp v ''all'')
   \<and> arrayEvery isNonEmptyRemoteRuntimeString (getProp v ''connected'')
   \<and> isRecord (getProp v ''default'') \<and> list_all isNonEmptyRemoteRuntimeString (objectValues (getProp v ''default''))"

section \<open>Snapshots and responses\<close>

definition isRuntimeWebSocketDirectoryAttachmentValue :: "js \<Rightarrow> bool" where
  "isRuntimeWebSocketDirectoryAttachmentValue v \<longleftrightarrow>
     isRecord v \<and> isNonEmptyRemoteRuntimeString (getProp v ''directoryId'')
   \<and> isNonEmptyRemoteRuntimeString (getProp v ''gatewayRuntimeAttachmentId'') \<and> isNonEmptyRemoteRuntimeString (getProp v ''path'')
   \<and> isRemoteRuntimeStatusSnapshotState (getProp v ''status'')"

text \<open>What every snapshot starts with.\<close>

definition versionedRecord :: "js \<Rightarrow> bool" where
  "versionedRecord v \<longleftrightarrow>
     isRecord v \<and> hasCompatibleRemoteRuntimeHttpVersion v \<and> isNonEmptyRemoteRuntimeString (getProp v ''runtimeInstallationId'')"

definition isRemoteRuntimeStatusSnapshotValue :: "js \<Rightarrow> bool" where
  "isRemoteRuntimeStatusSnapshotValue v \<longleftrightarrow>
     versionedRecord v \<and> arrayEvery isHostAllowedDirectoryValue (getProp v ''allowedDirectories'')
   \<and> isNullableRemoteRuntimeString (getProp v ''gatewayRuntimeAttachmentId'')
   \<and> isRemoteRuntimeStatusSnapshotState (getProp v ''state'')
   \<and> isNullableRemoteRuntimeString (getProp v ''connectorVersion'') \<and> isNullableRemoteRuntimeString (getProp v ''lastHeartbeatAt'')
   \<and> arrayEvery isRemoteRuntimeAttachmentCapability (getProp v ''attachmentCapabilities'')"

definition isRemoteRuntimeDirectoriesSnapshotValue :: "js \<Rightarrow> bool" where
  "isRemoteRuntimeDirectoriesSnapshotValue v \<longleftrightarrow>
     versionedRecord v \<and> arrayEvery isRuntimeWebSocketDirectoryAttachmentValue (getProp v ''activeDirectoryAttachments'')
   \<and> arrayEvery isHostAllowedDirectoryValue (getProp v ''allowedDirectories'')"

definition isRemoteRuntimeCapabilitiesSnapshotValue :: "js \<Rightarrow> bool" where
  "isRemoteRuntimeCapabilitiesSnapshotValue v \<longleftrightarrow>
     versionedRecord v \<and> arrayEvery isRemoteRuntimeAttachmentCapability (getProp v ''attachmentCapabilities'')
   \<and> arrayEvery isRemoteRuntimeCapability (getProp v ''featureCapabilities'')
   \<and> arrayEvery (\<lambda>m. isString m \<and> isRemoteRuntimeProtocolClientMethod (strOf m)) (getProp v ''supportedMethods'')"

definition isRemoteRuntimeRealtimeEventEnvelopeValue :: "js \<Rightarrow> bool" where
  "isRemoteRuntimeRealtimeEventEnvelopeValue v \<longleftrightarrow>
     (let event = getProp v ''event'' in
      isRecord v \<and> getProp v ''protocolVersion'' = JStr remoteRuntimeTransportProtocolVersion \<and> getProp v ''type'' = JStr ''event''
    \<and> isRecord event \<and> isRemoteRuntimeRealtimeEventType (getProp event ''eventType'')
    \<and> isSafeNonNegativeRemoteRuntimeInteger (getProp event ''sequence'') \<and> isNonEmptyRemoteRuntimeString (getProp event ''timestamp'')
    \<and> isNonEmptyRemoteRuntimeString (getProp event ''runtimeInstallationId'')
    \<and> isNullableRemoteRuntimeString (getProp event ''gatewayRuntimeAttachmentId'')
    \<and> (getProp event ''resource'' = JNull \<or> isRemoteRuntimeRealtimeResourceRef (getProp event ''resource''))
    \<and> isRecord (getProp event ''payload''))"

definition isRuntimeTunnelEdgeAccessOrNullValue :: "js \<Rightarrow> bool" where
  "isRuntimeTunnelEdgeAccessOrNullValue v \<longleftrightarrow>
     v = JNull \<or> isRecord v \<and> isNonEmptyRemoteRuntimeString (getProp v ''clientId'')
       \<and> isNonEmptyRemoteRuntimeString (getProp v ''clientIdHeaderName'') \<and> isNonEmptyRemoteRuntimeString (getProp v ''clientSecret'')
       \<and> isNonEmptyRemoteRuntimeString (getProp v ''clientSecretHeaderName'') \<and> getProp v ''provider'' = JStr ''cloudflareAccess''"

definition isRemoteRuntimeAsymmetricPublicKeyValue :: "js \<Rightarrow> bool" where
  "isRemoteRuntimeAsymmetricPublicKeyValue v \<longleftrightarrow>
     v \<noteq> JUndef \<and> (case validateRemoteRuntimeAsymmetricPublicKey v of Inr _ \<Rightarrow> True | Inl _ \<Rightarrow> False)"

definition isRuntimeConnectionCandidateBootstrapValue :: "js \<Rightarrow> bool" where
  "isRuntimeConnectionCandidateBootstrapValue v \<longleftrightarrow>
     isRecord v \<and> isNonEmptyRemoteRuntimeString (getProp v ''baseHttpUrl'') \<and> isNonEmptyRemoteRuntimeString (getProp v ''candidateId'')
   \<and> isRuntimeTunnelEdgeAccessOrNullValue (getProp v ''edgeAccess'')
   \<and> (getProp v ''environment'' = JUndef \<or> isRuntimeConnectionCandidateEnvironment (getProp v ''environment''))
   \<and> isNonEmptyRemoteRuntimeString (getProp v ''expiresAt'')
   \<and> (getProp v ''hostReachability'' = JUndef \<or> isRuntimeConnectionCandidateHostReachability (getProp v ''hostReachability''))
   \<and> isRuntimeConnectionCandidateKind (getProp v ''kind'')
   \<and> isNonEmptyRemoteRuntimeString (getProp v ''localRuntimeAccessToken'')
   \<and> isNonEmptyRemoteRuntimeString (getProp v ''localRuntimeAccessTokenId'')
   \<and> isSafeNonNegativeRemoteRuntimeInteger (getProp v ''priority'') \<and> isNonEmptyRemoteRuntimeString (getProp v ''runtimeInstallationId'')
   \<and> isRemoteRuntimeAsymmetricPublicKeyValue (getProp v ''runtimeResponseSigningPublicKey'')
   \<and> getProp (getProp v ''runtimeResponseSigningPublicKey'') ''purpose'' = JStr ''runtimeResponseSigning''
   \<and> isNonEmptyRemoteRuntimeString (getProp v ''webSocketUrl'')"

definition isRuntimeConnectionCandidateValue :: "js \<Rightarrow> bool" where
  "isRuntimeConnectionCandidateValue v \<longleftrightarrow>
     isRecord v \<and> isNonEmptyRemoteRuntimeString (getProp v ''baseHttpUrl'') \<and> isNonEmptyRemoteRuntimeString (getProp v ''candidateId'')
   \<and> isRuntimeTunnelEdgeAccessOrNullValue (getProp v ''edgeAccess'')
   \<and> (getProp v ''environment'' = JUndef \<or> isRuntimeConnectionCandidateEnvironment (getProp v ''environment''))
   \<and> isNonEmptyRemoteRuntimeString (getProp v ''expiresAt'')
   \<and> (getProp v ''hostReachability'' = JUndef \<or> isRuntimeConnectionCandidateHostReachability (getProp v ''hostReachability''))
   \<and> isRuntimeConnectionCandidateKind (getProp v ''kind'')
   \<and> isNonEmptyRemoteRuntimeString (getProp v ''localRuntimeAccessToken'')
   \<and> isNonEmptyRemoteRuntimeString (getProp v ''localRuntimeAccessTokenId'')
   \<and> isNonEmptyRemoteRuntimeString (getProp v ''remoteRuntimeRequestSigningKeyId'')
   \<and> (getProp v ''clientRequestSigningKeyId'' = JUndef
       \<or> getProp v ''clientRequestSigningKeyId'' = getProp v ''remoteRuntimeRequestSigningKeyId'')
   \<and> isSafeNonNegativeRemoteRuntimeInteger (getProp v ''priority'') \<and> isNonEmptyRemoteRuntimeString (getProp v ''runtimeInstallationId'')
   \<and> isRemoteRuntimeAsymmetricPublicKeyValue (getProp v ''runtimeResponseSigningPublicKey'')
   \<and> getProp (getProp v ''runtimeResponseSigningPublicKey'') ''purpose'' = JStr ''runtimeResponseSigning''
   \<and> isNonEmptyRemoteRuntimeString (getProp v ''trustedRuntimeClientId'')
   \<and> isNonEmptyRemoteRuntimeString (getProp v ''webSocketUrl'')"

definition isRemoteRuntimeActiveChatsSnapshotValue :: "js \<Rightarrow> bool" where
  "isRemoteRuntimeActiveChatsSnapshotValue v \<longleftrightarrow>
     versionedRecord v \<and> arrayEvery isRemoteRuntimeActiveChatMetadataProjectionValue (getProp v ''activeChats'')
   \<and> isRemoteRuntimePageInfoValue (getProp v ''pageInfo'')
   \<and> isNullableRemoteRuntimeString (getProp v ''snapshotId'') \<and> isNullableRemoteRuntimeString (getProp v ''resourceVersion'')"

definition isRemoteRuntimeChatSnapshotValue :: "js \<Rightarrow> bool" where
  "isRemoteRuntimeChatSnapshotValue v \<longleftrightarrow>
     versionedRecord v \<and> isRemoteRuntimeActiveChatMetadataProjectionValue (getProp v ''chat'')
   \<and> isNullableRemoteRuntimeString (getProp v ''resourceVersion'')"

definition isRemoteRuntimeChatMessagesSnapshotValue :: "js \<Rightarrow> bool" where
  "isRemoteRuntimeChatMessagesSnapshotValue v \<longleftrightarrow>
     versionedRecord v \<and> isNonEmptyRemoteRuntimeString (getProp v ''sessionId'')
   \<and> arrayEvery isRemoteRuntimeChatMessageProjectionValue (getProp v ''messages'')
   \<and> isRemoteRuntimePageInfoValue (getProp v ''pageInfo'') \<and> isNullableRemoteRuntimeString (getProp v ''resourceVersion'')"

definition isRemoteRuntimeProvidersSnapshotValue :: "js \<Rightarrow> bool" where
  "isRemoteRuntimeProvidersSnapshotValue v \<longleftrightarrow>
     versionedRecord v \<and> isRuntimeProviderListResponseValue (getProp v ''providers'')
   \<and> isNullableRemoteRuntimeString (getProp v ''resourceVersion'')"

definition isRemoteRuntimeGoalsSnapshotValue :: "js \<Rightarrow> bool" where
  "isRemoteRuntimeGoalsSnapshotValue v \<longleftrightarrow>
     versionedRecord v \<and> arrayEvery isThreadGoalValue (getProp v ''goals'') \<and> isRemoteRuntimeGoalsPageInfoValue (getProp v ''pageInfo'')
   \<and> isNullableRemoteRuntimeString (getProp v ''resourceVersion'')"

definition isRemoteRuntimeGitStatusSnapshotValue :: "js \<Rightarrow> bool" where
  "isRemoteRuntimeGitStatusSnapshotValue v \<longleftrightarrow>
     versionedRecord v \<and> isRemoteRuntimeGitStatusResponse (JObj [(''repositories'', getProp v ''repositories'')])
   \<and> isNullableRemoteRuntimeString (getProp v ''resourceVersion'')"

definition isRemoteRuntimeAliasesSnapshotValue :: "js \<Rightarrow> bool" where
  "isRemoteRuntimeAliasesSnapshotValue v \<longleftrightarrow>
     versionedRecord v \<and> arrayEvery isRemoteRuntimePromptAliasValue (getProp v ''aliases'')
   \<and> isNullableRemoteRuntimeString (getProp v ''resourceVersion'')"

definition isRemoteRuntimeStartChatResponseValue :: "js \<Rightarrow> bool" where
  "isRemoteRuntimeStartChatResponseValue v \<longleftrightarrow>
     versionedRecord v \<and> isRemoteRuntimeActiveChatMetadataProjectionValue (getProp v ''chat'')"

definition isRemoteRuntimeSendChatMessageResponseValue :: "js \<Rightarrow> bool" where
  "isRemoteRuntimeSendChatMessageResponseValue v \<longleftrightarrow>
     versionedRecord v \<and> isNonEmptyRemoteRuntimeString (getProp v ''sessionId'')
   \<and> isRemoteRuntimeChatMessageProjectionValue (getProp v ''message'') \<and> isNonEmptyRemoteRuntimeString (getProp v ''acceptedAt'')"

definition isRemoteRuntimeUpdateChatResponseValue :: "js \<Rightarrow> bool" where
  "isRemoteRuntimeUpdateChatResponseValue v \<longleftrightarrow>
     versionedRecord v \<and> isRemoteRuntimeActiveChatMetadataProjectionValue (getProp v ''chat'')"

section \<open>Validators\<close>

definition remoteRuntimeValidationRequestId :: "js \<Rightarrow> string" where
  "remoteRuntimeValidationRequestId input =
     (if \<not> isRecord input then ''unknown''
      else if isNonEmptyRemoteRuntimeString (getProp input ''requestId'') then strOf (getProp input ''requestId'')
      else if isNonEmptyRemoteRuntimeString (getProp input ''runtimeInstallationId'') then strOf (getProp input ''runtimeInstallationId'')
      else if isRecord (getProp input ''event'') \<and> isNonEmptyRemoteRuntimeString (getProp (getProp input ''event'') ''runtimeInstallationId'')
      then strOf (getProp (getProp input ''event'') ''runtimeInstallationId'')
      else ''unknown'')"

text \<open>The form of the validators that follow.\<close>

definition validateWith :: "(js \<Rightarrow> bool) \<Rightarrow> string \<Rightarrow> js \<Rightarrow> failure_envelope + js" where
  "validateWith accepts message input =
     (if \<not> accepts input then remoteRuntimeValidationFailure VALIDATION_FAILED (remoteRuntimeValidationRequestId input) message
      else Inr input)"

definition validateRemoteRuntimeStatusSnapshot :: "js \<Rightarrow> failure_envelope + js" where
  "validateRemoteRuntimeStatusSnapshot = validateWith isRemoteRuntimeStatusSnapshotValue ''Remote runtime status snapshot is malformed.''"

definition validateRemoteRuntimeDirectoriesSnapshot :: "js \<Rightarrow> failure_envelope + js" where
  "validateRemoteRuntimeDirectoriesSnapshot = validateWith isRemoteRuntimeDirectoriesSnapshotValue ''Remote runtime directories snapshot is malformed.''"

definition validateRemoteRuntimeCapabilitiesSnapshot :: "js \<Rightarrow> failure_envelope + js" where
  "validateRemoteRuntimeCapabilitiesSnapshot = validateWith isRemoteRuntimeCapabilitiesSnapshotValue ''Remote runtime capabilities snapshot is malformed.''"

definition validateRemoteRuntimeRealtimeEventEnvelope :: "js \<Rightarrow> failure_envelope + js" where
  "validateRemoteRuntimeRealtimeEventEnvelope = validateWith isRemoteRuntimeRealtimeEventEnvelopeValue ''Remote runtime realtime event envelope is malformed.''"

definition validateRuntimeConnectionCandidate :: "js \<Rightarrow> failure_envelope + js" where
  "validateRuntimeConnectionCandidate = validateWith isRuntimeConnectionCandidateValue ''Runtime connection candidate is malformed.''"

definition validateRuntimeConnectionCandidateBootstrap :: "js \<Rightarrow> failure_envelope + js" where
  "validateRuntimeConnectionCandidateBootstrap = validateWith isRuntimeConnectionCandidateBootstrapValue ''Runtime connection candidate bootstrap is malformed.''"

definition validateRemoteRuntimeActiveChatsSnapshot :: "js \<Rightarrow> failure_envelope + js" where
  "validateRemoteRuntimeActiveChatsSnapshot = validateWith isRemoteRuntimeActiveChatsSnapshotValue ''Remote runtime active chats snapshot is malformed.''"

definition validateRemoteRuntimeChatSnapshot :: "js \<Rightarrow> failure_envelope + js" where
  "validateRemoteRuntimeChatSnapshot = validateWith isRemoteRuntimeChatSnapshotValue ''Remote runtime chat snapshot is malformed.''"

definition validateRemoteRuntimeChatMessagesSnapshot :: "js \<Rightarrow> failure_envelope + js" where
  "validateRemoteRuntimeChatMessagesSnapshot = validateWith isRemoteRuntimeChatMessagesSnapshotValue ''Remote runtime chat messages snapshot is malformed.''"

definition validateRemoteRuntimeProvidersSnapshot :: "js \<Rightarrow> failure_envelope + js" where
  "validateRemoteRuntimeProvidersSnapshot = validateWith isRemoteRuntimeProvidersSnapshotValue ''Remote runtime providers snapshot is malformed.''"

definition validateRemoteRuntimeGoalsSnapshot :: "js \<Rightarrow> failure_envelope + js" where
  "validateRemoteRuntimeGoalsSnapshot = validateWith isRemoteRuntimeGoalsSnapshotValue ''Remote runtime goals snapshot is malformed.''"

definition validateRemoteRuntimeGitStatusSnapshot :: "js \<Rightarrow> failure_envelope + js" where
  "validateRemoteRuntimeGitStatusSnapshot = validateWith isRemoteRuntimeGitStatusSnapshotValue ''Remote runtime git status snapshot is malformed.''"

definition validateRemoteRuntimeAliasesSnapshot :: "js \<Rightarrow> failure_envelope + js" where
  "validateRemoteRuntimeAliasesSnapshot = validateWith isRemoteRuntimeAliasesSnapshotValue ''Remote runtime aliases snapshot is malformed.''"

definition validateRemoteRuntimeStartChatResponse :: "js \<Rightarrow> failure_envelope + js" where
  "validateRemoteRuntimeStartChatResponse = validateWith isRemoteRuntimeStartChatResponseValue ''Remote runtime start chat response is malformed.''"

definition validateRemoteRuntimeSendChatMessageResponse :: "js \<Rightarrow> failure_envelope + js" where
  "validateRemoteRuntimeSendChatMessageResponse = validateWith isRemoteRuntimeSendChatMessageResponseValue ''Remote runtime send chat message response is malformed.''"

definition validateRemoteRuntimeUpdateChatResponse :: "js \<Rightarrow> failure_envelope + js" where
  "validateRemoteRuntimeUpdateChatResponse = validateWith isRemoteRuntimeUpdateChatResponseValue ''Remote runtime update chat response is malformed.''"
section \<open>Requests of a chat\<close>

record start_chat =
  sc_directoryId :: string
  sc_idempotencyKey :: string
  sc_model :: "string option"
  sc_providerId :: "string option"
  sc_requestId :: string
  sc_runtimeInstallationId :: string
  sc_title :: "string option"

record send_chat_message =
  sm_idempotencyKey :: string
  sm_content :: string
  sm_requestId :: string
  sm_runtimeInstallationId :: string
  sm_sessionId :: string

record update_chat =
  uc_idempotencyKey :: string
  uc_model :: string
  uc_providerId :: string
  uc_requestId :: string
  uc_runtimeInstallationId :: string
  uc_sessionId :: string

definition nullableText :: "js \<Rightarrow> string option" where
  "nullableText v = (if isString v then Some (strOf v) else None)"

definition validateRemoteRuntimeStartChatRequest :: "js \<Rightarrow> failure_envelope + start_chat" where
  "validateRemoteRuntimeStartChatRequest input =
     (let text = (\<lambda>key. strOf (getProp input key)); requestId = text ''requestId'';
          fail = remoteRuntimeValidationFailure VALIDATION_FAILED in
      if \<not> isRecord input then fail ''unknown'' ''Remote runtime start chat request must be an object.''
      else if \<not> isNonEmptyRemoteRuntimeString (getProp input ''requestId'')
      then fail ''unknown'' ''Remote runtime start chat requestId is required.''
      else if \<not> isNonEmptyRemoteRuntimeString (getProp input ''runtimeInstallationId'')
      then fail requestId ''Runtime installation id is required.''
      else if \<not> isNonEmptyRemoteRuntimeString (getProp input ''directoryId'')
      then fail requestId ''Remote runtime start chat directory id is required.''
      else if \<not> isNullableRemoteRuntimeString (getProp input ''providerId'')
      then fail requestId ''Remote runtime start chat provider id is invalid.''
      else if \<not> isNullableRemoteRuntimeString (getProp input ''model'')
      then fail requestId ''Remote runtime start chat model is invalid.''
      else if \<not> isNullableRemoteRuntimeString (getProp input ''title'')
      then fail requestId ''Remote runtime start chat title is invalid.''
      else if \<not> isNonEmptyRemoteRuntimeString (getProp input ''idempotencyKey'')
      then fail requestId ''Remote runtime start chat idempotency key is required.''
      else Inr \<lparr> sc_directoryId = text ''directoryId'', sc_idempotencyKey = text ''idempotencyKey'',
                 sc_model = nullableText (getProp input ''model''), sc_providerId = nullableText (getProp input ''providerId''),
                 sc_requestId = requestId, sc_runtimeInstallationId = text ''runtimeInstallationId'',
                 sc_title = nullableText (getProp input ''title'') \<rparr>)"

definition validateRemoteRuntimeSendChatMessageRequest :: "js \<Rightarrow> failure_envelope + send_chat_message" where
  "validateRemoteRuntimeSendChatMessageRequest input =
     (let text = (\<lambda>key. strOf (getProp input key)); requestId = text ''requestId''; message = getProp input ''input'';
          fail = remoteRuntimeValidationFailure VALIDATION_FAILED in
      if \<not> isRecord input then fail ''unknown'' ''Remote runtime send chat message request must be an object.''
      else if \<not> isNonEmptyRemoteRuntimeString (getProp input ''requestId'')
      then fail ''unknown'' ''Remote runtime send chat message requestId is required.''
      else if \<not> isNonEmptyRemoteRuntimeString (getProp input ''runtimeInstallationId'')
      then fail requestId ''Runtime installation id is required.''
      else if \<not> isNonEmptyRemoteRuntimeString (getProp input ''sessionId'')
      then fail requestId ''Remote runtime send chat message session id is required.''
      else if \<not> isRecord message then fail requestId ''Remote runtime send chat message input is required.''
      else if \<not> isNonEmptyRemoteRuntimeString (getProp message ''content'')
      then fail requestId ''Remote runtime send chat message content is required.''
      else if getProp message ''mode'' \<noteq> JStr ''default''
      then fail requestId ''Remote runtime send chat message mode is invalid.''
      else if \<not> isNonEmptyRemoteRuntimeString (getProp input ''idempotencyKey'')
      then fail requestId ''Remote runtime send chat message idempotency key is required.''
      else Inr \<lparr> sm_idempotencyKey = text ''idempotencyKey'', sm_content = strOf (getProp message ''content''), sm_requestId = requestId,
                 sm_runtimeInstallationId = text ''runtimeInstallationId'', sm_sessionId = text ''sessionId'' \<rparr>)"

definition validateRemoteRuntimeUpdateChatRequest :: "js \<Rightarrow> failure_envelope + update_chat" where
  "validateRemoteRuntimeUpdateChatRequest input =
     (let text = (\<lambda>key. strOf (getProp input key)); requestId = text ''requestId''; change = getProp input ''input'';
          fail = remoteRuntimeValidationFailure VALIDATION_FAILED in
      if \<not> isRecord input then fail ''unknown'' ''Remote runtime update chat request must be an object.''
      else if \<not> isNonEmptyRemoteRuntimeString (getProp input ''requestId'')
      then fail ''unknown'' ''Remote runtime update chat requestId is required.''
      else if \<not> isNonEmptyRemoteRuntimeString (getProp input ''runtimeInstallationId'')
      then fail requestId ''Runtime installation id is required.''
      else if \<not> isNonEmptyRemoteRuntimeString (getProp input ''sessionId'')
      then fail requestId ''Remote runtime update chat session id is required.''
      else if \<not> isRecord change then fail requestId ''Remote runtime update chat input is required.''
      else if \<not> isNonEmptyRemoteRuntimeString (getProp change ''providerId'')
      then fail requestId ''Remote runtime update chat provider id is required.''
      else if \<not> isNonEmptyRemoteRuntimeString (getProp change ''model'')
      then fail requestId ''Remote runtime update chat model is required.''
      else if \<not> isNonEmptyRemoteRuntimeString (getProp input ''idempotencyKey'')
      then fail requestId ''Remote runtime update chat idempotency key is required.''
      else Inr \<lparr> uc_idempotencyKey = text ''idempotencyKey'', uc_model = strOf (getProp change ''model''),
                 uc_providerId = strOf (getProp change ''providerId''), uc_requestId = requestId,
                 uc_runtimeInstallationId = text ''runtimeInstallationId'', uc_sessionId = text ''sessionId'' \<rparr>)"

end
