(* ===== verification/Message_Theorems.thy ===== *)
theory Message_Theorems
  imports Host_Guards
begin

text \<open>
  What a remote client can see of a message: a projected part passes the guard of the client; sanitising twice is sanitising once; and the
  HTTP guard of messages is stricter than the one of the web socket.
\<close>

section \<open>Fields\<close>

lemma json_values_agree: "isRemoteRuntimeJsonValue v = remoteRuntimePartIsJsonValue v"
proof (induction v rule: isRemoteRuntimeJsonValue.induct)
  case (2 vs) then show ?case by (auto simp: list_all_iff)
next
  case (3 fs) then show ?case by (auto simp: list_all_iff)
qed simp_all

lemma getProp_Cons [simp]: "getProp (JObj ((k, v) # rest)) j = (if k = j then v else getProp (JObj rest) j)" "getProp (JObj []) j = JUndef"
  by simp_all

declare getProp.simps(1) [simp del]

lemma prop_fieldIf [simp]: "getProp (JObj (fieldIf c k v @ rest)) j = (if k = j then if c then v else getProp (JObj rest) j else getProp (JObj rest) j)"
  by (simp add: fieldIf_def)

lemma prop_keepIf [simp]: "getProp (JObj (keepIf p x k @ rest)) j =
    (if k = j then if p (getProp x k) then getProp x k else getProp (JObj rest) j else getProp (JObj rest) j)"
  by (simp add: keepIf_def)

lemma keepObject_fieldIf: "keepObject payload k = fieldIf (isRecord (getProp payload k)) k (remoteRuntimePartJsonObjectValue (getProp payload k))"
  by (cases "getProp payload k") (simp_all add: keepObject_def remoteRuntimePartJsonObjectValue_def)

lemma prop_keepObject [simp]: "getProp (JObj (keepObject x k @ rest)) j =
    (if k = j then if isRecord (getProp x k) then remoteRuntimePartJsonObjectValue (getProp x k) else getProp (JObj rest) j else getProp (JObj rest) j)"
  by (simp add: keepObject_fieldIf)

lemma json_object_ok: "isRecord v \<Longrightarrow> isOptionalRemoteRuntimeJsonObject (remoteRuntimePartJsonObjectValue v)"
  by (cases v) (auto simp: isOptionalRemoteRuntimeJsonObject_def remoteRuntimePartJsonObjectValue_def list_all_iff json_values_agree)

lemma json_array_ok: "remoteRuntimePartJsonArrayValue v \<noteq> JNull \<Longrightarrow> isOptionalRemoteRuntimeJsonArray (remoteRuntimePartJsonArrayValue v)"
  by (cases v) (auto simp: isOptionalRemoteRuntimeJsonArray_def remoteRuntimePartJsonArrayValue_def list_all_iff json_values_agree)

lemma undef_ok [simp]: "isOptionalRemoteRuntimeString JUndef" "isOptionalRemoteRuntimeBoolean JUndef" "isOptionalRemoteRuntimeJsonObject JUndef"
  "isOptionalRemoteRuntimeJsonArray JUndef" "isOptionalRemoteRuntimeStringOrNumber JUndef" "isOptionalSafeNonNegativeRemoteRuntimeInteger JUndef"
  "isOptionalRemoteRuntimeJsonValue JUndef"
  by (simp_all add: isOptionalRemoteRuntimeString_def isOptionalRemoteRuntimeBoolean_def isOptionalRemoteRuntimeJsonObject_def
      isOptionalRemoteRuntimeJsonArray_def isOptionalRemoteRuntimeStringOrNumber_def isOptionalSafeNonNegativeRemoteRuntimeInteger_def
      isOptionalRemoteRuntimeJsonValue_def)

lemmas optional_guard_defs = isOptionalRemoteRuntimeString_def isOptionalRemoteRuntimeBoolean_def isOptionalRemoteRuntimeStringOrNumber_def
  isOptionalRemoteRuntimeJsonValue_def

lemma kept_ok [simp]: "isOptionalRemoteRuntimeString (if isString v then v else JUndef)"
  "isOptionalRemoteRuntimeBoolean (if isBoolean v then v else JUndef)"
  "isOptionalRemoteRuntimeStringOrNumber (if isNumber v \<or> isString v then v else JUndef)"
  "isOptionalRemoteRuntimeJsonValue (if remoteRuntimePartIsJsonValue v then v else JUndef)"
  "isOptionalRemoteRuntimeString (if compactionPhase v then v else JUndef)"
  "isOptionalRemoteRuntimeString (if compactionReason v then v else JUndef)"
  "isOptionalRemoteRuntimeJsonObject (if isRecord v then remoteRuntimePartJsonObjectValue v else JUndef)"
  "isOptionalRemoteRuntimeJsonArray (if remoteRuntimePartJsonArrayValue v \<noteq> JNull then remoteRuntimePartJsonArrayValue v else JUndef)"
  using json_object_ok json_array_ok by (auto simp: optional_guard_defs json_values_agree compactionPhase_def compactionReason_def)

lemma partString: "remoteRuntimePartStringValue v = Some t \<longleftrightarrow> v = JStr t \<and> t \<noteq> []"
  by (cases v) (auto simp: remoteRuntimePartStringValue_def)

section \<open>The guard accepts what is sent\<close>

lemma sanitized_accepted:
  assumes "sanitizeRemoteRuntimeMessagePartPayload payload \<noteq> JNull"
    and "isNumber (getProp payload ''attempt'') \<Longrightarrow> isSafeNonNegativeRemoteRuntimeInteger (getProp payload ''attempt'')"
  shows "isRemoteRuntimeChatMessagePartPayloadValue (sanitizeRemoteRuntimeMessagePartPayload payload)"
proof -
  obtain type fs where type: "remoteRuntimePartStringValue (getProp payload ''type'') = Some type" and fs: "sanitizedFields type payload = Some fs"
    using assms(1) by (auto simp: sanitizeRemoteRuntimeMessagePartPayload_def split: option.splits)
  then have sane: "sanitizeRemoteRuntimeMessagePartPayload payload =
      JObj (keepIf isString payload ''id'' @ keepIf isString payload ''messageID'' @ fs @ [(''type'', JStr type)])"
    by (simp add: sanitizeRemoteRuntimeMessagePartPayload_def)
  from fs have fs': "fs = the (sanitizedFields type payload)" by simp
  note guard = isRemoteRuntimeChatMessagePartPayloadValue_def isNonEmptyRemoteRuntimeString_def
  note eval = sane guard sanitizedFields_def fs' Let_def
  have types: "type \<in> {''text'', ''reasoning'', ''tool'', ''file'', ''patch'', ''snapshot'', ''step-start'', ''step-finish'', ''subtask'', ''agent'',
      ''retry'', ''compaction''}"
    by (rule ccontr) (use fs in \<open>simp add: sanitizedFields_def\<close>)
  then show ?thesis
    using assms(2) unfolding insert_iff
    by (elim disjE emptyE)
      (simp_all add: eval isOptionalSafeNonNegativeRemoteRuntimeInteger_def cong del: if_weak_cong)
qed

lemma getProp_setIf: "getProp (JObj (setIf c k v fs)) j = (if c \<and> k = j then v else getProp (JObj fs) j)"
  by (simp add: setIf_def getProp.simps(1) update_conv)

lemmas copy_simps = getProp_setIf remoteRuntimePartCopyStringField_def remoteRuntimePartCopyField_def
  remoteRuntimePartCopyArrayField_def remoteRuntimePartCopyObjectField_def

lemma projected_attempt:
  assumes "projectFields type part (remoteRuntimePartCopyStringField part ''messageID''
    (remoteRuntimePartCopyStringField part ''id'' [(''type'', JStr type)])) = Some payload"
    and "isNumber (getProp (JObj payload) ''attempt'')"
  shows "type = ''retry'' \<and> getProp (JObj payload) ''attempt'' = getProp part ''attempt''"
proof -
  have "getProp (JObj payload) ''attempt'' = JUndef" if "type \<noteq> ''retry''"
    using assms(1) that unfolding projectFields_def Let_def
    by (simp split: if_split_asm) (hypsubst, simp add: copy_simps)+
  moreover have "getProp (JObj payload) ''attempt'' = getProp part ''attempt''" if "type = ''retry''"
    using assms that by (auto simp: projectFields_def copy_simps Let_def split: if_splits)
  ultimately show ?thesis using assms(2) by (cases "type = ''retry''") simp_all
qed

text \<open>C33: Whatever part a message has, what is projected of it passes the guard of the responses, when the attempts of a retry are counted in
  safe integers that are not negative.\<close>
theorem projected_part_accepted:
  assumes "projectRemoteRuntimeMessagePartPayload part \<noteq> JNull"
    and "getProp part ''type'' = JStr ''retry'' \<Longrightarrow> isNumber (getProp part ''attempt'') \<Longrightarrow>
      isSafeNonNegativeRemoteRuntimeInteger (getProp part ''attempt'')"
  shows "isRemoteRuntimeChatMessagePartPayloadValue (projectRemoteRuntimeMessagePartPayload part)"
proof -
  obtain type payload where type: "remoteRuntimePartStringValue (getProp part ''type'') = Some type"
    and payload: "projectFields type part (remoteRuntimePartCopyStringField part ''messageID''
      (remoteRuntimePartCopyStringField part ''id'' [(''type'', JStr type)])) = Some payload"
    using assms(1) by (auto simp: projectRemoteRuntimeMessagePartPayload_def split: option.splits)
  then have project: "projectRemoteRuntimeMessagePartPayload part = sanitizeRemoteRuntimeMessagePartPayload (JObj payload)"
    by (simp add: projectRemoteRuntimeMessagePartPayload_def)
  show ?thesis unfolding project
  proof (rule sanitized_accepted)
    assume "isNumber (getProp (JObj payload) ''attempt'')"
    with projected_attempt [OF payload] type assms(2) show "isSafeNonNegativeRemoteRuntimeInteger (getProp (JObj payload) ''attempt'')"
      by (auto simp: partString)
  qed (use assms(1) project in simp)
qed

theorem projected_part_accepted_witness:
  "isRemoteRuntimeChatMessagePartPayloadValue (projectRemoteRuntimeMessagePartPayload
     (JObj [(''type'', JStr ''reasoning''), (''text'', JStr ''so'')]))"
proof (rule projected_part_accepted)
  show "projectRemoteRuntimeMessagePartPayload (JObj [(''type'', JStr ''reasoning''), (''text'', JStr ''so'')]) \<noteq> JNull" by code_simp
qed simp

section \<open>Two guards of the same values\<close>

lemma nullable_optional: "isNullableRemoteRuntimeString v \<Longrightarrow> isOptionalStringOrNull v"
  by (auto simp: isNullableRemoteRuntimeString_def isOptionalStringOrNull_def)

lemma nonempty_agree: "isNonEmptyRemoteRuntimeString v = isNonEmptyString v"
  by (simp add: isNonEmptyRemoteRuntimeString_def isNonEmptyString_def)

lemma part_on_socket: "isRemoteRuntimeChatMessagePartProjectionValue v \<Longrightarrow> isRemoteRuntimeChatMessagePartProjection v"
  by (auto simp: isRemoteRuntimeChatMessagePartProjectionValue_def isRemoteRuntimeChatMessagePartProjection_def nonempty_agree
      isRemoteRuntimeChatMessagePartPayloadValue_def Let_def intro: nullable_optional)

text \<open>A message that the HTTP guard accepts is accepted by the guard of the web socket.\<close>
theorem message_on_socket:
  "isRemoteRuntimeChatMessageProjectionValue v \<Longrightarrow> isRemoteRuntimeChatMessageProjection v"
  unfolding isRemoteRuntimeChatMessageProjectionValue_def isRemoteRuntimeChatMessageProjection_def nonempty_agree isRemoteRuntimeMessageRoleValue_def
  using nullable_optional part_on_socket arrayEvery_mono by blast

text \<open>A chat that the HTTP guard accepts is accepted by the guard of the web socket when it says whether a turn is active, or nothing, and
  the budget of its goal is an integer.\<close>
theorem chat_on_socket:
  assumes "isRemoteRuntimeActiveChatMetadataProjectionValue v"
  shows "isRemoteRuntimeActiveChatMetadataProjection v \<longleftrightarrow> getProp v ''hasActiveTurn'' \<noteq> JNull
    \<and> (isRecord (getProp v ''goal'') \<longrightarrow> getProp (getProp v ''goal'') ''tokenBudget'' = JNull
        \<or> jsNumTest numInteger (getProp (getProp v ''goal'') ''tokenBudget''))"
proof -
  have goal: "isThreadGoal g \<longleftrightarrow> getProp g ''tokenBudget'' = JNull \<or> jsNumTest numInteger (getProp g ''tokenBudget'')" if "isThreadGoalValue g" for g
    using that by (simp add: isThreadGoal_def isThreadGoalValue_def nonempty_agree isStatusText_def isHostThreadGoalStatusValue_def)
  have count: "isOptionalSafeIntegerOrNull n" if "isOptionalSafeNonNegativeRemoteRuntimeIntegerOrNull n" for n
    using that by (cases n) (auto simp: isOptionalSafeIntegerOrNull_def isOptionalSafeNonNegativeRemoteRuntimeIntegerOrNull_def
        isSafeNonNegativeRemoteRuntimeInteger_def)
  have turn: "isBoolean t \<or> t = JUndef \<longleftrightarrow> t \<noteq> JNull" if "isOptionalRemoteRuntimeBooleanOrNull t" for t
    using that by (cases t) (auto simp: isOptionalRemoteRuntimeBooleanOrNull_def)
  have optional: "isOptionalStringOrNull t" if "isOptionalRemoteRuntimeStringOrNull t" for t
    using that by (simp add: isOptionalStringOrNull_def isOptionalRemoteRuntimeStringOrNull_def)
  note v = assms [unfolded isRemoteRuntimeActiveChatMetadataProjectionValue_def]
  have "getProp v ''goal'' = JUndef \<or> getProp v ''goal'' = JNull \<or> isThreadGoal (getProp v ''goal'')
    \<longleftrightarrow> (isRecord (getProp v ''goal'') \<longrightarrow> getProp (getProp v ''goal'') ''tokenBudget'' = JNull
        \<or> jsNumTest numInteger (getProp (getProp v ''goal'') ''tokenBudget''))"
    using v goal [of "getProp v ''goal''"] by (cases "getProp v ''goal''") (auto simp: isThreadGoalValue_def)
  then show ?thesis
    using v turn [of "getProp v ''hasActiveTurn''"]
    by (simp add: isRemoteRuntimeActiveChatMetadataProjection_def nonempty_agree nullable_optional count optional) blast
qed

text \<open>A chat whose activity is unknown passes the HTTP guard and not the guard of the web socket.\<close>
lemma unknown_activity_refused_on_socket:
  "\<exists>v. isRemoteRuntimeActiveChatMetadataProjectionValue v \<and> \<not> isRemoteRuntimeActiveChatMetadataProjection v"
  by (rule exI [of _ "JObj [(''agent'', JNull), (''createdAt'', JStr ''t''), (''hasActiveTurn'', JNull), (''model'', JNull), (''path'', JNull),
      (''projectId'', JStr ''p''), (''sessionId'', JStr ''s''), (''status'', JStr ''idle''), (''title'', JStr ''c''), (''updatedAt'', JStr ''t'')]"])
    code_simp

end
