(* ===== verification/Event_Parts.thy ===== *)
theory Event_Parts
  imports Message_Parts Frames
begin

text \<open>
  What of a session event leaves the host over a subscription (\<^verbatim>\<open>packages/remote-runtime-host/src/remote-runtime-manager.ts\<close>):
  the projection of the part of a message, of the input and the metadata of a tool call, the text delta, the payload with its limits of size,
  and the envelope.  A record of the source is an object value and null is \<open>JNull\<close>; what the dependency
  \<open>projectSessionMessage\<close> answers is an argument.
\<close>

definition remoteRuntimeEventFrameMaxBytes :: nat where
  "remoteRuntimeEventFrameMaxBytes = 512 * 1024"

definition remoteRuntimeProjectedPartMaxBytes :: nat where
  "remoteRuntimeProjectedPartMaxBytes = 128 * 1024"

section \<open>Tools\<close>

definition recordPart :: "js \<Rightarrow> js" where
  "recordPart v = (if isRecord v then v else JNull)"

definition stringOrNull :: "js \<Rightarrow> string option" where
  "stringOrNull v = (if isString v then Some (strOf v) else None)"

definition copyPartString :: "js \<Rightarrow> string \<Rightarrow> fields \<Rightarrow> fields" where
  "copyPartString source key target = setIf (isString (getProp source key)) key (getProp source key) target"

definition objectUnlessEmpty :: "fields \<Rightarrow> js" where
  "objectUnlessEmpty projected = (if projected = [] then JNull else JObj projected)"

definition projectPartObject :: "js \<Rightarrow> string list \<Rightarrow> js" where
  "projectPartObject source keys =
     objectUnlessEmpty (fold (\<lambda>key. setIf (getProp source key \<noteq> JUndef) key (getProp source key)) keys [])"

text \<open>Of the input of an unknown tool the scalars go out, assigned in the order of their keys (the result has them in the order of properties);
  assigning one to \<^verbatim>\<open>__proto__\<close> does nothing.\<close>

definition projectToolInput :: "string option \<Rightarrow> js \<Rightarrow> js" where
  "projectToolInput tool input =
     (if input = JNull then JNull
      else if tool = Some ''bash'' then projectPartObject input [''command'', ''description'', ''workdir'']
      else if tool = Some ''read'' then projectPartObject input [''filePath'', ''path'']
      else if tool = Some ''grep'' \<or> tool = Some ''glob'' then projectPartObject input [''pattern'', ''path'']
      else if tool = Some ''webfetch'' then projectPartObject input [''url'']
      else if tool = Some ''websearch'' then projectPartObject input [''query'']
      else if tool = Some ''task'' then projectPartObject input [''description'', ''subagent_type'']
      else if tool = Some ''edit'' then projectPartObject input [''filePath'']
      else if tool = Some ''write'' then projectPartObject input [''content'', ''filePath'']
      else if tool = Some ''apply_patch'' then projectPartObject input [''filePath'']
      else if tool = Some ''todowrite'' then projectPartObject input [''todos'']
      else if tool = Some ''question'' then projectPartObject input [''questions'']
      else if tool = Some ''skill'' then projectPartObject input [''name'']
      else objectUnlessEmpty (propertyOrder (fold (\<lambda>key.
        let v = getProp input key in setIf ((isBoolean v \<or> isNumber v \<or> isString v) \<and> key \<noteq> ''__proto__'') key v)
        (sort (objectKeys input)) [])))"

text \<open>The text \<open>output\<close> is left out when it is empty.\<close>

definition projectToolMetadata :: "string option \<Rightarrow> js \<Rightarrow> js \<Rightarrow> js" where
  "projectToolMetadata tool metadata state =
     (let arrayField = (\<lambda>key. setIf (isArray (getProp metadata key)) key (getProp metadata key));
          definedField = (\<lambda>key. setIf (getProp metadata key \<noteq> JUndef) key (getProp metadata key));
          recordField = (\<lambda>key. setIf (isRecord (getProp metadata key)) key (getProp metadata key)) in
      if tool = Some ''bash'' then
        (let out = (if isString (getProp metadata ''output'') then strOf (getProp metadata ''output'')
                    else if isString (getProp state ''output'') then strOf (getProp state ''output'') else []) in
         objectUnlessEmpty (fieldIf (out \<noteq> []) ''output'' (JStr out)))
      else if tool = Some ''read'' then objectUnlessEmpty (arrayField ''loaded'' [])
      else if tool = Some ''grep'' then objectUnlessEmpty (definedField ''matches'' [])
      else if tool = Some ''glob'' then objectUnlessEmpty (definedField ''count'' [])
      else if tool = Some ''websearch'' then objectUnlessEmpty (definedField ''numResults'' [])
      else if tool = Some ''task'' then
        objectUnlessEmpty (fieldIf (isString (getProp metadata ''sessionId'')) ''sessionId'' (getProp metadata ''sessionId''))
      else if tool = Some ''edit'' \<or> tool = Some ''write'' \<or> tool = Some ''apply_patch'' then
        objectUnlessEmpty (recordField ''diagnostics'' (definedField ''diff'' (arrayField ''files'' (recordField ''filediff'' []))))
      else if tool = Some ''todowrite'' then objectUnlessEmpty (arrayField ''todos'' [])
      else if tool = Some ''question'' then objectUnlessEmpty (arrayField ''answers'' [])
      else JNull)"

definition projectToolState :: "string option \<Rightarrow> js \<Rightarrow> fields" where
  "projectToolState tool state =
     (let copy = copyPartString state;
          input = projectToolInput tool (recordPart (getProp state ''input''));
          metadata = projectToolMetadata tool (recordPart (getProp state ''metadata'')) state;
          compacted = getProp (recordPart (getProp state ''time'')) ''compacted'' in
      setIf (compacted \<noteq> JUndef) ''time'' (JObj [(''compacted'', JBool True)])
        (setIf (metadata \<noteq> JNull) ''metadata'' metadata
        (copy ''error'' (copy ''output''
        (setIf (input \<noteq> JNull) ''input'' input
        (copy ''title'' (copy ''status'' [])))))))"

section \<open>Parts\<close>

text \<open>A part of any other type goes out with its type and identifiers only.\<close>

definition projectRemoteRuntimeEventPart :: "js \<Rightarrow> js" where
  "projectRemoteRuntimeEventPart part =
     (let copy = copyPartString part;
          record = (\<lambda>key. let v = recordPart (getProp part key) in setIf (v \<noteq> JNull) key v);
          number = (\<lambda>key. setIf (isNumber (getProp part key)) key (getProp part key));
          boolean = (\<lambda>key. setIf (isBoolean (getProp part key)) key (getProp part key)) in
      case stringOrNull (getProp part ''type'') of
        None \<Rightarrow> JNull
      | Some [] \<Rightarrow> JNull
      | Some type \<Rightarrow>
          (let payload = copy ''messageID'' (copy ''id'' [(''type'', JStr type)]) in
           JObj (
             if type = ''text'' then
               (let kind = getProp (recordPart (getProp part ''metadata'')) ''kind'' in
                setIf (isString kind) ''metadata'' (JObj [(''kind'', kind)]) (boolean ''synthetic'' (copy ''text'' payload)))
             else if type = ''reasoning'' then copy ''text'' payload
             else if type = ''tool'' then
               (let state = recordPart (getProp part ''state'');
                    projected = (if state = JNull then [] else projectToolState (stringOrNull (getProp part ''tool'')) state) in
                setIf (projected \<noteq> []) ''state'' (JObj projected) (copy ''tool'' payload))
             else if type = ''file'' then record ''source'' (copy ''url'' (copy ''mime'' (copy ''filename'' payload)))
             else if type = ''patch'' then setIf (isArray (getProp part ''files'')) ''files'' (getProp part ''files'') payload
             else if type = ''subtask'' then copy ''prompt'' (copy ''agent'' (copy ''description'' payload))
             else if type = ''agent'' then copy ''name'' payload
             else if type = ''snapshot'' \<or> type = ''step-start'' then copy ''snapshot'' payload
             else if type = ''step-finish'' then copy ''snapshot'' (record ''tokens'' (number ''cost'' (copy ''reason'' payload)))
             else if type = ''retry'' then record ''error'' (number ''attempt'' payload)
             else if type = ''compaction'' then copy ''tail_start_id'' (boolean ''overflow'' (boolean ''auto'' payload))
             else payload)))"

section \<open>Events\<close>

definition eventPart :: "js \<Rightarrow> js" where
  "eventPart event = getProp (recordPart (getProp event ''properties'')) ''part''"

definition remoteRuntimeEventHasPartSource :: "js \<Rightarrow> bool" where
  "remoteRuntimeEventHasPartSource event \<longleftrightarrow>
     getProp event ''type'' = JStr ''message.part.updated'' \<and> isRecord (getProp event ''properties'') \<and> isRecord (eventPart event)"

definition eventProjectedPart :: "(rat \<Rightarrow> string) \<Rightarrow> js \<Rightarrow> js" where
  "eventProjectedPart numText event =
     (if getProp event ''type'' \<noteq> JStr ''message.part.updated'' \<or> \<not> isRecord (getProp event ''properties'') then JNull
      else if \<not> isRecord (eventPart event) then JNull
      else if remoteRuntimeJsonByteLength numText (eventPart event) > remoteRuntimeProjectedPartMaxBytes then JNull
      else projectRemoteRuntimeEventPart (eventPart event))"

definition remoteRuntimeEventTextDelta :: "js \<Rightarrow> js" where
  "remoteRuntimeEventTextDelta event =
     (let properties = getProp event ''properties'';
          text = (\<lambda>key. (key, if isString (getProp properties key) then getProp properties key else JNull)) in
      if getProp event ''type'' \<noteq> JStr ''message.part.delta'' \<or> \<not> isRecord properties then JNull
      else JObj (map text [''delta'', ''field'', ''messageID'', ''partID'', ''sessionID'']))"

definition compactEventValue :: "(rat \<Rightarrow> string) \<Rightarrow> js \<Rightarrow> js" where
  "compactEventValue numText value =
     (if value = JNull \<or> value = JUndef then JNull
      else if remoteRuntimeJsonByteLength numText value > remoteRuntimeProjectedPartMaxBytes then JNull else value)"

definition remoteRuntimeEventPayload :: "(rat \<Rightarrow> string) \<Rightarrow> js \<Rightarrow> js \<Rightarrow> js \<Rightarrow> js" where
  "remoteRuntimeEventPayload numText event activeChat projectedMessageSource =
     (let projectedPart = compactEventValue numText (eventProjectedPart numText event);
          projectedMessage = compactEventValue numText projectedMessageSource;
          textDeltaSource = remoteRuntimeEventTextDelta event;
          textDelta = compactEventValue numText textDeltaSource in
      JObj [(''activeChat'', activeChat), (''projectedMessage'', projectedMessage), (''projectedPart'', projectedPart),
        (''textDelta'', textDelta),
        (''truncated'', JBool ((remoteRuntimeEventHasPartSource event \<and> projectedPart = JNull)
           \<or> (projectedMessageSource \<noteq> JNull \<and> projectedMessage = JNull)
           \<or> (textDeltaSource \<noteq> JNull \<and> textDelta = JNull)))])"

definition remoteRuntimeEventHasInlineStreamingPayload :: "(rat \<Rightarrow> string) \<Rightarrow> js \<Rightarrow> bool" where
  "remoteRuntimeEventHasInlineStreamingPayload numText event \<longleftrightarrow>
     eventProjectedPart numText event \<noteq> JNull \<or> remoteRuntimeEventTextDelta event \<noteq> JNull"

definition remoteRuntimeEventType :: "js \<Rightarrow> string option" where
  "remoteRuntimeEventType event =
     (let type = getProp event ''type'' in
      if type = JStr ''session.created'' then Some ''session.created''
      else if type = JStr ''session.updated'' \<or> type = JStr ''session.status'' then Some ''session.updated''
      else if type = JStr ''session.deleted'' then Some ''session.closed''
      else if type = JStr ''message.updated'' then Some ''session.message.completed''
      else if type = JStr ''message.part.updated'' \<or> type = JStr ''message.part.delta'' then Some ''session.output.delta''
      else if type = JStr ''message.removed'' \<or> type = JStr ''message.part.removed'' then Some ''session.updated''
      else None)"

definition remoteRuntimeEventResource :: "string \<Rightarrow> string \<Rightarrow> string \<Rightarrow> js" where
  "remoteRuntimeEventResource runtimeInstallationId sessionId eventType =
     (let resource = (\<lambda>kind. JObj [(''kind'', JStr kind), (''runtimeInstallationId'', JStr runtimeInstallationId), (''sessionId'', JStr sessionId)]) in
      if eventType \<in> {''session.message.created'', ''session.output.delta'', ''session.output.completed'', ''session.message.completed''}
      then resource ''chatMessages''
      else if eventType = ''session.updated'' then resource ''chat''
      else JObj [(''kind'', JStr ''activeChats''), (''runtimeInstallationId'', JStr runtimeInstallationId)])"

definition goalProjectionScopeForEventType :: "string option \<Rightarrow> string option" where
  "goalProjectionScopeForEventType eventType =
     (if eventType = Some ''session.created'' \<or> eventType = Some ''session.closed'' then Some ''list''
      else if eventType = Some ''session.updated'' then Some ''read''
      else None)"

section \<open>Envelopes\<close>

record event_envelope_input =
  ee_eventType :: string
  ee_gatewayRuntimeAttachmentId :: "string option"
  ee_resource :: js
  ee_runtimeInstallationId :: string
  ee_sequence :: nat
  ee_sessionId :: string
  ee_timestamp :: string

definition remoteRuntimeEventEnvelope :: "event_envelope_input \<Rightarrow> js \<Rightarrow> js" where
  "remoteRuntimeEventEnvelope input payload =
     JObj [(''event'', JObj [(''eventType'', JStr (ee_eventType input)),
        (''gatewayRuntimeAttachmentId'', case ee_gatewayRuntimeAttachmentId input of Some i \<Rightarrow> JStr i | None \<Rightarrow> JNull),
        (''payload'', payload), (''resource'', ee_resource input), (''runtimeInstallationId'', JStr (ee_runtimeInstallationId input)),
        (''sequence'', JNum (JFin (of_nat (ee_sequence input)))), (''sessionId'', JStr (ee_sessionId input)),
        (''timestamp'', JStr (ee_timestamp input))]),
      (''type'', JStr ''event'')]"

definition truncatedPayload :: js where
  "truncatedPayload = JObj [(''activeChat'', JNull), (''projectedMessage'', JNull), (''projectedPart'', JNull), (''textDelta'', JNull),
     (''truncated'', JBool True)]"

definition compactRemoteRuntimeEventEnvelope :: "(rat \<Rightarrow> string) \<Rightarrow> event_envelope_input \<Rightarrow> js \<Rightarrow> js" where
  "compactRemoteRuntimeEventEnvelope numText input payload =
     (let envelope = remoteRuntimeEventEnvelope input payload in
      if remoteRuntimeJsonByteLength numText envelope \<le> remoteRuntimeEventFrameMaxBytes then envelope
      else remoteRuntimeEventEnvelope input truncatedPayload)"

end
