(* ===== verification/Event_Theorems.thy ===== *)
theory Event_Theorems
  imports Event_Parts Message_Theorems
begin

text \<open>
  What goes out with a session event: in the projected part, of the input of a tool call exactly the fields that are meant to; and a payload
  that says when it was cut.
\<close>

section \<open>The input of a tool call\<close>

lemma fold_defined:
  "getProp (JObj (fold (\<lambda>key. setIf (getProp i key \<noteq> JUndef) key (getProp i key)) keys acc)) k =
     (if k \<in> set keys \<and> getProp i k \<noteq> JUndef then getProp i k else getProp (JObj acc) k)"
proof (induction keys arbitrary: acc)
  case Nil
  show ?case by simp
next
  case (Cons a keys)
  show ?case by (cases "getProp i a = JUndef") (auto simp: Cons getProp_setIf simp del: getProp.simps)
qed

lemma getProp_nothing [simp]: "getProp (JObj []) k = JUndef" "getProp JNull k = JUndef" "getProp JUndef k = JUndef"
  by simp_all

lemma getProp_objectUnlessEmpty: "getProp (objectUnlessEmpty fs) k = getProp (JObj fs) k"
  by (simp add: objectUnlessEmpty_def)

lemma picked_fields: "getProp (projectPartObject i keys) k = (if k \<in> set keys then getProp i k else JUndef)"
  by (simp add: projectPartObject_def getProp_objectUnlessEmpty fold_defined del: getProp.simps)

lemma picked_agree:
  assumes "\<forall>k\<in>set keys. getProp i k = getProp i' k"
  shows "projectPartObject i keys = projectPartObject i' keys"
proof -
  have "fold (\<lambda>key. setIf (getProp i key \<noteq> JUndef) key (getProp i key)) keys acc =
      fold (\<lambda>key. setIf (getProp i' key \<noteq> JUndef) key (getProp i' key)) keys acc" for acc
    using assms by (induction keys arbitrary: acc) simp_all
  then show ?thesis by (simp add: projectPartObject_def)
qed

text \<open>The event of a part that is a tool call with the input \<open>i\<close>, whatever else the part and its state hold.\<close>

definition toolPart :: "string \<Rightarrow> fields \<Rightarrow> fields \<Rightarrow> js \<Rightarrow> js" where
  "toolPart tool fs state i = JObj (AList.update ''type'' (JStr ''tool'') (AList.update ''tool'' (JStr tool)
     (AList.update ''state'' (JObj (AList.update ''input'' i state)) fs)))"

definition partUpdated :: "js \<Rightarrow> js" where
  "partUpdated part = JObj [(''type'', JStr ''message.part.updated''), (''properties'', JObj [(''part'', part)])]"

lemma getProp_update: "getProp (JObj (AList.update k v fs)) j = (if k = j then v else getProp (JObj fs) j)"
  by (simp add: getProp.simps(1) update_conv)

lemma toolState_input:
  assumes "projectToolInput (Some tool) i = projectToolInput (Some tool) i'" "isRecord i" "isRecord i'"
  shows "projectToolState (Some tool) (JObj (AList.update ''input'' i state)) = projectToolState (Some tool) (JObj (AList.update ''input'' i' state))"
  using assms
  by (simp add: projectToolState_def projectToolMetadata_def copyPartString_def recordPart_def getProp_update Let_def
      del: getProp.simps cong: if_cong)

lemma toolPart_input:
  assumes "projectToolInput (Some tool) i = projectToolInput (Some tool) i'" "isRecord i" "isRecord i'"
  shows "projectRemoteRuntimeEventPart (toolPart tool fs state i) = projectRemoteRuntimeEventPart (toolPart tool fs state i')"
  using toolState_input [OF assms, of state]
  by (simp add: projectRemoteRuntimeEventPart_def toolPart_def getProp_update copyPartString_def recordPart_def stringOrNull_def Let_def
      del: getProp.simps cong: if_cong)

text \<open>C34: In the part that the host sends with an event of a part, the input of a call of a known tool has exactly the fields that are listed here,
  each as it is in the call, and the other fields of the input have no influence on the part that is sent: what an edit replaces and
  inserts, for instance, does not go out as its input. (The two parts are within the limit of size; beyond it no part goes out. The
  payload can also have the whole message, which the dependency \<^verbatim>\<open>projectSessionMessage\<close> projects.)\<close>
theorem tool_input_limited:
  assumes "(tool, visible) \<in> set [(''bash'', [''command'', ''description'', ''workdir'']), (''read'', [''filePath'', ''path'']),
      (''grep'', [''pattern'', ''path'']), (''glob'', [''pattern'', ''path'']), (''webfetch'', [''url'']), (''websearch'', [''query'']),
      (''task'', [''description'', ''subagent_type'']), (''edit'', [''filePath'']), (''write'', [''content'', ''filePath'']),
      (''apply_patch'', [''filePath'']), (''todowrite'', [''todos'']), (''question'', [''questions'']), (''skill'', [''name''])]"
    and "isRecord i" "isRecord i'" and "\<forall>k\<in>set visible. getProp i k = getProp i' k"
    and "remoteRuntimeJsonByteLength numText (toolPart tool fs state i) \<le> remoteRuntimeProjectedPartMaxBytes"
    and "remoteRuntimeJsonByteLength numText (toolPart tool fs state i') \<le> remoteRuntimeProjectedPartMaxBytes"
  shows "(let sent = eventProjectedPart numText (partUpdated (toolPart tool fs state i)) in
      getProp (getProp (getProp sent ''state'') ''input'') k = (if k \<in> set visible then getProp i k else JUndef)
      \<and> sent = eventProjectedPart numText (partUpdated (toolPart tool fs state i')))"
proof -
  let ?part = "toolPart tool fs state i" and ?part' = "toolPart tool fs state i'"
  have input: "projectToolInput (Some tool) j = projectPartObject j visible" if "isRecord j" for j
  proof -
    have "j \<noteq> JNull" using that by (cases j) simp_all
    then show ?thesis using assms(1) unfolding list.set insert_iff empty_iff prod.inject
      by (elim disjE conjE) (simp_all add: projectToolInput_def)
  qed
  have sent: "eventProjectedPart numText (partUpdated (toolPart tool fs state j)) = projectRemoteRuntimeEventPart (toolPart tool fs state j)"
    if "remoteRuntimeJsonByteLength numText (toolPart tool fs state j) \<le> remoteRuntimeProjectedPartMaxBytes" for j
    using that by (simp add: eventProjectedPart_def partUpdated_def eventPart_def recordPart_def) (simp add: toolPart_def)
  have "projectRemoteRuntimeEventPart ?part = projectRemoteRuntimeEventPart ?part'"
    by (rule toolPart_input) (simp_all add: assms(2,3) input picked_agree [OF assms(4)])
  moreover have "getProp (getProp (getProp (projectRemoteRuntimeEventPart ?part) ''state'') ''input'') k =
      getProp (projectToolInput (Some tool) i) k"
  proof -
    let ?state = "JObj (AList.update ''input'' i state)"
    have "getProp (JObj (projectToolState (Some tool) ?state)) ''input'' =
        (if projectToolInput (Some tool) i \<noteq> JNull then projectToolInput (Some tool) i else JUndef)"
      using assms(2) by (simp add: projectToolState_def getProp_setIf copyPartString_def recordPart_def getProp_update Let_def del: getProp.simps)
    moreover have "getProp (projectRemoteRuntimeEventPart ?part) ''state'' =
        (if projectToolState (Some tool) ?state \<noteq> [] then JObj (projectToolState (Some tool) ?state) else JUndef)"
      by (simp add: projectRemoteRuntimeEventPart_def toolPart_def getProp_update getProp_setIf copyPartString_def recordPart_def
          stringOrNull_def Let_def del: getProp.simps)
    ultimately show ?thesis by (cases "projectToolState (Some tool) ?state = []") (auto split: if_splits simp del: getProp.simps simp add: getProp_nothing)
  qed
  ultimately show ?thesis
    using sent [OF assms(5)] sent [OF assms(6)] by (simp add: Let_def input [OF assms(2)] picked_fields del: getProp.simps)
qed

theorem tool_input_limited_witness:
  "eventProjectedPart (\<lambda>_. ''0'') (partUpdated (toolPart ''edit'' [] [(''status'', JStr ''running'')]
     (JObj [(''filePath'', JStr ''a''), (''newString'', JStr ''secret'')]))) =
   eventProjectedPart (\<lambda>_. ''0'') (partUpdated (toolPart ''edit'' [] [(''status'', JStr ''running'')] (JObj [(''filePath'', JStr ''a'')])))"
proof -
  let ?i = "JObj [(''filePath'', JStr ''a''), (''newString'', JStr ''secret'')]" and ?i' = "JObj [(''filePath'', JStr ''a'')]"
  have small: "remoteRuntimeJsonByteLength (\<lambda>_. ''0'') (toolPart ''edit'' [] [(''status'', JStr ''running'')] ?i) \<le> 200"
    "remoteRuntimeJsonByteLength (\<lambda>_. ''0'') (toolPart ''edit'' [] [(''status'', JStr ''running'')] ?i') \<le> 200" by code_simp+
  have limit: "(200 :: nat) \<le> remoteRuntimeProjectedPartMaxBytes" by (simp add: remoteRuntimeProjectedPartMaxBytes_def)
  show ?thesis
    by (rule tool_input_limited [where visible = "[''filePath'']" and i' = ?i', unfolded Let_def, THEN conjunct2])
      (use order_trans [OF small(1) limit] order_trans [OF small(2) limit] in simp_all)
qed

section \<open>Limits of size\<close>

text \<open>The payload says that it was cut exactly when something that the event had is missing from it.\<close>
theorem payload_tells_truncation:
  assumes "m \<noteq> JUndef"
  shows "getProp (remoteRuntimeEventPayload numText event activeChat m) ''truncated'' = JBool (
      remoteRuntimeEventHasPartSource event \<and> getProp (remoteRuntimeEventPayload numText event activeChat m) ''projectedPart'' = JNull
    \<or> m \<noteq> JNull \<and> remoteRuntimeJsonByteLength numText m > remoteRuntimeProjectedPartMaxBytes
    \<or> (let d = remoteRuntimeEventTextDelta event in d \<noteq> JNull \<and> remoteRuntimeJsonByteLength numText d > remoteRuntimeProjectedPartMaxBytes))"
proof -
  have "remoteRuntimeEventTextDelta event \<noteq> JUndef" by (simp add: remoteRuntimeEventTextDelta_def Let_def)
  with assms show ?thesis by (auto simp: remoteRuntimeEventPayload_def compactEventValue_def Let_def)
qed

end
