(* ===== verification/Sync_Event.thy ===== *)
theory Sync_Event
  imports Prelude
begin

text \<open>
  The synchronised events of the sessions (\<^verbatim>\<open>packages/cli-host/src/sync/index.ts\<close>) over the databases
  (\<^verbatim>\<open>packages/cli-host/src/storage/db.ts\<close>): definitions of events, the log with its sequence numbers, the projection that every
  event changes, replay and removal.  The projectors and the conversion of the data that is published are arguments of \<open>init\<close>, as in the
  source; the ones that the host passes (\<^verbatim>\<open>session/projectors.ts\<close>, \<^verbatim>\<open>session/projectors-next.ts\<close>) are not modelled.  A projector reads the
  clock, because its tables stamp the time of a change: it gets the readings it will see, and another call gets other ones.  The test
  whether a projection holds a session, and the identifiers that new events get, are parameters.  The data of an event is a value in
  memory; the row has it as the text of a JSON column, that is, as what JSON makes of it.  A database file that is opened for the
  first time holds the initial projection; a thrown error undoes the transaction it leaves.
\<close>

section \<open>Databases\<close>

record event_row =
  er_id :: string
  er_seq :: int
  er_aggregateID :: string
  er_type :: string
  er_data :: js

record 'p database =
  db_sequence :: "string \<Rightarrow> int option"
  db_events :: "event_row list"
  db_projection :: 'p

text \<open>
  The path of the process, the files of \<open>listPaths\<close>, and what \<open>hasSession\<close> asks.  \<open>st_dateText\<close> tells which values are dates of the library
  \<^verbatim>\<open>effect\<close>, and the text that their method \<open>toJSON\<close> returns.
\<close>

record 'p storage =
  st_Path :: string
  st_listPaths :: "string list"
  st_exists :: "string \<Rightarrow> bool"
  st_session :: "'p \<Rightarrow> string \<Rightarrow> bool"
  st_dateText :: "js \<Rightarrow> string option"

type_synonym 'p files = "string \<Rightarrow> 'p database"

definition hasSession :: "'p storage \<Rightarrow> 'p files \<Rightarrow> string \<Rightarrow> string \<Rightarrow> bool" where
  "hasSession st files path sessionID = (st_exists st path \<and> st_session st (db_projection (files path)) sessionID)"

definition resolveSessionPath :: "'p storage \<Rightarrow> 'p files \<Rightarrow> string \<Rightarrow> string option" where
  "resolveSessionPath st files sessionID =
     (if hasSession st files (st_Path st) sessionID then Some (st_Path st)
      else find (\<lambda>candidate. hasSession st files candidate sessionID) (filter (\<lambda>item. item \<noteq> st_Path st) (st_listPaths st)))"

text \<open>The file that \<open>transactionPath\<close> writes: inside a transaction its callback runs in that transaction, whatever the path.\<close>

definition transactionFile :: "string option \<Rightarrow> string \<Rightarrow> string" where
  "transactionFile transaction path = (case transaction of Some file \<Rightarrow> file | None \<Rightarrow> path)"

section \<open>Definitions of events\<close>

text \<open>\<open>ed_ref\<close> is the identity of the object: the projectors are kept in a map with the objects as keys.\<close>

record event_definition =
  ed_ref :: nat
  ed_type :: string
  ed_version :: nat
  ed_aggregate :: string

record sync_event =
  se_id :: string
  se_seq :: int
  se_aggregateID :: string
  se_data :: js

record serialized_event = sync_event +
  sr_type :: string

text \<open>The readings of the clock that a call sees, in order.\<close>

type_synonym readings = "nat \<Rightarrow> int"

type_synonym 'p projector = "readings \<Rightarrow> 'p \<Rightarrow> js \<Rightarrow> sync_event \<Rightarrow> string + 'p"

record project_instance =
  in_directory :: string
  in_project :: string

record published_event =
  pe_directory :: string
  pe_project :: string
  pe_id :: string
  pe_type :: string
  pe_properties :: js
  pe_syncType :: string
  pe_event :: sync_event

record 'p sync =
  sy_registry :: "string \<Rightarrow> event_definition option"
  sy_projectors :: "(event_definition \<Rightarrow> 'p projector option) option"
  sy_versions :: "string \<Rightarrow> nat option"
  sy_frozen :: bool
  sy_convertEvent :: "'p \<Rightarrow> string \<Rightarrow> js \<Rightarrow> js"
  sy_files :: "'p files"
  sy_published :: "published_event list"

datatype sync_error =
    UnknownEventType string
  | SequenceMismatch string int int
  | MixedSessions
  | ReplaySequenceMismatch nat int int
  | AggregateMissing string
  | OldVersion string
  | NoProjectors
  | ProjectorNotFound string
  | ProjectorFailed string
  | MissingData
  | DuplicateEvent string
  | PublishWithoutInstance
  | SystemFrozen

definition versionedType :: "(nat \<Rightarrow> string) \<Rightarrow> string \<Rightarrow> nat \<Rightarrow> string" where
  "versionedType digits type version = (if version \<noteq> 0 then type @ ''.'' @ digits version else type)"

definition define_event :: "(nat \<Rightarrow> string) \<Rightarrow> event_definition \<Rightarrow> 'p sync \<Rightarrow> (sync_error + event_definition) \<times> 'p sync" where
  "define_event digits def s =
     (if sy_frozen s then (Inl SystemFrozen, s)
      else (Inr def, s\<lparr>sy_versions := (sy_versions s)(ed_type def \<mapsto>
               max (ed_version def) (case sy_versions s (ed_type def) of Some v \<Rightarrow> v | None \<Rightarrow> 0)),
             sy_registry := (sy_registry s)(versionedType digits (ed_type def) (ed_version def) \<mapsto> def)\<rparr>))"

definition reset_sync :: "'p sync \<Rightarrow> 'p sync" where
  "reset_sync s = s\<lparr>sy_frozen := False, sy_projectors := None, sy_convertEvent := \<lambda>p type data. data\<rparr>"

definition init_sync :: "(event_definition \<times> 'p projector) list \<Rightarrow> ('p \<Rightarrow> string \<Rightarrow> js \<Rightarrow> js) option \<Rightarrow> 'p sync \<Rightarrow> 'p sync" where
  "init_sync projectors convertEvent s =
     s\<lparr>sy_projectors := Some (map_of (rev projectors)), sy_frozen := True,
       sy_convertEvent := (case convertEvent of Some f \<Rightarrow> f | None \<Rightarrow> (\<lambda>p type data. data))\<rparr>"

section \<open>Recording an event\<close>

text \<open>
  A JSON column: the value that is read back is what parsing makes of the text that was written.  Fields that are undefined are
  gone, undefined elements and numbers that are not finite are null, and a date is its text.
\<close>

fun jsonColumn :: "(js \<Rightarrow> string option) \<Rightarrow> js \<Rightarrow> js" where
  "jsonColumn dateText (JNum n) = (case n of JFin r \<Rightarrow> JNum n | _ \<Rightarrow> JNull)"
| "jsonColumn dateText (JArr vs) = JArr (map (\<lambda>v. if v = JUndef then JNull else jsonColumn dateText v) vs)"
| "jsonColumn dateText (JObj fs) = (case dateText (JObj fs) of
       Some t \<Rightarrow> JStr t
     | None \<Rightarrow> JObj (map (\<lambda>kv. (fst kv, jsonColumn dateText (snd kv))) (filter (\<lambda>kv. snd kv \<noteq> JUndef) fs)))"
| "jsonColumn dateText v = v"

definition storedRow :: "'p storage \<Rightarrow> string \<Rightarrow> sync_event \<Rightarrow> event_row" where
  "storedRow st type event = \<lparr> er_id = se_id event, er_seq = se_seq event, er_aggregateID = se_aggregateID event, er_type = type,
     er_data = jsonColumn (st_dateText st) (se_data event) \<rparr>"

text \<open>The body of the transaction: the projector, the sequence number, the row.  The identifier is the primary key of the rows, and the
  column of the data is not null.\<close>

definition recordEvent :: "'p storage \<Rightarrow> readings \<Rightarrow> 'p projector \<Rightarrow> string \<Rightarrow> sync_event \<Rightarrow> 'p database \<Rightarrow> sync_error + 'p database" where
  "recordEvent st now projector type event db =
     (case projector now (db_projection db) (se_data event) event of
        Inl e \<Rightarrow> Inl (ProjectorFailed e)
      | Inr p \<Rightarrow>
          if se_data event = JNull \<or> se_data event = JUndef then Inl MissingData
          else if se_id event \<in> er_id ` set (db_events db) then Inl (DuplicateEvent (se_id event))
          else Inr \<lparr> db_sequence = (db_sequence db)(se_aggregateID event \<mapsto> se_seq event),
                     db_events = db_events db @ [storedRow st type event],
                     db_projection = p \<rparr>)"

record publish_options =
  po_publish :: bool
  po_instance :: "project_instance option"
  po_path :: "string option"

definition eventPath :: "'p storage \<Rightarrow> 'p files \<Rightarrow> string option \<Rightarrow> string \<Rightarrow> string" where
  "eventPath st files path aggregateID =
     (case path of Some p \<Rightarrow> p | None \<Rightarrow> (case resolveSessionPath st files aggregateID of Some p \<Rightarrow> p | None \<Rightarrow> st_Path st))"

text \<open>After the transaction: what is published.  The data are converted with the database of the path.\<close>

definition publishEvent :: "(nat \<Rightarrow> string) \<Rightarrow> string \<Rightarrow> event_definition \<Rightarrow> sync_event \<Rightarrow> publish_options \<Rightarrow> 'p sync \<Rightarrow>
    (sync_error + unit) \<times> 'p sync" where
  "publishEvent digits path def event options s =
     (if \<not> po_publish options then (Inr (), s)
      else (case po_instance options of
          None \<Rightarrow> (Inl PublishWithoutInstance, s)
        | Some i \<Rightarrow> (Inr (), s\<lparr>sy_published := sy_published s @ [\<lparr> pe_directory = in_directory i, pe_project = in_project i,
             pe_id = se_id event, pe_type = ed_type def,
             pe_properties = sy_convertEvent s (db_projection (sy_files s path)) (ed_type def) (se_data event),
             pe_syncType = versionedType digits (ed_type def) (ed_version def), pe_event = event \<rparr>]\<rparr>)))"

definition process_event :: "(nat \<Rightarrow> string) \<Rightarrow> 'p storage \<Rightarrow> readings \<Rightarrow> string option \<Rightarrow> event_definition \<Rightarrow> sync_event \<Rightarrow> publish_options \<Rightarrow>
    'p sync \<Rightarrow> (sync_error + unit) \<times> 'p sync" where
  "process_event digits st now transaction def event options s =
     (case sy_projectors s of
        None \<Rightarrow> (Inl NoProjectors, s)
      | Some projectors \<Rightarrow>
          (case projectors def of
             None \<Rightarrow> (Inl (ProjectorNotFound (ed_type def)), s)
           | Some projector \<Rightarrow>
               (let path = eventPath st (sy_files s) (po_path options) (se_aggregateID event);
                    file = transactionFile transaction path in
                case recordEvent st now projector (versionedType digits (ed_type def) (ed_version def)) event (sy_files s file) of
                  Inl e \<Rightarrow> (Inl e, s)
                | Inr db \<Rightarrow> publishEvent digits path def event options (s\<lparr>sy_files := (sy_files s)(file := db)\<rparr>))))"

section \<open>Running, replaying, removing\<close>

text \<open>\<open>current\<close> is the path of the calling code; a list of events is replayed with readings of its own for each of them.\<close>

definition run_event :: "(nat \<Rightarrow> string) \<Rightarrow> 'p storage \<Rightarrow> readings \<Rightarrow> string \<Rightarrow> project_instance \<Rightarrow> string \<Rightarrow> event_definition \<Rightarrow> js \<Rightarrow> bool option \<Rightarrow> string option \<Rightarrow>
    'p sync \<Rightarrow> (sync_error + unit) \<times> 'p sync" where
  "run_event digits st now current i newId def data publish path s =
     (let agg = getProp data (ed_aggregate def) in
      if agg = JUndef \<or> agg = JNull then (Inl (AggregateMissing (ed_aggregate def)), s)
      else if sy_versions s (ed_type def) \<noteq> Some (ed_version def) then (Inl (OldVersion (ed_type def)), s)
      else
        (let publish = (case publish of Some b \<Rightarrow> b | None \<Rightarrow> True);
             seq = (case db_sequence (sy_files s current) (strOf agg) of Some n \<Rightarrow> n + 1 | None \<Rightarrow> 0) in
         process_event digits st now (Some current) def \<lparr> se_id = newId, se_seq = seq, se_aggregateID = strOf agg, se_data = data \<rparr>
           \<lparr> po_publish = publish, po_instance = (if publish then Some i else None), po_path = path \<rparr> s))"

definition replay_event :: "(nat \<Rightarrow> string) \<Rightarrow> 'p storage \<Rightarrow> readings \<Rightarrow> string \<Rightarrow> project_instance \<Rightarrow> serialized_event \<Rightarrow> bool \<Rightarrow> string option \<Rightarrow>
    'p sync \<Rightarrow> (sync_error + unit) \<times> 'p sync" where
  "replay_event digits st now current i event publish path s =
     (case sy_registry s (sr_type event) of
        None \<Rightarrow> (Inl (UnknownEventType (sr_type event)), s)
      | Some def \<Rightarrow>
          (let latest = (case db_sequence (sy_files s current) (se_aggregateID event) of Some n \<Rightarrow> n | None \<Rightarrow> - 1);
               expected = latest + 1 in
           if se_seq event \<le> latest then (Inr (), s)
           else if se_seq event \<noteq> expected then (Inl (SequenceMismatch (se_aggregateID event) expected (se_seq event)), s)
           else process_event digits st now None def (sync_event.truncate event)
                  \<lparr> po_publish = publish, po_instance = (if publish then Some i else None), po_path = path \<rparr> s))"

fun replaySequence :: "nat \<Rightarrow> int \<Rightarrow> serialized_event list \<Rightarrow> sync_error option" where
  "replaySequence i start [] = None"
| "replaySequence i start (item # items) =
     (if se_seq item \<noteq> start + int i then Some (ReplaySequenceMismatch i (start + int i) (se_seq item))
      else replaySequence (Suc i) start items)"

fun replayEach :: "(nat \<Rightarrow> string) \<Rightarrow> 'p storage \<Rightarrow> (nat \<Rightarrow> readings) \<Rightarrow> string \<Rightarrow> project_instance \<Rightarrow> serialized_event list \<Rightarrow> bool \<Rightarrow> string option \<Rightarrow>
    'p sync \<Rightarrow> (sync_error + unit) \<times> 'p sync" where
  "replayEach digits st nows current i [] publish path s = (Inr (), s)"
| "replayEach digits st nows current i (item # items) publish path s =
     (case replay_event digits st (nows 0) current i item publish path s of
        (Inl e, s') \<Rightarrow> (Inl e, s')
      | (Inr u, s') \<Rightarrow> replayEach digits st (\<lambda>n. nows (Suc n)) current i items publish path s')"

definition replayAll :: "(nat \<Rightarrow> string) \<Rightarrow> 'p storage \<Rightarrow> (nat \<Rightarrow> readings) \<Rightarrow> string \<Rightarrow> project_instance \<Rightarrow> serialized_event list \<Rightarrow> bool \<Rightarrow>
    'p sync \<Rightarrow> (sync_error + string option) \<times> 'p sync" where
  "replayAll digits st nows current i events publish s =
     (case events of
        [] \<Rightarrow> (Inr None, s)
      | first # rest \<Rightarrow>
          if se_aggregateID first = [] then (Inr None, s)
          else if \<exists>item\<in>set events. se_aggregateID item \<noteq> se_aggregateID first then (Inl MixedSessions, s)
          else (case replaySequence 0 (se_seq first) events of
              Some e \<Rightarrow> (Inl e, s)
            | None \<Rightarrow> (case replayEach digits st nows current i events publish None s of
                (Inl e, s') \<Rightarrow> (Inl e, s')
              | (Inr u, s') \<Rightarrow> (Inr (Some (se_aggregateID first)), s'))))"

definition removeRows :: "string \<Rightarrow> 'p database \<Rightarrow> 'p database" where
  "removeRows aggregateID db = db\<lparr>db_sequence := (db_sequence db)(aggregateID := None),
     db_events := filter (\<lambda>row. er_aggregateID row \<noteq> aggregateID) (db_events db)\<rparr>"

definition remove_event :: "'p storage \<Rightarrow> string \<Rightarrow> string option \<Rightarrow> 'p sync \<Rightarrow> 'p sync" where
  "remove_event st aggregateID path s =
     (let file = eventPath st (sy_files s) path aggregateID in
      s\<lparr>sy_files := (sy_files s)(file := removeRows aggregateID (sy_files s file))\<rparr>)"

end
