(* ===== verification/Sync_Theorems.thy ===== *)
theory Sync_Theorems
  imports Sync_Event
begin

text \<open>
  What the log of the synchronised events guarantees: the sequence numbers of a session have no gap, a replica that is sent
  the events at least once each, those of a session in order, has the same log unless a projector fails, and only what is in the log is
  published.  All of this holds when every session is in the file of the process; the last section shows what happens otherwise.
\<close>

section \<open>The log\<close>

definition emptyDatabase :: "'p \<Rightarrow> 'p database" where
  "emptyDatabase p = \<lparr> db_sequence = Map.empty, db_events = [], db_projection = p \<rparr>"

definition rowsOf :: "string \<Rightarrow> 'p database \<Rightarrow> event_row list" where
  "rowsOf agg db = filter (\<lambda>row. er_aggregateID row = agg) (db_events db)"

text \<open>The events of a session are numbered 0, 1, 2, \<open>\<dots>\<close>, and the table of the sequences has the last number.\<close>

definition logSound :: "'p database \<Rightarrow> bool" where
  "logSound db \<longleftrightarrow> distinct (map er_id (db_events db)) \<and>
     (\<forall>agg. map er_seq (rowsOf agg db) = map int [0..<length (rowsOf agg db)] \<and>
        db_sequence db agg = (if rowsOf agg db = [] then None else Some (int (length (rowsOf agg db)) - 1)))"

definition nextSeq :: "'p database \<Rightarrow> string \<Rightarrow> int" where
  "nextSeq db agg = (case db_sequence db agg of Some n \<Rightarrow> n + 1 | None \<Rightarrow> 0)"

lemma sound_next: "logSound db \<Longrightarrow> nextSeq db agg = int (length (rowsOf agg db))"
  by (simp add: logSound_def nextSeq_def)

definition rowEvent :: "event_row \<Rightarrow> sync_event" where
  "rowEvent row = \<lparr> se_id = er_id row, se_seq = er_seq row, se_aggregateID = er_aggregateID row, se_data = er_data row \<rparr>"

definition serializedRow :: "event_row \<Rightarrow> serialized_event" where
  "serializedRow row = \<lparr> se_id = er_id row, se_seq = er_seq row, se_aggregateID = er_aggregateID row, se_data = er_data row,
     sr_type = er_type row \<rparr>"

lemma rowEvent_simps [simp]: "se_id (rowEvent row) = er_id row" "se_seq (rowEvent row) = er_seq row"
    "se_aggregateID (rowEvent row) = er_aggregateID row" "se_data (rowEvent row) = er_data row"
  by (simp_all add: rowEvent_def)

lemma storedRow_simps [simp]: "er_id (storedRow st type event) = se_id event" "er_seq (storedRow st type event) = se_seq event"
    "er_aggregateID (storedRow st type event) = se_aggregateID event" "er_type (storedRow st type event) = type"
    "er_data (storedRow st type event) = jsonColumn (st_dateText st) (se_data event)"
    "rowEvent (storedRow st type event) = event\<lparr>se_data := jsonColumn (st_dateText st) (se_data event)\<rparr>"
  by (simp_all add: storedRow_def rowEvent_def)

text \<open>What an event of a type does to a database.\<close>

definition recordTyped :: "(nat \<Rightarrow> string) \<Rightarrow> 'p storage \<Rightarrow> readings \<Rightarrow> 'p sync \<Rightarrow> string \<Rightarrow> sync_event \<Rightarrow> 'p database \<Rightarrow> sync_error + 'p database" where
  "recordTyped digits st now s type event db =
     (case sy_registry s type of
        None \<Rightarrow> Inl (UnknownEventType type)
      | Some def \<Rightarrow> (case sy_projectors s of
            None \<Rightarrow> Inl NoProjectors
          | Some projectors \<Rightarrow> (case projectors def of
                None \<Rightarrow> Inl (ProjectorNotFound (ed_type def))
              | Some projector \<Rightarrow> recordEvent st now projector (versionedType digits (ed_type def) (ed_version def)) event db)))"

definition consistent :: "(nat \<Rightarrow> string) \<Rightarrow> 'p sync \<Rightarrow> bool" where
  "consistent digits s \<longleftrightarrow> (\<forall>k def. sy_registry s k = Some def \<longrightarrow> versionedType digits (ed_type def) (ed_version def) = k)"

lemma recorded:
  assumes "consistent digits s" "recordTyped digits st now s type event db = Inr db'"
  shows "db_events db' = db_events db @ [storedRow st type event]" "db_sequence db' = (db_sequence db)(se_aggregateID event \<mapsto> se_seq event)"
    "se_id event \<notin> er_id ` set (db_events db)"
  using assms by (auto simp: recordTyped_def recordEvent_def consistent_def split: option.splits sum.splits if_splits)

lemma rowsOf_snoc: "db_events db' = db_events db @ [row] \<Longrightarrow>
    rowsOf agg db' = rowsOf agg db @ (if er_aggregateID row = agg then [row] else [])"
  by (simp add: rowsOf_def)

lemma appended_sound:
  assumes "logSound db" "er_seq row = nextSeq db (er_aggregateID row)" "er_id row \<notin> er_id ` set (db_events db)"
    and ev: "db_events db' = db_events db @ [row]" and sq: "db_sequence db' = (db_sequence db)(er_aggregateID row \<mapsto> er_seq row)"
  shows "logSound db'"
proof -
  have "map er_seq (rowsOf agg db') = map int [0..<length (rowsOf agg db')] \<and>
      db_sequence db' agg = (if rowsOf agg db' = [] then None else Some (int (length (rowsOf agg db')) - 1))" for agg
    using assms(1,2) sq sound_next [OF assms(1), of agg] by (auto simp: rowsOf_snoc [OF ev] logSound_def)
  moreover have "distinct (map er_id (db_events db'))" using assms(1,3) ev by (simp add: logSound_def)
  ultimately show ?thesis by (simp add: logSound_def)
qed

lemma recorded_sound:
  assumes "consistent digits s" "logSound db" "recordTyped digits st now s type event db = Inr db'" "se_seq event = nextSeq db (se_aggregateID event)"
  shows "logSound db'"
  by (rule appended_sound [OF assms(2) _ _ recorded(1) [OF assms(1,3)]]) (use assms(4) recorded(2,3) [OF assms(1,3)] in simp_all)

lemma removed_sound: "logSound db \<Longrightarrow> logSound (removeRows agg db)"
proof -
  assume sound: "logSound db"
  have "rowsOf a (removeRows agg db) = (if a = agg then [] else rowsOf a db)" for a
    by (auto simp: rowsOf_def removeRows_def intro: filter_cong)
  moreover have "distinct (map er_id (filter p (db_events db)))" for p
    using sound by (simp add: logSound_def distinct_map_filter)
  ultimately show ?thesis using sound by (simp add: logSound_def removeRows_def)
qed

section \<open>The system after its start\<close>

definition emptySync :: "'p \<Rightarrow> 'p sync" where
  "emptySync p = \<lparr> sy_registry = Map.empty, sy_projectors = None, sy_versions = Map.empty, sy_frozen = False,
     sy_convertEvent = (\<lambda>p type data. data), sy_files = (\<lambda>path. emptyDatabase p), sy_published = [] \<rparr>"

definition startSync :: "(nat \<Rightarrow> string) \<Rightarrow> event_definition list \<Rightarrow> (event_definition \<times> 'p projector) list \<Rightarrow>
    ('p \<Rightarrow> string \<Rightarrow> js \<Rightarrow> js) option \<Rightarrow> 'p \<Rightarrow> 'p sync" where
  "startSync digits defs projectors convertEvent p =
     init_sync projectors convertEvent (fold (\<lambda>def s. snd (define_event digits def s)) defs (emptySync p))"

definition eventKey :: "(nat \<Rightarrow> string) \<Rightarrow> event_definition \<Rightarrow> string" where
  "eventKey digits def = versionedType digits (ed_type def) (ed_version def)"

lemma defined_registry:
  "\<not> sy_frozen s \<Longrightarrow> sy_registry (fold (\<lambda>def s. snd (define_event digits def s)) defs s) =
     sy_registry s ++ map_of (rev (map (\<lambda>def. (eventKey digits def, def)) defs))"
proof (induction defs arbitrary: s)
  case (Cons def defs)
  have "\<not> sy_frozen (snd (define_event digits def s))"
    and reg: "sy_registry (snd (define_event digits def s)) = (sy_registry s)(eventKey digits def \<mapsto> def)"
    using Cons.prems by (simp_all add: define_event_def eventKey_def)
  with Cons.IH [of "snd (define_event digits def s)"] show ?case by (simp add: fun_eq_iff map_add_def split: option.splits)
qed simp

lemma start_registry:
  "sy_registry (startSync digits defs projectors convertEvent p) = map_of (rev (map (\<lambda>def. (eventKey digits def, def)) defs))"
  by (simp add: startSync_def init_sync_def defined_registry emptySync_def)

lemma start_projectors: "sy_projectors (startSync digits defs projectors convertEvent p) = Some (map_of (rev projectors))"
  by (simp add: startSync_def init_sync_def)

lemma start_consistent: "consistent digits (startSync digits defs projectors convertEvent p)"
  by (auto simp: consistent_def start_registry eventKey_def dest!: map_of_SomeD)

lemma start_registered:
  assumes "inj_on (eventKey digits) (set defs)" "def \<in> set defs"
  shows "sy_registry (startSync digits defs projectors convertEvent p) (eventKey digits def) = Some def"
proof -
  let ?entries = "rev (map (\<lambda>def. (eventKey digits def, def)) defs)"
  obtain d where d: "map_of ?entries (eventKey digits def) = Some d"
    using assms(2) by (metis (no_types, lifting) domIff dom_map_of_conv_image_fst image_eqI list.set_map not_None_eq set_rev fst_conv)
  then have "(eventKey digits def, d) \<in> set ?entries" by (rule map_of_SomeD)
  then have "d \<in> set defs" "eventKey digits d = eventKey digits def" by auto
  with assms d show ?thesis by (auto simp: start_registry dest: inj_onD)
qed

lemma defined_files: "sy_files (fold (\<lambda>def s. snd (define_event digits def s)) defs s) = sy_files s \<and>
    sy_published (fold (\<lambda>def s. snd (define_event digits def s)) defs s) = sy_published s"
  by (induction defs arbitrary: s) (simp_all add: define_event_def)

lemma start_files [simp]: "sy_files (startSync digits defs projectors convertEvent p) = (\<lambda>path. emptyDatabase p)"
    "sy_published (startSync digits defs projectors convertEvent p) = []"
  by (simp_all add: startSync_def init_sync_def defined_files emptySync_def)

section \<open>One operation\<close>

definition sameSetup :: "'p sync \<Rightarrow> 'p sync \<Rightarrow> bool" where
  "sameSetup s t \<longleftrightarrow> sy_registry t = sy_registry s \<and> sy_projectors t = sy_projectors s \<and> sy_versions t = sy_versions s
     \<and> sy_convertEvent t = sy_convertEvent s"

lemma sameSetup_refl [simp]: "sameSetup s s"
  by (simp add: sameSetup_def)

lemma sameSetup_trans: "sameSetup s t \<Longrightarrow> sameSetup t u \<Longrightarrow> sameSetup s u"
  by (simp add: sameSetup_def)

lemma same_recordTyped: "sameSetup s t \<Longrightarrow> recordTyped digits st now t = recordTyped digits st now s"
  by (intro ext) (simp add: sameSetup_def recordTyped_def cong: option.case_cong)

lemma published_setup:
  "publishEvent digits path def event opts s = (r, s') \<Longrightarrow> sameSetup s s' \<and> sy_files s' = sy_files s \<and>
     (sy_published s' = sy_published s \<or> (\<exists>e. pe_event e = event \<and> sy_published s' = sy_published s @ [e]))"
  by (auto simp: publishEvent_def sameSetup_def split: if_splits option.splits)

lemma process_records:
  assumes "process_event digits st now tr def event opts s = (r, s')" "sy_registry s (eventKey digits def) = Some def"
    and written: "file = transactionFile tr (eventPath st (sy_files s) (po_path opts) (se_aggregateID event))"
  obtains (refused) e where "r = Inl e" "s' = s"
    | (recorded) db where "sameSetup s s'" "sy_files s' = (sy_files s)(file := db)"
      "recordTyped digits st now s (eventKey digits def) event (sy_files s file) = Inr db"
      "sy_published s' = sy_published s \<or> (\<exists>e. pe_event e = event \<and> sy_published s' = sy_published s @ [e])"
proof (cases "recordTyped digits st now s (eventKey digits def) event (sy_files s file)")
  case (Inl e)
  then have "\<exists>e. process_event digits st now tr def event opts s = (Inl e, s)"
    using assms(2) by (auto simp: recordTyped_def process_event_def written eventKey_def Let_def split: option.splits)
  with assms(1) that(1) show thesis by auto
next
  case (Inr db)
  then have "process_event digits st now tr def event opts s =
      publishEvent digits (eventPath st (sy_files s) (po_path opts) (se_aggregateID event)) def event opts (s\<lparr>sy_files := (sy_files s)(file := db)\<rparr>)"
    using assms(2) by (auto simp: recordTyped_def process_event_def written eventKey_def Let_def split: option.splits)
  with assms(1) have "publishEvent digits (eventPath st (sy_files s) (po_path opts) (se_aggregateID event)) def event opts
      (s\<lparr>sy_files := (sy_files s)(file := db)\<rparr>) = (r, s')" by simp
  from published_setup [OF this] Inr that(2) show thesis by (auto simp: sameSetup_def)
qed

section \<open>Runs\<close>

datatype sync_op =
    RunEvent readings string event_definition js "bool option" "string option"
  | ReplayEvent readings serialized_event bool "string option"
  | ReplayEvents "nat \<Rightarrow> readings" "serialized_event list" bool
  | RemoveEvents string "string option"

definition syncStep :: "(nat \<Rightarrow> string) \<Rightarrow> 'p storage \<Rightarrow> string \<Rightarrow> project_instance \<Rightarrow> sync_op \<Rightarrow> 'p sync \<Rightarrow> 'p sync" where
  "syncStep digits st current i op s = (case op of
       RunEvent now newId def data publish path \<Rightarrow> snd (run_event digits st now current i newId def data publish path s)
     | ReplayEvent now event publish path \<Rightarrow> snd (replay_event digits st now current i event publish path s)
     | ReplayEvents nows events publish \<Rightarrow> snd (replayAll digits st nows current i events publish s)
     | RemoveEvents agg path \<Rightarrow> remove_event st agg path s)"

definition syncRun :: "(nat \<Rightarrow> string) \<Rightarrow> 'p storage \<Rightarrow> string \<Rightarrow> project_instance \<Rightarrow> sync_op list \<Rightarrow> 'p sync \<Rightarrow> 'p sync" where
  "syncRun digits st current i = fold (syncStep digits st current i)"

text \<open>All sessions are in the file of the process, and the definitions of the events that run are the ones that were defined.\<close>

definition singleFile :: "'p storage \<Rightarrow> string \<Rightarrow> bool" where
  "singleFile st current \<longleftrightarrow> st_Path st = current \<and> (\<forall>path\<in>set (st_listPaths st). path = current)"

definition hereOrNone :: "string \<Rightarrow> string option \<Rightarrow> bool" where
  "hereOrNone current path \<longleftrightarrow> path = None \<or> path = Some current"

fun opAllowed :: "event_definition list \<Rightarrow> string \<Rightarrow> sync_op \<Rightarrow> bool" where
  "opAllowed defs current (RunEvent now newId def data publish path) = (def \<in> set defs)"
| "opAllowed defs current (ReplayEvent now event publish path) = hereOrNone current path"
| "opAllowed defs current (ReplayEvents nows events publish) = True"
| "opAllowed defs current (RemoveEvents agg path) = True"

lemma path_here: "singleFile st current \<Longrightarrow> hereOrNone current path \<Longrightarrow> eventPath st files path agg = current"
  by (auto simp: singleFile_def hereOrNone_def eventPath_def resolveSessionPath_def find_Some_iff split: option.splits dest: nth_mem)

lemma run_current:
  assumes "run_event digits st now current i newId def data publish path s = (r, s')" "sy_registry s (eventKey digits def) = Some def"
  obtains (refused) e where "r = Inl e" "s' = s"
    | (recorded) db event where "sameSetup s s'" "sy_files s' = (sy_files s)(current := db)"
      "event = \<lparr> se_id = newId, se_seq = nextSeq (sy_files s current) (strOf (getProp data (ed_aggregate def))),
         se_aggregateID = strOf (getProp data (ed_aggregate def)), se_data = data \<rparr>"
      "recordTyped digits st now s (eventKey digits def) event (sy_files s current) = Inr db"
      "sy_published s' = sy_published s \<or> (\<exists>e. pe_event e = event \<and> sy_published s' = sy_published s @ [e])"
proof -
  show thesis
  proof (cases "\<exists>e. r = Inl e \<and> s' = s")
    case True
    with that(1) show thesis by blast
  next
    case False
    with assms(1) have "process_event digits st now (Some current) def \<lparr> se_id = newId,
        se_seq = nextSeq (sy_files s current) (strOf (getProp data (ed_aggregate def))),
        se_aggregateID = strOf (getProp data (ed_aggregate def)), se_data = data \<rparr>
        \<lparr> po_publish = (case publish of Some b \<Rightarrow> b | None \<Rightarrow> True),
          po_instance = (if (case publish of Some b \<Rightarrow> b | None \<Rightarrow> True) then Some i else None), po_path = path \<rparr> s = (r, s')"
      by (auto simp: run_event_def Let_def nextSeq_def split: if_splits)
    from this assms(2) refl show thesis
    proof (cases rule: process_records)
      case (recorded db)
      then show thesis by (intro that(2) [OF recorded(1) _ refl, of db]) (simp_all add: transactionFile_def)
    qed (use False in blast)
  qed
qed

text \<open>A property of the database and of what is published that recording the next event of a session keeps.\<close>

definition publishes :: "sync_event \<Rightarrow> published_event list \<Rightarrow> published_event list \<Rightarrow> bool" where
  "publishes event before after \<longleftrightarrow> after = before \<or> (\<exists>e. pe_event e = event \<and> after = before @ [e])"

locale recorded_invariant =
  fixes digits :: "nat \<Rightarrow> string" and st :: "'p storage" and base :: "'p sync" and holds :: "'p database \<Rightarrow> published_event list \<Rightarrow> bool"
  assumes recorded_holds: "holds db ps \<Longrightarrow> recordTyped digits st now base type event db = Inr db' \<Longrightarrow>
    se_seq event = nextSeq db (se_aggregateID event) \<Longrightarrow> publishes event ps ps' \<Longrightarrow> holds db' ps'"
begin

definition inv :: "string \<Rightarrow> 'p sync \<Rightarrow> bool" where
  "inv current s \<longleftrightarrow> sameSetup base s \<and> holds (sy_files s current) (sy_published s)"

lemma record_inv:
  assumes "inv current s" "sameSetup s s'" "sy_files s' = (sy_files s)(current := db)"
    "recordTyped digits st now s type event (sy_files s current) = Inr db"
    "se_seq event = nextSeq (sy_files s current) (se_aggregateID event)" "publishes event (sy_published s) (sy_published s')"
  shows "inv current s'"
proof -
  from assms(1,4) have "recordTyped digits st now base type event (sy_files s current) = Inr db"
    by (simp add: inv_def same_recordTyped [of base s])
  with assms(1,5,6) have "holds db (sy_published s')" unfolding inv_def using recorded_holds by blast
  with assms(1-3) show ?thesis by (auto simp: inv_def intro: sameSetup_trans)
qed

lemma event_inv:
  assumes "inv current s" "run_event digits st now current i newId def data publish path s = (r, s')"
    "sy_registry base (eventKey digits def) = Some def"
  shows "inv current s'"
proof -
  have "sy_registry s (eventKey digits def) = Some def" using assms(1,3) by (simp add: inv_def sameSetup_def)
  with assms(2) show ?thesis
  proof (cases rule: run_current)
    case (recorded db event)
    then show ?thesis by (intro record_inv [OF assms(1) recorded(1,2,4)]) (simp_all add: publishes_def)
  qed (simp add: assms(1))
qed

end

lemma truncate_simps [simp]: "se_id (sync_event.truncate e) = se_id e" "se_seq (sync_event.truncate e) = se_seq e"
    "se_aggregateID (sync_event.truncate e) = se_aggregateID e" "se_data (sync_event.truncate e) = se_data e"
  by (simp_all add: sync_event.truncate_def)

lemma replay_current:
  assumes "replay_event digits st now current i e publish path s = (r, s')" "consistent digits s" "singleFile st current" "hereOrNone current path"
  obtains (same) "s' = s"
    | (recorded) db where "sameSetup s s'" "sy_files s' = (sy_files s)(current := db)"
      "se_seq e = nextSeq (sy_files s current) (se_aggregateID e)"
      "recordTyped digits st now s (sr_type e) (sync_event.truncate e) (sy_files s current) = Inr db"
      "sy_published s' = sy_published s \<or> (\<exists>p. pe_event p = sync_event.truncate e \<and> sy_published s' = sy_published s @ [p])"
proof (cases "s' = s")
  case False
  with assms(1) obtain def where def: "sy_registry s (sr_type e) = Some def"
    by (auto simp: replay_event_def split: option.splits)
  with assms(2) have key: "eventKey digits def = sr_type e" by (simp add: consistent_def eventKey_def)
  from False assms(1) def have seq: "se_seq e = nextSeq (sy_files s current) (se_aggregateID e)"
    and "process_event digits st now None def (sync_event.truncate e)
       \<lparr> po_publish = publish, po_instance = (if publish then Some i else None), po_path = path \<rparr> s = (r, s')"
    by (auto simp: replay_event_def nextSeq_def Let_def split: if_splits option.splits)
  from this(2) def [folded key] refl show thesis
  proof (cases rule: process_records)
    case (recorded db)
    then show thesis using seq key path_here [OF assms(3,4)]
      by (intro that(2) [of db]) (simp_all add: transactionFile_def)
  qed (use False in simp)
qed (rule that(1))

context recorded_invariant
begin

lemma replay_inv:
  assumes "inv current s" "replay_event digits st now current i e publish path s = (r, s')" "consistent digits base"
    "singleFile st current" "hereOrNone current path"
  shows "inv current s'"
proof -
  have "consistent digits s" using assms(1,3) by (simp add: inv_def consistent_def sameSetup_def)
  with assms(2) show ?thesis using assms(4,5)
  proof (cases rule: replay_current)
    case (recorded db)
    then show ?thesis by (intro record_inv [OF assms(1) recorded(1,2,4)]) (simp_all add: publishes_def)
  qed (simp add: assms(1))
qed

lemma replayEach_inv:
  assumes "inv current s" "consistent digits base" "singleFile st current" "hereOrNone current path"
  shows "inv current (snd (replayEach digits st nows current i events publish path s))"
  using assms(1)
proof (induction events arbitrary: s nows)
  case (Cons e events)
  obtain r s' where step: "replay_event digits st (nows 0) current i e publish path s = (r, s')" by (meson surj_pair)
  with replay_inv [OF Cons.prems _ assms(2-4)] have "inv current s'" by blast
  with Cons.IH step show ?case by (cases r) simp_all
qed simp

lemma op_inv:
  assumes "inv current s" "consistent digits base" "singleFile st current" "opAllowed defs current op"
    "\<And>def. def \<in> set defs \<Longrightarrow> sy_registry base (eventKey digits def) = Some def"
    and removed: "\<And>agg path. op = RemoveEvents agg path \<Longrightarrow> holds (removeRows agg (sy_files s current)) (sy_published s)"
  shows "inv current (syncStep digits st current i op s)"
proof (cases op)
  case (RunEvent now newId def data publish path)
  then show ?thesis using event_inv [OF assms(1) surjective_pairing] assms(4,5) by (simp add: syncStep_def)
next
  case (ReplayEvent now e publish path)
  then show ?thesis using replay_inv [OF assms(1) surjective_pairing assms(2,3)] assms(4) by (simp add: syncStep_def)
next
  case (ReplayEvents nows events publish)
  have "inv current (snd (replayEach digits st nows current i events publish None s))"
    by (rule replayEach_inv [OF assms(1-3)]) (simp add: hereOrNone_def)
  with assms(1) show ?thesis unfolding ReplayEvents syncStep_def
    by (auto simp: replayAll_def split: list.splits option.splits prod.splits sum.splits)
next
  case (RemoveEvents agg path)
  then show ?thesis using assms(1) removed by (auto simp: syncStep_def remove_event_def inv_def sameSetup_def Let_def)
qed

lemma ops_inv:
  assumes "inv current s" "consistent digits base" "singleFile st current" "list_all (opAllowed defs current) ops"
    "\<And>def. def \<in> set defs \<Longrightarrow> sy_registry base (eventKey digits def) = Some def"
    "\<And>agg path db ps. RemoveEvents agg path \<in> set ops \<Longrightarrow> holds db ps \<Longrightarrow> holds (removeRows agg db) ps"
  shows "inv current (syncRun digits st current i ops s)"
  using assms(1,4,6)
proof (induction ops arbitrary: s)
  case (Cons op ops)
  have "inv current (syncStep digits st current i op s)"
  proof (rule op_inv [OF Cons.prems(1) assms(2,3) _ assms(5)])
    show "opAllowed defs current op" using Cons.prems(2) by simp
    show "holds (removeRows agg (sy_files s current)) (sy_published s)" if "op = RemoveEvents agg path" for agg path
      using Cons.prems(1,3) that by (auto simp: inv_def)
  qed
  moreover have "holds (removeRows agg db) ps" if "RemoveEvents agg path \<in> set ops" "holds db ps" for agg path db ps
    using Cons.prems(3) [of agg path] that by simp
  ultimately show ?case using Cons.IH Cons.prems(2) by (simp add: syncRun_def)
qed (simp add: syncRun_def)

end

section \<open>The log has no gap\<close>

interpretation log: recorded_invariant digits st "startSync digits defs projectors convertEvent p" "\<lambda>db ps. logSound db"
  for digits st defs projectors convertEvent p
  by unfold_locales (rule recorded_sound [OF start_consistent])

lemma empty_sound: "logSound (emptyDatabase p)"
  by (simp add: logSound_def emptyDatabase_def rowsOf_def)

text \<open>C13: Whatever events run, are replayed or removed, in whatever order: the events of every session are numbered from 0 without a gap, the
  identifiers are different, and the table of the sequences has the last number.\<close>
theorem sync_log_sound:
  assumes "singleFile st current" "inj_on (eventKey digits) (set defs)" "list_all (opAllowed defs current) ops"
  shows "logSound (sy_files (syncRun digits st current i ops (startSync digits defs projectors convertEvent p)) current)"
proof -
  let ?start = "startSync digits defs projectors convertEvent p"
  have "log.inv digits defs projectors convertEvent p current (syncRun digits st current i ops ?start)"
    by (rule log.ops_inv [OF _ start_consistent assms(1,3) start_registered [OF assms(2)]])
      (simp_all add: log.inv_def empty_sound removed_sound)
  then show ?thesis by (simp add: log.inv_def)
qed

section \<open>What is published\<close>

text \<open>A row of what is published has the data as the JSON column has them.\<close>

definition loggedAs :: "'p storage \<Rightarrow> sync_event \<Rightarrow> event_row \<Rightarrow> bool" where
  "loggedAs st event row \<longleftrightarrow> rowEvent row = event\<lparr>se_data := jsonColumn (st_dateText st) (se_data event)\<rparr>"

interpretation published: recorded_invariant digits st "startSync digits defs projectors convertEvent p"
    "\<lambda>db ps. \<forall>e\<in>set ps. \<exists>row\<in>set (db_events db). loggedAs st (pe_event e) row" for digits st defs projectors convertEvent p
proof unfold_locales
  fix db ps now type event db' ps'
  assume "\<forall>e\<in>set ps. \<exists>row\<in>set (db_events db). loggedAs st (pe_event e) row"
    "recordTyped digits st now (startSync digits defs projectors convertEvent p) type event db = Inr db'" "publishes event ps ps'"
  with recorded(1) [OF start_consistent this(2)] show "\<forall>e\<in>set ps'. \<exists>row\<in>set (db_events db'). loggedAs st (pe_event e) row"
    unfolding publishes_def by (elim disjE exE conjE) (auto simp: loggedAs_def)
qed

section \<open>Replicas\<close>

text \<open>Each event of a delivery that was not delivered before.\<close>

definition firstSeen :: "'a list \<Rightarrow> 'a list" where
  "firstSeen xs = rev (remdups (rev xs))"

lemma firstSeen_snoc: "firstSeen (xs @ [x]) = (if x \<in> set xs then firstSeen xs else firstSeen xs @ [x])"
  by (simp add: firstSeen_def)

lemma set_firstSeen [simp]: "set (firstSeen xs) = set xs"
  by (simp add: firstSeen_def)

lemma firstSeen_prefix: "\<exists>zs. firstSeen (xs @ ys) = firstSeen xs @ zs"
proof (induction ys rule: rev_induct)
  case (snoc y ys)
  then show ?case using firstSeen_snoc [of "xs @ ys" y] by auto
qed simp

lemma replayEach_append:
  "replayEach digits st nows current i (xs @ ys) publish path s =
     (case replayEach digits st nows current i xs publish path s of
        (Inl e, s') \<Rightarrow> (Inl e, s') | (Inr u, s') \<Rightarrow> replayEach digits st (\<lambda>n. nows (n + length xs)) current i ys publish path s')"
  by (induction xs arbitrary: s nows) (simp_all split: prod.splits sum.splits)

lemma serialized_simps [simp]: "se_id (serializedRow row) = er_id row" "se_seq (serializedRow row) = er_seq row"
    "se_aggregateID (serializedRow row) = er_aggregateID row" "sr_type (serializedRow row) = er_type row"
    "sync_event.truncate (serializedRow row) = rowEvent row"
  by (simp_all add: serializedRow_def rowEvent_def sync_event.truncate_def)

lemma old_ignored:
  assumes "logSound (sy_files t current)" "row \<in> set (db_events (sy_files t current))" "sy_registry t (er_type row) \<noteq> None"
  shows "replay_event digits st now current i (serializedRow row) publish path t = (Inr (), t)"
proof -
  let ?rows = "rowsOf (er_aggregateID row) (sy_files t current)"
  have row: "row \<in> set ?rows" using assms(2) by (simp add: rowsOf_def)
  then have "er_seq row \<in> int ` {0..<length ?rows}"
    using assms(1) unfolding logSound_def by (metis atLeast_upt image_eqI list.set_map set_upt)
  moreover have "db_sequence (sy_files t current) (er_aggregateID row) = Some (int (length ?rows) - 1)"
    using assms(1) row unfolding logSound_def by (metis empty_iff empty_set)
  ultimately show ?thesis using assms(3) by (auto simp: replay_event_def)
qed

text \<open>What parsing a JSON text gives is not a date, so that converting it again changes nothing.\<close>

definition parsedIsPlain :: "'p storage \<Rightarrow> bool" where
  "parsedIsPlain st \<longleftrightarrow> (\<forall>v. st_dateText st (jsonColumn (st_dateText st) v) = None)"

lemma jsonColumn_undef [simp]: "jsonColumn d v = JUndef \<longleftrightarrow> v = JUndef"
  by (cases v) (simp_all split: jnum.splits option.splits)

lemma jsonColumn_twice:
  assumes "\<And>v. d (jsonColumn d v) = None"
  shows "jsonColumn d (jsonColumn d v) = jsonColumn d v"
  using assms
proof (induction d v rule: jsonColumn.induct)
  case (1 d n) then show ?case by (cases n) simp_all
next
  case (2 d vs) then show ?case by (auto simp: map_idI)
next
  case (3 d fs)
  show ?case
  proof (cases "d (JObj fs)")
    case None
    let ?parsed = "map (\<lambda>kv. (fst kv, jsonColumn d (snd kv))) (filter (\<lambda>kv. snd kv \<noteq> JUndef) fs)"
    have "d (JObj ?parsed) = None" using None "3.prems" [of "JObj fs"] by simp
    moreover have "filter (\<lambda>kv. snd kv \<noteq> JUndef) ?parsed = ?parsed" by (auto simp: filter_id_conv)
    moreover have "map (\<lambda>kv. (fst kv, jsonColumn d (snd kv))) ?parsed = ?parsed"
      by (rule map_idI) (use "3.IH" [OF None] "3.prems" in auto)
    ultimately show ?thesis using None by (simp del: map_map filter_map)
  qed simp
qed simp_all

text \<open>The rows that a log holds: data that were read back, and a type that has a projector.\<close>

definition readableRow :: "'p storage \<Rightarrow> 'p sync \<Rightarrow> event_row \<Rightarrow> bool" where
  "readableRow st s row \<longleftrightarrow> er_data row \<in> jsonColumn (st_dateText st) ` (- {JUndef}) \<and>
     (\<exists>def projectors projector. sy_registry s (er_type row) = Some def \<and> sy_projectors s = Some projectors \<and> projectors def = Some projector)"

interpretation readable: recorded_invariant digits st "startSync digits defs projectors convertEvent p"
    "\<lambda>db ps. list_all (readableRow st (startSync digits defs projectors convertEvent p)) (db_events db)"
    for digits st defs projectors convertEvent p
proof unfold_locales
  fix db ps now type event db' ps'
  let ?start = "startSync digits defs projectors convertEvent p"
  assume "list_all (readableRow st ?start) (db_events db)" and row: "recordTyped digits st now ?start type event db = Inr db'"
  moreover have "readableRow st ?start (storedRow st type event)"
    using row by (auto simp: readableRow_def recordTyped_def recordEvent_def split: option.splits sum.splits if_splits)
  ultimately show "list_all (readableRow st ?start) (db_events db')" using recorded(1) [OF start_consistent row] by simp
qed

lemma replica_step:
  assumes "singleFile st current" "consistent digits t" "readableRow st t row" "er_data row \<noteq> JNull" "parsedIsPlain st"
    "er_seq row = nextSeq (sy_files t current) (er_aggregateID row)" "0 \<le> er_seq row" "er_id row \<notin> er_id ` set (db_events (sy_files t current))"
  obtains (follows) t' where "replay_event digits st now current i (serializedRow row) publish None t = (Inr (), t')" "sameSetup t t'"
      "db_events (sy_files t' current) = db_events (sy_files t current) @ [row]"
      "db_sequence (sy_files t' current) = (db_sequence (sy_files t current))(er_aggregateID row \<mapsto> er_seq row)"
    | (stops) message where "replay_event digits st now current i (serializedRow row) publish None t = (Inl (ProjectorFailed message), t)"
proof -
  obtain def projectors projector where def: "sy_registry t (er_type row) = Some def" "sy_projectors t = Some projectors"
    "projectors def = Some projector" using assms(3) unfolding readableRow_def by blast
  obtain v where v: "er_data row = jsonColumn (st_dateText st) v" "v \<noteq> JUndef" using assms(3) by (auto simp: readableRow_def)
  then have "er_data row \<noteq> JUndef" by simp
  from v have stored: "storedRow st (er_type row) (rowEvent row) = row"
    using jsonColumn_twice [of "st_dateText st" v] assms(5) by (simp add: parsedIsPlain_def storedRow_def rowEvent_def)
  from def(1) assms(2) have key: "versionedType digits (ed_type def) (ed_version def) = er_type row" by (simp add: consistent_def)
  let ?opts = "\<lparr> po_publish = publish, po_instance = (if publish then Some i else None), po_path = None \<rparr>"
  have new: "replay_event digits st now current i (serializedRow row) publish None t = process_event digits st now None def (rowEvent row) ?opts t"
    using def(1) assms(6,7) by (auto simp: replay_event_def nextSeq_def split: option.splits)
  have "eventPath st (sy_files t) None (er_aggregateID row) = current"
    by (rule path_here [OF assms(1)]) (simp add: hereOrNone_def)
  then have process: "process_event digits st now None def (rowEvent row) ?opts t =
      (case recordEvent st now projector (er_type row) (rowEvent row) (sy_files t current) of
         Inl e \<Rightarrow> (Inl e, t)
       | Inr db \<Rightarrow> publishEvent digits current def (rowEvent row) ?opts (t\<lparr>sy_files := (sy_files t)(current := db)\<rparr>))"
    using def key by (simp add: process_event_def transactionFile_def Let_def)
  show thesis
  proof (cases "projector now (db_projection (sy_files t current)) (er_data row) (rowEvent row)")
    case (Inl message)
    then have "recordEvent st now projector (er_type row) (rowEvent row) (sy_files t current) = Inl (ProjectorFailed message)"
      by (simp add: recordEvent_def)
    with stops new process show thesis by simp
  next
    case (Inr q)
    define db where "db = \<lparr> db_sequence = (db_sequence (sy_files t current))(er_aggregateID row \<mapsto> er_seq row),
      db_events = db_events (sy_files t current) @ [row], db_projection = q \<rparr>"
    have "recordEvent st now projector (er_type row) (rowEvent row) (sy_files t current) = Inr db"
      using Inr assms(4,8) \<open>er_data row \<noteq> JUndef\<close> stored by (simp add: recordEvent_def db_def)
    moreover obtain t' where pub: "publishEvent digits current def (rowEvent row) ?opts (t\<lparr>sy_files := (sy_files t)(current := db)\<rparr>) = (Inr (), t')"
      by (cases publish) (simp_all add: publishEvent_def)
    moreover from published_setup [OF pub] have "sameSetup t t'" "sy_files t' current = db"
      by (simp_all add: sameSetup_def)
    ultimately show thesis using follows new process by (simp add: db_def)
  qed
qed

text \<open>A replica has, of every session, what was delivered so far, or a part of the log that a projector ended.\<close>

definition hasDelivered :: "'p database \<Rightarrow> event_row list \<Rightarrow> bool" where
  "hasDelivered db ds \<longleftrightarrow> logSound db \<and> (\<forall>agg. rowsOf agg db = firstSeen (filter (\<lambda>row. er_aggregateID row = agg) ds))"

definition behind :: "'p database \<Rightarrow> 'q database \<Rightarrow> bool" where
  "behind db origin \<longleftrightarrow> (\<forall>agg. \<exists>zs. rowsOf agg origin = rowsOf agg db @ zs)"

lemma delivered_events: "hasDelivered db ds \<Longrightarrow> set (db_events db) = set ds"
proof -
  assume "hasDelivered db ds"
  then have "set (rowsOf agg db) = {row \<in> set ds. er_aggregateID row = agg}" for agg by (auto simp: hasDelivered_def)
  then show ?thesis unfolding rowsOf_def by auto
qed

lemma next_row:
  assumes "logSound origin" "rowsOf (er_aggregateID row) origin = xs @ row # zs"
  shows "er_seq row = int (length xs)"
proof -
  have "map er_seq (xs @ row # zs) = map int [0..<length (xs @ row # zs)]" using assms unfolding logSound_def by metis
  then have "map er_seq (xs @ row # zs) ! length xs = map int [0..<length (xs @ row # zs)] ! length xs" by (rule arg_cong)
  moreover have "map int [0..<length (xs @ row # zs)] ! length xs = int (length xs)" by (subst nth_map) (simp_all del: upt_Suc)
  ultimately show ?thesis by (simp add: nth_append del: upt_Suc)
qed

lemma replica_follows:
  assumes "singleFile st current" "consistent digits t0" "hasDelivered (sy_files t0 current) []" "parsedIsPlain st" "logSound origin"
    and rows: "\<And>row. row \<in> set (db_events origin) \<Longrightarrow> readableRow st t0 row \<and> er_data row \<noteq> JNull"
  shows "(\<And>agg. \<exists>zs. rowsOf agg origin = firstSeen (filter (\<lambda>row. er_aggregateID row = agg) ds) @ zs) \<Longrightarrow>
    \<exists>r t. replayEach digits st nows current i (map serializedRow ds) publish None t0 = (r, t) \<and> sameSetup t0 t \<and>
      (r = Inr () \<and> hasDelivered (sy_files t current) ds \<or> (\<exists>message. r = Inl (ProjectorFailed message)) \<and> behind (sy_files t current) origin)"
proof (induction ds rule: rev_induct)
  case Nil
  show ?case using assms(3) by simp
next
  case (snoc row ds)
  let ?session = "\<lambda>agg. filter (\<lambda>row. er_aggregateID row = agg)"
  have upto: "\<exists>zs. rowsOf agg origin = firstSeen (?session agg ds) @ zs" for agg
    using snoc.prems [of agg] firstSeen_prefix [of "?session agg ds" "?session agg [row]"] by auto
  obtain r t where t: "replayEach digits st nows current i (map serializedRow ds) publish None t0 = (r, t)" "sameSetup t0 t"
    "r = Inr () \<and> hasDelivered (sy_files t current) ds \<or> (\<exists>message. r = Inl (ProjectorFailed message)) \<and> behind (sy_files t current) origin"
    using snoc.IH [OF upto] by blast
  show ?case
  proof (cases r)
    case (Inl e)
    with t show ?thesis by (simp add: replayEach_append)
  next
    case (Inr u)
    with t(3) have now: "hasDelivered (sy_files t current) ds" by simp
    then have sound: "logSound (sy_files t current)" by (simp add: hasDelivered_def)
    obtain zs where zs: "rowsOf (er_aggregateID row) origin = firstSeen (?session (er_aggregateID row) (ds @ [row])) @ zs"
      using snoc.prems by blast
    then have "row \<in> set (rowsOf (er_aggregateID row) origin)" by simp
    then have origin: "row \<in> set (db_events origin)" by (simp add: rowsOf_def)
    have ready: "readableRow st t row" using rows [OF origin] t(2) by (simp add: readableRow_def sameSetup_def)
    have step: "replayEach digits st nows current i (map serializedRow (ds @ [row])) publish None t0 =
        replayEach digits st (\<lambda>n. nows (n + length ds)) current i [serializedRow row] publish None t"
      using t(1) Inr by (simp add: replayEach_append)
    show ?thesis
    proof (cases "row \<in> set ds")
      case True
      then have "replay_event digits st (nows (length ds)) current i (serializedRow row) publish None t = (Inr (), t)"
        using old_ignored [OF sound] delivered_events [OF now] ready by (auto simp: readableRow_def)
      moreover have "hasDelivered (sy_files t current) (ds @ [row])" using now True by (simp add: hasDelivered_def firstSeen_snoc)
      ultimately show ?thesis using step t(2) by simp
    next
      case False
      have consistent: "consistent digits t" using assms(2) t(2) by (simp add: consistent_def sameSetup_def)
      have mine: "rowsOf (er_aggregateID row) (sy_files t current) = firstSeen (?session (er_aggregateID row) ds)"
        using now by (simp add: hasDelivered_def)
      have log: "rowsOf (er_aggregateID row) origin = rowsOf (er_aggregateID row) (sy_files t current) @ row # zs"
        using zs False mine by (simp add: firstSeen_snoc)
      have seq: "er_seq row = nextSeq (sy_files t current) (er_aggregateID row)"
        using next_row [OF assms(5) log] sound_next [OF sound] by simp
      have subset: "set (db_events (sy_files t current)) \<subseteq> set (db_events origin)"
      proof
        fix x assume "x \<in> set (db_events (sy_files t current))"
        then have "x \<in> set (firstSeen (?session (er_aggregateID x) ds))" using delivered_events [OF now] by simp
        then have "x \<in> set (rowsOf (er_aggregateID x) origin)" using upto [of "er_aggregateID x"] by auto
        then show "x \<in> set (db_events origin)" by (simp add: rowsOf_def)
      qed
      have fresh: "er_id row \<notin> er_id ` set (db_events (sy_files t current))"
      proof
        assume "er_id row \<in> er_id ` set (db_events (sy_files t current))"
        then obtain x where x: "x \<in> set (db_events (sy_files t current))" "er_id x = er_id row" by auto
        then have "x = row" using subset origin assms(5) by (auto simp: logSound_def distinct_map dest: inj_onD)
        with x(1) False delivered_events [OF now] show False by simp
      qed
      have "0 \<le> er_seq row" using next_row [OF assms(5) log] by simp
      have "er_data row \<noteq> JNull" using rows [OF origin] by simp
      then consider (follows) t' where "replay_event digits st (nows (length ds)) current i (serializedRow row) publish None t = (Inr (), t')"
          "sameSetup t t'" "db_events (sy_files t' current) = db_events (sy_files t current) @ [row]"
          "db_sequence (sy_files t' current) = (db_sequence (sy_files t current))(er_aggregateID row \<mapsto> er_seq row)"
        | (stops) message where "replay_event digits st (nows (length ds)) current i (serializedRow row) publish None t =
            (Inl (ProjectorFailed message), t)"
        using replica_step [OF assms(1) consistent ready _ assms(4) seq \<open>0 \<le> er_seq row\<close> fresh] by metis
      then show ?thesis
      proof cases
        case (follows t')
        have "logSound (sy_files t' current)" by (rule appended_sound [OF sound seq fresh follows(3,4)])
        moreover have "rowsOf agg (sy_files t' current) = firstSeen (?session agg (ds @ [row]))" for agg
          using now False by (simp add: rowsOf_snoc [OF follows(3)] hasDelivered_def firstSeen_snoc)
        ultimately show ?thesis using step t(2) follows(1,2) by (auto simp: hasDelivered_def intro: sameSetup_trans)
      next
        case (stops message)
        moreover have "behind (sy_files t current) origin" using upto now by (simp add: behind_def hasDelivered_def)
        ultimately show ?thesis using step t(2) by simp
      qed
    qed
  qed
qed

lemma sound_sequences:
  assumes "logSound db" "logSound db'" "\<And>agg. rowsOf agg db = rowsOf agg db'"
  shows "db_sequence db = db_sequence db'"
  using assms by (auto simp: logSound_def fun_eq_iff)

fun isRemove :: "sync_op \<Rightarrow> bool" where
  "isRemove (RemoveEvents agg path) = True"
| "isRemove op = False"

text \<open>C12: A replica has the same definitions and projectors, and its own clock and file. It is sent the events of the log of the
  first instance, as the JSON column has them, each at least once and those of a session for the first time in the order of the log. When every
  call returns, it has the same log for every session and the same table of sequences; the only thing that can stop it
  is a projector that fails, and then the log of every session is a beginning of the one of the first instance. (What the
  projectors write is not claimed to be the same: they stamp the time, and they get the data as JSON has them. The data of the log are not null.)\<close>
theorem sync_replica_converges:
  assumes "singleFile st current" "inj_on (eventKey digits) (set defs)" "list_all (opAllowed defs current) ops"
    and "origin = sy_files (syncRun digits st current i ops (startSync digits defs projectors convertEvent p)) current"
    and "list_all (\<lambda>row. er_data row \<noteq> JNull) (db_events origin)"
    and "singleFile other file" "st_dateText other = st_dateText st" "parsedIsPlain st"
    and "\<forall>agg. firstSeen (filter (\<lambda>row. er_aggregateID row = agg) delivery) = rowsOf agg origin"
    and "replayEach digits other nows file j (map serializedRow delivery) publish None (startSync digits defs projectors convertEvent' q) = (r, replica)"
  shows "r = Inr () \<and> (\<forall>agg. rowsOf agg (sy_files replica file) = rowsOf agg origin) \<and> db_sequence (sy_files replica file) = db_sequence origin
     \<or> (\<exists>message. r = Inl (ProjectorFailed message)) \<and> (\<forall>agg. \<exists>rest. rowsOf agg origin = rowsOf agg (sy_files replica file) @ rest)"
proof -
  let ?start = "startSync digits defs projectors convertEvent p" and ?start' = "startSync digits defs projectors convertEvent' q"
  have "log.inv digits defs projectors convertEvent p current (syncRun digits st current i ops ?start)"
    by (rule log.ops_inv [OF _ start_consistent assms(1,3) start_registered [OF assms(2)]])
      (simp_all add: log.inv_def empty_sound removed_sound)
  then have sound: "logSound origin" by (simp add: log.inv_def assms(4))
  have "readable.inv digits defs projectors convertEvent p st current (syncRun digits st current i ops ?start)"
    by (rule readable.ops_inv [OF _ start_consistent assms(1,3) start_registered [OF assms(2)]])
      (simp_all add: readable.inv_def emptyDatabase_def removeRows_def, simp add: list_all_iff)
  then have readable: "list_all (readableRow st ?start) (db_events origin)" by (simp add: readable.inv_def assms(4))
  have rows: "readableRow other ?start' row \<and> er_data row \<noteq> JNull" if "row \<in> set (db_events origin)" for row
    using that readable assms(5,7) by (auto simp: readableRow_def list_all_iff start_registry start_projectors)
  have start: "hasDelivered (sy_files ?start' file) []" by (simp add: hasDelivered_def empty_sound firstSeen_def) (simp add: rowsOf_def emptyDatabase_def)
  have "parsedIsPlain other" using assms(7,8) by (simp add: parsedIsPlain_def)
  from replica_follows [OF assms(6) start_consistent start this sound rows, where ds = delivery and nows = nows and i = j and publish = publish]
    assms(9,10) have result: "r = Inr () \<and> hasDelivered (sy_files replica file) delivery \<or>
      (\<exists>message. r = Inl (ProjectorFailed message)) \<and> behind (sy_files replica file) origin" by auto
  moreover have "db_sequence (sy_files replica file) = db_sequence origin" if "hasDelivered (sy_files replica file) delivery"
    by (rule sound_sequences) (use that sound assms(9) in \<open>simp_all add: hasDelivered_def\<close>)
  ultimately show ?thesis using assms(9) by (auto simp: hasDelivered_def behind_def)
qed

text \<open>Everything that is published is in the log, with its data as the JSON column has them.\<close>
theorem sync_published_logged:
  assumes "singleFile st current" "inj_on (eventKey digits) (set defs)" "list_all (\<lambda>op. opAllowed defs current op \<and> \<not> isRemove op) ops"
    and "s = syncRun digits st current i ops (startSync digits defs projectors convertEvent p)"
    and "e \<in> set (sy_published s)"
  shows "\<exists>row\<in>set (db_events (sy_files s current)). loggedAs st (pe_event e) row"
proof -
  have "published.inv digits defs projectors convertEvent p st current s"
    unfolding assms(4)
  proof (rule published.ops_inv [OF _ start_consistent assms(1) _ start_registered [OF assms(2)]])
    show "list_all (opAllowed defs current) ops" using assms(3) by (simp add: list_all_iff)
    show "\<forall>e\<in>set ps. \<exists>row\<in>set (db_events (removeRows agg db)). loggedAs st (pe_event e) row"
      if "RemoveEvents agg path \<in> set ops" for agg path and ps and db :: "'a database" using that assms(3) by (auto simp: list_all_iff)
  qed (simp_all add: published.inv_def)
  with assms(5) show ?thesis by (auto simp: published.inv_def)
qed

section \<open>An example\<close>

definition itemCreated :: event_definition where
  "itemCreated = \<lparr> ed_ref = 0, ed_type = ''item.created'', ed_version = 1, ed_aggregate = ''id'' \<rparr>"

definition itemData :: "string \<Rightarrow> js" where
  "itemData i = JObj [(''id'', JStr i)]"

definition countProjector :: "nat projector" where
  "countProjector now p data event = Inr (Suc p)"

definition oneFile :: "nat storage" where
  "oneFile = \<lparr> st_Path = ''main.db'', st_listPaths = [''main.db''], st_exists = (\<lambda>path. True), st_session = (\<lambda>p sessionID. False),
     st_dateText = Map.empty \<rparr>"

definition here :: project_instance where
  "here = \<lparr> in_directory = ''/repo'', in_project = ''prj_1'' \<rparr>"

definition tick :: readings where
  "tick n = 0"

abbreviation itemStart :: "nat sync" where
  "itemStart \<equiv> startSync (\<lambda>n. ''1'') [itemCreated] [(itemCreated, countProjector)] None 0"

definition itemRun :: sync_op where
  "itemRun = RunEvent tick ''evt_1'' itemCreated (itemData ''a'') None None"

definition itemRow :: event_row where
  "itemRow = \<lparr> er_id = ''evt_1'', er_seq = 0, er_aggregateID = ''a'', er_type = ''item.created.1'', er_data = itemData ''a'' \<rparr>"

lemma item_allowed: "singleFile oneFile ''main.db''" "inj_on (eventKey digits) (set [itemCreated])" "opAllowed [itemCreated] ''main.db'' itemRun"
    "\<not> isRemove itemRun"
  by (simp_all add: singleFile_def oneFile_def itemRun_def)

lemmas item_eval = syncRun_def syncStep_def run_event_def replay_event_def process_event_def publishEvent_def recordEvent_def eventPath_def
  resolveSessionPath_def hasSession_def transactionFile_def startSync_def init_sync_def define_event_def versionedType_def emptySync_def
  emptyDatabase_def itemRun_def itemCreated_def itemData_def storedRow_def countProjector_def oneFile_def itemRow_def Let_def

lemma item_run: "db_events (sy_files (syncRun (\<lambda>n. ''1'') oneFile ''main.db'' here [itemRun] itemStart) ''main.db'') = [itemRow]"
    "sy_published (syncRun (\<lambda>n. ''1'') oneFile ''main.db'' here [itemRun] itemStart) \<noteq> []"
  by (simp_all add: item_eval)

theorem sync_log_sound_witness:
  "logSound (sy_files (syncRun (\<lambda>n. ''1'') oneFile ''main.db'' here [itemRun, RemoveEvents ''a'' None, itemRun] itemStart) ''main.db'')"
  by (rule sync_log_sound [OF item_allowed(1,2)]) (simp add: item_allowed)

lemma item_plain: "parsedIsPlain oneFile"
  by (simp add: parsedIsPlain_def oneFile_def)

abbreviation itemLog :: "nat database" where
  "itemLog \<equiv> sy_files (syncRun (\<lambda>n. ''1'') oneFile ''main.db'' here [itemRun] itemStart) ''main.db''"

theorem sync_replica_converges_witness:
  "case replayEach (\<lambda>n. ''1'') oneFile (\<lambda>n. tick) ''main.db'' here (map serializedRow [itemRow, itemRow]) True None itemStart of (r, replica) \<Rightarrow>
     r = Inr () \<and> (\<forall>agg. rowsOf agg (sy_files replica ''main.db'') = rowsOf agg itemLog)
       \<and> db_sequence (sy_files replica ''main.db'') = db_sequence itemLog
     \<or> (\<exists>message. r = Inl (ProjectorFailed message)) \<and> (\<forall>agg. \<exists>rest. rowsOf agg itemLog = rowsOf agg (sy_files replica ''main.db'') @ rest)"
proof -
  obtain r replica where replayed:
    "replayEach (\<lambda>n. ''1'') oneFile (\<lambda>n. tick) ''main.db'' here (map serializedRow [itemRow, itemRow]) True None itemStart = (r, replica)"
    by (cases "replayEach (\<lambda>n. ''1'') oneFile (\<lambda>n. tick) ''main.db'' here (map serializedRow [itemRow, itemRow]) True None itemStart")
  have delivered: "\<forall>agg. firstSeen (filter (\<lambda>row. er_aggregateID row = agg) [itemRow, itemRow]) = rowsOf agg itemLog"
    by (simp add: rowsOf_def item_run firstSeen_def)
  have "list_all (\<lambda>row. er_data row \<noteq> JNull) (db_events itemLog)" by (simp add: item_run) (simp add: itemRow_def itemData_def)
  from sync_replica_converges [OF item_allowed(1,2) _ refl this item_allowed(1) refl item_plain delivered replayed] item_allowed(3)
  show ?thesis by (simp only: replayed prod.case) simp
qed

theorem sync_published_logged_witness:
  "\<exists>row\<in>set (db_events (sy_files (syncRun (\<lambda>n. ''1'') oneFile ''main.db'' here [itemRun] itemStart) ''main.db'')).
     loggedAs oneFile (pe_event (hd (sy_published (syncRun (\<lambda>n. ''1'') oneFile ''main.db'' here [itemRun] itemStart)))) row"
  by (rule sync_published_logged [OF item_allowed(1,2) _ refl]) (simp_all add: item_allowed item_run)

section \<open>A session in another file\<close>

text \<open>C37: An event that runs for a session in another file, with the path of that file: the transaction is the one of the file of the
  process, so the event and what the projector does are recorded there, the data as the JSON column has them, and the file of the session stays as it is.\<close>
theorem sync_run_ignores_path:
  assumes "run_event digits st now current i newId def data publish (Some other) s = (Inr (), s')" "other \<noteq> current"
    and "sy_registry s (eventKey digits def) = Some def" "consistent digits s"
  shows "sy_files s' other = sy_files s other \<and>
    (\<exists>row. er_id row = newId \<and> er_data row = jsonColumn (st_dateText st) data \<and> db_events (sy_files s' current) = db_events (sy_files s current) @ [row])"
  using assms(1,3)
proof (cases rule: run_current)
  case (recorded db event)
  with assms(2) Sync_Theorems.recorded(1) [OF assms(4) recorded(4)] show ?thesis
    by (intro conjI exI [of _ "storedRow st (eventKey digits def) event"]) simp_all
qed simp

lemma item_elsewhere: "run_event (\<lambda>n. ''1'') oneFile tick ''main.db'' here ''evt_1'' itemCreated (itemData ''a'') None (Some ''other.db'') itemStart =
    (Inr (), snd (run_event (\<lambda>n. ''1'') oneFile tick ''main.db'' here ''evt_1'' itemCreated (itemData ''a'') None (Some ''other.db'') itemStart))"
  by (simp add: item_eval)

theorem sync_run_ignores_path_witness:
  "sy_files (snd (run_event (\<lambda>n. ''1'') oneFile tick ''main.db'' here ''evt_1'' itemCreated (itemData ''a'') None (Some ''other.db'') itemStart)) ''other.db'' =
     sy_files itemStart ''other.db''"
  by (rule sync_run_ignores_path [OF item_elsewhere _ _ start_consistent, THEN conjunct1]) (simp_all add: item_eval eventKey_def)

text \<open>The next event of a session that another file holds is refused when the file of the process has none of its events.\<close>
theorem sync_replay_reads_current:
  assumes "sy_registry s (sr_type event) \<noteq> None" "se_seq event > 0" "db_sequence (sy_files s current) (se_aggregateID event) = None"
  shows "replay_event digits st now current i event publish path s =
     (Inl (SequenceMismatch (se_aggregateID event) 0 (se_seq event)), s)"
  using assms by (auto simp: replay_event_def)

theorem sync_replay_reads_current_witness:
  "replay_event (\<lambda>n. ''1'') oneFile tick ''main.db'' here (serializedRow (itemRow\<lparr>er_seq := 1\<rparr>)) False (Some ''other.db'') itemStart =
     (Inl (SequenceMismatch ''a'' 0 1), itemStart)"
  by (rule trans [OF sync_replay_reads_current]) (simp_all add: item_eval)

end
