(* ===== verification/Runner.thy ===== *)
theory Runner
  imports Prelude
begin

text \<open>
  The runner of a session (\<^verbatim>\<open>packages/cli-host/src/effect/runner.ts\<close>): it runs one piece of work at a time, lets callers wait for the
  run that is under way, queues one run behind a shell, and cancels.  The changes of \<open>ref\<close> are atomic; the work of a fiber goes on
  until the step \<open>fiberEnds\<close>, which also runs the finaliser that the runner attached; a cancellation is split where it waits for the
  fiber.  The finaliser belongs to the fiber (\<^verbatim>\<open>Effect.onExit\<close>, \<^verbatim>\<open>Effect.ensuring\<close>), which has ended for others only when the finaliser has
  run, so the step takes place when the finaliser changes \<open>ref\<close>.  What an operation does right after its change of \<open>ref\<close> (a callback, a
  deferred value that is settled) belongs to the same step: these are synchronous effects of the same fiber, and the scheduler is
  taken not to use up its budget of operations between them and the change.  Fibers and deferred values are kept in lists and named by their positions.  The work and the callbacks are parameters: a piece
  of work is a value of type \<open>'w\<close>, and the calls of the callbacks are recorded.
\<close>

section \<open>Results\<close>

datatype reason = Fail string | Die string | Interrupt

datatype 'a exit = Success 'a | Failure "reason list"

datatype 'a outcome = Completed "'a exit" | Cancelled

definition hasInterruptsOnly :: "reason list \<Rightarrow> bool" where
  "hasInterruptsOnly cause \<longleftrightarrow> cause \<noteq> [] \<and> list_all (\<lambda>r. r = Interrupt) cause"

definition hasInterrupts :: "reason list \<Rightarrow> bool" where
  "hasInterrupts cause \<longleftrightarrow> Interrupt \<in> set cause"

definition hasDies :: "reason list \<Rightarrow> bool" where
  "hasDies cause \<longleftrightarrow> (\<exists>d. Die d \<in> set cause)"

section \<open>State\<close>

record run_handle =
  rh_id :: nat
  rh_done :: nat
  rh_fiber :: nat

record shell_handle =
  sh_id :: nat
  sh_ready :: bool
  sh_fiber :: nat

record 'w pending_handle =
  ph_id :: nat
  ph_done :: nat
  ph_work :: 'w

datatype 'w runner_state =
    Idle
  | Running run_handle
  | Shell shell_handle
  | ShellThenRun shell_handle "'w pending_handle"

text \<open>What a fiber does at its exit: \<open>finishRun\<close> with its identifier and deferred value, or \<open>finishShell\<close>.\<close>

datatype finaliser = FinishRun nat nat | FinishShell nat

record ('a, 'w) fiber =
  fi_work :: 'w
  fi_finaliser :: finaliser
  fi_interrupted :: bool
  fi_cancelled :: bool
  fi_exit :: "'a exit option"

text \<open>A cancellation that is under way: it waits for the latch of the shell, or for its fiber.\<close>

datatype cancellation =
    AwaitReady nat "nat option"
  | AwaitFiber nat "nat option"

datatype callback = OnIdle | OnBusy

record ('a, 'w) runner =
  ru_state :: "'w runner_state"
  ru_ids :: nat
  ru_deferred :: "'a outcome option list"
  ru_fibers :: "('a, 'w) fiber list"
  ru_cancels :: "cancellation list"
  ru_callbacks :: "callback list"

definition make_runner :: "('a, 'w) runner" where
  "make_runner = \<lparr> ru_state = Idle, ru_ids = 0, ru_deferred = [], ru_fibers = [], ru_cancels = [], ru_callbacks = [] \<rparr>"

definition busy :: "('a, 'w) runner \<Rightarrow> bool" where
  "busy r \<longleftrightarrow> ru_state r \<noteq> Idle"

definition callback :: "callback \<Rightarrow> ('a, 'w) runner \<Rightarrow> ('a, 'w) runner" where
  "callback c r = r\<lparr>ru_callbacks := ru_callbacks r @ [c]\<rparr>"

definition newDeferred :: "('a, 'w) runner \<Rightarrow> nat \<times> ('a, 'w) runner" where
  "newDeferred r = (length (ru_deferred r), r\<lparr>ru_deferred := ru_deferred r @ [None]\<rparr>)"

text \<open>A deferred value is completed once.\<close>

definition settleDeferred :: "nat \<Rightarrow> 'a outcome \<Rightarrow> ('a, 'w) runner \<Rightarrow> ('a, 'w) runner" where
  "settleDeferred d out r = (case ru_deferred r ! d of None \<Rightarrow> r\<lparr>ru_deferred := (ru_deferred r)[d := Some out]\<rparr> | Some _ \<Rightarrow> r)"

definition complete :: "nat \<Rightarrow> 'a exit \<Rightarrow> ('a, 'w) runner \<Rightarrow> ('a, 'w) runner" where
  "complete d ex r = settleDeferred d (case ex of Failure cause \<Rightarrow> (if hasInterruptsOnly cause then Cancelled else Completed ex) | Success a \<Rightarrow> Completed ex) r"

definition fork :: "'w \<Rightarrow> finaliser \<Rightarrow> ('a, 'w) runner \<Rightarrow> ('a, 'w) runner" where
  "fork work fin r = r\<lparr>ru_fibers := ru_fibers r @ [\<lparr> fi_work = work, fi_finaliser = fin, fi_interrupted = False, fi_cancelled = False,
     fi_exit = None \<rparr>]\<rparr>"

section \<open>Operations\<close>

definition startRun :: "'w \<Rightarrow> nat \<Rightarrow> ('a, 'w) runner \<Rightarrow> run_handle \<times> ('a, 'w) runner" where
  "startRun work d r =
     (let i = ru_ids r + 1 in
      (\<lparr> rh_id = i, rh_done = d, rh_fiber = length (ru_fibers r) \<rparr>, fork work (FinishRun i d) (r\<lparr>ru_ids := i\<rparr>)))"

definition idleIfCurrent :: "('a, 'w) runner \<Rightarrow> ('a, 'w) runner" where
  "idleIfCurrent r = (if ru_state r = Idle then callback OnIdle r else r)"

definition finishRun :: "nat \<Rightarrow> nat \<Rightarrow> 'a exit \<Rightarrow> ('a, 'w) runner \<Rightarrow> ('a, 'w) runner" where
  "finishRun i d ex r =
     (case ru_state r of
        Running run \<Rightarrow> if rh_id run = i then complete d ex (callback OnIdle (r\<lparr>ru_state := Idle\<rparr>)) else complete d ex r
      | _ \<Rightarrow> complete d ex r)"

definition finishShell :: "nat \<Rightarrow> ('a, 'w) runner \<Rightarrow> ('a, 'w) runner" where
  "finishShell i r =
     (case ru_state r of
        Shell shell \<Rightarrow> if sh_id shell = i then callback OnIdle (r\<lparr>ru_state := Idle\<rparr>) else r
      | ShellThenRun shell pending \<Rightarrow>
          if sh_id shell = i then (let (run, r') = startRun (ph_work pending) (ph_done pending) r in r'\<lparr>ru_state := Running run\<rparr>) else r
      | _ \<Rightarrow> r)"

text \<open>The caller waits for the deferred value that is returned.\<close>

definition ensureRunning :: "'w \<Rightarrow> ('a, 'w) runner \<Rightarrow> nat \<times> ('a, 'w) runner" where
  "ensureRunning work r =
     (case ru_state r of
        Running run \<Rightarrow> (rh_done run, r)
      | ShellThenRun shell pending \<Rightarrow> (ph_done pending, r)
      | Shell shell \<Rightarrow>
          (let i = ru_ids r + 1; (d, r') = newDeferred (r\<lparr>ru_ids := i\<rparr>) in
           (d, r'\<lparr>ru_state := ShellThenRun shell \<lparr> ph_id = i, ph_done = d, ph_work = work \<rparr>\<rparr>))
      | Idle \<Rightarrow>
          (let (d, r') = newDeferred r; (run, r'') = startRun work d r' in (d, r''\<lparr>ru_state := Running run\<rparr>)))"

text \<open>\<open>None\<close>: the runner is busy.  Otherwise the caller waits for the fiber.\<close>

definition startShell :: "'w \<Rightarrow> bool \<Rightarrow> ('a, 'w) runner \<Rightarrow> nat option \<times> ('a, 'w) runner" where
  "startShell work ready r =
     (case ru_state r of
        Idle \<Rightarrow>
          (let r1 = callback OnBusy r; i = ru_ids r1 + 1; f = length (ru_fibers r1);
               r2 = fork work (FinishShell i) (r1\<lparr>ru_ids := i\<rparr>) in
           (Some f, r2\<lparr>ru_state := Shell \<lparr> sh_id = i, sh_ready = ready, sh_fiber = f \<rparr>\<rparr>))
      | _ \<Rightarrow> (None, r))"

text \<open>What the caller of a shell gets when its fiber has ended; \<open>None\<close>: the callback for interruptions, when there is one.\<close>

definition shellResult :: "('a, 'w) fiber \<Rightarrow> 'a exit \<Rightarrow> 'a exit option" where
  "shellResult f ex =
     (case ex of
        Success a \<Rightarrow> Some ex
      | Failure cause \<Rightarrow>
          if hasInterruptsOnly cause \<or> (fi_cancelled f \<and> hasInterrupts cause \<and> \<not> hasDies cause) then None else Some ex)"

definition interruptFiber :: "nat \<Rightarrow> ('a, 'w) runner \<Rightarrow> ('a, 'w) runner" where
  "interruptFiber f r = r\<lparr>ru_fibers := (ru_fibers r)[f := (ru_fibers r ! f)\<lparr>fi_interrupted := True\<rparr>]\<rparr>"

definition cancelledFiber :: "nat \<Rightarrow> ('a, 'w) runner \<Rightarrow> ('a, 'w) runner" where
  "cancelledFiber f r = r\<lparr>ru_fibers := (ru_fibers r)[f := (ru_fibers r ! f)\<lparr>fi_cancelled := True\<rparr>]\<rparr>"

text \<open>\<open>stopShell\<close> up to the point where it waits for the fiber.\<close>

definition stopShell :: "shell_handle \<Rightarrow> nat option \<Rightarrow> ('a, 'w) runner \<Rightarrow> ('a, 'w) runner" where
  "stopShell shell pending r =
     (if sh_ready shell then r\<lparr>ru_cancels := ru_cancels r @ [AwaitReady (sh_fiber shell) pending]\<rparr>
      else (let r' = interruptFiber (sh_fiber shell) (cancelledFiber (sh_fiber shell) r) in
            r'\<lparr>ru_cancels := ru_cancels r' @ [AwaitFiber (sh_fiber shell) pending]\<rparr>))"

definition cancel :: "('a, 'w) runner \<Rightarrow> ('a, 'w) runner" where
  "cancel r =
     (case ru_state r of
        Idle \<Rightarrow> r
      | Running run \<Rightarrow>
          (let r' = interruptFiber (rh_fiber run) (r\<lparr>ru_state := Idle\<rparr>) in
           r'\<lparr>ru_cancels := ru_cancels r' @ [AwaitFiber (rh_fiber run) None]\<rparr>)
      | Shell shell \<Rightarrow> stopShell shell None (r\<lparr>ru_state := Idle\<rparr>)
      | ShellThenRun shell pending \<Rightarrow> stopShell shell (Some (ph_done pending)) (r\<lparr>ru_state := Idle\<rparr>))"

text \<open>The work of a fiber ends, and its finaliser runs.\<close>

definition fiberEnds :: "nat \<Rightarrow> 'a exit \<Rightarrow> ('a, 'w) runner \<Rightarrow> ('a, 'w) runner" where
  "fiberEnds f ex r =
     (let r' = r\<lparr>ru_fibers := (ru_fibers r)[f := (ru_fibers r ! f)\<lparr>fi_exit := Some ex\<rparr>]\<rparr> in
      case fi_finaliser (ru_fibers r ! f) of
        FinishRun i d \<Rightarrow> finishRun i d ex r'
      | FinishShell i \<Rightarrow> finishShell i r')"

text \<open>A cancellation goes on: the latch is open, or the fiber has ended.\<close>

definition cancelContinues :: "nat \<Rightarrow> ('a, 'w) runner \<Rightarrow> ('a, 'w) runner" where
  "cancelContinues k r =
     (case ru_cancels r ! k of
        AwaitReady f pending \<Rightarrow>
          (let r' = interruptFiber f (cancelledFiber f r) in r'\<lparr>ru_cancels := (ru_cancels r')[k := AwaitFiber f pending]\<rparr>)
      | AwaitFiber f pending \<Rightarrow>
          (let r' = r\<lparr>ru_cancels := take k (ru_cancels r) @ drop (Suc k) (ru_cancels r)\<rparr> in
           idleIfCurrent (case pending of Some d \<Rightarrow> settleDeferred d Cancelled r' | None \<Rightarrow> r')))"

section \<open>Steps\<close>

definition activeFiber :: "('a, 'w) runner \<Rightarrow> nat \<Rightarrow> bool" where
  "activeFiber r f \<longleftrightarrow> f < length (ru_fibers r) \<and> fi_exit (ru_fibers r ! f) = None"

text \<open>Calls from outside, and the steps that the fibers and the cancellations do by themselves.\<close>

inductive call_step :: "('a, 'w) runner \<Rightarrow> ('a, 'w) runner \<Rightarrow> bool" where
  step_ensure: "call_step r (snd (ensureRunning work r))"
| step_shell: "call_step r (snd (startShell work ready r))"

inductive own_step :: "('a, 'w) runner \<Rightarrow> ('a, 'w) runner \<Rightarrow> bool" where
  step_ends: "activeFiber r f \<Longrightarrow> own_step r (fiberEnds f ex r)"
| step_ready: "k < length (ru_cancels r) \<Longrightarrow> ru_cancels r ! k = AwaitReady f pending \<Longrightarrow> own_step r (cancelContinues k r)"
| step_stopped: "k < length (ru_cancels r) \<Longrightarrow> ru_cancels r ! k = AwaitFiber f pending \<Longrightarrow> \<not> activeFiber r f \<Longrightarrow>
    own_step r (cancelContinues k r)"

inductive runner_step :: "('a, 'w) runner \<Rightarrow> ('a, 'w) runner \<Rightarrow> bool" where
  step_call: "call_step r r' \<Longrightarrow> runner_step r r'"
| step_own: "own_step r r' \<Longrightarrow> runner_step r r'"
| step_cancel: "runner_step r (cancel r)"

inductive_cases call_stepE: "call_step r r'"
inductive_cases own_stepE: "own_step r r'"
inductive_cases runner_stepE: "runner_step r r'"

end
