(* ===== verification/Run_State.thy ===== *)
theory Run_State
  imports Runner
begin

text \<open>
  The status of the sessions (\<^verbatim>\<open>packages/cli-host/src/session/status.ts\<close>) and their runners
  (\<^verbatim>\<open>packages/cli-host/src/session/run-state.ts\<close>): a session has at most one entry in the map of the runners, the callbacks of a runner
  remove the entry and change the status.  A callback runs in the step of the change that calls it, as in \<open>Runner\<close>: the source goes on to
  \<open>onIdle\<close> or \<open>onBusy\<close> right after the change, and \<open>onIdle\<close> removes the entry before anything can wait.  The status is set after its
  publication on the bus; a bus that makes the publication wait, and a scheduler that takes another fiber between the change and its
  callback, are not
  covered.  The runners are kept in a list, so that a runner that has lost its entry can still go on.
\<close>

section \<open>The status of a session\<close>

datatype status_info = IdleStatus | RetryStatus nat string nat | BusyStatus "string list option"

datatype status_event = StatusPublished string status_info | IdlePublished string

record status_state =
  sts_data :: "string \<Rightarrow> status_info option"
  sts_queued :: "string \<Rightarrow> string list option"
  sts_published :: "status_event list"

definition attachQueued :: "status_info \<Rightarrow> string list option \<Rightarrow> status_info" where
  "attachQueued status messageIDs =
     (case messageIDs of
        None \<Rightarrow> status
      | Some [] \<Rightarrow> status
      | Some ids \<Rightarrow> (case status of RetryStatus attempt message next_ \<Rightarrow> status | IdleStatus \<Rightarrow> BusyStatus (Some ids) | BusyStatus q \<Rightarrow> BusyStatus (Some ids)))"

definition status_get :: "string \<Rightarrow> status_state \<Rightarrow> status_info" where
  "status_get sessionID s = attachQueued (case sts_data s sessionID of Some status \<Rightarrow> status | None \<Rightarrow> IdleStatus) (sts_queued s sessionID)"

definition status_list :: "status_state \<Rightarrow> string \<Rightarrow> status_info option" where
  "status_list s sessionID =
     (case sts_data s sessionID of
        Some status \<Rightarrow> Some (attachQueued status (sts_queued s sessionID))
      | None \<Rightarrow> (case sts_queued s sessionID of Some ids \<Rightarrow> Some (attachQueued IdleStatus (Some ids)) | None \<Rightarrow> None))"

definition status_set :: "string \<Rightarrow> status_info \<Rightarrow> status_state \<Rightarrow> status_state" where
  "status_set sessionID status s =
     (let s1 = s\<lparr>sts_published := sts_published s @ [StatusPublished sessionID (attachQueued status (sts_queued s sessionID))]\<rparr> in
      if status = IdleStatus then s1\<lparr>sts_published := sts_published s1 @ [IdlePublished sessionID], sts_data := (sts_data s1)(sessionID := None)\<rparr>
      else s1\<lparr>sts_data := (sts_data s1)(sessionID \<mapsto> status)\<rparr>)"

definition status_setQueued :: "string \<Rightarrow> string list \<Rightarrow> status_state \<Rightarrow> status_state" where
  "status_setQueued sessionID messageIDs s =
     (let s1 = s\<lparr>sts_queued := (sts_queued s)(sessionID := (if messageIDs \<noteq> [] then Some messageIDs else None))\<rparr> in
      s1\<lparr>sts_published := sts_published s1 @ [StatusPublished sessionID (status_get sessionID s1)]\<rparr>)"

datatype status_op = SetStatus string status_info | SetQueued string "string list"

definition status_step :: "status_op \<Rightarrow> status_state \<Rightarrow> status_state" where
  "status_step op s = (case op of SetStatus sessionID status \<Rightarrow> status_set sessionID status s
     | SetQueued sessionID ids \<Rightarrow> status_setQueued sessionID ids s)"

definition emptyStatus :: status_state where
  "emptyStatus = \<lparr> sts_data = Map.empty, sts_queued = Map.empty, sts_published = [] \<rparr>"

definition lastPublished :: "string \<Rightarrow> status_state \<Rightarrow> status_info option" where
  "lastPublished sessionID s =
     fold (\<lambda>e acc. case e of StatusPublished i status \<Rightarrow> (if i = sessionID then Some status else acc) | IdlePublished i \<Rightarrow> acc)
       (sts_published s) None"

lemma published_snoc: "lastPublished i (s\<lparr>sts_published := sts_published s @ [StatusPublished j st]\<rparr>) =
    (if j = i then Some st else lastPublished i s)"
  "lastPublished i (s\<lparr>sts_published := sts_published s @ [StatusPublished j st, IdlePublished j]\<rparr>) =
    (if j = i then Some st else lastPublished i s)"
  by (simp_all add: lastPublished_def)

definition publishedCurrent :: "status_state \<Rightarrow> bool" where
  "publishedCurrent s \<longleftrightarrow> (\<forall>i. lastPublished i s = Some (status_get i s) \<or> lastPublished i s = None \<and> status_get i s = IdleStatus)"

interpretation statuses: step_invariant status_step publishedCurrent
proof
  fix s op
  assume s: "publishedCurrent s"
  show "publishedCurrent (status_step op s)"
  proof (cases op)
    case (SetStatus j status)
    have "lastPublished i (status_set j status s) = (if j = i then Some (status_get i (status_set j status s)) else lastPublished i s)
        \<and> (j \<noteq> i \<longrightarrow> status_get i (status_set j status s) = status_get i s)" for i
      by (simp add: status_set_def status_get_def lastPublished_def Let_def)
    with s SetStatus show ?thesis unfolding publishedCurrent_def status_step_def by (metis status_op.simps(5))
  next
    case (SetQueued j ids)
    have "lastPublished i (status_setQueued j ids s) = (if j = i then Some (status_get i (status_setQueued j ids s)) else lastPublished i s)
        \<and> (j \<noteq> i \<longrightarrow> status_get i (status_setQueued j ids s) = status_get i s)" for i
      by (simp add: status_setQueued_def status_get_def lastPublished_def Let_def)
    with s SetQueued show ?thesis unfolding publishedCurrent_def status_step_def by (metis status_op.simps(6))
  qed
qed

text \<open>Who follows the events of a session knows its status: the last status that was published is the one that is read, and a session of
  which nothing was published is idle.\<close>
theorem status_followed:
  "publishedCurrent (fold status_step ops emptyStatus)"
  by (rule statuses.run_inv) (simp add: publishedCurrent_def emptyStatus_def lastPublished_def status_get_def attachQueued_def)

section \<open>The runners of the sessions\<close>

record ('a, 'w) run_state =
  rs_runners :: "string \<Rightarrow> nat option"
  rs_objects :: "(string \<times> ('a, 'w) runner) list"
  rs_status :: status_state

definition emptyRunState :: "('a, 'w) run_state" where
  "emptyRunState = \<lparr> rs_runners = Map.empty, rs_objects = [], rs_status = emptyStatus \<rparr>"

text \<open>The callbacks of the runner of a session.\<close>

fun runCallback :: "string \<Rightarrow> callback \<Rightarrow> ('a, 'w) run_state \<Rightarrow> ('a, 'w) run_state" where
  "runCallback sessionID OnIdle s =
     s\<lparr>rs_runners := (rs_runners s)(sessionID := None), rs_status := status_set sessionID IdleStatus (rs_status s)\<rparr>"
| "runCallback sessionID OnBusy s = s\<lparr>rs_status := status_set sessionID (BusyStatus None) (rs_status s)\<rparr>"

text \<open>A change of one runner, and in the same step the callbacks it calls.\<close>

definition withRunner :: "nat \<Rightarrow> ('a, 'w) runner \<Rightarrow> ('a, 'w) run_state \<Rightarrow> ('a, 'w) run_state" where
  "withRunner k r' s =
     (let (sessionID, r) = rs_objects s ! k in
      fold (runCallback sessionID) (drop (length (ru_callbacks r)) (ru_callbacks r')) (s\<lparr>rs_objects := (rs_objects s)[k := (sessionID, r')]\<rparr>))"

definition sessionRunner :: "string \<Rightarrow> ('a, 'w) run_state \<Rightarrow> nat \<times> ('a, 'w) run_state" where
  "sessionRunner sessionID s =
     (case rs_runners s sessionID of
        Some k \<Rightarrow> (k, s)
      | None \<Rightarrow> (length (rs_objects s), s\<lparr>rs_runners := (rs_runners s)(sessionID \<mapsto> length (rs_objects s)),
          rs_objects := rs_objects s @ [(sessionID, make_runner)]\<rparr>))"

definition assertNotBusy :: "string \<Rightarrow> ('a, 'w) run_state \<Rightarrow> bool" where
  "assertNotBusy sessionID s = (case rs_runners s sessionID of Some k \<Rightarrow> \<not> busy (snd (rs_objects s ! k)) | None \<Rightarrow> True)"

definition cancel_session :: "string \<Rightarrow> ('a, 'w) run_state \<Rightarrow> ('a, 'w) run_state" where
  "cancel_session sessionID s =
     (case rs_runners s sessionID of
        Some k \<Rightarrow>
          if busy (snd (rs_objects s ! k)) then withRunner k (cancel (snd (rs_objects s ! k))) s
          else s\<lparr>rs_status := status_set sessionID IdleStatus (rs_status s)\<rparr>
      | None \<Rightarrow> s\<lparr>rs_status := status_set sessionID IdleStatus (rs_status s)\<rparr>)"

definition ensureRunning_session :: "string \<Rightarrow> 'w \<Rightarrow> ('a, 'w) run_state \<Rightarrow> (nat \<times> nat) \<times> ('a, 'w) run_state" where
  "ensureRunning_session sessionID work s =
     (let (k, s') = sessionRunner sessionID s; (d, r') = ensureRunning work (snd (rs_objects s' ! k)) in ((k, d), withRunner k r' s'))"

definition startShell_session :: "string \<Rightarrow> 'w \<Rightarrow> bool \<Rightarrow> ('a, 'w) run_state \<Rightarrow> (nat \<times> nat) option \<times> ('a, 'w) run_state" where
  "startShell_session sessionID work ready s =
     (let (k, s') = sessionRunner sessionID s; (f, r') = startShell work ready (snd (rs_objects s' ! k)) in
      (map_option (Pair k) f, withRunner k r' s'))"

text \<open>The calls of the sessions, and what the runners do by themselves.\<close>

inductive session_step :: "('a, 'w) run_state \<Rightarrow> ('a, 'w) run_state \<Rightarrow> bool" where
  session_ensure: "session_step s (snd (ensureRunning_session sessionID work s))"
| session_shell: "session_step s (snd (startShell_session sessionID work ready s))"
| session_own: "k < length (rs_objects s) \<Longrightarrow> own_step (snd (rs_objects s ! k)) r' \<Longrightarrow> session_step s (withRunner k r' s)"

inductive cancelling_step :: "('a, 'w) run_state \<Rightarrow> ('a, 'w) run_state \<Rightarrow> bool" where
  plain_step: "session_step s s' \<Longrightarrow> cancelling_step s s'"
| session_cancel: "cancelling_step s (cancel_session sessionID s)"

end
