(* ===== verification/Runner_Theorems.thy ===== *)
theory Runner_Theorems
  imports Runner
begin

text \<open>
  What the runner guarantees in every reachable state: of the fibers that are at work all but one are being cancelled, every caller that
  waits is owed an answer by a fiber, by the run that is queued or by a cancellation, and what it gets is the result of the work it waits
  for.  Left to itself the runner comes to rest, and then every caller has its answer.
\<close>

section \<open>The invariant\<close>

fun finId :: "finaliser \<Rightarrow> nat" where
  "finId (FinishRun i d) = i"
| "finId (FinishShell i) = i"

fun cancelFiber :: "cancellation \<Rightarrow> nat" where
  "cancelFiber (AwaitReady f pending) = f"
| "cancelFiber (AwaitFiber f pending) = f"

fun cancelPending :: "cancellation \<Rightarrow> nat option" where
  "cancelPending (AwaitReady f pending) = pending"
| "cancelPending (AwaitFiber f pending) = pending"

definition cancelling :: "('a, 'w) runner \<Rightarrow> nat \<Rightarrow> bool" where
  "cancelling r f \<longleftrightarrow> f \<in> cancelFiber ` set (ru_cancels r)"

text \<open>The fiber of the current state, its finaliser, and the deferred value of a run that is queued.\<close>

fun currentFiber :: "'w runner_state \<Rightarrow> (nat \<times> finaliser) option" where
  "currentFiber Idle = None"
| "currentFiber (Running run) = Some (rh_fiber run, FinishRun (rh_id run) (rh_done run))"
| "currentFiber (Shell shell) = Some (sh_fiber shell, FinishShell (sh_id shell))"
| "currentFiber (ShellThenRun shell pending) = Some (sh_fiber shell, FinishShell (sh_id shell))"

fun queuedDone :: "'w runner_state \<Rightarrow> nat option" where
  "queuedDone (ShellThenRun shell pending) = Some (ph_done pending)"
| "queuedDone st = None"

definition unsettled :: "('a, 'w) runner \<Rightarrow> nat \<Rightarrow> bool" where
  "unsettled r d \<longleftrightarrow> d < length (ru_deferred r) \<and> ru_deferred r ! d = None"

definition finalisers :: "('a, 'w) runner \<Rightarrow> finaliser list" where
  "finalisers r = map fi_finaliser (ru_fibers r)"

text \<open>A fiber at work will settleDeferred the deferred value.\<close>

definition owing :: "('a, 'w) runner \<Rightarrow> nat \<Rightarrow> bool" where
  "owing r d \<longleftrightarrow> (\<exists>x\<in>set (ru_fibers r). \<exists>i. fi_exit x = None \<and> fi_finaliser x = FinishRun i d)"

definition handlesOk :: "('a, 'w) runner \<Rightarrow> bool" where
  "handlesOk r \<longleftrightarrow> (\<forall>f fin. currentFiber (ru_state r) = Some (f, fin) \<longrightarrow> activeFiber r f \<and> fi_finaliser (ru_fibers r ! f) = fin)
     \<and> (\<forall>d. queuedDone (ru_state r) = Some d \<longrightarrow> unsettled r d \<and> (\<forall>i. FinishRun i d \<notin> set (finalisers r))
          \<and> (\<forall>c\<in>set (ru_cancels r). cancelPending c \<noteq> Some d))"

definition idsOk :: "('a, 'w) runner \<Rightarrow> bool" where
  "idsOk r \<longleftrightarrow> distinct (map finId (finalisers r)) \<and> (\<forall>fin\<in>set (finalisers r). finId fin \<le> ru_ids r)
     \<and> (\<forall>i d. FinishRun i d \<in> set (finalisers r) \<longrightarrow> d < length (ru_deferred r))"

definition othersCancelled :: "('a, 'w) runner \<Rightarrow> bool" where
  "othersCancelled r \<longleftrightarrow> (\<forall>f. activeFiber r f \<longrightarrow> Some f = map_option fst (currentFiber (ru_state r)) \<or> cancelling r f)"

definition owed :: "('a, 'w) runner \<Rightarrow> bool" where
  "owed r \<longleftrightarrow> (\<forall>d. unsettled r d \<longrightarrow> owing r d \<or> queuedDone (ru_state r) = Some d \<or> Some d \<in> cancelPending ` set (ru_cancels r))"

definition cancelsOk :: "('a, 'w) runner \<Rightarrow> bool" where
  "cancelsOk r \<longleftrightarrow> (\<forall>c\<in>set (ru_cancels r). cancelFiber c < length (ru_fibers r) \<and> (\<forall>d. cancelPending c = Some d \<longrightarrow> d < length (ru_deferred r)))"

definition answersOk :: "('a, 'w) runner \<Rightarrow> bool" where
  "answersOk r \<longleftrightarrow> (\<forall>d ex. d < length (ru_deferred r) \<longrightarrow> ru_deferred r ! d = Some (Completed ex) \<longrightarrow>
     (\<exists>x\<in>set (ru_fibers r). \<exists>i. fi_finaliser x = FinishRun i d \<and> fi_exit x = Some ex))"

definition runnerInv :: "('a, 'w) runner \<Rightarrow> bool" where
  "runnerInv r \<longleftrightarrow> handlesOk r \<and> idsOk r \<and> othersCancelled r \<and> owed r \<and> cancelsOk r \<and> answersOk r"

lemmas inv_defs = handlesOk_def idsOk_def othersCancelled_def owed_def cancelsOk_def answersOk_def

lemma make_inv: "runnerInv make_runner"
  by (simp add: runnerInv_def inv_defs make_runner_def activeFiber_def unsettled_def finalisers_def owing_def)

lemma callback_inv [simp]: "runnerInv (callback c r) = runnerInv r"
  by (simp add: runnerInv_def inv_defs callback_def activeFiber_def unsettled_def finalisers_def owing_def cancelling_def)

lemma callback_simps [simp]: "ru_state (callback c r) = ru_state r" "ru_ids (callback c r) = ru_ids r"
    "ru_deferred (callback c r) = ru_deferred r" "ru_fibers (callback c r) = ru_fibers r" "ru_cancels (callback c r) = ru_cancels r"
  by (simp_all add: callback_def)

section \<open>Calls\<close>

lemma fork_simps [simp]: "ru_state (fork w fin r) = ru_state r" "ru_ids (fork w fin r) = ru_ids r"
    "ru_deferred (fork w fin r) = ru_deferred r" "ru_cancels (fork w fin r) = ru_cancels r"
    "length (ru_fibers (fork w fin r)) = Suc (length (ru_fibers r))"
    "fi_finaliser ` set (ru_fibers (fork w fin r)) = insert fin (fi_finaliser ` set (ru_fibers r))"
  by (simp_all add: fork_def)

lemma fork_active: "activeFiber (fork w fin r) f \<longleftrightarrow> activeFiber r f \<or> f = length (ru_fibers r)"
  by (auto simp: activeFiber_def fork_def nth_append less_Suc_eq)

lemma fork_finaliser: "f \<le> length (ru_fibers r) \<Longrightarrow>
    fi_finaliser (ru_fibers (fork w fin r) ! f) = (if f = length (ru_fibers r) then fin else fi_finaliser (ru_fibers r ! f))"
  by (simp add: fork_def nth_append)

lemma shell_inv:
  assumes "runnerInv r"
  shows "runnerInv (snd (startShell work ready r))"
proof (cases "ru_state r")
  case Idle
  have "runnerInv (snd (startShell work ready r))" if "ru_state r = Idle" "runnerInv r" for r :: "('a, 'b) runner"
    using that by (auto simp: startShell_def Let_def runnerInv_def inv_defs unsettled_def cancelling_def activeFiber_def finalisers_def owing_def fork_def
        nth_append less_Suc_eq callback_def)
  then show ?thesis using Idle assms by simp
qed (use assms in \<open>simp_all add: startShell_def\<close>)

lemma ensure_inv:
  assumes "runnerInv r"
  shows "runnerInv (snd (ensureRunning work r))"
proof (cases "ru_state r")
  case Idle
  then show ?thesis using assms
    by (auto simp: ensureRunning_def startRun_def newDeferred_def Let_def runnerInv_def inv_defs unsettled_def cancelling_def activeFiber_def finalisers_def owing_def
        fork_def nth_append less_Suc_eq)
next
  case (Shell shell)
  then show ?thesis using assms
    by (auto simp: ensureRunning_def newDeferred_def Let_def runnerInv_def inv_defs unsettled_def cancelling_def activeFiber_def finalisers_def owing_def
        nth_append less_Suc_eq)
qed (use assms in \<open>simp_all add: ensureRunning_def\<close>)

section \<open>The end of a fiber\<close>

lemma settle_simps [simp]: "ru_state (settleDeferred d out r) = ru_state r" "ru_ids (settleDeferred d out r) = ru_ids r"
    "ru_fibers (settleDeferred d out r) = ru_fibers r" "ru_cancels (settleDeferred d out r) = ru_cancels r"
    "length (ru_deferred (settleDeferred d out r)) = length (ru_deferred r)" "activeFiber (settleDeferred d out r) = activeFiber r"
    "cancelling (settleDeferred d out r) = cancelling r"
  by (auto simp: settleDeferred_def activeFiber_def cancelling_def fun_eq_iff split: option.splits)

lemma settle_unsettled: "d < length (ru_deferred r) \<Longrightarrow> unsettled (settleDeferred d out r) e \<longleftrightarrow> unsettled r e \<and> e \<noteq> d"
  by (auto simp: settleDeferred_def unsettled_def nth_list_update split: option.splits)

lemma settle_answer:
  "d < length (ru_deferred r) \<Longrightarrow> ru_deferred (settleDeferred d out r) ! e = Some a \<Longrightarrow> ru_deferred r ! e = Some a \<or> e = d \<and> a = out"
  by (auto simp: settleDeferred_def nth_list_update split: option.splits if_splits)

lemma complete_settles: "\<exists>out. complete d ex r = settleDeferred d out r \<and> (\<forall>e. out = Completed e \<longrightarrow> e = ex)"
  by (cases ex) (auto simp: complete_def)

text \<open>The fibers after the exit of one.\<close>

definition withExit :: "nat \<Rightarrow> 'a exit \<Rightarrow> ('a, 'w) runner \<Rightarrow> ('a, 'w) runner" where
  "withExit f ex r = r\<lparr>ru_fibers := (ru_fibers r)[f := (ru_fibers r ! f)\<lparr>fi_exit := Some ex\<rparr>]\<rparr>"

lemma withExit_simps [simp]: "ru_state (withExit f ex r) = ru_state r" "ru_ids (withExit f ex r) = ru_ids r"
    "ru_deferred (withExit f ex r) = ru_deferred r" "ru_cancels (withExit f ex r) = ru_cancels r"
    "length (ru_fibers (withExit f ex r)) = length (ru_fibers r)" "unsettled (withExit f ex r) = unsettled r"
    "cancelling (withExit f ex r) = cancelling r"
  by (auto simp: withExit_def unsettled_def cancelling_def fun_eq_iff)

lemma withExit_nth: "ru_fibers (withExit f ex r) ! g =
    (if g = f \<and> f < length (ru_fibers r) then (ru_fibers r ! f)\<lparr>fi_exit := Some ex\<rparr> else ru_fibers r ! g)"
  by (cases "f < length (ru_fibers r)") (auto simp: withExit_def nth_list_update list_update_beyond)

lemma withExit_finaliser [simp]: "fi_finaliser (ru_fibers (withExit f ex r) ! g) = fi_finaliser (ru_fibers r ! g)"
  by (simp add: withExit_nth)

lemma withExit_finalisers [simp]: "finalisers (withExit f ex r) = finalisers r"
  by (rule nth_equalityI) (simp_all add: finalisers_def)

lemma withExit_owing:
  assumes "owing r d" "\<forall>i. fi_finaliser (ru_fibers r ! f) \<noteq> FinishRun i d"
  shows "owing (withExit f ex r) d"
proof -
  from assms(1) obtain g i where g: "g < length (ru_fibers r)" "fi_exit (ru_fibers r ! g) = None" "fi_finaliser (ru_fibers r ! g) = FinishRun i d"
    by (auto simp: owing_def in_set_conv_nth)
  with assms(2) have "ru_fibers (withExit f ex r) ! g = ru_fibers r ! g" by (auto simp: withExit_nth)
  with g show ?thesis unfolding owing_def by (metis nth_mem withExit_simps(5))
qed

lemma withExit_ended:
  assumes "activeFiber r f" "x \<in> set (ru_fibers r)" "fi_exit x = Some e"
  shows "x \<in> set (ru_fibers (withExit f ex r))"
proof -
  from assms(2) obtain g where g: "g < length (ru_fibers r)" "x = ru_fibers r ! g" by (auto simp: in_set_conv_nth)
  with assms(1,3) have "ru_fibers (withExit f ex r) ! g = x" by (auto simp: withExit_nth activeFiber_def)
  with g(1) show ?thesis by (metis nth_mem withExit_simps(5))
qed

lemma withExit_this: "f < length (ru_fibers r) \<Longrightarrow> (ru_fibers r ! f)\<lparr>fi_exit := Some ex\<rparr> \<in> set (ru_fibers (withExit f ex r))"
  by (metis nth_mem withExit_nth withExit_simps(5))

lemma withExit_active: "activeFiber (withExit f ex r) g \<longleftrightarrow> activeFiber r g \<and> g \<noteq> f"
  by (auto simp: activeFiber_def withExit_nth)

lemma state_simps [simp]: "activeFiber (r\<lparr>ru_state := st\<rparr>) = activeFiber r" "unsettled (r\<lparr>ru_state := st\<rparr>) = unsettled r"
    "cancelling (r\<lparr>ru_state := st\<rparr>) = cancelling r" "finalisers (r\<lparr>ru_state := st\<rparr>) = finalisers r" "owing (r\<lparr>ru_state := st\<rparr>) = owing r"
  by (simp_all add: activeFiber_def unsettled_def cancelling_def finalisers_def owing_def fun_eq_iff)

lemma settle_more [simp]: "finalisers (settleDeferred d out r) = finalisers r" "owing (settleDeferred d out r) = owing r"
  by (simp_all add: finalisers_def owing_def fun_eq_iff)

lemma active_finaliser: "activeFiber r f \<Longrightarrow> fi_finaliser (ru_fibers r ! f) \<in> set (finalisers r)"
  by (simp add: activeFiber_def finalisers_def)

lemma same_fiber:
  assumes "idsOk r" "activeFiber r f" "activeFiber r g" "finId (fi_finaliser (ru_fibers r ! f)) = finId (fi_finaliser (ru_fibers r ! g))"
  shows "f = g"
  using assms by (auto simp: idsOk_def finalisers_def activeFiber_def distinct_conv_nth)

text \<open>The end of a run: its deferred value is settled, and the state is idle when it was the current fiber.\<close>

lemma run_settled:
  assumes inv: "runnerInv r" and f: "activeFiber r f" "fi_finaliser (ru_fibers r ! f) = FinishRun i d"
    and out: "\<forall>e. out = Completed e \<longrightarrow> e = ex"
    and st: "st = (if map_option fst (currentFiber (ru_state r)) = Some f then Idle else ru_state r)"
  shows "runnerInv ((settleDeferred d out (withExit f ex r))\<lparr>ru_state := st\<rparr>)"
proof -
  let ?r = "(settleDeferred d out (withExit f ex r))\<lparr>ru_state := st\<rparr>"
  from f active_finaliser have fin: "FinishRun i d \<in> set (finalisers r)" by metis
  with inv have d: "d < length (ru_deferred r)" by (auto simp: runnerInv_def idsOk_def)
  note r = inv [unfolded runnerInv_def]
  have "handlesOk ?r" using r fin
    by (auto simp: handlesOk_def st settle_unsettled d withExit_active split: if_splits)
  moreover have "idsOk ?r" using r by (simp add: idsOk_def)
  moreover have "othersCancelled ?r" using r by (auto simp: othersCancelled_def st withExit_active)
  moreover have "owed ?r"
    unfolding owed_def
  proof (intro allI impI)
    fix e
    assume "unsettled ?r e"
    then have e: "unsettled r e" "e \<noteq> d" by (simp_all add: settle_unsettled d)
    with r consider "owing r e" | "queuedDone (ru_state r) = Some e" | "Some e \<in> cancelPending ` set (ru_cancels r)"
      by (auto simp: owed_def)
    then show "owing ?r e \<or> queuedDone (ru_state ?r) = Some e \<or> Some e \<in> cancelPending ` set (ru_cancels ?r)"
    proof cases
      case 1
      with e(2) f(2) have "owing (withExit f ex r) e" by (intro withExit_owing) auto
      then show ?thesis by simp
    next
      case 2
      then obtain shell p where "ru_state r = ShellThenRun shell p" by (cases "ru_state r") auto
      with r f(2) have "map_option fst (currentFiber (ru_state r)) \<noteq> Some f" by (auto simp: handlesOk_def)
      with 2 st show ?thesis by simp
    qed simp
  qed
  moreover have "cancelsOk ?r" using r by (simp add: cancelsOk_def)
  moreover have "answersOk ?r"
    unfolding answersOk_def
  proof (intro allI impI)
    fix e a
    assume e: "e < length (ru_deferred ?r)" "ru_deferred ?r ! e = Some (Completed a)"
    then consider "ru_deferred r ! e = Some (Completed a)" | "e = d" "a = ex"
      using settle_answer [of d "withExit f ex r" out e "Completed a"] d out by auto
    then show "\<exists>x\<in>set (ru_fibers ?r). \<exists>i. fi_finaliser x = FinishRun i e \<and> fi_exit x = Some a"
    proof cases
      case 1
      have "answersOk r" "e < length (ru_deferred r)" using r e(1) by simp_all
      with 1 obtain x j where "x \<in> set (ru_fibers r)" "fi_finaliser x = FinishRun j e" "fi_exit x = Some a"
        unfolding answersOk_def by blast
      with withExit_ended [OF f(1) this(1,3)] show ?thesis by auto
    next
      case 2
      have "(ru_fibers r ! f)\<lparr>fi_exit := Some ex\<rparr> \<in> set (ru_fibers ?r)"
        using f(1) withExit_this [of f r ex] by (simp add: activeFiber_def)
      with f(2) 2 show ?thesis by (intro bexI) simp_all
    qed
  qed
  ultimately show ?thesis by (simp add: runnerInv_def)
qed

lemma run_ends:
  assumes inv: "runnerInv r" and f: "activeFiber r f" "fi_finaliser (ru_fibers r ! f) = FinishRun i d"
  shows "runnerInv (fiberEnds f ex r)"
proof -
  obtain out where out: "\<And>s :: ('a, 'b) runner. complete d ex s = settleDeferred d out s" "\<forall>e. out = Completed e \<longrightarrow> e = ex"
    by (cases ex) (auto simp: complete_def)
  have ends: "fiberEnds f ex r = finishRun i d ex (withExit f ex r)" using f(2) by (simp add: fiberEnds_def withExit_def)
  have ids: "idsOk r" and handles: "handlesOk r" using inv by (simp_all add: runnerInv_def)
  note settled = run_settled [OF inv f out(2) refl]
  show ?thesis
  proof (cases "\<exists>run. ru_state r = Running run \<and> rh_id run = i")
    case True
    then obtain run where run: "ru_state r = Running run" "rh_id run = i" by blast
    with handles have "activeFiber r (rh_fiber run)" "fi_finaliser (ru_fibers r ! rh_fiber run) = FinishRun i (rh_done run)"
      by (auto simp: handlesOk_def)
    with same_fiber [OF ids f(1) this(1)] f(2) have "rh_fiber run = f" by simp
    with run settled have "runnerInv ((settleDeferred d out (withExit f ex r))\<lparr>ru_state := Idle\<rparr>)" by simp
    moreover have "settleDeferred d out (callback OnIdle (withExit f ex r\<lparr>ru_state := Idle\<rparr>)) =
        callback OnIdle ((settleDeferred d out (withExit f ex r))\<lparr>ru_state := Idle\<rparr>)"
      by (auto simp: settleDeferred_def callback_def split: option.splits)
    ultimately show ?thesis using run by (simp add: ends finishRun_def out(1))
  next
    case False
    then have "finishRun i d ex (withExit f ex r) = settleDeferred d out (withExit f ex r)"
      by (auto simp: finishRun_def out(1) split: runner_state.splits)
    moreover have "map_option fst (currentFiber (ru_state r)) \<noteq> Some f"
      using False handles f(2) by (cases "ru_state r") (auto simp: handlesOk_def)
    moreover have same: "(settleDeferred d out (withExit f ex r))\<lparr>ru_state := ru_state r\<rparr> = settleDeferred d out (withExit f ex r)"
      by (simp add: settleDeferred_def withExit_def split: option.splits)
    ultimately show ?thesis using settled unfolding ends by (simp only: if_False same)
  qed
qed

text \<open>The end of a shell that is not the current fiber, or is and leaves the runner idle.\<close>

lemma shell_ended:
  assumes inv: "runnerInv r" and f: "activeFiber r f" "fi_finaliser (ru_fibers r ! f) = FinishShell i"
    and st: "map_option fst (currentFiber (ru_state r)) = Some f \<and> queuedDone (ru_state r) = None \<and> st = Idle
      \<or> map_option fst (currentFiber (ru_state r)) \<noteq> Some f \<and> st = ru_state r"
  shows "runnerInv ((withExit f ex r)\<lparr>ru_state := st\<rparr>)"
proof -
  let ?r = "(withExit f ex r)\<lparr>ru_state := st\<rparr>"
  note r = inv [unfolded runnerInv_def]
  have "handlesOk ?r" using r st by (auto simp: handlesOk_def withExit_active)
  moreover have "idsOk ?r" using r by (simp add: idsOk_def)
  moreover have "othersCancelled ?r" using r st by (auto simp: othersCancelled_def withExit_active)
  moreover have "owing ?r e" if "owing r e" for e using withExit_owing [OF that] f(2) by simp
  then have "owed ?r" using r st by (auto simp: owed_def)
  moreover have "cancelsOk ?r" using r by (simp add: cancelsOk_def)
  moreover have "answersOk ?r" using r withExit_ended [OF f(1)] by (auto simp: answersOk_def) metis
  ultimately show ?thesis by (simp add: runnerInv_def)
qed

text \<open>The end of a shell behind which a run is queued: the run starts.\<close>

lemma queued_starts:
  assumes inv: "runnerInv r" and f: "activeFiber r f" "fi_finaliser (ru_fibers r ! f) = FinishShell i"
    and st: "ru_state r = ShellThenRun shell p" "sh_fiber shell = f"
  shows "runnerInv ((snd (startRun (ph_work p) (ph_done p) (withExit f ex r)))\<lparr>ru_state := Running (fst (startRun (ph_work p) (ph_done p) (withExit f ex r)))\<rparr>)"
proof -
  let ?s = "(withExit f ex r)\<lparr>ru_state := Idle\<rparr>"
  let ?r = "(snd (startRun (ph_work p) (ph_done p) (withExit f ex r)))\<lparr>ru_state := Running (fst (startRun (ph_work p) (ph_done p) (withExit f ex r)))\<rparr>"
  note r = inv [unfolded runnerInv_def]
  have queued: "unsettled r (ph_done p)" "\<forall>i. FinishRun i (ph_done p) \<notin> set (finalisers r)" using r st(1) by (auto simp: handlesOk_def)
  have start: "startRun (ph_work p) (ph_done p) (withExit f ex r) =
      (\<lparr> rh_id = ru_ids r + 1, rh_done = ph_done p, rh_fiber = length (ru_fibers r) \<rparr>,
       fork (ph_work p) (FinishRun (ru_ids r + 1) (ph_done p)) ((withExit f ex r)\<lparr>ru_ids := ru_ids r + 1\<rparr>))"
    by (simp add: startRun_def Let_def)
  have fins: "finalisers ?r = finalisers r @ [FinishRun (ru_ids r + 1) (ph_done p)]"
    using withExit_finalisers [of f ex r] by (simp add: start finalisers_def fork_def)
  have active: "activeFiber ?r g \<longleftrightarrow> activeFiber r g \<and> g \<noteq> f \<or> g = length (ru_fibers r)" for g
    using f(1) by (auto simp: start fork_active) (auto simp: activeFiber_def withExit_nth split: if_splits)
  have fibers: "set (ru_fibers ?r) = insert \<lparr> fi_work = ph_work p, fi_finaliser = FinishRun (ru_ids r + 1) (ph_done p), fi_interrupted = False,
      fi_cancelled = False, fi_exit = None \<rparr> (set (ru_fibers (withExit f ex r)))"
    by (simp add: start fork_def)
  have simps: "ru_deferred ?r = ru_deferred r" "ru_cancels ?r = ru_cancels r" "ru_ids ?r = ru_ids r + 1"
    "length (ru_fibers ?r) = Suc (length (ru_fibers r))" "unsettled ?r = unsettled r" "cancelling ?r = cancelling r"
    by (simp_all add: start unsettled_def cancelling_def fun_eq_iff)
  have "handlesOk ?r" by (simp add: handlesOk_def start fork_active fork_finaliser)
  moreover have "idsOk ?r" unfolding idsOk_def fins simps using r queued(1) by (force simp: idsOk_def unsettled_def)
  moreover have "othersCancelled ?r" unfolding othersCancelled_def active simps using r st by (auto simp: othersCancelled_def start)
  moreover have "owed ?r"
    unfolding owed_def simps
  proof (intro allI impI)
    fix e
    assume e: "unsettled r e"
    have new: "owing ?r (ph_done p)" unfolding owing_def fibers by simp
    have "owing ?r e" if "owing r e" using withExit_owing [OF that, of f ex] f(2) unfolding owing_def fibers by simp
    with r e st(1) new show "owing ?r e \<or> queuedDone (ru_state ?r) = Some e \<or> Some e \<in> cancelPending ` set (ru_cancels r)"
      by (auto simp: owed_def)
  qed
  moreover have "cancelsOk ?r" unfolding cancelsOk_def simps using r by (auto simp: cancelsOk_def)
  moreover have "answersOk ?r" unfolding answersOk_def simps fibers using r withExit_ended [OF f(1)] by (auto simp: answersOk_def) metis
  ultimately show ?thesis by (simp add: runnerInv_def)
qed

lemma shell_ends:
  assumes inv: "runnerInv r" and f: "activeFiber r f" "fi_finaliser (ru_fibers r ! f) = FinishShell i"
  shows "runnerInv (fiberEnds f ex r)"
proof -
  have ends: "fiberEnds f ex r = finishShell i (withExit f ex r)" using f(2) by (simp add: fiberEnds_def withExit_def)
  have ids: "idsOk r" and handles: "handlesOk r" using inv by (simp_all add: runnerInv_def)
  have current: "sh_fiber shell = f" if "currentFiber (ru_state r) = Some (sh_fiber shell, FinishShell (sh_id shell))" "sh_id shell = i" for shell
  proof -
    from that handles have "activeFiber r (sh_fiber shell)" "fi_finaliser (ru_fibers r ! sh_fiber shell) = FinishShell i"
      by (auto simp: handlesOk_def)
    with same_fiber [OF ids f(1) this(1)] f(2) show ?thesis by simp
  qed
  have other: "runnerInv (withExit f ex r)" if "map_option fst (currentFiber (ru_state r)) \<noteq> Some f"
    using shell_ended [OF inv f disjI2, of "ru_state r" ex] that by (simp add: withExit_def)
  show ?thesis
  proof (cases "ru_state r")
    case (Shell shell)
    show ?thesis
    proof (cases "sh_id shell = i")
      case True
      with Shell current [of shell] shell_ended [OF inv f disjI1, of Idle ex] show ?thesis by (simp add: ends finishShell_def)
    next
      case False
      with Shell have "map_option fst (currentFiber (ru_state r)) \<noteq> Some f" using handles f(2) by (auto simp: handlesOk_def)
      from other [OF this] Shell False show ?thesis by (simp add: ends finishShell_def)
    qed
  next
    case (ShellThenRun shell p)
    show ?thesis
    proof (cases "sh_id shell = i")
      case True
      with ShellThenRun current [of shell] have "sh_fiber shell = f" by simp
      with ShellThenRun True show ?thesis using queued_starts [OF inv f ShellThenRun, of ex] by (simp add: ends finishShell_def split_def Let_def)
    next
      case False
      with ShellThenRun have "map_option fst (currentFiber (ru_state r)) \<noteq> Some f" using handles f(2) by (auto simp: handlesOk_def)
      from other [OF this] ShellThenRun False show ?thesis by (simp add: ends finishShell_def)
    qed
  next
    case (Running run)
    with handles f(2) have "map_option fst (currentFiber (ru_state r)) \<noteq> Some f" by (auto simp: handlesOk_def)
    from other [OF this] Running show ?thesis by (simp add: ends finishShell_def)
  next
    case Idle
    with other show ?thesis by (simp add: ends finishShell_def)
  qed
qed

section \<open>Cancellations\<close>

text \<open>Marks on a fiber, and a cancellation that is added, do not disturb the invariant; the state may become idle when the fiber of the
  state is being cancelled.\<close>

definition withMark :: "(('a, 'w) fiber \<Rightarrow> ('a, 'w) fiber) \<Rightarrow> nat \<Rightarrow> ('a, 'w) runner \<Rightarrow> ('a, 'w) runner" where
  "withMark mark f r = r\<lparr>ru_fibers := (ru_fibers r)[f := mark (ru_fibers r ! f)]\<rparr>"

definition markOk :: "(('a, 'w) fiber \<Rightarrow> ('a, 'w) fiber) \<Rightarrow> bool" where
  "markOk mark \<longleftrightarrow> (\<forall>x. fi_finaliser (mark x) = fi_finaliser x \<and> fi_exit (mark x) = fi_exit x)"

lemma marks: "interruptFiber f r = withMark (fi_interrupted_update (\<lambda>_. True)) f r"
    "cancelledFiber f r = withMark (fi_cancelled_update (\<lambda>_. True)) f r"
    "markOk (fi_interrupted_update (\<lambda>_. True))" "markOk (fi_cancelled_update (\<lambda>_. True))"
  by (simp_all add: interruptFiber_def cancelledFiber_def withMark_def markOk_def)

lemma mark_simps [simp]: "ru_state (withMark mark f r) = ru_state r" "ru_ids (withMark mark f r) = ru_ids r"
    "ru_deferred (withMark mark f r) = ru_deferred r" "ru_cancels (withMark mark f r) = ru_cancels r"
    "length (ru_fibers (withMark mark f r)) = length (ru_fibers r)" "unsettled (withMark mark f r) = unsettled r"
  by (auto simp: withMark_def unsettled_def fun_eq_iff)

lemma mark_views:
  assumes "markOk mark"
  shows "map (\<lambda>x. (fi_finaliser x, fi_exit x)) (ru_fibers (withMark mark f r)) = map (\<lambda>x. (fi_finaliser x, fi_exit x)) (ru_fibers r)"
  using assms by (cases "f < length (ru_fibers r)") (auto simp: withMark_def markOk_def map_update list_update_beyond intro!: list_update_same_conv [THEN iffD2])

text \<open>The invariant sees of the fibers only their finalisers and exits.\<close>

lemma inv_views:
  fixes r s :: "('a, 'w) runner"
  assumes "map (\<lambda>x. (fi_finaliser x, fi_exit x)) (ru_fibers s) = map (\<lambda>x. (fi_finaliser x, fi_exit x)) (ru_fibers r)"
  shows "length (ru_fibers s) = length (ru_fibers r)" "finalisers s = finalisers r" "activeFiber s = activeFiber r" "owing s = owing r"
    "(\<exists>x\<in>set (ru_fibers s). \<exists>i. fi_finaliser x = FinishRun i d \<and> fi_exit x = Some ex) \<longleftrightarrow>
     (\<exists>x\<in>set (ru_fibers r). \<exists>i. fi_finaliser x = FinishRun i d \<and> fi_exit x = Some ex)"
    "f < length (ru_fibers r) \<Longrightarrow> fi_finaliser (ru_fibers s ! f) = fi_finaliser (ru_fibers r ! f)"
proof -
  have set_views: "(fin, e) \<in> (\<lambda>x. (fi_finaliser x, fi_exit x)) ` set (ru_fibers s) \<longleftrightarrow> (fin, e) \<in> (\<lambda>x. (fi_finaliser x, fi_exit x)) ` set (ru_fibers r)"
    for fin e using arg_cong [OF assms, of set] by (simp only: set_map)
  show len: "length (ru_fibers s) = length (ru_fibers r)" using assms by (rule map_eq_imp_length_eq)
  have nth: "(fi_finaliser (ru_fibers s ! g), fi_exit (ru_fibers s ! g)) = (fi_finaliser (ru_fibers r ! g), fi_exit (ru_fibers r ! g))"
    if "g < length (ru_fibers r)" for g
  proof -
    have "map (\<lambda>x. (fi_finaliser x, fi_exit x)) (ru_fibers s) ! g = map (\<lambda>x. (fi_finaliser x, fi_exit x)) (ru_fibers r) ! g"
      by (simp only: assms)
    with that len show ?thesis by (simp only: nth_map)
  qed
  then show "f < length (ru_fibers r) \<Longrightarrow> fi_finaliser (ru_fibers s ! f) = fi_finaliser (ru_fibers r ! f)" by simp
  show "finalisers s = finalisers r" unfolding finalisers_def by (rule nth_equalityI) (use len nth in simp_all)
  show "activeFiber s = activeFiber r" using len nth by (auto simp: activeFiber_def fun_eq_iff)
  show "owing s = owing r"
  proof (rule ext)
    show "owing s d = owing r d" for d
      using set_views [of "FinishRun i d" None for i] unfolding owing_def image_iff by (metis prod.inject)
  qed
  show "(\<exists>x\<in>set (ru_fibers s). \<exists>i. fi_finaliser x = FinishRun i d \<and> fi_exit x = Some ex) \<longleftrightarrow>
     (\<exists>x\<in>set (ru_fibers r). \<exists>i. fi_finaliser x = FinishRun i d \<and> fi_exit x = Some ex)"
    using set_views [of "FinishRun i d" "Some ex" for i] unfolding image_iff by (metis prod.inject)
qed

text \<open>The state becomes idle, or stays, while the cancellations change.\<close>

lemma cancels_changed:
  assumes inv: "runnerInv r"
    and views: "map (\<lambda>x. (fi_finaliser x, fi_exit x)) (ru_fibers s) = map (\<lambda>x. (fi_finaliser x, fi_exit x)) (ru_fibers r)"
    and same: "ru_ids s = ru_ids r" "ru_deferred s = ru_deferred r"
    and state: "ru_state s = ru_state r \<or> ru_state s = Idle"
    and fibers: "\<And>f. cancelling r f \<and> activeFiber r f \<or> ru_state s = Idle \<and> Some f = map_option fst (currentFiber (ru_state r)) \<Longrightarrow> cancelling s f"
    and pending: "\<And>d. unsettled r d \<Longrightarrow> Some d \<in> cancelPending ` set (ru_cancels r) \<or> ru_state s = Idle \<and> queuedDone (ru_state r) = Some d \<Longrightarrow>
        Some d \<in> cancelPending ` set (ru_cancels s)"
    and new: "\<And>c. c \<in> set (ru_cancels s) \<Longrightarrow> cancelFiber c < length (ru_fibers r) \<and>
        (\<forall>d. cancelPending c = Some d \<longrightarrow> Some d \<in> cancelPending ` set (ru_cancels r) \<or> ru_state s = Idle \<and> queuedDone (ru_state r) = Some d)"
  shows "runnerInv s"
proof -
  note r = inv [unfolded runnerInv_def] and v = inv_views [OF views]
  have u: "unsettled s = unsettled r" by (simp add: unsettled_def fun_eq_iff same)
  have "handlesOk s" unfolding handlesOk_def u v
  proof (intro conjI allI impI)
    fix f fin
    assume current: "currentFiber (ru_state s) = Some (f, fin)"
    then have "ru_state s = ru_state r" using state by auto
    with current r have "activeFiber r f \<and> fi_finaliser (ru_fibers r ! f) = fin" by (auto simp: handlesOk_def)
    with v(6) show "activeFiber r f" "fi_finaliser (ru_fibers s ! f) = fin" by (auto simp: activeFiber_def)
  next
    fix d
    assume queued: "queuedDone (ru_state s) = Some d"
    then have "ru_state s = ru_state r" "ru_state s \<noteq> Idle" using state by auto
    with queued r new show "unsettled r d" "FinishRun i d \<notin> set (finalisers r)" "\<forall>c\<in>set (ru_cancels s). cancelPending c \<noteq> Some d" for i
      by (auto simp: handlesOk_def) fastforce
  qed
  moreover have "idsOk s" unfolding idsOk_def v same using r by (simp add: idsOk_def)
  moreover have "othersCancelled s" unfolding othersCancelled_def v using r state fibers by (metis othersCancelled_def)
  moreover have "owed s" unfolding owed_def u v using r state pending by (metis owed_def)
  moreover have "cancelsOk s" unfolding cancelsOk_def v same
  proof (intro ballI conjI allI impI)
    fix c d
    assume c: "c \<in> set (ru_cancels s)"
    then show "cancelFiber c < length (ru_fibers r)" using new by blast
    assume "cancelPending c = Some d"
    with new [OF c] r show "d < length (ru_deferred r)" by (auto simp: cancelsOk_def handlesOk_def unsettled_def)
  qed
  moreover have "answersOk s" unfolding answersOk_def v same using r by (simp add: answersOk_def)
  ultimately show ?thesis by (simp add: runnerInv_def)
qed

lemma stop_simps [simp]: "ru_ids (stopShell shell p r) = ru_ids r" "ru_deferred (stopShell shell p r) = ru_deferred r"
    "ru_state (stopShell shell p r) = ru_state r"
    "cancelFiber ` set (ru_cancels (stopShell shell p r)) = insert (sh_fiber shell) (cancelFiber ` set (ru_cancels r))"
    "cancelPending ` set (ru_cancels (stopShell shell p r)) = insert p (cancelPending ` set (ru_cancels r))"
    "map (\<lambda>x. (fi_finaliser x, fi_exit x)) (ru_fibers (stopShell shell p r)) = map (\<lambda>x. (fi_finaliser x, fi_exit x)) (ru_fibers r)"
  by (simp_all add: stopShell_def marks mark_views Let_def)

lemma stop_new: "c \<in> set (ru_cancels (stopShell shell p r)) \<Longrightarrow>
    c \<in> set (ru_cancels r) \<or> cancelFiber c = sh_fiber shell \<and> cancelPending c = p"
  by (auto simp: stopShell_def marks Let_def split: if_splits)

lemma pending_iff: "Some d \<in> cancelPending ` S \<longleftrightarrow> (\<exists>c\<in>S. cancelPending c = Some d)"
  by (auto simp: image_iff) metis+

lemma cancel_inv:
  assumes inv: "runnerInv r"
  shows "runnerInv (cancel r)"
proof -
  have known: "cancelFiber c < length (ru_fibers r)" if "c \<in> set (ru_cancels r)" for c
    using inv that by (auto simp: runnerInv_def cancelsOk_def)
  have current: "f < length (ru_fibers r)" if "currentFiber (ru_state r) = Some (f, fin)" for f fin
    using inv that by (auto simp: runnerInv_def handlesOk_def activeFiber_def)
  show ?thesis
  proof (cases "ru_state r")
    case Idle
    then show ?thesis using inv by (simp add: cancel_def)
  next
    case (Running run)
    have "cancel r = (withMark (fi_interrupted_update (\<lambda>_. True)) (rh_fiber run) (r\<lparr>ru_state := Idle\<rparr>))
        \<lparr>ru_cancels := ru_cancels r @ [AwaitFiber (rh_fiber run) None]\<rparr>"
      using Running by (simp add: cancel_def Let_def marks)
    then show ?thesis
      using Running current known
      by (intro cancels_changed [OF inv]) (auto simp: marks mark_views cancelling_def pending_iff)
  next
    case (Shell shell)
    then have stop: "cancel r = stopShell shell None (r\<lparr>ru_state := Idle\<rparr>)" by (simp add: cancel_def)
    show ?thesis unfolding stop
      using Shell current known
      by (intro cancels_changed [OF inv]) (auto simp: cancelling_def pending_iff dest!: stop_new)
  next
    case (ShellThenRun shell p)
    then have stop: "cancel r = stopShell shell (Some (ph_done p)) (r\<lparr>ru_state := Idle\<rparr>)" by (simp add: cancel_def)
    show ?thesis unfolding stop
      using ShellThenRun current known
      by (intro cancels_changed [OF inv]) (auto simp: cancelling_def pending_iff dest!: stop_new)
  qed
qed

lemma settle_inv:
  assumes inv: "runnerInv r" and d: "Some d \<in> cancelPending ` set (ru_cancels r)"
  shows "runnerInv (settleDeferred d Cancelled r)"
proof -
  note r = inv [unfolded runnerInv_def]
  from r d have len: "d < length (ru_deferred r)" by (auto simp: cancelsOk_def)
  have "queuedDone (ru_state r) \<noteq> Some d" using r d by (auto simp: handlesOk_def pending_iff)
  then have "handlesOk (settleDeferred d Cancelled r)" using r by (auto simp: handlesOk_def settle_unsettled len)
  moreover have "answersOk (settleDeferred d Cancelled r)"
    using r settle_answer [OF len, of Cancelled] unfolding answersOk_def settle_simps by (metis outcome.distinct(1))
  ultimately show ?thesis
    using r by (simp add: runnerInv_def idsOk_def othersCancelled_def owed_def cancelsOk_def settle_unsettled len)
qed

lemma removed_cancel:
  assumes "k < length cs" "c \<in> set cs" "c \<noteq> cs ! k"
  shows "c \<in> set (take k cs @ drop (Suc k) cs)"
  using assms by (metis UnE Un_iff id_take_nth_drop set_ConsD set_append)

lemma continue_inv:
  assumes inv: "runnerInv r" and k: "k < length (ru_cancels r)"
    and enabled: "\<And>f p. ru_cancels r ! k = AwaitFiber f p \<Longrightarrow> \<not> activeFiber r f"
  shows "runnerInv (cancelContinues k r)"
proof (cases "ru_cancels r ! k")
  case (AwaitReady f p)
  let ?s = "cancelContinues k r"
  have "map cancelFiber (ru_cancels ?s) = map cancelFiber (ru_cancels r)" "map cancelPending (ru_cancels ?s) = map cancelPending (ru_cancels r)"
    using AwaitReady k by (simp_all add: cancelContinues_def Let_def marks map_update list_update_same_conv)
  then have images: "cancelFiber ` set (ru_cancels ?s) = cancelFiber ` set (ru_cancels r)"
    "cancelPending ` set (ru_cancels ?s) = cancelPending ` set (ru_cancels r)" by (metis set_map)+
  have known: "\<forall>f\<in>cancelFiber ` set (ru_cancels r). f < length (ru_fibers r)" using inv by (auto simp: runnerInv_def cancelsOk_def)
  have simps: "ru_ids ?s = ru_ids r" "ru_deferred ?s = ru_deferred r" "ru_state ?s = ru_state r"
    "map (\<lambda>x. (fi_finaliser x, fi_exit x)) (ru_fibers ?s) = map (\<lambda>x. (fi_finaliser x, fi_exit x)) (ru_fibers r)"
    using AwaitReady by (simp_all add: cancelContinues_def Let_def marks mark_views)
  show ?thesis
  proof (rule cancels_changed [OF inv simps(4,1,2)])
    fix c
    assume "c \<in> set (ru_cancels ?s)"
    then have "cancelFiber c \<in> cancelFiber ` set (ru_cancels r)" "cancelPending c \<in> cancelPending ` set (ru_cancels r)"
      using images by blast+
    with known show "cancelFiber c < length (ru_fibers r) \<and> (\<forall>d. cancelPending c = Some d \<longrightarrow>
        Some d \<in> cancelPending ` set (ru_cancels r) \<or> ru_state ?s = Idle \<and> queuedDone (ru_state r) = Some d)" by auto
  qed (use simps images in \<open>auto simp: cancelling_def\<close>)
next
  case (AwaitFiber f p)
  define r1 where "r1 = (case p of Some d \<Rightarrow> settleDeferred d Cancelled r | None \<Rightarrow> r)"
  have nth: "ru_cancels r ! k \<in> set (ru_cancels r)" using k by simp
  have p: "Some d \<in> cancelPending ` set (ru_cancels r)" if "p = Some d" for d
    using nth AwaitFiber that by (metis cancelPending.simps(2) image_eqI)
  have r1: "runnerInv r1" "ru_cancels r1 = ru_cancels r" "activeFiber r1 = activeFiber r"
    using inv settle_inv [OF inv p] by (auto simp: r1_def split: option.splits)
  have settled: "\<not> unsettled r1 d" if "p = Some d" for d
    using inv p [OF that] that by (auto simp: r1_def settle_unsettled runnerInv_def cancelsOk_def)
  let ?s = "r1\<lparr>ru_cancels := take k (ru_cancels r) @ drop (Suc k) (ru_cancels r)\<rparr>"
  have "cancelContinues k r = idleIfCurrent ?s"
    using AwaitFiber by (cases r) (auto simp: cancelContinues_def r1_def settleDeferred_def split: option.splits)
  moreover have "runnerInv ?s"
  proof (rule cancels_changed [OF r1(1)])
    fix g
    assume "cancelling r1 g \<and> activeFiber r1 g \<or> ru_state ?s = Idle \<and> Some g = map_option fst (currentFiber (ru_state r1))"
    then obtain c where c: "c \<in> set (ru_cancels r)" "cancelFiber c = g" "activeFiber r g" by (auto simp: cancelling_def r1)
    then have "c \<noteq> ru_cancels r ! k" using enabled AwaitFiber by auto
    from removed_cancel [OF k c(1) this] c(2) show "cancelling ?s g" by (force simp: cancelling_def)
  next
    fix d
    assume "unsettled r1 d" "Some d \<in> cancelPending ` set (ru_cancels r1) \<or> ru_state ?s = Idle \<and> queuedDone (ru_state r1) = Some d"
    then obtain c where c: "c \<in> set (ru_cancels r)" "cancelPending c = Some d" by (auto simp: r1)
    with \<open>unsettled r1 d\<close> settled AwaitFiber have "c \<noteq> ru_cancels r ! k" by auto
    from removed_cancel [OF k c(1) this] c(2) show "Some d \<in> cancelPending ` set (ru_cancels ?s)" by (force simp: pending_iff)
  next
    fix c
    assume "c \<in> set (ru_cancels ?s)"
    then have "c \<in> set (ru_cancels r1)" by (auto simp: r1 dest: in_set_takeD in_set_dropD)
    with r1(1) show "cancelFiber c < length (ru_fibers r1) \<and> (\<forall>d. cancelPending c = Some d \<longrightarrow>
        Some d \<in> cancelPending ` set (ru_cancels r1) \<or> ru_state ?s = Idle \<and> queuedDone (ru_state r1) = Some d)"
      by (auto simp: runnerInv_def cancelsOk_def pending_iff)
  qed simp_all
  ultimately show ?thesis by (simp add: idleIfCurrent_def)
qed

section \<open>Reachable states\<close>

lemma fiberEnds_inv: "runnerInv r \<Longrightarrow> activeFiber r f \<Longrightarrow> runnerInv (fiberEnds f ex r)"
  by (cases "fi_finaliser (ru_fibers r ! f)") (auto intro: run_ends shell_ends)

lemma own_inv: "own_step r r' \<Longrightarrow> runnerInv r \<Longrightarrow> runnerInv r'"
  by (erule own_stepE) (auto intro: fiberEnds_inv continue_inv)

lemma runner_step_inv: "runner_step r r' \<Longrightarrow> runnerInv r \<Longrightarrow> runnerInv r'"
  by (erule runner_stepE) (auto elim!: call_stepE intro: own_inv cancel_inv ensure_inv shell_inv)

lemma runner_reachable: "runner_step\<^sup>*\<^sup>* make_runner r \<Longrightarrow> runnerInv r"
  by (induction rule: rtranclp_induct) (auto intro: make_inv runner_step_inv)

text \<open>C11: In every reachable state at most one fiber is at work that nobody is cancelling, and it is the fiber of the state of the runner; and
  what a caller gets as the result of a run is the result of a fiber that ran for its deferred value.\<close>
theorem runner_one_at_a_time:
  assumes "runner_step\<^sup>*\<^sup>* make_runner r"
  shows "(\<forall>f. activeFiber r f \<and> \<not> cancelling r f \<longrightarrow> Some f = map_option fst (currentFiber (ru_state r)))
    \<and> (\<forall>d ex. d < length (ru_deferred r) \<and> ru_deferred r ! d = Some (Completed ex) \<longrightarrow>
         (\<exists>x\<in>set (ru_fibers r). \<exists>i. fi_finaliser x = FinishRun i d \<and> fi_exit x = Some ex))"
proof -
  from runner_reachable [OF assms] have "othersCancelled r" "answersOk r" by (simp_all add: runnerInv_def)
  then show ?thesis unfolding othersCancelled_def answersOk_def by blast
qed

section \<open>Coming to rest\<close>

fun cancelWeight :: "cancellation \<Rightarrow> nat" where
  "cancelWeight (AwaitReady f p) = 2"
| "cancelWeight (AwaitFiber f p) = 1"

definition stepsLeft :: "('a, 'w) runner \<Rightarrow> nat" where
  "stepsLeft r = length (filter (\<lambda>x. fi_exit x = None) (ru_fibers r)) + (if queuedDone (ru_state r) = None then 0 else 1)
     + sum_list (map cancelWeight (ru_cancels r))"

lemma ended_count:
  assumes "activeFiber r f"
  shows "length (filter (\<lambda>x. fi_exit x = None) (ru_fibers r)) = Suc (length (filter (\<lambda>x. fi_exit x = None) (ru_fibers (withExit f ex r))))"
proof -
  from assms have f: "f < length (ru_fibers r)" "fi_exit (ru_fibers r ! f) = None" by (simp_all add: activeFiber_def)
  then show ?thesis
    by (subst id_take_nth_drop [OF f(1)]) (simp add: withExit_def upd_conv_take_nth_drop)
qed

lemma settle_steps [simp]: "stepsLeft (settleDeferred d out r) = stepsLeft r" "stepsLeft (complete d ex r) = stepsLeft r"
    "stepsLeft (callback c r) = stepsLeft r" "stepsLeft (idleIfCurrent r) = stepsLeft r"
  by (simp_all add: stepsLeft_def complete_def idleIfCurrent_def)

lemma ends_steps: "activeFiber r f \<Longrightarrow> stepsLeft (fiberEnds f ex r) < stepsLeft r"
  using ended_count [of r f ex]
  by (auto simp: fiberEnds_def withExit_def [symmetric] finishRun_def finishShell_def stepsLeft_def complete_def startRun_def fork_def Let_def
      split: finaliser.split runner_state.split)

lemma mark_count: "markOk mark \<Longrightarrow> length (filter (\<lambda>x. fi_exit x = None) (ru_fibers (withMark mark f r))) =
    length (filter (\<lambda>x. fi_exit x = None) (ru_fibers r))"
proof -
  have count: "length (filter (\<lambda>x. fi_exit x = None) xs) = length (filter (\<lambda>e. snd e = None) (map (\<lambda>x. (fi_finaliser x, fi_exit x)) xs))"
    for xs :: "('c, 'd) fiber list" by (simp add: filter_map o_def)
  assume "markOk mark"
  then show ?thesis by (simp only: count mark_views)
qed

lemma continue_steps:
  assumes k: "k < length (ru_cancels r)"
  shows "stepsLeft (cancelContinues k r) < stepsLeft r"
proof -
  have cs: "ru_cancels r = take k (ru_cancels r) @ ru_cancels r ! k # drop (Suc k) (ru_cancels r)" by (rule id_take_nth_drop [OF k])
  have sum: "sum_list (map cancelWeight (ru_cancels r)) = cancelWeight (ru_cancels r ! k) +
      sum_list (map cancelWeight (take k (ru_cancels r))) + sum_list (map cancelWeight (drop (Suc k) (ru_cancels r)))"
    by (subst cs) simp
  show ?thesis
  proof (cases "ru_cancels r ! k")
    case (AwaitReady f p)
    then show ?thesis using k sum
      by (simp add: cancelContinues_def Let_def marks mark_count stepsLeft_def upd_conv_take_nth_drop)
  next
    case (AwaitFiber f p)
    then have "stepsLeft (cancelContinues k r) = stepsLeft (r\<lparr>ru_cancels := take k (ru_cancels r) @ drop (Suc k) (ru_cancels r)\<rparr>)"
      by (simp add: cancelContinues_def Let_def split: option.splits)
    also have "\<dots> < stepsLeft r" using AwaitFiber sum by (simp add: stepsLeft_def)
    finally show ?thesis .
  qed
qed

lemma own_steps_left: "own_step r r' \<Longrightarrow> stepsLeft r' < stepsLeft r"
  by (erule own_stepE) (simp_all add: ends_steps continue_steps)

lemma at_rest:
  assumes "runnerInv r" "\<And>r'. \<not> own_step r r'"
  shows "ru_state r = Idle \<and> (\<forall>d<length (ru_deferred r). ru_deferred r ! d \<noteq> None)"
proof -
  note r = assms(1) [unfolded runnerInv_def]
  have quiet: "\<not> activeFiber r f" for f using assms(2) step_ends [of r f] by blast
  have "ru_cancels r = []"
  proof (rule ccontr)
    assume "ru_cancels r \<noteq> []"
    then have "0 < length (ru_cancels r)" by simp
    then show False using assms(2) quiet step_ready [of 0 r] step_stopped [of 0 r] by (cases "ru_cancels r ! 0") blast+
  qed
  moreover have "ru_state r = Idle" using r quiet by (cases "ru_state r") (auto simp: handlesOk_def)
  moreover have "\<not> owing r d" for d
  proof
    assume "owing r d"
    then obtain x where "x \<in> set (ru_fibers r)" "fi_exit x = None" by (auto simp: owing_def)
    moreover from this(1) obtain f where "f < length (ru_fibers r)" "ru_fibers r ! f = x" by (auto simp: in_set_conv_nth)
    ultimately show False using quiet [of f] by (simp add: activeFiber_def)
  qed
  ultimately show ?thesis using r by (auto simp: owed_def unsettled_def)
qed

text \<open>C35: From every reachable state, when nobody calls any more, the runner does at most as many steps as \<open>stepsLeft\<close> counts: the ends of
  its fibers and the parts of the cancellations.  When it does none any more it is idle and everybody who waits has an answer.\<close>
theorem runner_comes_to_rest:
  assumes "runner_step\<^sup>*\<^sup>* make_runner r" "(own_step ^^ n) r r'"
  shows "n \<le> stepsLeft r \<and> ((\<nexists>r''. own_step r' r'') \<longrightarrow> ru_state r' = Idle \<and> (\<forall>d<length (ru_deferred r'). ru_deferred r' ! d \<noteq> None))"
proof -
  have "n + stepsLeft r' \<le> stepsLeft r \<and> runnerInv r'" using assms(2)
  proof (induction n arbitrary: r')
    case 0
    then show ?case using runner_reachable [OF assms(1)] by simp
  next
    case (Suc n)
    then obtain s where "(own_step ^^ n) r s" "own_step s r'" by auto
    with Suc.IH [OF this(1)] own_steps_left [OF this(2)] own_inv [OF this(2)] show ?case by simp
  qed
  then show ?thesis using at_rest [of r'] by auto
qed

section \<open>A run after a cancellation\<close>

definition firstRun :: "(nat, string) runner" where
  "firstRun = snd (ensureRunning ''first'' make_runner)"

definition secondRun :: "(nat, string) runner" where
  "secondRun = snd (ensureRunning ''second'' (cancel firstRun))"

lemma first_reachable: "runner_step\<^sup>*\<^sup>* make_runner firstRun"
  unfolding firstRun_def by (rule r_into_rtranclp) (intro step_call step_ensure)

lemma second_reachable: "runner_step\<^sup>*\<^sup>* make_runner secondRun"
  unfolding secondRun_def
  by (rule rtranclp.rtrancl_into_rtrancl [OF rtranclp.rtrancl_into_rtrancl [OF first_reachable step_cancel]]) (intro step_call step_ensure)

lemmas run_eval = secondRun_def firstRun_def make_runner_def ensureRunning_def newDeferred_def startRun_def fork_def cancel_def interruptFiber_def
  Let_def activeFiber_def cancelling_def fiberEnds_def finishRun_def complete_def settleDeferred_def callback_def cancelContinues_def idleIfCurrent_def

theorem runner_one_at_a_time_witness:
  "activeFiber secondRun 0 \<and> cancelling secondRun 0 \<and> activeFiber secondRun 1 \<and>
   (\<nexists>f. f \<noteq> 1 \<and> activeFiber secondRun f \<and> \<not> cancelling secondRun f)"
proof -
  have "activeFiber secondRun 0" "cancelling secondRun 0" "activeFiber secondRun 1" "map_option fst (currentFiber (ru_state secondRun)) = Some 1"
    by (simp_all add: run_eval)
  with runner_one_at_a_time [OF second_reachable] show ?thesis by (metis option.inject)
qed

theorem runner_comes_to_rest_witness:
  "1 \<le> stepsLeft firstRun \<and> ru_state (fiberEnds 0 (Success 7) firstRun) = Idle"
proof -
  have step: "(own_step ^^ 1) firstRun (fiberEnds 0 (Success 7) firstRun)"
    by (simp add: eq_OO) (rule step_ends, simp add: run_eval)
  have "\<not> own_step (fiberEnds 0 (Success 7) firstRun) r" for r
    by (rule notI, erule own_stepE) (simp_all add: run_eval)
  with runner_comes_to_rest [OF first_reachable step] show ?thesis by blast
qed

text \<open>Two pieces of work can be at work at the same time: a cancellation makes the runner idle before the fiber it interrupts has ended, so
  the next caller starts its run beside the one that is still cleaning up.\<close>
theorem cancelled_run_overlaps:
  "\<exists>r :: (nat, string) runner. runner_step\<^sup>*\<^sup>* make_runner r \<and> activeFiber r 0 \<and> activeFiber r 1 \<and> ru_state r \<noteq> Idle"
proof -
  have "activeFiber secondRun 0 \<and> activeFiber secondRun 1 \<and> ru_state secondRun \<noteq> Idle" by (simp add: run_eval)
  with second_reachable show ?thesis by blast
qed

end
