(* ===== verification/Run_State_Theorems.thy ===== *)
theory Run_State_Theorems
  imports Run_State Runner_Theorems
begin

text \<open>
  Sessions and their runners: as long as nobody cancels, a session has at most one piece of work, whatever runners it had before; after a
  cancellation it can have two that nobody is cancelling.
\<close>

section \<open>Without cancellations\<close>

definition objectOk :: "('a, 'w) runner \<Rightarrow> bool" where
  "objectOk r \<longleftrightarrow> runnerInv r \<and> ru_cancels r = []"

definition sessionsOk :: "('a, 'w) run_state \<Rightarrow> bool" where
  "sessionsOk s \<longleftrightarrow> (\<forall>k<length (rs_objects s). objectOk (snd (rs_objects s ! k))
       \<and> (rs_runners s (fst (rs_objects s ! k)) = Some k \<or> ru_state (snd (rs_objects s ! k)) = Idle))
     \<and> (\<forall>i k. rs_runners s i = Some k \<longrightarrow> k < length (rs_objects s) \<and> fst (rs_objects s ! k) = i)"

lemma sessionsD:
  assumes "sessionsOk s"
  shows "k < length (rs_objects s) \<Longrightarrow> objectOk (snd (rs_objects s ! k))"
    "k < length (rs_objects s) \<Longrightarrow> rs_runners s (fst (rs_objects s ! k)) = Some k \<or> ru_state (snd (rs_objects s ! k)) = Idle"
    "rs_runners s i = Some k \<Longrightarrow> k < length (rs_objects s) \<and> fst (rs_objects s ! k) = i"
  using assms unfolding sessionsOk_def by blast+

lemma idle_quiet: "objectOk r \<Longrightarrow> ru_state r = Idle \<Longrightarrow> \<not> activeFiber r f"
  by (auto simp: objectOk_def runnerInv_def othersCancelled_def cancelling_def)

lemma callbacks_run: "rs_objects (fold (runCallback i) cs s) = rs_objects s"
    "rs_runners (fold (runCallback i) cs s) = (if OnIdle \<in> set cs then (rs_runners s)(i := None) else rs_runners s)"
proof -
  have one: "rs_objects (runCallback i c s) = rs_objects s"
    "rs_runners (runCallback i c s) = (if c = OnIdle then (rs_runners s)(i := None) else rs_runners s)" for c and s :: "('a, 'b) run_state"
    by (cases c; simp)+
  show "rs_objects (fold (runCallback i) cs s) = rs_objects s" by (induction cs arbitrary: s) (simp_all add: one)
  show "rs_runners (fold (runCallback i) cs s) = (if OnIdle \<in> set cs then (rs_runners s)(i := None) else rs_runners s)"
    by (induction cs arbitrary: s) (auto simp: one)
qed

text \<open>A change of a runner that calls \<open>OnIdle\<close> only when it leaves the runner idle.\<close>

definition goodChange :: "('a, 'w) runner \<Rightarrow> ('a, 'w) runner \<Rightarrow> bool" where
  "goodChange r r' \<longleftrightarrow> objectOk r' \<and> (\<exists>cs. ru_callbacks r' = ru_callbacks r @ cs \<and> (OnIdle \<in> set cs \<longrightarrow> ru_state r' = Idle))"

lemma changed_sessions:
  assumes s: "sessionsOk s" and k: "k < length (rs_objects s)" and good: "goodChange (snd (rs_objects s ! k)) r'"
    and owner: "rs_runners s (fst (rs_objects s ! k)) = Some k"
  shows "sessionsOk (withRunner k r' s)"
proof -
  obtain i r where obj: "rs_objects s ! k = (i, r)" by fastforce
  obtain cs where cs: "ru_callbacks r' = ru_callbacks r @ cs" "OnIdle \<in> set cs \<longrightarrow> ru_state r' = Idle" and ok: "objectOk r'"
    using good obj by (auto simp: goodChange_def)
  have new: "rs_objects (withRunner k r' s) = (rs_objects s)[k := (i, r')]"
    "rs_runners (withRunner k r' s) = (if OnIdle \<in> set cs then (rs_runners s)(i := None) else rs_runners s)"
    using obj cs(1) by (simp_all add: withRunner_def callbacks_run)
  show ?thesis
    unfolding sessionsOk_def new
  proof (intro conjI allI impI)
    fix j
    assume "j < length ((rs_objects s)[k := (i, r')])"
    then have j: "j < length (rs_objects s)" by simp
    show "objectOk (snd ((rs_objects s)[k := (i, r')] ! j))" using s j ok by (cases "j = k") (simp_all add: sessionsOk_def)
    show "(if OnIdle \<in> set cs then (rs_runners s)(i := None) else rs_runners s) (fst ((rs_objects s)[k := (i, r')] ! j)) = Some j \<or>
        ru_state (snd ((rs_objects s)[k := (i, r')] ! j)) = Idle"
    proof (cases "j = k")
      case True
      then show ?thesis using cs(2) owner obj k by simp
    next
      case False
      with s j have "rs_runners s (fst (rs_objects s ! j)) = Some j \<or> ru_state (snd (rs_objects s ! j)) = Idle" by (simp add: sessionsOk_def)
      with False owner obj show ?thesis by auto
    qed
  next
    fix a j
    assume "(if OnIdle \<in> set cs then (rs_runners s)(i := None) else rs_runners s) a = Some j"
    then have "rs_runners s a = Some j" by (auto split: if_splits)
    from sessionsD(3) [OF s this] obj show "j < length ((rs_objects s)[k := (i, r')])" "fst ((rs_objects s)[k := (i, r')] ! j) = a"
      by (cases "j = k"; simp)+
  qed
qed

lemma ensure_good: "objectOk r \<Longrightarrow> goodChange r (snd (ensureRunning work r))"
  using ensure_inv [of r work]
  by (auto simp: goodChange_def objectOk_def ensureRunning_def startRun_def newDeferred_def fork_def Let_def split: runner_state.splits)

lemma shell_good: "objectOk r \<Longrightarrow> goodChange r (snd (startShell work ready r))"
  using shell_inv [of r work ready]
  by (auto simp: goodChange_def objectOk_def startShell_def callback_def fork_def Let_def split: runner_state.splits)

lemma settle_callbacks [simp]: "ru_callbacks (settleDeferred d out r) = ru_callbacks r" "ru_callbacks (complete d ex r) = ru_callbacks r"
    "ru_cancels (complete d ex r) = ru_cancels r" "ru_state (complete d ex r) = ru_state r"
  by (simp_all add: complete_def settleDeferred_def split: option.splits)

lemma own_good:
  assumes "own_step r r'" "objectOk r"
  shows "goodChange r r'"
  using assms(1)
proof cases
  case (step_ends f ex)
  have "runnerInv r'" using own_inv [OF assms(1)] assms(2) by (simp add: objectOk_def)
  moreover have "ru_cancels (fiberEnds f ex r) = ru_cancels r \<and> (\<exists>cs. ru_callbacks (fiberEnds f ex r) = ru_callbacks r @ cs \<and>
      (OnIdle \<in> set cs \<longrightarrow> ru_state (fiberEnds f ex r) = Idle))"
    by (simp add: fiberEnds_def finishRun_def finishShell_def callback_def startRun_def fork_def Let_def split: finaliser.split runner_state.split)
  ultimately show ?thesis using assms(2) step_ends(1) by (simp add: goodChange_def objectOk_def)
qed (use assms(2) in \<open>simp_all add: objectOk_def\<close>)

lemma session_entry:
  assumes "sessionsOk s" "sessionRunner i s = (k, s')"
  shows "sessionsOk s' \<and> k < length (rs_objects s') \<and> rs_runners s' (fst (rs_objects s' ! k)) = Some k"
proof (cases "rs_runners s i")
  case None
  with assms(2) have k: "k = length (rs_objects s)" and s': "s' = s\<lparr>rs_runners := (rs_runners s)(i \<mapsto> length (rs_objects s)),
      rs_objects := rs_objects s @ [(i, make_runner)]\<rparr>" by (auto simp: sessionRunner_def)
  have "objectOk make_runner" by (simp add: objectOk_def make_inv) (simp add: make_runner_def)
  have "sessionsOk s'"
    unfolding sessionsOk_def
  proof (intro conjI allI impI)
    fix j
    assume "j < length (rs_objects s')"
    then consider "j < length (rs_objects s)" | "j = length (rs_objects s)" by (fastforce simp: s' less_Suc_eq)
    then have "objectOk (snd (rs_objects s' ! j)) \<and> (rs_runners s' (fst (rs_objects s' ! j)) = Some j \<or> ru_state (snd (rs_objects s' ! j)) = Idle)"
    proof cases
      case 1
      with assms(1) have "objectOk (snd (rs_objects s ! j))"
        "rs_runners s (fst (rs_objects s ! j)) = Some j \<or> ru_state (snd (rs_objects s ! j)) = Idle" by (simp_all add: sessionsD)
      with 1 None show ?thesis by (auto simp: s' nth_append)
    next
      case 2
      with \<open>objectOk make_runner\<close> show ?thesis by (simp add: s')
    qed
    then show "objectOk (snd (rs_objects s' ! j))" "rs_runners s' (fst (rs_objects s' ! j)) = Some j \<or> ru_state (snd (rs_objects s' ! j)) = Idle"
      by blast+
  next
    fix a j
    assume "rs_runners s' a = Some j"
    then have "a = i \<and> j = length (rs_objects s) \<or> rs_runners s a = Some j" by (auto simp: s' split: if_splits)
    moreover have "rs_runners s a = Some j \<Longrightarrow> j < length (rs_objects s) \<and> fst (rs_objects s ! j) = a" by (rule sessionsD(3) [OF assms(1)])
    ultimately show "j < length (rs_objects s')" "fst (rs_objects s' ! j) = a" by (auto simp: s' nth_append)
  qed
  then show ?thesis by (simp add: k s')
next
  case (Some j)
  with assms sessionsD(3) [OF assms(1) Some] show ?thesis by (auto simp: sessionRunner_def)
qed

lemma session_ok: "session_step s s' \<Longrightarrow> sessionsOk s \<Longrightarrow> sessionsOk s'"
proof (induction rule: session_step.induct)
  case (session_ensure s i work)
  obtain k s1 where entry: "sessionRunner i s = (k, s1)" by fastforce
  from session_entry [OF session_ensure this] have s1: "sessionsOk s1" "k < length (rs_objects s1)" "rs_runners s1 (fst (rs_objects s1 ! k)) = Some k"
    by simp_all
  then have "objectOk (snd (rs_objects s1 ! k))" by (simp add: sessionsD)
  from changed_sessions [OF s1(1,2) ensure_good [OF this] s1(3)] show ?case
    by (simp add: ensureRunning_session_def entry split_def Let_def)
next
  case (session_shell s i work ready)
  obtain k s1 where entry: "sessionRunner i s = (k, s1)" by fastforce
  from session_entry [OF session_shell this] have s1: "sessionsOk s1" "k < length (rs_objects s1)" "rs_runners s1 (fst (rs_objects s1 ! k)) = Some k"
    by simp_all
  then have "objectOk (snd (rs_objects s1 ! k))" by (simp add: sessionsD)
  from changed_sessions [OF s1(1,2) shell_good [OF this] s1(3)] show ?case
    by (simp add: startShell_session_def entry split_def Let_def)
next
  case (session_own k s r')
  then have ok: "objectOk (snd (rs_objects s ! k))" by (simp add: sessionsD)
  have "ru_state (snd (rs_objects s ! k)) \<noteq> Idle"
    using session_own.hyps(2)
    by cases (use idle_quiet [OF ok] ok in \<open>auto simp: objectOk_def\<close>)
  with sessionsD(2) [OF session_own.prems session_own.hyps(1)] have "rs_runners s (fst (rs_objects s ! k)) = Some k" by blast
  with changed_sessions [OF session_own.prems session_own.hyps(1) own_good [OF session_own.hyps(2) ok]] show ?case by simp
qed

text \<open>C10: As long as nobody cancels, a session has at most one piece of work, however many runners it has had.\<close>
theorem session_runs_alone:
  assumes "session_step\<^sup>*\<^sup>* emptyRunState s"
    and "k < length (rs_objects s)" "activeFiber (snd (rs_objects s ! k)) f"
    and "l < length (rs_objects s)" "activeFiber (snd (rs_objects s ! l)) g"
    and "fst (rs_objects s ! k) = fst (rs_objects s ! l)"
  shows "k = l \<and> f = g"
proof -
  from assms(1) have s: "sessionsOk s"
  proof (induction rule: rtranclp_induct)
    case base
    show ?case by (simp add: sessionsOk_def emptyRunState_def)
  qed (rule session_ok)
  have owner: "rs_runners s (fst (rs_objects s ! j)) = Some j" if "j < length (rs_objects s)" "activeFiber (snd (rs_objects s ! j)) h" for j h
  proof -
    from s that(1) have "objectOk (snd (rs_objects s ! j))"
      "rs_runners s (fst (rs_objects s ! j)) = Some j \<or> ru_state (snd (rs_objects s ! j)) = Idle" by (simp_all add: sessionsD)
    with idle_quiet [OF this(1)] that(2) show ?thesis by blast
  qed
  have "rs_runners s (fst (rs_objects s ! l)) = Some k" using owner [OF assms(2,3)] by (simp only: assms(6))
  then have "Some k = Some l" by (rule trans [OF sym owner [OF assms(4,5)]])
  then have "k = l" by simp
  moreover have "objectOk (snd (rs_objects s ! k))" by (rule sessionsD(1) [OF s assms(2)])
  then have current: "Some h = map_option fst (currentFiber (ru_state (snd (rs_objects s ! k))))" if "activeFiber (snd (rs_objects s ! k)) h" for h
    using that by (fastforce simp: objectOk_def runnerInv_def othersCancelled_def cancelling_def)
  have "activeFiber (snd (rs_objects s ! k)) g" using assms(5) \<open>k = l\<close> by (simp only:)
  then have "Some f = Some g" by (rule trans [OF current [OF assms(3)] current [symmetric]])
  then have "f = g" by simp
  ultimately show ?thesis by simp
qed

section \<open>An example, and cancellations\<close>

definition oneSession :: "(nat, string) run_state" where
  "oneSession = snd (ensureRunning_session ''ses_1'' ''first'' emptyRunState)"

lemma one_reachable: "session_step\<^sup>*\<^sup>* emptyRunState oneSession"
  unfolding oneSession_def by (rule r_into_rtranclp) (rule session_ensure)

lemmas session_eval = ensureRunning_session_def sessionRunner_def withRunner_def emptyRunState_def cancel_session_def busy_def run_eval
  status_set_def emptyStatus_def attachQueued_def

theorem session_runs_alone_witness:
  "activeFiber (snd (rs_objects oneSession ! 0)) 0 \<and> (\<nexists>f. f \<noteq> 0 \<and> activeFiber (snd (rs_objects oneSession ! 0)) f)"
proof -
  have work: "0 < length (rs_objects oneSession)" "activeFiber (snd (rs_objects oneSession ! 0)) 0"
    by (simp_all add: oneSession_def session_eval)
  from session_runs_alone [OF one_reachable work(1) _ work refl] work(2) show ?thesis by blast
qed

text \<open>A session that was cancelled: the runner that is cancelling starts the second run; the second run ends and takes the entry of the session
  away, the third caller gets a new runner; then the first piece of work ends, and the cancellation, which finds its runner idle, takes
  the entry of the new runner away; the fourth caller starts beside the third.\<close>

definition cancelledSession :: "(nat, string) run_state" where
  "cancelledSession =
     (let s1 = cancel_session ''ses_1'' oneSession;
          s2 = snd (ensureRunning_session ''ses_1'' ''second'' s1);
          s3 = withRunner 0 (fiberEnds 1 (Success 2) (snd (rs_objects s2 ! 0))) s2;
          s4 = snd (ensureRunning_session ''ses_1'' ''third'' s3);
          s5 = withRunner 0 (fiberEnds 0 (Failure [Interrupt]) (snd (rs_objects s4 ! 0))) s4;
          s6 = withRunner 0 (cancelContinues 0 (snd (rs_objects s5 ! 0))) s5 in
      snd (ensureRunning_session ''ses_1'' ''fourth'' s6))"

lemma cancelled_value:
  "length (rs_objects cancelledSession) = 3"
  "fst (rs_objects cancelledSession ! 1) = ''ses_1''" "fst (rs_objects cancelledSession ! 2) = ''ses_1''"
  "activeFiber (snd (rs_objects cancelledSession ! 1)) 0" "activeFiber (snd (rs_objects cancelledSession ! 2)) 0"
  "ru_cancels (snd (rs_objects cancelledSession ! 1)) = []" "ru_cancels (snd (rs_objects cancelledSession ! 2)) = []"
  by code_simp+

lemma own_reachable:
  assumes "cancelling_step\<^sup>*\<^sup>* emptyRunState s" "k < length (rs_objects s)" "own_step (snd (rs_objects s ! k)) r"
  shows "cancelling_step\<^sup>*\<^sup>* emptyRunState (withRunner k r s)"
  using assms(1) plain_step [OF session_own [OF assms(2,3)]] by (rule rtranclp.rtrancl_into_rtrancl)

lemma ensure_reachable:
  "cancelling_step\<^sup>*\<^sup>* emptyRunState s \<Longrightarrow> cancelling_step\<^sup>*\<^sup>* emptyRunState (snd (ensureRunning_session i w s))"
  by (erule rtranclp.rtrancl_into_rtrancl) (rule plain_step [OF session_ensure])

text \<open>C36: After a cancellation a session can have two pieces of work, of two runners, that nobody is cancelling: the late end of the
  cancellation takes the entry of the new runner away.\<close>
theorem cancelled_session_runs_twice:
  "\<exists>s :: (nat, string) run_state. cancelling_step\<^sup>*\<^sup>* emptyRunState s \<and>
     (\<exists>k l. k \<noteq> l \<and> k < length (rs_objects s) \<and> l < length (rs_objects s) \<and> fst (rs_objects s ! k) = fst (rs_objects s ! l)
        \<and> (\<exists>f. activeFiber (snd (rs_objects s ! k)) f) \<and> ru_cancels (snd (rs_objects s ! k)) = []
        \<and> (\<exists>f. activeFiber (snd (rs_objects s ! l)) f) \<and> ru_cancels (snd (rs_objects s ! l)) = [])"
proof (rule exI, rule conjI)
  define s1 where "s1 = cancel_session ''ses_1'' oneSession"
  define s2 where "s2 = snd (ensureRunning_session ''ses_1'' ''second'' s1)"
  define s3 where "s3 = withRunner 0 (fiberEnds 1 (Success (2 :: nat)) (snd (rs_objects s2 ! 0))) s2"
  define s4 where "s4 = snd (ensureRunning_session ''ses_1'' ''third'' s3)"
  define s5 where "s5 = withRunner 0 (fiberEnds 0 (Failure [Interrupt]) (snd (rs_objects s4 ! 0))) s4"
  define s6 where "s6 = withRunner 0 (cancelContinues 0 (snd (rs_objects s5 ! 0))) s5"
  have "cancelling_step\<^sup>*\<^sup>* emptyRunState oneSession" unfolding oneSession_def by (rule ensure_reachable) simp
  then have "cancelling_step\<^sup>*\<^sup>* emptyRunState s1" unfolding s1_def using session_cancel by (rule rtranclp.rtrancl_into_rtrancl)
  then have "cancelling_step\<^sup>*\<^sup>* emptyRunState s2" unfolding s2_def by (rule ensure_reachable)
  then have "cancelling_step\<^sup>*\<^sup>* emptyRunState s3" unfolding s3_def
  proof (rule own_reachable)
    show "0 < length (rs_objects s2)" unfolding s2_def s1_def by code_simp
    have "activeFiber (snd (rs_objects s2 ! 0)) 1" unfolding s2_def s1_def by code_simp
    then show "own_step (snd (rs_objects s2 ! 0)) (fiberEnds 1 (Success 2) (snd (rs_objects s2 ! 0)))" by (rule step_ends)
  qed
  then have "cancelling_step\<^sup>*\<^sup>* emptyRunState s4" unfolding s4_def by (rule ensure_reachable)
  then have "cancelling_step\<^sup>*\<^sup>* emptyRunState s5" unfolding s5_def
  proof (rule own_reachable)
    show "0 < length (rs_objects s4)" unfolding s4_def s3_def s2_def s1_def by code_simp
    have "activeFiber (snd (rs_objects s4 ! 0)) 0" unfolding s4_def s3_def s2_def s1_def by code_simp
    then show "own_step (snd (rs_objects s4 ! 0)) (fiberEnds 0 (Failure [Interrupt]) (snd (rs_objects s4 ! 0)))" by (rule step_ends)
  qed
  then have "cancelling_step\<^sup>*\<^sup>* emptyRunState s6" unfolding s6_def
  proof (rule own_reachable)
    show "0 < length (rs_objects s5)" unfolding s5_def s4_def s3_def s2_def s1_def by code_simp
    have stopped: "0 < length (ru_cancels (snd (rs_objects s5 ! 0)))" "ru_cancels (snd (rs_objects s5 ! 0)) ! 0 = AwaitFiber 0 None"
      "\<not> activeFiber (snd (rs_objects s5 ! 0)) 0"
      unfolding s5_def s4_def s3_def s2_def s1_def by code_simp+
    then show "own_step (snd (rs_objects s5 ! 0)) (cancelContinues 0 (snd (rs_objects s5 ! 0)))" by (rule step_stopped)
  qed
  then have "cancelling_step\<^sup>*\<^sup>* emptyRunState (snd (ensureRunning_session ''ses_1'' ''fourth'' s6))" by (rule ensure_reachable)
  moreover have "snd (ensureRunning_session ''ses_1'' ''fourth'' s6) = cancelledSession"
    by (simp add: cancelledSession_def Let_def s1_def s2_def s3_def s4_def s5_def s6_def)
  ultimately show "cancelling_step\<^sup>*\<^sup>* emptyRunState cancelledSession" by simp
  show "\<exists>k l. k \<noteq> l \<and> k < length (rs_objects cancelledSession) \<and> l < length (rs_objects cancelledSession)
      \<and> fst (rs_objects cancelledSession ! k) = fst (rs_objects cancelledSession ! l)
      \<and> (\<exists>f. activeFiber (snd (rs_objects cancelledSession ! k)) f) \<and> ru_cancels (snd (rs_objects cancelledSession ! k)) = []
      \<and> (\<exists>f. activeFiber (snd (rs_objects cancelledSession ! l)) f) \<and> ru_cancels (snd (rs_objects cancelledSession ! l)) = []"
    by (rule exI [of _ 1], rule exI [of _ 2], intro conjI exI [of _ 0])
      (rule cancelled_value | simp only: cancelled_value(1-3) | simp)+
qed

end
