(* ===== verification/Compaction.thy ===== *)
theory Compaction
  imports Frames Patch
begin

text \<open>
  The compaction of a session (\<^verbatim>\<open>packages/cli-host/src/session/compaction.ts\<close>, \<^verbatim>\<open>overflow.ts\<close>, and \<open>filterCompacted\<close> of
  \<^verbatim>\<open>message-v2.ts\<close>): when it is due, which messages are summarised and which are kept, the transcript that is sent to the model, the
  outputs that are pruned, and the messages that are read afterwards.  Counts of tokens are natural numbers.  The limit of the output of
  models and the estimate of the messages after the last answer are parameters; of a message the fields that this code reads are kept.
\<close>

section \<open>Messages\<close>

datatype compaction_phase = Manual | PreTurn | MidTurn

datatype compaction_reason = ContextLimit | ModelDownshift | UserRequested | Overflow

record compaction_part =
  cp_auto :: bool
  cp_phase :: "compaction_phase option"
  cp_reason :: "compaction_reason option"
  cp_overflow :: "bool option"
  cp_tail_start_id :: "string option"

datatype tool_state =
    ToolPending
  | ToolRunning "string option"
  | ToolCompleted string string "nat option"
  | ToolError string

datatype part_body =
    TextPart string bool bool
  | FilePart string "string option" string
  | AgentPart string
  | PatchPart "string list"
  | ToolPart string tool_state
  | RetryPart nat string
  | CompactionPart compaction_part
  | OtherPart string

record message_part =
  mp_id :: string
  mp_body :: part_body

record tokens =
  tk_total :: "nat option"
  tk_input :: nat
  tk_output :: nat
  tk_reasoning :: nat
  tk_cacheRead :: nat
  tk_cacheWrite :: nat

record assistant_info =
  as_parentID :: string
  as_summary :: bool
  as_finish :: bool
  as_error :: bool
  as_tokens :: tokens

datatype message_info = User | Assistant assistant_info

record message =
  mg_id :: string
  mg_info :: message_info
  mg_parts :: "message_part list"

definition isUser :: "message \<Rightarrow> bool" where
  "isUser m \<longleftrightarrow> mg_info m = User"

fun isCompactionPart :: "message_part \<Rightarrow> bool" where
  "isCompactionPart p = (case mp_body p of CompactionPart c \<Rightarrow> True | _ \<Rightarrow> False)"

definition hasCompaction :: "message \<Rightarrow> bool" where
  "hasCompaction m \<longleftrightarrow> list_ex isCompactionPart (mg_parts m)"

definition compactionOf :: "message \<Rightarrow> compaction_part option" where
  "compactionOf m = (case find isCompactionPart (mg_parts m) of Some p \<Rightarrow> (case mp_body p of CompactionPart c \<Rightarrow> Some c | _ \<Rightarrow> None) | None \<Rightarrow> None)"

text \<open>The request whose answer is a finished summary.\<close>

definition summaryParent :: "message \<Rightarrow> string option" where
  "summaryParent m = (case mg_info m of
       Assistant a \<Rightarrow> if as_summary a \<and> as_finish a \<and> \<not> as_error a then Some (as_parentID a) else None
     | User \<Rightarrow> None)"

section \<open>When a compaction is due\<close>

definition estimate :: "string \<Rightarrow> nat" where
  "estimate input = (length input + 2) div 4"

record model_limit =
  ml_context :: nat
  ml_input :: "nat option"
  ml_output :: nat

record compaction_config =
  cc_auto :: "bool option"
  cc_prune :: bool
  cc_reserved :: "nat option"
  cc_auto_limit :: "nat option"
  cc_bodyAfterPrefix :: bool
  cc_tail_turns :: "int option"
  cc_preserve_recent_tokens :: "nat option"

definition tokenCount :: "tokens \<Rightarrow> nat" where
  "tokenCount t = (case tk_total t of
       Some n \<Rightarrow> if n \<noteq> 0 then n else tk_input t + tk_output t + tk_cacheRead t + tk_cacheWrite t
     | None \<Rightarrow> tk_input t + tk_output t + tk_cacheRead t + tk_cacheWrite t)"

definition bodyAfterPrefixTokenCount :: "tokens \<Rightarrow> nat" where
  "bodyAfterPrefixTokenCount t = (case tk_total t of
       Some n \<Rightarrow> if n \<noteq> 0 then n - tk_cacheRead t else tk_input t + tk_output t + tk_cacheWrite t
     | None \<Rightarrow> tk_input t + tk_output t + tk_cacheWrite t)"

definition hasUsage :: "tokens \<Rightarrow> bool" where
  "hasUsage t \<longleftrightarrow> tokenCount t > 0"

definition zeroTokens :: tokens where
  "zeroTokens = \<lparr> tk_total = None, tk_input = 0, tk_output = 0, tk_reasoning = 0, tk_cacheRead = 0, tk_cacheWrite = 0 \<rparr>"

definition addInputTokens :: "tokens \<Rightarrow> nat \<Rightarrow> tokens" where
  "addInputTokens t n = (if n = 0 then t else t\<lparr>tk_total := map_option (\<lambda>counted. counted + n) (tk_total t), tk_input := tk_input t + n\<rparr>)"

definition tokenStatus :: "(message list \<Rightarrow> nat) \<Rightarrow> message list \<Rightarrow> tokens" where
  "tokenStatus estimateMessages messages =
     (let answered = (\<lambda>m. case mg_info m of Assistant a \<Rightarrow> as_finish a \<and> \<not> as_error a | User \<Rightarrow> False);
          later = rev (takeWhile (\<lambda>m. \<not> answered m) (rev messages)) in
      case dropWhile (\<lambda>m. \<not> answered m) (rev messages) of
        [] \<Rightarrow> addInputTokens zeroTokens (estimateMessages messages)
      | latest # _ \<Rightarrow> (case mg_info latest of Assistant a \<Rightarrow> addInputTokens (as_tokens a) (estimateMessages later) | User \<Rightarrow> zeroTokens))"

definition resolvedContext :: "model_limit \<Rightarrow> nat" where
  "resolvedContext model =
     (if ml_context model = 0 then 0
      else (case ml_input model of Some i \<Rightarrow> if i \<noteq> 0 then min (ml_context model) i else ml_context model | None \<Rightarrow> ml_context model))"

definition maxOutputTokens :: "nat \<Rightarrow> model_limit \<Rightarrow> nat" where
  "maxOutputTokens outputTokenMax model =
     (if min (ml_output model) outputTokenMax \<noteq> 0 then min (ml_output model) outputTokenMax else outputTokenMax)"

text \<open>The limits: hard and automatic.  Nine tenths of an integer are rounded down.\<close>

definition limits :: "nat \<Rightarrow> compaction_config \<Rightarrow> model_limit \<Rightarrow> nat \<times> nat" where
  "limits outputTokenMax cfg model =
     (let context = resolvedContext model in
      if context = 0 then (0, 0)
      else (let reserved = (case cc_reserved cfg of Some n \<Rightarrow> n | None \<Rightarrow> min 20000 (maxOutputTokens outputTokenMax model)) in
            (context - reserved, case cc_auto_limit cfg of Some n \<Rightarrow> n | None \<Rightarrow> 9 * context div 10)))"

definition usable :: "nat \<Rightarrow> compaction_config \<Rightarrow> model_limit \<Rightarrow> nat" where
  "usable outputTokenMax cfg model = min (fst (limits outputTokenMax cfg model)) (snd (limits outputTokenMax cfg model))"

definition isOverflow :: "nat \<Rightarrow> compaction_config \<Rightarrow> tokens \<Rightarrow> model_limit \<Rightarrow> bool" where
  "isOverflow outputTokenMax cfg tokens model =
     (if cc_auto cfg = Some False then False
      else if resolvedContext model = 0 then False
      else (let fullCount = tokenCount tokens; limit = limits outputTokenMax cfg model in
            if fullCount \<ge> fst limit then True
            else (if cc_bodyAfterPrefix cfg then bodyAfterPrefixTokenCount tokens else fullCount) \<ge> snd limit))"

section \<open>The transcript\<close>

definition summaryText :: "message \<Rightarrow> string option" where
  "summaryText m =
     (let texts = concat (map (\<lambda>p. case mp_body p of TextPart t s i \<Rightarrow> [trim t] | _ \<Rightarrow> []) (mg_parts m));
          text = trim (join (newline @ newline) (filter (\<lambda>t. t \<noteq> []) texts)) in
      if text \<noteq> [] then Some text else None)"

definition truncateCompactionError :: "string \<Rightarrow> string" where
  "truncateCompactionError text =
     (if length text \<le> 300 then text
      else take 300 text @ '' [truncated '' @ natDigits (length text - 300) @ '' chars]'')"

definition summarizeToolPart :: "string \<Rightarrow> tool_state \<Rightarrow> string" where
  "summarizeToolPart tool state =
     (case state of
        ToolCompleted title out compacted \<Rightarrow> (if trim title \<noteq> [] then ''Tool: '' @ tool @ '' ('' @ trim title @ '')'' else ''Tool: '' @ tool)
      | ToolError err \<Rightarrow>
          (let text = trim (truncateCompactionError err) in
           if text \<noteq> [] then ''Tool error: '' @ tool @ '' - '' @ text else ''Tool error: '' @ tool)
      | ToolRunning title \<Rightarrow>
          (case title of
             Some t \<Rightarrow> if trim t \<noteq> [] then ''Tool running: '' @ tool @ '' ('' @ trim t @ '')'' else ''Tool running: '' @ tool
           | None \<Rightarrow> ''Tool running: '' @ tool)
      | ToolPending \<Rightarrow> ''Tool pending: '' @ tool)"

definition isMedia :: "string \<Rightarrow> bool" where
  "isMedia mime \<longleftrightarrow> startsWith mime ''image/'' \<or> mime = ''application/pdf''"

definition attachedLabel :: "string \<Rightarrow> string option \<Rightarrow> string" where
  "attachedLabel mime filename = ''[Attached '' @ mime @ '': '' @ (case filename of Some f \<Rightarrow> f | None \<Rightarrow> ''file'') @ '']''"

definition trimmedText :: "string \<Rightarrow> string list" where
  "trimmedText text = (if trim text \<noteq> [] then [trim text] else [])"

definition userPartLines :: "bool \<Rightarrow> part_body \<Rightarrow> string list" where
  "userPartLines includeAttachmentData body =
     (case body of
        TextPart text synthetic ignored \<Rightarrow> if \<not> ignored \<and> \<not> synthetic then trimmedText text else []
      | FilePart mime filename url \<Rightarrow>
          (let label = attachedLabel mime filename in
           if includeAttachmentData \<and> isMedia mime then [label @ newline @ url] else [label])
      | AgentPart name \<Rightarrow> [''[Agent: '' @ name @ '']'']
      | _ \<Rightarrow> [])"

definition assistantPartLines :: "part_body \<Rightarrow> string list" where
  "assistantPartLines body =
     (case body of
        TextPart text synthetic ignored \<Rightarrow> if \<not> synthetic then trimmedText text else []
      | PatchPart files \<Rightarrow> [''Applied patch: '' @ join '', '' files]
      | ToolPart tool state \<Rightarrow> [summarizeToolPart tool state]
      | RetryPart attempt message \<Rightarrow> [''Retry '' @ natDigits attempt @ '': '' @ message]
      | _ \<Rightarrow> [])"

definition compactionMessageText :: "bool \<Rightarrow> message \<Rightarrow> string option" where
  "compactionMessageText includeAttachmentData m =
     (let lines = (if isUser m then ''## User'' # concat (map (userPartLines includeAttachmentData \<circ> mp_body) (mg_parts m))
                   else ''## Assistant'' # concat (map (assistantPartLines \<circ> mp_body) (mg_parts m))) in
      if length lines > 1 then Some (join (newline @ newline) lines) else None)"

text \<open>The text of the one message that is sent to the model, or none.\<close>

definition compactionHistoryToModelMessages :: "bool \<Rightarrow> message list \<Rightarrow> string option" where
  "compactionHistoryToModelMessages includeAttachmentData messages =
     (let transcript = trim (join (newline @ newline @ ''---'' @ newline @ newline)
            (concat (map (\<lambda>m. case compactionMessageText includeAttachmentData m of Some t \<Rightarrow> [t] | None \<Rightarrow> []) messages))) in
      if transcript = [] then None else Some transcript)"

definition estimateTranscript :: "message list \<Rightarrow> nat" where
  "estimateTranscript messages =
     estimate (case compactionHistoryToModelMessages True messages of
       None \<Rightarrow> ''[]''
     | Some t \<Rightarrow> ''[{\"role\":\"user\",\"content\":[{\"type\":\"text\",\"text\":'' @ jsonString t @ ''}]}]'')"

section \<open>What is summarised and what is kept\<close>

record completed_compaction =
  co_userIndex :: nat
  co_assistantIndex :: nat
  co_summary :: "string option"

definition lastIndex :: "('a \<Rightarrow> bool) \<Rightarrow> 'a list \<Rightarrow> nat option" where
  "lastIndex P xs = (case filter (\<lambda>i. P (xs ! i)) [0..<length xs] of [] \<Rightarrow> None | is \<Rightarrow> Some (last is))"

definition completedCompactions :: "message list \<Rightarrow> completed_compaction list" where
  "completedCompactions messages =
     concat (map (\<lambda>i. case summaryParent (messages ! i) of
         None \<Rightarrow> []
       | Some parent \<Rightarrow>
           (case lastIndex (\<lambda>m. isUser m \<and> hasCompaction m \<and> mg_id m = parent) messages of
              None \<Rightarrow> []
            | Some u \<Rightarrow> [\<lparr> co_userIndex = u, co_assistantIndex = i, co_summary = summaryText (messages ! i) \<rparr>]))
       [0..<length messages])"

definition buildPrompt :: "string \<Rightarrow> string option \<Rightarrow> string list \<Rightarrow> string" where
  "buildPrompt template previousSummary context =
     join (newline @ newline)
       ((case previousSummary of
           Some s \<Rightarrow> join newline [''Update the anchored summary below using the conversation history above.'',
             ''Preserve still-true details, remove stale details, and merge in the new facts.'', ''<previous-summary>'', s, ''</previous-summary>'']
         | None \<Rightarrow> ''Create a new anchored summary from the conversation history above.'') # template # context)"

definition preserveRecentBudget :: "nat \<Rightarrow> compaction_config \<Rightarrow> model_limit \<Rightarrow> nat" where
  "preserveRecentBudget outputTokenMax cfg model =
     (case cc_preserve_recent_tokens cfg of
        Some n \<Rightarrow> n
      | None \<Rightarrow> min 8000 (max 2000 (usable outputTokenMax cfg model div 4)))"

record turn =
  tu_start :: nat
  tu_end :: nat
  tu_id :: string

record tail =
  ta_start :: nat
  ta_id :: string

definition startsTurn :: "message \<Rightarrow> bool" where
  "startsTurn m \<longleftrightarrow> isUser m \<and> \<not> hasCompaction m"

text \<open>A turn ends where the next one starts.\<close>

fun closeTurns :: "nat \<Rightarrow> (nat \<times> string) list \<Rightarrow> turn list" where
  "closeTurns n [] = []"
| "closeTurns n [(i, d)] = [\<lparr> tu_start = i, tu_end = n, tu_id = d \<rparr>]"
| "closeTurns n ((i, d) # (j, e) # rest) = \<lparr> tu_start = i, tu_end = j, tu_id = d \<rparr> # closeTurns n ((j, e) # rest)"

definition turns :: "message list \<Rightarrow> turn list" where
  "turns messages = closeTurns (length messages)
     (map (\<lambda>i. (i, mg_id (messages ! i))) (filter (\<lambda>i. startsTurn (messages ! i)) [0..<length messages]))"

definition sliceMessages :: "message list \<Rightarrow> nat \<Rightarrow> nat \<Rightarrow> message list" where
  "sliceMessages messages a b = take (b - a) (drop a messages)"

text \<open>The estimate of a list of messages is an argument of the next two, as in the source.\<close>

definition splitTurn :: "(message list \<Rightarrow> nat) \<Rightarrow> message list \<Rightarrow> turn \<Rightarrow> int \<Rightarrow> tail option" where
  "splitTurn est messages turn budget =
     (if budget \<le> 0 then None
      else if tu_end turn - tu_start turn \<le> 1 then None
      else map_option (\<lambda>start. \<lparr> ta_start = start, ta_id = mg_id (messages ! start) \<rparr>)
             (find (\<lambda>start. int (est (sliceMessages messages start (tu_end turn))) \<le> budget) [tu_start turn + 1..<tu_end turn]))"

text \<open>The loop over the recent turns, from the last one: what is kept so far and its size.\<close>

fun keepTurns :: "(message list \<Rightarrow> nat) \<Rightarrow> message list \<Rightarrow> nat \<Rightarrow> turn list \<Rightarrow> nat \<Rightarrow> tail option \<Rightarrow> tail option" where
  "keepTurns est messages budget [] counted keep = keep"
| "keepTurns est messages budget (turn # earlier) counted keep =
     (let size = est (sliceMessages messages (tu_start turn) (tu_end turn)) in
      if counted + size \<le> budget
      then keepTurns est messages budget earlier (counted + size) (Some \<lparr> ta_start = tu_start turn, ta_id = tu_id turn \<rparr>)
      else (case splitTurn est messages turn (int budget - int counted) of Some split \<Rightarrow> Some split | None \<Rightarrow> keep))"

record selection =
  se_head :: "message list"
  se_tail_start_id :: "string option"

definition select_messages :: "(message list \<Rightarrow> nat) \<Rightarrow> nat \<Rightarrow> compaction_config \<Rightarrow> model_limit \<Rightarrow> message list \<Rightarrow> selection" where
  "select_messages est outputTokenMax cfg model messages =
     (let limit = (case cc_tail_turns cfg of Some n \<Rightarrow> n | None \<Rightarrow> 2);
          everything = \<lparr> se_head = messages, se_tail_start_id = None \<rparr> in
      if limit \<le> 0 then everything
      else (let all = turns messages in
        if all = [] then everything
        else (let recent = drop (length all - nat limit) all in
          case keepTurns est messages (preserveRecentBudget outputTokenMax cfg model) (rev recent) 0 None of
            None \<Rightarrow> everything
          | Some keep \<Rightarrow>
              if ta_start keep = 0 then everything
              else \<lparr> se_head = take (ta_start keep) messages, se_tail_start_id = Some (ta_id keep) \<rparr>)))"

section \<open>Pruning\<close>

definition pruneMinimum :: nat where
  "pruneMinimum = 20000"

definition pruneProtect :: nat where
  "pruneProtect = 40000"

text \<open>The outputs of a message, from the last part: the counted so far, and the positions of the outputs to prune.  The flag: an output that
  was pruned before stops the search.\<close>

fun pruneParts :: "nat \<Rightarrow> (nat \<times> message_part) list \<Rightarrow> nat \<Rightarrow> (nat \<times> nat) list \<Rightarrow> nat \<times> (nat \<times> nat) list \<times> bool" where
  "pruneParts m [] counted found = (counted, found, False)"
| "pruneParts m ((i, p) # ps) counted found =
     (case mp_body p of
        ToolPart tool (ToolCompleted title out compacted) \<Rightarrow>
          if tool = ''skill'' then pruneParts m ps counted found
          else if compacted \<noteq> None \<and> compacted \<noteq> Some 0 then (counted, found, True)
          else (let counted' = counted + estimate out in
                pruneParts m ps counted' (if counted' \<le> pruneProtect then found else found @ [(m, i)]))
      | _ \<Rightarrow> pruneParts m ps counted found)"

definition enumerate_parts :: "message \<Rightarrow> (nat \<times> message_part) list" where
  "enumerate_parts m = rev (zip [0..<length (mg_parts m)] (mg_parts m))"

text \<open>The messages from the last one, with their positions.\<close>

fun pruneMessages :: "(nat \<times> message) list \<Rightarrow> nat \<Rightarrow> nat \<Rightarrow> (nat \<times> nat) list \<Rightarrow> (nat \<times> nat) list" where
  "pruneMessages [] turnCount counted found = found"
| "pruneMessages ((k, m) # ms) turnCount counted found =
     (let turnCount' = (if isUser m then turnCount + 1 else turnCount) in
      if turnCount' < 2 then pruneMessages ms turnCount' counted found
      else if (case mg_info m of Assistant a \<Rightarrow> as_summary a | User \<Rightarrow> False) then found
      else (let (counted', found', stop) = pruneParts k (enumerate_parts m) counted found in
            if stop then found' else pruneMessages ms turnCount' counted' found'))"

definition toPrune :: "message list \<Rightarrow> (nat \<times> nat) list" where
  "toPrune msgs = pruneMessages (rev (zip [0..<length msgs] msgs)) 0 0 []"

fun outputEstimate :: "message_part \<Rightarrow> nat" where
  "outputEstimate p = (case mp_body p of ToolPart tool (ToolCompleted title out compacted) \<Rightarrow> estimate out | _ \<Rightarrow> 0)"

definition prunedTokens :: "message list \<Rightarrow> nat" where
  "prunedTokens msgs = sum_list (map (\<lambda>(k, i). outputEstimate (mg_parts (msgs ! k) ! i)) (toPrune msgs))"

definition markCompacted :: "nat \<Rightarrow> message_part \<Rightarrow> message_part" where
  "markCompacted now p = (case mp_body p of
       ToolPart tool (ToolCompleted title out compacted) \<Rightarrow> p\<lparr>mp_body := ToolPart tool (ToolCompleted title out (Some now))\<rparr>
     | _ \<Rightarrow> p)"

definition markPart :: "nat \<Rightarrow> nat \<times> nat \<Rightarrow> message list \<Rightarrow> message list" where
  "markPart now ki msgs = (case ki of (k, i) \<Rightarrow>
     msgs[k := (msgs ! k)\<lparr>mg_parts := (mg_parts (msgs ! k))[i := markCompacted now (mg_parts (msgs ! k) ! i)]\<rparr>])"

definition prune :: "compaction_config \<Rightarrow> nat \<Rightarrow> message list \<Rightarrow> message list" where
  "prune cfg now msgs =
     (if \<not> cc_prune cfg then msgs
      else if prunedTokens msgs > pruneMinimum then fold (markPart now) (toPrune msgs) msgs
      else msgs)"

section \<open>What is read after a compaction\<close>

text \<open>\<open>filterCompacted\<close> reads from the last message; \<open>retain\<close> is the message at which the kept tail starts.\<close>

fun takeCompacted :: "message list \<Rightarrow> string set \<Rightarrow> string option \<Rightarrow> message list" where
  "takeCompacted [] completed retain = []"
| "takeCompacted (m # ms) completed retain = m #
     (case retain of
        Some r \<Rightarrow> if mg_id m = r then [] else takeCompacted ms completed retain
      | None \<Rightarrow>
          if isUser m \<and> mg_id m \<in> completed then
            (case compactionOf m of
               None \<Rightarrow> takeCompacted ms completed None
             | Some c \<Rightarrow> (case cp_tail_start_id c of
                   None \<Rightarrow> []
                 | Some [] \<Rightarrow> []
                 | Some r \<Rightarrow> if mg_id m = r then [] else takeCompacted ms completed (Some r)))
          else takeCompacted ms (case summaryParent m of Some parent \<Rightarrow> insert parent completed | None \<Rightarrow> completed) None)"

definition filterCompacted :: "message list \<Rightarrow> message list" where
  "filterCompacted msgs = rev (takeCompacted msgs {} None)"

section \<open>Processing a compaction\<close>

definition defaultPhase :: "bool \<Rightarrow> compaction_phase" where
  "defaultPhase automatic = (if automatic then PreTurn else Manual)"

definition defaultReason :: "bool \<Rightarrow> bool \<Rightarrow> compaction_reason" where
  "defaultReason automatic overflow = (if overflow then Overflow else if automatic then ContextLimit else UserRequested)"

text \<open>After an overflow the last request before the compaction is left out and replayed, unless nothing else would remain.\<close>

definition replaySelection :: "string \<Rightarrow> bool \<Rightarrow> message list \<Rightarrow> message option \<times> message list" where
  "replaySelection parentID overflow messages =
     (if \<not> overflow then (None, messages)
      else (let before = (case find (\<lambda>i. mg_id (messages ! i) = parentID) [0..<length messages] of Some idx \<Rightarrow> idx | None \<Rightarrow> 0) in
        case lastIndex startsTurn (take before messages) of
          None \<Rightarrow> (None, messages)
        | Some i \<Rightarrow>
            if list_ex startsTurn (take i messages) then (Some (messages ! i), take i messages) else (None, messages)))"

definition withoutParent :: "string \<Rightarrow> message list \<Rightarrow> message list" where
  "withoutParent parentID messages =
     (if messages \<noteq> [] \<and> mg_id (last messages) = parentID then butlast messages else messages)"

text \<open>The requests and the summaries of completed compactions are hidden from the next one; what is not, from a position on.\<close>

definition hiddenIndices :: "message list \<Rightarrow> nat list" where
  "hiddenIndices history = concat (map (\<lambda>item. [co_userIndex item, co_assistantIndex item]) (completedCompactions history))"

definition visibleFrom :: "nat \<Rightarrow> message list \<Rightarrow> message list" where
  "visibleFrom k history = map (\<lambda>i. history ! i) (filter (\<lambda>i. i \<notin> set (hiddenIndices history)) [k..<length history])"

record compaction_plan =
  pl_replay :: "message option"
  pl_previousSummary :: "string option"
  pl_selected :: selection
  pl_transcript :: "string option"

text \<open>The parent must be a message of the user.\<close>

definition compactionPlan :: "nat \<Rightarrow> compaction_config \<Rightarrow> model_limit \<Rightarrow> string \<Rightarrow> bool \<Rightarrow> message list \<Rightarrow> compaction_plan option" where
  "compactionPlan outputTokenMax cfg model parentID overflow input =
     (case find (\<lambda>m. mg_id m = parentID) (rev input) of
        None \<Rightarrow> None
      | Some parent \<Rightarrow>
          if \<not> isUser parent then None
          else
            (let (replay, messages) = replaySelection parentID overflow input;
                 history = (if hasCompaction parent then withoutParent parentID messages else messages);
                 prior = completedCompactions history;
                 selected = select_messages estimateTranscript outputTokenMax cfg model (visibleFrom 0 history) in
             Some \<lparr> pl_replay = replay,
               pl_previousSummary = (if prior = [] then None else co_summary (last prior)),
               pl_selected = selected,
               pl_transcript = compactionHistoryToModelMessages False (se_head selected) \<rparr>))"

text \<open>After the summary the first compaction part of the request gets the identifier at which the kept messages start, when some are kept.\<close>

definition setTail :: "string \<Rightarrow> message_part \<Rightarrow> message_part" where
  "setTail tail p = (case mp_body p of CompactionPart c \<Rightarrow> p\<lparr>mp_body := CompactionPart (c\<lparr>cp_tail_start_id := Some tail\<rparr>)\<rparr> | _ \<Rightarrow> p)"

definition recordTail :: "string option \<Rightarrow> message \<Rightarrow> message" where
  "recordTail tail request =
     (case tail of
        None \<Rightarrow> request
      | Some r \<Rightarrow>
          if r = [] then request
          else (case find (\<lambda>i. isCompactionPart (mg_parts request ! i)) [0..<length (mg_parts request)] of
                  None \<Rightarrow> request
                | Some i \<Rightarrow> request\<lparr>mg_parts := (mg_parts request)[i := setTail r (mg_parts request ! i)]\<rparr>))"

text \<open>The parts of the message that is replayed: no compaction, and media become a label.\<close>

definition replayParts :: "message \<Rightarrow> part_body list" where
  "replayParts m = concat (map (\<lambda>p. case mp_body p of
       CompactionPart c \<Rightarrow> []
     | FilePart mime filename url \<Rightarrow> if isMedia mime then [TextPart (attachedLabel mime filename) False False] else [mp_body p]
     | body \<Rightarrow> [body]) (mg_parts m))"

end
