(* ===== verification/Compaction_Theorems.thy ===== *)
theory Compaction_Theorems
  imports Compaction
begin

text \<open>
  What a compaction guarantees: it is due exactly at the usable size, what it keeps fits the budget and what it summarises is the rest,
  what is read afterwards is what was kept, attachments do not get into the transcript, and pruning leaves the last two turns and the
  protected outputs alone.
\<close>

section \<open>When it is due\<close>

text \<open>Without the scope of the body, a compaction is due exactly when the tokens reach the usable size of the model.\<close>
theorem overflow_at_usable:
  assumes "\<not> cc_bodyAfterPrefix cfg"
  shows "isOverflow otm cfg t model \<longleftrightarrow> cc_auto cfg \<noteq> Some False \<and> resolvedContext model \<noteq> 0 \<and> usable otm cfg model \<le> tokenCount t"
  using assms by (auto simp: isOverflow_def usable_def Let_def)

section \<open>What is kept\<close>

text \<open>Turns from the last one: each ends where the one after it starts.\<close>

fun chained :: "message list \<Rightarrow> nat \<Rightarrow> turn list \<Rightarrow> bool" where
  "chained ms n [] = True"
| "chained ms n (t # ts) = (tu_start t < tu_end t \<and> tu_end t = n \<and> n \<le> length ms \<and> tu_id t = mg_id (ms ! tu_start t) \<and> chained ms (tu_start t) ts)"

lemma chained_append:
  "chained ms n (ts @ [t]) \<longleftrightarrow> chained ms n ts \<and> tu_start t < tu_end t \<and> tu_end t = (if ts = [] then n else tu_start (last ts))
     \<and> tu_end t \<le> length ms \<and> tu_id t = mg_id (ms ! tu_start t)"
  by (induction ts arbitrary: n) auto

lemma chained_take: "chained ms n ts \<Longrightarrow> chained ms n (take k ts)"
  by (induction ts arbitrary: n k) (auto simp: take_Cons split: nat.splits)

lemma closed_chained:
  "sorted_wrt (<) (map fst xs) \<Longrightarrow> \<forall>(i, d)\<in>set xs. i < n \<and> d = mg_id (ms ! i) \<Longrightarrow> n \<le> length ms \<Longrightarrow>
     chained ms n (rev (closeTurns n xs)) \<and> (xs \<noteq> [] \<longrightarrow> closeTurns n xs \<noteq> [] \<and> tu_start (hd (closeTurns n xs)) = fst (hd xs))"
  by (induction n xs rule: closeTurns.induct) (auto simp: chained_append last_rev)

lemma turns_chained: "chained ms (length ms) (rev (turns ms))"
proof -
  let ?xs = "map (\<lambda>i. (i, mg_id (ms ! i))) (filter (\<lambda>i. startsTurn (ms ! i)) [0..<length ms])"
  have "sorted_wrt (<) (map fst ?xs)" by (simp add: o_def sorted_wrt_filter)
  moreover have "\<forall>(i, d)\<in>set ?xs. i < length ms \<and> d = mg_id (ms ! i)" by auto
  ultimately show ?thesis unfolding turns_def using closed_chained [of ?xs "length ms" ms] by blast
qed

lemma slice_drop: "a \<le> b \<Longrightarrow> sliceMessages ms a b @ drop b ms = drop a ms"
  by (simp add: sliceMessages_def) (metis append_take_drop_id drop_drop le_add_diff_inverse2)

text \<open>Cutting the rest of the messages into pieces whose estimates fit the budget.\<close>

definition fits :: "(message list \<Rightarrow> nat) \<Rightarrow> nat \<Rightarrow> message list \<Rightarrow> bool" where
  "fits est n rest \<longleftrightarrow> (\<exists>pieces. concat pieces = rest \<and> sum_list (map est pieces) \<le> n)"

definition keptAt :: "message list \<Rightarrow> nat \<Rightarrow> tail option \<Rightarrow> bool" where
  "keptAt ms pos keep \<longleftrightarrow> (keep = None \<and> pos = length ms) \<or> (pos < length ms \<and> keep = Some \<lparr> ta_start = pos, ta_id = mg_id (ms ! pos) \<rparr>)"

lemma split_found:
  assumes "splitTurn est ms t b = Some k" "tu_end t \<le> length ms"
  shows "tu_start t < ta_start k \<and> ta_start k < tu_end t \<and> ta_id k = mg_id (ms ! ta_start k)
    \<and> int (est (sliceMessages ms (ta_start k) (tu_end t))) \<le> b"
  using assms by (auto simp: splitTurn_def find_Some_iff split: if_splits)

lemma keepTurns_fits:
  "chained ms pos ts \<Longrightarrow> keptAt ms pos keep \<Longrightarrow> counted \<le> b \<Longrightarrow> concat pieces = drop pos ms \<Longrightarrow> sum_list (map est pieces) = counted \<Longrightarrow>
   keepTurns est ms b ts counted keep = Some k \<Longrightarrow>
   ta_start k < length ms \<and> ta_id k = mg_id (ms ! ta_start k) \<and> fits est b (drop (ta_start k) ms)"
proof (induction ts arbitrary: pos keep counted pieces)
  case Nil
  then show ?case by (auto simp: keptAt_def fits_def)
next
  case (Cons t ts)
  let ?piece = "sliceMessages ms (tu_start t) (tu_end t)"
  from Cons.prems(1) have t: "tu_start t < pos" "tu_end t = pos" "pos \<le> length ms" "tu_id t = mg_id (ms ! tu_start t)" "chained ms (tu_start t) ts"
    by auto
  show ?case
  proof (cases "counted + est ?piece \<le> b")
    case True
    have "keptAt ms (tu_start t) (Some \<lparr> ta_start = tu_start t, ta_id = tu_id t \<rparr>)" using t by (simp add: keptAt_def)
    moreover have "concat (?piece # pieces) = drop (tu_start t) ms" using t Cons.prems(4) slice_drop [of "tu_start t" pos ms] by simp
    moreover have "keepTurns est ms b ts (counted + est ?piece) (Some \<lparr> ta_start = tu_start t, ta_id = tu_id t \<rparr>) = Some k"
      using Cons.prems(6) True by (simp add: Let_def)
    ultimately show ?thesis using Cons.IH [OF t(5) _ True, of _ "?piece # pieces"] Cons.prems(5) by simp
  next
    case False
    show ?thesis
    proof (cases "splitTurn est ms t (int b - int counted)")
      case None
      with False Cons.prems(6) have "keep = Some k" by (simp add: Let_def)
      with Cons.prems(2-5) show ?thesis by (auto simp: keptAt_def fits_def)
    next
      case (Some split)
      with False Cons.prems(6) have k: "k = split" by (simp add: Let_def)
      from split_found [OF Some] t have s: "tu_start t < ta_start k" "ta_start k < pos" "ta_id k = mg_id (ms ! ta_start k)"
        "counted + est (sliceMessages ms (ta_start k) pos) \<le> b" by (auto simp: k)
      have "concat (sliceMessages ms (ta_start k) pos # pieces) = drop (ta_start k) ms"
        using s(2) Cons.prems(4) slice_drop [of "ta_start k" pos ms] by simp
      with s t(3) Cons.prems(5) show ?thesis
        by (auto simp: fits_def intro!: exI [of _ "sliceMessages ms (ta_start k) pos # pieces"])
    qed
  qed
qed

text \<open>C38: The messages that a compaction keeps: they are the last ones, cut off at a message whose identifier is recorded, and they fit the
  budget for recent messages in pieces; everything before them is what is summarised.\<close>
theorem compaction_keeps_recent:
  assumes "se_tail_start_id (select_messages est otm cfg model ms) = Some r"
  shows "\<exists>s. 0 < s \<and> s < length ms \<and> se_head (select_messages est otm cfg model ms) = take s ms \<and> r = mg_id (ms ! s)
    \<and> fits est (preserveRecentBudget otm cfg model) (drop s ms)"
proof -
  let ?n = "nat (case cc_tail_turns cfg of Some n \<Rightarrow> n | None \<Rightarrow> 2)" and ?b = "preserveRecentBudget otm cfg model"
  from assms obtain k where k: "keepTurns est ms ?b (rev (drop (length (turns ms) - ?n) (turns ms))) 0 None = Some k"
    and sel: "select_messages est otm cfg model ms = \<lparr> se_head = take (ta_start k) ms, se_tail_start_id = Some (ta_id k) \<rparr>" "ta_start k \<noteq> 0"
    by (auto simp: select_messages_def Let_def split: if_splits option.splits)
  have "rev (drop (length (turns ms) - ?n) (turns ms)) = take ?n (rev (turns ms))"
    by (simp add: take_rev)
  with chained_take [OF turns_chained] have chain: "chained ms (length ms) (rev (drop (length (turns ms) - ?n) (turns ms)))" by metis
  have start: "keptAt ms (length ms) None" by (simp add: keptAt_def)
  from keepTurns_fits [OF chain start _ _ _ k, of "[]"] have "ta_start k < length ms \<and> ta_id k = mg_id (ms ! ta_start k) \<and>
      fits est ?b (drop (ta_start k) ms)" by simp
  with sel assms show ?thesis by auto
qed

lemma nothing_kept: "se_tail_start_id (select_messages est otm cfg model ms) = None \<Longrightarrow> se_head (select_messages est otm cfg model ms) = ms"
  by (auto simp: select_messages_def Let_def split: if_splits option.splits)

section \<open>What is read afterwards\<close>

lemma later_read: "\<forall>m\<in>set later. summaryParent m = None \<Longrightarrow> takeCompacted (later @ ms) {} None = later @ takeCompacted ms {} None"
  by (induction later) auto

lemma tail_read:
  "r \<notin> mg_id ` set ms \<Longrightarrow> takeCompacted (ms @ m # rest) completed (Some r) = ms @ takeCompacted (m # rest) completed (Some r)"
  by (induction ms) auto

lemma summary_not_user: "summaryParent m \<noteq> None \<Longrightarrow> \<not> isUser m"
  by (auto simp: summaryParent_def isUser_def)

lemma find_index:
  "find P xs = map_option (\<lambda>i. xs ! i) (find (\<lambda>i. P (xs ! i)) [0..<length xs])"
proof (induction xs)
  case (Cons x xs)
  have "find (\<lambda>i. P ((x # xs) ! i)) [1..<Suc (length xs)] = map_option Suc (find (\<lambda>i. P (xs ! i)) [0..<length xs])"
  proof -
    have "[1..<Suc (length xs)] = map Suc [0..<length xs]" by (simp add: map_Suc_upt)
    moreover have "find Q (map Suc ns) = map_option Suc (find (\<lambda>n. Q (Suc n)) ns)" for Q ns by (induction ns) auto
    ultimately show ?thesis by simp
  qed
  with Cons.IH show ?case by (simp add: upt_conv_Cons option.map_comp o_def del: upt_Suc)
qed simp

lemma recordTail_facts [simp]:
  "mg_id (recordTail tail request) = mg_id request" "isUser (recordTail tail request) = isUser request"
  by (simp_all add: recordTail_def isUser_def split: option.split)

lemma find_past: "\<forall>x\<in>set xs. \<not> P x \<Longrightarrow> find P (xs @ ys) = find P ys"
  by (induction xs) auto

lemma upt_split: "k \<le> n \<Longrightarrow> [0..<n] = [0..<k] @ [k..<n]"
  by (metis le0 le_Suc_ex upt_add_eq_append)

lemma find_update_first:
  assumes "find P xs = Some x" "find (\<lambda>i. P (xs ! i)) [0..<length xs] = Some n" "P y"
  shows "find P (xs[n := y]) = Some y"
proof -
  from assms(2) have n: "n < length xs" "\<forall>j<n. \<not> P (xs ! j)" by (auto simp: find_Some_iff)
  then have "\<forall>x\<in>set (take n xs). \<not> P x" by (auto simp: in_set_conv_nth)
  then have "find P (take n xs @ y # drop (Suc n) xs) = Some y"
    by (simp add: find_past assms(3))
  with n(1) show ?thesis by (simp add: upd_conv_take_nth_drop)
qed

lemma recordTail_compaction:
  assumes "compactionOf request = Some c" and "r \<noteq> []"
  shows "compactionOf (recordTail (Some r) request) = Some (c\<lparr>cp_tail_start_id := Some r\<rparr>)"
proof -
  let ?ps = "mg_parts request"
  from assms(1) obtain p where p: "find isCompactionPart ?ps = Some p" "mp_body p = CompactionPart c"
    by (auto simp del: isCompactionPart.simps simp: compactionOf_def split: option.splits part_body.splits)
  have "map_option (\<lambda>i. ?ps ! i) (find (\<lambda>i. isCompactionPart (?ps ! i)) [0..<length ?ps]) = Some p"
    by (rule trans [OF find_index [symmetric] p(1)])
  then obtain n where n: "find (\<lambda>i. isCompactionPart (?ps ! i)) [0..<length ?ps] = Some n" "p = ?ps ! n"
    by (auto simp del: isCompactionPart.simps)
  have "setTail r p = p\<lparr>mp_body := CompactionPart (c\<lparr>cp_tail_start_id := Some r\<rparr>)\<rparr>" by (simp add: setTail_def p(2))
  then have "isCompactionPart (setTail r p)" and body: "mp_body (setTail r p) = CompactionPart (c\<lparr>cp_tail_start_id := Some r\<rparr>)" by simp_all
  from find_update_first [OF p(1) n(1) this(1)] body n show ?thesis
    using assms(2) by (simp add: recordTail_def compactionOf_def del: isCompactionPart.simps)
qed

lemma visible_parts:
  assumes "k \<le> length history"
  shows "visibleFrom 0 history = map (\<lambda>i. history ! i) (filter (\<lambda>i. i \<notin> set (hiddenIndices history)) [0..<k]) @ visibleFrom k history"
  unfolding visibleFrom_def by (subst upt_split [OF assms]) simp

text \<open>The message at which the visible messages are cut, in the history itself.\<close>

lemma visible_cut:
  assumes "s < length (visibleFrom 0 history)"
  obtains k where "k < length history" "history ! k = visibleFrom 0 history ! s" "take s (visibleFrom 0 history) @ visibleFrom k history = visibleFrom 0 history"
proof -
  let ?P = "\<lambda>i. i \<notin> set (hiddenIndices history)"
  let ?idx = "filter ?P [0..<length history]"
  have s: "s < length ?idx" using assms by (simp add: visibleFrom_def)
  define k where "k = ?idx ! s"
  have "k \<in> set ?idx" unfolding k_def using s by (rule nth_mem)
  then have k: "k < length history" "?P k" by auto
  have whole: "?idx = filter ?P [0..<k] @ filter ?P [k..<length history]"
    using k(1) by (subst upt_split [of k]) simp_all
  moreover have "filter ?P [k..<length history] = k # filter ?P [Suc k..<length history]"
    using k by (simp add: upt_conv_Cons)
  ultimately have at: "?idx ! length (filter ?P [0..<k]) = k" "length (filter ?P [0..<k]) < length ?idx" by (simp_all add: nth_append)
  have "distinct ?idx" by simp
  with at s have "s = length (filter ?P [0..<k])" unfolding k_def by (metis nth_eq_iff_index_eq)
  then have "take s (visibleFrom 0 history) = map (\<lambda>i. history ! i) (filter ?P [0..<k])"
    using whole by (simp add: visibleFrom_def take_map)
  with visible_parts [of k history] k(1) have "take s (visibleFrom 0 history) @ visibleFrom k history = visibleFrom 0 history" by simp
  moreover have "history ! k = visibleFrom 0 history ! s" using s by (simp add: visibleFrom_def k_def)
  ultimately show thesis using that k(1) by blast
qed

lemma hidden_is_compaction:
  assumes "i \<in> set (hiddenIndices history)"
  shows "i < length history \<and> (isUser (history ! i) \<and> hasCompaction (history ! i) \<or> summaryParent (history ! i) \<noteq> None)"
proof -
  have last: "u < length history \<and> P (history ! u)" if "lastIndex P history = Some u" for P u
  proof -
    let ?is = "filter (\<lambda>i. P (history ! i)) [0..<length history]"
    from that have "?is \<noteq> []" "u = last ?is" by (auto simp: lastIndex_def split: list.splits)
    then have "u \<in> set ?is" by (metis last_in_set)
    then show ?thesis by simp
  qed
  from assms show ?thesis
    by (auto simp: hiddenIndices_def completedCompactions_def split: option.splits dest!: last [OF sym])
qed

text \<open>C14: Nothing is lost and nothing is read twice, also after earlier compactions. A compaction runs on a history that may have the
  requests and summaries of completed ones, which are hidden from it (and are nothing but such requests and summaries). What is read after it is
  the history from some message on, the request, its summary, and what came later; what it has summarised, followed by what is read of
  the history and not hidden, is all of the history that is not hidden. (This is when no request has to be replayed after an overflow.)\<close>
theorem compaction_reads_the_rest:
  assumes "compactionPlan otm cfg model (mg_id request) overflow (history @ [request]) = Some plan" and "pl_replay plan = None"
    and "distinct (map mg_id (history @ [request, summary]))" and "\<forall>m\<in>set history. mg_id m \<noteq> []"
    and "compactionOf request = Some c" and "cp_tail_start_id c = None"
    and "summaryParent summary = Some (mg_id request)" and "\<forall>m\<in>set later. summaryParent m = None"
    and "request' = recordTail (se_tail_start_id (pl_selected plan)) request"
  shows "\<exists>k\<le>length history. filterCompacted (rev (older @ history @ [request', summary] @ later)) = drop k history @ [request', summary] @ later
    \<and> se_head (pl_selected plan) @ visibleFrom k history = visibleFrom 0 history
    \<and> (\<forall>i\<in>set (hiddenIndices history). hasCompaction (history ! i) \<or> summaryParent (history ! i) \<noteq> None)"
proof -
  let ?sel = "pl_selected plan"
  have found: "find (\<lambda>m. mg_id m = mg_id request) (rev (history @ [request])) = Some request" by simp
  have comp: "hasCompaction request"
    using assms(5) by (auto simp: compactionOf_def hasCompaction_def list_ex_iff find_Some_iff split: option.splits)
  have user: "isUser request" and sel: "?sel = select_messages estimateTranscript otm cfg model (visibleFrom 0 history)"
    using assms(1,2) found comp
    by (auto simp: compactionPlan_def replaySelection_def withoutParent_def Let_def split: if_splits option.splits)
  have hidden: "\<forall>i\<in>set (hiddenIndices history). hasCompaction (history ! i) \<or> summaryParent (history ! i) \<noteq> None"
    using hidden_is_compaction by blast
  have ids: "mg_id request' = mg_id request" "isUser request'" using user by (simp_all add: assms(9))
  have "takeCompacted (summary # request' # rev history @ rev older) {} None =
      summary # takeCompacted (request' # rev history @ rev older) {mg_id request} None"
    using assms(7) summary_not_user [of summary] by simp
  with later_read [of "rev later" "summary # request' # rev history @ rev older"] assms(8)
  have read: "filterCompacted (rev (older @ history @ [request', summary] @ later)) =
      rev (takeCompacted (request' # rev history @ rev older) {mg_id request} None) @ [summary] @ later"
    by (simp add: filterCompacted_def)
  show ?thesis
  proof (cases "se_tail_start_id ?sel")
    case None
    then have "request' = request" "se_head ?sel = visibleFrom 0 history"
      using nothing_kept [of estimateTranscript otm cfg model "visibleFrom 0 history"] by (simp_all add: assms(9) recordTail_def sel)
    with read assms(5,6) user hidden show ?thesis by (intro exI [of _ "length history"]) (simp add: visibleFrom_def)
  next
    case (Some r)
    from compaction_keeps_recent [OF Some [unfolded sel]] obtain s where s: "s < length (visibleFrom 0 history)"
      "se_head ?sel = take s (visibleFrom 0 history)" "r = mg_id (visibleFrom 0 history ! s)" by (auto simp: sel)
    obtain k where k: "k < length history" "history ! k = visibleFrom 0 history ! s"
      "take s (visibleFrom 0 history) @ visibleFrom k history = visibleFrom 0 history" by (rule visible_cut [OF s(1)])
    let ?tail = "drop (Suc k) history"
    have split: "history = take k history @ history ! k # ?tail" by (rule id_take_nth_drop [OF k(1)])
    have "mg_id (history ! k) \<notin> mg_id ` set ?tail"
    proof -
      have "distinct (map mg_id (take k history @ history ! k # ?tail))" using assms(3) split by simp
      then show ?thesis by simp
    qed
    moreover have r: "r \<noteq> []" using assms(4) s(3) k nth_mem [OF k(1)] by simp
    moreover have "mg_id request \<notin> mg_id ` set history" using assms(3) by auto
    then have "r \<noteq> mg_id request" using s(3) k(2) nth_mem [OF k(1)] by (metis image_eqI)
    moreover have "compactionOf request' = Some (c\<lparr>cp_tail_start_id := Some r\<rparr>)"
      unfolding assms(9) Some by (rule recordTail_compaction [OF assms(5) r])
    moreover have "rev history @ rev older = rev ?tail @ history ! k # rev (take k history) @ rev older" by (subst split) simp
    ultimately have "takeCompacted (request' # rev history @ rev older) {mg_id request} None = request' # rev ?tail @ [history ! k]"
      using ids s(3) k(2) tail_read [of r "rev ?tail" "history ! k" "rev (take k history) @ rev older" "{mg_id request}"]
      by (auto split: list.splits)
    then have "filterCompacted (rev (older @ history @ [request', summary] @ later)) = drop k history @ [request', summary] @ later"
      using read Cons_nth_drop_Suc [OF k(1)] by simp
    with k s(2) hidden show ?thesis by (intro exI [of _ k]) simp
  qed
qed

section \<open>The transcript\<close>

text \<open>The content of an attachment is its address.\<close>

fun eraseUrl :: "part_body \<Rightarrow> part_body" where
  "eraseUrl (FilePart mime filename url) = FilePart mime filename []"
| "eraseUrl body = body"

definition eraseUrls :: "message \<Rightarrow> message" where
  "eraseUrls m = m\<lparr>mg_parts := map (\<lambda>p. p\<lparr>mp_body := eraseUrl (mp_body p)\<rparr>) (mg_parts m)\<rparr>"

lemma erased_lines: "userPartLines False (eraseUrl b) = userPartLines False b" "assistantPartLines (eraseUrl b) = assistantPartLines b"
  by (cases b; simp add: userPartLines_def assistantPartLines_def)+

lemma erased_text: "compactionMessageText False (eraseUrls m) = compactionMessageText False m"
  by (simp add: compactionMessageText_def eraseUrls_def isUser_def o_def erased_lines)

text \<open>C39: The contents of the attachments have no influence on the transcript that is sent to be summarised.\<close>
theorem transcript_hides_attachments:
  "compactionHistoryToModelMessages False (map eraseUrls ms) = compactionHistoryToModelMessages False ms"
  by (simp add: compactionHistoryToModelMessages_def o_def erased_text)

section \<open>Pruning\<close>

definition prunable :: "message_part \<Rightarrow> bool" where
  "prunable p \<longleftrightarrow> (\<exists>tool title out c. mp_body p = ToolPart tool (ToolCompleted title out c) \<and> tool \<noteq> ''skill'' \<and> (c = None \<or> c = Some 0))"

lemma prunedParts:
  "(k, i) \<in> set (fst (snd (pruneParts m ps counted found))) \<Longrightarrow> (k, i) \<in> set found \<or> k = m \<and> (\<exists>p. (i, p) \<in> set ps \<and> prunable p)"
proof (induction ps arbitrary: counted found)
  case (Cons jp ps)
  obtain j p where jp: "jp = (j, p)" by fastforce
  have skip: ?case if "pruneParts m (jp # ps) counted found = pruneParts m ps counted' found'" "set found' \<subseteq> insert (m, j) (set found)"
    "(m, j) \<in> set found' \<Longrightarrow> (m, j) \<in> set found \<or> prunable p" for counted' found'
    using Cons.IH [of counted' found'] Cons.prems that jp by auto
  show ?case
  proof (cases "\<exists>tool title out c. mp_body p = ToolPart tool (ToolCompleted title out c)")
    case False
    then have "pruneParts m (jp # ps) counted found = pruneParts m ps counted found"
      by (cases "mp_body p") (auto simp: jp split: tool_state.splits)
    then show ?thesis by (rule skip) auto
  next
    case True
    then obtain tool title out c where body: "mp_body p = ToolPart tool (ToolCompleted title out c)" by blast
    show ?thesis
    proof (cases "tool = ''skill''")
      case True
      with body have "pruneParts m (jp # ps) counted found = pruneParts m ps counted found" by (simp add: jp)
      then show ?thesis by (rule skip) auto
    next
      case other: False
      show ?thesis
      proof (cases "c \<noteq> None \<and> c \<noteq> Some 0")
        case True
        with body other Cons.prems show ?thesis by (simp add: jp)
      next
        case False
        with body other have "pruneParts m (jp # ps) counted found = pruneParts m ps (counted + estimate out)
            (if counted + estimate out \<le> pruneProtect then found else found @ [(m, j)])" by (auto simp: jp Let_def)
        moreover have "prunable p" using body other False by (auto simp: prunable_def)
        ultimately show ?thesis by (intro skip) (auto split: if_splits)
      qed
    qed
  qed
qed simp

text \<open>An output in a list of messages, the last one first, after two requests.\<close>

definition prunedFrom :: "(nat \<times> message) list \<Rightarrow> nat \<Rightarrow> nat \<Rightarrow> nat \<Rightarrow> bool" where
  "prunedFrom ms turnCount k i \<longleftrightarrow> (\<exists>pre m post p. ms = pre @ (k, m) # post \<and> (i, p) \<in> set (enumerate_parts m) \<and> prunable p
     \<and> 2 \<le> turnCount + length (filter (isUser \<circ> snd) (pre @ [(k, m)])))"

lemma prunedFrom_later:
  assumes "prunedFrom ms (if isUser m then turnCount + 1 else turnCount) k i"
  shows "prunedFrom ((j, m) # ms) turnCount k i"
proof -
  from assms obtain pre n post p where h: "ms = pre @ (k, n) # post" "(i, p) \<in> set (enumerate_parts n)" "prunable p"
    "2 \<le> (if isUser m then turnCount + 1 else turnCount) + length (filter (isUser \<circ> snd) (pre @ [(k, n)]))"
    unfolding prunedFrom_def by blast
  have "(j, m) # ms = ((j, m) # pre) @ (k, n) # post" by (simp add: h(1))
  moreover have "2 \<le> turnCount + length (filter (isUser \<circ> snd) (((j, m) # pre) @ [(k, n)]))" using h(4) by (simp split: if_splits)
  ultimately show ?thesis unfolding prunedFrom_def using h(2,3) by blast
qed

lemma prunedFrom_here:
  assumes "(i, p) \<in> set (enumerate_parts m)" "prunable p" "2 \<le> (if isUser m then turnCount + 1 else turnCount)"
  shows "prunedFrom ((k, m) # ms) turnCount k i"
  unfolding prunedFrom_def using assms by (intro exI [of _ "[]"] exI [of _ m] exI [of _ ms] exI [of _ p]) (simp split: if_splits)

lemma prunedMessages:
  "(k, i) \<in> set (pruneMessages ms turnCount counted found) \<Longrightarrow> (k, i) \<in> set found \<or> prunedFrom ms turnCount k i"
proof (induction ms arbitrary: turnCount counted found)
  case (Cons jm ms)
  obtain j m where jm: "jm = (j, m)" by fastforce
  let ?t = "if isUser m then turnCount + 1 else turnCount"
  obtain counted' found' stop where parts: "pruneParts j (enumerate_parts m) counted found = (counted', found', stop)" by (metis prod_cases3)
  have here: "(k, i) \<in> set found \<or> prunedFrom ((j, m) # ms) turnCount k i" if "(k, i) \<in> set found'" "2 \<le> ?t"
    using that(1) prunedParts [of k i j "enumerate_parts m" counted found] parts prunedFrom_here [OF _ _ that(2)] by auto
  show ?case
  proof (cases "?t < 2")
    case True
    then have "pruneMessages (jm # ms) turnCount counted found = pruneMessages ms ?t counted found" by (simp add: jm Let_def)
    with Cons.IH Cons.prems prunedFrom_later jm show ?thesis by metis
  next
    case late: False
    have step: "pruneMessages (jm # ms) turnCount counted found =
        (if case mg_info m of Assistant a \<Rightarrow> as_summary a | User \<Rightarrow> False then found
         else if stop then found' else pruneMessages ms ?t counted' found')"
      using late by (simp add: jm Let_def parts)
    consider "(k, i) \<in> set found" | "(k, i) \<in> set found'" | "(k, i) \<in> set (pruneMessages ms ?t counted' found')"
      using Cons.prems unfolding step by (cases stop; cases "case mg_info m of Assistant a \<Rightarrow> as_summary a | User \<Rightarrow> False") simp_all
    then show ?thesis
    proof cases
      case 3
      with Cons.IH [of ?t counted' found'] have "(k, i) \<in> set found' \<or> prunedFrom ms ?t k i" by blast
      with here late prunedFrom_later jm show ?thesis by (metis not_less)
    qed (use here late jm in auto)
  qed
qed simp

lemma prunedFrom_position:
  assumes "prunedFrom (rev (zip [0..<length msgs] msgs)) 0 k i"
  shows "k < length msgs \<and> (\<exists>p. (i, p) \<in> set (enumerate_parts (msgs ! k)) \<and> prunable p) \<and> 2 \<le> length (filter isUser (drop k msgs))"
proof -
  let ?zs = "zip [0..<length msgs] msgs"
  from assms obtain pre m post p where h: "rev ?zs = pre @ (k, m) # post" "(i, p) \<in> set (enumerate_parts m)" "prunable p"
    "2 \<le> length (filter (isUser \<circ> snd) (pre @ [(k, m)]))" by (auto simp: prunedFrom_def)
  have zs: "?zs = rev post @ (k, m) # rev pre" using arg_cong [OF h(1), of rev] by simp
  have len: "length post < length msgs" using arg_cong [OF zs, of length] by simp
  have "?zs ! length post = (k, m)" by (simp add: zs nth_append)
  then have k: "k = length post" "m = msgs ! k" using len by auto
  have "drop k ?zs = (k, m) # rev pre" by (simp add: zs k(1))
  then have "map snd (drop k ?zs) = map snd (rev (pre @ [(k, m)]))" by simp
  then have "drop k msgs = map snd (rev (pre @ [(k, m)]))" by (simp add: drop_map [symmetric])
  then have "length (filter isUser (drop k msgs)) = length (filter (isUser \<circ> snd) (pre @ [(k, m)]))"
    by (simp add: filter_map rev_filter [symmetric] o_def)
  with h k len show ?thesis by auto
qed

lemma enumerated: "(i, p) \<in> set (enumerate_parts m) \<Longrightarrow> i < length (mg_parts m) \<and> p = mg_parts m ! i"
  by (auto simp: enumerate_parts_def set_zip)

lemma mark_twice [simp]: "markCompacted now (markCompacted now p) = markCompacted now p"
  by (auto simp: markCompacted_def split: part_body.splits tool_state.splits)

definition partAt :: "message list \<Rightarrow> nat \<Rightarrow> nat \<Rightarrow> message_part" where
  "partAt msgs k i = mg_parts (msgs ! k) ! i"

lemma mark_length: "length (markPart now ki msgs) = length msgs" "length (mg_parts (markPart now ki msgs ! k)) = length (mg_parts (msgs ! k))"
proof -
  obtain a b where ki: "ki = (a, b)" by fastforce
  show "length (markPart now ki msgs) = length msgs" by (simp add: ki markPart_def)
  show "length (mg_parts (markPart now ki msgs ! k)) = length (mg_parts (msgs ! k))"
    by (cases "a = k"; cases "a < length msgs") (simp_all add: ki markPart_def list_update_beyond)
qed

lemma mark_at:
  assumes "k < length msgs" "i < length (mg_parts (msgs ! k))"
  shows "partAt (markPart now ki msgs) k i = (if ki = (k, i) then markCompacted now (partAt msgs k i) else partAt msgs k i)"
proof -
  obtain a b where ki: "ki = (a, b)" by fastforce
  show ?thesis using assms by (cases "a = k") (auto simp: ki partAt_def markPart_def nth_list_update)
qed

lemma marks_at:
  "k < length msgs \<Longrightarrow> i < length (mg_parts (msgs ! k)) \<Longrightarrow>
    partAt (fold (markPart now) L msgs) k i = (if (k, i) \<in> set L then markCompacted now (partAt msgs k i) else partAt msgs k i)"
  by (induction L arbitrary: msgs) (auto simp: mark_length mark_at)

text \<open>C40: Pruning changes a part only when it is a completed output of a tool that is not protected and was not pruned before, in a message
  before the last two requests; and it does so only when the outputs it takes away are more than the minimum.\<close>
theorem prune_spares_recent:
  assumes "k < length msgs" "i < length (mg_parts (msgs ! k))" "partAt (prune cfg now msgs) k i \<noteq> partAt msgs k i"
  shows "prunable (partAt msgs k i) \<and> 2 \<le> length (filter isUser (drop k msgs)) \<and> pruneMinimum < prunedTokens msgs
    \<and> partAt (prune cfg now msgs) k i = markCompacted now (partAt msgs k i)"
proof -
  from assms(3) have run: "prune cfg now msgs = fold (markPart now) (toPrune msgs) msgs" "pruneMinimum < prunedTokens msgs"
    by (auto simp: prune_def split: if_splits)
  with assms marks_at [OF assms(1,2), of now "toPrune msgs"] have found: "(k, i) \<in> set (toPrune msgs)"
    "partAt (prune cfg now msgs) k i = markCompacted now (partAt msgs k i)" by (auto split: if_splits)
  from prunedMessages [of k i _ 0 0 "[]"] found(1) have "prunedFrom (rev (zip [0..<length msgs] msgs)) 0 k i"
    by (auto simp: toPrune_def)
  from prunedFrom_position [OF this] obtain p where "(i, p) \<in> set (enumerate_parts (msgs ! k))" "prunable p"
    "2 \<le> length (filter isUser (drop k msgs))" by blast
  with enumerated [OF this(1)] run(2) found(2) show ?thesis by (auto simp: partAt_def)
qed

section \<open>Examples\<close>

definition userMessage :: "string \<Rightarrow> part_body list \<Rightarrow> message" where
  "userMessage i bodies = \<lparr> mg_id = i, mg_info = User, mg_parts = map (\<lambda>b. \<lparr> mp_id = ''prt'', mp_body = b \<rparr>) bodies \<rparr>"

definition assistantMessage :: "string \<Rightarrow> string \<Rightarrow> bool \<Rightarrow> part_body list \<Rightarrow> message" where
  "assistantMessage i parent summary bodies = \<lparr> mg_id = i,
     mg_info = Assistant \<lparr> as_parentID = parent, as_summary = summary, as_finish = True, as_error = False, as_tokens = zeroTokens \<rparr>,
     mg_parts = map (\<lambda>b. \<lparr> mp_id = ''prt'', mp_body = b \<rparr>) bodies \<rparr>"

definition sampleConfig :: compaction_config where
  "sampleConfig = \<lparr> cc_auto = None, cc_prune = True, cc_reserved = None, cc_auto_limit = None, cc_bodyAfterPrefix = False,
     cc_tail_turns = Some 1, cc_preserve_recent_tokens = Some 100 \<rparr>"

definition sampleModel :: model_limit where
  "sampleModel = \<lparr> ml_context = 200000, ml_input = None, ml_output = 32000 \<rparr>"

definition sampleHistory :: "message list" where
  "sampleHistory = [userMessage ''1'' [TextPart ''a'' False False], assistantMessage ''2'' ''1'' False [TextPart ''b'' False False],
     userMessage ''3'' [TextPart ''c'' False False], assistantMessage ''4'' ''3'' False [TextPart ''d'' False False]]"

lemma sample_selection: "select_messages length 32000 sampleConfig sampleModel sampleHistory =
    \<lparr> se_head = take 2 sampleHistory, se_tail_start_id = Some ''3'' \<rparr>"
  by (simp add: select_messages_def sampleConfig_def turns_def sampleHistory_def userMessage_def assistantMessage_def startsTurn_def isUser_def
      hasCompaction_def upt_rec preserveRecentBudget_def sliceMessages_def Let_def)

theorem overflow_at_usable_witness:
  "isOverflow 32000 sampleConfig (zeroTokens\<lparr>tk_input := 180000\<rparr>) sampleModel \<longleftrightarrow> cc_auto sampleConfig \<noteq> Some False
     \<and> resolvedContext sampleModel \<noteq> 0 \<and> usable 32000 sampleConfig sampleModel \<le> tokenCount (zeroTokens\<lparr>tk_input := 180000\<rparr>)"
  by (rule overflow_at_usable) (simp add: sampleConfig_def)

theorem compaction_keeps_recent_witness:
  "\<exists>s. 0 < s \<and> s < length sampleHistory \<and> take 2 sampleHistory = take s sampleHistory \<and> ''3'' = mg_id (sampleHistory ! s)
    \<and> fits length (preserveRecentBudget 32000 sampleConfig sampleModel) (drop s sampleHistory)"
  using compaction_keeps_recent [of length 32000 sampleConfig sampleModel sampleHistory "''3''"] by (simp add: sample_selection)

definition secondHistory :: "message list" where
  "secondHistory = [userMessage ''1'' [TextPart ''a'' False False],
     userMessage ''2'' [CompactionPart \<lparr> cp_auto = True, cp_phase = None, cp_reason = None, cp_overflow = None, cp_tail_start_id = Some ''1'' \<rparr>],
     assistantMessage ''3'' ''2'' True [TextPart ''s'' False False],
     userMessage ''4'' [TextPart ''c'' False False], assistantMessage ''5'' ''4'' False [TextPart ''d'' False False]]"

definition nextCompaction :: message where
  "nextCompaction = userMessage ''6'' [CompactionPart \<lparr> cp_auto = True, cp_phase = None, cp_reason = None, cp_overflow = None, cp_tail_start_id = None \<rparr>]"

theorem compaction_reads_the_rest_witness:
  "\<exists>plan k. compactionPlan 32000 sampleConfig sampleModel ''6'' False (secondHistory @ [nextCompaction]) = Some plan
     \<and> pl_previousSummary plan = Some ''s'' \<and> se_tail_start_id (pl_selected plan) = Some ''4''
     \<and> filterCompacted (rev ([userMessage ''0'' []] @ secondHistory @
         [recordTail (Some ''4'') nextCompaction, assistantMessage ''7'' ''6'' True []] @ [userMessage ''8'' []])) =
         drop k secondHistory @ [recordTail (Some ''4'') nextCompaction, assistantMessage ''7'' ''6'' True []] @ [userMessage ''8'' []]
     \<and> se_head (pl_selected plan) @ visibleFrom k secondHistory = visibleFrom 0 secondHistory"
proof -
  let ?plan = "compactionPlan 32000 sampleConfig sampleModel ''6'' False (secondHistory @ [nextCompaction])"
  have id: "mg_id nextCompaction = ''6''" by (simp add: nextCompaction_def userMessage_def)
  have small: "estimateTranscript [secondHistory ! 3, secondHistory ! 4] \<le> 100"
    and visible: "visibleFrom 0 secondHistory = map (\<lambda>i. secondHistory ! i) [0, 3, 4]"
    and prior: "map co_summary (completedCompactions secondHistory) = [Some ''s'']" by code_simp+
  then have "completedCompactions secondHistory \<noteq> []" "co_summary (last (completedCompactions secondHistory)) = Some ''s''"
    by (auto simp: map_eq_Cons_conv)
  moreover have "turns (visibleFrom 0 secondHistory) = [\<lparr> tu_start = 0, tu_end = 1, tu_id = ''1'' \<rparr>, \<lparr> tu_start = 1, tu_end = 3, tu_id = ''4'' \<rparr>]"
    unfolding visible by code_simp
  then have "se_tail_start_id (select_messages estimateTranscript 32000 sampleConfig sampleModel (visibleFrom 0 secondHistory)) = Some ''4''"
    using small by (simp add: select_messages_def sampleConfig_def preserveRecentBudget_def sliceMessages_def visible Let_def)
  ultimately have "map_option (\<lambda>p. (pl_replay p, pl_previousSummary p, se_tail_start_id (pl_selected p))) ?plan = Some (None, Some ''s'', Some ''4'')"
    by (simp add: compactionPlan_def replaySelection_def withoutParent_def id Let_def)
      (simp add: nextCompaction_def userMessage_def hasCompaction_def isUser_def)
  then obtain plan where plan: "?plan = Some plan" "pl_replay plan = None" "pl_previousSummary plan = Some ''s''"
    "se_tail_start_id (pl_selected plan) = Some ''4''" by auto
  have "distinct (map mg_id (secondHistory @ [nextCompaction, assistantMessage ''7'' ''6'' True []]))" "\<forall>m\<in>set secondHistory. mg_id m \<noteq> []"
    "compactionOf nextCompaction = Some \<lparr> cp_auto = True, cp_phase = None, cp_reason = None, cp_overflow = None, cp_tail_start_id = None \<rparr>"
    "summaryParent (assistantMessage ''7'' ''6'' True []) = Some (mg_id nextCompaction)"
    by (simp_all add: secondHistory_def nextCompaction_def userMessage_def assistantMessage_def compactionOf_def summaryParent_def)
  from compaction_reads_the_rest [where summary = "assistantMessage ''7'' ''6'' True []", OF plan(1) [folded id] plan(2) this(1,2,3) _ this(4) _ refl,
      where later = "[userMessage ''8'' []]" and older = "[userMessage ''0'' []]"] plan
  show ?thesis by (auto simp: summaryParent_def userMessage_def)
qed

definition longText :: string where
  "longText = replicate 240002 (CHR ''x'')"

lemma long_estimate [simp]: "estimate longText = 60001"
  by (simp only: longText_def estimate_def length_replicate)

definition pruneHistory :: "message list" where
  "pruneHistory = [assistantMessage ''1'' ''0'' False [ToolPart ''bash'' (ToolCompleted ''t'' longText None)],
     userMessage ''2'' [], userMessage ''3'' []]"

lemma prune_sample: "prune sampleConfig 7 pruneHistory = markPart 7 (0, 0) pruneHistory"
  by (simp add: prune_def sampleConfig_def toPrune_def pruneHistory_def prunedTokens_def enumerate_parts_def assistantMessage_def userMessage_def
      isUser_def pruneMinimum_def pruneProtect_def Let_def upt_rec)

theorem prune_spares_recent_witness:
  "prunable (partAt pruneHistory 0 0) \<and> 2 \<le> length (filter isUser (drop 0 pruneHistory)) \<and> pruneMinimum < prunedTokens pruneHistory
    \<and> partAt (prune sampleConfig 7 pruneHistory) 0 0 = markCompacted 7 (partAt pruneHistory 0 0)"
proof (rule prune_spares_recent)
  show "partAt (prune sampleConfig 7 pruneHistory) 0 0 \<noteq> partAt pruneHistory 0 0"
    unfolding prune_sample by (simp add: partAt_def markPart_def pruneHistory_def assistantMessage_def markCompacted_def)
qed (simp_all add: pruneHistory_def assistantMessage_def)

end
