(* ===== verification/Spec2Isabelle.thy ===== *)
theory Spec2Isabelle
  imports Goal_Theorems Verification Bridge_Theorems Websocket_Theorems Lifecycle_Theorems Turn_Theorems Permission_Theorems
    Patch_Theorems Lock_Theorems Identifiers Edit_Theorems
    Page_Theorems Message_Theorems Event_Theorems Sync_Theorems Run_State_Theorems Compaction_Theorems
begin

text \<open>
  \<^bold>\<open>Verification of interbase\<close>

  interbase is a command line agent with secure remote access: sessions of an agent run on a machine, tools act on its
  files after the user has permitted it, goals keep an agent at work over many turns, and trusted devices take part
  through a gateway.  The development models the parts that decide what may happen and in which order; each theory
  names the file under \<^verbatim>\<open>src/\<close> it translates, and every definition keeps the name of the function it translates
  where Isabelle allows it.

  \<^bold>\<open>The parts and their theories\<close>

  \<^item> \<^bold>\<open>Shared ground.\<close>  \<open>Prelude\<close>: JavaScript values, strings, insertion-ordered maps, methods that mutate and throw, and the
    locales that carry facts of one step to whole runs (\<open>step_invariant\<close>, \<open>step_monotone\<close>, \<open>relation_monotone\<close>,
    \<open>text_enum\<close>).
  \<^item> \<^bold>\<open>Thread goals\<close> (\<^verbatim>\<open>packages/cli-goal-plugin\<close>, \<^verbatim>\<open>packages/runtime-protocol/src/goal.ts\<close>, \<^verbatim>\<open>goal-state.ts\<close> of the remote
    host).  \<open>Goal_Protocol\<close> has the types and texts, \<open>Goal_Prompts\<close> the prompt templates, \<open>Goal_Store\<close> the memory and the
    JSON store, \<open>Goal_Manager\<close> every method of \<open>ThreadGoalManager\<close>, \<open>Goal_Ops\<close> all of them as one step function.
    \<open>Goal_Invariant\<close> proves what the manager keeps from the contract of a store alone (locale \<open>goal_store_laws\<close>, interpreted for
    both stores); \<open>Goal_Theorems\<close> has the run invariant, the refinement of the memory store by the JSON file (listing included, in the
    order in which JavaScript has the properties of an object), the accounting of steps and budgets, the round trip of snapshots.  The
    stores are described for sessions whose ids are not keys of \<^verbatim>\<open>Object.prototype\<close> (\<open>ordinaryId\<close>).
  \<^item> \<^bold>\<open>Contracts of the remote runtime\<close> (\<^verbatim>\<open>packages/remote-runtime-contracts\<close>).  \<open>Contracts\<close>, \<open>Attachments\<close>, \<open>Remote_Protocol\<close>
    and \<open>Response_Schema\<close> have the enumerations, failure envelopes, version negotiation, public keys and the type guards
    of commands and responses; \<open>Operation_Policy\<close> the policy tables and \<open>authorizeRemoteRuntimeOperation\<close>;
    \<open>Policy_Theorems\<close> that authorisation grants nothing the policy forbids.
  \<^item> \<^bold>\<open>Signatures\<close> (\<^verbatim>\<open>packages/remote-runtime-host/src/index.ts\<close>).  \<open>Signing\<close> has the canonical payloads and that a payload
    determines its fields; \<open>Verification\<close> the nonce store and the verifiers, that an accepted request is authentic and
    cannot be replayed, and that every accepted request can at one instant, whatever was verified in between.
  \<^item> \<^bold>\<open>Transport\<close> (the same file).  \<open>Frames\<close> and \<open>Frame_Theorems\<close>: validation of operation frames and redaction of logs
    (in whose result a key \<^verbatim>\<open>__proto__\<close> is missing, because it is assigned).
    \<open>Gateway_Router\<close>, \<open>Router_Invariant\<close>, \<open>Router_Theorems\<close>: the router of the gateway over its maps, its invariant, permanence
    of revocation, authorised and at-most-once routing.  \<open>Socket_Bridge\<close>, \<open>Bridge_Theorems\<close>: the bridge that joins router and
    sockets, split at its sends; its theorems are about whole runs (\<open>bridgeRun\<close>) and say which step of the run routed an operation, and
    in which state.  \<open>Local_Connector\<close>, \<open>Connector_Theorems\<close>: the connector beside the runtime, split at its
    awaits.  \<open>Frame_Transport\<close> carries a frame from the router to the connector; this theory joins all of them.
  \<^item> \<^bold>\<open>Runtime protocol\<close> (\<^verbatim>\<open>packages/runtime-protocol\<close>).  \<open>Runtime_Websocket\<close>, \<open>Websocket_Theorems\<close>: the guards of the runtime's
    own protocol and their relation to those of the gateway.  \<open>Response_Events\<close>, \<open>Lifecycle_Theorems\<close>: the lifecycle of
    normalised response events, whose accepted streams are bracketed (locales \<open>sealing\<close> and \<open>bracketing\<close>).
  \<^item> \<^bold>\<open>Session turns\<close> (\<^verbatim>\<open>packages/cli-session-turns\<close>, and its identical copy \<^verbatim>\<open>session-turn-coordinator.ts\<close> in the remote
    host).  \<open>Session_Turns\<close>, \<open>Turn_Theorems\<close>: the coordinator with its state objects on a heap and its coroutines split at
    their awaits; queued turns run one at a time, in order, and are all settled.
  \<^item> \<^bold>\<open>Permissions\<close> (\<^verbatim>\<open>packages/cli-host/src/permission\<close>, \<^verbatim>\<open>util/wildcard.ts\<close>).  \<open>Wildcard\<close>: patterns and their regular
    expressions, equivalent to a declarative reading.  \<open>Permission\<close>, \<open>Permission_Theorems\<close>: rules, command prefixes and
    the service that asks; consent, no forgotten call, approved commands.
  \<^item> \<^bold>\<open>Patches\<close> (\<^verbatim>\<open>packages/cli-host/src/patch\<close>).  \<open>Patch\<close>, \<open>Patch_Theorems\<close>: parser, search and application of hunks; parsing
    inverts printing, an update is applied as it is written.
  \<^item> \<^bold>\<open>Locks\<close> (\<^verbatim>\<open>packages/cli-host/src/util/lock.ts\<close>).  \<open>Rw_Lock\<close>, \<open>Lock_Theorems\<close>: exclusion, no lost wake-up, releasing
    serves everybody.
  \<^item> \<^bold>\<open>Identifiers\<close> (\<^verbatim>\<open>packages/cli-host/src/id/id.ts\<close>).  \<open>Identifiers\<close>: ordered identifiers and the clock at which the order breaks.
  \<^item> \<^bold>\<open>The edit tool\<close> (\<^verbatim>\<open>packages/cli-host/src/tool/edit.ts\<close>).  \<open>Edit_Tool\<close>, \<open>Edit_Theorems\<close>: the replacers, the choice among
    their candidates, line endings and the handler; a replacement touches nothing but the only occurrence, the distance
    of texts is the least number of edits, and where white space spreads the new text.
  \<^item> \<^bold>\<open>Pages\<close> (\<^verbatim>\<open>index.ts\<close> and \<^verbatim>\<open>remote-runtime-manager.ts\<close> of the remote host).  \<open>Chat_Pages\<close>, \<open>Page_Theorems\<close>: cursors and pages of
    chats, messages and goals (locale \<open>older_pages\<close>, interpreted three times); the pages are together the whole, the
    manager collects all chats, and one way of paging that circles.
  \<^item> \<^bold>\<open>Messages and guards of the host\<close> (\<^verbatim>\<open>index.ts\<close>).  \<open>Message_Parts\<close>, \<open>Host_Guards\<close>, \<open>Message_Theorems\<close>: what leaves the host of a part
    of a message, and the guards of snapshots and responses; what is sent is accepted.
  \<^item> \<^bold>\<open>Session events that leave the host\<close> (\<^verbatim>\<open>remote-runtime-manager.ts\<close>).  \<open>Event_Parts\<close>, \<open>Event_Theorems\<close>: the manager's own
    projection of a part, with the input and the metadata of a tool call, the text delta, the payload with its limit of size and the
    envelope.  Of the input of a known tool exactly the listed fields go out, and the payload says when something is missing.
  \<^item> \<^bold>\<open>Synchronised events\<close> (\<^verbatim>\<open>packages/cli-host/src/sync\<close>, the transactions of \<^verbatim>\<open>storage/db.ts\<close>).  \<open>Sync_Event\<close>, \<open>Sync_Theorems\<close>:
    the registry, running, replaying and removing events over the two tables, in whatever transactions are open (locale
    \<open>recorded_invariant\<close>, interpreted three times).  The data of a row is what its JSON column makes of them (\<open>jsonColumn\<close>); a projector gets
    the readings of the clock that it will see.  The log counts without gaps, and a replica that is sent its rows has the same log
    unless a projector fails; what the projectors write is not claimed to be the same.
  \<^item> \<^bold>\<open>Session runners\<close> (\<^verbatim>\<open>effect/runner.ts\<close>, \<^verbatim>\<open>session/run-state.ts\<close>, \<^verbatim>\<open>session/status.ts\<close> of \<^verbatim>\<open>packages/cli-host\<close>).  \<open>Runner\<close>,
    \<open>Runner_Theorems\<close>: the state machine of one session, its fibers and their scheduling; \<open>Run_State\<close>, \<open>Run_State_Theorems\<close>:
    the runners of all sessions and the status that is shown.  One work at a time, every caller is answered, and the
    cancellation after which a session runs twice.  A finaliser and the callbacks run in the step of the change they belong to.
  \<^item> \<^bold>\<open>Session compaction\<close> (\<^verbatim>\<open>session/compaction.ts\<close>, \<^verbatim>\<open>overflow.ts\<close> and \<^verbatim>\<open>message-v2.ts\<close> of \<^verbatim>\<open>packages/cli-host\<close>).  \<open>Compaction\<close>,
    \<open>Compaction_Theorems\<close>: overflow, what is kept of the recent turns, pruning of tool output, the transcript, and what is read after a compaction:
    with the part that it summarised, all of the history that earlier compactions had not hidden from it.

  \<^bold>\<open>How code becomes definitions\<close>

  A class or a closure over mutable variables is a record of its state and one function for each operation, which returns
  the new state.  A thrown error or a failure result is the left side of a sum.  Code that awaits is split at the
  await, and a step relation or a list of operations interleaves the parts; a callback that the source calls
  without awaiting runs in the step that calls it, and the
  scheduler of effects is taken not to change the fiber between a change and what the same fiber does synchronously after it.  Objects that several closures share are on a heap.  A number is a
  rational, an infinity or not a number; where a clock or a count is known to be an integer it is an integer.  Strings
  are lists of code units below 256.  Loops are structural recursions or have a measure.  Fuel occurs
  twice: the number of turns that the prompts of a goal may still start (\<open>turnsLeft\<close>), which the environment bounds, and the
  number of pages a reader asks for (\<open>readOlder\<close>), of which one more than there are items is enough.

  What is not under \<^verbatim>\<open>src/\<close> is an argument: the Ed25519 primitive, the text of numbers (\<open>numText\<close>), the parser of dates, the order
  of the locale, decryption, the resolution of paths, random bytes and clocks, the home directory, the platform, the text of dates in JSON, the estimated size of messages, the work that a runner is given.  The projectors of events are an argument as well, as in \<open>init\<close>: those of the host
  (\<^verbatim>\<open>session/projectors.ts\<close>, \<^verbatim>\<open>session/projectors-next.ts\<close>) write tables that are not modelled, and nothing is assumed of them.  What a
  theorem needs of them it assumes by name, and its witness instantiates them.

  \<^bold>\<open>What is not modelled\<close>

  The user interface, the HTTP server and its routes, language servers, providers and their SDKs, the tables of SQLite (but for those of events), child
  processes, git and the file watcher are input and output around libraries that are not part of the repository; the
  SDK is generated.  Of the remote host the manager (\<^verbatim>\<open>remote-runtime-manager.ts\<close>), but for its pages and the events it sends on, the local gateway and the
  tracking of requests are left; of the goals the slash command and the hooks of the terminal interface.  The failure of a
  write to a file, of an audit callback or of a bus is not modelled; of the edit tool the lock on the file, the diff library and the
  diagnostics; of a compaction the call of the model, the plugins and the
  messages written afterwards; of events conversions that answer later; of runners the end of their scope.  A cursor is the JSON value its base64url text encodes.
\<close>

section \<open>From the router to the connector\<close>

text \<open>C29: A frame the router sends on arrives as it was sent: serialised and validated again by the connected
  connector of that runtime attachment, it is taken in unchanged when its text fits the limit, and refused as too
  large otherwise.\<close>
theorem routed_frame_arrives:
  assumes "routeRuntimeOperation numText ropts input s = (Inr (runtime, f), s')"
    and "cn_connected c" and "\<not> cn_revoked c" and "addressed opts f"
  shows "fst (receiveOperation numText opts (operationFrameJson f) None c) =
    (if remoteRuntimeJsonByteLength numText (operationFrameJson f) \<le> maxRuntimeOperationPayloadBytes then Inr f
     else remoteRuntimeValidationFailure PAYLOAD_TOO_LARGE (of_requestId f) ''Runtime operation frame exceeds the payload limit.'')"
  using assms(2-4) validate_again [OF routed_wf [OF assms(1)], of numText maxRuntimeOperationPayloadBytes]
  by (auto simp: receiveOperation_def addressed_def remoteRuntimeValidationFailure_def)

theorem routed_frame_arrives_witness:
  "\<exists>f. fst (receiveOperation (\<lambda>_. ''0'') sampleConnectorOptions (operationFrameJson f) None createLocalRuntimeConnector) =
    (if remoteRuntimeJsonByteLength (\<lambda>_. ''0'') (operationFrameJson f) \<le> maxRuntimeOperationPayloadBytes then Inr f
     else remoteRuntimeValidationFailure PAYLOAD_TOO_LARGE (of_requestId f) ''Runtime operation frame exceeds the payload limit.'')"
proof -
  obtain runtime s' where r: "routeRuntimeOperation (\<lambda>_. ''0'') defaultRouterOptions (sampleMutation ''i1'') sampleTrustedRouter
      = (Inr (runtime, sampleSent), s')" using sample_routed by blast
  have "cn_connected createLocalRuntimeConnector" "\<not> cn_revoked createLocalRuntimeConnector" "addressed sampleConnectorOptions sampleSent"
    by code_simp+
  from routed_frame_arrives [OF r this] show ?thesis by blast
qed

section \<open>From a client to the runtime\<close>

text \<open>C1: From end to end, whatever interleaves at the bridge and at the connector: when an operation that the bridge handed to an endpoint
  or queued for a runtime is forwarded to the runtime by its connector, and it is not a metadata read, then its command was encrypted, an
  earlier step of this very run of the bridge routed it, and in the state in which that step found the router its client was attached
  to the runtime it is addressed to, with the trust level trusted. (A metadata read may also come in the clear and from a device
  that is only paired.) What a client writes into its frame cannot raise its trust.\<close>
theorem end_to_end_authorization:
  assumes "freshRun le numText bopts steps" and "b = bridgeRun le numText bopts steps"
    and "(e, Operation f) \<in> set (br_runtimeSent b) \<or> Operation f \<in> set (queueOf i b)"
    and "fw \<in> set (cn_forwarded (fold (connectorStep numText' copts) ops createLocalRuntimeConnector))"
    and "fw_frame fw = f" and "of_operationClass f \<noteq> MetadataRead"
  shows "fw_encrypted fw \<and> (\<exists>before input after runtime s client. steps = before @ BridgeRoute input # after
    \<and> routeRuntimeOperation numText (bo_router bopts) input (br_router (bridgeRun le numText bopts before)) = (Inr (runtime, f), s)
    \<and> attached (br_router (bridgeRun le numText bopts before)) (of_clientAttachmentId f) client
    \<and> rca_gatewayRuntimeAttachmentId client = of_gatewayRuntimeAttachmentId f
    \<and> rca_deviceTrustLevel client = Trusted)"
proof -
  have "\<exists>endpoint. routedInRun le numText bopts steps endpoint f"
    using bridge_run_inv [OF assms(1), folded assms(2)] assms(3) unfolding bridge_inv_def messages_ok_def by blast
  then obtain before input after runtime s where run: "steps = before @ BridgeRoute input # after"
    and routed: "routeRuntimeOperation numText (bo_router bopts) input (br_router (bridgeRun le numText bopts before)) = (Inr (runtime, f), s)"
    by (auto simp: routedInRun_def)
  from assms(1) have "freshRun le numText bopts before" by (simp add: run freshRun_def freshFrom_append)
  then have reach: "router_reachable numText (bo_router bopts) (br_router (bridgeRun le numText bopts before))"
    using bridge_run_inv by (auto simp: bridge_inv_def)
  have "fw_encrypted fw \<and> of_deviceTrustLevel f \<in> {Some Trusted, None}"
    using forwarded_facts [OF assms(4)] routed_not_gateway_http [OF routed] assms(5,6) by auto
  with routed_facts [OF reach routed] run routed show ?thesis by force
qed

theorem end_to_end_authorization_witness:
  "\<exists>before input after runtime s client. sampleRouting = before @ BridgeRoute input # after
     \<and> routeRuntimeOperation (\<lambda>_. ''0'') defaultRouterOptions input (br_router (sampleBridgeRun before)) = (Inr (runtime, sampleSent), s)
     \<and> attached (br_router (sampleBridgeRun before)) (of_clientAttachmentId sampleSent) client
     \<and> rca_gatewayRuntimeAttachmentId client = of_gatewayRuntimeAttachmentId sampleSent
     \<and> rca_deviceTrustLevel client = Trusted"
proof -
  let ?ops = "[Receive (operationFrameJson sampleSent) (Some 1024), connector_op.Resume 0]"
  have "map fw_frame (cn_forwarded (sampleRun ?ops)) = [sampleSent]" by code_simp
  then obtain fw where fw: "fw \<in> set (cn_forwarded (sampleRun ?ops))" "fw_frame fw = sampleSent" by auto
  have "of_operationClass sampleSent \<noteq> MetadataRead" by code_simp
  from end_to_end_authorization [OF sampleRouting_fresh sampleBridge_def disjI1 [OF sampleBridge_sent] fw(1) [unfolded sampleRun_def] fw(2) this]
  have "\<exists>before input after runtime s client. sampleRouting = before @ BridgeRoute input # after
     \<and> routeRuntimeOperation (\<lambda>_. ''0'') (bo_router sampleBridgeOptions) input (br_router (sampleBridgeRun before)) = (Inr (runtime, sampleSent), s)
     \<and> attached (br_router (sampleBridgeRun before)) (of_clientAttachmentId sampleSent) client
     \<and> rca_gatewayRuntimeAttachmentId client = of_gatewayRuntimeAttachmentId sampleSent
     \<and> rca_deviceTrustLevel client = Trusted" by (rule conjunct2)
  then show ?thesis by (simp only: sampleBridgeOptions_def bridge_options.simps)
qed

end
